(* ===== verification/Bzero_Prelude.thy ===== *)
theory Bzero_Prelude
  imports Main
begin

text \<open>
  The shared vocabulary of the development: Go results and errors as values, the string
  functions of Go's \<^verbatim>\<open>strings\<close> package that the sources call, and insertion-ordered
  association lists, the content of an ordered map.

  Go strings and byte slices are byte sequences; both are \<^typ>\<open>string\<close> here (a \<^typ>\<open>char\<close> is
  one byte). A slice that may be \<^verbatim>\<open>nil\<close> where the difference from an empty slice is visible
  (JSON prints \<^verbatim>\<open>null\<close> for one and an empty string for the other) is an option.
\<close>

named_theorems go_split "case rules for Go results"
named_theorems res_simps "evaluation of result combinators"

section \<open>Errors and results\<close>

text \<open>
  A Go \<^verbatim>\<open>error\<close> is its text together with the typed errors \<^verbatim>\<open>errors.As\<close> can find in its
  chain, outermost first. \<^verbatim>\<open>fmt.Errorf\<close> with \<^verbatim>\<open>%w\<close> keeps the chain of the wrapped error,
  with \<^verbatim>\<open>%s\<close> only its text survives.
\<close>

datatype errkind =
    InitialIdTokenError | CurrentIdTokenError | CertConfigError | ServiceAccountError
  | ShutdownError | ShellQuitError | ShellCancelledError | SshStdinClosedError
  | UserNotFoundError | UnknownUserError | PermissionDeniedError | ErrNotExist | ErrPermission
  | PolicyEditedConnectionClosedError | PolicyDeletedConnectionClosedError
  | IdleTimeoutConnectionClosedError
  | ConnectionRefusedError | ConnectionFailedError | TLSDisabledError
  | ClientCertCosignError | PwdbMissingKeyError | PwdbUnknownAuthorityError
  | ServerCertificateExpired | IncorrectServerName
  | ConfigFetchError | ConfigSaveError | KeyError | TargetError | NoOpError
  | ErrInvalidSignature | ErrUnknownHPointer | ErrFailedToSign | ErrFailedToParseVersion
  | WebsocketNormalClosureError

datatype gerror = GErr (etext: string) (ekinds: "errkind list")

definition errorf :: "string \<Rightarrow> gerror" where
  "errorf t = GErr t []"

definition errorf_s :: "string \<Rightarrow> gerror \<Rightarrow> gerror" where
  "errorf_s t e = GErr (t @ etext e) []"

definition errorf_w :: "string \<Rightarrow> gerror \<Rightarrow> gerror" where
  "errorf_w t e = GErr (t @ etext e) (ekinds e)"

definition errors_As :: "errkind \<Rightarrow> gerror \<Rightarrow> bool" where
  "errors_As k e \<longleftrightarrow> k \<in> set (ekinds e)"

lemma errors_As_simps [simp]:
  "\<not> errors_As k (errorf t)"
  "\<not> errors_As k (errorf_s t e)"
  "errors_As k (errorf_w t e) = errors_As k e"
  "errors_As k (GErr t ks) \<longleftrightarrow> k \<in> set ks"
  by (simp_all add: errors_As_def errorf_def errorf_s_def errorf_w_def)

lemma etext_simps [simp]:
  "etext (errorf t) = t"
  "etext (errorf_s t e) = t @ etext e"
  "etext (errorf_w t e) = t @ etext e"
  by (simp_all add: errorf_def errorf_s_def errorf_w_def)

text \<open>A call returns a value, returns an error, or panics.\<close>

datatype 'a res = Ok 'a | Err gerror | Panic

fun is_ok :: "'a res \<Rightarrow> bool" where
  "is_ok (Ok _) = True"
| "is_ok _ = False"

fun res_map :: "('a \<Rightarrow> 'b) \<Rightarrow> 'a res \<Rightarrow> 'b res" where
  "res_map f (Ok a) = Ok (f a)"
| "res_map f (Err e) = Err e"
| "res_map f Panic = Panic"

fun wrap_err :: "(gerror \<Rightarrow> gerror) \<Rightarrow> 'a res \<Rightarrow> 'a res" where
  "wrap_err f (Ok a) = Ok a"
| "wrap_err f (Err e) = Err (f e)"
| "wrap_err f Panic = Panic"

lemma wrap_err_Ok [simp]: "wrap_err f r = Ok a \<longleftrightarrow> r = Ok a"
  by (cases r) auto

lemma is_ok_iff: "is_ok r \<longleftrightarrow> (\<exists>a. r = Ok a)"
  by (cases r) auto

declare res.splits [go_split]

section \<open>Strings\<close>

definition has_prefix :: "'a list \<Rightarrow> 'a list \<Rightarrow> bool" where
  "has_prefix p s \<longleftrightarrow> take (length p) s = p"

lemma has_prefix_iff: "has_prefix p s \<longleftrightarrow> (\<exists>t. s = p @ t)"
  by (metis append_eq_conv_conj append_take_drop_id has_prefix_def)

lemma has_prefix_simps [simp]:
  "has_prefix [] s" "\<not> has_prefix (x # p) []"
  "has_prefix (x # p) (c # s) \<longleftrightarrow> x = c \<and> has_prefix p s"
  by (auto simp: has_prefix_def)

lemma has_prefix_append [simp]: "has_prefix p (p @ s)"
  by (simp add: has_prefix_def)

fun contains :: "'a list \<Rightarrow> 'a list \<Rightarrow> bool" where
  "contains [] sub = (sub = [])"
| "contains (c # s) sub = (has_prefix sub (c # s) \<or> contains s sub)"

lemma contains_iff: "contains s sub \<longleftrightarrow> (\<exists>a b. s = a @ sub @ b)"
proof (induction s)
  case Nil
  then show ?case by auto
next
  case (Cons c s)
  have "(\<exists>a b. c # s = a @ sub @ b) \<longleftrightarrow>
        has_prefix sub (c # s) \<or> (\<exists>a b. s = a @ sub @ b)" (is "?l \<longleftrightarrow> ?r")
  proof
    assume ?l
    then obtain a b where ab: "c # s = a @ sub @ b" by blast
    show ?r
    proof (cases a)
      case Nil
      with ab show ?thesis by (auto simp: has_prefix_iff)
    next
      case (Cons x xs)
      with ab show ?thesis by auto
    qed
  next
    assume ?r
    then show ?l
    proof
      assume "has_prefix sub (c # s)"
      then show ?l by (metis append_Nil has_prefix_iff)
    next
      assume "\<exists>a b. s = a @ sub @ b"
      then show ?l by (metis append_Cons)
    qed
  qed
  with Cons.IH show ?case by simp
qed

lemma contains_append_left: "contains s sub \<Longrightarrow> contains (t @ s) sub"
  by (metis append.assoc contains_iff)

lemma contains_append_right: "contains s sub \<Longrightarrow> contains (s @ t) sub"
  by (metis append.assoc contains_iff)

lemma contains_self [simp]: "contains s s"
  by (metis append_Nil append_Nil2 contains_iff)

text \<open>\<^verbatim>\<open>strings.Split\<close> with a non-empty separator; \<^term>\<open>acc\<close> is the current field, reversed.\<close>

function split_acc :: "'a list \<Rightarrow> 'a list \<Rightarrow> 'a list \<Rightarrow> 'a list list" where
  "split_acc sep acc [] = [rev acc]"
| "split_acc sep acc (c # s) =
     (if sep \<noteq> [] \<and> has_prefix sep (c # s)
      then rev acc # split_acc sep [] (drop (length sep) (c # s))
      else split_acc sep (c # acc) s)"
  by pat_completeness auto
termination
  by (relation "measure (\<lambda>(sep, acc, s). length s)") auto

definition split :: "'a list \<Rightarrow> 'a list \<Rightarrow> 'a list list" where
  "split s sep = split_acc sep [] s"

fun join :: "'a list list \<Rightarrow> 'a list \<Rightarrow> 'a list" where
  "join [] sep = []"
| "join [x] sep = x"
| "join (x # y # xs) sep = x @ sep @ join (y # xs) sep"

lemma split_acc_nonempty [simp]: "split_acc sep acc s \<noteq> []"
  by (induction sep acc s rule: split_acc.induct) auto

lemma join_Cons: "xs \<noteq> [] \<Longrightarrow> join (x # xs) sep = x @ sep @ join xs sep"
  by (cases xs) auto

lemma join_split_acc: "join (split_acc sep acc s) sep = rev acc @ s"
proof (induction sep acc s rule: split_acc.induct)
  case (1 sep acc)
  then show ?case by simp
next
  case (2 sep acc c s)
  show ?case
  proof (cases "sep \<noteq> [] \<and> has_prefix sep (c # s)")
    case True
    then have "sep @ drop (length sep) (c # s) = c # s"
      by (metis append_take_drop_id has_prefix_def)
    with True 2 show ?thesis by (simp add: join_Cons del: drop_Cons)
  next
    case False
    then have "join (split_acc sep (c # acc) s) sep = rev (c # acc) @ s"
      using 2 by blast
    with False show ?thesis by auto
  qed
qed

lemma join_split [simp]: "join (split s sep) sep = s"
  by (simp add: split_def join_split_acc)

text \<open>Separators of one character.\<close>

lemma split_acc_single_append:
  "split_acc [d] acc (a @ d # b) = split_acc [d] acc a @ split_acc [d] [] b"
  by (induction a arbitrary: acc) auto

lemma split_acc_no_sep: "d \<notin> set s \<Longrightarrow> split_acc [d] acc s = [rev acc @ s]"
  by (induction s arbitrary: acc) auto

lemma split_acc_fields:
  "d \<notin> set acc \<Longrightarrow> f \<in> set (split_acc [d] acc s) \<Longrightarrow> d \<notin> set f"
proof (induction s arbitrary: acc)
  case Nil
  then show ?case by auto
next
  case (Cons c s)
  then show ?case using Cons.IH [of "[]"] Cons.IH [of "c # acc"] by (auto split: if_splits)
qed

lemma split_single_append: "split (a @ d # b) [d] = split a [d] @ split b [d]"
  by (simp add: split_def split_acc_single_append)

lemma split_no_sep: "d \<notin> set s \<Longrightarrow> split s [d] = [s]"
  by (simp add: split_def split_acc_no_sep)

lemma split_fields: "f \<in> set (split s [d]) \<Longrightarrow> d \<notin> set f"
  using split_acc_fields [of d "[]" f s] by (simp add: split_def)

lemma split_nonempty [simp]: "split s sep \<noteq> []"
  by (simp add: split_def)

lemma length_split_single: "length (split s [d]) = Suc (count_list s d)"
proof -
  have "length (split_acc [d] acc s) = Suc (count_list s d)" for acc
    by (induction s arbitrary: acc) auto
  then show ?thesis by (simp add: split_def)
qed

lemma join_snoc: "xs \<noteq> [] \<Longrightarrow> join (xs @ [x]) sep = join xs sep @ sep @ x"
  by (induction xs sep rule: join.induct) (simp_all add: join_Cons)

lemma split_two:
  "length (split s [d]) = 2 \<longleftrightarrow> (\<exists>a b. s = a @ d # b \<and> d \<notin> set a \<and> d \<notin> set b)"
proof
  assume "length (split s [d]) = 2"
  then obtain a b where ab: "split s [d] = [a, b]"
    by (auto simp: numeral_2_eq_2 length_Suc_conv)
  then have "s = a @ d # b" using join_split [of s "[d]"] by simp
  moreover have "d \<notin> set a" "d \<notin> set b" using ab split_fields [of _ s d] by auto
  ultimately show "\<exists>a b. s = a @ d # b \<and> d \<notin> set a \<and> d \<notin> set b" by blast
next
  assume "\<exists>a b. s = a @ d # b \<and> d \<notin> set a \<and> d \<notin> set b"
  then show "length (split s [d]) = 2"
    by (auto simp: split_single_append split_no_sep)
qed

text \<open>\<^verbatim>\<open>strings.Replace\<close> with a negative count: every non-overlapping occurrence.\<close>

function replace_all :: "'a list \<Rightarrow> 'a list \<Rightarrow> 'a list \<Rightarrow> 'a list" where
  "replace_all [] old new = []"
| "replace_all (c # s) old new =
     (if old \<noteq> [] \<and> has_prefix old (c # s)
      then new @ replace_all (drop (length old) (c # s)) old new
      else c # replace_all s old new)"
  by pat_completeness auto
termination
  by (relation "measure (\<lambda>(s, old, new). length s)") auto

text \<open>\<^verbatim>\<open>fmt.Sprint\<close> of a non-negative integer.\<close>

fun show_nat :: "nat \<Rightarrow> string" where
  "show_nat n = (if n < 10 then [char_of (48 + n)] else show_nat (n div 10) @ [char_of (48 + n mod 10)])"

declare show_nat.simps [simp del]

lemma show_nat_nonempty [simp]: "show_nat n \<noteq> []"
  by (subst show_nat.simps) simp

definition read_nat :: "string \<Rightarrow> nat" where
  "read_nat s = foldl (\<lambda>a c. 10 * a + (of_char c - 48)) 0 s"

lemma read_show_nat [simp]: "read_nat (show_nat n) = n"
proof (induction n rule: show_nat.induct)
  case (1 n)
  show ?case
  proof (cases "n < 10")
    case True
    then show ?thesis by (subst show_nat.simps) (simp add: read_nat_def)
  next
    case False
    with 1 have "read_nat (show_nat (n div 10)) = n div 10" by simp
    then have "read_nat (show_nat n) = 10 * (n div 10) + n mod 10"
      using False by (subst show_nat.simps) (simp add: read_nat_def)
    then show ?thesis by simp
  qed
qed

lemma show_nat_inject [simp]: "show_nat m = show_nat n \<longleftrightarrow> m = n"
  by (metis read_show_nat)

section \<open>Insertion-ordered association lists\<close>

fun al_get :: "('k \<times> 'v) list \<Rightarrow> 'k \<Rightarrow> 'v option" where
  "al_get [] k = None"
| "al_get ((k', v) # m) k = (if k = k' then Some v else al_get m k)"

fun al_set :: "('k \<times> 'v) list \<Rightarrow> 'k \<Rightarrow> 'v \<Rightarrow> ('k \<times> 'v) list" where
  "al_set [] k v = [(k, v)]"
| "al_set ((k', v') # m) k v = (if k = k' then (k', v) # m else (k', v') # al_set m k v)"

fun al_delete :: "('k \<times> 'v) list \<Rightarrow> 'k \<Rightarrow> ('k \<times> 'v) list" where
  "al_delete [] k = []"
| "al_delete ((k', v') # m) k = (if k = k' then m else (k', v') # al_delete m k)"

text \<open>The pairs after the one with key \<^term>\<open>k\<close>, in order.\<close>

fun al_after :: "('k \<times> 'v) list \<Rightarrow> 'k \<Rightarrow> ('k \<times> 'v) list option" where
  "al_after [] k = None"
| "al_after ((k', v') # m) k = (if k = k' then Some m else al_after m k)"

definition al_keys :: "('k \<times> 'v) list \<Rightarrow> 'k list" where
  "al_keys m = map fst m"

lemma al_keys_simps [simp]:
  "al_keys [] = []" "al_keys ((k, v) # m) = k # al_keys m"
  "al_keys (m @ m') = al_keys m @ al_keys m'"
  "length (al_keys m) = length m"
  by (simp_all add: al_keys_def)

lemma al_get_None: "al_get m k = None \<longleftrightarrow> k \<notin> set (al_keys m)"
  by (induction m k rule: al_get.induct) auto

lemma al_after_None: "al_after m k = None \<longleftrightarrow> k \<notin> set (al_keys m)"
  by (induction m k rule: al_after.induct) auto

lemma al_set_new: "k \<notin> set (al_keys m) \<Longrightarrow> al_set m k v = m @ [(k, v)]"
  by (induction m k v rule: al_set.induct) auto

lemma al_get_set [simp]: "al_get (al_set m k v) k' = (if k' = k then Some v else al_get m k')"
  by (induction m k v rule: al_set.induct) auto

lemma set_al_keys_set [simp]: "set (al_keys (al_set m k v)) = insert k (set (al_keys m))"
  by (induction m k v rule: al_set.induct) auto

lemma length_al_set: "length (al_set m k v) = length m + (if k \<in> set (al_keys m) then 0 else 1)"
  by (induction m k v rule: al_set.induct) auto

lemma length_al_set_le: "length (al_set m k v) \<le> Suc (length m)"
  by (simp add: length_al_set)

lemma length_al_delete_le: "length (al_delete m k) \<le> length m"
  by (induction m k rule: al_delete.induct) auto

lemma length_al_delete:
  "k \<in> set (al_keys m) \<Longrightarrow> Suc (length (al_delete m k)) = length m"
  by (induction m k rule: al_delete.induct) auto

lemma set_al_delete_subset: "set (al_delete m k) \<subseteq> set m"
  by (induction m k rule: al_delete.induct) auto

lemma set_al_set_subset: "set (al_set m k v) \<subseteq> insert (k, v) (set m)"
  by (induction m k v rule: al_set.induct) auto

lemma distinct_al_set [simp]: "distinct (al_keys (al_set m k v)) \<longleftrightarrow> distinct (al_keys m)"
  by (induction m k v rule: al_set.induct) auto

lemma distinct_al_delete: "distinct (al_keys m) \<Longrightarrow> distinct (al_keys (al_delete m k))"
  by (induction m k rule: al_delete.induct) (auto simp: al_keys_def dest: set_al_delete_subset[THEN subsetD])

lemma al_get_delete:
  "distinct (al_keys m) \<Longrightarrow> al_get (al_delete m k) k' = (if k' = k then None else al_get m k')"
  by (induction m k rule: al_delete.induct) (auto simp: al_get_None)

lemma al_delete_append_fresh:
  "k \<notin> set (al_keys m) \<Longrightarrow> al_delete (m @ m') k = m @ al_delete m' k"
  by (induction m) auto

lemma al_after_append:
  "k \<notin> set (al_keys m) \<Longrightarrow> al_after (m @ (k, v) # m') k = Some m'"
  by (induction m) auto

lemma length_al_after: "al_after m k = Some r \<Longrightarrow> length r < length m"
  by (induction m k rule: al_after.induct) (auto split: if_splits)

lemma set_al_after: "al_after m k = Some r \<Longrightarrow> set r \<subseteq> set m"
  by (induction m k rule: al_after.induct) (auto split: if_splits)

end
