(* ===== verification/Externals.thy ===== *)
theory Externals
  imports Bzero_Prelude
begin

text \<open>
  What the program calls but does not contain: SHA3-256 and Ed25519, the semantic version
  library, the OpenID Connect and JOSE libraries, URL parsing and the \<^verbatim>\<open>%+v\<close> printing of
  structures. They are the fields of one record, an argument of every definition that
  uses them; the named predicates below state the documented behaviour theorems rely on.
\<close>

datatype version = Version (vmajor: nat) (vminor: nat) (vpatch: nat) (vpre: string) (vmeta: string)

text \<open>The claims of an id token the program reads (\<^verbatim>\<open>idTokenClaims\<close>, \<^verbatim>\<open>saIdTokenClaims\<close>).\<close>

record idTokenClaims =
  HD :: string
  ClaimNonce :: string
  TID :: string
  IssuedAt :: int
  ClaimExpiration :: int

text \<open>A JOSE extra header is absent, a string, or something else.\<close>

datatype header_value = HAbsent | HString string | HOther

record lib =
  sha3 :: "string \<Rightarrow> string"
  ed_verify :: "string \<Rightarrow> string \<Rightarrow> string \<Rightarrow> bool"
  ed_sign :: "string \<Rightarrow> string \<Rightarrow> string"
  semver_parse :: "string \<Rightarrow> version res"
  semver_check :: "string \<Rightarrow> version \<Rightarrow> bool"
  semver_lt :: "version \<Rightarrow> version \<Rightarrow> bool"
  semver_string :: "version \<Rightarrow> string"
  url_ParseRequestURI :: "string \<Rightarrow> string res"
  oidc_NewProvider :: "string \<Rightarrow> string res"
  oidc_Verify :: "string \<Rightarrow> bool \<Rightarrow> string \<Rightarrow> idTokenClaims res"
  oidc_VerifyRemote :: "string \<Rightarrow> string \<Rightarrow> string \<Rightarrow> idTokenClaims res"
  jose_ParseSigned :: "string \<Rightarrow> header_value list res"
  show_value :: "string \<Rightarrow> string"

text \<open>
  A SHA3-256 digest has 32 bytes, so its base64 form is never empty; a parsed Ed25519
  signature is accepted under the key it was made with.
\<close>

definition sha3_len :: "lib \<Rightarrow> bool" where
  "sha3_len L \<longleftrightarrow> (\<forall>s. length (sha3 L s) = 32)"

definition sign_correct :: "lib \<Rightarrow> string \<Rightarrow> string \<Rightarrow> bool" where
  "sign_correct L pk sk \<longleftrightarrow> (\<forall>m. ed_verify L pk m (ed_sign L sk m))"

definition sign_nonempty :: "lib \<Rightarrow> bool" where
  "sign_nonempty L \<longleftrightarrow> (\<forall>sk m. length sk = 64 \<longrightarrow> ed_sign L sk m \<noteq> [])"

text \<open>Printing a version that was parsed and parsing it again gives the same version.\<close>

definition semver_roundtrip :: "lib \<Rightarrow> bool" where
  "semver_roundtrip L \<longleftrightarrow>
     (\<forall>s v. semver_parse L s = Ok v \<longrightarrow> semver_parse L (semver_string L v) = Ok v)"

section \<open>A concrete instance\<close>

text \<open>
  Small stand-ins on which hypotheses about the libraries are shown to hold together: a
  length-32 digest, a signature that is key and message side by side, versions
  \<^verbatim>\<open>major.minor\<close> of one digit each.
\<close>

definition pad32 :: "string \<Rightarrow> string" where
  "pad32 s = take 32 (s @ replicate 32 CHR ''0'')"

definition toy_version :: "string \<Rightarrow> version res" where
  "toy_version s =
     (case s of
        [a, dot, b] \<Rightarrow> Ok (Version (of_char a - 48) (of_char b - 48) 0 [] [])
      | _ \<Rightarrow> Err (errorf ''Invalid Semantic Version''))"

definition toy_lt :: "version \<Rightarrow> version \<Rightarrow> bool" where
  "toy_lt v w \<longleftrightarrow> vmajor v < vmajor w \<or> (vmajor v = vmajor w \<and> vminor v < vminor w)"

definition toy_check :: "string \<Rightarrow> version \<Rightarrow> bool" where
  "toy_check c v =
     (if c = ''> 2.0'' then toy_lt (Version 2 0 0 [] []) v
      else if c = ''> 1.0'' then toy_lt (Version 1 0 0 [] []) v
      else if c = ''>= 2.0'' then \<not> toy_lt v (Version 2 0 0 [] [])
      else if c = ''< 2.0'' then toy_lt v (Version 2 0 0 [] [])
      else False)"

definition toy_lib :: lib where
  "toy_lib =
    \<lparr> sha3 = pad32,
      ed_verify = (\<lambda>pk m sg. sg = take 32 pk @ m),
      ed_sign = (\<lambda>sk m. drop 32 sk @ m),
      semver_parse = toy_version,
      semver_check = toy_check,
      semver_lt = toy_lt,
      semver_string = (\<lambda>v. [char_of (48 + vmajor v), CHR ''.'', char_of (48 + vminor v)]),
      url_ParseRequestURI = (\<lambda>s. Ok s),
      oidc_NewProvider = (\<lambda>u. Ok u),
      oidc_Verify = (\<lambda>p skip t. Ok \<lparr> HD = t, ClaimNonce = t, TID = t, IssuedAt = 0, ClaimExpiration = 10 \<rparr>),
      oidc_VerifyRemote = (\<lambda>u a t. Ok \<lparr> HD = t, ClaimNonce = t, TID = t, IssuedAt = 0, ClaimExpiration = 10 \<rparr>),
      jose_ParseSigned = (\<lambda>t. Ok [HAbsent]),
      show_value = (\<lambda>s. s) \<rparr>"

lemma toy_lib_simps [simp]:
  "sha3 toy_lib = pad32"
  "ed_verify toy_lib pk m sg \<longleftrightarrow> sg = take 32 pk @ m"
  "ed_sign toy_lib sk m = drop 32 sk @ m"
  "semver_parse toy_lib = toy_version"
  "semver_check toy_lib = toy_check"
  "semver_lt toy_lib = toy_lt"
  "semver_string toy_lib v = [char_of (48 + vmajor v), CHR ''.'', char_of (48 + vminor v)]"
  "url_ParseRequestURI toy_lib s = Ok s"
  "oidc_NewProvider toy_lib u = Ok u"
  "oidc_Verify toy_lib p b t = Ok \<lparr> HD = t, ClaimNonce = t, TID = t, IssuedAt = 0, ClaimExpiration = 10 \<rparr>"
  "oidc_VerifyRemote toy_lib p u t = Ok \<lparr> HD = t, ClaimNonce = t, TID = t, IssuedAt = 0, ClaimExpiration = 10 \<rparr>"
  "jose_ParseSigned toy_lib t = Ok [HAbsent]"
  "show_value toy_lib s = s"
  by (simp_all add: toy_lib_def)

lemma sha3_len_toy [simp]: "sha3_len toy_lib"
  by (auto simp: sha3_len_def pad32_def min_def)

lemma sign_nonempty_toy [simp]: "sign_nonempty toy_lib"
  by (auto simp: sign_nonempty_def)

lemma semver_roundtrip_toy [simp]: "semver_roundtrip toy_lib"
proof -
  have "toy_version [char_of (48 + (of_char a - 48 :: nat)), CHR ''.'', char_of (48 + (of_char b - 48 :: nat))] =
      Ok (Version (of_char a - 48) (of_char b - 48) 0 [] [])" for a b :: char
  proof -
    have "(48 + (of_char c - 48)) mod 256 = 48 + (of_char c - 48 :: nat)" for c :: char
      by (rule mod_less) (use nat_of_char_less_256 [of c] in linarith)
    then show ?thesis by (simp add: toy_version_def)
  qed
  then show ?thesis
    by (auto simp: semver_roundtrip_def toy_version_def split: list.splits)
qed

lemma sign_correct_toy: "length sk = 64 \<Longrightarrow> drop 32 sk = pk \<Longrightarrow> sign_correct toy_lib pk sk"
  by (auto simp: sign_correct_def)

end
