(* ===== verification/Go_Base64.thy ===== *)
theory Go_Base64
  imports Bzero_Prelude
begin

text \<open>
  Go's \<^verbatim>\<open>base64.StdEncoding\<close>, the textual form of every key, hash, signature and byte slice
  of the program. The decoder drops carriage returns and line feeds, wants canonical
  padding at the very end, and, not being in strict mode, ignores the unused low bits of
  the last symbol.
\<close>

definition b64_alphabet :: string where
  "b64_alphabet = ''ABCDEFGHIJKLMNOPQRSTUVWXYZabcdefghijklmnopqrstuvwxyz0123456789+/''"

definition b64_sym :: "nat \<Rightarrow> char" where
  "b64_sym n = b64_alphabet ! (n mod 64)"

fun index_of :: "'a list \<Rightarrow> 'a \<Rightarrow> nat option" where
  "index_of [] x = None"
| "index_of (y # ys) x = (if x = y then Some 0 else map_option Suc (index_of ys x))"

definition b64_val :: "char \<Rightarrow> nat option" where
  "b64_val c = index_of b64_alphabet c"

definition pad :: char where
  "pad = CHR ''=''"

fun b64_enc :: "nat list \<Rightarrow> string" where
  "b64_enc [] = []"
| "b64_enc [a] = [b64_sym (a div 4), b64_sym (a mod 4 * 16), pad, pad]"
| "b64_enc [a, b] =
     [b64_sym (a div 4), b64_sym (a mod 4 * 16 + b div 16), b64_sym (b mod 16 * 4), pad]"
| "b64_enc (a # b # c # r) =
     [b64_sym (a div 4), b64_sym (a mod 4 * 16 + b div 16), b64_sym (b mod 16 * 4 + c div 64),
      b64_sym (c mod 64)] @ b64_enc r"

fun b64_dec :: "string \<Rightarrow> nat list option" where
  "b64_dec [] = Some []"
| "b64_dec (w # x # y # z # r) =
     (case (b64_val w, b64_val x) of
        (Some vw, Some vx) \<Rightarrow>
          (if y = pad then (if z = pad \<and> r = [] then Some [vw * 4 + vx div 16] else None)
           else (case b64_val y of
                   None \<Rightarrow> None
                 | Some vy \<Rightarrow>
                     (if z = pad
                      then (if r = [] then Some [vw * 4 + vx div 16, vx mod 16 * 16 + vy div 4]
                            else None)
                      else (case (b64_val z, b64_dec r) of
                              (Some vz, Some bs) \<Rightarrow>
                                Some ([vw * 4 + vx div 16, vx mod 16 * 16 + vy div 4,
                                       vy mod 4 * 64 + vz] @ bs)
                            | _ \<Rightarrow> None))))
      | _ \<Rightarrow> None)"
| "b64_dec _ = None"

definition char_nats :: "string \<Rightarrow> nat list" where
  "char_nats s = map of_char s"

definition nats_chars :: "nat list \<Rightarrow> string" where
  "nats_chars ns = map char_of ns"

definition EncodeToString :: "string \<Rightarrow> string" where
  "EncodeToString b = b64_enc (char_nats b)"

definition DecodeString :: "string \<Rightarrow> string option" where
  "DecodeString s =
     map_option nats_chars (b64_dec (filter (\<lambda>c. c \<noteq> CHR 0x0A \<and> c \<noteq> CHR 0x0D) s))"

section \<open>Round trip\<close>

lemma index_of_nth:
  "distinct ys \<Longrightarrow> n < length ys \<Longrightarrow> index_of ys (ys ! n) = Some n"
proof (induction ys arbitrary: n)
  case Nil
  then show ?case by simp
next
  case (Cons y ys)
  then show ?case by (cases n) (auto simp: nth_mem)
qed

lemma index_of_Some: "index_of ys x = Some n \<Longrightarrow> n < length ys \<and> ys ! n = x"
  by (induction ys arbitrary: n) (auto split: if_splits)

lemma b64_alphabet_facts:
  "distinct b64_alphabet" "length b64_alphabet = 64" "pad \<notin> set b64_alphabet"
  "CHR 0x0A \<notin> set b64_alphabet" "CHR 0x0D \<notin> set b64_alphabet"
  by (simp_all add: b64_alphabet_def pad_def)

lemma b64_val_sym [simp]: "b64_val (b64_sym n) = Some (n mod 64)"
  by (simp add: b64_val_def b64_sym_def index_of_nth b64_alphabet_facts)

lemma b64_sym_mem: "b64_sym n \<in> set b64_alphabet"
  by (simp add: b64_sym_def b64_alphabet_facts)

lemma b64_sym_neq [simp]: "b64_sym n \<noteq> pad" "b64_sym n \<noteq> CHR 0x0A" "b64_sym n \<noteq> CHR 0x0D"
  using b64_sym_mem [of n] b64_alphabet_facts by metis+

lemma b64_dec_enc: "\<forall>n \<in> set bs. n < 256 \<Longrightarrow> b64_dec (b64_enc bs) = Some bs"
proof (induction bs rule: b64_enc.induct)
  case (4 a b c r)
  then have r: "b64_dec (b64_enc r) = Some r" and lt: "a < 256" "b < 256" "c < 256"
    by auto
  have e: "a div 4 < 64" "a mod 4 * 16 + b div 16 < 64" "b mod 16 * 4 + c div 64 < 64"
    using lt by (auto simp: div_less_iff_less_mult intro: less_le_trans)
  have x: "(a mod 4 * 16 + b div 16) div 16 = a mod 4"
      "(a mod 4 * 16 + b div 16) mod 16 = b div 16"
      "(b mod 16 * 4 + c div 64) div 4 = b mod 16"
      "(b mod 16 * 4 + c div 64) mod 4 = c div 64"
    using lt by (auto simp: div_less_iff_less_mult)
  show ?case using r e x lt by simp
next
  case (3 a b)
  then have lt: "a < 256" "b < 256" by auto
  have e: "a div 4 < 64" "a mod 4 * 16 + b div 16 < 64" "b mod 16 * 4 < 64"
    using lt by (auto simp: div_less_iff_less_mult intro: less_le_trans)
  have x: "(a mod 4 * 16 + b div 16) div 16 = a mod 4"
      "(a mod 4 * 16 + b div 16) mod 16 = b div 16"
    using lt by (auto simp: div_less_iff_less_mult)
  show ?case using e x lt by simp
next
  case (2 a)
  then have "a div 4 < 64" "a mod 4 * 16 < 64" by (auto simp: div_less_iff_less_mult)
  then show ?case by simp
qed simp

lemma b64_enc_clean: "c \<in> set (b64_enc bs) \<Longrightarrow> c \<noteq> CHR 0x0A \<and> c \<noteq> CHR 0x0D"
  by (induction bs rule: b64_enc.induct) (auto simp: pad_def)

lemma nats_chars_char_nats [simp]: "nats_chars (char_nats b) = b"
  by (simp add: nats_chars_def char_nats_def comp_def)

lemma Decode_Encode [simp]: "DecodeString (EncodeToString b) = Some b"
proof -
  have "filter (\<lambda>c. c \<noteq> CHR 0x0A \<and> c \<noteq> CHR 0x0D) (b64_enc (char_nats b)) = b64_enc (char_nats b)"
    by (simp add: filter_id_conv b64_enc_clean)
  moreover have "\<forall>n \<in> set (char_nats b). n < 256"
    by (auto simp: char_nats_def)
  ultimately show ?thesis
    by (simp add: DecodeString_def EncodeToString_def b64_dec_enc)
qed

lemma Encode_inject [simp]: "EncodeToString a = EncodeToString b \<longleftrightarrow> a = b"
  by (metis Decode_Encode option.inject)

lemma Encode_empty [simp]: "EncodeToString [] = []"
  by (simp add: EncodeToString_def char_nats_def)

lemma Decode_empty [simp]: "DecodeString [] = Some []"
  by (simp add: DecodeString_def nats_chars_def)

lemma Encode_eq_empty [simp]: "EncodeToString b = [] \<longleftrightarrow> b = []"
  using Encode_inject [of b "[]"] by simp

lemma Encode_chars: "c \<in> set (EncodeToString b) \<Longrightarrow> c \<in> set b64_alphabet \<union> {pad}"
proof -
  have "c \<in> set (b64_enc ns) \<Longrightarrow> c \<in> set b64_alphabet \<union> {pad}" for ns
    by (induction ns rule: b64_enc.induct) (auto simp: b64_sym_mem)
  then show "c \<in> set (EncodeToString b) \<Longrightarrow> c \<in> set b64_alphabet \<union> {pad}"
    by (simp add: EncodeToString_def)
qed

end
