(* ===== verification/Mrtap_Util.thy ===== *)
theory Mrtap_Util
  imports Externals Go_Base64 "HOL-Library.List_Lexorder" "HOL-Library.Char_ord"
begin

text \<open>
  \<^verbatim>\<open>bzerolib/mrtap/util\<close>: the hash every MrTAP message and certificate is identified by, and
  the pattern of a service account's key set URL. The hash is taken over a canonical JSON
  text, so the part of \<^verbatim>\<open>encoding/json\<close> that produces it is modelled here: strings are
  escaped without HTML escaping, invalid UTF-8 becomes the replacement character, keys
  are printed in byte order.
\<close>

section \<open>The JSON values that are hashed\<close>

datatype json = JNull | JString string | JObject "(string \<times> json) list"

text \<open>The length of the UTF-8 sequence a byte list starts with, 0 if there is none.\<close>

definition cont :: "nat \<Rightarrow> bool" where
  "cont b \<longleftrightarrow> 128 \<le> b \<and> b \<le> 191"

fun utf8_size :: "nat list \<Rightarrow> nat" where
  "utf8_size [] = 0"
| "utf8_size (a # r) =
     (if a < 128 then 1
      else if 194 \<le> a \<and> a \<le> 223 then (case r of b # _ \<Rightarrow> if cont b then 2 else 0 | _ \<Rightarrow> 0)
      else if 224 \<le> a \<and> a \<le> 239 then
        (case r of b # c # _ \<Rightarrow>
           (if cont c \<and> cont b \<and> (a = 224 \<longrightarrow> 160 \<le> b) \<and> (a = 237 \<longrightarrow> b \<le> 159) then 3 else 0)
         | _ \<Rightarrow> 0)
      else if 240 \<le> a \<and> a \<le> 244 then
        (case r of b # c # d # _ \<Rightarrow>
           (if cont d \<and> cont c \<and> cont b \<and> (a = 240 \<longrightarrow> 144 \<le> b) \<and> (a = 244 \<longrightarrow> b \<le> 143) then 4 else 0)
         | _ \<Rightarrow> 0)
      else 0)"

datatype rune = RAscii char | RMulti string | RBad

function runes :: "string \<Rightarrow> rune list" where
  "runes [] = []"
| "runes (c # cs) =
     (let n = utf8_size (map of_char (c # cs)) in
      if n = 0 then RBad # runes cs
      else if n = 1 then RAscii c # runes cs
      else RMulti (take n (c # cs)) # runes (drop (n - 1) cs))"
  by pat_completeness auto
termination
  by (relation "measure length") (auto simp: Let_def simp del: utf8_size.simps)

definition hex_digit :: "nat \<Rightarrow> char" where
  "hex_digit n = ''0123456789abcdef'' ! (n mod 16)"

fun esc_rune :: "rune \<Rightarrow> string" where
  "esc_rune (RAscii c) =
     (if c = CHR 0x22 \<or> c = CHR 0x5C then [CHR 0x5C, c]
      else if c = CHR 0x0A then [CHR 0x5C, CHR ''n'']
      else if c = CHR 0x0D then [CHR 0x5C, CHR ''r'']
      else if c = CHR 0x09 then [CHR 0x5C, CHR ''t'']
      else if (of_char c :: nat) < 32
        then CHR 0x5C # ''u00'' @ [hex_digit (of_char c div 16), hex_digit (of_char c mod 16)]
      else [c])"
| "esc_rune (RMulti b) =
     (if b = [CHR 0xE2, CHR 0x80, CHR 0xA8] then CHR 0x5C # ''u2028''
      else if b = [CHR 0xE2, CHR 0x80, CHR 0xA9] then CHR 0x5C # ''u2029''
      else b)"
| "esc_rune RBad = CHR 0x5C # ''ufffd''"

fun rune_bytes :: "rune \<Rightarrow> string" where
  "rune_bytes (RAscii c) = [c]"
| "rune_bytes (RMulti b) = b"
| "rune_bytes RBad = [CHR 0xEF, CHR 0xBF, CHR 0xBD]"

definition sanitize :: "string \<Rightarrow> string" where
  "sanitize s = concat (map rune_bytes (runes s))"

definition json_quote :: "string \<Rightarrow> string" where
  "json_quote s = CHR 0x22 # concat (map esc_rune (runes s)) @ [CHR 0x22]"

text \<open>
  Marshalling a value and reading it back into a \<^verbatim>\<open>map[string]interface{}\<close> keeps the tree,
  sanitizes the strings and loses the field order; marshalling the map prints the keys
  in order.
\<close>

fun json_canon :: "json \<Rightarrow> json" where
  "json_canon JNull = JNull"
| "json_canon (JString s) = JString (sanitize s)"
| "json_canon (JObject kvs) =
     JObject (sort_key fst (map (\<lambda>(k, v). (sanitize k, json_canon v)) kvs))"

fun json_print :: "json \<Rightarrow> string" where
  "json_print JNull = ''null''"
| "json_print (JString s) = json_quote s"
| "json_print (JObject kvs) =
     ''{'' @ join (map (\<lambda>(k, v). json_quote k @ '':'' @ json_print v) kvs) '','' @ ''}''"

section \<open>HashPayload\<close>

text \<open>
  \<^verbatim>\<open>HashPayload\<close> marshals, reads back into a map, marshals the map, spells the form feed
  the way JavaScript does and hashes. Marshalling the payload types of this program
  never fails, so the second result is always true.
\<close>

definition hash_preimage :: "json \<Rightarrow> string" where
  "hash_preimage p =
     replace_all (json_print (json_canon p)) (CHR 0x5C # ''u000c'') [CHR 0x5C, CHR ''f'']"

definition HashPayload :: "lib \<Rightarrow> json \<Rightarrow> string \<times> bool" where
  "HashPayload L p = (sha3 L (hash_preimage p), True)"

section \<open>ExtractJwksUrlPattern\<close>

text \<open>The JWKS URL pattern and the e-mail of a service account, from its \<^verbatim>\<open>jku\<close>.\<close>

definition ExtractJwksUrlPattern :: "string \<Rightarrow> (string \<times> string) res" where
  "ExtractJwksUrlPattern jku =
     (if length (split jku ''@'') \<noteq> 2
      then Err (errorf (''jku value in ID Token does not contain exactly one @. Supplied jku value '' @ jku))
      else
        let tokenizedJku = split jku ''/'' in
        if length tokenizedJku \<le> 1
        then Err (errorf (''jku value in ID Token is not a valid jku. Supplied jku value '' @ jku))
        else
          let jwksEmail = last tokenizedJku in
          if length (split jwksEmail ''@'') \<noteq> 2
          then Err (errorf (''jku value in ID Token does not contain exactly one @ in email address. Supplied jku value '' @ jku))
          else
            let emailDomain = split jwksEmail ''@'' ! 1 in
            Ok (join (butlast tokenizedJku) ''/'' @ ''/*'' @ emailDomain, jwksEmail))"

section \<open>Properties\<close>

declare runes.simps(2) [simp del]

lemma plain_rune [simp]:
  "(of_char c :: nat) < 128 \<Longrightarrow> runes (c # cs) = RAscii c # runes cs"
  by (subst runes.simps) simp

lemma jku_last_field:
  assumes "jku = prefix @ ''/'' @ email" "CHR ''/'' \<notin> set email"
  shows "split jku ''/'' = split prefix ''/'' @ [email]"
  using assms by (simp add: split_single_append split_no_sep)

lemma jwks_shape_extracted:
  assumes jku: "jku = prefix @ ''/'' @ local @ ''@'' @ domain"
    and res: "email = local @ ''@'' @ domain"
    and free: "CHR ''@'' \<notin> set (prefix @ local @ domain)" "CHR ''/'' \<notin> set (local @ domain)"
  shows "ExtractJwksUrlPattern jku = Ok (prefix @ ''/*'' @ domain, email)"
proof -
  have at: "split jku ''@'' = [prefix @ ''/'' @ local, domain]"
    using free by (simp add: jku split_single_append [of "prefix @ ''/'' @ local", simplified] split_no_sep)
  have sl: "split jku ''/'' = split prefix ''/'' @ [email]"
    using jku_last_field [of jku prefix email] jku res free by simp
  have em: "split email ''@'' = [local, domain]"
    using free by (simp add: res split_single_append split_no_sep)
  show ?thesis
    using em unfolding ExtractJwksUrlPattern_def at sl Let_def by (simp add: res)
qed

lemma extracted_jwks_shape:
  assumes len: "length (split jku ''@'') = 2" "1 < length (split jku ''/'')"
      "length (split (last (split jku ''/'')) ''@'') = 2"
    and em: "email = last (split jku ''/'')"
  obtains prefix local domain where "jku = prefix @ ''/'' @ local @ ''@'' @ domain" "email = local @ ''@'' @ domain"
    "prefix = join (butlast (split jku ''/'')) ''/''" "split email ''@'' ! 1 = domain"
    "CHR ''@'' \<notin> set (prefix @ local @ domain)" "CHR ''/'' \<notin> set (local @ domain)"
proof -
  obtain local domain where ld: "email = local @ CHR ''@'' # domain"
      "CHR ''@'' \<notin> set local" "CHR ''@'' \<notin> set domain"
    using len(3) unfolding em split_two by blast
  define prefix where "prefix = join (butlast (split jku ''/'')) ''/''"
  have bl: "butlast (split jku ''/'') \<noteq> []"
    using len(2) by (cases "split jku ''/''") auto
  have "join (butlast (split jku ''/'') @ [last (split jku ''/'')]) ''/'' = jku"
    by simp
  then have jku: "jku = prefix @ ''/'' @ email"
    unfolding join_snoc [OF bl] prefix_def em by simp
  have no_slash: "CHR ''/'' \<notin> set email"
    unfolding em by (rule split_fields [of _ jku]) simp
  have no_at: "CHR ''@'' \<notin> set prefix"
  proof -
    obtain a b where "jku = a @ CHR ''@'' # b" "CHR ''@'' \<notin> set a" "CHR ''@'' \<notin> set b"
      using len(1) unfolding split_two by blast
    then have "count_list jku CHR ''@'' = 1" by (simp add: count_list_0_iff)
    then have "count_list prefix CHR ''@'' = 0" by (simp add: jku ld)
    then show ?thesis by (simp add: count_list_0_iff)
  qed
  have "split email ''@'' ! 1 = domain"
    using ld by (simp add: split_single_append split_no_sep)
  from that [OF _ _ prefix_def this] show thesis
    using jku [unfolded ld(1)] ld no_slash no_at by simp
qed

text \<open>
  The pattern extracted from a service account's \<^verbatim>\<open>jku\<close> is determined by the shape
  \<^verbatim>\<open>prefix/local@domain\<close>: extraction succeeds exactly for URLs with a single @ that stands
  in the last path segment, the result allows any local part of the same domain under the
  same prefix, and the e-mail is the last segment unchanged.
\<close>

lemma ExtractJwksUrlPattern_iff:
  "ExtractJwksUrlPattern jku = Ok (pattern, email) \<longleftrightarrow>
   (\<exists>prefix local domain.
      jku = prefix @ ''/'' @ local @ ''@'' @ domain \<and>
      email = local @ ''@'' @ domain \<and>
      pattern = prefix @ ''/*'' @ domain \<and>
      CHR ''@'' \<notin> set (prefix @ local @ domain) \<and> CHR ''/'' \<notin> set (local @ domain))"
  (is "?l \<longleftrightarrow> ?r")
proof
  assume ?r
  then show ?l using jwks_shape_extracted by blast
next
  assume l: ?l
  then have sh: "length (split jku ''@'') = 2" "1 < length (split jku ''/'')"
      "length (split (last (split jku ''/'')) ''@'') = 2" "email = last (split jku ''/'')"
    and pat: "pattern = join (butlast (split jku ''/'')) ''/'' @ ''/*'' @ split email ''@'' ! 1"
    by (auto simp: ExtractJwksUrlPattern_def Let_def split: if_splits)
  obtain prefix local domain where "jku = prefix @ ''/'' @ local @ ''@'' @ domain" "email = local @ ''@'' @ domain"
    "prefix = join (butlast (split jku ''/'')) ''/''" "split email ''@'' ! 1 = domain"
    "CHR ''@'' \<notin> set (prefix @ local @ domain)" "CHR ''/'' \<notin> set (local @ domain)"
    by (rule extracted_jwks_shape [OF sh])
  with pat show ?r by metis
qed

text \<open>
  The text that is hashed does not determine the payload: the replacement of the
  escaped form feed also rewrites a backslash followed by \<^verbatim>\<open>u000c\<close> that is part of the
  data, so two different strings in the same field have the same hash, whatever the digest.
\<close>

theorem HashPayload_collision:
  "(CHR 0x5C # ''u000c'') \<noteq> [CHR 0x5C, CHR ''f''] \<and>
   HashPayload L (JObject [(''action'', JString (CHR 0x5C # ''u000c''))]) =
   HashPayload L (JObject [(''action'', JString [CHR 0x5C, CHR ''f''])])"
  by (simp add: HashPayload_def hash_preimage_def json_quote_def sanitize_def has_prefix_def
      cont_def)

end
