(* ===== verification/Keypair.thy ===== *)
theory Keypair
  imports Mrtap_Util
begin

text \<open>
  \<^verbatim>\<open>bzerolib/keypair\<close>: Ed25519 keys as base64 text. A key struct holds a byte slice that is
  \<^verbatim>\<open>nil\<close> in the zero value; keys are passed as pointers, and a \<^verbatim>\<open>nil\<close> pointer is an outer
  \<^term>\<open>None\<close>. Using a missing key panics, as the dereference and \<^verbatim>\<open>crypto/ed25519\<close> do.
\<close>

type_synonym PublicKey = "string option"
type_synonym PrivateKey = "string option"

definition PublicKeyFromString :: "string \<Rightarrow> PublicKey res" where
  "PublicKeyFromString publickey =
     (case DecodeString publickey of
        None \<Rightarrow> Err (errorf (''failed to decode base64 string: |'' @ publickey @ ''|''))
      | Some bs \<Rightarrow>
          if length bs \<noteq> 32 then Err (errorf (''incorrect public key size: '' @ show_nat (length bs))) else Ok (Some bs))"

fun PublicKey_IsEmpty :: "PublicKey option \<Rightarrow> bool" where
  "PublicKey_IsEmpty None = True"
| "PublicKey_IsEmpty (Some key) = (key = None)"

fun PublicKey_String :: "PublicKey option \<Rightarrow> string" where
  "PublicKey_String (Some (Some key)) = EncodeToString key"
| "PublicKey_String _ = []"

definition PublicKey_Verify :: "lib \<Rightarrow> PublicKey option \<Rightarrow> string \<Rightarrow> string \<Rightarrow> bool res" where
  "PublicKey_Verify L p content signature =
     (case DecodeString signature of
        None \<Rightarrow> Ok False
      | Some sigBits \<Rightarrow>
          (case p of
             Some (Some key) \<Rightarrow> if length key = 32 then Ok (ed_verify L key content sigBits) else Panic
           | _ \<Rightarrow> Panic))"

definition trim_prefix :: "string \<Rightarrow> string \<Rightarrow> string" where
  "trim_prefix s p = (if has_prefix p s then drop (length p) s else s)"

definition trim_suffix :: "string \<Rightarrow> string \<Rightarrow> string" where
  "trim_suffix s p = rev (trim_prefix (rev s) (rev p))"

definition dquote :: string where
  "dquote = [CHR 0x22]"

text \<open>
  The custom JSON readers: \<^verbatim>\<open>null\<close> and the empty string leave the receiver as it is,
  anything else replaces it or is an error.
\<close>

definition PublicKey_UnmarshalJSON :: "PublicKey \<Rightarrow> string \<Rightarrow> PublicKey res" where
  "PublicKey_UnmarshalJSON p data =
     (if data = ''null'' \<or> data = dquote @ dquote then Ok p
      else PublicKeyFromString (trim_suffix (trim_prefix data dquote) dquote))"

definition PublicKey_MarshalJSON :: "PublicKey option \<Rightarrow> string" where
  "PublicKey_MarshalJSON p = json_quote (PublicKey_String p)"

definition PrivateKeyFromString :: "string \<Rightarrow> PrivateKey res" where
  "PrivateKeyFromString privatekey =
     (case DecodeString privatekey of
        None \<Rightarrow> Err (errorf ''failed to base64 decode private key: '')
      | Some bs \<Rightarrow>
          if length bs = 64 then Ok (Some bs)
          else Err (errorf (''private keys should be in the 64 byte, concatenated privatekey + publickey form, but this key had an incorrect length: '' @ show_nat (length bs))))"

definition PrivateKey_Sign :: "lib \<Rightarrow> PrivateKey option \<Rightarrow> string \<Rightarrow> string res" where
  "PrivateKey_Sign L p content =
     (case p of
        Some (Some key) \<Rightarrow> if length key = 64 then Ok (EncodeToString (ed_sign L key content)) else Panic
      | _ \<Rightarrow> Panic)"

definition PrivateKey_Equals :: "PrivateKey \<Rightarrow> PrivateKey \<Rightarrow> bool" where
  "PrivateKey_Equals p key \<longleftrightarrow> (case p of None \<Rightarrow> [] | Some a \<Rightarrow> a) = (case key of None \<Rightarrow> [] | Some b \<Rightarrow> b)"

fun PrivateKey_String :: "PrivateKey option \<Rightarrow> string" where
  "PrivateKey_String (Some (Some key)) = EncodeToString key"
| "PrivateKey_String _ = []"

definition PrivateKey_UnmarshalJSON :: "PrivateKey \<Rightarrow> string \<Rightarrow> PrivateKey res" where
  "PrivateKey_UnmarshalJSON p data =
     (if data = ''null'' \<or> data = dquote @ dquote then Ok p
      else PrivateKeyFromString (trim_suffix (trim_prefix data dquote) dquote))"

definition PrivateKey_MarshalJSON :: "PrivateKey option \<Rightarrow> string" where
  "PrivateKey_MarshalJSON p = json_quote (PrivateKey_String p)"

section \<open>Lemmas\<close>

text \<open>A key pointer a caller may use: present and of the right length.\<close>

definition good_pub :: "PublicKey option \<Rightarrow> bool" where
  "good_pub p \<longleftrightarrow> (\<exists>k. p = Some (Some k) \<and> length k = 32)"

definition good_priv :: "PrivateKey option \<Rightarrow> bool" where
  "good_priv p \<longleftrightarrow> (\<exists>k. p = Some (Some k) \<and> length k = 64)"

lemma PublicKeyFromString_good: "PublicKeyFromString s = Ok p \<Longrightarrow> good_pub (Some p)"
  unfolding PublicKeyFromString_def good_pub_def
  by (cases "DecodeString s") (simp_all split: if_splits, metis)

lemma PublicKey_Verify_good: "good_pub p \<Longrightarrow> \<exists>b. PublicKey_Verify L p c s = Ok b"
  by (auto simp: good_pub_def PublicKey_Verify_def split: option.splits)

lemma PublicKeyFromString_String:
  "good_pub p \<Longrightarrow> PublicKeyFromString (PublicKey_String p) = Ok (the p)"
  by (auto simp: good_pub_def PublicKeyFromString_def)

lemma PrivateKey_Sign_good: "good_priv p \<Longrightarrow> \<exists>s. PrivateKey_Sign L p c = Ok s"
  by (auto simp: good_priv_def PrivateKey_Sign_def)

text \<open>What a correct key pair gives: its own signatures verify.\<close>

definition key_pair :: "lib \<Rightarrow> PublicKey option \<Rightarrow> PrivateKey option \<Rightarrow> bool" where
  "key_pair L p s \<longleftrightarrow>
     (\<exists>pk sk. p = Some (Some pk) \<and> s = Some (Some sk) \<and> length pk = 32 \<and> length sk = 64 \<and>
              sign_correct L pk sk)"

lemma key_pair_Verify:
  "key_pair L p s \<Longrightarrow> \<exists>sg. PrivateKey_Sign L s c = Ok sg \<and> PublicKey_Verify L p c sg = Ok True"
  by (auto simp: key_pair_def PrivateKey_Sign_def PublicKey_Verify_def sign_correct_def)

lemma key_pair_good: "key_pair L p s \<Longrightarrow> good_pub p" "key_pair L p s \<Longrightarrow> good_priv s"
  by (auto simp: key_pair_def good_pub_def good_priv_def)

text \<open>Characters JSON prints as themselves, base64 among them.\<close>

definition plain_char :: "char \<Rightarrow> bool" where
  "plain_char c \<longleftrightarrow> 32 \<le> (of_char c :: nat) \<and> (of_char c :: nat) < 128 \<and> c \<noteq> CHR 0x22 \<and> c \<noteq> CHR 0x5C"

lemma esc_plain [simp]: "plain_char c \<Longrightarrow> esc_rune (RAscii c) = [c]"
  by (auto simp: plain_char_def)

lemma runes_plain: "list_all plain_char s \<Longrightarrow> runes s = map RAscii s"
  by (induction s) (simp_all add: plain_char_def)

lemma json_quote_plain:
  assumes "list_all plain_char s"
  shows "json_quote s = dquote @ s @ dquote"
proof -
  have "concat (map (\<lambda>c. esc_rune (RAscii c)) s) = s"
    using assms by (induction s) (simp_all del: esc_rune.simps)
  then show ?thesis
    by (simp add: json_quote_def runes_plain [OF assms] dquote_def comp_def del: esc_rune.simps)
qed

lemma b64_plain: "list_all plain_char (EncodeToString b)"
proof -
  have all: "\<forall>c \<in> set b64_alphabet \<union> {pad}. plain_char c"
    by (simp add: b64_alphabet_def pad_def plain_char_def)
  show ?thesis
    unfolding list_all_iff by (rule ballI) (rule bspec [OF all Encode_chars])
qed

lemma json_quote_b64 [simp]: "json_quote (EncodeToString b) = dquote @ EncodeToString b @ dquote"
  by (rule json_quote_plain [OF b64_plain])

lemma trim_quotes [simp]: "trim_suffix (trim_prefix (dquote @ s @ dquote) dquote) dquote = s"
  by (simp add: trim_suffix_def trim_prefix_def dquote_def)

lemma key_json_empty [simp]:
  "PublicKey_UnmarshalJSON p (dquote @ dquote) = Ok p" "PrivateKey_UnmarshalJSON q (dquote @ dquote) = Ok q"
  by (simp_all add: PublicKey_UnmarshalJSON_def PrivateKey_UnmarshalJSON_def)

lemma PublicKey_json:
  "length k = 32 \<Longrightarrow> PublicKey_UnmarshalJSON q (dquote @ EncodeToString k @ dquote) = Ok (Some k)"
  by (simp add: PublicKey_UnmarshalJSON_def PublicKeyFromString_def) (auto simp: dquote_def)

lemma PrivateKey_json:
  "length k = 64 \<Longrightarrow> PrivateKey_UnmarshalJSON q (dquote @ EncodeToString k @ dquote) = Ok (Some k)"
  by (simp add: PrivateKey_UnmarshalJSON_def PrivateKeyFromString_def) (auto simp: dquote_def)

text \<open>
  Keys survive the JSON configuration file: reading back what was written gives the
  same key, for public and for private keys of the lengths Ed25519 uses.
\<close>

lemma keys_json_roundtrip:
  assumes "good_pub p" and "good_priv s"
  shows "PublicKey_UnmarshalJSON q (PublicKey_MarshalJSON p) = Ok (the p) \<and>
         PrivateKey_UnmarshalJSON t (PrivateKey_MarshalJSON s) = Ok (the s)"
  using assms by (auto simp: good_pub_def good_priv_def PublicKey_MarshalJSON_def PrivateKey_MarshalJSON_def
      PublicKey_json PrivateKey_json)

end
