(* ===== verification/BZCert.thy ===== *)
theory BZCert
  imports Keypair
begin

text \<open>
  \<^verbatim>\<open>bzerolib/mrtap/bzcert\<close>: the BastionZero certificate and its verifier. A certificate ties
  an Ed25519 key to the user's identity provider tokens: the nonce of the initial id token
  commits to the key, a random value and a signature on it. Times are Unix nanoseconds;
  the current time is an argument.
\<close>

section \<open>The certificate\<close>

record BZCert =
  InitialIdToken :: string
  CurrentIdToken :: string
  ClientPublicKey :: string
  Rand :: string
  SignatureOnRand :: string
  expiration :: int
  cert_hash :: string

definition second :: int where
  "second = 1000000000"

definition time_Unix :: "int \<Rightarrow> int" where
  "time_Unix s = s * second"

definition initialIdTokenLifetime :: int where
  "initialIdTokenLifetime = 5 * 365 * 24 * 3600 * second"

text \<open>Unexported fields are not marshalled, so they are not part of the hash.\<close>

definition BZCert_json :: "BZCert \<Rightarrow> json" where
  "BZCert_json b = JObject
     [(''initialIdToken'', JString (InitialIdToken b)),
      (''currentIdToken'', JString (CurrentIdToken b)),
      (''clientPublicKey'', JString (ClientPublicKey b)),
      (''rand'', JString (Rand b)),
      (''signatureOnRand'', JString (SignatureOnRand b))]"

definition BZCert_Hash :: "BZCert \<Rightarrow> string" where
  "BZCert_Hash b = cert_hash b"

definition BZCert_Expired :: "int \<Rightarrow> BZCert \<Rightarrow> bool" where
  "BZCert_Expired now b \<longleftrightarrow> expiration b < now"

definition HashCert :: "lib \<Rightarrow> BZCert \<Rightarrow> BZCert res" where
  "HashCert L b =
     (case HashPayload L (BZCert_json b) of
        (hashBytes, ok) \<Rightarrow>
          if \<not> ok then Err (errorf ''failed to hash the certificate'')
          else Ok (b\<lparr>cert_hash := EncodeToString hashBytes\<rparr>))"

section \<open>The verifier\<close>

definition googleUrl :: string where
  "googleUrl = ''https://accounts.google.com''"

definition microsoftUrl :: string where
  "microsoftUrl = ''https://login.microsoftonline.com''"

definition microsoftPersonalAccountTenantId :: string where
  "microsoftPersonalAccountTenantId = ''9188040d-6c67-4c5b-b112-36a304b66dad''"

record BZCertVerifier =
  orgId :: string
  ssoProvider :: string
  providerType :: string
  allowedJwksUrlPatterns :: "string list"

definition getMicrosoftIssUrl :: "string \<Rightarrow> string" where
  "getMicrosoftIssUrl org =
     (let tenantId = (if org = ''None'' then microsoftPersonalAccountTenantId else org)
      in microsoftUrl @ ''/'' @ tenantId @ ''/v2.0'')"

text \<open>The regular expression \<^verbatim>\<open>^https://.*/realms/.*\<close>; a dot matches no line feed.\<close>

definition keycloakUrlPattern :: "string \<Rightarrow> bool" where
  "keycloakUrlPattern s \<longleftrightarrow>
     has_prefix ''https://'' s \<and>
     contains (takeWhile (\<lambda>c. c \<noteq> CHR 0x0A) (drop (length ''https://'') s)) ''/realms/''"

definition issuer_url :: "string \<Rightarrow> string \<Rightarrow> string res" where
  "issuer_url idpProvider idpOrgId =
     (if idpProvider = ''google'' then Ok googleUrl
      else if idpProvider = ''microsoft'' then Ok (getMicrosoftIssUrl idpOrgId)
      else if idpProvider = ''okta'' then Ok (''https://'' @ idpOrgId @ ''.okta.com'')
      else if idpProvider = ''onelogin'' then Ok (''https://'' @ idpOrgId @ ''.onelogin.com/oidc/2'')
      else if idpProvider = ''keycloak'' then
        (if \<not> keycloakUrlPattern idpOrgId
         then Err (errorf (''Invalid Keycloak issuer url: '' @ idpOrgId))
         else Ok idpOrgId)
      else Err (errorf (''unrecognized SSO provider: '' @ idpProvider)))"

definition NewVerifier :: "lib \<Rightarrow> string \<Rightarrow> string \<Rightarrow> string list \<Rightarrow> BZCertVerifier res" where
  "NewVerifier L idpProvider idpOrgId jwksUrlPatterns =
     (case issuer_url idpProvider idpOrgId of
        Err e \<Rightarrow> Err e | Panic \<Rightarrow> Panic
      | Ok issuerUrl \<Rightarrow>
          (case oidc_NewProvider L issuerUrl of
             Err e \<Rightarrow> Err (errorf_w (''failed to establish connection with SSO provider '' @ idpProvider @ '': '') e)
           | Panic \<Rightarrow> Panic
           | Ok provider \<Rightarrow>
               Ok \<lparr> orgId = idpOrgId, ssoProvider = provider, providerType = idpProvider,
                    allowedJwksUrlPatterns = jwksUrlPatterns \<rparr>))"

definition getTokenClaims :: "lib \<Rightarrow> BZCertVerifier \<Rightarrow> string \<Rightarrow> bool \<Rightarrow> idTokenClaims res" where
  "getTokenClaims L v idtoken SkipExpiryCheck =
     (case oidc_Verify L (ssoProvider v) SkipExpiryCheck idtoken of
        Err e \<Rightarrow> Err (errorf_w ''failed to verify id token with SSO provider: '' e)
      | Panic \<Rightarrow> Panic
      | Ok claims \<Rightarrow>
          if orgId v \<noteq> ''None'' \<and> providerType v = ''google'' \<and> orgId v \<noteq> HD claims
          then Err (errorf (''user's OrgId '' @ HD claims @ '' does not match target's expected Google HD '' @ orgId v))
          else if orgId v \<noteq> ''None'' \<and> providerType v = ''microsoft'' \<and> orgId v \<noteq> TID claims
          then Err (errorf (''user's OrgId '' @ TID claims @ '' does not match target's expected Microsoft tid '' @ orgId v))
          else Ok claims)"

definition verifyAuthNonce :: "lib \<Rightarrow> BZCert \<Rightarrow> string \<Rightarrow> unit res" where
  "verifyAuthNonce L b authNonce =
     (let nonce = ClientPublicKey b @ SignatureOnRand b @ Rand b;
          nonceHash = EncodeToString (sha3 L nonce) in
      if authNonce \<noteq> nonceHash then Err (errorf ''nonce in ID token does not match calculated nonce hash'')
      else (case DecodeString (Rand b) of
              None \<Rightarrow> Err (errorf ''BZCert Rand is not base64 encoded'')
            | Some decodedRand \<Rightarrow>
                (case PublicKeyFromString (ClientPublicKey b) of
                   Err e \<Rightarrow> Err e | Panic \<Rightarrow> Panic
                 | Ok pubkey \<Rightarrow>
                     (case PublicKey_Verify L (Some pubkey) (sha3 L decodedRand) (SignatureOnRand b) of
                        Ok True \<Rightarrow> Ok ()
                      | Ok False \<Rightarrow> Err (errorf ''failed to verify signature'')
                      | Err e \<Rightarrow> Err e
                      | Panic \<Rightarrow> Panic))))"

definition verifyCurrentIdToken :: "lib \<Rightarrow> BZCertVerifier \<Rightarrow> string \<Rightarrow> int res" where
  "verifyCurrentIdToken L v token =
     res_map (\<lambda>claims. time_Unix (ClaimExpiration claims)) (getTokenClaims L v token False)"

definition verifyInitialIdToken :: "lib \<Rightarrow> int \<Rightarrow> BZCertVerifier \<Rightarrow> string \<Rightarrow> BZCert \<Rightarrow> unit res" where
  "verifyInitialIdToken L now v token b =
     (case getTokenClaims L v token True of
        Err e \<Rightarrow> Err e | Panic \<Rightarrow> Panic
      | Ok claims \<Rightarrow>
          if time_Unix (IssuedAt claims) + initialIdTokenLifetime < now
          then Err (errorf ''InitialIdToken Expired'')
          else verifyAuthNonce L b (ClaimNonce claims))"

definition isServiceAccountToken :: "lib \<Rightarrow> string \<Rightarrow> bool" where
  "isServiceAccountToken L idToken =
     (case jose_ParseSigned L idToken of
        Ok (HString jkuStr # _) \<Rightarrow> jkuStr \<noteq> []
      | _ \<Rightarrow> False)"

definition service_account_error :: "gerror \<Rightarrow> gerror" where
  "service_account_error e = GErr (''service account config error: '' @ etext e) (ServiceAccountError # ekinds e)"

definition VerifyServiceAccountIdToken :: "lib \<Rightarrow> BZCertVerifier \<Rightarrow> BZCert \<Rightarrow> int res" where
  "VerifyServiceAccountIdToken L v b =
     (let idtoken = CurrentIdToken b in
      case jose_ParseSigned L idtoken of
        Err e \<Rightarrow> Err e | Panic \<Rightarrow> Panic
      | Ok [] \<Rightarrow> Err (errorf ''service account id token does not contain any signatures'')
      | Ok (jku # _) \<Rightarrow>
         (case jku of
            HString (c # cs) \<Rightarrow>
             (let jkuStr = c # cs in
              case ExtractJwksUrlPattern jkuStr of
                Err e \<Rightarrow> Err e | Panic \<Rightarrow> Panic
              | Ok (pattern, jwksEmail) \<Rightarrow>
                 (case url_ParseRequestURI L pattern of
                    Err e \<Rightarrow> Err (errorf_w (''failed to parse as url supplied jwks url '' @ pattern @ '': '') e)
                  | Panic \<Rightarrow> Panic
                  | Ok suppliedJwksURLPattern \<Rightarrow>
                      if suppliedJwksURLPattern \<notin> set (allowedJwksUrlPatterns v)
                      then Err (service_account_error (errorf (''jku value in ID Token is incorrect. Supplied jku value '' @ jkuStr @ '', parsed pattern '' @ suppliedJwksURLPattern)))
                      else (case oidc_VerifyRemote L jkuStr jwksEmail idtoken of
                              Err e \<Rightarrow> Err (errorf_s ''ID Token verification error: '' e)
                            | Panic \<Rightarrow> Panic
                            | Ok claims \<Rightarrow>
                                (case verifyAuthNonce L b (ClaimNonce claims) of
                                   Err e \<Rightarrow> Err e | Panic \<Rightarrow> Panic
                                 | Ok _ \<Rightarrow> Ok (time_Unix (ClaimExpiration claims))))))
          | _ \<Rightarrow> Err (errorf ''supplied jku was not of valid format or length'')))"

definition BZCertVerifier_Verify :: "lib \<Rightarrow> int \<Rightarrow> BZCertVerifier \<Rightarrow> BZCert \<Rightarrow> int res" where
  "BZCertVerifier_Verify L now v b =
     (if isServiceAccountToken L (CurrentIdToken b) then VerifyServiceAccountIdToken L v b
      else case verifyInitialIdToken L now v (InitialIdToken b) b of
             Err e \<Rightarrow> Err (GErr (''error verifying initial id token: '' @ etext e) (InitialIdTokenError # ekinds e))
           | Panic \<Rightarrow> Panic
           | Ok _ \<Rightarrow>
               (case verifyCurrentIdToken L v (CurrentIdToken b) of
                  Err e \<Rightarrow> Err (GErr (''error verifying current id token: '' @ etext e) (CurrentIdTokenError # ekinds e))
                | Panic \<Rightarrow> Panic
                | Ok exp \<Rightarrow> Ok exp))"

definition BZCert_Verify ::
  "lib \<Rightarrow> int \<Rightarrow> BZCert \<Rightarrow> string \<Rightarrow> string \<Rightarrow> string list \<Rightarrow> BZCert res" where
  "BZCert_Verify L now b idpProvider idpOrgId jwksUrlPatterns =
     (case NewVerifier L idpProvider idpOrgId jwksUrlPatterns of
        Err e \<Rightarrow> Err (errorf_w ''error initializing certificate verifier: '' e)
      | Panic \<Rightarrow> Panic
      | Ok verifier \<Rightarrow>
          (case BZCertVerifier_Verify L now verifier b of
             Err e \<Rightarrow> Err (errorf_w ''failed to verify the certificate: '' e)
           | Panic \<Rightarrow> Panic
           | Ok exp \<Rightarrow>
               (case HashCert L b of
                  Err e \<Rightarrow> Err e | Panic \<Rightarrow> Panic
                | Ok b' \<Rightarrow> Ok (b'\<lparr>expiration := exp\<rparr>))))"

section \<open>Soundness of verification\<close>

text \<open>What the nonce of an id token commits the certificate to.\<close>

definition nonce_bound :: "lib \<Rightarrow> BZCert \<Rightarrow> string \<Rightarrow> bool" where
  "nonce_bound L b n \<longleftrightarrow>
     n = EncodeToString (sha3 L (ClientPublicKey b @ SignatureOnRand b @ Rand b)) \<and>
     (\<exists>r key. DecodeString (Rand b) = Some r \<and> PublicKeyFromString (ClientPublicKey b) = Ok key \<and>
        PublicKey_Verify L (Some key) (sha3 L r) (SignatureOnRand b) = Ok True)"

definition org_matches :: "string \<Rightarrow> string \<Rightarrow> idTokenClaims \<Rightarrow> bool" where
  "org_matches provider org c \<longleftrightarrow>
     (org \<noteq> ''None'' \<and> provider = ''google'' \<longrightarrow> HD c = org) \<and>
     (org \<noteq> ''None'' \<and> provider = ''microsoft'' \<longrightarrow> TID c = org)"

lemma verifyAuthNonce_iff [simp]: "verifyAuthNonce L b n = Ok u \<longleftrightarrow> nonce_bound L b n"
  unfolding verifyAuthNonce_def nonce_bound_def Let_def
  by (auto split: option.splits res.splits bool.splits)

lemma getTokenClaims_Ok:
  "getTokenClaims L v t skip = Ok c \<longleftrightarrow>
   oidc_Verify L (ssoProvider v) skip t = Ok c \<and> org_matches (providerType v) (orgId v) c"
  unfolding getTokenClaims_def org_matches_def by (auto split: res.splits)

lemma NewVerifier_Ok:
  "NewVerifier L p org ps = Ok v \<longleftrightarrow>
   (\<exists>iss prov. issuer_url p org = Ok iss \<and> oidc_NewProvider L iss = Ok prov \<and>
      v = \<lparr> orgId = org, ssoProvider = prov, providerType = p, allowedJwksUrlPatterns = ps \<rparr>)"
  unfolding NewVerifier_def by (auto split: res.splits)

lemma HashCert_eq [simp]:
  "HashCert L b = Ok (b\<lparr>cert_hash := EncodeToString (sha3 L (hash_preimage (BZCert_json b)))\<rparr>)"
  by (simp add: HashCert_def HashPayload_def)

lemma verifyInitialIdToken_Ok:
  "verifyInitialIdToken L now v t b = Ok u \<longleftrightarrow>
   (\<exists>c. getTokenClaims L v t True = Ok c \<and> now \<le> time_Unix (IssuedAt c) + initialIdTokenLifetime \<and>
        nonce_bound L b (ClaimNonce c))"
  unfolding verifyInitialIdToken_def by (auto split: res.splits)

lemma verifyCurrentIdToken_Ok:
  "verifyCurrentIdToken L v t = Ok e \<longleftrightarrow>
   (\<exists>c. getTokenClaims L v t False = Ok c \<and> e = time_Unix (ClaimExpiration c))"
  unfolding verifyCurrentIdToken_def by (cases "getTokenClaims L v t False") auto

lemma VerifyServiceAccountIdToken_Ok:
  "VerifyServiceAccountIdToken L v b = Ok e \<Longrightarrow>
   \<exists>jku pattern email url c.
     ExtractJwksUrlPattern jku = Ok (pattern, email) \<and> url_ParseRequestURI L pattern = Ok url \<and>
     url \<in> set (allowedJwksUrlPatterns v) \<and>
     oidc_VerifyRemote L jku email (CurrentIdToken b) = Ok c \<and>
     nonce_bound L b (ClaimNonce c) \<and> e = time_Unix (ClaimExpiration c)"
  unfolding VerifyServiceAccountIdToken_def Let_def
  by (fastforce split: res.splits list.splits header_value.splits prod.splits if_splits)

lemma Verifier_Verify_user_Ok:
  "\<not> isServiceAccountToken L (CurrentIdToken b) \<Longrightarrow>
   BZCertVerifier_Verify L now v b = Ok e \<longleftrightarrow>
   verifyInitialIdToken L now v (InitialIdToken b) b = Ok () \<and>
   verifyCurrentIdToken L v (CurrentIdToken b) = Ok e"
  unfolding BZCertVerifier_Verify_def by (auto split: res.splits)

lemma BZCert_Verify_Ok:
  "BZCert_Verify L now b p org ps = Ok b' \<longleftrightarrow>
   (\<exists>v e. NewVerifier L p org ps = Ok v \<and> BZCertVerifier_Verify L now v b = Ok e \<and>
      b' = b\<lparr>cert_hash := EncodeToString (sha3 L (hash_preimage (BZCert_json b))), expiration := e\<rparr>)"
  unfolding BZCert_Verify_def by (auto split: res.splits)

text \<open>
  C30. A certificate that verifies is bound to its key: some id token that the identity
  provider (or, for a service account, the key set at an allow-listed URL) vouches for
  carries the nonce that commits to the client's public key and to a value signed with it.
  A user's initial token is at most five years old and both tokens belong to the configured
  Google or Microsoft organisation; the certificate expires with the current token, and
  its hash is the hash of its exported fields.
\<close>

theorem BZCert_Verify_sound:
  assumes "BZCert_Verify L now b provider org patterns = Ok b'"
  shows "cert_hash b' = EncodeToString (sha3 L (hash_preimage (BZCert_json b))) \<and>
    (\<exists>c. nonce_bound L b (ClaimNonce c) \<and>
      (if isServiceAccountToken L (CurrentIdToken b)
       then \<exists>jku pattern email url.
              ExtractJwksUrlPattern jku = Ok (pattern, email) \<and>
              url_ParseRequestURI L pattern = Ok url \<and> url \<in> set patterns \<and>
              oidc_VerifyRemote L jku email (CurrentIdToken b) = Ok c \<and>
              expiration b' = time_Unix (ClaimExpiration c)
       else \<exists>iss sso cur.
              issuer_url provider org = Ok iss \<and> oidc_NewProvider L iss = Ok sso \<and>
              oidc_Verify L sso True (InitialIdToken b) = Ok c \<and>
              now \<le> time_Unix (IssuedAt c) + initialIdTokenLifetime \<and>
              oidc_Verify L sso False (CurrentIdToken b) = Ok cur \<and>
              org_matches provider org c \<and> org_matches provider org cur \<and>
              expiration b' = time_Unix (ClaimExpiration cur)))"
proof -
  obtain v e where v: "NewVerifier L provider org patterns = Ok v"
    and e: "BZCertVerifier_Verify L now v b = Ok e"
    and b': "b' = b\<lparr>cert_hash := EncodeToString (sha3 L (hash_preimage (BZCert_json b))), expiration := e\<rparr>"
    using assms unfolding BZCert_Verify_Ok by blast
  show ?thesis
  proof (cases "isServiceAccountToken L (CurrentIdToken b)")
    case True
    with e have "VerifyServiceAccountIdToken L v b = Ok e"
      by (simp add: BZCertVerifier_Verify_def)
    from VerifyServiceAccountIdToken_Ok [OF this] obtain jku pattern email url c where
      sa: "ExtractJwksUrlPattern jku = Ok (pattern, email)" "url_ParseRequestURI L pattern = Ok url"
        "url \<in> set (allowedJwksUrlPatterns v)"
        "oidc_VerifyRemote L jku email (CurrentIdToken b) = Ok c"
        "nonce_bound L b (ClaimNonce c)" "e = time_Unix (ClaimExpiration c)"
      by blast
    moreover have "allowedJwksUrlPatterns v = patterns" using v by (auto simp: NewVerifier_Ok)
    ultimately show ?thesis using b' True by simp blast
  next
    case False
    with e v b' show ?thesis
      by (auto simp: Verifier_Verify_user_Ok verifyInitialIdToken_Ok verifyCurrentIdToken_Ok
          getTokenClaims_Ok NewVerifier_Ok)
  qed
qed

text \<open>
  Verification failures keep their type: when the provider is reachable, rejecting a
  user's certificate is always reported as an initial or a current id token error, which
  \<^verbatim>\<open>errors.As\<close> finds through the wrapping.
\<close>

lemma BZCert_Verify_error_kinds:
  assumes "BZCert_Verify L now b provider org patterns = Err e"
    and "NewVerifier L provider org patterns = Ok v"
    and "\<not> isServiceAccountToken L (CurrentIdToken b)"
  shows "errors_As InitialIdTokenError e \<or> errors_As CurrentIdTokenError e"
  using assms unfolding BZCert_Verify_def BZCertVerifier_Verify_def
  by (auto split: res.splits)

section \<open>Witnesses\<close>

text \<open>
  A provider whose tokens carry their nonce as their text, and a certificate for it: the
  initial token is the nonce of an all-zero key.
\<close>

definition wit_key :: string where
  "wit_key = replicate 32 CHR ''k''"

definition wit_nonce_lib :: lib where
  "wit_nonce_lib = toy_lib\<lparr>sha3 := (\<lambda>s. replicate 32 CHR ''h'')\<rparr>"

definition wit_cert :: BZCert where
  "wit_cert =
     \<lparr> InitialIdToken = EncodeToString (replicate 32 CHR ''h''), CurrentIdToken = ''cur'',
       ClientPublicKey = EncodeToString wit_key, Rand = [],
       SignatureOnRand = EncodeToString (wit_key @ replicate 32 CHR ''h''),
       expiration = 0, cert_hash = [] \<rparr>"

lemma wit_nonce_lib_simps [simp]:
  "sha3 wit_nonce_lib x = replicate 32 CHR ''h''"
  "ed_verify wit_nonce_lib pk m sg \<longleftrightarrow> sg = take 32 pk @ m"
  "oidc_NewProvider wit_nonce_lib u = Ok u"
  "oidc_Verify wit_nonce_lib p sk t = Ok \<lparr> HD = t, ClaimNonce = t, TID = t, IssuedAt = 0, ClaimExpiration = 10 \<rparr>"
  "jose_ParseSigned wit_nonce_lib t = Ok [HAbsent]"
  by (simp_all add: wit_nonce_lib_def)

lemma wit_no_service_account [simp]: "\<not> isServiceAccountToken wit_nonce_lib t"
  by (simp add: isServiceAccountToken_def)

lemma wit_NewVerifier [simp]:
  "NewVerifier wit_nonce_lib ''okta'' ''acme'' [] =
   Ok \<lparr> orgId = ''acme'', ssoProvider = ''https://acme.okta.com'', providerType = ''okta'',
        allowedJwksUrlPatterns = [] \<rparr>"
  by (simp add: NewVerifier_def issuer_url_def)

lemma wit_nonce_bound: "nonce_bound wit_nonce_lib wit_cert (InitialIdToken wit_cert)"
  by (simp add: nonce_bound_def wit_cert_def PublicKeyFromString_def wit_key_def
      PublicKey_Verify_def)

lemmas wit_time = initialIdTokenLifetime_def second_def time_Unix_def org_matches_def

lemma wit_Verify:
  "BZCert_Verify wit_nonce_lib 0 wit_cert ''okta'' ''acme'' [] =
   Ok (wit_cert\<lparr>cert_hash := EncodeToString (replicate 32 CHR ''h''), expiration := 10 * second\<rparr>)"
  using wit_nonce_bound
  by (simp add: BZCert_Verify_Ok Verifier_Verify_user_Ok verifyInitialIdToken_Ok
      verifyCurrentIdToken_Ok getTokenClaims_Ok wit_time)

theorem BZCert_Verify_sound_witness:
  "\<exists>b'. BZCert_Verify wit_nonce_lib 0 wit_cert ''okta'' ''acme'' [] = Ok b' \<and>
   cert_hash b' = EncodeToString (replicate 32 CHR ''h'')"
  using BZCert_Verify_sound [OF wit_Verify] wit_Verify by auto

lemma wit_bad_nonce:
  "verifyAuthNonce wit_nonce_lib b ''bad'' = Err (errorf ''nonce in ID token does not match calculated nonce hash'')"
proof -
  have "DecodeString ''bad'' = None" by (simp add: DecodeString_def)
  then have "EncodeToString x \<noteq> ''bad''" for x by (metis Decode_Encode option.distinct(1))
  then have "''bad'' \<noteq> EncodeToString (replicate 32 CHR ''h'')" by metis
  then show ?thesis by (simp add: verifyAuthNonce_def)
qed

end
