(* ===== verification/Mrtap_Message.thy ===== *)
theory Mrtap_Message
  imports BZCert
begin

text \<open>
  \<^verbatim>\<open>bzerolib/mrtap/message\<close>: the four MrTAP payloads, the message that carries one, how a
  payload is hashed, and how each side builds the next payload of the hash chain off the
  one it received.
\<close>

section \<open>Payloads\<close>

datatype PayloadType = Syn | SynAck | Data | DataAck | OtherType string

fun PayloadType_string :: "PayloadType \<Rightarrow> string" where
  "PayloadType_string Syn = ''Syn''"
| "PayloadType_string SynAck = ''SynAck''"
| "PayloadType_string Data = ''Data''"
| "PayloadType_string DataAck = ''DataAck''"
| "PayloadType_string (OtherType s) = s"

definition PayloadType_of :: "string \<Rightarrow> PayloadType" where
  "PayloadType_of t =
     (if t = ''Syn'' then Syn else if t = ''SynAck'' then SynAck
      else if t = ''Data'' then Data else if t = ''DataAck'' then DataAck else OtherType t)"

definition SchemaVersion :: string where
  "SchemaVersion = ''2.2''"

record SynPayload =
  syn_SchemaVersion :: string
  syn_Type :: string
  syn_Action :: string
  syn_ActionPayload :: "string option"
  syn_Timestamp :: string
  syn_TargetId :: string
  syn_Nonce :: string
  syn_BZCert :: BZCert

record SynAckPayload =
  synack_SchemaVersion :: string
  synack_Type :: string
  synack_Action :: string
  synack_ActionResponsePayload :: "string option"
  synack_Timestamp :: string
  synack_TargetPublicKey :: string
  synack_Nonce :: string
  synack_HPointer :: string

record DataPayload =
  data_SchemaVersion :: string
  data_Type :: string
  data_Action :: string
  data_Timestamp :: string
  data_TargetId :: string
  data_HPointer :: string
  data_BZCertHash :: string
  data_ActionPayload :: "string option"

record DataAckPayload =
  dataack_SchemaVersion :: string
  dataack_Type :: string
  dataack_Action :: string
  dataack_Timestamp :: string
  dataack_TargetPublicKey :: string
  dataack_HPointer :: string
  dataack_ActionResponsePayload :: "string option"

text \<open>The dynamic type of the \<^verbatim>\<open>Payload\<close> interface; \<^term>\<open>PNil\<close> is the nil interface.\<close>

datatype payload =
  PSyn SynPayload | PSynAck SynAckPayload | PData DataPayload | PDataAck DataAckPayload | PNil

record MrtapMessage =
  msg_Type :: PayloadType
  msg_Payload :: payload
  msg_Signature :: string

definition zero_message :: MrtapMessage where
  "zero_message = \<lparr> msg_Type = OtherType [], msg_Payload = PNil, msg_Signature = [] \<rparr>"

fun bytes_json :: "string option \<Rightarrow> json" where
  "bytes_json None = JNull"
| "bytes_json (Some b) = JString (EncodeToString b)"

fun payload_json :: "payload \<Rightarrow> json" where
  "payload_json (PSyn s) = JObject
     [(''schemaVersion'', JString (syn_SchemaVersion s)), (''type'', JString (syn_Type s)),
      (''action'', JString (syn_Action s)), (''actionPayload'', bytes_json (syn_ActionPayload s)),
      (''timestamp'', JString (syn_Timestamp s)), (''targetId'', JString (syn_TargetId s)),
      (''nonce'', JString (syn_Nonce s)), (''bZCert'', BZCert_json (syn_BZCert s))]"
| "payload_json (PSynAck s) = JObject
     [(''schemaVersion'', JString (synack_SchemaVersion s)), (''type'', JString (synack_Type s)),
      (''action'', JString (synack_Action s)),
      (''actionResponsePayload'', bytes_json (synack_ActionResponsePayload s)),
      (''timestamp'', JString (synack_Timestamp s)),
      (''targetPublicKey'', JString (synack_TargetPublicKey s)),
      (''nonce'', JString (synack_Nonce s)), (''hPointer'', JString (synack_HPointer s))]"
| "payload_json (PData d) = JObject
     [(''schemaVersion'', JString (data_SchemaVersion d)), (''type'', JString (data_Type d)),
      (''action'', JString (data_Action d)), (''timestamp'', JString (data_Timestamp d)),
      (''targetId'', JString (data_TargetId d)), (''hPointer'', JString (data_HPointer d)),
      (''bZCertHash'', JString (data_BZCertHash d)),
      (''actionPayload'', bytes_json (data_ActionPayload d))]"
| "payload_json (PDataAck d) = JObject
     [(''schemaVersion'', JString (dataack_SchemaVersion d)), (''type'', JString (dataack_Type d)),
      (''action'', JString (dataack_Action d)), (''timestamp'', JString (dataack_Timestamp d)),
      (''targetPublicKey'', JString (dataack_TargetPublicKey d)),
      (''hPointer'', JString (dataack_HPointer d)),
      (''actionResponsePayload'', bytes_json (dataack_ActionResponsePayload d))]"
| "payload_json PNil = JNull"

section \<open>Building responses\<close>

text \<open>The base64 hash of a payload, the value hash pointers hold.\<close>

definition payload_hash :: "lib \<Rightarrow> payload \<Rightarrow> string" where
  "payload_hash L p = EncodeToString (fst (HashPayload L (payload_json p)))"

definition unix_string :: "int \<Rightarrow> string" where
  "unix_string now = show_nat (nat (now div second))"

definition SynPayload_BuildResponsePayload ::
  "lib \<Rightarrow> int \<Rightarrow> SynPayload \<Rightarrow> string option \<Rightarrow> string \<Rightarrow> string \<Rightarrow> string \<Rightarrow> SynAckPayload" where
  "SynPayload_BuildResponsePayload L now s actionPayload pubKey nonce schemaVersion =
     \<lparr> synack_SchemaVersion = schemaVersion, synack_Type = PayloadType_string SynAck,
       synack_Action = syn_Action s, synack_ActionResponsePayload = actionPayload,
       synack_Timestamp = unix_string now, synack_TargetPublicKey = pubKey,
       synack_Nonce = nonce, synack_HPointer = payload_hash L (PSyn s) \<rparr>"

definition SynAckPayload_BuildResponsePayload ::
  "lib \<Rightarrow> SynAckPayload \<Rightarrow> string \<Rightarrow> string option \<Rightarrow> string \<Rightarrow> string \<Rightarrow> DataPayload" where
  "SynAckPayload_BuildResponsePayload L s action actionPayload bzCertHash schemaVersion =
     \<lparr> data_SchemaVersion = schemaVersion, data_Type = PayloadType_string Data,
       data_Action = action, data_Timestamp = [], data_TargetId = synack_TargetPublicKey s,
       data_HPointer = payload_hash L (PSynAck s), data_BZCertHash = bzCertHash,
       data_ActionPayload = actionPayload \<rparr>"

definition DataPayload_BuildResponsePayload ::
  "lib \<Rightarrow> DataPayload \<Rightarrow> string option \<Rightarrow> string \<Rightarrow> string \<Rightarrow> DataAckPayload" where
  "DataPayload_BuildResponsePayload L d actionPayload pubKey schemaVersion =
     \<lparr> dataack_SchemaVersion = schemaVersion, dataack_Type = PayloadType_string DataAck,
       dataack_Action = data_Action d, dataack_Timestamp = [], dataack_TargetPublicKey = pubKey,
       dataack_HPointer = payload_hash L (PData d), dataack_ActionResponsePayload = actionPayload \<rparr>"

definition DataAckPayload_BuildResponsePayload ::
  "lib \<Rightarrow> DataAckPayload \<Rightarrow> string \<Rightarrow> string option \<Rightarrow> string \<Rightarrow> string \<Rightarrow> DataPayload" where
  "DataAckPayload_BuildResponsePayload L d action actionPayload bzCertHash schemaVersion =
     \<lparr> data_SchemaVersion = schemaVersion, data_Type = PayloadType_string Data,
       data_Action = action, data_Timestamp = [], data_TargetId = dataack_TargetPublicKey d,
       data_HPointer = payload_hash L (PDataAck d), data_BZCertHash = bzCertHash,
       data_ActionPayload = actionPayload \<rparr>"

section \<open>Messages\<close>

definition MrtapMessage_Hash :: "lib \<Rightarrow> MrtapMessage \<Rightarrow> string" where
  "MrtapMessage_Hash L m =
     (case HashPayload L (payload_json (msg_Payload m)) of
        (hashBytes, ok) \<Rightarrow> if \<not> ok then [] else EncodeToString hashBytes)"

definition BuildUnsignedSynAck ::
  "lib \<Rightarrow> int \<Rightarrow> MrtapMessage \<Rightarrow> string option \<Rightarrow> string \<Rightarrow> string \<Rightarrow> string \<Rightarrow> MrtapMessage res" where
  "BuildUnsignedSynAck L now m payload pubKey nonce schemaVersion =
     (case msg_Payload m of
        PSyn msg \<Rightarrow> Ok \<lparr> msg_Type = SynAck,
          msg_Payload = PSynAck (SynPayload_BuildResponsePayload L now msg payload pubKey nonce schemaVersion),
          msg_Signature = [] \<rparr>
      | _ \<Rightarrow> Err (errorf ''can't build syn/ack off a message that isn't a syn''))"

definition BuildUnsignedDataAck ::
  "lib \<Rightarrow> MrtapMessage \<Rightarrow> string option \<Rightarrow> string \<Rightarrow> string \<Rightarrow> MrtapMessage res" where
  "BuildUnsignedDataAck L m payload pubKey schemaVersion =
     (case msg_Payload m of
        PData msg \<Rightarrow> Ok \<lparr> msg_Type = DataAck,
          msg_Payload = PDataAck (DataPayload_BuildResponsePayload L msg payload pubKey schemaVersion),
          msg_Signature = [] \<rparr>
      | _ \<Rightarrow> Err (errorf ''can't build data/ack off a message that isn't a data''))"

definition BuildUnsignedData ::
  "lib \<Rightarrow> MrtapMessage \<Rightarrow> string \<Rightarrow> string option \<Rightarrow> string \<Rightarrow> string \<Rightarrow> MrtapMessage res" where
  "BuildUnsignedData L m action actionPayload bzcertHash schemaVersion =
     (case msg_Payload m of
        PSynAck msg \<Rightarrow> Ok \<lparr> msg_Type = Data,
          msg_Payload = PData (SynAckPayload_BuildResponsePayload L msg action actionPayload bzcertHash schemaVersion),
          msg_Signature = [] \<rparr>
      | PDataAck msg \<Rightarrow> Ok \<lparr> msg_Type = Data,
          msg_Payload = PData (DataAckPayload_BuildResponsePayload L msg action actionPayload bzcertHash schemaVersion),
          msg_Signature = [] \<rparr>
      | _ \<Rightarrow> Err (errorf ''can't build data responses for message type''))"

definition GetHpointer :: "MrtapMessage \<Rightarrow> string res" where
  "GetHpointer m =
     (case msg_Payload m of
        PSyn _ \<Rightarrow> Err (errorf ''syn payloads don't have hpointers'')
      | PSynAck msg \<Rightarrow> Ok (synack_HPointer msg)
      | PData msg \<Rightarrow> Ok (data_HPointer msg)
      | PDataAck msg \<Rightarrow> Ok (dataack_HPointer msg)
      | PNil \<Rightarrow> Err (errorf ''could not get hpointer for invalid MrTAP message type''))"

definition GetAction :: "MrtapMessage \<Rightarrow> string" where
  "GetAction m =
     (case msg_Payload m of
        PSyn msg \<Rightarrow> syn_Action msg
      | PSynAck msg \<Rightarrow> synack_Action msg
      | PData msg \<Rightarrow> data_Action msg
      | PDataAck msg \<Rightarrow> dataack_Action msg
      | PNil \<Rightarrow> [])"

definition GetActionPayload :: "MrtapMessage \<Rightarrow> string option" where
  "GetActionPayload m =
     (case msg_Payload m of
        PSyn msg \<Rightarrow> syn_ActionPayload msg
      | PSynAck msg \<Rightarrow> synack_ActionResponsePayload msg
      | PData msg \<Rightarrow> data_ActionPayload msg
      | PDataAck msg \<Rightarrow> dataack_ActionResponsePayload msg
      | PNil \<Rightarrow> Some [])"

definition VerifySignature :: "lib \<Rightarrow> MrtapMessage \<Rightarrow> PublicKey option \<Rightarrow> unit res" where
  "VerifySignature L m publicKey =
     (case HashPayload L (payload_json (msg_Payload m)) of
        (hashBits, ok) \<Rightarrow>
          if \<not> ok then Err (errorf ''failed to hash the keysplitting payload'')
          else (case PublicKey_Verify L publicKey hashBits (msg_Signature m) of
                  Panic \<Rightarrow> Panic | Err e \<Rightarrow> Err e
                | Ok True \<Rightarrow> Ok ()
                | Ok False \<Rightarrow> Err (errorf (''invalid signature foer payload: '' @
                    show_value L (json_print (payload_json (msg_Payload m)))))))"

definition MrtapMessage_Sign :: "lib \<Rightarrow> MrtapMessage \<Rightarrow> PrivateKey option \<Rightarrow> (MrtapMessage \<times> bool) res" where
  "MrtapMessage_Sign L m privateKey =
     (case HashPayload L (payload_json (msg_Payload m)) of
        (hashBits, ok) \<Rightarrow>
          res_map (\<lambda>sg. (m\<lparr>msg_Signature := sg\<rparr>, ok)) (PrivateKey_Sign L privateKey hashBits))"

section \<open>Reading messages\<close>

text \<open>
  \<^verbatim>\<open>UnmarshalJSON\<close> works on the object the text parses to; a key may be absent, hold
  \<^verbatim>\<open>null\<close> (a nil pointer) or hold a raw value. How \<^verbatim>\<open>encoding/json\<close> fills a string or a
  payload struct from a raw value is the codec's business.
\<close>

type_synonym objmap = "string \<Rightarrow> json option option"

record codec =
  dec_string :: "json \<Rightarrow> string res"
  dec_syn :: "json \<Rightarrow> SynPayload res"
  dec_synack :: "json \<Rightarrow> SynAckPayload res"
  dec_data :: "json \<Rightarrow> DataPayload res"
  dec_dataack :: "json \<Rightarrow> DataAckPayload res"

definition deref :: "objmap \<Rightarrow> string \<Rightarrow> json res" where
  "deref om k = (case om k of Some (Some raw) \<Rightarrow> Ok raw | _ \<Rightarrow> Panic)"

definition read_payload :: "codec \<Rightarrow> PayloadType \<Rightarrow> json \<Rightarrow> payload res" where
  "read_payload C t raw =
     (case t of
        Syn \<Rightarrow> wrap_err (\<lambda>_. errorf ''malformed Syn Payload'') (res_map PSyn (dec_syn C raw))
      | SynAck \<Rightarrow> wrap_err (\<lambda>_. errorf ''malformed SynAck Payload'') (res_map PSynAck (dec_synack C raw))
      | Data \<Rightarrow> wrap_err (\<lambda>_. errorf ''malformed Data Payload'') (res_map PData (dec_data C raw))
      | DataAck \<Rightarrow> wrap_err (\<lambda>_. errorf ''malformed DataAck Payload'') (res_map PDataAck (dec_dataack C raw))
      | OtherType _ \<Rightarrow> Err (errorf ''type mismatch in MrTAP message and actual message payload''))"

definition MrtapMessage_UnmarshalJSON :: "codec \<Rightarrow> objmap res \<Rightarrow> MrtapMessage res" where
  "MrtapMessage_UnmarshalJSON C data =
     (case data of
        Err e \<Rightarrow> Err e | Panic \<Rightarrow> Panic
      | Ok om \<Rightarrow>
         (case deref om ''type'' of
            Err e \<Rightarrow> Err e | Panic \<Rightarrow> Panic
          | Ok rt \<Rightarrow>
             (case dec_string C rt of
                Err e \<Rightarrow> Err e | Panic \<Rightarrow> Panic
              | Ok t \<Rightarrow>
                 (case deref om ''signature'' of
                    Err e \<Rightarrow> Err e | Panic \<Rightarrow> Panic
                  | Ok rs \<Rightarrow>
                     (case dec_string C rs of
                        Err e \<Rightarrow> Err e | Panic \<Rightarrow> Panic
                      | Ok sg \<Rightarrow>
                         (case deref om (if om ''payload'' \<noteq> None then ''payload'' else ''keysplittingPayload'') of
                            Err e \<Rightarrow> Err e | Panic \<Rightarrow> Panic
                          | Ok raw \<Rightarrow>
                              res_map (\<lambda>p. \<lparr> msg_Type = PayloadType_of t, msg_Payload = p, msg_Signature = sg \<rparr>)
                                (read_payload C (PayloadType_of t) raw)))))))"

text \<open>\<^verbatim>\<open>MarshalJSON\<close> writes the payload twice, under its current and its legacy name.\<close>

definition MrtapMessage_MarshalJSON :: "MrtapMessage \<Rightarrow> json" where
  "MrtapMessage_MarshalJSON m = JObject
     [(''keysplittingPayload'', payload_json (msg_Payload m)),
      (''type'', JString (PayloadType_string (msg_Type m))),
      (''payload'', payload_json (msg_Payload m)),
      (''signature'', JString (msg_Signature m))]"

definition objmap_of :: "json \<Rightarrow> objmap res" where
  "objmap_of j =
     (case j of
        JObject kvs \<Rightarrow> Ok (\<lambda>k. map_option (\<lambda>v. if v = JNull then None else Some v) (map_of kvs k))
      | JNull \<Rightarrow> Ok (\<lambda>_. None)
      | JString _ \<Rightarrow> Err (errorf ''json: cannot unmarshal string into Go value''))"

section \<open>Lemmas\<close>

lemma MrtapMessage_Hash_eq [simp]: "MrtapMessage_Hash L m = payload_hash L (msg_Payload m)"
  by (simp add: MrtapMessage_Hash_def payload_hash_def HashPayload_def)

lemma payload_hash_nonempty: "sha3_len L \<Longrightarrow> payload_hash L p \<noteq> []"
  unfolding payload_hash_def HashPayload_def sha3_len_def
  by (metis Encode_eq_empty fst_conv length_0_conv zero_neq_numeral)

lemma Sign_key_pair:
  assumes "key_pair L p s"
  shows "\<exists>m'. MrtapMessage_Sign L m s = Ok (m', True) \<and> msg_Type m' = msg_Type m \<and>
              msg_Payload m' = msg_Payload m \<and> VerifySignature L m' p = Ok ()"
proof -
  obtain sg where "PrivateKey_Sign L s (sha3 L (hash_preimage (payload_json (msg_Payload m)))) = Ok sg"
    "PublicKey_Verify L p (sha3 L (hash_preimage (payload_json (msg_Payload m)))) sg = Ok True"
    using key_pair_Verify [OF assms] by blast
  then show ?thesis
    by (simp add: MrtapMessage_Sign_def VerifySignature_def HashPayload_def)
qed

lemma Sign_Ok:
  "MrtapMessage_Sign L m s = Ok (m', ok) \<Longrightarrow>
   ok \<and> msg_Type m' = msg_Type m \<and> msg_Payload m' = msg_Payload m"
  unfolding MrtapMessage_Sign_def HashPayload_def
  by (cases "PrivateKey_Sign L s (sha3 L (hash_preimage (payload_json (msg_Payload m))))") auto

lemma Sign_good:
  "good_priv s \<Longrightarrow> \<exists>sg. MrtapMessage_Sign L m s = Ok (m\<lparr>msg_Signature := sg\<rparr>, True)"
  by (auto simp: MrtapMessage_Sign_def HashPayload_def good_priv_def PrivateKey_Sign_def)

definition type_matches :: "MrtapMessage \<Rightarrow> bool" where
  "type_matches m \<longleftrightarrow>
     (case msg_Payload m of
        PSyn _ \<Rightarrow> msg_Type m = Syn | PSynAck _ \<Rightarrow> msg_Type m = SynAck
      | PData _ \<Rightarrow> msg_Type m = Data | PDataAck _ \<Rightarrow> msg_Type m = DataAck | PNil \<Rightarrow> False)"

definition codec_reads :: "codec \<Rightarrow> MrtapMessage \<Rightarrow> bool" where
  "codec_reads C m \<longleftrightarrow>
     (\<forall>s. dec_string C (JString s) = Ok s) \<and>
     (case msg_Payload m of
        PSyn p \<Rightarrow> dec_syn C (payload_json (PSyn p)) = Ok p
      | PSynAck p \<Rightarrow> dec_synack C (payload_json (PSynAck p)) = Ok p
      | PData p \<Rightarrow> dec_data C (payload_json (PData p)) = Ok p
      | PDataAck p \<Rightarrow> dec_dataack C (payload_json (PDataAck p)) = Ok p
      | PNil \<Rightarrow> True)"

text \<open>
  A message read from the wire has the type its payload has: every switch on the type
  may assert the payload's dynamic type without a panic.
\<close>

lemma UnmarshalJSON_type_matches:
  "MrtapMessage_UnmarshalJSON C data = Ok m \<Longrightarrow> type_matches m"
  unfolding MrtapMessage_UnmarshalJSON_def read_payload_def type_matches_def
  by (auto split: res.splits PayloadType.splits)
     (auto elim!: res_map.elims wrap_err.elims simp: PayloadType_of_def split: if_splits)

lemma payload_json_JNull [simp]: "payload_json p = JNull \<longleftrightarrow> p = PNil"
  by (cases p) auto

definition without_key :: "string \<Rightarrow> objmap res \<Rightarrow> objmap res" where
  "without_key k = res_map (\<lambda>om. om(k := None))"

text \<open>
  C33. Messages survive the wire in both formats: what \<^verbatim>\<open>MarshalJSON\<close> writes is read back
  as the same message, and a peer that finds only the legacy \<^verbatim>\<open>keysplittingPayload\<close> key
  reads the same message too.
\<close>

theorem MrtapMessage_json_roundtrip:
  assumes "type_matches m" and "codec_reads C m"
  shows "MrtapMessage_UnmarshalJSON C (objmap_of (MrtapMessage_MarshalJSON m)) = Ok m \<and>
         MrtapMessage_UnmarshalJSON C
           (without_key ''payload'' (objmap_of (MrtapMessage_MarshalJSON m))) = Ok m"
proof -
  have str: "dec_string C (JString x) = Ok x" for x
    using assms(2) by (simp add: codec_reads_def)
  have ty: "PayloadType_of (PayloadType_string (msg_Type m)) = msg_Type m"
    using assms(1) by (auto simp: type_matches_def PayloadType_of_def split: payload.splits)
  have pl: "read_payload C (msg_Type m) (payload_json (msg_Payload m)) = Ok (msg_Payload m)"
    using assms by (auto simp: type_matches_def codec_reads_def read_payload_def split: payload.splits)
  have "msg_Payload m \<noteq> PNil" using assms(1) by (auto simp: type_matches_def)
  then show ?thesis
    using ty pl str
    by (simp add: MrtapMessage_UnmarshalJSON_def MrtapMessage_MarshalJSON_def objmap_of_def deref_def
        without_key_def)
qed

definition wit_data :: DataPayload where
  "wit_data =
     \<lparr> data_SchemaVersion = ''2.2'', data_Type = ''Data'', data_Action = ''shell/input'',
       data_Timestamp = [], data_TargetId = ''t'', data_HPointer = ''h'', data_BZCertHash = ''c'',
       data_ActionPayload = Some ''x'' \<rparr>"

definition wit_codec :: codec where
  "wit_codec =
     \<lparr> dec_string = (\<lambda>j. case j of JString s \<Rightarrow> Ok s | _ \<Rightarrow> Err (errorf [])),
       dec_syn = (\<lambda>_. Err (errorf [])), dec_synack = (\<lambda>_. Err (errorf [])),
       dec_data = (\<lambda>j. if j = payload_json (PData wit_data) then Ok wit_data else Err (errorf [])),
       dec_dataack = (\<lambda>_. Err (errorf [])) \<rparr>"

theorem MrtapMessage_json_roundtrip_witness:
  "MrtapMessage_UnmarshalJSON wit_codec
     (objmap_of (MrtapMessage_MarshalJSON
        \<lparr> msg_Type = Data, msg_Payload = PData wit_data, msg_Signature = ''s'' \<rparr>)) =
   Ok \<lparr> msg_Type = Data, msg_Payload = PData wit_data, msg_Signature = ''s'' \<rparr>"
  by (rule MrtapMessage_json_roundtrip [THEN conjunct1])
     (simp_all add: type_matches_def codec_reads_def wit_codec_def)

text \<open>
  Reading a message never returns an error for a missing field: an object without a
  type, or with a type but without a signature, or without any payload key, is dereferenced
  as a nil pointer and the reader panics.
\<close>

theorem UnmarshalJSON_missing_field_panics:
  "(om ''type'' = None \<longrightarrow> MrtapMessage_UnmarshalJSON C (Ok om) = Panic) \<and>
   (om ''type'' = Some (Some rt) \<and> dec_string C rt = Ok t \<and> om ''signature'' = None \<longrightarrow>
      MrtapMessage_UnmarshalJSON C (Ok om) = Panic) \<and>
   (om ''type'' = Some (Some rt) \<and> dec_string C rt = Ok t \<and>
    om ''signature'' = Some (Some rs) \<and> dec_string C rs = Ok sg \<and>
    om ''payload'' = None \<and> om ''keysplittingPayload'' = None \<longrightarrow>
      MrtapMessage_UnmarshalJSON C (Ok om) = Panic)"
  by (auto simp: MrtapMessage_UnmarshalJSON_def deref_def)

theorem UnmarshalJSON_missing_field_panics_witness:
  "MrtapMessage_UnmarshalJSON wit_codec (Ok (\<lambda>_. None)) = Panic"
  using UnmarshalJSON_missing_field_panics [of "\<lambda>_. None" wit_codec] by simp

end
