(* ===== verification/Error_Message.thy ===== *)
theory Error_Message
  imports Bzero_Prelude
begin

text \<open>
  \<^verbatim>\<open>bzerolib/error\<close>: the error message an agent sends to a daemon. The type of an error is read
  through a custom JSON method that renames the legacy validation error.
\<close>

definition CurrentVersion :: string where
  "CurrentVersion = ''202205''"

datatype ErrorType =
    MrtapValidationError | MrtapLegacyValidationError | ComponentStartupError
  | ComponentProcessingError | OtherErrorType string

fun ErrorType_string :: "ErrorType \<Rightarrow> string" where
  "ErrorType_string MrtapValidationError = ''MrtapValidationError''"
| "ErrorType_string MrtapLegacyValidationError = ''KeysplittingValidationError''"
| "ErrorType_string ComponentStartupError = ''ComponentStartupError''"
| "ErrorType_string ComponentProcessingError = ''ComponentProcessingError''"
| "ErrorType_string (OtherErrorType s) = s"

definition ErrorType_of :: "string \<Rightarrow> ErrorType" where
  "ErrorType_of s =
     (if s = ''MrtapValidationError'' then MrtapValidationError
      else if s = ''KeysplittingValidationError'' then MrtapLegacyValidationError
      else if s = ''ComponentStartupError'' then ComponentStartupError
      else if s = ''ComponentProcessingError'' then ComponentProcessingError
      else OtherErrorType s)"

record ErrorMessage =
  err_SchemaVersion :: string
  err_Timestamp :: int
  err_Type :: ErrorType
  err_Message :: string
  err_HPointer :: string

definition ErrorType_UnmarshalJSON :: "string res \<Rightarrow> ErrorType res" where
  "ErrorType_UnmarshalJSON data =
     (case data of
        Err e \<Rightarrow> Err e | Panic \<Rightarrow> Panic
      | Ok t \<Rightarrow> if ErrorType_of t = MrtapLegacyValidationError then Ok MrtapValidationError
                else Ok (ErrorType_of t))"

lemma ErrorType_of_string: "ErrorType_string (ErrorType_of s) = s"
  by (simp add: ErrorType_of_def)

end
