(* ===== verification/Agent_Message.thy ===== *)
theory Agent_Message
  imports Mrtap_Message Error_Message
begin

text \<open>
  \<^verbatim>\<open>bzerolib/connection/agentmessage\<close> and \<^verbatim>\<open>bzerolib/stream/message\<close>: the envelope every message
  between agent and daemon travels in, and the stream messages a plugin sends.

  The payload of an envelope is kept as the value it was marshalled from; text of any other
  origin is \<^verbatim>\<open>WRaw\<close>, and what a reader makes of a payload of another kind is an argument of the reader. Messages are
  read back as they were written (\<^verbatim>\<open>MrtapMessage_json_roundtrip\<close>).
\<close>

record StreamMessage =
  sm_RequestId :: string
  sm_SchemaVersion :: string
  sm_SequenceNumber :: int
  sm_Action :: string
  sm_Type :: string
  sm_More :: bool
  sm_LogId :: string
  sm_Content :: string

datatype MessageType =
    MTMrtap | MTMrtapLegacy | MTStream | MTError | MTOpenDataChannel | MTCloseDataChannel
  | MTCloseDaemonWebsocket | MTCloseAgentWebsocket | MTOpenWebsocket | MTCloseWebsocket
  | MTCloseAllConnections | MTHealthCheck | MTClusterUsers | MTRestart | MTConfigure
  | MTRetrieveLogs | MTKeyShard | MTOther string

fun MessageType_string :: "MessageType \<Rightarrow> string" where
  "MessageType_string MTMrtap = ''mrtap''"
| "MessageType_string MTMrtapLegacy = ''keysplitting''"
| "MessageType_string MTStream = ''stream''"
| "MessageType_string MTError = ''error''"
| "MessageType_string MTOpenDataChannel = ''openDataChannel''"
| "MessageType_string MTCloseDataChannel = ''closeDataChannel''"
| "MessageType_string MTCloseDaemonWebsocket = ''closeDaemonWebsocket''"
| "MessageType_string MTCloseAgentWebsocket = ''closeAgentWebsocket''"
| "MessageType_string MTOpenWebsocket = ''openWebsocket''"
| "MessageType_string MTCloseWebsocket = ''closeWebsocket''"
| "MessageType_string MTCloseAllConnections = ''closeAllConnections''"
| "MessageType_string MTHealthCheck = ''healthcheck''"
| "MessageType_string MTClusterUsers = ''clusterusers''"
| "MessageType_string MTRestart = ''restart''"
| "MessageType_string MTConfigure = ''configure''"
| "MessageType_string MTRetrieveLogs = ''retrievelogs''"
| "MessageType_string MTKeyShard = ''keyshard''"
| "MessageType_string (MTOther s) = s"

definition known_MessageTypes :: "MessageType list" where
  "known_MessageTypes = [MTMrtap, MTMrtapLegacy, MTStream, MTError, MTOpenDataChannel, MTCloseDataChannel,
     MTCloseDaemonWebsocket, MTCloseAgentWebsocket, MTOpenWebsocket, MTCloseWebsocket,
     MTCloseAllConnections, MTHealthCheck, MTClusterUsers, MTRestart, MTConfigure, MTRetrieveLogs, MTKeyShard]"

definition MessageType_of :: "string \<Rightarrow> MessageType" where
  "MessageType_of s =
     (case find (\<lambda>t. MessageType_string t = s) known_MessageTypes of Some t \<Rightarrow> t | None \<Rightarrow> MTOther s)"

definition MessageType_UnmarshalJSON :: "string res \<Rightarrow> MessageType res" where
  "MessageType_UnmarshalJSON data =
     (case data of
        Err e \<Rightarrow> Err e | Panic \<Rightarrow> Panic
      | Ok t \<Rightarrow> if MessageType_of t = MTMrtapLegacy then Ok MTMrtap else Ok (MessageType_of t))"

record OpenDataChannelPayload =
  odc_Syn :: MrtapMessage
  odc_Action :: string

datatype wire_payload =
    WMrtap MrtapMessage | WError ErrorMessage | WStream StreamMessage
  | WOpenDataChannel OpenDataChannelPayload | WRaw string

record AgentMessage =
  am_ChannelId :: string
  am_MessageType :: MessageType
  am_SchemaVersion :: string
  am_MessagePayload :: wire_payload

definition am_CurrentVersion :: string where
  "am_CurrentVersion = ''1.0''"

text \<open>
  A message as its receiver sees it: the message type and the error type go through their
  custom JSON methods.
\<close>

definition received_type :: "MessageType \<Rightarrow> MessageType" where
  "received_type t = (case MessageType_UnmarshalJSON (Ok (MessageType_string t)) of Ok t' \<Rightarrow> t' | _ \<Rightarrow> t)"

definition received_error :: "ErrorMessage \<Rightarrow> ErrorMessage" where
  "received_error e =
     (case ErrorType_UnmarshalJSON (Ok (ErrorType_string (err_Type e))) of
        Ok t \<Rightarrow> e\<lparr>err_Type := t\<rparr> | _ \<Rightarrow> e)"

definition over_the_wire :: "AgentMessage \<Rightarrow> AgentMessage" where
  "over_the_wire m = m\<lparr>am_MessageType := received_type (am_MessageType m),
     am_MessagePayload := (case am_MessagePayload m of
        WError e \<Rightarrow> WError (received_error e) | p \<Rightarrow> p)\<rparr>"

text \<open>
  Reading a payload as one kind of message; \<^term>\<open>other\<close> says what reading a payload of any other
  origin gives (it may be partly filled, refused, or panic).
\<close>

definition read_mrtap :: "(wire_payload \<Rightarrow> MrtapMessage res) \<Rightarrow> wire_payload \<Rightarrow> MrtapMessage res" where
  "read_mrtap other p = (case p of WMrtap m \<Rightarrow> Ok m | _ \<Rightarrow> other p)"

definition read_error :: "(wire_payload \<Rightarrow> ErrorMessage res) \<Rightarrow> wire_payload \<Rightarrow> ErrorMessage res" where
  "read_error other p = (case p of WError e \<Rightarrow> Ok e | _ \<Rightarrow> other p)"

definition read_stream :: "(wire_payload \<Rightarrow> StreamMessage res) \<Rightarrow> wire_payload \<Rightarrow> StreamMessage res" where
  "read_stream other p = (case p of WStream m \<Rightarrow> Ok m | _ \<Rightarrow> other p)"

lemma read_simps [simp]:
  "read_mrtap f (WMrtap m) = Ok m" "read_error g (WError e) = Ok e" "read_stream h (WStream s) = Ok s"
  by (simp_all add: read_mrtap_def read_error_def read_stream_def)

lemma received_types [simp]:
  "received_type MTMrtapLegacy = MTMrtap" "received_type MTMrtap = MTMrtap"
  "received_type MTError = MTError" "received_type MTStream = MTStream"
  "received_type MTOpenDataChannel = MTOpenDataChannel" "received_type MTCloseDataChannel = MTCloseDataChannel"
  by (simp_all add: received_type_def MessageType_UnmarshalJSON_def MessageType_of_def known_MessageTypes_def)

lemma received_error_legacy [simp]:
  "err_Type (received_error (e\<lparr>err_Type := MrtapLegacyValidationError\<rparr>)) = MrtapValidationError"
  by (simp add: received_error_def ErrorType_UnmarshalJSON_def ErrorType_of_def)

lemma received_error_fields [simp]:
  "err_Message (received_error e) = err_Message e" "err_HPointer (received_error e) = err_HPointer e"
  "err_SchemaVersion (received_error e) = err_SchemaVersion e"
  by (simp_all add: received_error_def split: res.split)

lemma over_the_wire_simps [simp]:
  "am_MessageType (over_the_wire m) = received_type (am_MessageType m)"
  "am_ChannelId (over_the_wire m) = am_ChannelId m"
  "am_MessagePayload m = WError e \<Longrightarrow> am_MessagePayload (over_the_wire m) = WError (received_error e)"
  "am_MessagePayload m = WMrtap x \<Longrightarrow> am_MessagePayload (over_the_wire m) = WMrtap x"
  "am_MessagePayload m = WStream s \<Longrightarrow> am_MessagePayload (over_the_wire m) = WStream s"
  by (simp_all add: over_the_wire_def)

text \<open>
  The legacy names stay readable: whatever type a message is sent with, the receiver sees
  the current name of it, and every other type unchanged.
\<close>

lemma MessageType_legacy_mapping:
  "MessageType_UnmarshalJSON (Ok s) =
     Ok (if s = ''keysplitting'' \<or> s = ''mrtap'' then MTMrtap else MessageType_of s) \<and>
   MessageType_string (MessageType_of s) = s"
proof -
  have str: "MessageType_string (MessageType_of s) = s"
  proof (cases "find (\<lambda>t. MessageType_string t = s) known_MessageTypes")
    case (Some t)
    then have "MessageType_string t = s" by (auto simp: find_Some_iff)
    with Some show ?thesis by (simp add: MessageType_of_def)
  qed (simp add: MessageType_of_def)
  have legacy: "MessageType_of s \<noteq> MTMrtapLegacy" if "s \<noteq> ''keysplitting''"
    using str that by (metis MessageType_string.simps(2))
  have "MessageType_of ''keysplitting'' = MTMrtapLegacy" "MessageType_of ''mrtap'' = MTMrtap"
    by (simp_all add: MessageType_of_def known_MessageTypes_def)
  with legacy have "MessageType_UnmarshalJSON (Ok s) =
      Ok (if s = ''keysplitting'' \<or> s = ''mrtap'' then MTMrtap else MessageType_of s)"
    by (simp add: MessageType_UnmarshalJSON_def)
  with str show ?thesis by blast
qed

end
