(* ===== verification/Broker.thy ===== *)
theory Broker
  imports Agent_Message
begin

text \<open>
  \<^verbatim>\<open>bzerolib/connection/broker\<close>: the table through which a connection hands each incoming message
  to the data channel it is for. A channel is known through the interface \<^verbatim>\<open>IChannel\<close>: a
  \<^verbatim>\<open>Receive\<close> that blocks is \<^term>\<open>None\<close>, a \<^verbatim>\<open>Close\<close> returns the channel and what it sends on the
  connection before it is dead. Every subscriber is an object, so the test for nil in
  \<^verbatim>\<open>Broadcast\<close> never applies. The order of a Go map is not fixed; here it is that of the
  subscriptions.
\<close>

record 'c channel_ops =
  ch_Receive :: "'c \<Rightarrow> AgentMessage \<Rightarrow> 'c option"
  ch_Close :: "'c \<Rightarrow> gerror \<Rightarrow> 'c \<times> AgentMessage list"

type_synonym 'c broker = "(string \<times> 'c) list"

definition Broker_New :: "'c broker" where
  "Broker_New = []"

definition Broker_Subscribe :: "'c broker \<Rightarrow> string \<Rightarrow> 'c \<Rightarrow> 'c broker" where
  "Broker_Subscribe b cId subscriber = al_set b cId subscriber"

definition Broker_NumChannels :: "'c broker \<Rightarrow> nat" where
  "Broker_NumChannels b = length b"

text \<open>Closing removes the channels from the table; they are returned with what they sent.\<close>

definition Broker_Close :: "'c channel_ops \<Rightarrow> 'c broker \<Rightarrow> gerror \<Rightarrow> 'c broker \<times> 'c list \<times> AgentMessage list" where
  "Broker_Close C b reason =
     (let closed = map (\<lambda>(cId, channel). ch_Close C channel reason) b in ([], map fst closed, concat (map snd closed)))"

definition Broker_CloseChannel ::
  "'c channel_ops \<Rightarrow> 'c broker \<Rightarrow> string \<Rightarrow> gerror \<Rightarrow> 'c broker \<times> AgentMessage list \<times> bool" where
  "Broker_CloseChannel C b cId reason =
     (case al_get b cId of
        Some channel \<Rightarrow> (al_delete b cId, snd (ch_Close C channel reason), True)
      | None \<Rightarrow> (b, [], False))"

definition Broker_DirectMessage ::
  "'c channel_ops \<Rightarrow> 'c broker \<Rightarrow> string \<Rightarrow> AgentMessage \<Rightarrow> ('c broker \<times> unit res) option" where
  "Broker_DirectMessage C b cId message =
     (case al_get b cId of
        Some channel \<Rightarrow> map_option (\<lambda>c. (al_set b cId c, Ok ())) (ch_Receive C channel message)
      | None \<Rightarrow> Some (b, Err (errorf (''no subscriber with id '' @ cId))))"

fun broadcast_to :: "'c channel_ops \<Rightarrow> AgentMessage \<Rightarrow> 'c broker \<Rightarrow> 'c broker option" where
  "broadcast_to C message [] = Some []"
| "broadcast_to C message ((cId, channel) # b) =
     (case ch_Receive C channel message of
        None \<Rightarrow> None
      | Some c \<Rightarrow> map_option (\<lambda>b'. (cId, c) # b') (broadcast_to C message b))"

definition Broker_Broadcast :: "'c channel_ops \<Rightarrow> 'c broker \<Rightarrow> AgentMessage \<Rightarrow> ('c broker \<times> unit res) option" where
  "Broker_Broadcast C b message =
     (if b = [] then Some (b, Err (errorf ''no subscribers are listening''))
      else map_option (\<lambda>b'. (b', Ok ())) (broadcast_to C message b))"

section \<open>The contract of a channel\<close>

text \<open>
  A closed channel is dead, and a dead channel neither blocks its caller nor sends anything.
\<close>

locale channel =
  fixes C :: "'c channel_ops" and alive :: "'c \<Rightarrow> bool"
  assumes closed_dead: "\<not> alive (fst (ch_Close C c reason))"
    and dead_drops: "\<not> alive c \<Longrightarrow> ch_Receive C c message = Some c"
    and dead_silent: "\<not> alive c \<Longrightarrow> ch_Close C c reason = (c, [])"
begin

lemma Close_all: "Broker_Close C b reason = (b', cs, out) \<Longrightarrow> b' = [] \<and> list_all (\<lambda>c. \<not> alive c) cs \<and> length cs = length b"
  by (auto simp: Broker_Close_def Let_def list_all_iff closed_dead split: prod.splits)

lemma Close_silent:
  assumes "list_all (\<lambda>(cId, c). \<not> alive c) b"
  shows "Broker_Close C b reason = ([], map snd b, [])"
proof -
  have "map (\<lambda>(cId, c). ch_Close C c reason) b = map (\<lambda>(cId, c). (c, [])) b"
    using assms by (auto simp: list_all_iff dead_silent)
  then show ?thesis by (auto simp: Broker_Close_def Let_def o_def split_beta)
qed

lemma DirectMessage_dead:
  "al_get b cId = Some c \<Longrightarrow> \<not> alive c \<Longrightarrow> Broker_DirectMessage C b cId m = Some (al_set b cId c, Ok ())"
  by (simp add: Broker_DirectMessage_def dead_drops)

end

lemma DirectMessage_frame:
  "Broker_DirectMessage C b cId m = Some (b', r) \<Longrightarrow>
     (\<forall>k. k \<noteq> cId \<longrightarrow> al_get b' k = al_get b k) \<and> set (al_keys b') = set (al_keys b)"
  by (auto simp: Broker_DirectMessage_def split: option.splits dest: al_get_None [THEN iffD2])
     (metis al_get_None insert_absorb option.distinct(1))+

end
