(* ===== verification/Agent_Mrtap.thy ===== *)
theory Agent_Mrtap
  imports Mrtap_Message
begin

text \<open>
  \<^verbatim>\<open>bctl/agent/mrtap\<close>: the agent's end of MrTAP. It authenticates the user with the Syn's
  certificate, then accepts only Data messages that extend the hash chain it acknowledged
  last. The current time and the random nonce of a SynAck are arguments.
\<close>

record agent_Mrtap =
  lastDataMessage :: "MrtapMessage option"
  expectedHPointer :: string
  clientBZCert :: "BZCert option"
  clientPublicKey :: "PublicKey option"
  publickey :: "PublicKey option"
  privatekey :: "PrivateKey option"
  idpProvider :: string
  idpOrgId :: string
  serviceAccounts :: "string list"
  daemonSchemaVersion :: "version option"

definition schemaVersionTargetIdNotSet :: string where
  "schemaVersionTargetIdNotSet = ''1.0''"

definition shouldCheckTargetId :: string where
  "shouldCheckTargetId = ''> '' @ schemaVersionTargetIdNotSet"

record MrtapConfig =
  cfg_PublicKey :: "PublicKey option"
  cfg_PrivateKey :: "PrivateKey option"
  cfg_IdpProvider :: string
  cfg_IdpOrgId :: string
  cfg_ServiceAccountJwksUrls :: "string list"

definition agent_New :: "MrtapConfig \<Rightarrow> agent_Mrtap" where
  "agent_New config =
     \<lparr> lastDataMessage = None, expectedHPointer = [], clientBZCert = None, clientPublicKey = None,
       publickey = cfg_PublicKey config, privatekey = cfg_PrivateKey config,
       idpProvider = cfg_IdpProvider config, idpOrgId = cfg_IdpOrgId config,
       serviceAccounts = cfg_ServiceAccountJwksUrls config, daemonSchemaVersion = None \<rparr>"

definition Validate_Syn ::
  "lib \<Rightarrow> int \<Rightarrow> agent_Mrtap \<Rightarrow> MrtapMessage \<Rightarrow> SynPayload \<Rightarrow> agent_Mrtap \<times> unit res" where
  "Validate_Syn L now m msg synPayload =
     (case BZCert_Verify L now (syn_BZCert synPayload) (idpProvider m) (idpOrgId m) (serviceAccounts m) of
        Err e \<Rightarrow> (m, Err (errorf_w ''failed to verify SYN's BZCert: '' e))
      | Panic \<Rightarrow> (m, Panic)
      | Ok bzcert \<Rightarrow>
         (case PublicKeyFromString (ClientPublicKey bzcert) of
            Err e \<Rightarrow> (m, Err (errorf (''malformatted public key: '' @ ClientPublicKey bzcert)))
          | Panic \<Rightarrow> (m, Panic)
          | Ok pubkey \<Rightarrow>
             (let m1 = m\<lparr>clientPublicKey := Some pubkey\<rparr> in
              case VerifySignature L msg (clientPublicKey m1) of
                Err e \<Rightarrow> (m1, Err (errorf_w ''failed to verify SYN's signature: '' e))
              | Panic \<Rightarrow> (m1, Panic)
              | Ok _ \<Rightarrow>
                 (case semver_parse L (syn_SchemaVersion synPayload) of
                    Err e \<Rightarrow> (m1, Err (errorf_w (''failed to parse schema version ('' @
                                syn_SchemaVersion synPayload @ '') as semver: '') e))
                  | Panic \<Rightarrow> (m1, Panic)
                  | Ok v \<Rightarrow>
                     (let m2 = m1\<lparr>daemonSchemaVersion := Some v\<rparr> in
                      if semver_check L shouldCheckTargetId v \<and>
                         syn_TargetId synPayload \<noteq> PublicKey_String (publickey m2)
                      then (m2, Err (errorf ''SYN's TargetId did not match agent's public key''))
                      else (m2\<lparr>clientBZCert := Some bzcert\<rparr>, Ok ()))))))"

definition Validate_Data ::
  "lib \<Rightarrow> int \<Rightarrow> agent_Mrtap \<Rightarrow> MrtapMessage \<Rightarrow> DataPayload \<Rightarrow> agent_Mrtap \<times> unit res" where
  "Validate_Data L now m msg dataPayload =
     (case clientBZCert m of
        None \<Rightarrow> (m, Panic)
      | Some cert \<Rightarrow>
         if BZCert_Hash cert \<noteq> data_BZCertHash dataPayload
         then (m, Err (errorf ''DATA's BZCert does not match the active user's''))
         else (case VerifySignature L msg (clientPublicKey m) of
                 Err e \<Rightarrow> (m, Err e)
               | Panic \<Rightarrow> (m, Panic)
               | Ok _ \<Rightarrow>
                   if BZCert_Expired now cert
                   then (m, Err (errorf ''DATA's referenced BZCert has expired''))
                   else if data_HPointer dataPayload \<noteq> expectedHPointer m
                   then (m, Err (errorf (''DATA's hash pointer '' @ data_HPointer dataPayload @
                           '' did not match expected hash pointer '' @ expectedHPointer m)))
                   else (m\<lparr>lastDataMessage := Some msg\<rparr>, Ok ())))"

definition agent_Validate :: "lib \<Rightarrow> int \<Rightarrow> agent_Mrtap \<Rightarrow> MrtapMessage \<Rightarrow> agent_Mrtap \<times> unit res" where
  "agent_Validate L now m msg =
     (case msg_Type msg of
        Syn \<Rightarrow> (case msg_Payload msg of PSyn p \<Rightarrow> Validate_Syn L now m msg p | _ \<Rightarrow> (m, Panic))
      | Data \<Rightarrow> (case msg_Payload msg of PData p \<Rightarrow> Validate_Data L now m msg p | _ \<Rightarrow> (m, Panic))
      | _ \<Rightarrow> (m, Err (errorf ''error validating unhandled MrTAP type'')))"

definition getSchemaVersionToUse :: "lib \<Rightarrow> agent_Mrtap \<Rightarrow> version res" where
  "getSchemaVersionToUse L m =
     (case semver_parse L SchemaVersion of
        Err e \<Rightarrow> Err e | Panic \<Rightarrow> Panic
      | Ok agentVersion \<Rightarrow>
         (case daemonSchemaVersion m of
            None \<Rightarrow> Panic
          | Some v \<Rightarrow> if semver_lt L v agentVersion then Ok v else Ok agentVersion))"

text \<open>The unsigned response: the first half of \<^verbatim>\<open>BuildAck\<close>, up to the signature.\<close>

definition unsigned_ack ::
  "lib \<Rightarrow> int \<Rightarrow> string \<Rightarrow> agent_Mrtap \<Rightarrow> MrtapMessage \<Rightarrow> string option \<Rightarrow> version \<Rightarrow> MrtapMessage res" where
  "unsigned_ack L now random m msg actionPayload schemaVersion =
     (case msg_Type msg of
        Syn \<Rightarrow>
          (let last_hash = (case lastDataMessage m of None \<Rightarrow> None | Some d \<Rightarrow> Some (MrtapMessage_Hash L d)) in
           case last_hash of
             Some [] \<Rightarrow> Err (errorf ''failed to get hash of last valid data message'')
           | Some (c # cs) \<Rightarrow> BuildUnsignedSynAck L now msg actionPayload (PublicKey_String (publickey m))
                                (c # cs) (semver_string L schemaVersion)
           | None \<Rightarrow> BuildUnsignedSynAck L now msg actionPayload (PublicKey_String (publickey m))
                       random (semver_string L schemaVersion))
      | Data \<Rightarrow> BuildUnsignedDataAck L msg actionPayload (PublicKey_String (publickey m))
                  (semver_string L schemaVersion)
      | _ \<Rightarrow> Ok zero_message)"

definition agent_BuildAck ::
  "lib \<Rightarrow> int \<Rightarrow> string \<Rightarrow> agent_Mrtap \<Rightarrow> MrtapMessage \<Rightarrow> string \<Rightarrow> string option \<Rightarrow>
   agent_Mrtap \<times> MrtapMessage res" where
  "agent_BuildAck L now random m msg action actionPayload =
     (case getSchemaVersionToUse L m of
        Err e \<Rightarrow> (m, Err e) | Panic \<Rightarrow> (m, Panic)
      | Ok schemaVersion \<Rightarrow>
         (case unsigned_ack L now random m msg actionPayload schemaVersion of
            Err e \<Rightarrow> (m, Err e) | Panic \<Rightarrow> (m, Panic)
          | Ok response \<Rightarrow>
             (case MrtapMessage_Sign L response (privatekey m) of
                Err e \<Rightarrow> (m, Err e) | Panic \<Rightarrow> (m, Panic)
              | Ok (responseMessage, _) \<Rightarrow>
                  if msg_Signature responseMessage = [] then (m, Err (errorf ''could not sign payload: ''))
                  else if MrtapMessage_Hash L responseMessage = [] then (m, Err (errorf ''could not hash payload''))
                  else (m\<lparr>expectedHPointer := MrtapMessage_Hash L responseMessage\<rparr>, Ok responseMessage))))"

section \<open>What is accepted\<close>

lemma Validate_Data_Ok:
  "Validate_Data L now m msg p = (m', Ok u) \<longleftrightarrow>
   m' = m\<lparr>lastDataMessage := Some msg\<rparr> \<and>
   (\<exists>cert. clientBZCert m = Some cert \<and> BZCert_Hash cert = data_BZCertHash p \<and>
           \<not> BZCert_Expired now cert) \<and>
   VerifySignature L msg (clientPublicKey m) = Ok () \<and> data_HPointer p = expectedHPointer m"
  unfolding Validate_Data_def by (auto split: option.splits res.splits)

lemma Validate_Data_reject:
  "\<not> is_ok (snd (Validate_Data L now m msg p)) \<Longrightarrow> fst (Validate_Data L now m msg p) = m"
  unfolding Validate_Data_def by (simp split: option.splits res.splits if_splits)

lemma Validate_Syn_Ok:
  "Validate_Syn L now m msg p = (m', Ok u) \<longleftrightarrow>
   (\<exists>cert pk v.
      BZCert_Verify L now (syn_BZCert p) (idpProvider m) (idpOrgId m) (serviceAccounts m) = Ok cert \<and>
      PublicKeyFromString (ClientPublicKey cert) = Ok pk \<and>
      VerifySignature L msg (Some pk) = Ok () \<and>
      semver_parse L (syn_SchemaVersion p) = Ok v \<and>
      (semver_check L shouldCheckTargetId v \<longrightarrow> syn_TargetId p = PublicKey_String (publickey m)) \<and>
      m' = m\<lparr>clientPublicKey := Some pk, daemonSchemaVersion := Some v, clientBZCert := Some cert\<rparr>)"
  unfolding Validate_Syn_def Let_def by (auto split: res.splits if_splits)

lemma agent_Validate_Data [simp]:
  "msg_Type msg = Data \<Longrightarrow> msg_Payload msg = PData p \<Longrightarrow>
   agent_Validate L now m msg = Validate_Data L now m msg p"
  by (simp add: agent_Validate_def)

lemma agent_Validate_Syn [simp]:
  "msg_Type msg = Syn \<Longrightarrow> msg_Payload msg = PSyn p \<Longrightarrow>
   agent_Validate L now m msg = Validate_Syn L now m msg p"
  by (simp add: agent_Validate_def)

lemma agent_Validate_Ok_type:
  "agent_Validate L now m msg = (m', Ok u) \<Longrightarrow>
   (\<exists>p. msg_Type msg = Syn \<and> msg_Payload msg = PSyn p) \<or>
   (\<exists>p. msg_Type msg = Data \<and> msg_Payload msg = PData p)"
  unfolding agent_Validate_def by (auto split: PayloadType.splits payload.splits)

text \<open>The client key the agent holds is the key of the certificate it holds.\<close>

definition key_bound :: "agent_Mrtap \<Rightarrow> bool" where
  "key_bound m \<longleftrightarrow>
     (\<forall>cert. clientBZCert m = Some cert \<longrightarrow>
        (\<exists>pk. clientPublicKey m = Some pk \<and> PublicKeyFromString (ClientPublicKey cert) = Ok pk))"

lemma key_bound_New: "key_bound (agent_New c)"
  by (simp add: key_bound_def agent_New_def)

lemma Validate_Syn_key_bound:
  "Validate_Syn L now m msg p = (m', Ok u) \<Longrightarrow> key_bound m'"
  by (auto simp: Validate_Syn_Ok key_bound_def)

lemma Validate_accept_key_bound:
  "agent_Validate L now m msg = (m', Ok u) \<Longrightarrow> key_bound m \<Longrightarrow> key_bound m'"
  using agent_Validate_Ok_type [of L now m msg m' u]
  by (auto simp: Validate_Data_Ok Validate_Syn_Ok key_bound_def)

lemma agent_BuildAck_Ok:
  "agent_BuildAck L now rnd m msg act pl = (m', Ok ack) \<Longrightarrow>
   \<exists>v r. getSchemaVersionToUse L m = Ok v \<and> unsigned_ack L now rnd m msg pl v = Ok r \<and>
     msg_Type ack = msg_Type r \<and> msg_Payload ack = msg_Payload r \<and>
     m' = m\<lparr>expectedHPointer := payload_hash L (msg_Payload ack)\<rparr>"
  unfolding agent_BuildAck_def
  by (auto split: res.splits if_splits prod.splits dest: Sign_Ok)

lemma agent_BuildAck_frame:
  "agent_BuildAck L now rnd m msg act pl = (m', r) \<Longrightarrow>
   m' = m\<lparr>expectedHPointer := expectedHPointer m'\<rparr>"
  unfolding agent_BuildAck_def by (auto split: res.splits if_splits prod.splits)

section \<open>Well-formed agents do not panic\<close>







section \<open>The hash chain\<close>

text \<open>
  The specification: a transcript is chained from \<^term>\<open>h\<close> to \<^term>\<open>h'\<close> when every Data message
  points at the acknowledgement before it and every acknowledgement at its Data message.
\<close>

fun chained :: "lib \<Rightarrow> string \<Rightarrow> (DataPayload \<times> DataAckPayload) list \<Rightarrow> string \<Rightarrow> bool" where
  "chained L h [] h' = (h = h')"
| "chained L h ((d, a) # tr) h' =
     (data_HPointer d = h \<and> dataack_HPointer a = payload_hash L (PData d) \<and>
      chained L (payload_hash L (PDataAck a)) tr h')"

text \<open>One accepted Data message with its acknowledgement, and a session of them.\<close>

definition agent_exchange ::
  "lib \<Rightarrow> agent_Mrtap \<Rightarrow> int \<times> MrtapMessage \<times> string option \<Rightarrow>
   (agent_Mrtap \<times> DataPayload \<times> DataAckPayload) option" where
  "agent_exchange L m x =
     (case x of (now, msg, pl) \<Rightarrow>
       (case agent_Validate L now m msg of
          (m1, Ok _) \<Rightarrow>
            (case agent_BuildAck L now [] m1 msg (GetAction msg) pl of
               (m2, Ok ack) \<Rightarrow>
                 (case (msg_Payload msg, msg_Payload ack) of
                    (PData d, PDataAck a) \<Rightarrow> Some (m2, d, a)
                  | _ \<Rightarrow> None)
             | _ \<Rightarrow> None)
        | _ \<Rightarrow> None))"

fun agent_session ::
  "lib \<Rightarrow> agent_Mrtap \<Rightarrow> (int \<times> MrtapMessage \<times> string option) list \<Rightarrow>
   (agent_Mrtap \<times> (DataPayload \<times> DataAckPayload) list) option" where
  "agent_session L m [] = Some (m, [])"
| "agent_session L m (x # xs) =
     (case agent_exchange L m x of
        None \<Rightarrow> None
      | Some (m', d, a) \<Rightarrow>
          (case agent_session L m' xs of
             None \<Rightarrow> None
           | Some (m'', tr) \<Rightarrow> Some (m'', (d, a) # tr)))"

lemma agent_exchange_chain:
  assumes "agent_exchange L m x = Some (m', d, a)"
  shows "data_HPointer d = expectedHPointer m \<and> dataack_HPointer a = payload_hash L (PData d) \<and>
         expectedHPointer m' = payload_hash L (PDataAck a)"
proof -
  obtain now msg pl where x: "x = (now, msg, pl)" by (cases x)
  obtain m1 u ack where v: "agent_Validate L now m msg = (m1, Ok u)"
    and b: "agent_BuildAck L now [] m1 msg (GetAction msg) pl = (m', Ok ack)"
    and p: "msg_Payload msg = PData d" "msg_Payload ack = PDataAck a"
    using assms x unfolding agent_exchange_def
    by (auto split: prod.splits res.splits payload.splits)
  have t: "msg_Type msg = Data" using agent_Validate_Ok_type [OF v] p by auto
  have acc: "m1 = m\<lparr>lastDataMessage := Some msg\<rparr>" "data_HPointer d = expectedHPointer m"
    using v t p by (auto simp: Validate_Data_Ok)
  obtain ver r where "unsigned_ack L now [] m1 msg pl ver = Ok r" "msg_Payload ack = msg_Payload r"
    "m' = m1\<lparr>expectedHPointer := payload_hash L (msg_Payload ack)\<rparr>"
    using agent_BuildAck_Ok [OF b] by blast
  then show ?thesis
    using t p acc
    by (auto simp: unsigned_ack_def BuildUnsignedDataAck_def DataPayload_BuildResponsePayload_def)
qed

lemma agent_session_chained:
  "agent_session L m xs = Some (m', tr) \<Longrightarrow> chained L (expectedHPointer m) tr (expectedHPointer m')"
proof (induction xs arbitrary: m tr)
  case Nil
  then show ?case by simp
next
  case (Cons x xs)
  then obtain m1 d a tr1 where ex: "agent_exchange L m x = Some (m1, d, a)"
    and se: "agent_session L m1 xs = Some (m', tr1)" and tr: "tr = (d, a) # tr1"
    by (auto split: option.splits prod.splits)
  show ?case using agent_exchange_chain [OF ex] Cons.IH [OF se] tr by simp
qed

lemma chained_snoc:
  "chained L h (tr @ [(d, a)]) h' \<longleftrightarrow>
   chained L h tr (data_HPointer d) \<and> dataack_HPointer a = payload_hash L (PData d) \<and>
   h' = payload_hash L (PDataAck a)"
  by (induction L h tr "data_HPointer d" rule: chained.induct) auto

definition transcript_payloads :: "(DataPayload \<times> DataAckPayload) list \<Rightarrow> payload set" where
  "transcript_payloads tr = PData ` fst ` set tr \<union> PDataAck ` snd ` set tr"

lemma transcript_payloads_snoc [simp]:
  "transcript_payloads (tr @ [(d, a)]) = insert (PData d) (insert (PDataAck a) (transcript_payloads tr))"
  by (auto simp: transcript_payloads_def)

text \<open>The end of a chain determines the whole chain, up to hash collisions.\<close>

lemma chained_determined:
  assumes "chained L (payload_hash L (PSynAck a1)) tr1 h" "chained L (payload_hash L (PSynAck a2)) tr2 h"
    and "inj_on (payload_hash L)
           ({PSynAck a1, PSynAck a2} \<union> transcript_payloads tr1 \<union> transcript_payloads tr2)"
  shows "tr1 = tr2 \<and> a1 = a2"
  using assms
proof (induction tr1 arbitrary: tr2 h rule: rev_induct)
  case Nil
  show ?case
  proof (cases tr2 rule: rev_cases)
    case Nil
    with Nil.prems have "payload_hash L (PSynAck a1) = payload_hash L (PSynAck a2)" by simp
    with inj_onD [OF Nil.prems(3), of "PSynAck a1" "PSynAck a2"] Nil show ?thesis by simp
  next
    case (snoc tr da)
    obtain d a where da: "da = (d, a)" by (cases da)
    have "payload_hash L (PSynAck a1) = payload_hash L (PDataAck a)"
      using Nil.prems snoc da by (auto simp: chained_snoc)
    with inj_onD [OF Nil.prems(3), of "PSynAck a1" "PDataAck a"] snoc da show ?thesis by simp
  qed
next
  case (snoc da1 tr1)
  obtain d1 b1 where da1: "da1 = (d1, b1)" by (cases da1)
  have h: "h = payload_hash L (PDataAck b1)"
    and c1: "chained L (payload_hash L (PSynAck a1)) tr1 (data_HPointer d1)"
    and p1: "dataack_HPointer b1 = payload_hash L (PData d1)"
    using snoc.prems(1) da1 by (auto simp: chained_snoc)
  show ?case
  proof (cases tr2 rule: rev_cases)
    case Nil
    with h snoc.prems(2) have "payload_hash L (PSynAck a2) = payload_hash L (PDataAck b1)" by simp
    with inj_onD [OF snoc.prems(3), of "PSynAck a2" "PDataAck b1"] da1 show ?thesis by simp
  next
    case (snoc tr da2)
    obtain d2 b2 where da2: "da2 = (d2, b2)" by (cases da2)
    have e2: "h = payload_hash L (PDataAck b2)"
      and c2: "chained L (payload_hash L (PSynAck a2)) tr (data_HPointer d2)"
      and p2: "dataack_HPointer b2 = payload_hash L (PData d2)"
      using snoc.prems(2) snoc da2 by (auto simp: chained_snoc)
    have inj: "inj_on (payload_hash L) ({PSynAck a1, PSynAck a2} \<union>
        transcript_payloads (tr1 @ [(d1, b1)]) \<union> transcript_payloads (tr @ [(d2, b2)]))"
      using snoc.prems(3) da1 da2 snoc by simp
    have b: "b1 = b2" using inj_onD [OF inj, of "PDataAck b1" "PDataAck b2"] h e2 by auto
    have d: "d1 = d2" using inj_onD [OF inj, of "PData d1" "PData d2"] p1 p2 b by auto
    have "tr1 = tr \<and> a1 = a2"
      by (rule snoc.IH [OF c1]) (use c2 d in simp, rule inj_on_subset [OF inj], auto)
    then show ?thesis using snoc da1 da2 b d by simp
  qed
qed

text \<open>
  C23. The agent accepts a Data message exactly when it names the certificate the user
  authenticated with, that certificate has not expired, the signature verifies under the
  stored client key and the hash pointer is the hash of the agent's last acknowledgement;
  accepting records the message and changes nothing else, rejecting changes nothing.
\<close>

theorem agent_accepts_Data_iff:
  assumes "msg_Type msg = Data" and "msg_Payload msg = PData d"
  shows "(is_ok (snd (agent_Validate L now m msg)) \<longleftrightarrow>
            (\<exists>cert. clientBZCert m = Some cert \<and> BZCert_Hash cert = data_BZCertHash d \<and>
                    \<not> BZCert_Expired now cert) \<and>
            VerifySignature L msg (clientPublicKey m) = Ok () \<and>
            data_HPointer d = expectedHPointer m) \<and>
         fst (agent_Validate L now m msg) =
           (if is_ok (snd (agent_Validate L now m msg)) then m\<lparr>lastDataMessage := Some msg\<rparr> else m)"
  using assms
  by (cases "clientBZCert m"; cases "VerifySignature L msg (clientPublicKey m)")
     (simp_all add: Validate_Data_def)

text \<open>
  C24. An agent's expected hash pointer commits to the whole session: two sessions, possibly
  of different agents, that started from a SynAck each and now expect the same hash pointer
  have the same SynAck and the same Data and acknowledgement payloads in the same order,
  unless two of the payloads involved collide under the hash.
\<close>

theorem agent_history_committed:
  assumes "agent_session L m1 xs1 = Some (m1', tr1)" and "agent_session L m2 xs2 = Some (m2', tr2)"
    and "expectedHPointer m1 = payload_hash L (PSynAck a1)"
    and "expectedHPointer m2 = payload_hash L (PSynAck a2)"
    and "expectedHPointer m1' = expectedHPointer m2'"
    and "inj_on (payload_hash L)
           ({PSynAck a1, PSynAck a2} \<union> transcript_payloads tr1 \<union> transcript_payloads tr2)"
  shows "tr1 = tr2 \<and> a1 = a2"
proof (rule chained_determined)
  show "chained L (payload_hash L (PSynAck a1)) tr1 (expectedHPointer m1')"
    using agent_session_chained [OF assms(1)] assms(3) by (simp only:)
  show "chained L (payload_hash L (PSynAck a2)) tr2 (expectedHPointer m1')"
    using agent_session_chained [OF assms(2)] assms(4,5) by (simp only:)
qed (rule assms(6))

text \<open>
  A Syn that is rejected still replaces the client's public key: after a Syn with a
  valid certificate of another user but a target id that is not this agent's, the agent
  keeps the first user's certificate together with the second user's key, and accepts a
  Data message signed by the second user as one of the first user's session.
\<close>

theorem rejected_Syn_swaps_key:
  assumes "clientBZCert m = Some victim" and "\<not> BZCert_Expired now victim"
    and "msg_Type syn = Syn" and "msg_Payload syn = PSyn p"
    and "BZCert_Verify L now (syn_BZCert p) (idpProvider m) (idpOrgId m) (serviceAccounts m) = Ok other"
    and "PublicKeyFromString (ClientPublicKey other) = Ok pk"
    and "VerifySignature L syn (Some pk) = Ok ()"
    and "semver_parse L (syn_SchemaVersion p) = Ok v" and "semver_check L shouldCheckTargetId v"
    and "syn_TargetId p \<noteq> PublicKey_String (publickey m)"
    and "msg_Type msg = Data" and "msg_Payload msg = PData d"
    and "data_BZCertHash d = BZCert_Hash victim" and "data_HPointer d = expectedHPointer m"
    and "VerifySignature L msg (Some pk) = Ok ()"
  shows "\<exists>m1 e m2. agent_Validate L now m syn = (m1, Err e) \<and> clientBZCert m1 = Some victim \<and>
           clientPublicKey m1 = Some pk \<and> agent_Validate L now m1 msg = (m2, Ok ())"
proof -
  let ?m1 = "m\<lparr>clientPublicKey := Some pk, daemonSchemaVersion := Some v\<rparr>"
  have s: "agent_Validate L now m syn =
      (?m1, Err (errorf ''SYN's TargetId did not match agent's public key''))"
    using assms(3-10) by (simp add: Validate_Syn_def)
  have "agent_Validate L now ?m1 msg = (?m1\<lparr>lastDataMessage := Some msg\<rparr>, Ok ())"
    using assms(1,2,11-15) by (simp add: Validate_Data_def)
  with s assms(1) show ?thesis by simp
qed

section \<open>Reachable agents\<close>

text \<open>
  The states an agent goes through: messages are validated, whatever the outcome, and
  answered. The flag says that no Syn was rejected so far.
\<close>

inductive agent_reach :: "lib \<Rightarrow> MrtapConfig \<Rightarrow> bool \<Rightarrow> agent_Mrtap \<Rightarrow> bool" for L c where
  start: "agent_reach L c True (agent_New c)"
| validate: "agent_reach L c clean m \<Longrightarrow> agent_Validate L now m msg = (m', r) \<Longrightarrow>
     agent_reach L c (clean \<and> (is_ok r \<or> msg_Type msg \<noteq> Syn)) m'"
| ack: "agent_reach L c clean m \<Longrightarrow> agent_BuildAck L now rnd m msg act pl = (m', r) \<Longrightarrow>
     agent_reach L c clean m'"

definition cert_verified :: "lib \<Rightarrow> MrtapConfig \<Rightarrow> agent_Mrtap \<Rightarrow> bool" where
  "cert_verified L c m \<longleftrightarrow>
     idpProvider m = cfg_IdpProvider c \<and> idpOrgId m = cfg_IdpOrgId c \<and>
     serviceAccounts m = cfg_ServiceAccountJwksUrls c \<and>
     (\<forall>cert. clientBZCert m = Some cert \<longrightarrow>
        (\<exists>t b. BZCert_Verify L t b (cfg_IdpProvider c) (cfg_IdpOrgId c)
                 (cfg_ServiceAccountJwksUrls c) = Ok cert))"

lemma cert_verified_upd [simp]:
  "cert_verified L c (m\<lparr>clientPublicKey := p\<rparr>) = cert_verified L c m"
  "cert_verified L c (m\<lparr>daemonSchemaVersion := v\<rparr>) = cert_verified L c m"
  "cert_verified L c (m\<lparr>lastDataMessage := d\<rparr>) = cert_verified L c m"
  "cert_verified L c (m\<lparr>expectedHPointer := h\<rparr>) = cert_verified L c m"
  by (simp_all add: cert_verified_def)

lemma Validate_Syn_cert_verified:
  assumes "Validate_Syn L now m msg p = (m', r)" and "cert_verified L c m"
  shows "cert_verified L c m'"
proof (cases "BZCert_Verify L now (syn_BZCert p) (idpProvider m) (idpOrgId m) (serviceAccounts m)")
  case (Ok cert)
  then have "cert_verified L c (m\<lparr>clientBZCert := Some cert\<rparr>)"
    using assms(2) by (auto simp: cert_verified_def)
  then have "cert_verified L c (m\<lparr>clientPublicKey := pk, daemonSchemaVersion := v, clientBZCert := Some cert\<rparr>)"
    for pk v by (simp add: cert_verified_def)
  then show ?thesis
    using assms Ok unfolding Validate_Syn_def Let_def by (auto split: res.splits if_splits)
qed (use assms in \<open>auto simp: Validate_Syn_def\<close>)

lemma Validate_Data_cert_verified:
  "Validate_Data L now m msg p = (m', r) \<Longrightarrow> cert_verified L c m \<Longrightarrow> cert_verified L c m'"
  unfolding Validate_Data_def by (auto split: option.splits res.splits if_splits)

lemma agent_Validate_cert_verified:
  "agent_Validate L now m msg = (m', r) \<Longrightarrow> cert_verified L c m \<Longrightarrow> cert_verified L c m'"
  unfolding agent_Validate_def
  by (auto split: PayloadType.splits payload.splits
      intro: Validate_Syn_cert_verified Validate_Data_cert_verified)

lemma Validate_clean_key_bound:
  assumes "agent_Validate L now m msg = (m', r)" "key_bound m" "is_ok r \<or> msg_Type msg \<noteq> Syn"
  shows "key_bound m'"
proof (cases "is_ok r")
  case True
  then show ?thesis using assms Validate_accept_key_bound by (auto simp: is_ok_iff)
next
  case False
  with assms show ?thesis
    using Validate_Data_reject [of L now m msg]
    by (auto simp: agent_Validate_def split: PayloadType.splits payload.splits) (metis fst_conv snd_conv)+
qed

lemma agent_reach_inv:
  "agent_reach L c clean m \<Longrightarrow> cert_verified L c m \<and> (clean \<longrightarrow> key_bound m)"
proof (induction rule: agent_reach.induct)
  case start
  then show ?case by (simp add: key_bound_def cert_verified_def agent_New_def)
next
  case (validate clean m now msg m' r)
  then show ?case
    using agent_Validate_cert_verified Validate_clean_key_bound by blast
next
  case (ack clean m now rnd msg act pl m' r)
  have "m' = m\<lparr>expectedHPointer := expectedHPointer m'\<rparr>"
    by (rule agent_BuildAck_frame [OF ack.hyps(2)])
  moreover have "key_bound (m\<lparr>expectedHPointer := h\<rparr>) = key_bound m" for h
    by (simp add: key_bound_def)
  ultimately show ?case using ack.IH by (metis cert_verified_upd(4))
qed

text \<open>
  C29. In a history without a rejected Syn every accepted Data message is authenticated end to
  end: the agent holds a certificate that verified against the configured identity provider,
  the message names it by its hash, and it is signed with the key inside that certificate.
\<close>

theorem accepted_Data_signed_by_certificate_key:
  assumes "agent_reach L c True m"
    and "agent_Validate L now m msg = (m', Ok u)" and "msg_Payload msg = PData d"
  shows "\<exists>cert pk t b.
           BZCert_Verify L t b (cfg_IdpProvider c) (cfg_IdpOrgId c) (cfg_ServiceAccountJwksUrls c) = Ok cert \<and>
           cert_hash cert = data_BZCertHash d \<and> \<not> BZCert_Expired now cert \<and>
           PublicKeyFromString (ClientPublicKey cert) = Ok pk \<and> VerifySignature L msg (Some pk) = Ok ()"
proof -
  have inv: "cert_verified L c m" "key_bound m" using agent_reach_inv [OF assms(1)] by auto
  have t: "msg_Type msg = Data" using agent_Validate_Ok_type [OF assms(2)] assms(3) by auto
  from assms(2,3) t obtain cert where c: "clientBZCert m = Some cert"
      "BZCert_Hash cert = data_BZCertHash d" "\<not> BZCert_Expired now cert"
      "VerifySignature L msg (clientPublicKey m) = Ok ()"
    by (auto simp: Validate_Data_Ok)
  obtain pk where pk: "clientPublicKey m = Some pk" "PublicKeyFromString (ClientPublicKey cert) = Ok pk"
    using inv(2) c(1) by (auto simp: key_bound_def)
  obtain t b where "BZCert_Verify L t b (cfg_IdpProvider c) (cfg_IdpOrgId c)
      (cfg_ServiceAccountJwksUrls c) = Ok cert"
    using inv(1) c(1) by (auto simp: cert_verified_def)
  then show ?thesis using c pk by (auto simp: BZCert_Hash_def)
qed

text \<open>
  The schema version the agent answers with is the older of its own and the daemon's:
  never newer than either, for any asymmetric order on versions.
\<close>

lemma negotiated_version_is_minimum:
  assumes "getSchemaVersionToUse L m = Ok v"
    and "\<And>a b. semver_lt L a b \<Longrightarrow> \<not> semver_lt L b a"
  shows "\<exists>mine theirs. semver_parse L SchemaVersion = Ok mine \<and> daemonSchemaVersion m = Some theirs \<and>
           v \<in> {mine, theirs} \<and> \<not> semver_lt L mine v \<and> \<not> semver_lt L theirs v"
  using assms unfolding getSchemaVersionToUse_def
  by (auto split: res.splits option.splits if_splits)

section \<open>Witnesses\<close>

text \<open>
  A user authenticates with the certificate of the BZCert theory, then sends one Data
  message. With the constant digest every signature under a key is the same text.
\<close>

definition wit_sig :: "string \<Rightarrow> string" where
  "wit_sig k = EncodeToString (k @ replicate 32 CHR ''h'')"

definition wit_config :: MrtapConfig where
  "wit_config = \<lparr> cfg_PublicKey = Some (Some wit_key), cfg_PrivateKey = Some (Some (wit_key @ wit_key)),
     cfg_IdpProvider = ''okta'', cfg_IdpOrgId = ''acme'', cfg_ServiceAccountJwksUrls = [] \<rparr>"

definition wit_syn :: "string \<Rightarrow> string \<Rightarrow> BZCert \<Rightarrow> MrtapMessage" where
  "wit_syn k target b =
     \<lparr> msg_Type = Syn,
       msg_Payload = PSyn \<lparr> syn_SchemaVersion = ''2.2'', syn_Type = ''Syn'', syn_Action = ''shell/default'',
         syn_ActionPayload = Some [], syn_Timestamp = [], syn_TargetId = target, syn_Nonce = ''n'',
         syn_BZCert = b \<rparr>,
       msg_Signature = wit_sig k \<rparr>"

definition wit_verified :: BZCert where
  "wit_verified = wit_cert\<lparr>cert_hash := EncodeToString (replicate 32 CHR ''h''), expiration := 10 * second\<rparr>"

definition wit_agent :: agent_Mrtap where
  "wit_agent = (agent_New wit_config)\<lparr>clientPublicKey := Some (Some wit_key),
     daemonSchemaVersion := Some (Version 2 2 0 [] []), clientBZCert := Some wit_verified\<rparr>"

definition wit_data_msg :: "string \<Rightarrow> string \<Rightarrow> MrtapMessage" where
  "wit_data_msg k hp =
     \<lparr> msg_Type = Data,
       msg_Payload = PData (wit_data\<lparr>data_HPointer := hp, data_BZCertHash := EncodeToString (replicate 32 CHR ''h'')\<rparr>),
       msg_Signature = wit_sig k \<rparr>"

lemma wit_semver [simp]:
  "semver_parse wit_nonce_lib = toy_version" "semver_check wit_nonce_lib = toy_check"
  "semver_lt wit_nonce_lib = toy_lt"
  by (simp_all add: wit_nonce_lib_def)

lemma wit_key_length [simp]: "length wit_key = 32"
  by (simp add: wit_key_def)

lemma wit_VerifySignature:
  "length k = 32 \<Longrightarrow> msg_Signature msg = wit_sig k \<Longrightarrow>
   VerifySignature wit_nonce_lib msg (Some (Some k)) = Ok ()"
  by (simp add: VerifySignature_def HashPayload_def PublicKey_Verify_def wit_sig_def)

lemma wit_PublicKey [simp]: "PublicKeyFromString (EncodeToString wit_key) = Ok (Some wit_key)"
  by (simp add: PublicKeyFromString_def)

lemma wit_version [simp]: "toy_version ''2.2'' = Ok (Version 2 2 0 [] [])"
  by (simp add: toy_version_def)

lemma wit_agent_authenticates:
  "agent_Validate wit_nonce_lib 0 (agent_New wit_config)
     (wit_syn wit_key (PublicKey_String (Some (Some wit_key))) wit_cert) = (wit_agent, Ok ())"
proof -
  have "BZCert_Verify wit_nonce_lib 0 wit_cert ''okta'' ''acme'' [] = Ok wit_verified"
    by (simp add: wit_Verify wit_verified_def)
  moreover have "ClientPublicKey wit_verified = EncodeToString wit_key"
    by (simp add: wit_verified_def wit_cert_def)
  ultimately show ?thesis
    using wit_VerifySignature [of wit_key "wit_syn wit_key (PublicKey_String (Some (Some wit_key))) wit_cert"]
    by (simp add: wit_syn_def Validate_Syn_Ok wit_agent_def wit_config_def agent_New_def)
qed

lemma wit_agent_simps [simp]:
  "clientBZCert wit_agent = Some wit_verified" "clientPublicKey wit_agent = Some (Some wit_key)"
  "expectedHPointer wit_agent = []" "cert_hash wit_verified = EncodeToString (replicate 32 CHR ''h'')"
  "expiration wit_verified = 10 * second" "idpProvider wit_agent = ''okta''" "idpOrgId wit_agent = ''acme''"
  "serviceAccounts wit_agent = []" "publickey wit_agent = Some (Some wit_key)"
  "daemonSchemaVersion wit_agent = Some (Version 2 2 0 [] [])"
  by (simp_all add: wit_agent_def wit_verified_def agent_New_def wit_config_def)

lemma wit_data_accepted:
  "agent_Validate wit_nonce_lib 0 wit_agent (wit_data_msg wit_key []) =
   (wit_agent\<lparr>lastDataMessage := Some (wit_data_msg wit_key [])\<rparr>, Ok ())"
  using wit_VerifySignature [of wit_key "wit_data_msg wit_key []"]
  by (simp add: wit_data_msg_def Validate_Data_Ok BZCert_Hash_def BZCert_Expired_def second_def)

lemma wit_agent_reach: "agent_reach wit_nonce_lib wit_config True wit_agent"
  using agent_reach.validate [OF agent_reach.start wit_agent_authenticates] by simp

theorem accepted_Data_signed_by_certificate_key_witness:
  "\<exists>(cert :: BZCert) pk. cert_hash cert = EncodeToString (replicate 32 CHR ''h'') \<and>
     PublicKeyFromString (ClientPublicKey cert) = Ok pk \<and>
     VerifySignature wit_nonce_lib (wit_data_msg wit_key []) (Some pk) = Ok ()"
  using accepted_Data_signed_by_certificate_key [OF wit_agent_reach wit_data_accepted]
  by (auto simp: wit_data_msg_def)


theorem agent_accepts_Data_iff_witness:
  "is_ok (snd (agent_Validate wit_nonce_lib 0 wit_agent (wit_data_msg wit_key []))) \<and>
   \<not> is_ok (snd (agent_Validate wit_nonce_lib 0 wit_agent (wit_data_msg wit_key ''replayed'')))"
proof -
  have "\<not> is_ok (snd (agent_Validate wit_nonce_lib 0 wit_agent (wit_data_msg wit_key ''replayed'')))"
    using agent_accepts_Data_iff [of "wit_data_msg wit_key ''replayed''" _ wit_nonce_lib 0 wit_agent]
    by (auto simp: wit_data_msg_def)
  then show ?thesis using wit_data_accepted by simp
qed

definition wit_other_key :: string where
  "wit_other_key = replicate 32 CHR ''j''"

definition wit_other :: BZCert where
  "wit_other = wit_cert\<lparr>ClientPublicKey := EncodeToString wit_other_key,
     SignatureOnRand := wit_sig wit_other_key\<rparr>"

lemma wit_other_Verify:
  "\<exists>b'. BZCert_Verify wit_nonce_lib 0 wit_other ''okta'' ''acme'' [] = Ok b' \<and>
        ClientPublicKey b' = EncodeToString wit_other_key"
proof -
  have "nonce_bound wit_nonce_lib wit_other (InitialIdToken wit_other)"
    by (simp add: nonce_bound_def wit_cert_def wit_other_def PublicKeyFromString_def wit_other_key_def
        PublicKey_Verify_def wit_sig_def)
  then show ?thesis
    by (simp add: BZCert_Verify_Ok Verifier_Verify_user_Ok verifyInitialIdToken_Ok
        verifyCurrentIdToken_Ok getTokenClaims_Ok wit_time wit_other_def)
qed

theorem rejected_Syn_swaps_key_witness:
  "\<exists>m1 e m2.
     agent_Validate wit_nonce_lib 0 wit_agent (wit_syn wit_other_key ''bad'' wit_other) = (m1, Err e) \<and>
     clientBZCert m1 = Some wit_verified \<and> clientPublicKey m1 = Some (Some wit_other_key) \<and>
     agent_Validate wit_nonce_lib 0 m1 (wit_data_msg wit_other_key []) = (m2, Ok ())"
proof -
  obtain b' where b': "BZCert_Verify wit_nonce_lib 0 wit_other ''okta'' ''acme'' [] = Ok b'"
    "ClientPublicKey b' = EncodeToString wit_other_key"
    using wit_other_Verify by blast
  have len: "length wit_other_key = 32" by (simp add: wit_other_key_def)
  have tgt: "''bad'' \<noteq> EncodeToString wit_key"
  proof
    assume "''bad'' = EncodeToString wit_key"
    then have "DecodeString ''bad'' = Some wit_key" by (metis Decode_Encode)
    then show False by (simp add: DecodeString_def)
  qed
  let ?syn = "wit_syn wit_other_key ''bad'' wit_other" and ?msg = "wit_data_msg wit_other_key []"
  let ?p = "case msg_Payload ?syn of PSyn p \<Rightarrow> p" and ?d = "case msg_Payload ?msg of PData d \<Rightarrow> d"
  show ?thesis
  proof (rule rejected_Syn_swaps_key [where p = ?p and other = b' and v = "Version 2 2 0 [] []" and d = ?d])
    show "BZCert_Verify wit_nonce_lib 0 (syn_BZCert ?p) (idpProvider wit_agent) (idpOrgId wit_agent)
      (serviceAccounts wit_agent) = Ok b'"
      using b' by (simp add: wit_syn_def)
    show "PublicKeyFromString (ClientPublicKey b') = Ok (Some wit_other_key)"
      using b' len by (simp add: PublicKeyFromString_def)
    show "VerifySignature wit_nonce_lib ?syn (Some (Some wit_other_key)) = Ok ()"
      "VerifySignature wit_nonce_lib ?msg (Some (Some wit_other_key)) = Ok ()"
      by (rule wit_VerifySignature [OF len]; simp add: wit_syn_def wit_data_msg_def)+
    show "syn_TargetId ?p \<noteq> PublicKey_String (publickey wit_agent)"
      using tgt by (simp add: wit_syn_def)
  qed (simp_all add: wit_syn_def wit_data_msg_def BZCert_Expired_def BZCert_Hash_def second_def
        toy_check_def toy_lt_def shouldCheckTargetId_def schemaVersionTargetIdNotSet_def)
qed

text \<open>
  A session of one exchange under a digest that tells the three payloads apart, by one
  character of the action and one of the key after it.
\<close>

definition wit_index_lib :: lib where
  "wit_index_lib = toy_lib\<lparr>sha3 := (\<lambda>s. replicate 32 (if s ! 11 = CHR ''s'' then CHR ''s'' else s ! 21))\<rparr>"

definition wit_synack :: SynAckPayload where
  "wit_synack =
     \<lparr> synack_SchemaVersion = ''2.2'', synack_Type = ''SynAck'', synack_Action = ''s'',
       synack_ActionResponsePayload = Some [], synack_Timestamp = ''0'',
       synack_TargetPublicKey = EncodeToString wit_key, synack_Nonce = ''n'', synack_HPointer = ''h'' \<rparr>"

definition wit_chain_agent :: agent_Mrtap where
  "wit_chain_agent = wit_agent\<lparr>expectedHPointer := payload_hash wit_index_lib (PSynAck wit_synack)\<rparr>"

definition wit_chain_data :: DataPayload where
  "wit_chain_data = wit_data\<lparr>data_Action := ''d'', data_BZCertHash := cert_hash wit_verified,
     data_HPointer := payload_hash wit_index_lib (PSynAck wit_synack)\<rparr>"

definition wit_chain_msg :: MrtapMessage where
  "wit_chain_msg = \<lparr> msg_Type = Data, msg_Payload = PData wit_chain_data,
     msg_Signature = EncodeToString (wit_key @ replicate 32 CHR ''P'') \<rparr>"

definition wit_chain_ack :: DataAckPayload where
  "wit_chain_ack = DataPayload_BuildResponsePayload wit_index_lib wit_chain_data (Some [])
     (EncodeToString wit_key) ''2.2''"

lemma preimage_index:
  "data_Action d = ''d'' \<Longrightarrow> hash_preimage (payload_json (PData d)) ! 11 = CHR ''d'' \<and>
     hash_preimage (payload_json (PData d)) ! 21 = CHR ''P''"
  "dataack_Action a = ''d'' \<Longrightarrow> hash_preimage (payload_json (PDataAck a)) ! 11 = CHR ''d'' \<and>
     hash_preimage (payload_json (PDataAck a)) ! 21 = CHR ''R''"
  "synack_Action b = ''s'' \<Longrightarrow> hash_preimage (payload_json (PSynAck b)) ! 11 = CHR ''s''"
  by (simp_all add: hash_preimage_def sanitize_def json_quote_def)

lemma wit_index_simps [simp]:
  "sha3 wit_index_lib s = replicate 32 (if s ! 11 = CHR ''s'' then CHR ''s'' else s ! 21)"
  "ed_verify wit_index_lib = ed_verify toy_lib" "ed_sign wit_index_lib = ed_sign toy_lib"
  "semver_parse wit_index_lib = toy_version" "semver_lt wit_index_lib = toy_lt"
  "semver_string wit_index_lib = semver_string toy_lib"
  by (simp_all add: wit_index_lib_def)

lemma wit_chain_hashes:
  "payload_hash wit_index_lib (PData wit_chain_data) = EncodeToString (replicate 32 CHR ''P'')"
  "payload_hash wit_index_lib (PDataAck wit_chain_ack) = EncodeToString (replicate 32 CHR ''R'')"
  "payload_hash wit_index_lib (PSynAck wit_synack) = EncodeToString (replicate 32 CHR ''s'')"
  using preimage_index(1) [of wit_chain_data] preimage_index(2) [of wit_chain_ack]
    preimage_index(3) [of wit_synack]
  by (simp_all add: payload_hash_def HashPayload_def wit_chain_data_def wit_synack_def
      wit_chain_ack_def DataPayload_BuildResponsePayload_def del: payload_json.simps)

lemma wit_chain_validate:
  "now < 10 * second \<Longrightarrow> agent_Validate wit_index_lib now wit_chain_agent wit_chain_msg =
   (wit_chain_agent\<lparr>lastDataMessage := Some wit_chain_msg\<rparr>, Ok ())"
  using preimage_index(1) [of wit_chain_data]
  by (simp add: wit_chain_msg_def Validate_Data_Ok BZCert_Hash_def BZCert_Expired_def
      wit_chain_agent_def VerifySignature_def HashPayload_def PublicKey_Verify_def
      del: payload_json.simps) (simp add: wit_chain_data_def)

lemma wit_chain_exchange:
  assumes "now < 10 * second"
  shows "\<exists>m'. agent_exchange wit_index_lib wit_chain_agent (now, wit_chain_msg, Some []) =
           Some (m', wit_chain_data, wit_chain_ack) \<and>
         expectedHPointer m' = payload_hash wit_index_lib (PDataAck wit_chain_ack)"
proof -
  let ?m = "wit_chain_agent\<lparr>lastDataMessage := Some wit_chain_msg\<rparr>"
  let ?r = "\<lparr> msg_Type = DataAck, msg_Payload = PDataAck wit_chain_ack, msg_Signature = [] \<rparr>"
  have v: "getSchemaVersionToUse wit_index_lib ?m = Ok (Version 2 2 0 [] [])"
    by (simp add: getSchemaVersionToUse_def SchemaVersion_def toy_lt_def wit_chain_agent_def)
  have u: "unsigned_ack wit_index_lib now [] ?m wit_chain_msg (Some []) (Version 2 2 0 [] []) = Ok ?r"
    by (simp add: unsigned_ack_def wit_chain_msg_def BuildUnsignedDataAck_def wit_chain_agent_def
        wit_chain_ack_def char_of_def bit_0)
  obtain sg where "MrtapMessage_Sign wit_index_lib ?r (privatekey ?m) = Ok (?r\<lparr>msg_Signature := sg\<rparr>, True)"
    "sg \<noteq> []"
    by (simp add: MrtapMessage_Sign_def HashPayload_def PrivateKey_Sign_def wit_chain_agent_def
        wit_agent_def agent_New_def wit_config_def del: payload_json.simps)
  then have "agent_BuildAck wit_index_lib now [] ?m wit_chain_msg (GetAction wit_chain_msg) (Some []) =
      (?m\<lparr>expectedHPointer := payload_hash wit_index_lib (PDataAck wit_chain_ack)\<rparr>,
       Ok (?r\<lparr>msg_Signature := sg\<rparr>))"
    by (simp add: agent_BuildAck_def v u wit_chain_hashes)
  then show ?thesis
    using wit_chain_validate [OF assms] by (simp add: agent_exchange_def wit_chain_msg_def)
qed

theorem agent_history_committed_witness:
  "\<exists>m1 tr1 m2 tr2.
     agent_session wit_index_lib wit_chain_agent [(0, wit_chain_msg, Some [])] = Some (m1, tr1) \<and>
     agent_session wit_index_lib wit_chain_agent [(1, wit_chain_msg, Some [])] = Some (m2, tr2) \<and>
     length tr1 = 1 \<and> tr1 = tr2"
proof -
  let ?tr = "[(wit_chain_data, wit_chain_ack)]" and ?h = "payload_hash wit_index_lib (PDataAck wit_chain_ack)"
  obtain m1 m2 where s:
    "agent_session wit_index_lib wit_chain_agent [(0, wit_chain_msg, Some [])] = Some (m1, ?tr)"
    "agent_session wit_index_lib wit_chain_agent [(1, wit_chain_msg, Some [])] = Some (m2, ?tr)"
    "expectedHPointer m1 = ?h" "expectedHPointer m2 = ?h"
    using wit_chain_exchange [of 0] wit_chain_exchange [of 1] by (auto simp: second_def)
  have "inj_on (payload_hash wit_index_lib)
      ({PSynAck wit_synack, PSynAck wit_synack} \<union> transcript_payloads ?tr \<union> transcript_payloads ?tr)"
    by (auto simp: transcript_payloads_def wit_chain_hashes inj_on_def Encode_inject)
  with s agent_history_committed [OF s(1,2), of wit_synack wit_synack] show ?thesis
    by (auto simp: wit_chain_agent_def)
qed

end
