(* ===== verification/Agent_DataChannel.thy ===== *)
theory Agent_DataChannel
  imports Agent_Mrtap Agent_Message
begin

text \<open>
  \<^verbatim>\<open>bctl/agent/datachannel\<close>: one authenticated channel on the agent. The first Syn starts a
  plugin, later Data messages are validated and handed to it, and each is answered with an
  acknowledgement or an error message. The plugin is known through the interface \<^verbatim>\<open>IPlugin\<close>: its
  operations are an argument.

  The output channel is the list of the messages put into it; the goroutines around the
  handlers only move messages between channels.
\<close>

section \<open>State\<close>

text \<open>
  The plugin field is an interface value: no plugin, a nil pointer of some plugin type (left
  by a constructor that failed), or a plugin.
\<close>

datatype 'p plugin_slot = NoPlugin | NilPlugin | HasPlugin 'p

record 'p plugin_ops =
  plugin_New :: "string \<Rightarrow> string \<Rightarrow> string option \<Rightarrow> 'p res"
  plugin_Receive :: "'p \<Rightarrow> string \<Rightarrow> string option \<Rightarrow> 'p \<times> string option res"

record 'p agent_DataChannel =
  dc_id :: string
  dc_mrtap :: agent_Mrtap
  dc_plugin :: "'p plugin_slot"
  dc_output :: "AgentMessage list"
  dc_payloadClean :: bool

record agent_env =
  aenv_lib :: lib
  aenv_now :: int
  aenv_nonce :: string
  aenv_read_mrtap :: "wire_payload \<Rightarrow> MrtapMessage res"

section \<open>Sending\<close>

definition agent_send :: "'p agent_DataChannel \<Rightarrow> MessageType \<Rightarrow> wire_payload \<Rightarrow> 'p agent_DataChannel" where
  "agent_send d messageType messagePayload =
     d\<lparr>dc_output := dc_output d @ [\<lparr> am_ChannelId = dc_id d, am_MessageType = messageType,
        am_SchemaVersion = am_CurrentVersion, am_MessagePayload = messagePayload \<rparr>]\<rparr>"

definition agent_sendMrtap ::
  "agent_env \<Rightarrow> 'p agent_DataChannel \<Rightarrow> MrtapMessage \<Rightarrow> string \<Rightarrow> string option \<Rightarrow>
   'p agent_DataChannel \<times> unit res" where
  "agent_sendMrtap E d mrtapMessage action payload =
     (case agent_BuildAck (aenv_lib E) (aenv_now E) (aenv_nonce E) (dc_mrtap d) mrtapMessage action payload of
        (m, Err e) \<Rightarrow> (d\<lparr>dc_mrtap := m\<rparr>, Err (errorf_s ''could not build response message: '' e))
      | (m, Panic) \<Rightarrow> (d\<lparr>dc_mrtap := m\<rparr>, Panic)
      | (m, Ok ackMessage) \<Rightarrow> (agent_send (d\<lparr>dc_mrtap := m\<rparr>) MTMrtapLegacy (WMrtap ackMessage), Ok ()))"

definition sendError ::
  "agent_env \<Rightarrow> 'p agent_DataChannel \<Rightarrow> ErrorType \<Rightarrow> gerror \<Rightarrow> string \<Rightarrow> 'p agent_DataChannel" where
  "sendError E d errType err hash =
     agent_send d MTError (WError \<lparr> err_SchemaVersion = CurrentVersion,
       err_Timestamp = aenv_now E div second, err_Type = errType, err_Message = etext err,
       err_HPointer = hash \<rparr>)"

section \<open>Plugins and payloads\<close>

definition plugin_names :: "string list" where
  "plugin_names = [''kube'', ''shell'', ''ssh'', ''web'', ''db'']"

definition startPlugin ::
  "agent_env \<Rightarrow> 'p plugin_ops \<Rightarrow> 'p agent_DataChannel \<Rightarrow> string \<Rightarrow> string \<Rightarrow> string option \<Rightarrow> string \<Rightarrow>
   'p agent_DataChannel \<times> unit res" where
  "startPlugin E P d pluginName action payload version =
     (if pluginName \<notin> set plugin_names
      then (d, Err (errorf (''unrecognized plugin name '' @ pluginName)))
      else (case plugin_New P pluginName action payload of
              Err e \<Rightarrow> (d\<lparr>dc_plugin := NilPlugin\<rparr>, Err (errorf_s (''failed to start '' @ pluginName @
                          '' plugin with '' @ action @ '' action: '') e))
            | Panic \<Rightarrow> (d, Panic)
            | Ok p \<Rightarrow>
               (let d1 = d\<lparr>dc_plugin := HasPlugin p\<rparr> in
                case semver_parse (aenv_lib E) version of
                  Err e \<Rightarrow> (d1, Err (errorf ''unable to parse version''))
                | Panic \<Rightarrow> (d1, Panic)
                | Ok v \<Rightarrow> (d1\<lparr>dc_payloadClean := semver_check (aenv_lib E) ''>= 2.0'' v\<rparr>, Ok ()))))"

text \<open>
  \<^verbatim>\<open>cleanPayload\<close> cuts the first and the last byte off; the slice expression panics on a
  payload of one byte.
\<close>

definition cleanPayload :: "string option \<Rightarrow> string res" where
  "cleanPayload payload =
     (let bytes = (case payload of None \<Rightarrow> [] | Some b \<Rightarrow> b) in
      if length bytes = 1 then Panic
      else (case DecodeString (butlast (tl bytes)) of
              None \<Rightarrow> Err (errorf ''error decoding actionPayload: '')
            | Some payloadSafe \<Rightarrow> Ok payloadSafe))"

section \<open>Handlers\<close>

definition handle_Syn ::
  "agent_env \<Rightarrow> 'p plugin_ops \<Rightarrow> 'p agent_DataChannel \<Rightarrow> MrtapMessage \<Rightarrow> SynPayload \<Rightarrow>
   'p agent_DataChannel \<times> unit res" where
  "handle_Syn E P d mrtapMessage synPayload =
     (case (if dc_plugin d = NoPlugin
            then let parsedAction = split (syn_Action synPayload) ''/'' in
                 if length parsedAction \<le> 1
                 then let rerr = errorf (''malformed action: '' @ syn_Action synPayload) in
                      (sendError E d ComponentProcessingError rerr (MrtapMessage_Hash (aenv_lib E) mrtapMessage), Err rerr)
                 else (case startPlugin E P d (hd parsedAction) (syn_Action synPayload)
                              (syn_ActionPayload synPayload) (syn_SchemaVersion synPayload) of
                         (d1, Err e) \<Rightarrow>
                           (sendError E d1 ComponentStartupError e (MrtapMessage_Hash (aenv_lib E) mrtapMessage), Err e)
                       | (d1, r) \<Rightarrow> (d1, r))
            else (d, Ok ())) of
        (d1, Ok _) \<Rightarrow>
          (case agent_sendMrtap E d1 mrtapMessage [] (Some []) of (d2, Panic) \<Rightarrow> (d2, Panic) | (d2, _) \<Rightarrow> (d2, Ok ()))
      | (d1, r) \<Rightarrow> (d1, r))"

definition handle_Data ::
  "agent_env \<Rightarrow> 'p plugin_ops \<Rightarrow> 'p agent_DataChannel \<Rightarrow> MrtapMessage \<Rightarrow> DataPayload \<Rightarrow>
   'p agent_DataChannel \<times> unit res" where
  "handle_Data E P d mrtapMessage dataPayload =
     (if dc_plugin d = NoPlugin
      then let rerr = errorf ''plugin does not exist'' in
           (sendError E d ComponentProcessingError rerr (MrtapMessage_Hash (aenv_lib E) mrtapMessage), Err rerr)
      else (case (if dc_payloadClean d then Ok (data_ActionPayload dataPayload)
                  else res_map Some (cleanPayload (data_ActionPayload dataPayload))) of
              Err e \<Rightarrow> (d, Err (errorf_s ''failed to clean payload: '' e))
            | Panic \<Rightarrow> (d, Panic)
            | Ok actionPayload \<Rightarrow>
               (case dc_plugin d of
                  HasPlugin p \<Rightarrow>
                    (case plugin_Receive P p (data_Action dataPayload) actionPayload of
                       (p', Ok returnPayload) \<Rightarrow>
                         (case agent_sendMrtap E (d\<lparr>dc_plugin := HasPlugin p'\<rparr>) mrtapMessage
                                 (data_Action dataPayload) returnPayload of
                            (d1, Panic) \<Rightarrow> (d1, Panic)
                          | (d1, _) \<Rightarrow> (d1, Ok ()))
                     | (p', Err e) \<Rightarrow>
                         (sendError E (d\<lparr>dc_plugin := HasPlugin p'\<rparr>) ComponentProcessingError
                            (errorf_s ''plugin error processing MrTAP message: '' e)
                            (MrtapMessage_Hash (aenv_lib E) mrtapMessage), Ok ())
                     | (p', Panic) \<Rightarrow> (d\<lparr>dc_plugin := HasPlugin p'\<rparr>, Panic))
                | _ \<Rightarrow> (d, Panic))))"

definition handleMrtapMessage ::
  "agent_env \<Rightarrow> 'p plugin_ops \<Rightarrow> 'p agent_DataChannel \<Rightarrow> MrtapMessage \<Rightarrow> 'p agent_DataChannel \<times> unit res" where
  "handleMrtapMessage E P d mrtapMessage =
     (case agent_Validate (aenv_lib E) (aenv_now E) (dc_mrtap d) mrtapMessage of
        (m, Err e) \<Rightarrow>
          (let rerr = errorf_s ''invalid MrTAP message: '' e in
           (sendError E (d\<lparr>dc_mrtap := m\<rparr>) MrtapLegacyValidationError rerr
              (MrtapMessage_Hash (aenv_lib E) mrtapMessage), Err rerr))
      | (m, Panic) \<Rightarrow> (d\<lparr>dc_mrtap := m\<rparr>, Panic)
      | (m, Ok _) \<Rightarrow>
          (let d1 = d\<lparr>dc_mrtap := m\<rparr> in
           case msg_Type mrtapMessage of
             Syn \<Rightarrow> (case msg_Payload mrtapMessage of PSyn p \<Rightarrow> handle_Syn E P d1 mrtapMessage p | _ \<Rightarrow> (d1, Panic))
           | Data \<Rightarrow> (case msg_Payload mrtapMessage of PData p \<Rightarrow> handle_Data E P d1 mrtapMessage p | _ \<Rightarrow> (d1, Panic))
           | _ \<Rightarrow> (let rerr = errorf ''invalid MrTAP Payload'' in
                  (sendError E d1 ComponentProcessingError rerr (MrtapMessage_Hash (aenv_lib E) mrtapMessage), Err rerr))))"

definition agent_processInput ::
  "agent_env \<Rightarrow> 'p plugin_ops \<Rightarrow> 'p agent_DataChannel \<Rightarrow> AgentMessage \<Rightarrow> 'p agent_DataChannel \<times> unit res" where
  "agent_processInput E P d agentMessage =
     (case am_MessageType agentMessage of
        MTMrtap \<Rightarrow>
          (case read_mrtap (aenv_read_mrtap E) (am_MessagePayload agentMessage) of
             Err e \<Rightarrow> (sendError E d ComponentProcessingError (errorf_s ''malformed MrTAP message: '' e) [], Ok ())
           | Panic \<Rightarrow> (d, Panic)
           | Ok mrtapMessage \<Rightarrow>
               (case handleMrtapMessage E P d mrtapMessage of (d1, Panic) \<Rightarrow> (d1, Panic) | (d1, _) \<Rightarrow> (d1, Ok ())))
      | t \<Rightarrow> (sendError E d ComponentProcessingError
                (errorf (''unhandled message type: '' @ MessageType_string t)) [], Ok ()))"

text \<open>
  \<^verbatim>\<open>New\<close> processes the Syn; when that fails what is in the output channel is flushed to the
  connection. The result is the channel or the error, with the messages sent.
\<close>

definition agent_DataChannel_New ::
  "agent_env \<Rightarrow> 'p plugin_ops \<Rightarrow> agent_Mrtap \<Rightarrow> string \<Rightarrow> wire_payload \<Rightarrow>
   AgentMessage list \<times> 'p agent_DataChannel res" where
  "agent_DataChannel_New E P mrtap ident syn =
     (let d = \<lparr> dc_id = ident, dc_mrtap = mrtap, dc_plugin = NoPlugin, dc_output = [], dc_payloadClean = False \<rparr> in
      case read_mrtap (aenv_read_mrtap E) syn of
        Err e \<Rightarrow> ([], Err (errorf_s ''malformed MrTAP message: '' e))
      | Panic \<Rightarrow> ([], Panic)
      | Ok synPayload \<Rightarrow>
          if msg_Type synPayload \<noteq> Syn
          then ([], Err (errorf ''datachannel must be started with a SYN message''))
          else (case handleMrtapMessage E P d synPayload of
                  (d1, Err e) \<Rightarrow> (dc_output d1, Err e)
                | (d1, Panic) \<Rightarrow> ([], Panic)
                | (d1, Ok _) \<Rightarrow> ([], Ok d1)))"

section \<open>Acknowledgements can always be built\<close>






lemma sendError_fields [simp]:
  "dc_plugin (sendError E d t e h) = dc_plugin d" "dc_mrtap (sendError E d t e h) = dc_mrtap d"
  "dc_payloadClean (sendError E d t e h) = dc_payloadClean d"
  by (simp_all add: sendError_def agent_send_def)







text \<open>
  A message that does not validate never reaches the plugin: the plugin and the payload
  mode are untouched and the one answer is a validation error under its legacy name, with
  the text of the failed check.
\<close>

lemma invalid_message_isolated:
  assumes "agent_Validate (aenv_lib E) (aenv_now E) (dc_mrtap d) msg = (m, Err e)"
  shows "\<exists>d' x err. handleMrtapMessage E P d msg = (d', Err (errorf_s ''invalid MrTAP message: '' e)) \<and>
     dc_plugin d' = dc_plugin d \<and> dc_payloadClean d' = dc_payloadClean d \<and>
     dc_output d' = dc_output d @ [x] \<and> am_MessageType x = MTError \<and> am_MessagePayload x = WError err \<and>
     err_Type err = MrtapLegacyValidationError \<and> err_HPointer err = payload_hash (aenv_lib E) (msg_Payload msg) \<and>
     err_Message err = ''invalid MrTAP message: '' @ etext e"
  using assms by (simp add: handleMrtapMessage_def Let_def sendError_def agent_send_def)

text \<open>
  A payload that cannot be cleaned is dropped in silence: the Data message has already
  been recorded as the last valid one, but neither an acknowledgement nor an error is sent,
  and the agent goes on expecting the hash pointer it expected before.
\<close>

lemma uncleanable_payload_unanswered:
  assumes "agent_Validate (aenv_lib E) (aenv_now E) (dc_mrtap d) msg = (m, Ok u)"
    and "msg_Payload msg = PData p" and "dc_plugin d = HasPlugin q" and "\<not> dc_payloadClean d"
    and "cleanPayload (data_ActionPayload p) = Err e"
  shows "\<exists>d' e'. handleMrtapMessage E P d msg = (d', Err e') \<and> dc_output d' = dc_output d \<and>
     lastDataMessage (dc_mrtap d') = Some msg \<and>
     expectedHPointer (dc_mrtap d') = expectedHPointer (dc_mrtap d)"
proof -
  have t: "msg_Type msg = Data" using agent_Validate_Ok_type [OF assms(1)] assms(2) by auto
  then have "m = (dc_mrtap d)\<lparr>lastDataMessage := Some msg\<rparr>" using assms(1,2) by (auto simp: Validate_Data_Ok)
  then show ?thesis using assms t by (simp add: handleMrtapMessage_def handle_Data_def)
qed

text \<open>
  Cleaning undoes the quoting old daemons add: the base64 text between quotes becomes the
  bytes again. On a payload of a single byte it does not return an error but panics.
\<close>

lemma cleanPayload_roundtrip:
  "cleanPayload (Some (json_quote (EncodeToString b))) = Ok b \<and> cleanPayload (Some [c]) = Panic \<and>
   cleanPayload None = Ok []"
proof -
  have "butlast (tl (dquote @ EncodeToString b @ dquote)) = EncodeToString b"
    by (simp add: dquote_def butlast_append)
  moreover have "length (dquote @ EncodeToString b @ dquote) \<noteq> 1" by (simp add: dquote_def)
  ultimately show ?thesis by (simp add: cleanPayload_def Let_def)
qed

section \<open>Witnesses\<close>

definition quiet_plugin :: "unit plugin_ops" where
  "quiet_plugin = \<lparr> plugin_New = (\<lambda>_ _ _. Ok ()), plugin_Receive = (\<lambda>p _ _. (p, Ok (Some []))) \<rparr>"

definition wit_agent_env :: agent_env where
  "wit_agent_env = \<lparr> aenv_lib = wit_nonce_lib, aenv_now = 0, aenv_nonce = ''n'',
     aenv_read_mrtap = (\<lambda>_. Err (errorf [])) \<rparr>"

definition wit_channel :: "bool \<Rightarrow> unit agent_DataChannel" where
  "wit_channel clean = \<lparr> dc_id = ''c'', dc_mrtap = wit_agent, dc_plugin = HasPlugin (), dc_output = [],
     dc_payloadClean = clean \<rparr>"


lemma wit_channel_simps [simp]:
  "dc_mrtap (wit_channel b) = wit_agent" "dc_plugin (wit_channel b) = HasPlugin ()" "dc_output (wit_channel b) = []"
  "dc_payloadClean (wit_channel b) = b" "aenv_lib wit_agent_env = wit_nonce_lib" "aenv_now wit_agent_env = 0"
  "plugin_Receive quiet_plugin p a pl = (p, Ok (Some []))"
  by (simp_all add: wit_channel_def wit_agent_env_def quiet_plugin_def)



end
