(* ===== verification/Agent_Connection.thy ===== *)
theory Agent_Connection
  imports Broker Agent_DataChannel
begin

text \<open>
  \<^verbatim>\<open>bctl/agent/controlchannel/dataconnection\<close>: the agent's connection to one daemon. It opens and
  closes data channels, hands incoming messages to them through the broker, and sends what
  they produce.

  The send queue is drained by the main routine, so a \<^verbatim>\<open>Send\<close> of another routine that finds it
  full only waits; where the main routine itself sends, when the connection is dying, its
  capacity decides whether it ever returns. Timers and the choices of select are events.
\<close>

section \<open>A data channel as the broker sees it\<close>

text \<open>
  The channel's tomb is alive until it is closed. A channel whose \<^verbatim>\<open>New\<close> failed has no routine
  that reads its input; it is \<^term>\<open>None\<close> inside.
\<close>

record 'p agent_channel =
  agc_dc :: "'p agent_DataChannel option"
  agc_alive :: bool
  agc_input :: "AgentMessage list"

definition inputChan_size :: nat where
  "inputChan_size = 50"

definition agent_channel_Receive :: "'p agent_channel \<Rightarrow> AgentMessage \<Rightarrow> 'p agent_channel option" where
  "agent_channel_Receive c agentMessage =
     (if \<not> agc_alive c then Some c
      else if length (agc_input c) < inputChan_size then Some (c\<lparr>agc_input := agc_input c @ [agentMessage]\<rparr>)
      else None)"

text \<open>
  \<^verbatim>\<open>Close\<close> kills the tomb; the listening routine then sends what is left in the output channel. Without
  a listening routine the call returns after its timeout.
\<close>

definition agent_channel_Close :: "'p agent_channel \<Rightarrow> gerror \<Rightarrow> 'p agent_channel \<times> AgentMessage list" where
  "agent_channel_Close c reason =
     (if \<not> agc_alive c then (c, [])
      else (case agc_dc c of
              None \<Rightarrow> (c\<lparr>agc_alive := False\<rparr>, [])
            | Some d \<Rightarrow> (c\<lparr>agc_alive := False, agc_dc := Some (d\<lparr>dc_output := []\<rparr>)\<rparr>, dc_output d)))"

definition agent_channel_ops :: "'p agent_channel channel_ops" where
  "agent_channel_ops = \<lparr> ch_Receive = agent_channel_Receive, ch_Close = agent_channel_Close \<rparr>"

text \<open>One turn of the routine that reads the input: nothing happens if there is none.\<close>

definition agent_channel_turn :: "agent_env \<Rightarrow> 'p plugin_ops \<Rightarrow> 'p agent_channel \<Rightarrow> 'p agent_channel \<times> unit res" where
  "agent_channel_turn E P c =
     (case (agc_dc c, agc_input c) of
        (Some d, msg # rest) \<Rightarrow>
          if \<not> agc_alive c then (c, Ok ())
          else (case agent_processInput E P d msg of (d1, r) \<Rightarrow> (c\<lparr>agc_dc := Some d1, agc_input := rest\<rparr>, r))
      | _ \<Rightarrow> (c, Ok ()))"

interpretation agc: channel agent_channel_ops agc_alive
  by unfold_locales
     (auto simp: agent_channel_ops_def agent_channel_Close_def agent_channel_Receive_def split: option.splits)

section \<open>The connection\<close>

record OpenDataChannelMessage =
  od_DataChannelId :: string
  od_Syn :: wire_payload

record 'a SignalRInvocation =
  sr_Target :: string
  sr_Arguments :: "'a list"

text \<open>
  How \<^verbatim>\<open>encoding/json\<close> fills each message from an argument: with what it could fill and the
  error, if there was one.
\<close>

record 'a conn_readers =
  cr_closeAgentWebsocket :: "'a \<Rightarrow> string \<times> gerror option"
  cr_daemonConnected :: "'a \<Rightarrow> int \<times> gerror option"
  cr_openDataChannel :: "'a \<Rightarrow> OpenDataChannelMessage \<times> gerror option"
  cr_closeDataChannel :: "'a \<Rightarrow> string \<times> gerror option"
  cr_agentMessage :: "'a \<Rightarrow> AgentMessage \<times> gerror option"

record 'p agent_conn =
  cn_ready :: bool
  cn_connectionId :: string
  cn_broker :: "'p agent_channel broker"
  cn_sendQueue :: "AgentMessage list"
  cn_idleTimeout :: int
  cn_killed :: "gerror option"
  cn_mrtapConfig :: MrtapConfig

definition sendQueue_size :: nat where
  "sendQueue_size = 50"

definition conn_Send :: "'p agent_conn \<Rightarrow> AgentMessage \<Rightarrow> 'p agent_conn" where
  "conn_Send c agentMessage = c\<lparr>cn_sendQueue := cn_sendQueue c @ [agentMessage]\<rparr>"

definition conn_kill :: "gerror \<Rightarrow> 'p agent_conn \<Rightarrow> 'p agent_conn" where
  "conn_kill reason c = c\<lparr>cn_killed := (case cn_killed c of None \<Rightarrow> Some reason | Some e \<Rightarrow> Some e)\<rparr>"

definition agent_openDataChannel ::
  "agent_env \<Rightarrow> 'p plugin_ops \<Rightarrow> 'p agent_conn \<Rightarrow> OpenDataChannelMessage \<Rightarrow> 'p agent_conn \<times> unit res" where
  "agent_openDataChannel E P c odMessage =
     (let dcId = od_DataChannelId odMessage;
          subscribed = (\<lambda>d. c\<lparr>cn_broker := Broker_Subscribe (cn_broker c) dcId
                                \<lparr> agc_dc = d, agc_alive = True, agc_input = [] \<rparr>\<rparr>) in
      case agent_DataChannel_New E P (agent_New (cn_mrtapConfig c)) dcId (od_Syn odMessage) of
        (flushed, Ok d) \<Rightarrow> (subscribed (Some d), Ok ())
      | (flushed, Err e) \<Rightarrow> (foldl conn_Send (subscribed None) flushed, Err e)
      | (flushed, Panic) \<Rightarrow> (subscribed None, Panic))"

definition agent_closeDataChannel :: "'p agent_conn \<Rightarrow> string \<Rightarrow> 'p agent_conn \<times> unit res" where
  "agent_closeDataChannel c dcId =
     (case Broker_CloseChannel agent_channel_ops (cn_broker c) dcId
             (errorf ''received close data channel control message from daemon'') of
        (b, out, ok) \<Rightarrow>
          (foldl conn_Send (c\<lparr>cn_broker := b\<rparr>) out,
           if ok then Ok () else Err (errorf (''agent connection does not have a datachannel with id: '' @ dcId))))"

text \<open>
  One message in \<^verbatim>\<open>receive\<close>. An error in reading a message is only logged, and what was read so
  far is used; a message without arguments panics; \<^term>\<open>None\<close> is a call that blocks.
\<close>

definition agent_receive_turn ::
  "'a conn_readers \<Rightarrow> agent_env \<Rightarrow> 'p plugin_ops \<Rightarrow> 'p agent_conn \<Rightarrow> 'a SignalRInvocation \<Rightarrow>
   ('p agent_conn \<times> unit res) option" where
  "agent_receive_turn R E P c message =
     (let target = sr_Target message; logged = (\<lambda>(c', r). (c', case r of Panic \<Rightarrow> Panic | _ \<Rightarrow> Ok ())) in
      if target = ''DaemonDisconnected'' then Some (c, Ok ())
      else if target \<notin> {''CloseConnection'', ''DaemonConnected'', ''OpenDataChannel'', ''CloseDataChannel'',
                        ''RequestBastionToAgentV1''} then Some (c, Ok ())
      else
        (case sr_Arguments message of
           [] \<Rightarrow> Some (c, Panic)
         | arg # _ \<Rightarrow>
             if target = ''CloseConnection''
             then Some (conn_kill (case cr_closeAgentWebsocket R arg of
                      (_, Some err) \<Rightarrow> errorf_s ''error unmarshalling close agent websocket message. Error: '' err
                    | (reason, None) \<Rightarrow> errorf (''the daemon terminated the connection with reason {'' @ reason @ ''}'')) c, Ok ())
             else if target = ''DaemonConnected''
             then Some (case cr_daemonConnected R arg of
                    (_, Some err) \<Rightarrow> c | (timeout, None) \<Rightarrow> c\<lparr>cn_idleTimeout := timeout\<rparr>, Ok ())
             else if target = ''OpenDataChannel''
             then Some (logged (agent_openDataChannel E P c (fst (cr_openDataChannel R arg))))
             else if target = ''CloseDataChannel''
             then Some (logged (agent_closeDataChannel c (fst (cr_closeDataChannel R arg))))
             else
               (let agentMessage = fst (cr_agentMessage R arg) in
                map_option (\<lambda>(b, r). (c\<lparr>cn_broker := b\<rparr>, Ok ()))
                  (Broker_DirectMessage agent_channel_ops (cn_broker c) (am_ChannelId agentMessage) agentMessage))))"

text \<open>The idle timer.\<close>

definition IdleTimeoutTemplate :: string where
  "IdleTimeoutTemplate = ''Closing connection after idle timeout''"

definition NewIdleTimeoutConnectionClosedError :: "string \<Rightarrow> gerror" where
  "NewIdleTimeoutConnectionClosedError duration =
     GErr (IdleTimeoutTemplate @ '' of '' @ duration @ ''.'') [IdleTimeoutConnectionClosedError]"

definition agent_idle :: "string \<Rightarrow> 'p agent_conn \<Rightarrow> 'p agent_conn" where
  "agent_idle duration c = conn_kill (NewIdleTimeoutConnectionClosedError duration) c"

section \<open>Connecting\<close>

text \<open>
  One event of the loop in \<^verbatim>\<open>connect\<close>: the tomb dies, the back-off ticker is exhausted, or it
  ticks, with what fetching the identity token and connecting give. What is signed is the
  marshalled request.
\<close>

datatype connect_event = CDying | CExhausted | CTick "string res" "unit res"

definition initialDaemonConnectTimeout :: int where
  "initialDaemonConnectTimeout = 60 * second"

fun agent_connect ::
  "lib \<Rightarrow> PrivateKey option \<Rightarrow> string \<Rightarrow> 'p agent_conn \<Rightarrow> connect_event list \<Rightarrow> 'p agent_conn \<times> unit res option" where
  "agent_connect L privateKey request c [] = (c, None)"
| "agent_connect L privateKey request c (CDying # es) = (c, Some (Ok ()))"
| "agent_connect L privateKey request c (CExhausted # es) = (c, Some (Err (errorf ''failed to connect after 5m0s'')))"
| "agent_connect L privateKey request c (CTick token connected # es) =
     (case token of
        Err e \<Rightarrow> agent_connect L privateKey request c es
      | Panic \<Rightarrow> (c, Some Panic)
      | Ok agentIdentityToken \<Rightarrow>
         (case PrivateKey_Sign L privateKey request of
            Panic \<Rightarrow> (c, Some Panic)
          | Err e \<Rightarrow> (c, Some (Err e))
          | Ok sig \<Rightarrow>
             (case connected of
                Err e \<Rightarrow> agent_connect L privateKey request c es
              | Panic \<Rightarrow> (c, Some Panic)
              | Ok _ \<Rightarrow> (c\<lparr>cn_ready := True, cn_idleTimeout := initialDaemonConnectTimeout\<rparr>, Some (Ok ())))))"

section \<open>Dying\<close>

text \<open>
  What both ends do when their connection dies: close the channels, queue one last message,
  send everything that is queued. The routine that drains the queue is the one that does
  this: if the queue is full when it sends, it waits for ever.
\<close>

definition close_and_flush ::
  "'c channel_ops \<Rightarrow> 'c broker \<Rightarrow> gerror \<Rightarrow> AgentMessage list \<Rightarrow> AgentMessage \<Rightarrow> AgentMessage list option" where
  "close_and_flush C b reason queue lastMessage =
     (case Broker_Close C b reason of
        (_, _, out) \<Rightarrow> if length (queue @ out) < sendQueue_size then Some (queue @ out @ [lastMessage]) else None)"

definition closeDaemonWebsocket_message :: "string \<Rightarrow> AgentMessage" where
  "closeDaemonWebsocket_message reason =
     \<lparr> am_ChannelId = ''-1'', am_MessageType = MTCloseDaemonWebsocket, am_SchemaVersion = am_CurrentVersion,
       am_MessagePayload = WRaw reason \<rparr>"

text \<open>The dying branch of the main loop; the second component is what went to the client.\<close>

definition agent_conn_dying :: "'p agent_conn \<Rightarrow> ('p agent_conn \<times> AgentMessage list) option" where
  "agent_conn_dying c =
     map_option (\<lambda>sent. (c\<lparr>cn_ready := False, cn_broker := [], cn_sendQueue := []\<rparr>, sent))
       (close_and_flush agent_channel_ops (cn_broker c) (errorf ''connection closed'') (cn_sendQueue c)
         (closeDaemonWebsocket_message (case cn_killed c of Some e \<Rightarrow> etext e | None \<Rightarrow> [])))"

definition agent_targetSelectHandler :: "AgentMessage \<Rightarrow> string res" where
  "agent_targetSelectHandler agentMessage =
     (case am_MessageType agentMessage of
        MTCloseDaemonWebsocket \<Rightarrow> Ok ''CloseDaemonWebsocketV1''
      | MTMrtap \<Rightarrow> Ok ''ResponseAgentToBastionV1'' | MTMrtapLegacy \<Rightarrow> Ok ''ResponseAgentToBastionV1''
      | MTStream \<Rightarrow> Ok ''ResponseAgentToBastionV1'' | MTError \<Rightarrow> Ok ''ResponseAgentToBastionV1''
      | t \<Rightarrow> Err (errorf (''unable to determine SignalR endpoint for message type: '' @ MessageType_string t)))"

definition agent_NumDataChannels :: "'p agent_conn \<Rightarrow> nat" where
  "agent_NumDataChannels c = Broker_NumChannels (cn_broker c)"

section \<open>Properties\<close>

text \<open>The receive routine over a list of messages; it stops when a call blocks or panics.\<close>

fun agent_receive_all ::
  "'a conn_readers \<Rightarrow> agent_env \<Rightarrow> 'p plugin_ops \<Rightarrow> 'p agent_conn \<Rightarrow> 'a SignalRInvocation list \<Rightarrow> 'p agent_conn option" where
  "agent_receive_all R E P c [] = Some c"
| "agent_receive_all R E P c (m # ms) =
     (case agent_receive_turn R E P c m of Some (c', Ok _) \<Rightarrow> agent_receive_all R E P c' ms | _ \<Rightarrow> None)"

definition request :: "'a \<Rightarrow> 'a SignalRInvocation" where
  "request a = \<lparr> sr_Target = ''RequestBastionToAgentV1'', sr_Arguments = [a] \<rparr>"

lemma foldl_conn_Send [simp]: "cn_broker (foldl conn_Send c ms) = cn_broker c"
  by (induction ms arbitrary: c) (simp_all add: conn_Send_def)

lemma request_turn:
  "agent_receive_turn R E P c (request a) =
     map_option (\<lambda>(b, r). (c\<lparr>cn_broker := b\<rparr>, Ok ()))
       (Broker_DirectMessage agent_channel_ops (cn_broker c) (am_ChannelId (fst (cr_agentMessage R a)))
         (fst (cr_agentMessage R a)))"
  by (simp add: agent_receive_turn_def request_def Let_def)

lemma request_to_live:
  assumes "al_get (cn_broker c) i = Some ch" "agc_alive ch" "am_ChannelId (fst (cr_agentMessage R a)) = i"
    "length (agc_input ch) < inputChan_size"
  shows "agent_receive_turn R E P c (request a) =
    Some (c\<lparr>cn_broker := al_set (cn_broker c) i (ch\<lparr>agc_input := agc_input ch @ [fst (cr_agentMessage R a)]\<rparr>)\<rparr>, Ok ())"
  using assms by (simp add: request_turn Broker_DirectMessage_def agent_channel_ops_def agent_channel_Receive_def)

lemma request_to_full:
  assumes "al_get (cn_broker c) i = Some ch" "agc_alive ch" "am_ChannelId (fst (cr_agentMessage R a)) = i"
    "inputChan_size \<le> length (agc_input ch)"
  shows "agent_receive_turn R E P c (request a) = None"
  using assms by (simp add: request_turn Broker_DirectMessage_def agent_channel_ops_def agent_channel_Receive_def)

lemma requests_fill:
  assumes "al_get (cn_broker c) i = Some ch" "agc_alive ch" "\<forall>a \<in> set as. am_ChannelId (fst (cr_agentMessage R a)) = i"
    "length (agc_input ch) + length as \<le> inputChan_size"
  shows "\<exists>c'. agent_receive_all R E P c (map request as) = Some c' \<and>
    al_get (cn_broker c') i = Some (ch\<lparr>agc_input := agc_input ch @ map (\<lambda>a. fst (cr_agentMessage R a)) as\<rparr>)"
  using assms
proof (induction as arbitrary: c ch)
  case (Cons a as)
  let ?ch = "ch\<lparr>agc_input := agc_input ch @ [fst (cr_agentMessage R a)]\<rparr>"
  let ?c = "c\<lparr>cn_broker := al_set (cn_broker c) i ?ch\<rparr>"
  have t: "agent_receive_turn R E P c (request a) = Some (?c, Ok ())"
    using Cons.prems by (intro request_to_live) auto
  have "\<exists>c'. agent_receive_all R E P ?c (map request as) = Some c' \<and>
      al_get (cn_broker c') i = Some (?ch\<lparr>agc_input := agc_input ?ch @ map (\<lambda>a. fst (cr_agentMessage R a)) as\<rparr>)"
    by (rule Cons.IH) (use Cons.prems in auto)
  then show ?case using t by auto
qed auto

text \<open>
  A data channel that could not be opened stays in the table and ends up blocking the
  whole connection: after the failed open its input takes fifty messages that nobody reads,
  and the next message for it blocks the routine that receives for all channels.
\<close>

theorem failed_open_blocks_connection:
  assumes "agent_DataChannel_New E P (agent_New (cn_mrtapConfig c)) (od_DataChannelId od) (od_Syn od) = (flushed, Err e)"
    and "length as = 50" and "\<forall>a \<in> set (x # as). am_ChannelId (fst (cr_agentMessage R a)) = od_DataChannelId od"
  shows "\<exists>c' ch. agent_receive_all R E P (fst (agent_openDataChannel E P c od)) (map request as) = Some c' \<and>
    al_get (cn_broker c') (od_DataChannelId od) = Some ch \<and> agent_channel_turn E P ch = (ch, Ok ()) \<and>
    agent_receive_turn R E P c' (request x) = None"
proof -
  let ?i = "od_DataChannelId od" and ?c = "fst (agent_openDataChannel E P c od)"
  let ?ch = "\<lparr> agc_dc = None, agc_alive = True, agc_input = [] \<rparr>"
  have ch: "al_get (cn_broker ?c) ?i = Some ?ch"
    using assms(1) by (simp add: agent_openDataChannel_def Broker_Subscribe_def)
  obtain c' where c': "agent_receive_all R E P ?c (map request as) = Some c'"
    "al_get (cn_broker c') ?i = Some (?ch\<lparr>agc_input := map (\<lambda>a. fst (cr_agentMessage R a)) as\<rparr>)"
    using requests_fill [OF ch, of as R E P] assms(2,3) by (auto simp: inputChan_size_def)
  have "agent_receive_turn R E P c' (request x) = None"
    by (rule request_to_full [OF c'(2)]) (use assms(2,3) in \<open>auto simp: inputChan_size_def\<close>)
  then show ?thesis using c' by (auto simp: agent_channel_turn_def)
qed

text \<open>Everything an agent's data channel or its connection sends has an endpoint.\<close>

lemma agent_endpoints:
  "am_MessageType m \<in> {MTMrtapLegacy, MTStream, MTError, MTCloseDaemonWebsocket} \<Longrightarrow> is_ok (agent_targetSelectHandler m)"
  by (auto simp: agent_targetSelectHandler_def)

lemma close_and_flush_Some:
  "close_and_flush C b reason queue m = Some sent \<longleftrightarrow>
     (\<exists>b' cs out. Broker_Close C b reason = (b', cs, out) \<and> length queue + length out < sendQueue_size \<and>
        sent = queue @ out @ [m])"
  by (auto simp: close_and_flush_def split: prod.splits if_splits)

section \<open>Witness\<close>

definition wit_conn :: "unit agent_conn" where
  "wit_conn = \<lparr> cn_ready = True, cn_connectionId = ''1'', cn_broker = [], cn_sendQueue = [], cn_idleTimeout = 0,
     cn_killed = None, cn_mrtapConfig = wit_config \<rparr>"

definition plain_readers :: "AgentMessage conn_readers" where
  "plain_readers = \<lparr> cr_closeAgentWebsocket = (\<lambda>_. ([], None)), cr_daemonConnected = (\<lambda>_. (0, None)),
     cr_openDataChannel = (\<lambda>m. (\<lparr> od_DataChannelId = [], od_Syn = am_MessagePayload m \<rparr>, None)),
     cr_closeDataChannel = (\<lambda>m. (am_ChannelId m, None)), cr_agentMessage = (\<lambda>m. (m, None)) \<rparr>"

theorem failed_open_blocks_connection_witness:
  "\<exists>c'. agent_receive_all plain_readers wit_agent_env quiet_plugin
       (fst (agent_openDataChannel wit_agent_env quiet_plugin wit_conn \<lparr> od_DataChannelId = ''d'', od_Syn = WRaw ''x'' \<rparr>))
       (replicate 50 (request \<lparr> am_ChannelId = ''d'', am_MessageType = MTMrtap, am_SchemaVersion = [], am_MessagePayload = WRaw [] \<rparr>))
     = Some c' \<and>
     agent_receive_turn plain_readers wit_agent_env quiet_plugin c'
       (request \<lparr> am_ChannelId = ''d'', am_MessageType = MTMrtap, am_SchemaVersion = [], am_MessagePayload = WRaw [] \<rparr>) = None"
proof -
  let ?m = "\<lparr> am_ChannelId = ''d'', am_MessageType = MTMrtap, am_SchemaVersion = [], am_MessagePayload = WRaw [] \<rparr>"
  have "\<exists>fl e. agent_DataChannel_New wit_agent_env quiet_plugin (agent_New (cn_mrtapConfig wit_conn)) ''d'' (WRaw ''x'') = (fl, Err e)"
    by (simp add: agent_DataChannel_New_def read_mrtap_def wit_agent_env_def)
  then obtain fl e where "agent_DataChannel_New wit_agent_env quiet_plugin (agent_New (cn_mrtapConfig wit_conn)) ''d'' (WRaw ''x'')
      = (fl, Err e)" by blast
  with failed_open_blocks_connection [of wit_agent_env quiet_plugin wit_conn "\<lparr> od_DataChannelId = ''d'', od_Syn = WRaw ''x'' \<rparr>"
      fl e "replicate 50 ?m" ?m plain_readers]
  show ?thesis by (auto simp: plain_readers_def map_replicate_const)
qed

end
