(* ===== verification/Daemon_BZCert.thy ===== *)
theory Daemon_BZCert
  imports BZCert
begin

text \<open>
  \<^verbatim>\<open>bctl/daemon/mrtap/bzcert\<close>: the daemon's certificate, filled from the zli's configuration
  file and refreshed by running a zli command and reading the file again. What the command
  does is seen only through its result and the file read afterwards; the file system and the
  process are arguments, and so is the JWT parser.
\<close>

section \<open>The zli configuration\<close>

record BZCertConfig =
  cc_PrivateKey :: string
  cc_PublicKey :: string
  CerRand :: string
  CerRandSignature :: string
  cc_InitialIdToken :: string
  OrgIssuerId :: string
  OrgProvider :: string

record ZLIConfig =
  CertConfig :: BZCertConfig
  TokenSet_CurrentIdToken :: string
  configPath :: string
  refreshCommand :: string

text \<open>
  The configuration file as JSON: a key that is absent leaves the field it is read into
  as it was.
\<close>

record zli_file =
  f_privateKey :: "string option"
  f_publicKey :: "string option"
  f_cerRand :: "string option"
  f_cerRandSig :: "string option"
  f_initialIdToken :: "string option"
  f_orgIssuerId :: "string option"
  f_orgProvider :: "string option"
  f_id_token :: "string option"

definition keep :: "'a option \<Rightarrow> 'a \<Rightarrow> 'a" where
  "keep new old = (case new of Some v \<Rightarrow> v | None \<Rightarrow> old)"

definition json_into_config :: "zli_file \<Rightarrow> ZLIConfig \<Rightarrow> ZLIConfig" where
  "json_into_config f z = z\<lparr>
     CertConfig := \<lparr>
       cc_PrivateKey = keep (f_privateKey f) (cc_PrivateKey (CertConfig z)),
       cc_PublicKey = keep (f_publicKey f) (cc_PublicKey (CertConfig z)),
       CerRand = keep (f_cerRand f) (CerRand (CertConfig z)),
       CerRandSignature = keep (f_cerRandSig f) (CerRandSignature (CertConfig z)),
       cc_InitialIdToken = keep (f_initialIdToken f) (cc_InitialIdToken (CertConfig z)),
       OrgIssuerId = keep (f_orgIssuerId f) (OrgIssuerId (CertConfig z)),
       OrgProvider = keep (f_orgProvider f) (OrgProvider (CertConfig z)) \<rparr>,
     TokenSet_CurrentIdToken := keep (f_id_token f) (TokenSet_CurrentIdToken z)\<rparr>"

text \<open>
  Opening, reading and decoding the file each fail with their own message; the three steps
  are results of the file system argument.
\<close>

record file_system =
  os_Open :: "string \<Rightarrow> unit res"
  io_ReadAll :: "string \<Rightarrow> string res"
  json_Unmarshal_zli :: "string \<Rightarrow> zli_file res"
  exec_Command :: "string \<Rightarrow> string list \<Rightarrow> unit res"

definition ZLIConfig_load :: "file_system \<Rightarrow> ZLIConfig \<Rightarrow> ZLIConfig res" where
  "ZLIConfig_load F z =
     (if configPath z = [] then Err (errorf ''no config path provided'')
      else (case os_Open F (configPath z) of
              Err e \<Rightarrow> Err (errorf_w (''could not open config file '' @ configPath z @ '': '') e)
            | Panic \<Rightarrow> Panic
            | Ok _ \<Rightarrow>
               (case io_ReadAll F (configPath z) of
                  Err e \<Rightarrow> Err (errorf_w (''failed to read config file '' @ configPath z @ '': '') e)
                | Panic \<Rightarrow> Panic
                | Ok bytes \<Rightarrow>
                   (case json_Unmarshal_zli F bytes of
                      Err e \<Rightarrow> Err (errorf_w (''could not unmarshal config file '' @ configPath z @ '': '') e)
                    | Panic \<Rightarrow> Panic
                    | Ok f \<Rightarrow> Ok (json_into_config f z)))))"

definition runRefreshCommand :: "file_system \<Rightarrow> string \<Rightarrow> unit res" where
  "runRefreshCommand F cmd =
     (let splits = split cmd '' '' in
      if 2 \<le> length splits
      then (case exec_Command F (hd splits) (tl splits) of
              Err e \<Rightarrow> Err (errorf_w ''failed to execute zli refresh token command: '' e)
            | Panic \<Rightarrow> Panic
            | Ok _ \<Rightarrow> Ok ())
      else Err (errorf (''not enough arguments to refresh token zli command: '' @ show_nat (length splits))))"

definition ZLIConfig_Refresh :: "file_system \<Rightarrow> ZLIConfig \<Rightarrow> ZLIConfig res" where
  "ZLIConfig_Refresh F z =
     (if refreshCommand z = []
      then Err (errorf ''could not refresh zli config, because no refresh command was found'')
      else (case runRefreshCommand F (refreshCommand z) of
              Err e \<Rightarrow> Err e
            | Panic \<Rightarrow> Panic
            | Ok _ \<Rightarrow> wrap_err (errorf_w ''failed to load zli config: '') (ZLIConfig_load F z)))"

definition zero_BZCertConfig :: BZCertConfig where
  "zero_BZCertConfig = \<lparr> cc_PrivateKey = [], cc_PublicKey = [], CerRand = [], CerRandSignature = [],
     cc_InitialIdToken = [], OrgIssuerId = [], OrgProvider = [] \<rparr>"

definition ZLIConfig_New :: "file_system \<Rightarrow> string \<Rightarrow> string \<Rightarrow> ZLIConfig res" where
  "ZLIConfig_New F path cmd =
     (if path = [] then Err (errorf ''no config path provided'')
      else if length (split cmd '' '') < 2 then Err (errorf ''malformed refresh command'')
      else wrap_err (errorf_w ''failed to load zli config: '')
        (ZLIConfig_load F \<lparr> CertConfig = zero_BZCertConfig, TokenSet_CurrentIdToken = [],
                            configPath = path, refreshCommand = cmd \<rparr>))"

section \<open>The daemon's certificate\<close>

record DaemonBZCert =
  dc_BZCert :: BZCert
  dc_privateKey :: "PrivateKey option"
  dc_config :: ZLIConfig
  currentIdTokenExpiration :: int

text \<open>What the JWT parser returns of a token: the \<^verbatim>\<open>jku\<close> header, printed, and the expiry claim.\<close>

type_synonym jwt_parser = "string \<Rightarrow> (string option \<times> int option) res"

text \<open>The zli writes private keys of 32 bytes; Go's Ed25519 wants private and public key joined.\<close>

definition config_private_key :: "BZCertConfig \<Rightarrow> PrivateKey res" where
  "config_private_key c =
     (case DecodeString (cc_PrivateKey c) of
        None \<Rightarrow> Err (errorf ''private key is not base64 encoded: '')
      | Some privatekeyBytes \<Rightarrow>
          if length privatekeyBytes = 32
          then (case DecodeString (cc_PublicKey c) of
                  None \<Rightarrow> Err (errorf ''public key is not base64 encoded: '')
                | Some publicKeyBytes \<Rightarrow>
                    PrivateKeyFromString (EncodeToString (privatekeyBytes @ publicKeyBytes)))
          else PrivateKeyFromString (cc_PrivateKey c))"

definition config_fields :: "ZLIConfig \<Rightarrow> BZCert \<Rightarrow> BZCert" where
  "config_fields z b = b\<lparr>InitialIdToken := cc_InitialIdToken (CertConfig z),
     CurrentIdToken := TokenSet_CurrentIdToken z, ClientPublicKey := cc_PublicKey (CertConfig z),
     Rand := CerRand (CertConfig z), SignatureOnRand := CerRandSignature (CertConfig z)\<rparr>"

definition populateFromConfig ::
  "lib \<Rightarrow> jwt_parser \<Rightarrow> int \<Rightarrow> DaemonBZCert \<Rightarrow> DaemonBZCert \<times> unit res" where
  "populateFromConfig L J now b =
     (case config_private_key (CertConfig (dc_config b)) of
        Err e \<Rightarrow> (b, Err e) | Panic \<Rightarrow> (b, Panic)
      | Ok privateKey \<Rightarrow>
         (let b1 = b\<lparr>dc_BZCert := config_fields (dc_config b) (dc_BZCert b), dc_privateKey := Some privateKey\<rparr> in
          case J (CurrentIdToken (dc_BZCert b1)) of
            Err e \<Rightarrow> (b1, Err (errorf ''error trying to parse our jwt: %!s(<nil>)''))
          | Panic \<Rightarrow> (b1, Panic)
          | Ok (jku, expiresAt) \<Rightarrow>
             (case (case jku of None \<Rightarrow> Ok []
                    | Some jkuStr \<Rightarrow> res_map (\<lambda>(pattern, _). [pattern]) (ExtractJwksUrlPattern jkuStr)) of
                Err e \<Rightarrow> (b1, Err (errorf_s ''error trying to parse JWKS URL pattern from badly formatted JWKS URL: '' e))
              | Panic \<Rightarrow> (b1, Panic)
              | Ok jwksUrlPatterns \<Rightarrow>
                 (case BZCert_Verify L now (dc_BZCert b1) (OrgProvider (CertConfig (dc_config b)))
                         (OrgIssuerId (CertConfig (dc_config b))) jwksUrlPatterns of
                    Err e \<Rightarrow> (b1, Err e) | Panic \<Rightarrow> (b1, Panic)
                  | Ok cert \<Rightarrow>
                     (let b2 = b1\<lparr>dc_BZCert := cert\<rparr> in
                      case expiresAt of
                        None \<Rightarrow> (b2, Panic)
                      | Some t \<Rightarrow>
                         (let b3 = b2\<lparr>currentIdTokenExpiration := t\<rparr> in
                          case HashCert L (dc_BZCert b3) of
                            Err e \<Rightarrow> (b3, Err e) | Panic \<Rightarrow> (b3, Panic)
                          | Ok cert' \<Rightarrow> (b3\<lparr>dc_BZCert := cert'\<rparr>, Ok ())))))))"

definition zero_BZCert :: BZCert where
  "zero_BZCert = \<lparr> InitialIdToken = [], CurrentIdToken = [], ClientPublicKey = [], Rand = [],
     SignatureOnRand = [], expiration = 0, cert_hash = [] \<rparr>"

definition DaemonBZCert_New :: "lib \<Rightarrow> jwt_parser \<Rightarrow> int \<Rightarrow> ZLIConfig \<Rightarrow> DaemonBZCert res" where
  "DaemonBZCert_New L J now config =
     (case populateFromConfig L J now
             \<lparr> dc_BZCert = zero_BZCert, dc_privateKey = None, dc_config = config, currentIdTokenExpiration = 0 \<rparr> of
        (cert, Err e) \<Rightarrow> Err (errorf_w ''failed to initialize the BastionZero Certificate: '' e)
      | (cert, Panic) \<Rightarrow> Panic
      | (cert, Ok _) \<Rightarrow> Ok cert)"

definition DaemonBZCert_Refresh ::
  "lib \<Rightarrow> jwt_parser \<Rightarrow> file_system \<Rightarrow> int \<Rightarrow> DaemonBZCert \<Rightarrow> DaemonBZCert \<times> unit res" where
  "DaemonBZCert_Refresh L J F now b =
     (if now div second < currentIdTokenExpiration b then (b, Ok ())
      else (case ZLIConfig_Refresh F (dc_config b) of
              Err e \<Rightarrow> (b, Err e) | Panic \<Rightarrow> (b, Panic)
            | Ok config \<Rightarrow> populateFromConfig L J now (b\<lparr>dc_config := config\<rparr>)))"

section \<open>Lemmas\<close>

lemma HashCert_Ok [simp]:
  "HashCert L b = Ok (b\<lparr>cert_hash := EncodeToString (sha3 L (hash_preimage (BZCert_json b)))\<rparr>)"
  by (simp add: HashCert_def HashPayload_def)

lemma BZCert_json_upd [simp]:
  "BZCert_json (b\<lparr>cert_hash := h\<rparr>) = BZCert_json b" "BZCert_json (b\<lparr>expiration := e\<rparr>) = BZCert_json b"
  by (simp_all add: BZCert_json_def)

text \<open>
  The daemon's certificate in use: it verified, its hash is up to date and its private key
  has the form Go's Ed25519 wants.
\<close>

definition cert_usable :: "lib \<Rightarrow> DaemonBZCert \<Rightarrow> bool" where
  "cert_usable L b \<longleftrightarrow> good_priv (dc_privateKey b) \<and>
     cert_hash (dc_BZCert b) = EncodeToString (sha3 L (hash_preimage (BZCert_json (dc_BZCert b)))) \<and>
     (\<exists>t patterns raw. BZCert_Verify L t raw (OrgProvider (CertConfig (dc_config b)))
        (OrgIssuerId (CertConfig (dc_config b))) patterns = Ok (dc_BZCert b))"

lemma PrivateKeyFromString_Ok_good: "PrivateKeyFromString s = Ok k \<Longrightarrow> good_priv (Some k)"
  by (cases "DecodeString s") (simp_all add: PrivateKeyFromString_def good_priv_def split: if_splits, metis)

lemma config_private_key_good: "config_private_key c = Ok k \<Longrightarrow> good_priv (Some k)"
  by (auto simp: config_private_key_def PrivateKeyFromString_Ok_good split: option.splits if_splits)

lemma BZCert_Verify_hash:
  "BZCert_Verify L t raw prov org pats = Ok c \<Longrightarrow>
   BZCert_json c = BZCert_json raw \<and>
   cert_hash c = EncodeToString (sha3 L (hash_preimage (BZCert_json c)))"
  by (auto simp: BZCert_Verify_def split: res.splits)

lemma BZCert_Verify_rehash:
  assumes "BZCert_Verify L t raw prov org pats = Ok c"
  shows "c\<lparr>cert_hash := EncodeToString (sha3 L (hash_preimage (BZCert_json c)))\<rparr> = c"
proof -
  have "b\<lparr>cert_hash := cert_hash b\<rparr> = b" for b :: BZCert by (cases b) simp
  then show ?thesis using BZCert_Verify_hash [OF assms] by metis
qed

lemma populateFromConfig_Ok:
  assumes "populateFromConfig L J now b = (b', Ok u)"
  shows "cert_usable L b' \<and> dc_config b' = dc_config b \<and>
         config_private_key (CertConfig (dc_config b)) = Ok (the (dc_privateKey b')) \<and>
         BZCert_json (dc_BZCert b') = BZCert_json (config_fields (dc_config b) (dc_BZCert b)) \<and>
         (\<exists>jku. J (TokenSet_CurrentIdToken (dc_config b)) = Ok (jku, Some (currentIdTokenExpiration b')))"
proof -
  from assms obtain k jku exp pats c where
    k: "config_private_key (CertConfig (dc_config b)) = Ok k"
    and J: "J (TokenSet_CurrentIdToken (dc_config b)) = Ok (jku, Some exp)"
    and v: "BZCert_Verify L now (config_fields (dc_config b) (dc_BZCert b))
              (OrgProvider (CertConfig (dc_config b))) (OrgIssuerId (CertConfig (dc_config b))) pats = Ok c"
    and b': "b' = b\<lparr>dc_BZCert := c\<lparr>cert_hash := EncodeToString (sha3 L (hash_preimage (BZCert_json c)))\<rparr>,
                   dc_privateKey := Some k, currentIdTokenExpiration := exp\<rparr>"
    unfolding populateFromConfig_def Let_def
    by (auto simp: config_fields_def split: res.splits option.splits prod.splits)
  have c: "dc_BZCert b' = c" "dc_privateKey b' = Some k" "dc_config b' = dc_config b"
      "currentIdTokenExpiration b' = exp"
    using b' BZCert_Verify_rehash [OF v] by simp_all
  then have "cert_usable L b'"
    using v BZCert_Verify_hash [OF v] config_private_key_good [OF k] unfolding cert_usable_def by metis
  then show ?thesis using k J c BZCert_Verify_hash [OF v] by simp
qed

lemma populateFromConfig_good_priv:
  "good_priv (dc_privateKey b) \<Longrightarrow> good_priv (dc_privateKey (fst (populateFromConfig L J now b)))"
  unfolding populateFromConfig_def Let_def
  by (simp split: res.splits option.splits prod.splits) (blast dest: config_private_key_good)

lemma Refresh_good_priv:
  "good_priv (dc_privateKey b) \<Longrightarrow> good_priv (dc_privateKey (fst (DaemonBZCert_Refresh L J F now b)))"
  by (simp add: DaemonBZCert_Refresh_def populateFromConfig_good_priv split: res.splits)

lemma populateFromConfig_exp:
  "populateFromConfig L J now b = (b', r) \<Longrightarrow> \<not> is_ok r \<Longrightarrow>
   currentIdTokenExpiration b' = currentIdTokenExpiration b"
  unfolding populateFromConfig_def Let_def
  by (auto split: res.splits option.splits prod.splits)

text \<open>
  A successful refresh leaves a certificate the daemon can use: unless the token had not
  expired yet, the certificate holds the fields of the configuration file read after the
  zli command, it verified against the configured provider, its hash is that of its fields,
  the private key has the 64 byte form, and the tracked expiry is the new token's. After a
  failed refresh the old expiry stands, so that the next refresh tries again.
\<close>

theorem DaemonBZCert_Refresh_spec:
  assumes "currentIdTokenExpiration b \<le> now div second"
    and "DaemonBZCert_Refresh L J F now b = (b', r)"
  shows "(is_ok r \<longrightarrow>
            (\<exists>z. ZLIConfig_Refresh F (dc_config b) = Ok z \<and> dc_config b' = z \<and>
                 BZCert_json (dc_BZCert b') = BZCert_json (config_fields z (dc_BZCert b)) \<and>
                 (\<exists>jku. J (TokenSet_CurrentIdToken z) = Ok (jku, Some (currentIdTokenExpiration b'))) \<and>
                 cert_usable L b')) \<and>
         (\<not> is_ok r \<longrightarrow> currentIdTokenExpiration b' = currentIdTokenExpiration b)"
proof (cases "ZLIConfig_Refresh F (dc_config b)")
  case (Ok z)
  with assms have p: "populateFromConfig L J now (b\<lparr>dc_config := z\<rparr>) = (b', r)"
    by (simp add: DaemonBZCert_Refresh_def)
  have "currentIdTokenExpiration b' = currentIdTokenExpiration b" if "\<not> is_ok r"
    using populateFromConfig_exp [OF p that] by simp
  moreover have "\<exists>jku. J (TokenSet_CurrentIdToken z) = Ok (jku, Some (currentIdTokenExpiration b'))"
    "cert_usable L b'" "dc_config b' = z"
    "BZCert_json (dc_BZCert b') = BZCert_json (config_fields z (dc_BZCert b))" if "is_ok r"
    using that populateFromConfig_Ok [of L J now "b\<lparr>dc_config := z\<rparr>" b'] p by (auto simp: is_ok_iff)
  ultimately show ?thesis using Ok by simp
qed (use assms in \<open>auto simp: DaemonBZCert_Refresh_def\<close>)

text \<open>
  A private key of 32 bytes, the form the zli writes, is completed with the public key of
  the same file; the result signs as the 64 byte key would.
\<close>

lemma noble_key_completed:
  assumes "cc_PrivateKey c = EncodeToString sk" and "cc_PublicKey c = EncodeToString pk"
    and "length sk = 32" and "length pk = 32"
  shows "config_private_key c = Ok (Some (sk @ pk)) \<and>
         config_private_key (c\<lparr>cc_PrivateKey := EncodeToString (sk @ pk)\<rparr>) = config_private_key c"
  using assms by (simp add: config_private_key_def PrivateKeyFromString_def)

section \<open>Witnesses\<close>

definition wit_file :: zli_file where
  "wit_file = \<lparr> f_privateKey = Some (EncodeToString wit_key), f_publicKey = Some (EncodeToString wit_key),
     f_cerRand = Some [], f_cerRandSig = Some (SignatureOnRand wit_cert),
     f_initialIdToken = Some (InitialIdToken wit_cert), f_orgIssuerId = Some ''acme'',
     f_orgProvider = Some ''okta'', f_id_token = Some ''cur'' \<rparr>"

definition wit_fs :: file_system where
  "wit_fs = \<lparr> os_Open = (\<lambda>_. Ok ()), io_ReadAll = (\<lambda>_. Ok []), json_Unmarshal_zli = (\<lambda>_. Ok wit_file),
     exec_Command = (\<lambda>_ _. Ok ()) \<rparr>"

definition wit_zli :: ZLIConfig where
  "wit_zli = \<lparr> CertConfig = zero_BZCertConfig, TokenSet_CurrentIdToken = [],
     configPath = ''cfg'', refreshCommand = ''zli refresh'' \<rparr>"

definition wit_daemon_cert :: DaemonBZCert where
  "wit_daemon_cert = \<lparr> dc_BZCert = zero_BZCert, dc_privateKey = None, dc_config = wit_zli,
     currentIdTokenExpiration = 0 \<rparr>"

lemma wit_zli_Refresh: "ZLIConfig_Refresh wit_fs wit_zli = Ok (json_into_config wit_file wit_zli)"
  by (simp add: ZLIConfig_Refresh_def runRefreshCommand_def ZLIConfig_load_def wit_zli_def wit_fs_def
      split_def Let_def)

lemma wit_config_fields:
  "config_fields (json_into_config wit_file wit_zli) zero_BZCert = wit_cert"
  by (simp add: config_fields_def json_into_config_def wit_file_def wit_cert_def zero_BZCert_def keep_def)

lemma wit_refresh_ok:
  "is_ok (snd (DaemonBZCert_Refresh wit_nonce_lib (\<lambda>_. Ok (None, Some 20)) wit_fs 0 wit_daemon_cert))"
proof -
  let ?z = "json_into_config wit_file wit_zli"
  have k: "config_private_key (CertConfig ?z) = Ok (Some (wit_key @ wit_key))"
    by (simp add: config_private_key_def json_into_config_def wit_file_def keep_def
        PrivateKeyFromString_def wit_key_def)
  have p: "OrgProvider (CertConfig ?z) = ''okta''" "OrgIssuerId (CertConfig ?z) = ''acme''"
    by (simp_all add: json_into_config_def wit_file_def keep_def)
  show ?thesis
    by (simp add: DaemonBZCert_Refresh_def wit_daemon_cert_def wit_zli_Refresh populateFromConfig_def
        wit_config_fields k p wit_Verify)
qed

theorem DaemonBZCert_Refresh_spec_witness:
  "currentIdTokenExpiration
     (fst (DaemonBZCert_Refresh wit_nonce_lib (\<lambda>_. Ok (None, Some 20)) wit_fs 0 wit_daemon_cert)) = 20"
proof -
  obtain b' r where e: "DaemonBZCert_Refresh wit_nonce_lib (\<lambda>_. Ok (None, Some 20)) wit_fs 0 wit_daemon_cert = (b', r)"
    by fastforce
  have "currentIdTokenExpiration wit_daemon_cert \<le> 0 div second" by (simp add: wit_daemon_cert_def)
  from DaemonBZCert_Refresh_spec [OF this e] wit_refresh_ok e show ?thesis by auto
qed

end
