(* ===== verification/Daemon_Mrtap.thy ===== *)
theory Daemon_Mrtap
  imports Agent_Mrtap Daemon_BZCert Error_Message
begin

text \<open>
  \<^verbatim>\<open>bctl/daemon/mrtap\<close>: the daemon's end of MrTAP. It sends Data messages ahead of their
  acknowledgements, predicting each acknowledgement to build the next message, keeps what
  was not acknowledged in an ordered map, and resends after a new handshake.

  The map is a third-party package: its operations are an argument and their documented
  laws the locale \<^verbatim>\<open>ordered_map\<close>. The outbox channel is the list of the messages given to the
  data channel so far. Operations run under the state lock, one at a time; a call that
  would wait returns \<^term>\<open>None\<close>.
\<close>

section \<open>The ordered map\<close>

text \<open>
  \<^verbatim>\<open>om_pairs\<close> is what a loop from \<^verbatim>\<open>Oldest\<close> over \<^verbatim>\<open>Next\<close> visits, \<^verbatim>\<open>om_after\<close> what a loop from
  \<^verbatim>\<open>GetPair(key).Next\<close> visits, if the key is present.
\<close>

record 'm omap_ops =
  om_new :: 'm
  om_get :: "'m \<Rightarrow> string \<Rightarrow> MrtapMessage option"
  om_set :: "'m \<Rightarrow> string \<Rightarrow> MrtapMessage \<Rightarrow> 'm"
  om_delete :: "'m \<Rightarrow> string \<Rightarrow> 'm"
  om_len :: "'m \<Rightarrow> nat"
  om_pairs :: "'m \<Rightarrow> (string \<times> MrtapMessage) list"
  om_after :: "'m \<Rightarrow> string \<Rightarrow> (string \<times> MrtapMessage) list option"
  om_newest :: "'m \<Rightarrow> (string \<times> MrtapMessage) option"

locale ordered_map =
  fixes om :: "'m omap_ops"
  assumes pairs_new: "om_pairs om (om_new om) = []"
    and pairs_set: "om_pairs om (om_set om m k v) = al_set (om_pairs om m) k v"
    and pairs_delete: "om_pairs om (om_delete om m k) = al_delete (om_pairs om m) k"
    and get_pairs: "om_get om m k = al_get (om_pairs om m) k"
    and len_pairs: "om_len om m = length (om_pairs om m)"
    and after_pairs: "om_after om m k = al_after (om_pairs om m) k"
    and newest_pairs: "om_newest om m = (if om_pairs om m = [] then None else Some (last (om_pairs om m)))"

text \<open>The insertion-ordered association lists of the prelude obey the laws.\<close>

definition al_ops :: "(string \<times> MrtapMessage) list omap_ops" where
  "al_ops = \<lparr> om_new = [], om_get = al_get, om_set = al_set, om_delete = al_delete, om_len = length,
     om_pairs = (\<lambda>m. m), om_after = al_after,
     om_newest = (\<lambda>m. if m = [] then None else Some (last m)) \<rparr>"

lemma al_ops_simps [simp]:
  "om_new al_ops = []" "om_get al_ops = al_get" "om_set al_ops = al_set" "om_delete al_ops = al_delete"
  "om_len al_ops = length" "om_pairs al_ops m = m" "om_after al_ops = al_after"
  "om_newest al_ops m = (if m = [] then None else Some (last m))"
  by (simp_all add: al_ops_def)

interpretation al: ordered_map al_ops
  by unfold_locales simp_all

section \<open>State\<close>

definition maxErrorRecoveryTries :: nat where
  "maxErrorRecoveryTries = 3"

definition maxPipelineLimit :: nat where
  "maxPipelineLimit = 8"

record 'm daemon_Mrtap =
  bzcert :: DaemonBZCert
  agentPubKey :: "PublicKey option"
  ackPublicKey :: "PublicKey option"
  synAction :: string
  outboxQueue :: "MrtapMessage list"
  pipelineMap :: 'm
  pipelineLength :: nat
  isHandshakeComplete :: bool
  lastAck :: "MrtapMessage option"
  lastAckedData :: "MrtapMessage option"
  recovering :: bool
  errorRecoveryAttempt :: nat
  schemaVersion :: "version option"
  prePipeliningAgent :: bool
  pipelineLimit :: nat

text \<open>
  What an operation finds around it: the libraries, the token parser and the zli's files,
  the clock, the random nonce, and how \<^verbatim>\<open>encoding/json\<close> reads a byte slice from a text.
\<close>

record daemon_env =
  env_lib :: lib
  env_jwt :: jwt_parser
  env_fs :: file_system
  env_now :: int
  env_nonce :: string
  env_json_bytes :: "string \<Rightarrow> string res"

definition daemon_New :: "'m omap_ops \<Rightarrow> PublicKey option \<Rightarrow> DaemonBZCert \<Rightarrow> 'm daemon_Mrtap" where
  "daemon_New om agentKey cert =
     \<lparr> bzcert = cert, agentPubKey = agentKey, ackPublicKey = None, synAction = ''initial'',
       outboxQueue = [], pipelineMap = om_new om, pipelineLength = 0, isHandshakeComplete = False,
       lastAck = None, lastAckedData = None, recovering = False, errorRecoveryAttempt = 0,
       schemaVersion = None, prePipeliningAgent = False, pipelineLimit = maxPipelineLimit \<rparr>"

definition IsPipelineEmpty :: "'m daemon_Mrtap \<Rightarrow> bool" where
  "IsPipelineEmpty m \<longleftrightarrow> pipelineLength m = 0"

definition Recovering :: "'m daemon_Mrtap \<Rightarrow> bool" where
  "Recovering m \<longleftrightarrow> recovering m"

section \<open>Building messages\<close>

definition addToPipelineMap ::
  "lib \<Rightarrow> 'm omap_ops \<Rightarrow> 'm daemon_Mrtap \<Rightarrow> MrtapMessage \<Rightarrow> 'm daemon_Mrtap \<times> unit res" where
  "addToPipelineMap L om m msg =
     (if MrtapMessage_Hash L msg = [] then (m, Err (errorf ''failed to hash message''))
      else let pm = om_set om (pipelineMap m) (MrtapMessage_Hash L msg) msg in
           (m\<lparr>pipelineMap := pm, pipelineLength := om_len om pm\<rparr>, Ok ()))"

text \<open>
  Agents before 2.0 expect the payload base64 encoded and quoted once more; a payload that
  is already a JSON byte string is unwrapped first.
\<close>

definition legacy_payload :: "daemon_env \<Rightarrow> string option \<Rightarrow> string option" where
  "legacy_payload E payload =
     (let bytes = (case payload of None \<Rightarrow> [] | Some b \<Rightarrow> b);
          inner = (case env_json_bytes E bytes of Ok b \<Rightarrow> b | _ \<Rightarrow> bytes)
      in Some (json_quote (EncodeToString inner)))"

definition buildResponse ::
  "daemon_env \<Rightarrow> 'm daemon_Mrtap \<Rightarrow> MrtapMessage \<Rightarrow> string \<Rightarrow> string option \<Rightarrow> MrtapMessage res" where
  "buildResponse E m msg action payload =
     (let pl = (if prePipeliningAgent m then legacy_payload E payload else payload) in
      case schemaVersion m of
        None \<Rightarrow> Panic
      | Some v \<Rightarrow>
         (case BuildUnsignedData (env_lib E) msg action pl (BZCert_Hash (dc_BZCert (bzcert m)))
                 (semver_string (env_lib E) v) of
            Err e \<Rightarrow> Err e | Panic \<Rightarrow> Panic
          | Ok responseMessage \<Rightarrow>
             (case MrtapMessage_Sign (env_lib E) responseMessage (dc_privateKey (bzcert m)) of
                Err e \<Rightarrow> Err e | Panic \<Rightarrow> Panic
              | Ok (signed, ok) \<Rightarrow>
                  if \<not> ok then Err (GErr ''could not sign payload: %!s(<nil>)'' [ErrFailedToSign])
                  else Ok signed)))"

definition predict_ack :: "lib \<Rightarrow> 'm daemon_Mrtap \<Rightarrow> MrtapMessage \<Rightarrow> MrtapMessage res" where
  "predict_ack L m msg =
     (case schemaVersion m of
        None \<Rightarrow> Panic
      | Some v \<Rightarrow> BuildUnsignedDataAck L msg (Some []) (PublicKey_String (agentPubKey m)) (semver_string L v))"

definition ack_to_build_on :: "lib \<Rightarrow> 'm omap_ops \<Rightarrow> 'm daemon_Mrtap \<Rightarrow> MrtapMessage res" where
  "ack_to_build_on L om m =
     (case om_newest om (pipelineMap m) of
        None \<Rightarrow> (case lastAck m of
                   Some ack \<Rightarrow> Ok ack
                 | None \<Rightarrow> Err (errorf ''can't build message because there's nothing to build it off of''))
      | Some (_, msg) \<Rightarrow> wrap_err (errorf_s ''failed to predict ack: '') (predict_ack L m msg))"

definition pipeline ::
  "daemon_env \<Rightarrow> 'm omap_ops \<Rightarrow> 'm daemon_Mrtap \<Rightarrow> string \<Rightarrow> string option \<Rightarrow> 'm daemon_Mrtap \<times> unit res" where
  "pipeline E om m action actionPayload =
     (if action = [] then (m, Err (errorf ''i'm not allowed to build a MrTAP message with empty action''))
      else (case ack_to_build_on (env_lib E) om m of
              Err e \<Rightarrow> (m, Err e) | Panic \<Rightarrow> (m, Panic)
            | Ok ack \<Rightarrow>
               (case buildResponse E m ack action actionPayload of
                  Err e \<Rightarrow> (m, Err (errorf_w ''failed to build new message: '' e)) | Panic \<Rightarrow> (m, Panic)
                | Ok newMessage \<Rightarrow>
                   (case addToPipelineMap (env_lib E) om m newMessage of
                      (m1, Ok _) \<Rightarrow> (m1\<lparr>outboxQueue := outboxQueue m1 @ [newMessage]\<rparr>, Ok ())
                    | (m1, r) \<Rightarrow> (m1, r)))))"

text \<open>\<^verbatim>\<open>Inbox\<close> waits on the condition variable until the pipeline has room and the handshake is done.\<close>

definition daemon_Inbox ::
  "daemon_env \<Rightarrow> 'm omap_ops \<Rightarrow> 'm daemon_Mrtap \<Rightarrow> string \<Rightarrow> string option \<Rightarrow>
   ('m daemon_Mrtap \<times> unit res) option" where
  "daemon_Inbox E om m action actionPayload =
     (if pipelineLimit m \<le> om_len om (pipelineMap m) \<or> \<not> isHandshakeComplete m then None
      else Some (pipeline E om m action actionPayload))"

section \<open>Handshake and recovery\<close>

text \<open>\<^term>\<open>payload\<close> is the result of marshalling the action parameters.\<close>

definition buildSyn ::
  "daemon_env \<Rightarrow> 'm omap_ops \<Rightarrow> 'm daemon_Mrtap \<Rightarrow> string \<Rightarrow> string res \<Rightarrow> bool \<Rightarrow>
   'm daemon_Mrtap \<times> MrtapMessage res" where
  "buildSyn E om m action payload snd_it =
     (let m1 = m\<lparr>isHandshakeComplete := False, lastAck := None\<rparr>;
          (cert, refreshed) = DaemonBZCert_Refresh (env_lib E) (env_jwt E) (env_fs E) (env_now E) (bzcert m1);
          m2 = m1\<lparr>bzcert := cert\<rparr> in
      case refreshed of
        Err e \<Rightarrow> (m2, Err (errorf_w ''failed to refresh BastionZero certificate: '' e))
      | Panic \<Rightarrow> (m2, Panic)
      | Ok _ \<Rightarrow>
         (let m3 = (if synAction m2 = ''initial'' then m2\<lparr>synAction := action\<rparr> else m2) in
          case payload of
            Err e \<Rightarrow> (m3, Err (errorf ''failed to marshal action params'')) | Panic \<Rightarrow> (m3, Panic)
          | Ok payloadBytes \<Rightarrow>
             (let synPayload = \<lparr> syn_SchemaVersion = SchemaVersion, syn_Type = PayloadType_string Syn,
                    syn_Action = synAction m3, syn_ActionPayload = Some payloadBytes, syn_Timestamp = [],
                    syn_TargetId = PublicKey_String (agentPubKey m3), syn_Nonce = env_nonce E,
                    syn_BZCert = dc_BZCert (bzcert m3) \<rparr>;
                  mrtapMessage = \<lparr> msg_Type = Syn, msg_Payload = PSyn synPayload, msg_Signature = [] \<rparr> in
              case MrtapMessage_Sign (env_lib E) mrtapMessage (dc_privateKey (bzcert m3)) of
                Err e \<Rightarrow> (m3, Err e) | Panic \<Rightarrow> (m3, Panic)
              | Ok (signed, ok) \<Rightarrow>
                  if \<not> ok then (m3, Err (errorf ''could not sign payload: %!w(<nil>)''))
                  else (case addToPipelineMap (env_lib E) om m3 signed of
                          (m4, Ok _) \<Rightarrow>
                            (if snd_it then m4\<lparr>outboxQueue := outboxQueue m4 @ [signed]\<rparr> else m4, Ok signed)
                        | (m4, Err e) \<Rightarrow> (m4, Err e)
                        | (m4, Panic) \<Rightarrow> (m4, Panic)))))"

definition BuildSyn where
  "BuildSyn = buildSyn"

definition daemon_Recover ::
  "daemon_env \<Rightarrow> 'm omap_ops \<Rightarrow> 'm daemon_Mrtap \<Rightarrow> ErrorMessage \<Rightarrow> 'm daemon_Mrtap \<times> unit res" where
  "daemon_Recover E om m errMessage =
     (if err_SchemaVersion errMessage \<noteq> [] \<and> err_HPointer errMessage = []
      then (m, Err (errorf ''error message hpointer empty''))
      else if err_SchemaVersion errMessage \<noteq> [] \<and>
              om_after om (pipelineMap m) (err_HPointer errMessage) = None \<and> \<not> recovering m
      then (m, Ok ())
      else if err_SchemaVersion errMessage \<noteq> [] \<and> recovering m then (m, Ok ())
      else if maxErrorRecoveryTries \<le> errorRecoveryAttempt m
      then (m, Err (errorf (''retried too many times to fix error: '' @ err_Message errMessage)))
      else let m1 = m\<lparr>errorRecoveryAttempt := errorRecoveryAttempt m + 1, recovering := True\<rparr> in
           (case buildSyn E om m1 [] (Ok (dquote @ dquote)) True of
              (m2, Ok _) \<Rightarrow> (m2, Ok ())
            | (m2, Err e) \<Rightarrow> (m2, Err e)
            | (m2, Panic) \<Rightarrow> (m2, Panic)))"

text \<open>The loops of \<^verbatim>\<open>resend\<close> ignore the errors \<^verbatim>\<open>pipeline\<close> returns; a panic ends the process.\<close>

fun resend_loop ::
  "daemon_env \<Rightarrow> 'm omap_ops \<Rightarrow> 'm daemon_Mrtap \<Rightarrow> (string \<times> MrtapMessage) list \<Rightarrow>
   'm daemon_Mrtap \<times> unit res" where
  "resend_loop E om m [] = (m, Ok ())"
| "resend_loop E om m ((k, msg) # ps) =
     (case pipeline E om m (GetAction msg) (GetActionPayload msg) of
        (m1, Panic) \<Rightarrow> (m1, Panic)
      | (m1, _) \<Rightarrow> resend_loop E om m1 ps)"

definition resend ::
  "daemon_env \<Rightarrow> 'm omap_ops \<Rightarrow> 'm daemon_Mrtap \<Rightarrow> string \<Rightarrow> 'm daemon_Mrtap \<times> unit res" where
  "resend E om m nonce =
     (let recoveryMap = pipelineMap m; m1 = m\<lparr>pipelineMap := om_new om\<rparr> in
      case schemaVersion m1 of
        None \<Rightarrow> (m1, Panic)
      | Some v \<Rightarrow>
         (case om_after om recoveryMap nonce of
            None \<Rightarrow>
              if semver_check (env_lib E) ''> 2.0'' v
              then (case lastAckedData m1 of
                      None \<Rightarrow> (m1, Ok ())
                    | Some acked \<Rightarrow>
                        if MrtapMessage_Hash (env_lib E) acked = [] then (m1, Ok ())
                        else if nonce \<noteq> MrtapMessage_Hash (env_lib E) acked then (m1, Ok ())
                        else resend_loop E om m1 (om_pairs om recoveryMap))
              else resend_loop E om m1 (om_pairs om recoveryMap)
          | Some later \<Rightarrow> resend_loop E om m1 later))"

section \<open>Validation\<close>

definition take_ack_key :: "'m daemon_Mrtap \<Rightarrow> MrtapMessage \<Rightarrow> 'm daemon_Mrtap res" where
  "take_ack_key m msg =
     (case msg_Payload msg of
        PSynAck p \<Rightarrow>
          if ackPublicKey m = None
          then (case PublicKeyFromString (synack_TargetPublicKey p) of
                  Err e \<Rightarrow> Err (errorf ''invalid public key'') | Panic \<Rightarrow> Panic
                | Ok pk \<Rightarrow> Ok (m\<lparr>ackPublicKey := Some pk\<rparr>))
          else Ok m
      | _ \<Rightarrow> Ok m)"

definition verify_agent_signature :: "lib \<Rightarrow> 'm daemon_Mrtap \<Rightarrow> MrtapMessage \<Rightarrow> unit res" where
  "verify_agent_signature L m msg =
     (case VerifySignature L msg (agentPubKey m) of
        Ok _ \<Rightarrow> Ok () | Panic \<Rightarrow> Panic
      | Err err \<Rightarrow>
         (case VerifySignature L msg (ackPublicKey m) of
            Ok _ \<Rightarrow> Ok () | Panic \<Rightarrow> Panic
          | Err innerErr \<Rightarrow>
              Err (GErr (''invalid signature: failed to verify '' @ PayloadType_string (msg_Type msg) @
                    '' signature: inner error: '' @ etext innerErr @ '' outer error: '' @ etext err)
                  [ErrInvalidSignature])))"

definition accept_SynAck ::
  "daemon_env \<Rightarrow> 'm omap_ops \<Rightarrow> 'm daemon_Mrtap \<Rightarrow> MrtapMessage \<Rightarrow> SynAckPayload \<Rightarrow> string \<Rightarrow>
   'm daemon_Mrtap \<times> unit res" where
  "accept_SynAck E om m mrtapMessage msg hpointer =
     (let m1 = m\<lparr>lastAck := Some mrtapMessage, pipelineMap := om_delete om (pipelineMap m) hpointer\<rparr> in
      case semver_parse (env_lib E) (synack_SchemaVersion msg) of
        Err e \<Rightarrow> (m1, Err (GErr ''could not parse schema version'' [ErrFailedToParseVersion]))
      | Panic \<Rightarrow> (m1, Panic)
      | Ok v \<Rightarrow>
         (case resend E om (m1\<lparr>schemaVersion := Some v, recovering := False\<rparr>) (synack_Nonce msg) of
            (m2, Panic) \<Rightarrow> (m2, Panic)
          | (m2, _) \<Rightarrow>
             (let pre = semver_check (env_lib E) ''< 2.0'' v in
              (m2\<lparr>prePipeliningAgent := pre,
                  pipelineLimit := (if pre then 1 else pipelineLimit m2),
                  isHandshakeComplete := True\<rparr>, Ok ()))))"

definition accept_DataAck ::
  "'m omap_ops \<Rightarrow> 'm daemon_Mrtap \<Rightarrow> MrtapMessage \<Rightarrow> string \<Rightarrow> MrtapMessage \<Rightarrow> 'm daemon_Mrtap" where
  "accept_DataAck om m mrtapMessage hpointer ackedMsg =
     m\<lparr>lastAck := Some mrtapMessage, pipelineMap := om_delete om (pipelineMap m) hpointer,
       lastAckedData := Some ackedMsg, errorRecoveryAttempt := 0\<rparr>"

definition daemon_Validate ::
  "daemon_env \<Rightarrow> 'm omap_ops \<Rightarrow> 'm daemon_Mrtap \<Rightarrow> MrtapMessage \<Rightarrow> 'm daemon_Mrtap \<times> unit res" where
  "daemon_Validate E om m mrtapMessage =
     (case take_ack_key m mrtapMessage of
        Err e \<Rightarrow> (m, Err e) | Panic \<Rightarrow> (m, Panic)
      | Ok m1 \<Rightarrow>
         (case verify_agent_signature (env_lib E) m1 mrtapMessage of
            Err e \<Rightarrow> (m1, Err e) | Panic \<Rightarrow> (m1, Panic)
          | Ok _ \<Rightarrow>
             (case GetHpointer mrtapMessage of
                Err e \<Rightarrow> (m1, Err e) | Panic \<Rightarrow> (m1, Panic)
              | Ok hpointer \<Rightarrow>
                 (case om_get om (pipelineMap m1) hpointer of
                    None \<Rightarrow> (m1, Err (GErr ''unknown hpointer: message did not correspond to a previously sent message''
                                    [ErrUnknownHPointer]))
                  | Some ackedMsg \<Rightarrow>
                     (case (case msg_Type mrtapMessage of
                              SynAck \<Rightarrow> (case msg_Payload mrtapMessage of
                                          PSynAck msg \<Rightarrow> accept_SynAck E om m1 mrtapMessage msg hpointer
                                        | _ \<Rightarrow> (m1, Ok ()))
                            | DataAck \<Rightarrow> (accept_DataAck om m1 mrtapMessage hpointer ackedMsg, Ok ())
                            | _ \<Rightarrow> (m1, Ok ())) of
                        (m2, Ok _) \<Rightarrow> (m2\<lparr>pipelineLength := om_len om (pipelineMap m2)\<rparr>, Ok ())
                      | (m2, r) \<Rightarrow> (m2, r))))))"

end
