(* ===== verification/Daemon_Pipeline.thy ===== *)
theory Daemon_Pipeline
  imports Daemon_Mrtap
begin

text \<open>
  What the daemon's pipeline guarantees: the messages it sends ahead are exactly those a
  sequential sender would have sent, recovery resends what the agent did not receive, in
  order, and an agent in step with the daemon accepts all of them.
\<close>

section \<open>The reference sender\<close>

text \<open>
  A sender that waits for each acknowledgement: the next message is built on the
  acknowledgement of the one before. The agent's answer is the predicted one, which is
  what an agent sends that has nothing to say.
\<close>

fun chain_from ::
  "daemon_env \<Rightarrow> 'm daemon_Mrtap \<Rightarrow> MrtapMessage \<Rightarrow> (string \<times> string option) list \<Rightarrow> MrtapMessage list" where
  "chain_from E m ack [] = []"
| "chain_from E m ack ((action, pl) # xs) =
     (case buildResponse E m ack action pl of
        Ok d \<Rightarrow> (case predict_ack (env_lib E) m d of Ok a \<Rightarrow> d # chain_from E m a xs | _ \<Rightarrow> [d])
      | _ \<Rightarrow> [])"

definition is_ack :: "MrtapMessage \<Rightarrow> bool" where
  "is_ack a \<longleftrightarrow> (\<exists>p. msg_Payload a = PSynAck p) \<or> (\<exists>p. msg_Payload a = PDataAck p)"

definition keyed :: "lib \<Rightarrow> MrtapMessage list \<Rightarrow> (string \<times> MrtapMessage) list" where
  "keyed L ms = map (\<lambda>d. (payload_hash L (msg_Payload d), d)) ms"

lemma keyed_simps [simp]:
  "keyed L [] = []" "keyed L (d # ds) = (payload_hash L (msg_Payload d), d) # keyed L ds"
  "keyed L (a @ b) = keyed L a @ keyed L b" "length (keyed L ds) = length ds"
  by (simp_all add: keyed_def)

text \<open>The daemon can sign: it has a version and a private key of the right form.\<close>

definition can_send :: "'m daemon_Mrtap \<Rightarrow> bool" where
  "can_send m \<longleftrightarrow> schemaVersion m \<noteq> None \<and> good_priv (dc_privateKey (bzcert m))"

definition same_sender :: "'m daemon_Mrtap \<Rightarrow> 'm daemon_Mrtap \<Rightarrow> bool" where
  "same_sender m m' \<longleftrightarrow> bzcert m' = bzcert m \<and> schemaVersion m' = schemaVersion m \<and>
     prePipeliningAgent m' = prePipeliningAgent m \<and> agentPubKey m' = agentPubKey m"

lemma buildResponse_Ok:
  assumes "can_send m" "is_ack ack"
  obtains d p where "buildResponse E m ack action pl = Ok d" "msg_Type d = Data"
    "msg_Payload d = PData p" "data_HPointer p = payload_hash (env_lib E) (msg_Payload ack)"
    "data_Action p = action"
    "data_ActionPayload p = (if prePipeliningAgent m then legacy_payload E pl else pl)"
    "data_BZCertHash p = BZCert_Hash (dc_BZCert (bzcert m))"
proof -
  obtain v where v: "schemaVersion m = Some v" using assms(1) by (auto simp: can_send_def)
  define pl' where "pl' = (if prePipeliningAgent m then legacy_payload E pl else pl)"
  obtain r p where r: "BuildUnsignedData (env_lib E) ack action pl' (BZCert_Hash (dc_BZCert (bzcert m)))
      (semver_string (env_lib E) v) = Ok r" "msg_Type r = Data" "msg_Payload r = PData p"
    "data_HPointer p = payload_hash (env_lib E) (msg_Payload ack)" "data_Action p = action"
    "data_ActionPayload p = pl'" "data_BZCertHash p = BZCert_Hash (dc_BZCert (bzcert m))"
    using assms(2) unfolding is_ack_def
    by (auto simp: BuildUnsignedData_def SynAckPayload_BuildResponsePayload_def
        DataAckPayload_BuildResponsePayload_def)
  obtain sg where "MrtapMessage_Sign (env_lib E) r (dc_privateKey (bzcert m)) = Ok (r\<lparr>msg_Signature := sg\<rparr>, True)"
    using Sign_good [of "dc_privateKey (bzcert m)" "env_lib E" r] assms(1) by (auto simp: can_send_def)
  then have "buildResponse E m ack action pl = Ok (r\<lparr>msg_Signature := sg\<rparr>)"
    using v r(1) by (simp add: buildResponse_def pl'_def)
  with r that show thesis unfolding pl'_def by simp
qed

lemma predict_ack_Ok:
  assumes "can_send m" "msg_Payload d = PData p"
  obtains a q where "predict_ack L m d = Ok a" "msg_Payload a = PDataAck q"
    "dataack_HPointer q = payload_hash L (PData p)"
  using assms by (auto simp: predict_ack_def can_send_def BuildUnsignedDataAck_def
      DataPayload_BuildResponsePayload_def)

lemma same_sender_build:
  assumes "same_sender m m'"
  shows "buildResponse E m' = buildResponse E m" "predict_ack L m' = predict_ack L m"
    "can_send m' = can_send m" "chain_from E m' = chain_from E m"
proof -
  have e: "bzcert m' = bzcert m" "schemaVersion m' = schemaVersion m"
      "prePipeliningAgent m' = prePipeliningAgent m" "agentPubKey m' = agentPubKey m"
    using assms by (simp_all add: same_sender_def)
  show b: "buildResponse E m' = buildResponse E m" "predict_ack L m' = predict_ack L m" for L
    unfolding buildResponse_def [abs_def] predict_ack_def [abs_def] e by (rule refl)+
  show "can_send m' = can_send m" using assms by (simp add: same_sender_def can_send_def)
  show "chain_from E m' = chain_from E m"
  proof (intro ext)
    fix ack xs show "chain_from E m' ack xs = chain_from E m ack xs"
      by (induction xs arbitrary: ack) (auto simp: b split: res.splits)
  qed
qed

lemma chain_from_length:
  "can_send m \<Longrightarrow> is_ack ack \<Longrightarrow> length (chain_from E m ack xs) = length xs"
proof (induction xs arbitrary: ack)
  case (Cons x xs)
  obtain action pl where x: "x = (action, pl)" by (cases x)
  obtain d p where d: "buildResponse E m ack action pl = Ok d" "msg_Payload d = PData p"
    using buildResponse_Ok [OF Cons.prems] by metis
  obtain a q where a: "predict_ack (env_lib E) m d = Ok a" "msg_Payload a = PDataAck q"
    using predict_ack_Ok [OF Cons.prems(1) d(2)] by metis
  have "is_ack a" using a by (simp add: is_ack_def)
  then show ?case using Cons x d a by simp
qed simp

section \<open>Pipelining is sequential sending\<close>

context ordered_map
begin

lemma pipeline_step:
  assumes "can_send m" "ack_to_build_on (env_lib E) om m = Ok ack" "is_ack ack" "action \<noteq> []"
    "buildResponse E m ack action pl = Ok d" "sha3_len (env_lib E)"
    "payload_hash (env_lib E) (msg_Payload d) \<notin> set (al_keys (om_pairs om (pipelineMap m)))"
  shows "\<exists>m'. pipeline E om m action pl = (m', Ok ()) \<and> same_sender m m' \<and>
     om_pairs om (pipelineMap m') = om_pairs om (pipelineMap m) @ keyed (env_lib E) [d] \<and>
     outboxQueue m' = outboxQueue m @ [d] \<and> lastAck m' = lastAck m \<and>
     pipelineLength m' = length (om_pairs om (pipelineMap m')) \<and>
     ack_to_build_on (env_lib E) om m' = wrap_err (errorf_s ''failed to predict ack: '') (predict_ack (env_lib E) m d)"
proof -
  let ?pm = "om_set om (pipelineMap m) (payload_hash (env_lib E) (msg_Payload d)) d"
  let ?m' = "m\<lparr>pipelineMap := ?pm, pipelineLength := om_len om ?pm, outboxQueue := outboxQueue m @ [d]\<rparr>"
  have "pipeline E om m action pl = (?m', Ok ())"
    using assms payload_hash_nonempty [OF assms(6)]
    by (simp add: pipeline_def addToPipelineMap_def Let_def)
  moreover have p: "om_pairs om ?pm = om_pairs om (pipelineMap m) @ keyed (env_lib E) [d]"
    using assms(7) by (simp add: pairs_set al_set_new)
  moreover have s: "same_sender m ?m'" by (simp add: same_sender_def)
  moreover have "ack_to_build_on (env_lib E) om ?m' =
      wrap_err (errorf_s ''failed to predict ack: '') (predict_ack (env_lib E) m d)"
    using same_sender_build(2) [OF s] p by (simp add: ack_to_build_on_def newest_pairs)
  ultimately show ?thesis by (intro exI [of _ ?m']) (simp add: len_pairs)
qed

lemma resend_loop_is_chain:
  assumes "can_send m" "ack_to_build_on (env_lib E) om m = Ok ack" "is_ack ack" "sha3_len (env_lib E)"
    and "\<forall>(k, msg) \<in> set ps. GetAction msg \<noteq> []"
    and "chain = chain_from E m ack (map (\<lambda>(k, msg). (GetAction msg, GetActionPayload msg)) ps)"
    and "distinct (al_keys (om_pairs om (pipelineMap m) @ keyed (env_lib E) chain))"
  shows "\<exists>m'. resend_loop E om m ps = (m', Ok ()) \<and> same_sender m m' \<and>
     om_pairs om (pipelineMap m') = om_pairs om (pipelineMap m) @ keyed (env_lib E) chain \<and>
     outboxQueue m' = outboxQueue m @ chain \<and> lastAck m' = lastAck m \<and>
     (pipelineLength m = length (om_pairs om (pipelineMap m)) \<or> ps \<noteq> [] \<longrightarrow>
      pipelineLength m' = length (om_pairs om (pipelineMap m')))"
  using assms
proof (induction ps arbitrary: m ack chain)
  case Nil
  then show ?case by (simp add: same_sender_def)
next
  case (Cons kp ps)
  obtain k msg where kp: "kp = (k, msg)" by (cases kp)
  let ?act = "GetAction msg" and ?pl = "GetActionPayload msg"
  obtain d p where d: "buildResponse E m ack ?act ?pl = Ok d" "msg_Payload d = PData p"
    using buildResponse_Ok [OF Cons.prems(1,3)] by metis
  obtain a q where a: "predict_ack (env_lib E) m d = Ok a" "msg_Payload a = PDataAck q"
    using predict_ack_Ok [OF Cons.prems(1) d(2)] by metis
  have ia: "is_ack a" using a by (simp add: is_ack_def)
  let ?rest = "chain_from E m a (map (\<lambda>(k, msg). (GetAction msg, GetActionPayload msg)) ps)"
  have chain: "chain = d # ?rest" using Cons.prems(6) kp d a by simp
  have fresh: "payload_hash (env_lib E) (msg_Payload d) \<notin> set (al_keys (om_pairs om (pipelineMap m)))"
    using Cons.prems(7) chain by auto
  have ne: "?act \<noteq> []" using Cons.prems(5) kp by auto
  obtain m1 where m1: "pipeline E om m ?act ?pl = (m1, Ok ())" "same_sender m m1"
    "om_pairs om (pipelineMap m1) = om_pairs om (pipelineMap m) @ keyed (env_lib E) [d]"
    "outboxQueue m1 = outboxQueue m @ [d]" "lastAck m1 = lastAck m"
    "pipelineLength m1 = length (om_pairs om (pipelineMap m1))"
    "ack_to_build_on (env_lib E) om m1 = Ok a"
    using pipeline_step [OF Cons.prems(1,2,3) ne d(1) Cons.prems(4) fresh] a by auto
  note ss = same_sender_build [OF m1(2)]
  have "\<exists>m'. resend_loop E om m1 ps = (m', Ok ()) \<and> same_sender m1 m' \<and>
     om_pairs om (pipelineMap m') = om_pairs om (pipelineMap m1) @ keyed (env_lib E) ?rest \<and>
     outboxQueue m' = outboxQueue m1 @ ?rest \<and> lastAck m' = lastAck m1 \<and>
     (pipelineLength m1 = length (om_pairs om (pipelineMap m1)) \<or> ps \<noteq> [] \<longrightarrow>
      pipelineLength m' = length (om_pairs om (pipelineMap m')))"
    by (rule Cons.IH [OF _ m1(7) ia Cons.prems(4)])
       (use Cons.prems(1,5,7) ss(3,4) m1(3) chain in simp_all)
  then show ?case
    using kp m1 chain by (auto simp: same_sender_def)
qed

end

lemma chain_from_contents:
  "can_send m \<Longrightarrow> is_ack ack \<Longrightarrow>
   map (\<lambda>d. (GetAction d, GetActionPayload d)) (chain_from E m ack xs) =
   map (\<lambda>(action, pl). (action, if prePipeliningAgent m then legacy_payload E pl else pl)) xs"
proof (induction xs arbitrary: ack)
  case (Cons x xs)
  obtain action pl where x: "x = (action, pl)" by (cases x)
  obtain d p where d: "buildResponse E m ack action pl = Ok d" "msg_Payload d = PData p"
      "data_Action p = action" "data_ActionPayload p = (if prePipeliningAgent m then legacy_payload E pl else pl)"
    using buildResponse_Ok [OF Cons.prems] by metis
  obtain a q where a: "predict_ack (env_lib E) m d = Ok a" "msg_Payload a = PDataAck q"
    using predict_ack_Ok [OF Cons.prems(1) d(2)] by metis
  have "is_ack a" using a by (simp add: is_ack_def)
  then show ?case using Cons x d a by (simp add: GetAction_def GetActionPayload_def)
qed simp

section \<open>An agent in step accepts the pipeline\<close>

text \<open>The agent and the daemon hold matching keys, certificate and version.\<close>

definition in_step :: "lib \<Rightarrow> int \<Rightarrow> agent_Mrtap \<Rightarrow> 'm daemon_Mrtap \<Rightarrow> bool" where
  "in_step L now a m \<longleftrightarrow>
     key_pair L (clientPublicKey a) (dc_privateKey (bzcert m)) \<and>
     (\<exists>cert. clientBZCert a = Some cert \<and> BZCert_Hash cert = BZCert_Hash (dc_BZCert (bzcert m)) \<and>
             \<not> BZCert_Expired now cert) \<and>
     (\<exists>va v. getSchemaVersionToUse L a = Ok va \<and> schemaVersion m = Some v \<and>
             semver_string L va = semver_string L v) \<and>
     PublicKey_String (publickey a) = PublicKey_String (agentPubKey m) \<and> good_priv (privatekey a)"

lemma getSchemaVersionToUse_frame [simp]:
  "getSchemaVersionToUse L (a\<lparr>lastDataMessage := d\<rparr>) = getSchemaVersionToUse L a"
  "getSchemaVersionToUse L (a\<lparr>expectedHPointer := h\<rparr>) = getSchemaVersionToUse L a"
  by (cases "semver_parse L SchemaVersion"; simp add: getSchemaVersionToUse_def)+

lemma in_step_frame [simp]:
  "in_step L now (a\<lparr>lastDataMessage := d\<rparr>) m = in_step L now a m"
  "in_step L now (a\<lparr>expectedHPointer := h\<rparr>) m = in_step L now a m"
  by (simp_all add: in_step_def)

lemma in_step_can_send: "in_step L now a m \<Longrightarrow> can_send m"
  by (auto simp: in_step_def can_send_def dest: key_pair_good)

lemma buildResponse_verifies:
  assumes "buildResponse E m ack action pl = Ok d" "key_pair (env_lib E) p (dc_privateKey (bzcert m))"
  shows "VerifySignature (env_lib E) d p = Ok ()"
proof -
  from assms(1) obtain r where r: "MrtapMessage_Sign (env_lib E) r (dc_privateKey (bzcert m)) = Ok (d, True)"
    by (auto simp: buildResponse_def Let_def split: option.splits res.splits if_splits)
  then show ?thesis using Sign_key_pair [OF assms(2), of r] by auto
qed

lemma agent_acks_as_predicted:
  assumes step: "in_step L now a m" and "sha3_len L" and "sign_nonempty L"
    and d: "msg_Type d = Data" "msg_Payload d = PData p"
    and v: "VerifySignature L d (clientPublicKey a) = Ok ()"
    and p: "data_HPointer p = expectedHPointer a" "data_BZCertHash p = BZCert_Hash (dc_BZCert (bzcert m))"
    and ack: "predict_ack L m d = Ok ack" "msg_Payload ack = PDataAck q"
  shows "agent_exchange L a (now, d, Some []) =
     Some (a\<lparr>lastDataMessage := Some d, expectedHPointer := payload_hash L (msg_Payload ack)\<rparr>, p, q)"
proof -
  let ?a = "a\<lparr>lastDataMessage := Some d\<rparr>"
  obtain cert va ver k where c: "clientBZCert a = Some cert" "BZCert_Hash cert = BZCert_Hash (dc_BZCert (bzcert m))"
      "\<not> BZCert_Expired now cert"
    and ver: "getSchemaVersionToUse L ?a = Ok va" "schemaVersion m = Some ver"
      "semver_string L va = semver_string L ver"
    and pub: "PublicKey_String (publickey a) = PublicKey_String (agentPubKey m)"
    and k: "privatekey a = Some (Some k)" "length k = 64"
    using step unfolding in_step_def good_priv_def by auto
  have val: "agent_Validate L now a d = (?a, Ok ())"
    using d v p c by (simp add: Validate_Data_Ok)
  have u: "unsigned_ack L now [] ?a d (Some []) va = Ok ack"
    using ack(1) d pub ver by (simp add: unsigned_ack_def predict_ack_def)
  obtain sg where sg: "MrtapMessage_Sign L ack (privatekey ?a) = Ok (ack\<lparr>msg_Signature := sg\<rparr>, True)" "sg \<noteq> []"
    using k assms(3) by (auto simp: MrtapMessage_Sign_def HashPayload_def PrivateKey_Sign_def sign_nonempty_def)
  have "agent_BuildAck L now [] ?a d (GetAction d) (Some []) =
      (?a\<lparr>expectedHPointer := payload_hash L (msg_Payload ack)\<rparr>, Ok (ack\<lparr>msg_Signature := sg\<rparr>))"
    using u sg ver(1) payload_hash_nonempty [OF assms(2)] by (simp add: agent_BuildAck_def)
  then show ?thesis using val d ack(2) by (simp add: agent_exchange_def)
qed

lemma agent_accepts_chain:
  assumes "in_step (env_lib E) now a m" and "sha3_len (env_lib E)" and "sign_nonempty (env_lib E)"
    and "is_ack ack" and "expectedHPointer a = payload_hash (env_lib E) (msg_Payload ack)"
  shows "\<exists>a' tr. agent_session (env_lib E) a (map (\<lambda>d. (now, d, Some [])) (chain_from E m ack xs)) = Some (a', tr) \<and>
           map (\<lambda>x. PData (fst x)) tr = map msg_Payload (chain_from E m ack xs)"
  using assms
proof (induction xs arbitrary: a ack)
  case (Cons x xs)
  let ?L = "env_lib E"
  obtain action pl where x: "x = (action, pl)" by (cases x)
  note can = in_step_can_send [OF Cons.prems(1)]
  obtain d p where d: "buildResponse E m ack action pl = Ok d" "msg_Type d = Data" "msg_Payload d = PData p"
      "data_HPointer p = payload_hash ?L (msg_Payload ack)"
      "data_BZCertHash p = BZCert_Hash (dc_BZCert (bzcert m))"
    using buildResponse_Ok [OF can Cons.prems(4)] by metis
  obtain b q where b: "predict_ack ?L m d = Ok b" "msg_Payload b = PDataAck q"
    using predict_ack_Ok [OF can d(3)] by metis
  have sig: "VerifySignature ?L d (clientPublicKey a) = Ok ()"
    using buildResponse_verifies [OF d(1)] Cons.prems(1) by (simp add: in_step_def)
  let ?a = "a\<lparr>lastDataMessage := Some d, expectedHPointer := payload_hash ?L (msg_Payload b)\<rparr>"
  have ex: "agent_exchange ?L a (now, d, Some []) = Some (?a, p, q)"
    by (rule agent_acks_as_predicted [OF Cons.prems(1-3) d(2,3) sig _ d(5) b])
       (simp add: d(4) Cons.prems(5))
  have "\<exists>a' tr. agent_session ?L ?a (map (\<lambda>d. (now, d, Some [])) (chain_from E m b xs)) = Some (a', tr) \<and>
      map (\<lambda>x. PData (fst x)) tr = map msg_Payload (chain_from E m b xs)"
    by (rule Cons.IH) (use Cons.prems b in \<open>simp_all add: is_ack_def\<close>)
  then show ?case using x d b ex by auto
qed simp

section \<open>Recovery\<close>

text \<open>
  What a SynAck with a given nonce makes the daemon send again, as a function of the
  messages still pending: those after the one the nonce names; if it names none, everything
  when it names the message acknowledged last, or when the agent is too old to be asked.
\<close>

definition to_resend ::
  "lib \<Rightarrow> version \<Rightarrow> MrtapMessage option \<Rightarrow> string \<Rightarrow> (string \<times> MrtapMessage) list \<Rightarrow>
   (string \<times> MrtapMessage) list" where
  "to_resend L v acked nonce pending =
     (case al_after pending nonce of
        Some later \<Rightarrow> later
      | None \<Rightarrow>
          if semver_check L ''> 2.0'' v \<longrightarrow> (\<exists>d. acked = Some d \<and> nonce = payload_hash L (msg_Payload d))
          then pending else [])"

definition actions :: "(string \<times> MrtapMessage) list \<Rightarrow> (string \<times> string option) list" where
  "actions ps = map (\<lambda>(k, msg). (GetAction msg, GetActionPayload msg)) ps"

definition same_control :: "'m daemon_Mrtap \<Rightarrow> 'm daemon_Mrtap \<Rightarrow> bool" where
  "same_control m m' \<longleftrightarrow>
     (\<exists>pm n q. m' = m\<lparr>pipelineMap := pm, pipelineLength := n, outboxQueue := q\<rparr>)"

lemma same_control_refl [simp]: "same_control m m"
  unfolding same_control_def by (intro exI [of _ "pipelineMap m"] exI [of _ "pipelineLength m"] exI [of _ "outboxQueue m"]) simp

lemma same_control_trans: "same_control a b \<Longrightarrow> same_control b c \<Longrightarrow> same_control a c"
  by (auto simp: same_control_def) metis

lemma same_control_fields:
  assumes "same_control m m'"
  shows "bzcert m' = bzcert m" "agentPubKey m' = agentPubKey m" "ackPublicKey m' = ackPublicKey m"
    "synAction m' = synAction m" "isHandshakeComplete m' = isHandshakeComplete m" "lastAck m' = lastAck m"
    "lastAckedData m' = lastAckedData m" "recovering m' = recovering m"
    "errorRecoveryAttempt m' = errorRecoveryAttempt m" "schemaVersion m' = schemaVersion m"
    "prePipeliningAgent m' = prePipeliningAgent m" "pipelineLimit m' = pipelineLimit m"
  using assms by (auto simp: same_control_def)

lemma same_control_upd: "same_control m (m\<lparr>pipelineMap := pm, pipelineLength := n, outboxQueue := q\<rparr>)"
  by (auto simp: same_control_def)

lemma pipeline_frame: "same_control m (fst (pipeline E om m action pl))"
proof -
  have "same_control m (m\<lparr>pipelineMap := pm, pipelineLength := n\<rparr>)" for pm n
    using same_control_upd [where pm = pm and n = n and q = "outboxQueue m" and m = m] by simp
  then show ?thesis
    by (simp add: pipeline_def addToPipelineMap_def Let_def same_control_upd split: res.splits)
qed

lemma resend_loop_frame: "same_control m (fst (resend_loop E om m ps))"
proof (induction ps arbitrary: m)
  case (Cons x ps)
  obtain k msg where x: "x = (k, msg)" by (cases x)
  obtain m1 r where p: "pipeline E om m (GetAction msg) (GetActionPayload msg) = (m1, r)" by fastforce
  with pipeline_frame [of m E om "GetAction msg" "GetActionPayload msg"] have "same_control m m1" by simp
  with Cons [of m1] show ?case using x p by (auto intro: same_control_trans split: res.splits)
qed simp

lemma resend_frame: "same_control m (fst (resend E om m nonce))"
proof -
  have m1: "same_control m (m\<lparr>pipelineMap := om_new om\<rparr>)"
    using same_control_upd [where pm = "om_new om" and n = "pipelineLength m" and q = "outboxQueue m" and m = m] by simp
  with resend_loop_frame same_control_trans have
    "same_control m (fst (resend_loop E om (m\<lparr>pipelineMap := om_new om\<rparr>) ps))" for ps by blast
  with m1 show ?thesis by (simp add: resend_def Let_def split: option.splits)
qed

context ordered_map
begin

lemma resend_spec:
  assumes "schemaVersion m = Some v" "lastAck m = Some ack" "is_ack ack" "can_send m" "sha3_len (env_lib E)"
    and "ps = to_resend (env_lib E) v (lastAckedData m) nonce (om_pairs om (pipelineMap m))"
    and "\<forall>(k, msg) \<in> set ps. GetAction msg \<noteq> []"
    and "chain = chain_from E m ack (actions ps)" and "distinct (al_keys (keyed (env_lib E) chain))"
  shows "\<exists>m'. resend E om m nonce = (m', Ok ()) \<and> same_control m m' \<and>
     om_pairs om (pipelineMap m') = keyed (env_lib E) chain \<and> outboxQueue m' = outboxQueue m @ chain"
proof -
  let ?m = "m\<lparr>pipelineMap := om_new om\<rparr>"
  have ss: "same_sender m ?m" by (simp add: same_sender_def)
  note sb = same_sender_build [OF ss]
  have base: "ack_to_build_on (env_lib E) om ?m = Ok ack"
    using assms(2) by (simp add: ack_to_build_on_def newest_pairs pairs_new)
  have "\<exists>m'. resend_loop E om ?m ps = (m', Ok ()) \<and> same_sender ?m m' \<and>
     om_pairs om (pipelineMap m') = om_pairs om (pipelineMap ?m) @ keyed (env_lib E) chain \<and>
     outboxQueue m' = outboxQueue ?m @ chain \<and> lastAck m' = lastAck ?m \<and>
     (pipelineLength ?m = length (om_pairs om (pipelineMap ?m)) \<or> ps \<noteq> [] \<longrightarrow>
      pipelineLength m' = length (om_pairs om (pipelineMap m')))"
    by (rule resend_loop_is_chain [OF _ base assms(3,5,7)])
       (use assms(4,8,9) sb(3,4) in \<open>simp_all add: actions_def pairs_new\<close>)
  then obtain m' where loop: "resend_loop E om ?m ps = (m', Ok ())"
    "om_pairs om (pipelineMap m') = keyed (env_lib E) chain" "outboxQueue m' = outboxQueue m @ chain"
    by (auto simp: pairs_new)
  have "resend E om m nonce = resend_loop E om ?m ps"
    using assms(1,6) payload_hash_nonempty [OF assms(5)]
    by (auto simp: resend_def to_resend_def after_pairs Let_def split: option.splits)
  then show ?thesis
    using loop resend_frame [of m E om nonce] by auto
qed

lemma Validate_SynAck:
  assumes "msg_Type ack = SynAck" "msg_Payload ack = PSynAck p"
    and "VerifySignature (env_lib E) ack (agentPubKey m) = Ok ()"
    and "PublicKeyFromString (synack_TargetPublicKey p) = Ok pk"
    and "synack_HPointer p \<in> set (al_keys (om_pairs om (pipelineMap m)))"
    and "semver_parse (env_lib E) (synack_SchemaVersion p) = Ok v"
    and "good_priv (dc_privateKey (bzcert m))" "sha3_len (env_lib E)"
    and "ps = to_resend (env_lib E) v (lastAckedData m) (synack_Nonce p)
                (al_delete (om_pairs om (pipelineMap m)) (synack_HPointer p))"
    and "\<forall>(k, msg) \<in> set ps. GetAction msg \<noteq> []"
    and "chain = chain_from E (m\<lparr>schemaVersion := Some v\<rparr>) ack (actions ps)"
    and "distinct (al_keys (keyed (env_lib E) chain))"
  shows "\<exists>m'. daemon_Validate E om m ack = (m', Ok ()) \<and>
     om_pairs om (pipelineMap m') = keyed (env_lib E) chain \<and> outboxQueue m' = outboxQueue m @ chain \<and>
     pipelineLength m' = length chain \<and> isHandshakeComplete m' \<and> \<not> recovering m' \<and>
     lastAck m' = Some ack \<and> schemaVersion m' = Some v \<and> bzcert m' = bzcert m \<and> agentPubKey m' = agentPubKey m"
proof -
  define m1 where "m1 = (if ackPublicKey m = None then m\<lparr>ackPublicKey := Some pk\<rparr> else m)"
  have m1: "take_ack_key m ack = Ok m1"
    using assms(2,4) by (simp add: take_ack_key_def m1_def)
  have f: "agentPubKey m1 = agentPubKey m" "pipelineMap m1 = pipelineMap m" "bzcert m1 = bzcert m"
      "outboxQueue m1 = outboxQueue m" "lastAckedData m1 = lastAckedData m"
      "prePipeliningAgent m1 = prePipeliningAgent m"
    by (simp_all add: m1_def)
  obtain acked where get: "om_get om (pipelineMap m1) (synack_HPointer p) = Some acked"
    using assms(5) f al_get_None [of "om_pairs om (pipelineMap m)" "synack_HPointer p"]
    by (auto simp: get_pairs)
  let ?m2 = "m1\<lparr>lastAck := Some ack, pipelineMap := om_delete om (pipelineMap m1) (synack_HPointer p),
                schemaVersion := Some v, recovering := False\<rparr>"
  have ss: "same_sender (m\<lparr>schemaVersion := Some v\<rparr>) ?m2" using f by (simp add: same_sender_def)
  have "\<exists>m'. resend E om ?m2 (synack_Nonce p) = (m', Ok ()) \<and> same_control ?m2 m' \<and>
     om_pairs om (pipelineMap m') = keyed (env_lib E) chain \<and> outboxQueue m' = outboxQueue ?m2 @ chain"
    by (rule resend_spec [of _ v ack _ ps])
       (use assms f same_sender_build(4) [OF ss] in \<open>simp_all add: is_ack_def can_send_def pairs_delete\<close>)
  then obtain m3 where m3: "resend E om ?m2 (synack_Nonce p) = (m3, Ok ())" "same_control ?m2 m3"
     "om_pairs om (pipelineMap m3) = keyed (env_lib E) chain" "outboxQueue m3 = outboxQueue m @ chain"
    using f by auto
  show ?thesis
    using assms(1,2,3,6) m1 f get m3 same_control_fields [OF m3(2)]
    by (simp add: daemon_Validate_def verify_agent_signature_def GetHpointer_def accept_SynAck_def Let_def
        len_pairs)
qed

end

section \<open>The Syn\<close>

text \<open>The state after the certificate was refreshed, and the Syn built on it.\<close>

definition syn_state :: "'m daemon_Mrtap \<Rightarrow> DaemonBZCert \<Rightarrow> string \<Rightarrow> 'm daemon_Mrtap" where
  "syn_state m c action =
     m\<lparr>isHandshakeComplete := False, lastAck := None, bzcert := c,
       synAction := (if synAction m = ''initial'' then action else synAction m)\<rparr>"

definition syn_payload :: "daemon_env \<Rightarrow> 'm daemon_Mrtap \<Rightarrow> string \<Rightarrow> SynPayload" where
  "syn_payload E m payloadBytes =
     \<lparr> syn_SchemaVersion = SchemaVersion, syn_Type = ''Syn'', syn_Action = synAction m,
       syn_ActionPayload = Some payloadBytes, syn_Timestamp = [],
       syn_TargetId = PublicKey_String (agentPubKey m), syn_Nonce = env_nonce E,
       syn_BZCert = dc_BZCert (bzcert m) \<rparr>"

lemma syn_state_alt:
  "(if synAction m = ''initial'' then m\<lparr>isHandshakeComplete := False, lastAck := None, bzcert := c, synAction := action\<rparr>
    else m\<lparr>isHandshakeComplete := False, lastAck := None, bzcert := c\<rparr>) = syn_state m c action"
  by (simp add: syn_state_def)

lemma buildSyn_refresh_fails:
  assumes "DaemonBZCert_Refresh (env_lib E) (env_jwt E) (env_fs E) (env_now E) (bzcert m) = (c, r)" "\<not> is_ok r"
  shows "fst (buildSyn E om m action params snd_it) = m\<lparr>isHandshakeComplete := False, lastAck := None, bzcert := c\<rparr> \<and>
         \<not> is_ok (snd (buildSyn E om m action params snd_it))"
  using assms by (cases r) (simp_all add: buildSyn_def Let_def)

lemma buildSyn_params_fail:
  assumes "DaemonBZCert_Refresh (env_lib E) (env_jwt E) (env_fs E) (env_now E) (bzcert m) = (c, Ok u)"
    "\<not> is_ok params"
  shows "fst (buildSyn E om m action params snd_it) = syn_state m c action"
  using assms by (cases params) (simp_all add: buildSyn_def Let_def syn_state_def)

lemma buildSyn_signed:
  assumes "DaemonBZCert_Refresh (env_lib E) (env_jwt E) (env_fs E) (env_now E) (bzcert m) = (c, Ok u)"
    and "good_priv (dc_privateKey c)" and "params = Ok bytes"
  obtains syn where "msg_Type syn = Syn" "msg_Payload syn = PSyn (syn_payload E (syn_state m c action) bytes)"
    "MrtapMessage_Sign (env_lib E) (syn\<lparr>msg_Signature := []\<rparr>) (dc_privateKey c) = Ok (syn, True)"
    "buildSyn E om m action params snd_it =
       (case addToPipelineMap (env_lib E) om (syn_state m c action) syn of
          (m4, Ok _) \<Rightarrow> (if snd_it then m4\<lparr>outboxQueue := outboxQueue m4 @ [syn]\<rparr> else m4, Ok syn)
        | (m4, Err e) \<Rightarrow> (m4, Err e) | (m4, Panic) \<Rightarrow> (m4, Panic))"
proof -
  let ?m = "syn_state m c action"
  let ?s = "\<lparr>msg_Type = Syn, msg_Payload = PSyn (syn_payload E ?m bytes), msg_Signature = []\<rparr>"
  obtain sg where sg: "MrtapMessage_Sign (env_lib E) ?s (dc_privateKey c) = Ok (?s\<lparr>msg_Signature := sg\<rparr>, True)"
    using Sign_good [OF assms(2), of "env_lib E" ?s] by blast
  have "buildSyn E om m action params snd_it =
       (case addToPipelineMap (env_lib E) om ?m (?s\<lparr>msg_Signature := sg\<rparr>) of
          (m4, Ok _) \<Rightarrow> (if snd_it then m4\<lparr>outboxQueue := outboxQueue m4 @ [?s\<lparr>msg_Signature := sg\<rparr>]\<rparr> else m4,
                         Ok (?s\<lparr>msg_Signature := sg\<rparr>))
        | (m4, Err e) \<Rightarrow> (m4, Err e) | (m4, Panic) \<Rightarrow> (m4, Panic))"
    using assms(1,3) sg
    by (cases "synAction m = ''initial''") (simp_all add: buildSyn_def Let_def syn_payload_def syn_state_def
        split: prod.splits res.splits)
  with sg show thesis by (intro that [of "?s\<lparr>msg_Signature := sg\<rparr>"]) simp_all
qed

section \<open>Reachable daemons\<close>

text \<open>
  The operations in any order and with any arguments; messages come from the wire, so their
  type is that of their payload. The data channel takes messages from the outbox.
\<close>

inductive daemon_reach :: "'m omap_ops \<Rightarrow> lib \<Rightarrow> 'm daemon_Mrtap \<Rightarrow> bool" for om L where
  new: "good_priv (dc_privateKey cert) \<Longrightarrow> daemon_reach om L (daemon_New om key cert)"
| inbox: "daemon_reach om L m \<Longrightarrow> env_lib E = L \<Longrightarrow> daemon_Inbox E om m action pl = Some (m', r) \<Longrightarrow>
    daemon_reach om L m'"
| validate: "daemon_reach om L m \<Longrightarrow> env_lib E = L \<Longrightarrow> type_matches msg \<Longrightarrow>
    daemon_Validate E om m msg = (m', r) \<Longrightarrow> daemon_reach om L m'"
| recover: "daemon_reach om L m \<Longrightarrow> env_lib E = L \<Longrightarrow> daemon_Recover E om m err = (m', r) \<Longrightarrow>
    daemon_reach om L m'"
| syn: "daemon_reach om L m \<Longrightarrow> env_lib E = L \<Longrightarrow> BuildSyn E om m action params snd_it = (m', r') \<Longrightarrow>
    daemon_reach om L m'"
| outbox: "daemon_reach om L m \<Longrightarrow> outboxQueue m = msg # rest \<Longrightarrow>
    daemon_reach om L (m\<lparr>outboxQueue := rest\<rparr>)"

definition entry_ok :: "lib \<Rightarrow> (string \<times> MrtapMessage) \<Rightarrow> bool" where
  "entry_ok L e \<longleftrightarrow> fst e = payload_hash L (msg_Payload (snd e)) \<and> type_matches (snd e)"

definition data_entry :: "lib \<Rightarrow> (string \<times> MrtapMessage) \<Rightarrow> bool" where
  "data_entry L e \<longleftrightarrow> entry_ok L e \<and> msg_Type (snd e) = Data"

definition daemon_inv :: "'m omap_ops \<Rightarrow> lib \<Rightarrow> 'm daemon_Mrtap \<Rightarrow> bool" where
  "daemon_inv om L m \<longleftrightarrow>
     good_priv (dc_privateKey (bzcert m)) \<and> errorRecoveryAttempt m \<le> maxErrorRecoveryTries \<and>
     pipelineLimit m \<in> {1, maxPipelineLimit} \<and>
     (\<forall>e \<in> set (om_pairs om (pipelineMap m)). entry_ok L e) \<and>
     distinct (al_keys (om_pairs om (pipelineMap m))) \<and>
     (\<forall>a. lastAck m = Some a \<longrightarrow> is_ack a) \<and>
     (isHandshakeComplete m \<longrightarrow> lastAck m \<noteq> None \<and> schemaVersion m \<noteq> None \<and>
        (\<forall>e \<in> set (om_pairs om (pipelineMap m)). data_entry L e))"

lemma buildResponse_Data:
  "buildResponse E m ack action pl = Ok d \<Longrightarrow> msg_Type d = Data \<and> (\<exists>p. msg_Payload d = PData p)"
  by (auto simp: buildResponse_def BuildUnsignedData_def Let_def dest!: Sign_Ok
      split: option.splits res.splits if_splits payload.splits)

lemma data_entry_new:
  "buildResponse E m ack action pl = Ok d \<Longrightarrow>
   data_entry L (payload_hash L (msg_Payload d), d)"
  using buildResponse_Data by (force simp: data_entry_def entry_ok_def type_matches_def)

context ordered_map
begin

lemma pipeline_entries:
  assumes "\<forall>e \<in> set (om_pairs om (pipelineMap m)). P e" "\<And>e. data_entry (env_lib E) e \<Longrightarrow> P e"
    and "distinct (al_keys (om_pairs om (pipelineMap m)))"
    and "pipeline E om m action pl = (m', r)"
  shows "(\<forall>e \<in> set (om_pairs om (pipelineMap m')). P e) \<and> distinct (al_keys (om_pairs om (pipelineMap m')))"
proof -
  have "m' = m \<or> (\<exists>ack d. buildResponse E m ack action pl = Ok d \<and>
      om_pairs om (pipelineMap m') = al_set (om_pairs om (pipelineMap m)) (payload_hash (env_lib E) (msg_Payload d)) d)"
    using assms(4) by (auto simp: pipeline_def addToPipelineMap_def Let_def pairs_set split: res.splits if_splits) blast
  then show ?thesis
  proof (elim disjE exE conjE)
    fix ack d assume d: "buildResponse E m ack action pl = Ok d"
      and s: "om_pairs om (pipelineMap m') = al_set (om_pairs om (pipelineMap m)) (payload_hash (env_lib E) (msg_Payload d)) d"
    have "P (payload_hash (env_lib E) (msg_Payload d), d)" using assms(2) data_entry_new [OF d] by blast
    then show ?thesis using s assms(1,3) set_al_set_subset by fastforce
  qed (use assms in simp)
qed

lemma resend_loop_entries:
  assumes "\<forall>e \<in> set (om_pairs om (pipelineMap m)). data_entry (env_lib E) e"
    and "distinct (al_keys (om_pairs om (pipelineMap m)))"
    and "resend_loop E om m ps = (m', r)"
  shows "(\<forall>e \<in> set (om_pairs om (pipelineMap m')). data_entry (env_lib E) e) \<and>
         distinct (al_keys (om_pairs om (pipelineMap m')))"
  using assms
proof (induction ps arbitrary: m)
  case (Cons x ps)
  obtain k msg where x: "x = (k, msg)" by (cases x)
  obtain m1 r1 where p: "pipeline E om m (GetAction msg) (GetActionPayload msg) = (m1, r1)" by fastforce
  have "(\<forall>e \<in> set (om_pairs om (pipelineMap m1)). data_entry (env_lib E) e) \<and>
        distinct (al_keys (om_pairs om (pipelineMap m1)))"
    by (rule pipeline_entries [OF Cons.prems(1) _ Cons.prems(2) p])
  with Cons.IH [of m1] Cons.prems(3) x p show ?case by (auto split: res.splits)
qed simp

lemma resend_entries:
  assumes "resend E om m nonce = (m', r)"
  shows "(\<forall>e \<in> set (om_pairs om (pipelineMap m')). data_entry (env_lib E) e) \<and>
         distinct (al_keys (om_pairs om (pipelineMap m')))"
proof -
  let ?m = "m\<lparr>pipelineMap := om_new om\<rparr>"
  have "m' = ?m \<or> (\<exists>ps. resend_loop E om ?m ps = (m', r))"
    using assms by (auto simp: resend_def Let_def split: option.splits if_splits)
  then show ?thesis using resend_loop_entries [of ?m E] by (auto simp: pairs_new)
qed

lemma inv_pipeline:
  assumes "daemon_inv om (env_lib E) m" "pipeline E om m action pl = (m', r)"
  shows "daemon_inv om (env_lib E) m'"
proof -
  have fr: "same_control m m'" using pipeline_frame [of m E om action pl] assms(2) by simp
  have ok: "(\<forall>e \<in> set (om_pairs om (pipelineMap m')). entry_ok (env_lib E) e) \<and>
      distinct (al_keys (om_pairs om (pipelineMap m')))"
    by (rule pipeline_entries [OF _ _ _ assms(2)])
       (use assms(1) in \<open>auto simp: daemon_inv_def data_entry_def\<close>)
  moreover have "\<forall>e \<in> set (om_pairs om (pipelineMap m')). data_entry (env_lib E) e" if "isHandshakeComplete m"
    using pipeline_entries [OF _ _ _ assms(2), of "data_entry (env_lib E)"] assms(1) that
    by (simp add: daemon_inv_def)
  ultimately show ?thesis
    using assms(1) same_control_fields [OF fr] by (simp add: daemon_inv_def)
qed

lemma inv_reset:
  "daemon_inv om L m \<Longrightarrow> good_priv (dc_privateKey c) \<Longrightarrow>
   daemon_inv om L (m\<lparr>isHandshakeComplete := False, lastAck := None, bzcert := c\<rparr>)"
  by (simp add: daemon_inv_def)

lemma inv_frame [simp]:
  "daemon_inv om L (m\<lparr>synAction := a\<rparr>) = daemon_inv om L m"
  "daemon_inv om L (m\<lparr>outboxQueue := q\<rparr>) = daemon_inv om L m"
  "daemon_inv om L (m\<lparr>recovering := b\<rparr>) = daemon_inv om L m"
  "daemon_inv om L (m\<lparr>pipelineLength := n\<rparr>) = daemon_inv om L m"
  "daemon_inv om L (m\<lparr>ackPublicKey := k\<rparr>) = daemon_inv om L m"
  by (simp_all add: daemon_inv_def)

lemma inv_add:
  assumes "daemon_inv om L m" "\<not> isHandshakeComplete m" "type_matches msg"
    "addToPipelineMap L om m msg = (m', r)"
  shows "daemon_inv om L m'"
proof -
  let ?k = "payload_hash L (msg_Payload msg)"
  have "entry_ok L (?k, msg)" using assms(3) by (simp add: entry_ok_def)
  then have "\<forall>e \<in> set (al_set (om_pairs om (pipelineMap m)) ?k msg). entry_ok L e"
    using assms(1) set_al_set_subset by (fastforce simp: daemon_inv_def)
  then show ?thesis
    using assms by (auto simp: daemon_inv_def addToPipelineMap_def Let_def pairs_set split: if_splits)
qed

lemma inv_buildSyn:
  assumes "daemon_inv om (env_lib E) m" "buildSyn E om m action params snd_it = (m', r)"
  shows "daemon_inv om (env_lib E) m'"
proof -
  obtain c r1 where c: "DaemonBZCert_Refresh (env_lib E) (env_jwt E) (env_fs E) (env_now E) (bzcert m) = (c, r1)"
    by fastforce
  have good: "good_priv (dc_privateKey c)"
    using assms(1) c Refresh_good_priv [of "bzcert m"] by (simp add: daemon_inv_def) (metis fst_conv)
  note inv = inv_reset [OF assms(1) good]
  have inv3: "daemon_inv om (env_lib E) (syn_state m c action)" "\<not> isHandshakeComplete (syn_state m c action)"
    using inv by (simp_all add: syn_state_def daemon_inv_def)
  consider "\<not> is_ok r1" | u where "r1 = Ok u" "\<not> is_ok params" | u bytes where "r1 = Ok u" "params = Ok bytes"
    by (cases r1; cases params) auto
  then show ?thesis
  proof cases
    case 1
    with buildSyn_refresh_fails [OF c, of om action params snd_it] assms(2) inv show ?thesis by simp
  next
    case 2
    with buildSyn_params_fail [of E m c u params om action snd_it] c assms(2) inv3 show ?thesis by simp
  next
    case 3
    obtain syn where syn: "msg_Type syn = Syn" "msg_Payload syn = PSyn (syn_payload E (syn_state m c action) bytes)"
      "MrtapMessage_Sign (env_lib E) (syn\<lparr>msg_Signature := []\<rparr>) (dc_privateKey c) = Ok (syn, True)"
      "buildSyn E om m action params snd_it =
       (case addToPipelineMap (env_lib E) om (syn_state m c action) syn of
          (m4, Ok _) \<Rightarrow> (if snd_it then m4\<lparr>outboxQueue := outboxQueue m4 @ [syn]\<rparr> else m4, Ok syn)
        | (m4, Err e) \<Rightarrow> (m4, Err e) | (m4, Panic) \<Rightarrow> (m4, Panic))"
      by (rule buildSyn_signed [OF c [unfolded 3(1)] good 3(2)])
    obtain m4 r4 where a: "addToPipelineMap (env_lib E) om (syn_state m c action) syn = (m4, r4)" by fastforce
    have "daemon_inv om (env_lib E) m4"
      by (rule inv_add [OF inv3 _ a]) (simp add: type_matches_def syn)
    then show ?thesis using assms(2) syn(4) a by (auto split: res.splits if_splits)
  qed
qed

lemma inv_delete:
  assumes "daemon_inv om L m"
  shows "daemon_inv om L (m\<lparr>pipelineMap := om_delete om (pipelineMap m) h\<rparr>)"
  using assms set_al_delete_subset [of "om_pairs om (pipelineMap m)" h]
  by (auto simp: daemon_inv_def pairs_delete distinct_al_delete)

lemma inv_resend:
  assumes "daemon_inv om (env_lib E) m" "resend E om m nonce = (m', r)"
  shows "daemon_inv om (env_lib E) m' \<and> (\<forall>e \<in> set (om_pairs om (pipelineMap m')). data_entry (env_lib E) e)"
proof -
  have "same_control m m'" using resend_frame [of m E om nonce] assms(2) by simp
  with resend_entries [OF assms(2)] assms(1) show ?thesis
    by (auto simp: daemon_inv_def data_entry_def same_control_fields)
qed

lemma inv_SynAck:
  assumes "daemon_inv om (env_lib E) m" "is_ack ack" "accept_SynAck E om m ack p h = (m', r)"
  shows "daemon_inv om (env_lib E) m'"
proof -
  let ?m1 = "m\<lparr>lastAck := Some ack, pipelineMap := om_delete om (pipelineMap m) h\<rparr>"
  have inv1: "daemon_inv om (env_lib E) ?m1"
    using inv_delete [OF assms(1), of h] assms(2) by (auto simp: daemon_inv_def)
  show ?thesis
  proof (cases "semver_parse (env_lib E) (synack_SchemaVersion p)")
    case (Ok v)
    let ?m2 = "?m1\<lparr>schemaVersion := Some v, recovering := False\<rparr>"
    obtain m3 r3 where m3: "resend E om ?m2 (synack_Nonce p) = (m3, r3)" by fastforce
    have "daemon_inv om (env_lib E) ?m2" using inv1 by (auto simp: daemon_inv_def)
    from inv_resend [OF this m3] have inv3: "daemon_inv om (env_lib E) m3"
      "\<forall>e \<in> set (om_pairs om (pipelineMap m3)). data_entry (env_lib E) e" by auto
    have "same_control ?m2 m3" using resend_frame [of ?m2 E om "synack_Nonce p"] m3 by simp
    from same_control_fields [OF this] have "lastAck m3 = Some ack" "schemaVersion m3 = Some v" by simp_all
    with inv3 Ok m3 assms(3) show ?thesis
      by (auto simp: accept_SynAck_def Let_def daemon_inv_def split: res.splits)
  qed (use inv1 assms(3) in \<open>auto simp: accept_SynAck_def Let_def\<close>)
qed

lemma inv_DataAck:
  assumes "daemon_inv om L m" "is_ack ack"
  shows "daemon_inv om L (accept_DataAck om m ack h acked)"
  using inv_delete [OF assms(1), of h] assms(2) by (auto simp: daemon_inv_def accept_DataAck_def)

lemma inv_Validate:
  assumes "daemon_inv om (env_lib E) m" "type_matches msg" "daemon_Validate E om m msg = (m', r)"
  shows "daemon_inv om (env_lib E) m'"
proof (cases "take_ack_key m msg")
  case (Ok m1)
  then have inv1: "daemon_inv om (env_lib E) m1"
    using assms(1) by (auto simp: take_ack_key_def split: payload.splits res.splits if_splits)
  have "is_ack msg" if "msg_Type msg = SynAck \<or> msg_Type msg = DataAck"
    using that assms(2) by (auto simp: type_matches_def is_ack_def split: payload.splits)
  with inv1 Ok assms(3) show ?thesis
    by (auto simp: daemon_Validate_def inv_DataAck split: res.splits option.splits PayloadType.splits
        payload.splits prod.splits dest: inv_SynAck)
qed (use assms in \<open>auto simp: daemon_Validate_def\<close>)

lemma Recover_cases:
  assumes "daemon_Recover E om m err = (m', r)"
  shows "m' = m \<or> errorRecoveryAttempt m < maxErrorRecoveryTries \<and>
    (\<exists>r2. buildSyn E om (m\<lparr>errorRecoveryAttempt := errorRecoveryAttempt m + 1, recovering := True\<rparr>) []
            (Ok (dquote @ dquote)) True = (m', r2))"
proof (cases "buildSyn E om (m\<lparr>errorRecoveryAttempt := errorRecoveryAttempt m + 1, recovering := True\<rparr>) []
            (Ok (dquote @ dquote)) True")
  case (Pair m2 r2)
  then show ?thesis
    using assms by (cases r2) (auto simp: daemon_Recover_def Let_def not_le split: if_splits)
qed

lemma inv_Recover:
  assumes "daemon_inv om (env_lib E) m" "daemon_Recover E om m err = (m', r)"
  shows "daemon_inv om (env_lib E) m'"
proof -
  let ?m1 = "m\<lparr>errorRecoveryAttempt := errorRecoveryAttempt m + 1, recovering := True\<rparr>"
  have "daemon_inv om (env_lib E) ?m1" if "errorRecoveryAttempt m < maxErrorRecoveryTries"
    using assms(1) that by (auto simp: daemon_inv_def)
  then show ?thesis
    using Recover_cases [OF assms(2)] assms(1) inv_buildSyn by blast
qed

lemma reach_inv: "daemon_reach om L m \<Longrightarrow> daemon_inv om L m"
proof (induction rule: daemon_reach.induct)
  case (new cert key)
  then show ?case by (simp add: daemon_inv_def daemon_New_def pairs_new)
next
  case (inbox m E action pl m' r)
  then show ?case using inv_pipeline by (auto simp: daemon_Inbox_def split: if_splits)
next
  case (validate m E msg m' r)
  then show ?case using inv_Validate by blast
next
  case (recover m E err m' r)
  then show ?case using inv_Recover by blast
next
  case (syn m E action params snd_it m' r')
  then show ?case using inv_buildSyn by (auto simp: BuildSyn_def)
qed simp

lemma base_ack:
  assumes "daemon_inv om L m" "isHandshakeComplete m"
  obtains ack where "ack_to_build_on L om m = Ok ack" "is_ack ack" "can_send m"
proof -
  have can: "can_send m" using assms by (auto simp: daemon_inv_def can_send_def)
  show thesis
  proof (cases "om_pairs om (pipelineMap m) = []")
    case True
    with assms that can show thesis
      by (auto simp: daemon_inv_def ack_to_build_on_def newest_pairs)
  next
    case False
    then have "data_entry L (last (om_pairs om (pipelineMap m)))"
      using assms by (simp add: daemon_inv_def)
    then obtain p where p: "msg_Payload (snd (last (om_pairs om (pipelineMap m)))) = PData p"
      by (auto simp: data_entry_def entry_ok_def type_matches_def split: payload.splits)
    obtain a q where "predict_ack L m (snd (last (om_pairs om (pipelineMap m)))) = Ok a" "msg_Payload a = PDataAck q"
      using predict_ack_Ok [OF can p] by metis
    with False can show thesis
      by (cases "last (om_pairs om (pipelineMap m))", intro that [of a])
         (simp_all add: ack_to_build_on_def newest_pairs is_ack_def)
  qed
qed

lemma Inbox_succeeds:
  assumes "daemon_inv om (env_lib E) m" "sha3_len (env_lib E)" "isHandshakeComplete m"
    "om_len om (pipelineMap m) < pipelineLimit m" "action \<noteq> []"
  shows "\<exists>m' d. daemon_Inbox E om m action pl = Some (m', Ok ()) \<and> outboxQueue m' = outboxQueue m @ [d] \<and>
     GetAction d = action \<and> om_get om (pipelineMap m') (payload_hash (env_lib E) (msg_Payload d)) = Some d \<and>
     om_len om (pipelineMap m') \<le> pipelineLimit m' \<and> pipelineLimit m' \<le> maxPipelineLimit \<and>
     pipelineLength m' = om_len om (pipelineMap m')"
proof -
  obtain ack where ack: "ack_to_build_on (env_lib E) om m = Ok ack" "is_ack ack" "can_send m"
    by (rule base_ack [OF assms(1,3)])
  obtain d p where d: "buildResponse E m ack action pl = Ok d" "msg_Payload d = PData p" "data_Action p = action"
    using buildResponse_Ok [OF ack(3,2)] by metis
  have lim: "pipelineLimit m \<le> maxPipelineLimit" using assms(1) by (auto simp: daemon_inv_def maxPipelineLimit_def)
  have "length (al_set (om_pairs om (pipelineMap m)) (payload_hash (env_lib E) (msg_Payload d)) d) \<le> pipelineLimit m"
    using assms(4) length_al_set_le [of "om_pairs om (pipelineMap m)"] by (simp add: len_pairs) (meson Suc_le_eq le_trans)
  then show ?thesis
    using assms(3-5) ack d lim payload_hash_nonempty [OF assms(2)]
    by (auto simp: daemon_Inbox_def pipeline_def addToPipelineMap_def Let_def len_pairs pairs_set get_pairs
        GetAction_def)
qed

end

lemma Validate_after_key:
  assumes "take_ack_key m msg = Ok m1" "verify_agent_signature (env_lib E) m1 msg = Ok u"
    "GetHpointer msg = Ok h" "om_get om (pipelineMap m1) h = Some acked"
    "msg_Type msg = SynAck" "msg_Payload msg = PSynAck p"
  shows "lastAck (fst (daemon_Validate E om m msg)) = lastAck (fst (accept_SynAck E om m1 msg p h))"
proof (cases "accept_SynAck E om m1 msg p h")
  case (Pair m2 r2)
  then show ?thesis using assms by (cases r2) (simp_all add: daemon_Validate_def)
qed

lemma accept_SynAck_lastAck: "lastAck (fst (accept_SynAck E om m msg p h)) = Some msg"
proof (cases "semver_parse (env_lib E) (synack_SchemaVersion p)")
  case (Ok v)
  let ?m = "m\<lparr>lastAck := Some msg, pipelineMap := om_delete om (pipelineMap m) h, schemaVersion := Some v,
             recovering := False\<rparr>"
  obtain m2 r2 where r: "resend E om ?m (synack_Nonce p) = (m2, r2)" by fastforce
  have "same_control ?m m2" using resend_frame [of ?m E om "synack_Nonce p"] r by simp
  from same_control_fields(6) [OF this] have "lastAck m2 = Some msg" by simp
  then show ?thesis using Ok r by (cases r2) (simp_all add: accept_SynAck_def Let_def)
qed (simp_all add: accept_SynAck_def Let_def)

section \<open>Several actions and the Syn as sent\<close>

fun inbox_all ::
  "daemon_env \<Rightarrow> 'm omap_ops \<Rightarrow> 'm daemon_Mrtap \<Rightarrow> (string \<times> string option) list \<Rightarrow> 'm daemon_Mrtap option" where
  "inbox_all E om m [] = Some m"
| "inbox_all E om m ((action, pl) # xs) =
     (case daemon_Inbox E om m action pl of
        Some (m', Ok _) \<Rightarrow> inbox_all E om m' xs
      | _ \<Rightarrow> None)"

lemma buildSyn_Ok:
  assumes "buildSyn E om m action params snd_it = (m1, Ok syn)"
  shows "\<exists>c bytes u n q. params = Ok bytes \<and>
     DaemonBZCert_Refresh (env_lib E) (env_jwt E) (env_fs E) (env_now E) (bzcert m) = (c, Ok u) \<and>
     msg_Type syn = Syn \<and> msg_Payload syn = PSyn (syn_payload E (syn_state m c action) bytes) \<and>
     m1 = (syn_state m c action)\<lparr>pipelineMap := om_set om (pipelineMap m) (payload_hash (env_lib E) (msg_Payload syn)) syn,
             pipelineLength := n, outboxQueue := q\<rparr>"
proof -
  obtain c r where c: "DaemonBZCert_Refresh (env_lib E) (env_jwt E) (env_fs E) (env_now E) (bzcert m) = (c, r)"
    by fastforce
  have "is_ok r" using buildSyn_refresh_fails [OF c, of om action params snd_it] assms by auto
  then obtain u where r: "r = Ok u" by (auto simp: is_ok_iff)
  obtain bytes where p: "params = Ok bytes"
    using assms c r by (cases params) (simp_all add: buildSyn_def Let_def)
  have ss: "pipelineMap (syn_state m c action) = pipelineMap m" "bzcert (syn_state m c action) = c"
    by (simp_all add: syn_state_def)
  obtain s where s: "MrtapMessage_Sign (env_lib E) \<lparr>msg_Type = Syn,
        msg_Payload = PSyn (syn_payload E (syn_state m c action) bytes), msg_Signature = []\<rparr> (dc_privateKey c) = Ok (s, True)"
    and add: "case addToPipelineMap (env_lib E) om (syn_state m c action) s of
          (m4, Ok _) \<Rightarrow> (if snd_it then m4\<lparr>outboxQueue := outboxQueue m4 @ [s]\<rparr> else m4, Ok s) = (m1, Ok syn)
        | _ \<Rightarrow> False"
  proof -
    let ?s = "\<lparr>msg_Type = Syn, msg_Payload = PSyn (syn_payload E (syn_state m c action) bytes), msg_Signature = []\<rparr>"
    have "buildSyn E om m action params snd_it =
      (case MrtapMessage_Sign (env_lib E) ?s (dc_privateKey c) of
         Err e \<Rightarrow> (syn_state m c action, Err e) | Panic \<Rightarrow> (syn_state m c action, Panic)
       | Ok (signed, ok) \<Rightarrow>
           if \<not> ok then (syn_state m c action, Err (errorf ''could not sign payload: %!w(<nil>)''))
           else (case addToPipelineMap (env_lib E) om (syn_state m c action) signed of
                   (m4, Ok _) \<Rightarrow> (if snd_it then m4\<lparr>outboxQueue := outboxQueue m4 @ [signed]\<rparr> else m4, Ok signed)
                 | (m4, Err e) \<Rightarrow> (m4, Err e) | (m4, Panic) \<Rightarrow> (m4, Panic)))"
      using c r p
      by (cases "synAction m = ''initial''")
         (simp_all add: buildSyn_def Let_def syn_payload_def syn_state_def split: prod.splits res.splits)
    with assms that show thesis
      by (cases "MrtapMessage_Sign (env_lib E) ?s (dc_privateKey c)")
         (auto split: prod.splits res.splits if_splits dest: Sign_Ok)
  qed
  have syn: "syn = s" "m1 = (syn_state m c action)\<lparr>pipelineMap :=
       om_set om (pipelineMap m) (payload_hash (env_lib E) (msg_Payload s)) s,
       pipelineLength := pipelineLength m1, outboxQueue := outboxQueue m1\<rparr>"
    using add ss by (auto simp: addToPipelineMap_def Let_def split: if_splits)
  have "\<exists>n q. m1 = (syn_state m c action)\<lparr>pipelineMap :=
       om_set om (pipelineMap m) (payload_hash (env_lib E) (msg_Payload s)) s,
       pipelineLength := n, outboxQueue := q\<rparr>"
    by (intro exI) (rule syn(2))
  then show ?thesis using c r p Sign_Ok [OF s] syn(1) by auto
qed

context ordered_map
begin

lemma inbox_all_is_chain:
  assumes "can_send m" "ack_to_build_on (env_lib E) om m = Ok ack" "is_ack ack" "sha3_len (env_lib E)"
    and "isHandshakeComplete m" "om_len om (pipelineMap m) + length xs \<le> pipelineLimit m"
    and "\<forall>(action, pl) \<in> set xs. action \<noteq> []"
    and "chain = chain_from E m ack xs"
    and "distinct (al_keys (om_pairs om (pipelineMap m) @ keyed (env_lib E) chain))"
  shows "\<exists>m'. inbox_all E om m xs = Some m' \<and>
     om_pairs om (pipelineMap m') = om_pairs om (pipelineMap m) @ keyed (env_lib E) chain \<and>
     outboxQueue m' = outboxQueue m @ chain"
  using assms
proof (induction xs arbitrary: m ack chain)
  case Nil
  then show ?case by simp
next
  case (Cons x xs)
  obtain action pl where x: "x = (action, pl)" by (cases x)
  obtain d p where d: "buildResponse E m ack action pl = Ok d" "msg_Payload d = PData p"
    using buildResponse_Ok [OF Cons.prems(1,3)] by metis
  obtain a q where a: "predict_ack (env_lib E) m d = Ok a" "msg_Payload a = PDataAck q"
    using predict_ack_Ok [OF Cons.prems(1) d(2)] by metis
  have ia: "is_ack a" using a by (simp add: is_ack_def)
  have chain: "chain = d # chain_from E m a xs" using Cons.prems(8) x d a by simp
  have fresh: "payload_hash (env_lib E) (msg_Payload d) \<notin> set (al_keys (om_pairs om (pipelineMap m)))"
    using Cons.prems(9) chain by auto
  have ne: "action \<noteq> []" using Cons.prems(7) x by auto
  obtain m1 where m1: "pipeline E om m action pl = (m1, Ok ())" "same_sender m m1"
    "om_pairs om (pipelineMap m1) = om_pairs om (pipelineMap m) @ keyed (env_lib E) [d]"
    "outboxQueue m1 = outboxQueue m @ [d]" "ack_to_build_on (env_lib E) om m1 = Ok a"
    using pipeline_step [OF Cons.prems(1,2,3) ne d(1) Cons.prems(4) fresh] a by auto
  note ss = same_sender_build [OF m1(2)]
  have ctl: "same_control m m1" using pipeline_frame [of m E om action pl] m1(1) by simp
  have "\<exists>m'. inbox_all E om m1 xs = Some m' \<and>
     om_pairs om (pipelineMap m') = om_pairs om (pipelineMap m1) @ keyed (env_lib E) (chain_from E m a xs) \<and>
     outboxQueue m' = outboxQueue m1 @ chain_from E m a xs"
    by (rule Cons.IH [OF _ m1(5) ia Cons.prems(4)])
       (use Cons.prems(1,5-7,9) ss(3,4) m1(3) chain same_control_fields [OF ctl] in \<open>simp_all add: len_pairs\<close>)
  moreover have "daemon_Inbox E om m action pl = Some (m1, Ok ())"
    using Cons.prems(5,6) m1(1) by (simp add: daemon_Inbox_def)
  ultimately show ?case using x m1 chain by auto
qed

end

section \<open>Properties\<close>

text \<open>
  C5. Invariants of the daemon over every sequence of operations: at most three recovery
  attempts are made without an acknowledgement between them, every pending message is filed
  under its own hash and no hash twice, the pipeline limit is one or eight, and while the
  handshake is complete there is an acknowledgement and a version to build on and only Data
  messages are pending.
\<close>

theorem daemon_reach_invariant:
  assumes "ordered_map om" and "daemon_reach om L m"
  shows "errorRecoveryAttempt m \<le> 3 \<and> pipelineLimit m \<in> {1, 8} \<and>
         (\<forall>(k, msg) \<in> set (om_pairs om (pipelineMap m)). k = payload_hash L (msg_Payload msg)) \<and>
         distinct (al_keys (om_pairs om (pipelineMap m))) \<and>
         (isHandshakeComplete m \<longrightarrow> schemaVersion m \<noteq> None \<and> (\<exists>a. lastAck m = Some a \<and> is_ack a) \<and>
            (\<forall>(k, msg) \<in> set (om_pairs om (pipelineMap m)). msg_Type msg = Data))"
  using ordered_map.reach_inv [OF assms]
  by (auto simp: daemon_inv_def maxErrorRecoveryTries_def maxPipelineLimit_def entry_ok_def data_entry_def)

text \<open>
  C4. Sending does not fail: in every reachable state with a complete handshake and room in
  the pipeline, a non-empty action is built, signed, filed under its hash and put into the
  outbox, and the pipeline stays within its limit of at most eight messages.
\<close>

theorem daemon_Inbox_sends:
  assumes "ordered_map om" and "daemon_reach om (env_lib E) m" and "sha3_len (env_lib E)"
    and "isHandshakeComplete m" and "om_len om (pipelineMap m) < pipelineLimit m" and "action \<noteq> []"
  shows "\<exists>m' d. daemon_Inbox E om m action pl = Some (m', Ok ()) \<and> outboxQueue m' = outboxQueue m @ [d] \<and>
     GetAction d = action \<and> om_get om (pipelineMap m') (payload_hash (env_lib E) (msg_Payload d)) = Some d \<and>
     om_len om (pipelineMap m') \<le> pipelineLimit m' \<and> pipelineLimit m' \<le> maxPipelineLimit \<and>
     pipelineLength m' = om_len om (pipelineMap m')"
  by (rule ordered_map.Inbox_succeeds [OF assms(1) ordered_map.reach_inv [OF assms(1,2)] assms(3-6)])

text \<open>
  C3. Recovery resends exactly what the agent is missing: when an authentic SynAck answers a
  pending Syn, the pipeline is replaced by the messages after the one its nonce names,
  rebuilt on the SynAck as one hash chain with their actions and payloads in their order, and
  these are what goes into the outbox; the handshake is complete and recovery is over.
\<close>

theorem recovery_resends_missing:
  assumes "ordered_map om"
    and "msg_Type ack = SynAck" and "msg_Payload ack = PSynAck p"
    and "VerifySignature (env_lib E) ack (agentPubKey m) = Ok ()"
    and "PublicKeyFromString (synack_TargetPublicKey p) = Ok pk"
    and "synack_HPointer p \<in> set (al_keys (om_pairs om (pipelineMap m)))"
    and "semver_parse (env_lib E) (synack_SchemaVersion p) = Ok v"
    and "good_priv (dc_privateKey (bzcert m))" and "sha3_len (env_lib E)" and "\<not> prePipeliningAgent m"
    and "ps = to_resend (env_lib E) v (lastAckedData m) (synack_Nonce p)
                (al_delete (om_pairs om (pipelineMap m)) (synack_HPointer p))"
    and "\<forall>(k, msg) \<in> set ps. GetAction msg \<noteq> []"
    and "chain = chain_from E (m\<lparr>schemaVersion := Some v\<rparr>) ack (actions ps)"
    and "distinct (al_keys (keyed (env_lib E) chain))"
  shows "map (\<lambda>d. (GetAction d, GetActionPayload d)) chain = actions ps \<and>
     (\<exists>m'. daemon_Validate E om m ack = (m', Ok ()) \<and>
     om_pairs om (pipelineMap m') = keyed (env_lib E) chain \<and> outboxQueue m' = outboxQueue m @ chain \<and>
     pipelineLength m' = length chain \<and> isHandshakeComplete m' \<and> \<not> recovering m' \<and>
     lastAck m' = Some ack \<and> schemaVersion m' = Some v)"
proof -
  have "can_send (m\<lparr>schemaVersion := Some v\<rparr>)" using assms(8) by (simp add: can_send_def)
  moreover have "is_ack ack" using assms(3) by (simp add: is_ack_def)
  ultimately have "map (\<lambda>d. (GetAction d, GetActionPayload d)) chain = actions ps"
    using chain_from_contents [of "m\<lparr>schemaVersion := Some v\<rparr>" ack E "actions ps"] assms(10,13) by simp
  then show ?thesis using ordered_map.Validate_SynAck [OF assms(1-9,11-14)] by auto
qed

text \<open>
  Data that was sent but never acknowledged is lost when the first recovery happens
  before any acknowledgement: a current agent that has received no Data message answers with
  a random nonce, and the daemon then forgets everything pending and sends nothing again.
\<close>

theorem first_messages_dropped:
  assumes "ordered_map om"
    and "msg_Type ack = SynAck" and "msg_Payload ack = PSynAck p"
    and "VerifySignature (env_lib E) ack (agentPubKey m) = Ok ()"
    and "PublicKeyFromString (synack_TargetPublicKey p) = Ok pk"
    and "om_pairs om (pipelineMap m) = pending @ [(synack_HPointer p, syn)]"
    and "synack_HPointer p \<notin> set (al_keys pending)" and "synack_Nonce p \<notin> set (al_keys pending)"
    and "semver_parse (env_lib E) (synack_SchemaVersion p) = Ok v"
    and "semver_check (env_lib E) ''> 2.0'' v" and "lastAckedData m = None"
    and "good_priv (dc_privateKey (bzcert m))" and "sha3_len (env_lib E)"
  shows "\<exists>m'. daemon_Validate E om m ack = (m', Ok ()) \<and> om_pairs om (pipelineMap m') = [] \<and>
     outboxQueue m' = outboxQueue m \<and> isHandshakeComplete m'"
proof -
  have "al_after pending (synack_Nonce p) = None" using assms(8) by (simp add: al_after_None)
  then have "to_resend (env_lib E) v (lastAckedData m) (synack_Nonce p)
      (al_delete (om_pairs om (pipelineMap m)) (synack_HPointer p)) = []"
    using assms(6,7,10,11) by (simp add: to_resend_def al_delete_append_fresh)
  then show ?thesis
    using ordered_map.Validate_SynAck [OF assms(1-5) _ assms(9,12,13) refl _ refl] assms(6)
    by (auto simp: actions_def)
qed

text \<open>
  A message that does not answer a pending one is never accepted and changes nothing but
  the key kept for legacy agents.
\<close>

lemma unsolicited_ack_rejected:
  assumes "GetHpointer msg = Ok h" and "om_get om (pipelineMap m) h = None"
  shows "\<not> is_ok (snd (daemon_Validate E om m msg)) \<and>
         (\<exists>k. fst (daemon_Validate E om m msg) = m\<lparr>ackPublicKey := k\<rparr>)"
proof (cases "take_ack_key m msg")
  case (Ok m1)
  then have "m1 = m\<lparr>ackPublicKey := ackPublicKey m1\<rparr>"
    by (auto simp: take_ack_key_def split: payload.splits res.splits if_splits)
  then obtain k where "m1 = m\<lparr>ackPublicKey := k\<rparr>" by blast
  then show ?thesis
    using Ok assms by (cases "verify_agent_signature (env_lib E) m1 msg") (auto simp: daemon_Validate_def)
next
  case (Err e)
  moreover have "\<exists>k. m = m\<lparr>ackPublicKey := k\<rparr>" by (rule exI [of _ "ackPublicKey m"]) simp
  ultimately show ?thesis by (simp add: daemon_Validate_def)
next
  case Panic
  moreover have "\<exists>k. m = m\<lparr>ackPublicKey := k\<rparr>" by (rule exI [of _ "ackPublicKey m"]) simp
  ultimately show ?thesis by (simp add: daemon_Validate_def)
qed

text \<open>
  The fallback for legacy agents trusts any key: before the first SynAck is accepted, a
  SynAck signed with a key it names itself is taken as the agent's, although the signature
  does not verify under the agent's public key.
\<close>

theorem self_signed_SynAck_accepted:
  assumes "ackPublicKey m = None" and "msg_Type ack = SynAck" and "msg_Payload ack = PSynAck p"
    and "PublicKeyFromString (synack_TargetPublicKey p) = Ok attacker"
    and "VerifySignature (env_lib E) ack (agentPubKey m) = Err e"
    and "VerifySignature (env_lib E) ack (Some attacker) = Ok ()"
    and "om_get om (pipelineMap m) (synack_HPointer p) = Some syn"
  shows "lastAck (fst (daemon_Validate E om m ack)) = Some ack"
proof -
  let ?m1 = "m\<lparr>ackPublicKey := Some attacker\<rparr>"
  have "take_ack_key m ack = Ok ?m1" using assms(1,3,4) by (simp add: take_ack_key_def)
  moreover have "verify_agent_signature (env_lib E) ?m1 ack = Ok ()"
    using assms(5,6) by (simp add: verify_agent_signature_def)
  ultimately show ?thesis
    using Validate_after_key [of m ack ?m1 E "()" "synack_HPointer p" om syn p] assms(2,3,7)
    by (simp add: GetHpointer_def accept_SynAck_lastAck)
qed

text \<open>
  An acknowledgement with a wrong but well-formed signature crashes the daemon when no
  SynAck was seen yet: the fallback key is a nil pointer.
\<close>

theorem early_DataAck_panics:
  assumes "ackPublicKey m = None" and "msg_Payload msg = PDataAck p"
    and "VerifySignature (env_lib E) msg (agentPubKey m) = Err e"
    and "DecodeString (msg_Signature msg) = Some sg"
  shows "snd (daemon_Validate E om m msg) = Panic"
  using assms
  by (simp add: daemon_Validate_def take_ack_key_def verify_agent_signature_def)
     (simp add: VerifySignature_def HashPayload_def PublicKey_Verify_def)

text \<open>
  Payloads for agents before 2.0 may be wrapped again on a resend: wrapping a wrapped
  payload gives the same payload.
\<close>

lemma legacy_payload_stable:
  assumes "\<And>b. env_json_bytes E (json_quote (EncodeToString b)) = Ok b"
  shows "legacy_payload E (legacy_payload E pl) = legacy_payload E pl"
  using assms unfolding legacy_payload_def Let_def by simp

section \<open>Witnesses\<close>

text \<open>
  A daemon and an agent with the same key, under the constant digest: every hash is
  \<^verbatim>\<open>wit_hash\<close>, every signature under a key is the same text.
\<close>

definition wit_hash :: string where
  "wit_hash = EncodeToString (replicate 32 CHR ''h'')"

definition wit_env :: daemon_env where
  "wit_env = \<lparr> env_lib = wit_nonce_lib, env_jwt = (\<lambda>_. Ok (None, Some 100)), env_fs = wit_fs, env_now = 0,
     env_nonce = ''r'', env_json_bytes = (\<lambda>_. Err (errorf [])) \<rparr>"

definition wit_session_cert :: DaemonBZCert where
  "wit_session_cert = \<lparr> dc_BZCert = wit_verified, dc_privateKey = Some (Some (wit_key @ wit_key)),
     dc_config = json_into_config wit_file wit_zli, currentIdTokenExpiration = 100 \<rparr>"

definition wit_daemon :: "(string \<times> MrtapMessage) list \<Rightarrow> (string \<times> MrtapMessage) list daemon_Mrtap" where
  "wit_daemon pending = (daemon_New al_ops (Some (Some wit_key)) wit_session_cert)\<lparr>pipelineMap := pending\<rparr>"

definition wit_ack :: "string \<Rightarrow> string \<Rightarrow> string \<Rightarrow> MrtapMessage" where
  "wit_ack k hp nonce =
     \<lparr> msg_Type = SynAck,
       msg_Payload = PSynAck (wit_synack\<lparr>synack_HPointer := hp, synack_Nonce := nonce,
                       synack_TargetPublicKey := EncodeToString k\<rparr>),
       msg_Signature = wit_sig k \<rparr>"

lemma wit_lib_laws [simp]:
  "sha3_len wit_nonce_lib" "sign_nonempty wit_nonce_lib"
  by (auto simp: sha3_len_def sign_nonempty_def wit_nonce_lib_def)

lemma wit_daemon_simps [simp]:
  "pipelineMap (wit_daemon ps) = ps" "outboxQueue (wit_daemon ps) = []" "lastAckedData (wit_daemon ps) = None"
  "bzcert (wit_daemon ps) = wit_session_cert" "agentPubKey (wit_daemon ps) = Some (Some wit_key)"
  "ackPublicKey (wit_daemon ps) = None" "\<not> prePipeliningAgent (wit_daemon ps)" "env_lib wit_env = wit_nonce_lib"
  "dc_privateKey wit_session_cert = Some (Some (wit_key @ wit_key))"
  by (simp_all add: wit_daemon_def daemon_New_def wit_env_def wit_session_cert_def)

lemma wit_good_priv [simp]: "good_priv (Some (Some (wit_key @ wit_key)))"
  by (simp add: good_priv_def)

lemma wit_ack_simps [simp]:
  "msg_Type (wit_ack k hp n) = SynAck"
  "msg_Payload (wit_ack k hp n) = PSynAck (wit_synack\<lparr>synack_HPointer := hp, synack_Nonce := n,
     synack_TargetPublicKey := EncodeToString k\<rparr>)"
  "synack_SchemaVersion wit_synack = ''2.2''"
  by (simp_all add: wit_ack_def wit_synack_def)

lemma wit_ack_verifies: "length k = 32 \<Longrightarrow> VerifySignature wit_nonce_lib (wit_ack k hp n) (Some (Some k)) = Ok ()"
  by (rule wit_VerifySignature) (simp_all add: wit_ack_def)

lemma wit_other_key_length [simp]: "length wit_other_key = 32"
  by (simp add: wit_other_key_def)

lemma wit_wrong_key: "\<exists>e. msg_Signature msg = wit_sig wit_other_key \<longrightarrow>
    VerifySignature wit_nonce_lib msg (Some (Some wit_key)) = Err e"
  by (simp add: VerifySignature_def HashPayload_def PublicKey_Verify_def wit_sig_def wit_key_def wit_other_key_def)

lemma wit_version_checks [simp]: "toy_check ''> 2.0'' (Version 2 2 0 [] [])"
  by (simp add: toy_check_def toy_lt_def)

lemma wit_hash_not: "DecodeString s = None \<Longrightarrow> wit_hash \<noteq> s"
  by (metis Decode_Encode option.distinct(1) wit_hash_def)

lemma wit_hash_fresh [simp]: "wit_hash \<noteq> ''a''" "wit_hash \<noteq> ''b''" "wit_hash \<noteq> ''k''"
  by (rule wit_hash_not, simp add: DecodeString_def)+

theorem first_messages_dropped_witness:
  "\<exists>m'. daemon_Validate wit_env al_ops
       (wit_daemon [(''k'', wit_data_msg wit_key []), (wit_hash, wit_syn wit_key [] wit_cert)])
       (wit_ack wit_key wit_hash ''random'') = (m', Ok ()) \<and>
     om_pairs al_ops (pipelineMap m') = [] \<and> outboxQueue m' = [] \<and> isHandshakeComplete m'"
  using first_messages_dropped [OF al.ordered_map_axioms, of "wit_ack wit_key wit_hash ''random''" _ wit_env
        "wit_daemon [(''k'', wit_data_msg wit_key []), (wit_hash, wit_syn wit_key [] wit_cert)]" "Some wit_key"
        "[(''k'', wit_data_msg wit_key [])]" _ "Version 2 2 0 [] []"]
  by (simp add: wit_ack_verifies)

theorem recovery_resends_missing_witness:
  "\<exists>m' d. daemon_Validate wit_env al_ops
       (wit_daemon [(''a'', wit_data_msg wit_key []), (''b'', wit_data_msg wit_key []),
                    (wit_hash, wit_syn wit_key [] wit_cert)])
       (wit_ack wit_key wit_hash ''a'') = (m', Ok ()) \<and>
     outboxQueue m' = [d] \<and> GetAction d = ''shell/input'' \<and> isHandshakeComplete m'"
proof -
  let ?m = "wit_daemon [(''a'', wit_data_msg wit_key []), (''b'', wit_data_msg wit_key []),
                    (wit_hash, wit_syn wit_key [] wit_cert)]"
  let ?ack = "wit_ack wit_key wit_hash ''a''" and ?ps = "[(''b'', wit_data_msg wit_key [])]"
  let ?mv = "?m\<lparr>schemaVersion := Some (Version 2 2 0 [] [])\<rparr>"
  define chain where "chain = chain_from wit_env ?mv ?ack (actions ?ps)"
  have "length chain = 1"
    unfolding chain_def by (subst chain_from_length) (simp_all add: can_send_def is_ack_def actions_def)
  then obtain d where d: "chain = [d]" by (auto simp: length_Suc_conv)
  have ps: "?ps = to_resend (env_lib wit_env) (Version 2 2 0 [] []) (lastAckedData ?m) ''a''
      (al_delete (om_pairs al_ops (pipelineMap ?m)) wit_hash)"
    by (simp add: to_resend_def)
  have "GetAction (wit_data_msg wit_key []) = ''shell/input''"
    by (simp add: GetAction_def wit_data_msg_def wit_data_def)
  then have ps': "actions ?ps = [(''shell/input'', GetActionPayload (wit_data_msg wit_key []))]"
    "\<forall>(k, msg) \<in> set ?ps. GetAction msg \<noteq> []"
    by (simp_all add: actions_def)
  have "map (\<lambda>d. (GetAction d, GetActionPayload d)) chain = actions ?ps \<and>
     (\<exists>m'. daemon_Validate wit_env al_ops ?m ?ack = (m', Ok ()) \<and>
     om_pairs al_ops (pipelineMap m') = keyed (env_lib wit_env) chain \<and> outboxQueue m' = outboxQueue ?m @ chain \<and>
     pipelineLength m' = length chain \<and> isHandshakeComplete m' \<and> \<not> recovering m' \<and>
     lastAck m' = Some ?ack \<and> schemaVersion m' = Some (Version 2 2 0 [] []))"
    by (rule recovery_resends_missing [OF al.ordered_map_axioms, where pk = "Some wit_key" and ps = ?ps
          and p = "wit_synack\<lparr>synack_HPointer := wit_hash, synack_Nonce := ''a'',
                     synack_TargetPublicKey := EncodeToString wit_key\<rparr>"])
       (use ps ps'(2) d in \<open>simp_all add: wit_ack_verifies chain_def\<close>)
  then show ?thesis using d ps'(1) by auto
qed

theorem daemon_reach_invariant_witness:
  "errorRecoveryAttempt (daemon_New al_ops (Some (Some wit_key)) wit_session_cert) \<le> 3"
proof -
  have "daemon_reach al_ops wit_nonce_lib (daemon_New al_ops (Some (Some wit_key)) wit_session_cert)"
    by (rule daemon_reach.new) simp
  from daemon_reach_invariant [OF al.ordered_map_axioms this] show ?thesis by blast
qed

definition wit_handshake :: "(string \<times> MrtapMessage) list daemon_Mrtap" where
  "wit_handshake = fst (daemon_Validate wit_env al_ops
     (fst (BuildSyn wit_env al_ops (wit_daemon []) ''shell/open'' (Ok []) True)) (wit_ack wit_key wit_hash ''n''))"

lemma wit_BuildSyn:
  "\<exists>syn. fst (BuildSyn wit_env al_ops (wit_daemon []) ''shell/open'' (Ok []) True) =
     (syn_state (wit_daemon []) wit_session_cert ''shell/open'')\<lparr>pipelineMap := [(wit_hash, syn)],
        pipelineLength := 1, outboxQueue := [syn]\<rparr>"
proof -
  have r: "DaemonBZCert_Refresh (env_lib wit_env) (env_jwt wit_env) (env_fs wit_env) (env_now wit_env)
      (bzcert (wit_daemon [])) = (wit_session_cert, Ok ())"
    by (simp add: DaemonBZCert_Refresh_def wit_env_def wit_session_cert_def)
  have h: "payload_hash wit_nonce_lib p = wit_hash" for p
    by (simp add: payload_hash_def HashPayload_def wit_hash_def)
  obtain syn where "BuildSyn wit_env al_ops (wit_daemon []) ''shell/open'' (Ok []) True =
       (case addToPipelineMap (env_lib wit_env) al_ops (syn_state (wit_daemon []) wit_session_cert ''shell/open'') syn of
          (m4, Ok _) \<Rightarrow> (if True then m4\<lparr>outboxQueue := outboxQueue m4 @ [syn]\<rparr> else m4, Ok syn)
        | (m4, Err e) \<Rightarrow> (m4, Err e) | (m4, Panic) \<Rightarrow> (m4, Panic))"
    unfolding BuildSyn_def by (rule buildSyn_signed [OF r _ refl]) simp_all
  then show ?thesis
    by (intro exI [of _ syn]) (simp add: addToPipelineMap_def h Let_def syn_state_def wit_hash_def)
qed

lemma wit_handshake_props:
  "daemon_reach al_ops wit_nonce_lib wit_handshake" "isHandshakeComplete wit_handshake"
  "pipelineMap wit_handshake = []"
proof -
  let ?m1 = "fst (BuildSyn wit_env al_ops (wit_daemon []) ''shell/open'' (Ok []) True)"
  obtain syn where m1: "?m1 = (syn_state (wit_daemon []) wit_session_cert ''shell/open'')
      \<lparr>pipelineMap := [(wit_hash, syn)], pipelineLength := 1, outboxQueue := [syn]\<rparr>"
    using wit_BuildSyn by blast
  have f: "lastAckedData ?m1 = None" "bzcert ?m1 = wit_session_cert" "agentPubKey ?m1 = Some (Some wit_key)"
    "pipelineMap ?m1 = [(wit_hash, syn)]"
    unfolding m1 by (simp_all add: syn_state_def)
  have r0: "daemon_reach al_ops wit_nonce_lib (wit_daemon [])"
    using daemon_reach.new [of wit_session_cert al_ops wit_nonce_lib "Some (Some wit_key)"]
    by (simp add: wit_daemon_def daemon_New_def)
  have r1: "daemon_reach al_ops wit_nonce_lib ?m1"
    using daemon_reach.syn [OF r0, of wit_env "''shell/open''" "Ok []" True ?m1] by (metis wit_daemon_simps(8) prod.collapse)
  have "type_matches (wit_ack wit_key wit_hash ''n'')" by (simp add: type_matches_def)
  then show "daemon_reach al_ops wit_nonce_lib wit_handshake"
    unfolding wit_handshake_def
    using daemon_reach.validate [OF r1, of wit_env "wit_ack wit_key wit_hash ''n''"]
    by (metis wit_daemon_simps(8) prod.collapse)
  obtain m' where "daemon_Validate wit_env al_ops ?m1 (wit_ack wit_key wit_hash ''n'') = (m', Ok ())"
      "pipelineMap m' = []" "isHandshakeComplete m'"
    using al.Validate_SynAck [of "wit_ack wit_key wit_hash ''n''" _ wit_env ?m1 "Some wit_key" "Version 2 2 0 [] []"
        "[]" "[]"] f
    by (auto simp: wit_ack_verifies to_resend_def actions_def)
  then show "isHandshakeComplete wit_handshake" "pipelineMap wit_handshake = []"
    unfolding wit_handshake_def by auto
qed

theorem daemon_Inbox_sends_witness:
  "\<exists>m' d. daemon_Inbox wit_env al_ops wit_handshake ''shell/input'' (Some ''ls'') = Some (m', Ok ()) \<and>
     outboxQueue m' = outboxQueue wit_handshake @ [d] \<and> GetAction d = ''shell/input''"
proof -
  have r: "daemon_reach al_ops (env_lib wit_env) wit_handshake" using wit_handshake_props(1) by simp
  have "pipelineLimit wit_handshake \<noteq> 0"
    using al.reach_inv [OF wit_handshake_props(1)] by (auto simp: daemon_inv_def maxPipelineLimit_def)
  then show ?thesis
    using daemon_Inbox_sends [OF al.ordered_map_axioms r _ wit_handshake_props(2), of "''shell/input''" "Some ''ls''"]
      wit_handshake_props(3)
    by auto
qed

theorem self_signed_SynAck_accepted_witness:
  "lastAck (fst (daemon_Validate wit_env al_ops (wit_daemon [(wit_hash, wit_syn wit_key [] wit_cert)])
     (wit_ack wit_other_key wit_hash ''n''))) = Some (wit_ack wit_other_key wit_hash ''n'')"
proof -
  let ?p = "wit_synack\<lparr>synack_HPointer := wit_hash, synack_Nonce := ''n'',
              synack_TargetPublicKey := EncodeToString wit_other_key\<rparr>"
  obtain e where e: "VerifySignature wit_nonce_lib (wit_ack wit_other_key wit_hash ''n'') (Some (Some wit_key)) = Err e"
    using wit_wrong_key [of "wit_ack wit_other_key wit_hash ''n''"] by (auto simp: wit_ack_def)
  show ?thesis
    by (rule self_signed_SynAck_accepted [where p = ?p and attacker = "Some wit_other_key" and e = e])
       (use e in \<open>simp_all add: wit_ack_verifies PublicKeyFromString_def\<close>)
qed

theorem early_DataAck_panics_witness:
  "snd (daemon_Validate wit_env al_ops (wit_daemon [])
     \<lparr> msg_Type = DataAck, msg_Payload = PDataAck wit_chain_ack, msg_Signature = wit_sig wit_other_key \<rparr>) = Panic"
proof -
  let ?msg = "\<lparr> msg_Type = DataAck, msg_Payload = PDataAck wit_chain_ack, msg_Signature = wit_sig wit_other_key \<rparr>"
  obtain e where "VerifySignature wit_nonce_lib ?msg (Some (Some wit_key)) = Err e"
    using wit_wrong_key [of ?msg] by auto
  then show ?thesis
    using early_DataAck_panics [of "wit_daemon []" ?msg wit_chain_ack wit_env] by (simp add: wit_sig_def)
qed

definition json_bytes_instance :: "string \<Rightarrow> string res" where
  "json_bytes_instance s =
     (case DecodeString (trim_suffix (trim_prefix s dquote) dquote) of
        Some b \<Rightarrow> if s = json_quote (EncodeToString b) then Ok b else Err (errorf [])
      | None \<Rightarrow> Err (errorf []))"

end
