(* ===== verification/Daemon_DataChannel.thy ===== *)
theory Daemon_DataChannel
  imports Daemon_Pipeline Agent_DataChannel
begin

text \<open>
  \<^verbatim>\<open>bctl/daemon/datachannel\<close> and \<^verbatim>\<open>bctl/daemon/exit\<close>: the daemon's side of a data channel and the
  exit codes its errors become. The plugin is known through its interface; messages given to
  the connection are collected in a list; killing the channel's tomb records the reason.
\<close>

section \<open>Known errors\<close>

definition UserNotFoundErrMsg :: string where "UserNotFoundErrMsg = ''unixuser error: user does not exist''"
definition ServiceAccountNotConfiguredMsg :: string where
  "ServiceAccountNotConfiguredMsg = ''service account config error''"
definition ClientCertCosignErrorString :: string where
  "ClientCertCosignErrorString = ''bastion failed to cosign client certificate''"
definition TLSDisabledErrorString :: string where
  "TLSDisabledErrorString = ''database does not accept ssl connections''"
definition ConnectionRefusedString :: string where "ConnectionRefusedString = ''connection refused''"
definition UnrecognizedRootCertErrorString :: string where
  "UnrecognizedRootCertErrorString = ''certificate signed by unknown authority''"
definition ServerCertificateExpiredString :: string where
  "ServerCertificateExpiredString = ''certificate has expired''"
definition IncorrectServerNameString :: string where
  "IncorrectServerNameString = ''certificate is not valid for any names''"
definition ConnectionFailedErrorString :: string where
  "ConnectionFailedErrorString = ''failed to establish connection''"
definition PwdbMissingKeyErrorString :: string where "PwdbMissingKeyErrorString = ''missing SplitCert key''"

text \<open>
  \<^verbatim>\<open>fmt.Errorf\<close> called with a text from the wire as its format and no arguments: a percent sign
  is read as a verb (of one letter).
\<close>

fun fmt_noargs :: "string \<Rightarrow> string" where
  "fmt_noargs [] = []"
| "fmt_noargs (c # s) =
     (if c \<noteq> CHR ''%'' then c # fmt_noargs s
      else (case s of
              [] \<Rightarrow> ''%!(NOVERB)''
            | v # s' \<Rightarrow> if v = CHR ''%'' then CHR ''%'' # fmt_noargs s'
                        else ''%!'' @ v # ''(MISSING)'' @ fmt_noargs s'))"

definition checkForKnownErrors :: "string \<Rightarrow> gerror option" where
  "checkForKnownErrors errString =
     (if contains errString UserNotFoundErrMsg then Some (GErr UserNotFoundErrMsg [UserNotFoundError])
      else if contains errString ServiceAccountNotConfiguredMsg
      then Some (GErr (ServiceAccountNotConfiguredMsg @ '': '' @
                  fmt_noargs (last (split errString ServiceAccountNotConfiguredMsg))) [ServiceAccountError])
      else if contains errString ClientCertCosignErrorString
      then Some (GErr ClientCertCosignErrorString [ClientCertCosignError])
      else if contains errString TLSDisabledErrorString then Some (GErr TLSDisabledErrorString [TLSDisabledError])
      else if contains errString ConnectionRefusedString then Some (GErr ConnectionRefusedString [ConnectionRefusedError])
      else if contains errString UnrecognizedRootCertErrorString
      then Some (GErr UnrecognizedRootCertErrorString [PwdbUnknownAuthorityError])
      else if contains errString ServerCertificateExpiredString
      then Some (GErr (fmt_noargs errString) [ServerCertificateExpired])
      else if contains errString IncorrectServerNameString
      then Some (GErr (fmt_noargs errString) [IncorrectServerName])
      else if contains errString ConnectionFailedErrorString
      then Some (GErr ConnectionFailedErrorString [ConnectionFailedError])
      else if contains errString PwdbMissingKeyErrorString then Some (GErr PwdbMissingKeyErrorString [PwdbMissingKeyError])
      else None)"

definition HandleDaemonExit :: "gerror option \<Rightarrow> nat" where
  "HandleDaemonExit err =
     (case err of
        None \<Rightarrow> 0
      | Some e \<Rightarrow>
          if errors_As ShutdownError e then 0
          else if errors_As InitialIdTokenError e \<or> errors_As CurrentIdTokenError e then 18
          else if errors_As CertConfigError e then 5
          else if errors_As ServiceAccountError e then 6
          else if errors_As UserNotFoundError e then 4
          else if errors_As PolicyEditedConnectionClosedError e then 7
          else if errors_As PolicyDeletedConnectionClosedError e then 8
          else if errors_As IdleTimeoutConnectionClosedError e then 9
          else if errors_As ShellQuitError e \<or> errors_As SshStdinClosedError e then 0
          else if errors_As ShellCancelledError e then 3
          else if errors_As ConnectionRefusedError e then 10
          else if errors_As ConnectionFailedError e then 11
          else if errors_As TLSDisabledError e then 12
          else if errors_As ClientCertCosignError e then 13
          else if errors_As PwdbMissingKeyError e then 14
          else if errors_As PwdbUnknownAuthorityError e then 15
          else if errors_As ServerCertificateExpired e then 16
          else if errors_As IncorrectServerName e then 17
          else 1)"

section \<open>State\<close>

record 'q daemon_plugin_ops =
  dp_ReceiveMrtap :: "'q \<Rightarrow> string \<Rightarrow> string option \<Rightarrow> 'q \<times> unit res"
  dp_ReceiveStream :: "'q \<Rightarrow> StreamMessage \<Rightarrow> 'q"
  dp_Kill :: "'q \<Rightarrow> gerror option \<Rightarrow> 'q"

record ('m, 'q) daemon_DataChannel =
  dd_id :: string
  dd_mrtap :: "'m daemon_Mrtap"
  dd_plugin :: 'q
  dd_sent :: "AgentMessage list"
  dd_killed :: "gerror option"

text \<open>How \<^verbatim>\<open>encoding/json\<close> reads payloads of another kind.\<close>

record wire_readers =
  rd_mrtap :: "wire_payload \<Rightarrow> MrtapMessage res"
  rd_error :: "wire_payload \<Rightarrow> ErrorMessage res"
  rd_stream :: "wire_payload \<Rightarrow> StreamMessage res"

definition daemon_send ::
  "('m, 'q) daemon_DataChannel \<Rightarrow> MessageType \<Rightarrow> wire_payload \<Rightarrow> ('m, 'q) daemon_DataChannel" where
  "daemon_send d messageType messagePayload =
     d\<lparr>dd_sent := dd_sent d @ [\<lparr> am_ChannelId = dd_id d, am_MessageType = messageType,
        am_SchemaVersion = am_CurrentVersion, am_MessagePayload = messagePayload \<rparr>]\<rparr>"

text \<open>
  One turn of \<^verbatim>\<open>sendMrtap\<close>: a message from the outbox is sent unless the daemon is recovering;
  a Syn is always sent.
\<close>

definition sendMrtap_turn :: "('m, 'q) daemon_DataChannel \<Rightarrow> ('m, 'q) daemon_DataChannel" where
  "sendMrtap_turn d =
     (case outboxQueue (dd_mrtap d) of
        [] \<Rightarrow> d
      | msg # rest \<Rightarrow>
          (let d1 = d\<lparr>dd_mrtap := (dd_mrtap d)\<lparr>outboxQueue := rest\<rparr>\<rparr> in
           if msg_Type msg = Syn \<or> \<not> Recovering (dd_mrtap d) then daemon_send d1 MTMrtapLegacy (WMrtap msg) else d1))"

text \<open>One turn of \<^verbatim>\<open>zapPluginOutput\<close>; the error of \<^verbatim>\<open>Inbox\<close> is only logged.\<close>

definition zapPluginOutput_turn ::
  "daemon_env \<Rightarrow> 'm omap_ops \<Rightarrow> ('m, 'q) daemon_DataChannel \<Rightarrow> string \<Rightarrow> string option \<Rightarrow>
   ('m, 'q) daemon_DataChannel option" where
  "zapPluginOutput_turn E om d action pl =
     map_option (\<lambda>(m, r). d\<lparr>dd_mrtap := m\<rparr>) (daemon_Inbox E om (dd_mrtap d) action pl)"

section \<open>Opening\<close>

definition openDataChannel ::
  "daemon_env \<Rightarrow> 'm omap_ops \<Rightarrow> ('m, 'q) daemon_DataChannel \<Rightarrow> string \<Rightarrow> string res \<Rightarrow>
   ('m, 'q) daemon_DataChannel \<times> unit res" where
  "openDataChannel E om d action synPayload =
     (case BuildSyn E om (dd_mrtap d) action synPayload False of
        (m, Err e) \<Rightarrow> (d\<lparr>dd_mrtap := m\<rparr>, Err (errorf_w ''error building syn: '' e))
      | (m, Panic) \<Rightarrow> (d\<lparr>dd_mrtap := m\<rparr>, Panic)
      | (m, Ok syn) \<Rightarrow>
          (d\<lparr>dd_mrtap := m, dd_sent := dd_sent d @ [\<lparr> am_ChannelId = dd_id d, am_MessageType = MTOpenDataChannel,
             am_SchemaVersion = [], am_MessagePayload =
               WOpenDataChannel \<lparr> odc_Syn = syn, odc_Action = action \<rparr> \<rparr>]\<rparr>, Ok ()))"

definition dc_start ::
  "daemon_env \<Rightarrow> 'm omap_ops \<Rightarrow> ('m, 'q) daemon_DataChannel \<Rightarrow> bool \<Rightarrow> string \<Rightarrow> string res \<Rightarrow>
   ('m, 'q) daemon_DataChannel \<times> unit res" where
  "dc_start E om d attach action synPayload =
     (if \<not> attach then openDataChannel E om d action synPayload
      else (case BuildSyn E om (dd_mrtap d) action synPayload True of
              (m, Err e) \<Rightarrow> (d\<lparr>dd_mrtap := m\<rparr>, Err (errorf ''failed to build and send syn for attachment flow''))
            | (m, Panic) \<Rightarrow> (d\<lparr>dd_mrtap := m\<rparr>, Panic)
            | (m, Ok _) \<Rightarrow> (d\<lparr>dd_mrtap := m\<rparr>, Ok ())))"

section \<open>Input\<close>

definition handleMrtap ::
  "daemon_env \<Rightarrow> 'm omap_ops \<Rightarrow> 'q daemon_plugin_ops \<Rightarrow> wire_readers \<Rightarrow> ('m, 'q) daemon_DataChannel \<Rightarrow>
   AgentMessage \<Rightarrow> ('m, 'q) daemon_DataChannel \<times> unit res" where
  "handleMrtap E om P R d agentMessage =
     (case read_mrtap (rd_mrtap R) (am_MessagePayload agentMessage) of
        Err e \<Rightarrow> (d, Err (errorf ''malformed MrTAP message'')) | Panic \<Rightarrow> (d, Panic)
      | Ok mrtapMessage \<Rightarrow>
         (case daemon_Validate E om (dd_mrtap d) mrtapMessage of
            (m, Err e) \<Rightarrow> (d\<lparr>dd_mrtap := m\<rparr>, Err (errorf_s ''invalid MrTAP message: '' e))
          | (m, Panic) \<Rightarrow> (d\<lparr>dd_mrtap := m\<rparr>, Panic)
          | (m, Ok _) \<Rightarrow>
             (let d1 = d\<lparr>dd_mrtap := m\<rparr> in
              case msg_Payload mrtapMessage of
                PSynAck _ \<Rightarrow> (d1, Ok ())
              | PDataAck _ \<Rightarrow>
                  (case dp_ReceiveMrtap P (dd_plugin d1) (GetAction mrtapMessage) (GetActionPayload mrtapMessage) of
                     (q, r) \<Rightarrow> (d1\<lparr>dd_plugin := q\<rparr>, r))
              | _ \<Rightarrow> (d1, Err (errorf ''unhandled MrTAP type'')))))"

definition handleStream ::
  "'q daemon_plugin_ops \<Rightarrow> wire_readers \<Rightarrow> ('m, 'q) daemon_DataChannel \<Rightarrow> AgentMessage \<Rightarrow>
   ('m, 'q) daemon_DataChannel \<times> unit res" where
  "handleStream P R d agentMessage =
     (case read_stream (rd_stream R) (am_MessagePayload agentMessage) of
        Err e \<Rightarrow> (d, Err (errorf ''malformed Stream message'')) | Panic \<Rightarrow> (d, Panic)
      | Ok sMessage \<Rightarrow> (d\<lparr>dd_plugin := dp_ReceiveStream P (dd_plugin d) sMessage\<rparr>, Ok ()))"

definition handleError ::
  "daemon_env \<Rightarrow> 'm omap_ops \<Rightarrow> wire_readers \<Rightarrow> ('m, 'q) daemon_DataChannel \<Rightarrow> AgentMessage \<Rightarrow>
   ('m, 'q) daemon_DataChannel \<times> unit res" where
  "handleError E om R d agentMessage =
     (case read_error (rd_error R) (am_MessagePayload agentMessage) of
        Err e \<Rightarrow> (d, Err (errorf_s ''could not unmarshal error message: '' e)) | Panic \<Rightarrow> (d, Panic)
      | Ok errMessage \<Rightarrow>
          if err_Type errMessage = MrtapValidationError
          then (case daemon_Recover E om (dd_mrtap d) errMessage of (m, r) \<Rightarrow> (d\<lparr>dd_mrtap := m\<rparr>, r))
          else (case checkForKnownErrors (err_Message errMessage) of
                  Some e \<Rightarrow> (d, Err e)
                | None \<Rightarrow> (d, Err (errorf (''received fatal '' @ ErrorType_string (err_Type errMessage) @
                              '' error from agent: '' @ err_Message errMessage)))))"

definition processInputMessage ::
  "daemon_env \<Rightarrow> 'm omap_ops \<Rightarrow> 'q daemon_plugin_ops \<Rightarrow> wire_readers \<Rightarrow> ('m, 'q) daemon_DataChannel \<Rightarrow>
   AgentMessage \<Rightarrow> ('m, 'q) daemon_DataChannel \<times> unit res" where
  "processInputMessage E om P R d agentMessage =
     (case am_MessageType agentMessage of
        MTError \<Rightarrow>
          (case handleError E om R d agentMessage of
             (d1, Err e) \<Rightarrow> (d1\<lparr>dd_killed := (case dd_killed d1 of None \<Rightarrow> Some e | Some e0 \<Rightarrow> Some e0)\<rparr>, Ok ())
           | (d1, r) \<Rightarrow> (d1, r))
      | MTMrtap \<Rightarrow> (case handleMrtap E om P R d agentMessage of (d1, Err e) \<Rightarrow> (d1, Ok ()) | (d1, r) \<Rightarrow> (d1, r))
      | MTStream \<Rightarrow> handleStream P R d agentMessage
      | t \<Rightarrow> (d, Err (errorf (''unhandled message type: '' @ MessageType_string t))))"

section \<open>The handshake loop\<close>

text \<open>
  What the select statement of \<^verbatim>\<open>handshakeOrTimeout\<close> may receive. The loop over a finite list of
  events returns \<^term>\<open>None\<close> when it is still waiting at the end of the list.
\<close>

datatype handshake_event = HDying | HMessage AgentMessage | HTimeout

definition maxRetry :: nat where
  "maxRetry = 3"

definition handshake_failed :: "wire_readers \<Rightarrow> AgentMessage \<Rightarrow> gerror" where
  "handshake_failed R agentMessage =
     (let rerr = ''retried '' @ show_nat maxRetry @ '' times to recover from error on initial syn without success'' in
      case read_error (rd_error R) (am_MessagePayload agentMessage) of
        Ok errMessage \<Rightarrow>
          (case checkForKnownErrors (err_Message errMessage) of
             Some e \<Rightarrow> e
           | None \<Rightarrow> errorf (fmt_noargs (rerr @ ''; Latest error: '' @ err_Message errMessage)))
      | _ \<Rightarrow> errorf (fmt_noargs rerr))"

fun handshake_loop ::
  "daemon_env \<Rightarrow> 'm omap_ops \<Rightarrow> 'q daemon_plugin_ops \<Rightarrow> wire_readers \<Rightarrow> bool \<Rightarrow> string \<Rightarrow> string res \<Rightarrow> nat \<Rightarrow>
   ('m, 'q) daemon_DataChannel \<Rightarrow> handshake_event list \<Rightarrow> ('m, 'q) daemon_DataChannel \<times> unit res option" where
  "handshake_loop E om P R attach action synPayload retryCount d [] = (d, None)"
| "handshake_loop E om P R attach action synPayload retryCount d (HDying # es) = (d, Some (Ok ()))"
| "handshake_loop E om P R attach action synPayload retryCount d (HTimeout # es) =
     (d, Some (Err (errorf ''handshake timed out'')))"
| "handshake_loop E om P R attach action synPayload retryCount d (HMessage agentMessage # es) =
     (case am_MessageType agentMessage of
        MTError \<Rightarrow>
          if maxRetry \<le> retryCount then (d, Some (Err (handshake_failed R agentMessage)))
          else (case dc_start E om d attach action synPayload of
                  (d1, Ok _) \<Rightarrow> handshake_loop E om P R attach action synPayload (retryCount + 1) d1 es
                | (d1, r) \<Rightarrow> (d1, Some r))
      | MTMrtap \<Rightarrow> (case handleMrtap E om P R d agentMessage of (d1, r) \<Rightarrow> (d1, Some r))
      | t \<Rightarrow> (d, Some (Err (errorf (''datachannel must start with a MrTAP or error message, received: '' @
                MessageType_string t)))))"

definition handshakeOrTimeout ::
  "daemon_env \<Rightarrow> 'm omap_ops \<Rightarrow> 'q daemon_plugin_ops \<Rightarrow> wire_readers \<Rightarrow> bool \<Rightarrow> string \<Rightarrow> string res \<Rightarrow>
   ('m, 'q) daemon_DataChannel \<Rightarrow> handshake_event list \<Rightarrow> ('m, 'q) daemon_DataChannel \<times> unit res option" where
  "handshakeOrTimeout E om P R attach action synPayload d es =
     (case dc_start E om d attach action synPayload of
        (d1, Ok _) \<Rightarrow> handshake_loop E om P R attach action synPayload 0 d1 es
      | (d1, r) \<Rightarrow> (d1, Some r))"

section \<open>After the plugin is done\<close>

text \<open>
  \<^verbatim>\<open>waitForRemainingMessages\<close>: acknowledgements are still processed, stream messages are not; a
  tick ends the wait when the plugin has nothing to send (the flag) and nothing is pending.
\<close>

datatype drain_event = DMessage AgentMessage | DTick bool | DTimeout

fun waitForRemainingMessages ::
  "daemon_env \<Rightarrow> 'm omap_ops \<Rightarrow> 'q daemon_plugin_ops \<Rightarrow> wire_readers \<Rightarrow>
   ('m, 'q) daemon_DataChannel \<Rightarrow> drain_event list \<Rightarrow> ('m, 'q) daemon_DataChannel \<times> unit res option" where
  "waitForRemainingMessages E om P R d [] = (d, None)"
| "waitForRemainingMessages E om P R d (DTimeout # es) = (d, Some (Ok ()))"
| "waitForRemainingMessages E om P R d (DTick pluginEmpty # es) =
     (if pluginEmpty \<and> IsPipelineEmpty (dd_mrtap d) then (d, Some (Ok ()))
      else waitForRemainingMessages E om P R d es)"
| "waitForRemainingMessages E om P R d (DMessage agentMessage # es) =
     (if am_MessageType agentMessage = MTStream then waitForRemainingMessages E om P R d es
      else (case processInputMessage E om P R d agentMessage of
              (d1, Panic) \<Rightarrow> (d1, Some Panic)
            | (d1, _) \<Rightarrow> waitForRemainingMessages E om P R d1 es))"

section \<open>The main routine\<close>

text \<open>
  The first reason a tomb is killed with stays its reason. \<^verbatim>\<open>Close\<close> kills the tomb and waits.
\<close>

definition tomb_kill :: "gerror option \<Rightarrow> ('m, 'q) daemon_DataChannel \<Rightarrow> ('m, 'q) daemon_DataChannel" where
  "tomb_kill reason d = d\<lparr>dd_killed := (case dd_killed d of None \<Rightarrow> reason | Some e0 \<Rightarrow> Some e0)\<rparr>"

text \<open>
  What the main routine selects on after the handshake, with the turns of the two other
  routines between: a call of \<^verbatim>\<open>Close\<close>, the tomb dying, the plugin being done (with its error and
  what happens while the channel drains), a message, the idle timeout.
\<close>

datatype dc_event =
    LClose gerror | LDying | LPluginDone "gerror option" "drain_event list" | LMessage AgentMessage
  | LIdle | LSend | LZap string "string option"

fun dc_loop ::
  "daemon_env \<Rightarrow> 'm omap_ops \<Rightarrow> 'q daemon_plugin_ops \<Rightarrow> wire_readers \<Rightarrow> bool \<Rightarrow>
   ('m, 'q) daemon_DataChannel \<Rightarrow> dc_event list \<Rightarrow> ('m, 'q) daemon_DataChannel \<times> unit res option" where
  "dc_loop E om P R processBeforeExit d [] = (d, None)"
| "dc_loop E om P R processBeforeExit d (LClose reason # es) =
     dc_loop E om P R processBeforeExit (tomb_kill (Some reason) d) es"
| "dc_loop E om P R processBeforeExit d (LDying # es) =
     (case dd_killed d of
        None \<Rightarrow> dc_loop E om P R processBeforeExit d es
      | Some e \<Rightarrow> (d\<lparr>dd_plugin := dp_Kill P (dd_plugin d) (Some e)\<rparr>, Some (Ok ())))"
| "dc_loop E om P R processBeforeExit d (LPluginDone err drain # es) =
     (let returned = (case err of None \<Rightarrow> Ok () | Some e \<Rightarrow> Err e) in
      if \<not> processBeforeExit then (d, Some returned)
      else (case waitForRemainingMessages E om P R d drain of
              (d1, None) \<Rightarrow> (d1, None)
            | (d1, Some Panic) \<Rightarrow> (d1, Some Panic)
            | (d1, Some _) \<Rightarrow> (d1, Some returned)))"
| "dc_loop E om P R processBeforeExit d (LMessage agentMessage # es) =
     (case processInputMessage E om P R d agentMessage of
        (d1, Panic) \<Rightarrow> (d1, Some Panic)
      | (d1, _) \<Rightarrow> dc_loop E om P R processBeforeExit d1 es)"
| "dc_loop E om P R processBeforeExit d (LIdle # es) = (d, Some (Err (errorf ''cleaning up stale datachannel'')))"
| "dc_loop E om P R processBeforeExit d (LSend # es) = dc_loop E om P R processBeforeExit (sendMrtap_turn d) es"
| "dc_loop E om P R processBeforeExit d (LZap action pl # es) =
     dc_loop E om P R processBeforeExit
       (case zapPluginOutput_turn E om d action pl of None \<Rightarrow> d | Some d1 \<Rightarrow> d1) es"

definition close_message :: "string \<Rightarrow> AgentMessage" where
  "close_message ident = \<lparr> am_ChannelId = ident, am_MessageType = MTCloseDataChannel, am_SchemaVersion = [],
     am_MessagePayload = WRaw [] \<rparr>"

text \<open>
  The routine \<^verbatim>\<open>New\<close> starts: the handshake, the loop, and the deferred message that closes the
  channel, which is sent however the routine ends. An error it returns becomes the tomb's
  reason.
\<close>

definition dc_finish :: "unit res \<Rightarrow> ('m, 'q) daemon_DataChannel \<Rightarrow> ('m, 'q) daemon_DataChannel" where
  "dc_finish r d = tomb_kill (case r of Err e \<Rightarrow> Some e | _ \<Rightarrow> None)
     (d\<lparr>dd_sent := dd_sent d @ [close_message (dd_id d)]\<rparr>)"

definition daemon_DataChannel_New ::
  "daemon_env \<Rightarrow> 'm omap_ops \<Rightarrow> 'q daemon_plugin_ops \<Rightarrow> wire_readers \<Rightarrow> 'm daemon_Mrtap \<Rightarrow> 'q \<Rightarrow> string \<Rightarrow> string \<Rightarrow>
   string res \<Rightarrow> bool \<Rightarrow> bool \<Rightarrow> handshake_event list \<Rightarrow> dc_event list \<Rightarrow>
   ('m, 'q) daemon_DataChannel \<times> unit res option" where
  "daemon_DataChannel_New E om P R mrtap plugin ident action synPayload attach processBeforeExit hs es =
     (let d = \<lparr> dd_id = ident, dd_mrtap = mrtap, dd_plugin = plugin, dd_sent = [], dd_killed = None \<rparr> in
      case (case handshakeOrTimeout E om P R attach action synPayload d hs of
              (d1, Some (Ok _)) \<Rightarrow> dc_loop E om P R processBeforeExit d1 es
            | (d1, r) \<Rightarrow> (d1, r)) of
        (d2, None) \<Rightarrow> (d2, None)
      | (d2, Some r) \<Rightarrow> (dc_finish r d2, Some r))"

section \<open>Lemmas\<close>

lemma handleMrtap_sent: "dd_sent (fst (handleMrtap E om P R d msg)) = dd_sent d"
  by (simp add: handleMrtap_def Let_def split: res.splits prod.splits payload.splits)

lemma dc_start_sent: "length (dd_sent (fst (dc_start E om d attach action synPayload))) \<le> length (dd_sent d) + 1"
  by (simp add: dc_start_def openDataChannel_def split: res.splits prod.splits)

lemma handshake_loop_sent:
  "length (dd_sent (fst (handshake_loop E om P R attach action synPayload n d es))) \<le> length (dd_sent d) + (maxRetry - n)"
proof (induction E om P R attach action synPayload n d es rule: handshake_loop.induct)
  case (4 E om P R attach action synPayload n d msg es)
  show ?case
  proof (cases "am_MessageType msg = MTError \<and> n < maxRetry")
    case True
    obtain d1 r where st: "dc_start E om d attach action synPayload = (d1, r)" by fastforce
    have le: "length (dd_sent d1) \<le> length (dd_sent d) + 1"
      using dc_start_sent [of E om d attach action synPayload] st by simp
    show ?thesis
    proof (cases r)
      case (Ok u)
      then have "length (dd_sent (fst (handshake_loop E om P R attach action synPayload (n + 1) d1 es)))
          \<le> length (dd_sent d1) + (maxRetry - (n + 1))"
        using 4 True st by (simp add: not_le)
      then show ?thesis using True st Ok le by (simp add: maxRetry_def)
    qed (use True st le in auto)
  next
    case False
    then show ?thesis
      using handleMrtap_sent [of E om P R d msg] by (auto simp: not_less split: MessageType.splits prod.splits)
  qed
qed simp_all

lemma processInput_error:
  assumes "am_MessageType x = MTError" "am_MessagePayload x = WError e" "err_Type e = MrtapValidationError"
  shows "processInputMessage E om P R d x =
    (case daemon_Recover E om (dd_mrtap d) e of
       (m, Err er) \<Rightarrow> (d\<lparr>dd_mrtap := m, dd_killed := (case dd_killed d of None \<Rightarrow> Some er | Some e0 \<Rightarrow> Some e0)\<rparr>, Ok ())
     | (m, r) \<Rightarrow> (d\<lparr>dd_mrtap := m\<rparr>, r))"
  using assms by (simp add: processInputMessage_def handleError_def split: prod.splits res.splits)

text \<open>
  C35. The handshake gives up after a bounded number of tries: whatever the agent answers, a
  new channel sends at most four requests to open it, and the fourth error in a row ends the
  handshake with an error, the one its text is known for if there is one.
\<close>

theorem handshake_bounded:
  "length (dd_sent (fst (handshakeOrTimeout E om P R attach action synPayload d es))) \<le> length (dd_sent d) + 4 \<and>
   handshake_loop E om P R attach action synPayload maxRetry d (HMessage (x\<lparr>am_MessageType := MTError\<rparr>) # es) =
     (d, Some (Err (handshake_failed R x)))"
proof
  obtain d1 r where st: "dc_start E om d attach action synPayload = (d1, r)" by fastforce
  have "length (dd_sent d1) \<le> length (dd_sent d) + 1"
    using dc_start_sent [of E om d attach action synPayload] st by simp
  then show "length (dd_sent (fst (handshakeOrTimeout E om P R attach action synPayload d es))) \<le> length (dd_sent d) + 4"
    using handshake_loop_sent [of E om P R attach action synPayload 0 d1 es] st
    by (cases r) (simp_all add: handshakeOrTimeout_def maxRetry_def)
qed (simp add: handshake_failed_def)

definition known_error_table :: "(string \<times> nat) list" where
  "known_error_table =
     [(UserNotFoundErrMsg, 4), (ServiceAccountNotConfiguredMsg, 6), (ClientCertCosignErrorString, 13),
      (TLSDisabledErrorString, 12), (ConnectionRefusedString, 10), (UnrecognizedRootCertErrorString, 15),
      (ServerCertificateExpiredString, 16), (IncorrectServerNameString, 17), (ConnectionFailedErrorString, 11),
      (PwdbMissingKeyErrorString, 14)]"

lemma exit_code_single:
  "HandleDaemonExit (Some (GErr t [UserNotFoundError])) = 4"
  "HandleDaemonExit (Some (GErr t [ServiceAccountError])) = 6"
  "HandleDaemonExit (Some (GErr t [ConnectionRefusedError])) = 10"
  "HandleDaemonExit (Some (GErr t [ConnectionFailedError])) = 11"
  "HandleDaemonExit (Some (GErr t [TLSDisabledError])) = 12"
  "HandleDaemonExit (Some (GErr t [ClientCertCosignError])) = 13"
  "HandleDaemonExit (Some (GErr t [PwdbMissingKeyError])) = 14"
  "HandleDaemonExit (Some (GErr t [PwdbUnknownAuthorityError])) = 15"
  "HandleDaemonExit (Some (GErr t [ServerCertificateExpired])) = 16"
  "HandleDaemonExit (Some (GErr t [IncorrectServerName])) = 17"
  by (simp_all add: HandleDaemonExit_def)

text \<open>
  Errors recognised by their text keep their meaning up to the exit code: the code of a
  recognised error is the one the table gives for the first known text that occurs in the
  message, whatever surrounds it, and a message is not recognised exactly when no known text
  occurs in it.
\<close>

theorem known_errors_exit_code:
  "map_option (\<lambda>e. HandleDaemonExit (Some e)) (checkForKnownErrors s) =
   map_option snd (find (\<lambda>(t, code). contains s t) known_error_table)"
  by (simp add: checkForKnownErrors_def known_error_table_def exit_code_single)

text \<open>
  C18. A Data message the agent rejects starts recovery, not a shutdown: the agent's answer,
  read by the daemon, makes it send a new Syn, with the rejected message still pending, as
  long as it has not tried three times and the certificate can be refreshed.
\<close>

theorem rejection_triggers_recovery:
  assumes "agent_Validate (aenv_lib A) (aenv_now A) (dc_mrtap a) msg = (m1, Err e)"
    and "om_after om (pipelineMap (dd_mrtap d)) (payload_hash (aenv_lib A) (msg_Payload msg)) \<noteq> None"
    and "\<not> recovering (dd_mrtap d)" and "errorRecoveryAttempt (dd_mrtap d) < maxErrorRecoveryTries"
    and "DaemonBZCert_Refresh (env_lib E) (env_jwt E) (env_fs E) (env_now E) (bzcert (dd_mrtap d)) = (c, Ok u)"
    and "good_priv (dc_privateKey c)" and "sha3_len (env_lib E)" and "sha3_len (aenv_lib A)"
  shows "\<exists>x d' syn. dc_output (fst (handleMrtapMessage A AP a msg)) = dc_output a @ [x] \<and>
     processInputMessage E om P R d (over_the_wire x) = (d', Ok ()) \<and> dd_killed d' = dd_killed d \<and>
     recovering (dd_mrtap d') \<and> outboxQueue (dd_mrtap d') = outboxQueue (dd_mrtap d) @ [syn] \<and>
     msg_Type syn = Syn \<and> errorRecoveryAttempt (dd_mrtap d') = errorRecoveryAttempt (dd_mrtap d) + 1"
proof -
  obtain x err where x: "dc_output (fst (handleMrtapMessage A AP a msg)) = dc_output a @ [x]"
    "am_MessageType x = MTError" "am_MessagePayload x = WError err" "err_Type err = MrtapLegacyValidationError"
    "err_HPointer err = payload_hash (aenv_lib A) (msg_Payload msg)" "err_SchemaVersion err = CurrentVersion"
    using assms(1) by (simp add: handleMrtapMessage_def Let_def sendError_def agent_send_def)
  have rt: "err_Type (received_error err) = MrtapValidationError"
    using x(4) by (simp add: received_error_def ErrorType_UnmarshalJSON_def ErrorType_of_def)
  let ?m = "dd_mrtap d"
  let ?m1 = "?m\<lparr>errorRecoveryAttempt := errorRecoveryAttempt ?m + 1, recovering := True\<rparr>"
  obtain syn where syn: "msg_Type syn = Syn" "msg_Payload syn = PSyn (syn_payload E (syn_state ?m1 c []) (dquote @ dquote))"
    "MrtapMessage_Sign (env_lib E) (syn\<lparr>msg_Signature := []\<rparr>) (dc_privateKey c) = Ok (syn, True)"
    "buildSyn E om ?m1 [] (Ok (dquote @ dquote)) True =
       (case addToPipelineMap (env_lib E) om (syn_state ?m1 c []) syn of
          (m4, Ok _) \<Rightarrow> (if True then m4\<lparr>outboxQueue := outboxQueue m4 @ [syn]\<rparr> else m4, Ok syn)
        | (m4, Err e) \<Rightarrow> (m4, Err e) | (m4, Panic) \<Rightarrow> (m4, Panic))"
    by (rule buildSyn_signed [of E ?m1 c u _ "dquote @ dquote"]) (use assms(5,6) in simp_all)
  obtain m2 where b: "buildSyn E om ?m1 [] (Ok (dquote @ dquote)) True = (m2, Ok syn)"
    "recovering m2" "outboxQueue m2 = outboxQueue ?m @ [syn]" "errorRecoveryAttempt m2 = errorRecoveryAttempt ?m + 1"
    using syn(4) payload_hash_nonempty [OF assms(7)]
    by (simp add: addToPipelineMap_def Let_def) (simp add: syn_state_def)
  have "daemon_Recover E om ?m (received_error err) = (m2, Ok ())"
    using b(1) assms(2-4) x(5,6) payload_hash_nonempty [OF assms(8)]
    by (auto simp: daemon_Recover_def Let_def CurrentVersion_def)
  then have "processInputMessage E om P R d (over_the_wire x) = (d\<lparr>dd_mrtap := m2\<rparr>, Ok ())"
    using processInput_error [of "over_the_wire x" "received_error err" E om P R d] rt x(2,3) by simp
  then show ?thesis using x(1) syn(1) b by auto
qed

section \<open>Witnesses\<close>

definition quiet_daemon_plugin :: "unit daemon_plugin_ops" where
  "quiet_daemon_plugin = \<lparr> dp_ReceiveMrtap = (\<lambda>q _ _. (q, Ok ())), dp_ReceiveStream = (\<lambda>q _. q),
     dp_Kill = (\<lambda>q _. q) \<rparr>"

definition no_readers :: wire_readers where
  "no_readers = \<lparr> rd_mrtap = (\<lambda>_. Err (errorf [])), rd_error = (\<lambda>_. Err (errorf [])),
     rd_stream = (\<lambda>_. Err (errorf [])) \<rparr>"

definition wit_daemon_channel :: "((string \<times> MrtapMessage) list, unit) daemon_DataChannel" where
  "wit_daemon_channel = \<lparr> dd_id = ''c'', dd_mrtap = wit_daemon [(wit_hash, wit_data_msg wit_key ''old'')],
     dd_plugin = (), dd_sent = [], dd_killed = None \<rparr>"

theorem rejection_triggers_recovery_witness:
  "\<exists>x d' syn. dc_output (fst (handleMrtapMessage wit_agent_env quiet_plugin (wit_channel True)
       (wit_data_msg wit_key ''old''))) = [x] \<and>
     processInputMessage wit_env al_ops quiet_daemon_plugin no_readers wit_daemon_channel (over_the_wire x) = (d', Ok ()) \<and>
     dd_killed d' = None \<and> outboxQueue (dd_mrtap d') = [syn] \<and> msg_Type syn = Syn"
proof -
  let ?msg = "wit_data_msg wit_key ''old''"
  obtain e where v: "agent_Validate (aenv_lib wit_agent_env) (aenv_now wit_agent_env) (dc_mrtap (wit_channel True)) ?msg
      = (wit_agent, Err e)"
    using wit_VerifySignature [of wit_key ?msg]
    by (simp add: wit_data_msg_def Validate_Data_def BZCert_Hash_def BZCert_Expired_def second_def)
  have h: "payload_hash wit_nonce_lib p = wit_hash" for p
    by (simp add: payload_hash_def HashPayload_def wit_hash_def)
  have r: "DaemonBZCert_Refresh (env_lib wit_env) (env_jwt wit_env) (env_fs wit_env) (env_now wit_env)
      (bzcert (dd_mrtap wit_daemon_channel)) = (wit_session_cert, Ok ())"
    by (simp add: wit_daemon_channel_def DaemonBZCert_Refresh_def wit_env_def wit_session_cert_def)
  have m: "\<not> recovering (dd_mrtap wit_daemon_channel)" "errorRecoveryAttempt (dd_mrtap wit_daemon_channel) = 0"
    "outboxQueue (dd_mrtap wit_daemon_channel) = []" "dd_killed wit_daemon_channel = None"
    "om_after al_ops (pipelineMap (dd_mrtap wit_daemon_channel)) wit_hash \<noteq> None"
    by (simp_all add: wit_daemon_channel_def wit_daemon_def daemon_New_def al_ops_def)
  show ?thesis
    using rejection_triggers_recovery [OF v, of al_ops wit_daemon_channel wit_env wit_session_cert "()" quiet_plugin
        quiet_daemon_plugin no_readers] h r m
    by (auto simp: maxErrorRecoveryTries_def)
qed

end
