(* ===== verification/Daemon_Connection.thy ===== *)
theory Daemon_Connection
  imports Agent_Connection Daemon_DataChannel
begin

text \<open>
  \<^verbatim>\<open>bctl/daemon/servers/dataconnection\<close> and \<^verbatim>\<open>bzerolib/connection/errors.go\<close>: the daemon's connection. It
  waits for the agent, hands messages to the data channels, and when it is closed tells the
  channels why, from the text of the reason. As on the agent, the main routine drains the
  send queue and is the one that queues the last message.
\<close>

section \<open>A data channel as the broker sees it\<close>

record ('m, 'q) daemon_channel =
  dch_dc :: "('m, 'q) daemon_DataChannel"
  dch_alive :: bool
  dch_input :: "AgentMessage list"

definition daemon_channel_Receive :: "('m, 'q) daemon_channel \<Rightarrow> AgentMessage \<Rightarrow> ('m, 'q) daemon_channel option" where
  "daemon_channel_Receive c agentMessage =
     (if \<not> dch_alive c then Some c
      else if length (dch_input c) < inputChan_size then Some (c\<lparr>dch_input := dch_input c @ [agentMessage]\<rparr>)
      else None)"

text \<open>
  \<^verbatim>\<open>Close\<close> kills the tomb and waits: the main routine of the channel kills the plugin, returns,
  and its deferred message tells the agent.
\<close>

definition daemon_channel_Close ::
  "'q daemon_plugin_ops \<Rightarrow> ('m, 'q) daemon_channel \<Rightarrow> gerror \<Rightarrow> ('m, 'q) daemon_channel \<times> AgentMessage list" where
  "daemon_channel_Close P c reason =
     (if \<not> dch_alive c then (c, [])
      else (let d = tomb_kill (Some reason) (dch_dc c);
                d1 = d\<lparr>dd_plugin := dp_Kill P (dd_plugin d) (dd_killed d)\<rparr> in
            (c\<lparr>dch_alive := False, dch_dc := dc_finish (Ok ()) d1\<rparr>, [close_message (dd_id d)])))"

definition daemon_channel_ops :: "'q daemon_plugin_ops \<Rightarrow> ('m, 'q) daemon_channel channel_ops" where
  "daemon_channel_ops P = \<lparr> ch_Receive = daemon_channel_Receive, ch_Close = daemon_channel_Close P \<rparr>"

interpretation dch: channel "daemon_channel_ops P" dch_alive for P
  by unfold_locales (auto simp: daemon_channel_ops_def daemon_channel_Receive_def daemon_channel_Close_def Let_def)

section \<open>The connection\<close>

record 'c daemon_conn =
  dn_ready :: bool
  dn_broker :: "'c broker"
  dn_sendQueue :: "AgentMessage list"
  dn_agentReady :: bool
  dn_killed :: "gerror option"

definition PolicyEditedErrTemplate :: string where
  "PolicyEditedErrTemplate = ''has been edited and does not provide access anymore''"

definition PolicyDeletedErrTemplate :: string where
  "PolicyDeletedErrTemplate = ''has been deleted''"

definition daemon_conn_kill :: "gerror \<Rightarrow> 'c daemon_conn \<Rightarrow> 'c daemon_conn" where
  "daemon_conn_kill reason c = c\<lparr>dn_killed := (case dn_killed c of None \<Rightarrow> Some reason | Some e \<Rightarrow> Some e)\<rparr>"

record 'a daemon_conn_readers =
  dr_closeDaemonWebsocket :: "'a \<Rightarrow> string \<times> gerror option"
  dr_agentConnected :: "'a \<Rightarrow> string \<times> gerror option"
  dr_agentMessage :: "'a \<Rightarrow> AgentMessage \<times> gerror option"

text \<open>
  \<^verbatim>\<open>processInbound\<close>; \<^term>\<open>None\<close> is a call that blocks: a full channel, or the signal that the
  agent is ready while one is still waiting to be read.
\<close>

definition daemon_processInbound ::
  "'c channel_ops \<Rightarrow> 'a daemon_conn_readers \<Rightarrow> 'c daemon_conn \<Rightarrow> 'a SignalRInvocation \<Rightarrow> ('c daemon_conn \<times> unit res) option" where
  "daemon_processInbound C R c message =
     (if sr_Target message = ''CloseConnection''
      then (case sr_Arguments message of
              [] \<Rightarrow> Some (c, Panic)
            | arg # _ \<Rightarrow>
               (case dr_closeDaemonWebsocket R arg of
                  (_, Some err) \<Rightarrow> Some (c, Err (errorf_s ''error unmarshalling close daemon websocket message. Error: '' err))
                | (reason, None) \<Rightarrow>
                    (let rerr = errorf (''the bzero agent terminated the connection with reason: '' @ reason) in
                     Some (daemon_conn_kill rerr c, Err rerr))))
      else if sr_Target message = ''AgentConnected''
      then (case sr_Arguments message of
              [] \<Rightarrow> Some (c, Panic)
            | arg # _ \<Rightarrow>
               (case dr_agentConnected R arg of
                  (_, Some err) \<Rightarrow> Some (c, Err (errorf_s ''error unmarshalling agent connected message. Error: '' err))
                | (_, None) \<Rightarrow>
                    if dn_ready c then Some (c, Ok ())
                    else if dn_agentReady c then None
                    else Some (c\<lparr>dn_ready := True, dn_agentReady := True\<rparr>, Ok ())))
      else
        (case sr_Arguments message of
           [arg] \<Rightarrow>
             (case dr_agentMessage R arg of
                (_, Some err) \<Rightarrow> Some (c, Err (errorf_w (''error unmarshalling '' @ sr_Target message @ '' message: '') err))
              | (agentMessage, None) \<Rightarrow>
                  map_option (\<lambda>(b, r). (c\<lparr>dn_broker := b\<rparr>, wrap_err (errorf_w ''failed to forward agent message to datachannel: '') r))
                    (Broker_DirectMessage C (dn_broker c) (am_ChannelId agentMessage) agentMessage))
         | args \<Rightarrow> Some (c, Err (errorf (''expected a single agent message argument but got '' @ show_nat (length args) @ '' arguments'')))))"

section \<open>Waiting and connecting\<close>

datatype ready_event = WClientDone | WDying | WReady | WTimeout

text \<open>The events that can happen are those of the state: a signal must be there to be read.\<close>

definition waitForAgentReady :: "'c daemon_conn \<Rightarrow> ready_event \<Rightarrow> 'c daemon_conn option" where
  "waitForAgentReady c ev =
     (case ev of
        WClientDone \<Rightarrow> Some c
      | WDying \<Rightarrow> (if dn_killed c = None then None else Some c)
      | WReady \<Rightarrow> (if dn_agentReady c then Some (c\<lparr>dn_agentReady := False\<rparr>) else None)
      | WTimeout \<Rightarrow> Some (daemon_conn_kill (errorf ''timed out waiting for agent to connect'') c))"

fun daemon_connect :: "string \<Rightarrow> connect_event list \<Rightarrow> unit res option" where
  "daemon_connect connectTimeout [] = None"
| "daemon_connect connectTimeout (CDying # es) = Some (Ok ())"
| "daemon_connect connectTimeout (CExhausted # es) = Some (Err (errorf (''failed to connect after '' @ connectTimeout)))"
| "daemon_connect connectTimeout (CTick _ connected # es) =
     (case connected of Ok _ \<Rightarrow> Some (Ok ()) | Panic \<Rightarrow> Some Panic | Err e \<Rightarrow> daemon_connect connectTimeout es)"

section \<open>Dying\<close>

definition close_reason :: "gerror \<Rightarrow> gerror" where
  "close_reason e =
     (if contains (etext e) PolicyEditedErrTemplate then GErr (etext e) [PolicyEditedConnectionClosedError]
      else if contains (etext e) PolicyDeletedErrTemplate then GErr (etext e) [PolicyDeletedConnectionClosedError]
      else if contains (etext e) IdleTimeoutTemplate then GErr (etext e) [IdleTimeoutConnectionClosedError]
      else errorf_s ''connection closed with reason: '' e)"

definition closeAgentWebsocket_message :: "string \<Rightarrow> AgentMessage" where
  "closeAgentWebsocket_message reason =
     \<lparr> am_ChannelId = ''-1'', am_MessageType = MTCloseAgentWebsocket, am_SchemaVersion = am_CurrentVersion,
       am_MessagePayload = WRaw reason \<rparr>"

definition daemon_conn_dying :: "'c channel_ops \<Rightarrow> 'c daemon_conn \<Rightarrow> gerror \<Rightarrow> ('c daemon_conn \<times> AgentMessage list) option" where
  "daemon_conn_dying C c reason =
     map_option (\<lambda>sent. (c\<lparr>dn_ready := False, dn_broker := [], dn_sendQueue := []\<rparr>, sent))
       (close_and_flush C (dn_broker c) (close_reason reason) (dn_sendQueue c) (closeAgentWebsocket_message (etext reason)))"

definition daemon_targetSelectHandler :: "AgentMessage \<Rightarrow> string res" where
  "daemon_targetSelectHandler agentMessage =
     (case am_MessageType agentMessage of
        MTMrtap \<Rightarrow> Ok ''RequestDaemonToBastionV1'' | MTMrtapLegacy \<Rightarrow> Ok ''RequestDaemonToBastionV1''
      | MTOpenDataChannel \<Rightarrow> Ok ''OpenDataChannelDaemonToBastionV1''
      | MTCloseDataChannel \<Rightarrow> Ok ''CloseDataChannelDaemonToBastionV1''
      | MTCloseAgentWebsocket \<Rightarrow> Ok ''CloseAgentWebsocketV1''
      | t \<Rightarrow> Err (errorf (''unhandled message type: '' @ MessageType_string t)))"

section \<open>Properties\<close>

definition live_ids :: "('m, 'q) daemon_channel broker \<Rightarrow> string list" where
  "live_ids b = map (\<lambda>(k, c). dd_id (dch_dc c)) (filter (\<lambda>(k, c). dch_alive c) b)"

lemma dd_id_tomb_kill [simp]: "dd_id (tomb_kill r d) = dd_id d"
  by (simp add: tomb_kill_def)

lemma Broker_Close_live: "snd (snd (Broker_Close (daemon_channel_ops P) b reason)) = map close_message (live_ids b)"
  by (induction b) (auto simp: Broker_Close_def live_ids_def daemon_channel_ops_def daemon_channel_Close_def Let_def)

text \<open>
  Closing the connection tells everyone, unless the queue is full: what is queued, one
  closing message for each live channel, and the message for the agent are sent in this
  order; but if these do not fit into the queue of fifty the routine never finishes, since it
  is itself the one that empties the queue.
\<close>

theorem daemon_close_flushes:
  "daemon_conn_dying (daemon_channel_ops P) c reason =
     (if length (dn_sendQueue c) + length (live_ids (dn_broker c)) < 50
      then Some (c\<lparr>dn_ready := False, dn_broker := [], dn_sendQueue := []\<rparr>,
             dn_sendQueue c @ map close_message (live_ids (dn_broker c)) @ [closeAgentWebsocket_message (etext reason)])
      else None)"
proof -
  obtain b' cs out where b: "Broker_Close (daemon_channel_ops P) (dn_broker c) (close_reason reason) = (b', cs, out)"
    by (metis prod_cases3)
  then have "out = map close_message (live_ids (dn_broker c))"
    using Broker_Close_live [of P "dn_broker c" "close_reason reason"] by simp
  with b show ?thesis by (simp add: daemon_conn_dying_def close_and_flush_def sendQueue_size_def)
qed

text \<open>
  The reason the agent closes a connection for becomes the exit code of the daemon: when
  a connection is closed because its policy was edited, the agent's last message carries the
  text of the reason, the daemon recognises it in the error it makes of it, and every live
  data channel ends with the error that means exit code 7.
\<close>

theorem policy_close_exit_code:
  assumes "cn_killed a = Some e" and "contains (etext e) PolicyEditedErrTemplate"
    and "agent_conn_dying a = Some (a', sent)"
    and "\<And>r. dr_closeDaemonWebsocket R (closeDaemonWebsocket_message r) = (r, None)"
    and "dn_killed d = None"
  shows "\<exists>d' reason. daemon_processInbound C R d \<lparr> sr_Target = ''CloseConnection'', sr_Arguments = [last sent] \<rparr> =
      Some (d', Err reason) \<and> dn_killed d' = Some reason \<and>
    (dch_alive ch \<and> dd_killed (dch_dc ch) = None \<longrightarrow>
      HandleDaemonExit (dd_killed (dch_dc (fst (daemon_channel_Close P ch (close_reason reason))))) = 7)"
proof -
  let ?r = "errorf (''the bzero agent terminated the connection with reason: '' @ etext e)"
  have "last sent = closeDaemonWebsocket_message (etext e)"
    using assms(1,3) by (auto simp: agent_conn_dying_def close_and_flush_Some)
  then have p: "daemon_processInbound C R d \<lparr> sr_Target = ''CloseConnection'', sr_Arguments = [last sent] \<rparr> =
      Some (daemon_conn_kill ?r d, Err ?r)"
    using assms(4) by (simp add: daemon_processInbound_def Let_def)
  have "contains (etext ?r) PolicyEditedErrTemplate"
    unfolding etext_simps by (rule contains_append_left [OF assms(2)])
  then have "close_reason ?r = GErr (etext ?r) [PolicyEditedConnectionClosedError]" by (simp add: close_reason_def)
  then have "dch_alive ch \<and> dd_killed (dch_dc ch) = None \<longrightarrow>
      HandleDaemonExit (dd_killed (dch_dc (fst (daemon_channel_Close P ch (close_reason ?r))))) = 7"
    by (simp add: daemon_channel_Close_def tomb_kill_def dc_finish_def HandleDaemonExit_def Let_def)
  with p show ?thesis using assms(5) by (auto simp: daemon_conn_kill_def)
qed

lemma daemon_endpoints:
  "am_MessageType m \<in> {MTMrtapLegacy, MTOpenDataChannel, MTCloseDataChannel, MTCloseAgentWebsocket} \<Longrightarrow>
   is_ok (daemon_targetSelectHandler m)"
  by (auto simp: daemon_targetSelectHandler_def)

section \<open>Witness\<close>

definition wit_readers :: "AgentMessage daemon_conn_readers" where
  "wit_readers = \<lparr> dr_closeDaemonWebsocket = (\<lambda>m. (case am_MessagePayload m of WRaw r \<Rightarrow> r | _ \<Rightarrow> [], None)),
     dr_agentConnected = (\<lambda>m. ([], None)), dr_agentMessage = (\<lambda>m. (m, None)) \<rparr>"

theorem policy_close_exit_code_witness:
  "\<exists>reason. HandleDaemonExit (dd_killed (dch_dc (fst (daemon_channel_Close quiet_daemon_plugin
     \<lparr> dch_dc = wit_daemon_channel, dch_alive = True, dch_input = [] \<rparr> (close_reason reason))))) = 7"
proof -
  let ?a = "wit_conn\<lparr>cn_killed := Some (errorf (''policy p '' @ PolicyEditedErrTemplate))\<rparr>"
  let ?d = "\<lparr> dn_ready = True, dn_broker = [], dn_sendQueue = [], dn_agentReady = False, dn_killed = None \<rparr> :: unit daemon_conn"
  obtain a' sent where s: "agent_conn_dying ?a = Some (a', sent)"
    by (simp add: agent_conn_dying_def close_and_flush_def Broker_Close_def wit_conn_def sendQueue_size_def)
  have c: "contains (etext (errorf (''policy p '' @ PolicyEditedErrTemplate))) PolicyEditedErrTemplate"
    unfolding etext_simps by (rule contains_append_left [OF contains_self])
  show ?thesis
    using policy_close_exit_code [OF _ c s, of wit_readers ?d undefined "\<lparr> dch_dc = wit_daemon_channel, dch_alive = True, dch_input = [] \<rparr>"
        quiet_daemon_plugin]
    by (auto simp: wit_readers_def closeDaemonWebsocket_message_def wit_daemon_channel_def)
qed

end
