(* ===== verification/Ring_Buffer.thy ===== *)
theory Ring_Buffer
  imports Bzero_Prelude
begin

text \<open>
  \<^verbatim>\<open>bzerolib/ringbuffer\<close>: a cyclic buffer of fixed size that keeps the last bytes written to it,
  from which a shell that is attached again is replayed. Positions are natural numbers, so
  the checks for negative values in \<^verbatim>\<open>sanitycheck\<close> can never fail; a slice expression out of
  range panics.
\<close>

section \<open>Model\<close>

record RingBuffer =
  rb_buffer :: string
  rb_size :: nat
  rb_start :: nat
  rb_end :: nat
  rb_full :: bool

definition RingBuffer_New :: "int \<Rightarrow> RingBuffer res" where
  "RingBuffer_New sz =
     (if sz < 0 then Panic
      else Ok \<lparr> rb_buffer = replicate (nat sz) (CHR 0x00), rb_size = nat sz, rb_start = 0, rb_end = 0,
                rb_full = False \<rparr>)"

definition sanitycheck :: "RingBuffer \<Rightarrow> unit res" where
  "sanitycheck r =
     (if rb_size r < rb_start r then Err (errorf ''ringbuffer sanity check failed (start > size)'')
      else if rb_size r < rb_end r then Err (errorf ''ringbuffer sanity check failed (end > size)'')
      else Ok ())"

text \<open>\<^verbatim>\<open>copy(dst[a:b], src)\<close> and the slice \<^verbatim>\<open>xs[a:b]\<close>.\<close>

definition copy_into :: "'a list \<Rightarrow> nat \<Rightarrow> nat \<Rightarrow> 'a list \<Rightarrow> 'a list res" where
  "copy_into dst a b src =
     (if a \<le> b \<and> b \<le> length dst
      then (let n = min (b - a) (length src) in Ok (take a dst @ take n src @ drop (a + n) dst))
      else Panic)"

definition slice :: "'a list \<Rightarrow> nat \<Rightarrow> nat \<Rightarrow> 'a list" where
  "slice xs a b = drop a (take b xs)"

text \<open>
  \<^verbatim>\<open>Read\<close> fills the caller's slice and returns how many bytes it wrote there.
\<close>

definition RingBuffer_Read :: "RingBuffer \<Rightarrow> string \<Rightarrow> (string \<times> nat) res" where
  "RingBuffer_Read r p =
     (case sanitycheck r of
        Err e \<Rightarrow> Err e | Panic \<Rightarrow> Panic
      | Ok _ \<Rightarrow>
          if \<not> rb_full r \<and> rb_end r < rb_start r then Panic
          else
            (let n = (if \<not> rb_full r then min (length p) (rb_end r - rb_start r) else min (length p) (rb_size r));
                 readstop = min (rb_start r + n) (rb_size r) in
             case copy_into p 0 (readstop - rb_start r) (slice (rb_buffer r) (rb_start r) readstop) of
               Err e \<Rightarrow> Err e | Panic \<Rightarrow> Panic
             | Ok p1 \<Rightarrow>
                 (let remainder = n - (readstop - rb_start r) in
                  if 0 < remainder
                  then res_map (\<lambda>p2. (p2, n))
                         (copy_into p1 (readstop - rb_start r) (length p1) (slice (rb_buffer r) 0 remainder))
                  else Ok (p1, n))))"

definition RingBuffer_ReadAll :: "RingBuffer \<Rightarrow> string res" where
  "RingBuffer_ReadAll r =
     (case RingBuffer_Read r (replicate (rb_size r) (CHR 0x00)) of
        Err e \<Rightarrow> Err (errorf_s ''failed to read from stdout buff for shell replay '' e)
      | Panic \<Rightarrow> Panic
      | Ok (outbuff, n) \<Rightarrow> Ok (take n outbuff))"

text \<open>\<^verbatim>\<open>Write\<close> ignores the result of the sanity check.\<close>

definition RingBuffer_Write :: "RingBuffer \<Rightarrow> string \<Rightarrow> RingBuffer \<times> nat res" where
  "RingBuffer_Write r p =
     (let n = length p;
          full = (rb_full r \<or> rb_size r \<le> rb_end r + n);
          r1 = r\<lparr>rb_full := full\<rparr> in
      if rb_size r \<le> n
      then (case copy_into (rb_buffer r) 0 (length (rb_buffer r)) (drop (n - rb_size r) p) of
              Ok b \<Rightarrow> (r1\<lparr>rb_buffer := b, rb_start := 0, rb_end := 0\<rparr>, Ok (rb_size r))
            | _ \<Rightarrow> (r1, Panic))
      else
        (let writestop = min (rb_end r + n) (rb_size r) in
         case copy_into (rb_buffer r) (rb_end r) writestop (take (writestop - rb_end r) p) of
           Ok b \<Rightarrow>
             (let remainder = n - (writestop - rb_end r) in
              case (if 0 < remainder then copy_into b 0 remainder (drop (writestop - rb_end r) p) else Ok b) of
                Ok b2 \<Rightarrow>
                  (let end' = (rb_end r + n) mod rb_size r in
                   (r1\<lparr>rb_buffer := b2, rb_end := end', rb_start := (if full then end' else rb_start r)\<rparr>, Ok n))
              | _ \<Rightarrow> (r1\<lparr>rb_buffer := b\<rparr>, Panic))
         | _ \<Rightarrow> (r1, Panic)))"

section \<open>What the buffer holds\<close>

definition rb_inv :: "RingBuffer \<Rightarrow> bool" where
  "rb_inv r \<longleftrightarrow>
     length (rb_buffer r) = rb_size r \<and> (rb_end r < rb_size r \<or> rb_size r = 0 \<and> rb_end r = 0) \<and>
     rb_start r = (if rb_full r then rb_end r else 0)"

definition rb_content :: "RingBuffer \<Rightarrow> string" where
  "rb_content r =
     (if rb_full r then drop (rb_start r) (rb_buffer r) @ take (rb_start r) (rb_buffer r)
      else take (rb_end r) (rb_buffer r))"

definition last_bytes :: "nat \<Rightarrow> 'a list \<Rightarrow> 'a list" where
  "last_bytes k xs = drop (length xs - k) xs"

lemma last_bytes_append: "last_bytes k (last_bytes k xs @ ys) = last_bytes k (xs @ ys)"
  by (cases "k \<le> length xs") (simp_all add: last_bytes_def add.commute)

lemma length_last_bytes [simp]: "length (last_bytes k xs) = min k (length xs)"
  by (simp add: last_bytes_def)

lemma rb_New_inv: "RingBuffer_New sz = Ok r \<Longrightarrow> rb_inv r \<and> rb_content r = [] \<and> rb_size r = nat sz"
  by (auto simp: RingBuffer_New_def rb_inv_def rb_content_def split: if_splits)

lemma rb_content_length: "rb_inv r \<Longrightarrow> length (rb_content r) \<le> rb_size r"
  by (auto simp: rb_inv_def rb_content_def)

text \<open>The two writing branches: one that replaces everything, one that may wrap around.\<close>

lemma Write_large:
  assumes "rb_inv r" "rb_size r \<le> length p"
  shows "RingBuffer_Write r p = (r\<lparr>rb_full := True, rb_buffer := last_bytes (rb_size r) p, rb_start := 0, rb_end := 0\<rparr>,
           Ok (rb_size r))"
  using assms by (simp add: RingBuffer_Write_def copy_into_def Let_def rb_inv_def last_bytes_def)

lemma Write_small:
  assumes inv: "rb_inv r" and small: "length p < rb_size r"
  defines "w \<equiv> min (length p) (rb_size r - rb_end r)" and "end' \<equiv> (rb_end r + length p) mod rb_size r"
    and "full \<equiv> rb_full r \<or> rb_size r \<le> rb_end r + length p"
  shows "RingBuffer_Write r p = (r\<lparr>rb_full := full,
      rb_buffer := drop w p @ drop (length p - w) (take (rb_end r) (rb_buffer r)) @ take w p @
                   drop (rb_end r + w) (rb_buffer r),
      rb_end := end', rb_start := (if full then end' else rb_start r)\<rparr>, Ok (length p))"
proof -
  let ?b = "rb_buffer r" and ?e = "rb_end r"
  have len: "length ?b = rb_size r" "?e < rb_size r" using inv small by (auto simp: rb_inv_def)
  have stop: "min (?e + length p) (rb_size r) = ?e + w" using len by (auto simp: w_def)
  have c1: "copy_into ?b ?e (?e + w) (take w p) = Ok (take ?e ?b @ take w p @ drop (?e + w) ?b)"
    using len by (simp add: copy_into_def Let_def w_def)
  show ?thesis
  proof (cases "w = length p")
    case True
    then show ?thesis
      using small stop c1 by (simp add: RingBuffer_Write_def Let_def full_def end'_def)
  next
    case False
    then have w: "w = rb_size r - ?e" "w < length p" "length p - w \<le> ?e" using small by (auto simp: w_def)
    have "copy_into (take ?e ?b @ take w p @ drop (?e + w) ?b) 0 (length p - w) (drop w p) =
        Ok (drop w p @ drop (length p - w) (take ?e ?b) @ take w p @ drop (?e + w) ?b)"
      using w len by (simp add: copy_into_def Let_def)
    then show ?thesis
      using small stop c1 w by (simp add: RingBuffer_Write_def Let_def full_def end'_def)
  qed
qed

lemma Write_content_fits:
  assumes "rb_inv r" "length p < rb_size r" "rb_end r + length p < rb_size r"
  shows "rb_content (fst (RingBuffer_Write r p)) = last_bytes (rb_size r) (rb_content r @ p)"
  using assms(1,3)
  unfolding Write_small [OF assms(1,2)]
  by (auto simp: rb_inv_def rb_content_def last_bytes_def add.commute)

lemma Write_content_wraps:
  assumes "rb_inv r" "length p < rb_size r" "rb_size r \<le> rb_end r + length p"
  shows "rb_content (fst (RingBuffer_Write r p)) = last_bytes (rb_size r) (rb_content r @ p)"
proof -
  have e: "(rb_end r + length p) mod rb_size r = rb_end r + length p - rb_size r"
  proof -
    have "rb_end r + length p - rb_size r < rb_size r" using assms by (auto simp: rb_inv_def)
    then show ?thesis using assms(3) by (simp add: le_mod_geq)
  qed
  show ?thesis
    using assms
    unfolding Write_small [OF assms(1,2)] e
    by (auto simp: rb_inv_def rb_content_def last_bytes_def min_def add.commute)
qed

lemma Write_correct:
  assumes "rb_inv r"
  shows "rb_inv (fst (RingBuffer_Write r p)) \<and> rb_size (fst (RingBuffer_Write r p)) = rb_size r \<and>
     rb_content (fst (RingBuffer_Write r p)) = last_bytes (rb_size r) (rb_content r @ p) \<and>
     snd (RingBuffer_Write r p) = Ok (min (length p) (rb_size r))"
proof (cases "rb_size r \<le> length p")
  case True
  then show ?thesis
    using assms by (auto simp: Write_large) (auto simp: rb_inv_def rb_content_def last_bytes_def)
next
  case False
  then have "rb_content (fst (RingBuffer_Write r p)) = last_bytes (rb_size r) (rb_content r @ p)"
    using Write_content_fits Write_content_wraps assms by (metis not_le)
  moreover have "rb_inv (fst (RingBuffer_Write r p))"
    using assms False Write_small [OF assms, of p] by (auto simp: rb_inv_def min_def)
  ultimately show ?thesis using False Write_small [OF assms, of p] by simp
qed

lemma ReadAll_correct: "rb_inv r \<Longrightarrow> RingBuffer_ReadAll r = Ok (rb_content r)"
  by (auto simp: RingBuffer_ReadAll_def RingBuffer_Read_def sanitycheck_def copy_into_def slice_def Let_def
      rb_inv_def rb_content_def min_def)

section \<open>The interface a shell relies on\<close>

text \<open>
  A log of bounded size: writing appends and forgets the oldest bytes, reading returns what
  is kept.
\<close>

locale byte_log =
  fixes log_write :: "'r \<Rightarrow> string \<Rightarrow> 'r" and log_read :: "'r \<Rightarrow> string res"
    and log_inv :: "'r \<Rightarrow> bool" and log_content :: "'r \<Rightarrow> string" and log_limit :: "'r \<Rightarrow> nat"
  assumes write_inv: "log_inv r \<Longrightarrow> log_inv (log_write r p)"
    and write_limit: "log_inv r \<Longrightarrow> log_limit (log_write r p) = log_limit r"
    and write_content: "log_inv r \<Longrightarrow> log_content (log_write r p) = last_bytes (log_limit r) (log_content r @ p)"
    and read_content: "log_inv r \<Longrightarrow> log_read r = Ok (log_content r)"
begin

lemma writes:
  "log_inv r \<Longrightarrow> log_inv (foldl log_write r ps) \<and> log_limit (foldl log_write r ps) = log_limit r \<and>
     last_bytes (log_limit r) (log_content (foldl log_write r ps)) = last_bytes (log_limit r) (log_content r @ concat ps)"
proof (induction ps arbitrary: r)
  case (Cons p ps)
  then have "log_inv (log_write r p)" "log_limit (log_write r p) = log_limit r"
    "log_content (log_write r p) = last_bytes (log_limit r) (log_content r @ p)"
    using write_inv write_limit write_content by auto
  with Cons.IH [of "log_write r p"] show ?case by (simp add: last_bytes_append)
qed simp

lemma replay:
  assumes "log_inv r" "length (log_content (foldl log_write r ps)) \<le> log_limit r"
  shows "log_read (foldl log_write r ps) = Ok (last_bytes (log_limit r) (log_content r @ concat ps))"
  using writes [OF assms(1), of ps] assms(2) read_content by (simp add: last_bytes_def)

end

definition rb_write :: "RingBuffer \<Rightarrow> string \<Rightarrow> RingBuffer" where
  "rb_write r p = fst (RingBuffer_Write r p)"

interpretation rb: byte_log rb_write RingBuffer_ReadAll rb_inv rb_content rb_size
  by unfold_locales (simp_all add: rb_write_def Write_correct ReadAll_correct)

text \<open>
  C38. The ring buffer implements a log of the last bytes: whatever is written, in pieces of
  any size, reading returns exactly the last bytes of the whole text, as many as the buffer
  has room for, in the order they were written.
\<close>

theorem ring_buffer_refines_log:
  "res_map (\<lambda>r. RingBuffer_ReadAll (foldl rb_write r ps)) (RingBuffer_New (int n)) =
     Ok (Ok (last_bytes n (concat ps)))"
proof -
  obtain r where r: "RingBuffer_New (int n) = Ok r" by (simp add: RingBuffer_New_def)
  then have inv: "rb_inv r" "rb_content r = []" "rb_size r = n" using rb_New_inv by auto
  then have "length (rb_content (foldl rb_write r ps)) \<le> rb_size r"
    using rb.writes rb_content_length by metis
  from rb.replay [OF inv(1) this] inv show ?thesis by (simp add: r)
qed

text \<open>
  C40. Positions stay inside the buffer: from a well-formed buffer no write panics, the
  result is well formed and of the same size, the sanity check that \<^verbatim>\<open>Write\<close> ignores would not
  have failed, and the count returned is that of the bytes kept, less than what was given
  when the text is longer than the buffer although no error is returned.
\<close>

theorem ring_buffer_wf:
  assumes "rb_inv r"
  shows "rb_inv (fst (RingBuffer_Write r p)) \<and> sanitycheck r = Ok () \<and>
    rb_end (fst (RingBuffer_Write r p)) \<le> rb_size r \<and> length (rb_buffer (fst (RingBuffer_Write r p))) = rb_size r \<and>
    snd (RingBuffer_Write r p) = Ok (min (length p) (rb_size r))"
proof -
  have "sanitycheck r = Ok ()" using assms by (auto simp: sanitycheck_def rb_inv_def)
  then show ?thesis using Write_correct [OF assms, of p] by (auto simp: rb_inv_def)
qed

theorem ring_buffer_wf_witness:
  "snd (RingBuffer_Write \<lparr> rb_buffer = ''cdab'', rb_size = 4, rb_start = 2, rb_end = 2, rb_full = True \<rparr> ''efghi'') = Ok 4"
proof -
  have "rb_inv \<lparr> rb_buffer = ''cdab'', rb_size = 4, rb_start = 2, rb_end = 2, rb_full = True \<rparr>"
    by (simp add: rb_inv_def)
  from ring_buffer_wf [OF this, of "''efghi''"] show ?thesis by simp
qed

end
