(* ===== verification/Go_Json.thy ===== *)
theory Go_Json
  imports Mrtap_Util
begin

text \<open>
  The part of \<^verbatim>\<open>encoding/json\<close> that configuration files go through: values as trees, and how
  \<^verbatim>\<open>json.Unmarshal\<close> fills a string, a slice of strings, a map of strings and the fields of a
  struct. A \<^verbatim>\<open>null\<close> leaves the target as it was; a value of another type is a type error; an
  empty text is an error. Field names match up to case; of equal keys the last one counts.
\<close>

datatype jvalue = VNull | VBool bool | VNumber int | VString string | VArray "jvalue list"
  | VObject "(string \<times> jvalue) list"

text \<open>What unmarshalling reports: success, a type error or another error.\<close>

datatype 'a decoded = Decoded 'a | TypeError | SyntaxError

fun decoded_res :: "string \<Rightarrow> 'a decoded \<Rightarrow> 'a res" where
  "decoded_res what (Decoded a) = Ok a"
| "decoded_res what TypeError = Err (errorf (what @ ''json: cannot unmarshal value''))"
| "decoded_res what SyntaxError = Err (errorf (what @ ''unexpected end of JSON input''))"

fun decode_string :: "string \<Rightarrow> jvalue option \<Rightarrow> string decoded" where
  "decode_string old None = SyntaxError"
| "decode_string old (Some VNull) = Decoded old"
| "decode_string old (Some (VString s)) = Decoded s"
| "decode_string old (Some _) = TypeError"

fun decode_all :: "('a \<Rightarrow> 'b decoded) \<Rightarrow> 'a list \<Rightarrow> 'b list decoded" where
  "decode_all f [] = Decoded []"
| "decode_all f (x # xs) =
     (case f x of
        Decoded y \<Rightarrow> (case decode_all f xs of Decoded ys \<Rightarrow> Decoded (y # ys) | TypeError \<Rightarrow> TypeError | SyntaxError \<Rightarrow> SyntaxError)
      | TypeError \<Rightarrow> TypeError
      | SyntaxError \<Rightarrow> SyntaxError)"

definition decode_element :: "jvalue \<Rightarrow> string decoded" where
  "decode_element v = decode_string [] (Some v)"

text \<open>A slice or a map that was \<^verbatim>\<open>nil\<close> stays \<^verbatim>\<open>nil\<close> on \<^verbatim>\<open>null\<close>.\<close>

fun decode_strings :: "jvalue \<Rightarrow> string list option decoded" where
  "decode_strings VNull = Decoded None"
| "decode_strings (VArray vs) =
     (case decode_all decode_element vs of Decoded ss \<Rightarrow> Decoded (Some ss) | TypeError \<Rightarrow> TypeError | SyntaxError \<Rightarrow> SyntaxError)"
| "decode_strings _ = TypeError"

definition decode_pair :: "string \<times> jvalue \<Rightarrow> (string \<times> string) decoded" where
  "decode_pair kv = (case decode_element (snd kv) of
      Decoded s \<Rightarrow> Decoded (fst kv, s) | TypeError \<Rightarrow> TypeError | SyntaxError \<Rightarrow> SyntaxError)"

text \<open>A Go map is the list of its entries in the order they are printed.\<close>

definition al_sets :: "('k \<times> 'v) list \<Rightarrow> ('k \<times> 'v) list \<Rightarrow> ('k \<times> 'v) list" where
  "al_sets m ps = foldl (\<lambda>m (k, v). al_set m k v) m ps"

fun decode_string_map :: "jvalue \<Rightarrow> (string \<times> string) list option decoded" where
  "decode_string_map VNull = Decoded None"
| "decode_string_map (VObject kvs) =
     (case decode_all decode_pair kvs of
        Decoded ps \<Rightarrow> Decoded (Some (al_sets [] ps)) | TypeError \<Rightarrow> TypeError | SyntaxError \<Rightarrow> SyntaxError)"
| "decode_string_map _ = TypeError"

definition to_lower :: "string \<Rightarrow> string" where
  "to_lower s = map (\<lambda>c. if 65 \<le> (of_char c :: nat) \<and> of_char c \<le> (90 :: nat) then char_of (of_char c + 32 :: nat) else c) s"

definition struct_field :: "(string \<times> jvalue) list \<Rightarrow> string \<Rightarrow> jvalue option" where
  "struct_field kvs name = map_option snd (find (\<lambda>(k, v). to_lower k = to_lower name) (rev kvs))"

definition object_key :: "(string \<times> jvalue) list \<Rightarrow> string \<Rightarrow> jvalue option" where
  "object_key kvs name = map_of (rev kvs) name"

text \<open>A struct field that is absent keeps its zero value.\<close>

definition string_field :: "(string \<times> jvalue) list \<Rightarrow> string \<Rightarrow> string decoded" where
  "string_field kvs name = (case struct_field kvs name of None \<Rightarrow> Decoded [] | Some v \<Rightarrow> decode_element v)"

section \<open>Marshalling\<close>

definition marshal_string :: "string \<Rightarrow> jvalue" where
  "marshal_string s = VString (sanitize s)"

fun marshal_strings :: "string list option \<Rightarrow> jvalue" where
  "marshal_strings None = VNull"
| "marshal_strings (Some ss) = VArray (map marshal_string ss)"

fun marshal_string_map :: "(string \<times> string) list option \<Rightarrow> jvalue" where
  "marshal_string_map None = VNull"
| "marshal_string_map (Some kvs) = VObject (map (\<lambda>(k, v). (sanitize k, marshal_string v)) kvs)"

definition valid_utf8 :: "string \<Rightarrow> bool" where
  "valid_utf8 s \<longleftrightarrow> sanitize s = s"

lemma decode_marshal_string [simp]: "valid_utf8 s \<Longrightarrow> decode_string old (Some (marshal_string s)) = Decoded s"
  by (simp add: marshal_string_def valid_utf8_def)

lemma decode_element_marshal [simp]: "valid_utf8 s \<Longrightarrow> decode_element (marshal_string s) = Decoded s"
  by (simp add: decode_element_def)

lemma decode_all_map:
  "(\<And>x. x \<in> set xs \<Longrightarrow> f (g x) = Decoded (h x)) \<Longrightarrow> decode_all f (map g xs) = Decoded (map h xs)"
  by (induction xs) auto

lemma decode_marshal_strings [simp]:
  "(\<And>ss. o_ss = Some ss \<Longrightarrow> list_all valid_utf8 ss) \<Longrightarrow> decode_strings (marshal_strings o_ss) = Decoded o_ss"
  by (cases o_ss) (auto simp: decode_all_map [where h = "\<lambda>s. s"] list_all_iff)

lemma al_sets_fresh:
  "distinct (al_keys ps) \<Longrightarrow> set (al_keys m) \<inter> set (al_keys ps) = {} \<Longrightarrow> al_sets m ps = m @ ps"
proof (induction ps arbitrary: m)
  case (Cons p ps)
  obtain k v where p: "p = (k, v)" by fastforce
  have "al_sets m (p # ps) = al_sets (m @ [(k, v)]) ps"
    using Cons.prems p by (simp add: al_sets_def al_set_new)
  then show ?case using Cons p by auto
qed (simp add: al_sets_def)

lemma decode_marshal_string_map:
  assumes "\<And>kvs. om = Some kvs \<Longrightarrow> distinct (al_keys kvs) \<and> (\<forall>(k, v) \<in> set kvs. valid_utf8 k \<and> valid_utf8 v)"
  shows "decode_string_map (marshal_string_map om) = Decoded om"
proof (cases om)
  case (Some kvs)
  have "decode_all decode_pair (map (\<lambda>(k, v). (sanitize k, marshal_string v)) kvs) = Decoded (map (\<lambda>kv. kv) kvs)"
    by (rule decode_all_map)
       (use assms [OF Some] in \<open>auto simp: decode_pair_def valid_utf8_def marshal_string_def decode_element_def\<close>)
  then show ?thesis using assms [OF Some] Some by (simp add: al_sets_fresh)
qed simp

section \<open>Payloads\<close>

text \<open>
  Payloads of actions are read into structs and written from them. The parser of texts and the
  printer of values are arguments; a payload that is \<^verbatim>\<open>nil\<close> does not parse.
\<close>

type_synonym json_parser = "string \<Rightarrow> jvalue option"

type_synonym json_printer = "jvalue \<Rightarrow> string"

definition read_struct :: "json_parser \<Rightarrow> string option \<Rightarrow> (string \<times> jvalue) list option" where
  "read_struct J payload =
     (case payload of None \<Rightarrow> None
      | Some bs \<Rightarrow> (case J bs of Some VNull \<Rightarrow> Some [] | Some (VObject kvs) \<Rightarrow> Some kvs | _ \<Rightarrow> None))"

definition bytes_field :: "(string \<times> jvalue) list \<Rightarrow> string \<Rightarrow> string option" where
  "bytes_field kvs name =
     (case struct_field kvs name of None \<Rightarrow> Some [] | Some VNull \<Rightarrow> Some [] | Some (VString s) \<Rightarrow> DecodeString s | _ \<Rightarrow> None)"

definition uint32_field :: "(string \<times> jvalue) list \<Rightarrow> string \<Rightarrow> nat option" where
  "uint32_field kvs name =
     (case struct_field kvs name of
        None \<Rightarrow> Some 0 | Some VNull \<Rightarrow> Some 0
      | Some (VNumber n) \<Rightarrow> if 0 \<le> n \<and> n < 2 ^ 32 then Some (nat n) else None
      | _ \<Rightarrow> None)"

definition int_field :: "(string \<times> jvalue) list \<Rightarrow> string \<Rightarrow> int option" where
  "int_field kvs name =
     (case struct_field kvs name of
        None \<Rightarrow> Some 0 | Some VNull \<Rightarrow> Some 0
      | Some (VNumber n) \<Rightarrow> if - (2 ^ 63) \<le> n \<and> n < 2 ^ 63 then Some n else None
      | _ \<Rightarrow> None)"

definition bool_field :: "(string \<times> jvalue) list \<Rightarrow> string \<Rightarrow> bool option" where
  "bool_field kvs name =
     (case struct_field kvs name of None \<Rightarrow> Some False | Some VNull \<Rightarrow> Some False | Some (VBool b) \<Rightarrow> Some b | _ \<Rightarrow> None)"

definition text_field :: "(string \<times> jvalue) list \<Rightarrow> string \<Rightarrow> string option" where
  "text_field kvs name = (case string_field kvs name of Decoded s \<Rightarrow> Some s | _ \<Rightarrow> None)"

text \<open>A map of slices of strings, such as the headers of a request.\<close>

definition decode_header :: "string \<times> jvalue \<Rightarrow> (string \<times> string list) decoded" where
  "decode_header kv = (case decode_strings (snd kv) of
      Decoded None \<Rightarrow> Decoded (fst kv, []) | Decoded (Some vs) \<Rightarrow> Decoded (fst kv, vs)
    | TypeError \<Rightarrow> TypeError | SyntaxError \<Rightarrow> SyntaxError)"

definition headers_field :: "(string \<times> jvalue) list \<Rightarrow> string \<Rightarrow> (string \<times> string list) list option" where
  "headers_field kvs name =
     (case struct_field kvs name of
        None \<Rightarrow> Some [] | Some VNull \<Rightarrow> Some []
      | Some (VObject hs) \<Rightarrow> (case decode_all decode_header hs of Decoded ps \<Rightarrow> Some (al_sets [] ps) | _ \<Rightarrow> None)
      | _ \<Rightarrow> None)"

definition marshal_headers :: "(string \<times> string list) list \<Rightarrow> jvalue" where
  "marshal_headers hs = VObject (map (\<lambda>(k, vs). (k, VArray (map VString vs))) hs)"

end
