(* ===== verification/Agent_Shell.thy ===== *)
theory Agent_Shell
  imports Agent_DataChannel Ring_Buffer Go_Json
begin

text \<open>
  \<^verbatim>\<open>bctl/agent/plugin/shell\<close>: an interactive shell. Its terminal is known through the interface
  \<^verbatim>\<open>IPseudoTerminal\<close> and the lookup of the user through its result; both are arguments, as is the
  parser of JSON texts. The routine \<^verbatim>\<open>writePump\<close> is a sequence of turns; it creates the replay
  buffer when the shell is opened, and everything it does when it ends is one step.
\<close>

section \<open>State\<close>

record 't pty_ops =
  pty_Lookup :: "string \<Rightarrow> string res"
  pty_New :: "string \<Rightarrow> 't res"
  pty_Write :: "'t \<Rightarrow> string \<Rightarrow> 't \<times> unit res"
  pty_SetSize :: "'t \<Rightarrow> nat \<Rightarrow> nat \<Rightarrow> 't \<times> unit res"

record 't DefaultShell =
  sh_runAsUser :: string
  sh_doneClosed :: bool
  sh_stream :: "StreamMessage list"
  sh_sequenceNumber :: int
  sh_messageVersion :: string
  sh_ringBuffer :: "RingBuffer option"
  sh_terminal :: "'t option"

definition shellStdOutBuffCapacity :: int where
  "shellStdOutBuffCapacity = 10 * 1000"

definition DefaultShell_New :: "string \<Rightarrow> 't DefaultShell" where
  "DefaultShell_New runAsUser =
     \<lparr> sh_runAsUser = runAsUser, sh_doneClosed = False, sh_stream = [], sh_sequenceNumber = 1,
       sh_messageVersion = [], sh_ringBuffer = None, sh_terminal = None \<rparr>"

section \<open>The output routine\<close>

definition shell_sendStreamMessage :: "'t DefaultShell \<Rightarrow> string \<Rightarrow> string \<Rightarrow> 't DefaultShell" where
  "shell_sendStreamMessage d streamType content =
     d\<lparr>sh_stream := sh_stream d @ [\<lparr> sm_RequestId = [], sm_SchemaVersion = sh_messageVersion d,
          sm_SequenceNumber = sh_sequenceNumber d, sm_Action = ''shell/default'', sm_Type = streamType, sm_More = False,
          sm_LogId = [], sm_Content = EncodeToString content \<rparr>],
       sh_sequenceNumber := sh_sequenceNumber d + 1\<rparr>"

text \<open>
  The deferred calls of \<^verbatim>\<open>writePump\<close>: the recovery of panics runs first, so the panic of closing
  the done channel a second time is not recovered; then the terminal is killed and forgotten.
\<close>

definition pump_end :: "'t DefaultShell \<Rightarrow> 't DefaultShell \<times> unit res" where
  "pump_end d = (if sh_doneClosed d then (d, Panic) else (d\<lparr>sh_doneClosed := True, sh_terminal := None\<rparr>, Ok ()))"

text \<open>
  What one round of the loop sees: the terminal has exited, reading gives bytes, or reading
  fails (with the bytes read before). A round without a terminal does not happen.
\<close>

datatype pump_event = PumpExited | PumpRead string | PumpFailed string

definition writePump_turn :: "'t DefaultShell \<Rightarrow> pump_event \<Rightarrow> 't DefaultShell \<times> unit res" where
  "writePump_turn d ev =
     (if sh_terminal d = None then (d, Ok ())
      else (case ev of
              PumpExited \<Rightarrow> pump_end (shell_sendStreamMessage d ''stop'' [])
            | PumpFailed bytes \<Rightarrow> pump_end (shell_sendStreamMessage d ''stop'' bytes)
            | PumpRead bytes \<Rightarrow>
               (case sh_ringBuffer d of
                  None \<Rightarrow> pump_end d
                | Some r \<Rightarrow> (shell_sendStreamMessage (d\<lparr>sh_ringBuffer := Some (fst (RingBuffer_Write r bytes))\<rparr>) ''stdout'' bytes, Ok ()))))"

fun writePump :: "'t DefaultShell \<Rightarrow> pump_event list \<Rightarrow> 't DefaultShell \<times> unit res" where
  "writePump d [] = (d, Ok ())"
| "writePump d (ev # evs) = (case writePump_turn d ev of (d', Ok _) \<Rightarrow> writePump d' evs | (d', r) \<Rightarrow> (d', r))"

section \<open>Actions\<close>

text \<open>
  \<^verbatim>\<open>Kill\<close> kills the terminal and waits until \<^verbatim>\<open>writePump\<close> has ended; whether that routine still sends
  its stop message is a race.
\<close>

definition shell_Kill :: "bool \<Rightarrow> 't DefaultShell \<Rightarrow> 't DefaultShell \<times> unit res" where
  "shell_Kill stopSent d =
     (if sh_terminal d = None then (d, Ok ())
      else pump_end (if stopSent then shell_sendStreamMessage d ''stop'' [] else d))"

definition shell_open :: "'t pty_ops \<Rightarrow> 't DefaultShell \<Rightarrow> 't DefaultShell \<times> unit res" where
  "shell_open T d =
     (if sh_terminal d \<noteq> None
      then (d, Err (errorf ''attempted to start the shell but a call to open a shell has already been made''))
      else (case pty_Lookup T (sh_runAsUser d) of
              Err e \<Rightarrow> (d, Err (errorf_w (''failed to log in as user '' @ sh_runAsUser d @ '': '') e))
            | Panic \<Rightarrow> (d, Panic)
            | Ok usr \<Rightarrow>
               (case pty_New T usr of
                  Err e \<Rightarrow> (d, Err e) | Panic \<Rightarrow> (d, Panic)
                | Ok terminal \<Rightarrow>
                   (case RingBuffer_New shellStdOutBuffCapacity of
                      Ok r \<Rightarrow> (d\<lparr>sh_terminal := Some terminal, sh_ringBuffer := Some r\<rparr>, Ok ())
                    | _ \<Rightarrow> (d, Panic)))))"

definition writeToTerminal :: "'t pty_ops \<Rightarrow> 't DefaultShell \<Rightarrow> string \<Rightarrow> 't DefaultShell \<times> unit res" where
  "writeToTerminal T d keystrokes =
     (case sh_terminal d of
        None \<Rightarrow> (d, Err (errorf ''could not process input; no terminal associated with this action''))
      | Some t \<Rightarrow> (case pty_Write T t keystrokes of (t', r) \<Rightarrow> (d\<lparr>sh_terminal := Some t'\<rparr>, r)))"

definition setSize :: "'t pty_ops \<Rightarrow> 't DefaultShell \<Rightarrow> nat \<Rightarrow> nat \<Rightarrow> 't DefaultShell \<times> unit res" where
  "setSize T d cols rows =
     (case sh_terminal d of
        None \<Rightarrow> (d, Err (errorf ''can't set size of non-existant terminal''))
      | Some t \<Rightarrow> (case pty_SetSize T t cols rows of (t', r) \<Rightarrow> (d\<lparr>sh_terminal := Some t'\<rparr>, r)))"

text \<open>
  Reading the payloads: the fields of the messages of \<^verbatim>\<open>bzerolib/plugin/shell\<close>. Of the error for a
  malformed payload the fixed text is kept, not the parser's.
\<close>

definition with_payload ::
  "string \<Rightarrow> 'a option \<Rightarrow> 's \<Rightarrow> ('a \<Rightarrow> 's \<times> unit res) \<Rightarrow> 's \<times> string option res" where
  "with_payload what m d act =
     (case m of
        None \<Rightarrow> (d, Err (errorf (''malformed shell '' @ what @ '' payload: '')))
      | Some a \<Rightarrow> (case act a of (d', r) \<Rightarrow> (d', res_map (\<lambda>_. Some []) r)))"

definition read_open :: "json_parser \<Rightarrow> string option \<Rightarrow> string option" where
  "read_open J payload =
     Option.bind (read_struct J payload) (\<lambda>kvs. case string_field kvs ''streamMessageVersion'' of Decoded v \<Rightarrow> Some v | _ \<Rightarrow> None)"

definition read_input :: "json_parser \<Rightarrow> string option \<Rightarrow> string option" where
  "read_input J payload = Option.bind (read_struct J payload) (\<lambda>kvs. bytes_field kvs ''data'')"

definition read_resize :: "json_parser \<Rightarrow> string option \<Rightarrow> (nat \<times> nat) option" where
  "read_resize J payload =
     Option.bind (read_struct J payload) (\<lambda>kvs.
       Option.bind (uint32_field kvs ''cols'') (\<lambda>c. map_option (Pair c) (uint32_field kvs ''rows'')))"

definition DefaultShell_Receive ::
  "json_parser \<Rightarrow> 't pty_ops \<Rightarrow> bool \<Rightarrow> 't DefaultShell \<Rightarrow> string \<Rightarrow> string option \<Rightarrow> 't DefaultShell \<times> string option res" where
  "DefaultShell_Receive J T stopSent d action actionPayload =
     (if action = ''shell/open''
      then with_payload ''open'' (read_open J actionPayload) d (\<lambda>v. shell_open T (d\<lparr>sh_messageVersion := v\<rparr>))
      else if action = ''shell/close''
      then (case shell_Kill stopSent d of (d', r) \<Rightarrow> (d', res_map (\<lambda>_. Some []) r))
      else if action = ''shell/input''
      then with_payload ''input'' (read_input J actionPayload) d (writeToTerminal T d)
      else if action = ''shell/resize''
      then with_payload ''resize'' (read_resize J actionPayload) d (\<lambda>(cols, rows). setSize T d cols rows)
      else if action = ''shell/replay''
      then (case sh_ringBuffer d of
              None \<Rightarrow> (d, Panic)
            | Some r \<Rightarrow> (d, wrap_err (errorf_s ''failed to read from stdout buff for shell replay '')
                              (res_map Some (RingBuffer_ReadAll r))))
      else (d, Err (errorf (''unrecognized shell action received: '' @ action))))"

section \<open>The plugin\<close>

definition shell_parseAction :: "string \<Rightarrow> string res" where
  "shell_parseAction action =
     (let parsedAction = split action ''/'' in
      if length parsedAction < 2 then Err (errorf (''malformed action: '' @ action)) else Ok (parsedAction ! 1))"

definition ShellPlugin_New :: "json_parser \<Rightarrow> string \<Rightarrow> string option \<Rightarrow> 't DefaultShell res" where
  "ShellPlugin_New J action payload =
     (case Option.bind (read_struct J payload) (\<lambda>kvs. case string_field kvs ''targetUser'' of Decoded u \<Rightarrow> Some u | _ \<Rightarrow> None) of
        None \<Rightarrow> Err (errorf (''malformed Shell plugin SYN payload '' @ (case payload of None \<Rightarrow> [] | Some b \<Rightarrow> b)))
      | Some targetUser \<Rightarrow>
         (case shell_parseAction action of
            Err e \<Rightarrow> Err e | Panic \<Rightarrow> Panic
          | Ok parsedAction \<Rightarrow>
             if parsedAction = ''default'' then Ok (DefaultShell_New targetUser)
             else Err (errorf (''could not start unhandled shell action: '' @ action))))"

definition ShellPlugin_Receive ::
  "json_parser \<Rightarrow> 't pty_ops \<Rightarrow> bool \<Rightarrow> 't DefaultShell \<Rightarrow> string \<Rightarrow> string option \<Rightarrow> 't DefaultShell \<times> string option res" where
  "ShellPlugin_Receive J T stopSent s action actionPayload = DefaultShell_Receive J T stopSent s action actionPayload"

definition ShellPlugin_Kill :: "bool \<Rightarrow> 't DefaultShell \<Rightarrow> 't DefaultShell \<times> unit res" where
  "ShellPlugin_Kill stopSent s = shell_Kill stopSent s"

text \<open>The plugin as the data channel uses it.\<close>

definition shell_plugin_ops :: "json_parser \<Rightarrow> 't pty_ops \<Rightarrow> bool \<Rightarrow> 't DefaultShell plugin_ops" where
  "shell_plugin_ops J T stopSent = \<lparr>
     plugin_New = (\<lambda>name action payload. ShellPlugin_New J action payload),
     plugin_Receive = ShellPlugin_Receive J T stopSent \<rparr>"

section \<open>Lemmas\<close>

definition stdout_message :: "string \<Rightarrow> int \<Rightarrow> string \<Rightarrow> StreamMessage" where
  "stdout_message v n bytes = \<lparr> sm_RequestId = [], sm_SchemaVersion = v, sm_SequenceNumber = n, sm_Action = ''shell/default'',
     sm_Type = ''stdout'', sm_More = False, sm_LogId = [], sm_Content = EncodeToString bytes \<rparr>"

fun stdout_messages :: "string \<Rightarrow> int \<Rightarrow> string list \<Rightarrow> StreamMessage list" where
  "stdout_messages v n [] = []"
| "stdout_messages v n (b # bs) = stdout_message v n b # stdout_messages v (n + 1) bs"

lemma writePump_reads:
  assumes "sh_terminal d = Some t" "sh_ringBuffer d = Some r"
  shows "writePump d (map PumpRead bs) = (d\<lparr>sh_ringBuffer := Some (foldl rb_write r bs),
     sh_stream := sh_stream d @ stdout_messages (sh_messageVersion d) (sh_sequenceNumber d) bs,
     sh_sequenceNumber := sh_sequenceNumber d + int (length bs)\<rparr>, Ok ())"
  using assms
proof (induction bs arbitrary: d r)
  case (Cons b bs)
  let ?d = "shell_sendStreamMessage (d\<lparr>sh_ringBuffer := Some (rb_write r b)\<rparr>) ''stdout'' b"
  have "writePump d (map PumpRead (b # bs)) = writePump ?d (map PumpRead bs)"
    using Cons.prems by (simp add: writePump_turn_def rb_write_def)
  then show ?case
    using Cons.prems by (simp add: Cons.IH shell_sendStreamMessage_def stdout_message_def algebra_simps)
qed simp

lemma writePump_append:
  "writePump d (evs @ evs') = (case writePump d evs of (d', Ok _) \<Rightarrow> writePump d' evs' | (d', r) \<Rightarrow> (d', r))"
  by (induction d evs rule: writePump.induct) (simp_all split: prod.splits res.splits)

lemma shell_open_Ok:
  assumes "shell_open T d = (d', Ok u)"
  shows "\<exists>t r. d' = d\<lparr>sh_terminal := Some t, sh_ringBuffer := Some r\<rparr> \<and> RingBuffer_New 10000 = Ok r \<and> sh_terminal d = None"
  using assms by (auto simp: shell_open_def shellStdOutBuffCapacity_def split: res.splits if_splits)

lemma replay_after_reads:
  assumes "RingBuffer_New 10000 = Ok r"
  shows "RingBuffer_ReadAll (foldl rb_write r bs) = Ok (last_bytes 10000 (concat bs))"
proof -
  have inv: "rb_inv r" "rb_content r = []" "rb_size r = 10000" using rb_New_inv [OF assms] by simp_all
  then have "length (rb_content (foldl rb_write r bs)) \<le> rb_size r" using rb.writes rb_content_length by metis
  from rb.replay [OF inv(1) this] inv show ?thesis by simp
qed

lemma Receive_replay:
  "sh_ringBuffer d = Some r \<Longrightarrow> RingBuffer_ReadAll r = Ok s \<Longrightarrow>
   DefaultShell_Receive J T stopSent d ''shell/replay'' pl = (d, Ok (Some s))"
  by (simp add: DefaultShell_Receive_def)

text \<open>
  One message crashes the agent: a Data message with the replay action on a shell that
  was not opened is validated and then reads a buffer that does not exist, and a shell that
  is opened and closed twice closes its done channel twice. Neither panic is recovered.
\<close>

theorem shell_misuse_panics:
  assumes "agent_Validate (aenv_lib E) (aenv_now E) (dc_mrtap d) msg = (m, Ok u)" and "msg_Payload msg = PData p"
    and "data_Action p = ''shell/replay''" and "dc_payloadClean d" and "dc_plugin d = HasPlugin (DefaultShell_New user)"
    and "pty_Lookup T user = Ok usr" and "pty_New T usr = Ok t"
  shows "snd (handleMrtapMessage E (shell_plugin_ops J T stopSent) d msg) = Panic \<and>
    (let opened = fst (shell_open T (DefaultShell_New user)); closed = fst (shell_Kill stopSent opened);
         reopened = fst (shell_open T closed) in snd (shell_Kill stopSent reopened) = Panic)"
proof
  have t: "msg_Type msg = Data" using agent_Validate_Ok_type [OF assms(1)] assms(2) by auto
  have "plugin_Receive (shell_plugin_ops J T stopSent) (DefaultShell_New user) ''shell/replay'' pl =
      (DefaultShell_New user, Panic)" for pl
    by (simp add: shell_plugin_ops_def ShellPlugin_Receive_def DefaultShell_Receive_def DefaultShell_New_def)
  then show "snd (handleMrtapMessage E (shell_plugin_ops J T stopSent) d msg) = Panic"
    using assms t by (simp add: handleMrtapMessage_def handle_Data_def)
  obtain r where r: "RingBuffer_New 10000 = Ok r" by (simp add: RingBuffer_New_def)
  show "let opened = fst (shell_open T (DefaultShell_New user)); closed = fst (shell_Kill stopSent opened);
         reopened = fst (shell_open T closed) in snd (shell_Kill stopSent reopened) = Panic"
    using assms(6,7) r
    by (simp add: shell_open_def DefaultShell_New_def shell_Kill_def pump_end_def shell_sendStreamMessage_def
        shellStdOutBuffCapacity_def)
qed

section \<open>Witness\<close>

definition log_pty :: "string pty_ops" where
  "log_pty = \<lparr> pty_Lookup = (\<lambda>u. Ok u), pty_New = (\<lambda>u. Ok []), pty_Write = (\<lambda>t s. (t @ s, Ok ())),
     pty_SetSize = (\<lambda>t c r. (t, Ok ())) \<rparr>"

theorem shell_misuse_panics_witness:
  "\<exists>d msg. snd (handleMrtapMessage wit_agent_env (shell_plugin_ops (\<lambda>_. None) log_pty True) d msg) = Panic"
proof -
  let ?d = "wit_data\<lparr>data_HPointer := [], data_BZCertHash := EncodeToString (replicate 32 CHR ''h''),
    data_Action := ''shell/replay''\<rparr>"
  let ?msg = "(wit_data_msg wit_key [])\<lparr>msg_Payload := PData ?d\<rparr>"
  let ?c = "\<lparr> dc_id = ''c'', dc_mrtap = wit_agent, dc_plugin = HasPlugin (DefaultShell_New ''root''), dc_output = [],
     dc_payloadClean = True \<rparr>"
  have v: "agent_Validate (aenv_lib wit_agent_env) (aenv_now wit_agent_env) (dc_mrtap ?c) ?msg =
      (wit_agent\<lparr>lastDataMessage := Some ?msg\<rparr>, Ok ())"
    using wit_VerifySignature [of wit_key ?msg]
    by (simp add: wit_data_msg_def Validate_Data_Ok BZCert_Hash_def BZCert_Expired_def second_def)
  from shell_misuse_panics [OF v, of ?d "''root''" log_pty "''root''" "[]" "\<lambda>_. None" True]
  show ?thesis by (auto simp: log_pty_def)
qed

end
