(* ===== verification/Daemon_Shell.thy ===== *)
theory Daemon_Shell
  imports Daemon_DataChannel Agent_Shell
begin

text \<open>
  \<^verbatim>\<open>bctl/daemon/plugin/shell\<close>: the user's end of a shell. Key presses are collected and sent as
  input messages, what the agent streams is written to standard output. Standard output is
  what was written to it; the routines are sequences of turns; \<^term>\<open>M\<close> prints JSON values.
\<close>

record daemon_DefaultShell =
  ds_killed :: "gerror option"
  ds_outbox :: "(string \<times> string option) list"
  ds_stdInChan :: string
  ds_inputBuf :: string
  ds_isConnected :: bool
  ds_stdout :: string

definition daemon_DefaultShell_New :: daemon_DefaultShell where
  "daemon_DefaultShell_New = \<lparr> ds_killed = None, ds_outbox = [], ds_stdInChan = [], ds_inputBuf = [],
     ds_isConnected = False, ds_stdout = [] \<rparr>"

definition ShellQuit :: gerror where
  "ShellQuit = GErr ''received shell quit stream message'' [ShellQuitError]"

definition ShellCancelled :: gerror where
  "ShellCancelled = GErr ''shell request cancelled by user'' [ShellCancelledError]"

definition ds_Kill :: "daemon_DefaultShell \<Rightarrow> gerror \<Rightarrow> daemon_DefaultShell" where
  "ds_Kill d err = d\<lparr>ds_killed := (case ds_killed d of None \<Rightarrow> Some err | Some e \<Rightarrow> Some e)\<rparr>"

definition sendOutputMessage :: "json_printer \<Rightarrow> daemon_DefaultShell \<Rightarrow> string \<Rightarrow> jvalue \<Rightarrow> daemon_DefaultShell" where
  "sendOutputMessage M d action payload = d\<lparr>ds_outbox := ds_outbox d @ [(action, Some (M payload))]\<rparr>"

definition shellInput_json :: "string \<Rightarrow> jvalue" where
  "shellInput_json bytes = VObject [(''data'', VString (EncodeToString bytes))]"

text \<open>\<^verbatim>\<open>start\<close> on Unix: the terminal size is sent if it can be read, the terminal is made raw.\<close>

definition sendTerminalSize :: "json_printer \<Rightarrow> daemon_DefaultShell \<Rightarrow> (nat \<times> nat) option \<Rightarrow> daemon_DefaultShell" where
  "sendTerminalSize M d size_wh =
     (case size_wh of
        None \<Rightarrow> d
      | Some (w, h) \<Rightarrow> sendOutputMessage M d ''shell/resize''
          (VObject [(''cols'', VNumber (int w mod 2 ^ 32)), (''rows'', VNumber (int h mod 2 ^ 32))]))"

definition ds_Start ::
  "json_printer \<Rightarrow> daemon_DefaultShell \<Rightarrow> bool \<Rightarrow> (nat \<times> nat) option \<Rightarrow> unit res \<Rightarrow> daemon_DefaultShell \<times> unit res" where
  "ds_Start M d attach size_wh makeRaw =
     (let d1 = (if attach then sendOutputMessage M d ''shell/replay'' (VObject [])
                else sendOutputMessage M d ''shell/open'' (VObject [(''streamMessageVersion'', VString ''202204'')])) in
      (sendTerminalSize M d1 size_wh, wrap_err (errorf_s ''error switching std to raw mode: '') makeRaw))"

definition ds_Replay :: "daemon_DefaultShell \<Rightarrow> string option \<Rightarrow> unit res \<Rightarrow> daemon_DefaultShell \<times> unit res" where
  "ds_Replay d replayData writeResult =
     (case writeResult of
        Ok _ \<Rightarrow> (d\<lparr>ds_stdout := ds_stdout d @ (case replayData of None \<Rightarrow> [] | Some b \<Rightarrow> b)\<rparr>, Ok ())
      | r \<Rightarrow> (d, r))"

definition ds_ReceiveStream :: "daemon_DefaultShell \<Rightarrow> StreamMessage \<Rightarrow> daemon_DefaultShell" where
  "ds_ReceiveStream d smessage =
     (let d1 = d\<lparr>ds_isConnected := True\<rparr> in
      if sm_Type smessage = ''stdout''
      then (case DecodeString (sm_Content smessage) of None \<Rightarrow> d1 | Some contentBytes \<Rightarrow> d1\<lparr>ds_stdout := ds_stdout d1 @ contentBytes\<rparr>)
      else if sm_Type smessage = ''stop'' then ds_Kill d1 ShellQuit
      else d1)"

section \<open>Input\<close>

text \<open>
  A round of \<^verbatim>\<open>readFromStdIn\<close>: a byte that was read, or a failed read. Before the shell has
  shown anything, the interrupt keys cancel it. A round of \<^verbatim>\<open>sendStdIn\<close> takes one byte or, when
  no byte came for a while, sends what was collected.
\<close>

datatype input_event = Key char | ReadFailed gerror | Take | Tick

definition input_turn :: "json_printer \<Rightarrow> daemon_DefaultShell \<Rightarrow> input_event \<Rightarrow> daemon_DefaultShell" where
  "input_turn M d ev =
     (if ds_killed d \<noteq> None then d
      else (case ev of
              Key b \<Rightarrow>
                if \<not> ds_isConnected d \<and> b \<in> {CHR 0x03, CHR 0x04, CHR 0x1C} then ds_Kill d ShellCancelled
                else d\<lparr>ds_stdInChan := ds_stdInChan d @ [b]\<rparr>
            | ReadFailed e \<Rightarrow> ds_Kill d (errorf_w ''error reading last keypress from Stdin: '' e)
            | Take \<Rightarrow>
                (case ds_stdInChan d of [] \<Rightarrow> d | b # bs \<Rightarrow> d\<lparr>ds_stdInChan := bs, ds_inputBuf := ds_inputBuf d @ [b]\<rparr>)
            | Tick \<Rightarrow>
                if 1 \<le> length (ds_inputBuf d)
                then (sendOutputMessage M d ''shell/input'' (shellInput_json (ds_inputBuf d)))\<lparr>ds_inputBuf := []\<rparr>
                else d))"

section \<open>The plugin\<close>

record ShellDaemonPlugin =
  sp_killed :: bool
  sp_action :: "daemon_DefaultShell option"

definition ShellDaemonPlugin_New :: ShellDaemonPlugin where
  "ShellDaemonPlugin_New = \<lparr> sp_killed = False, sp_action = None \<rparr>"

definition StartAction ::
  "json_printer \<Rightarrow> ShellDaemonPlugin \<Rightarrow> bool \<Rightarrow> (nat \<times> nat) option \<Rightarrow> unit res \<Rightarrow> ShellDaemonPlugin \<times> unit res" where
  "StartAction M s attach size_wh makeRaw =
     (if sp_killed s then (s, Err (errorf ''plugin has already been killed, cannot create a new shell action''))
      else (case ds_Start M daemon_DefaultShell_New attach size_wh makeRaw of
              (d, r) \<Rightarrow> (s\<lparr>sp_action := Some d\<rparr>, wrap_err (errorf_s ''error starting the shell action: '') r)))"

definition ShellDaemonPlugin_Kill :: "ShellDaemonPlugin \<Rightarrow> gerror \<Rightarrow> ShellDaemonPlugin" where
  "ShellDaemonPlugin_Kill s err = s\<lparr>sp_killed := True, sp_action := map_option (\<lambda>d. ds_Kill d err) (sp_action s)\<rparr>"

definition ShellDaemonPlugin_Err :: "ShellDaemonPlugin \<Rightarrow> gerror option res" where
  "ShellDaemonPlugin_Err s = (case sp_action s of None \<Rightarrow> Panic | Some d \<Rightarrow> Ok (ds_killed d))"

definition ShellDaemonPlugin_ReceiveStream :: "ShellDaemonPlugin \<Rightarrow> StreamMessage \<Rightarrow> ShellDaemonPlugin" where
  "ShellDaemonPlugin_ReceiveStream s smessage = s\<lparr>sp_action := map_option (\<lambda>d. ds_ReceiveStream d smessage) (sp_action s)\<rparr>"

definition ShellDaemonPlugin_ReceiveMrtap ::
  "unit res \<Rightarrow> ShellDaemonPlugin \<Rightarrow> string \<Rightarrow> string option \<Rightarrow> ShellDaemonPlugin \<times> unit res" where
  "ShellDaemonPlugin_ReceiveMrtap writeResult s action actionPayload =
     (if action = ''shell/replay''
      then (case sp_action s of
              None \<Rightarrow> (s, Panic)
            | Some d \<Rightarrow> (case ds_Replay d actionPayload writeResult of (d', r) \<Rightarrow> (s\<lparr>sp_action := Some d'\<rparr>, r)))
      else (s, Ok ()))"

definition shell_daemon_ops :: "ShellDaemonPlugin daemon_plugin_ops" where
  "shell_daemon_ops = \<lparr> dp_ReceiveMrtap = ShellDaemonPlugin_ReceiveMrtap (Ok ()), dp_ReceiveStream = ShellDaemonPlugin_ReceiveStream,
     dp_Kill = (\<lambda>s err. ShellDaemonPlugin_Kill s (case err of None \<Rightarrow> errorf [] | Some e \<Rightarrow> e)) \<rparr>"

section \<open>A session\<close>

lemma ReceiveStream_stdout:
  "foldl ds_ReceiveStream d (stdout_messages v n bs) =
     (if bs = [] then d else d\<lparr>ds_isConnected := True, ds_stdout := ds_stdout d @ concat bs\<rparr>)"
  by (induction bs arbitrary: d n) (simp_all add: stdout_message_def ds_ReceiveStream_def)

text \<open>
  What the shell prints is what the user sees: after the shell was opened, everything
  read from its terminal, in pieces of any size, is written to the user's standard output in
  order, and its exit ends the daemon with success; a user who attaches again is shown the
  last ten thousand bytes of it.
\<close>

theorem shell_output_delivered:
  assumes "shell_open T d = (d0, Ok ())" and "sh_stream d = []" and "\<not> sh_doneClosed d" and "ds_killed u = None"
  shows "\<exists>d1 d2. writePump d0 (map PumpRead bs) = (d1, Ok ()) \<and>
    DefaultShell_Receive J T stopSent d1 ''shell/replay'' pl = (d1, Ok (Some (last_bytes 10000 (concat bs)))) \<and>
    writePump d0 (map PumpRead bs @ [PumpExited]) = (d2, Ok ()) \<and>
    ds_stdout (foldl ds_ReceiveStream u (sh_stream d2)) = ds_stdout u @ concat bs \<and>
    HandleDaemonExit (ds_killed (foldl ds_ReceiveStream u (sh_stream d2))) = 0"
proof -
  obtain t r where o: "d0 = d\<lparr>sh_terminal := Some t, sh_ringBuffer := Some r\<rparr>" "RingBuffer_New 10000 = Ok r"
    using shell_open_Ok [OF assms(1)] by blast
  let ?d1 = "d0\<lparr>sh_ringBuffer := Some (foldl rb_write r bs),
     sh_stream := stdout_messages (sh_messageVersion d0) (sh_sequenceNumber d0) bs,
     sh_sequenceNumber := sh_sequenceNumber d0 + int (length bs)\<rparr>"
  let ?d2 = "(shell_sendStreamMessage ?d1 ''stop'' [])\<lparr>sh_doneClosed := True, sh_terminal := None\<rparr>"
  have w: "writePump d0 (map PumpRead bs) = (?d1, Ok ())"
    using writePump_reads [of d0 t r bs] o(1) assms(2) by simp
  have x: "writePump d0 (map PumpRead bs @ [PumpExited]) = (?d2, Ok ())"
    using w o(1) assms(3) by (simp add: writePump_append writePump_turn_def pump_end_def shell_sendStreamMessage_def)
  have r: "DefaultShell_Receive J T stopSent ?d1 ''shell/replay'' pl = (?d1, Ok (Some (last_bytes 10000 (concat bs))))"
    by (rule Receive_replay [OF _ replay_after_reads [OF o(2)]]) simp
  have "ds_stdout (foldl ds_ReceiveStream u (sh_stream ?d2)) = ds_stdout u @ concat bs"
    "ds_killed (foldl ds_ReceiveStream u (sh_stream ?d2)) = Some ShellQuit"
    using assms(4) by (simp_all add: shell_sendStreamMessage_def ReceiveStream_stdout ds_ReceiveStream_def ds_Kill_def)
  then show ?thesis using w x r by (auto simp: HandleDaemonExit_def ShellQuit_def)
qed

text \<open>What was typed is either sent, collected or still in the channel.\<close>

fun typed :: "input_event list \<Rightarrow> string" where
  "typed [] = []"
| "typed (Key b # evs) = b # typed evs"
| "typed (_ # evs) = typed evs"

definition inputs_of :: "(string \<times> string option) list \<Rightarrow> json_parser \<Rightarrow> string" where
  "inputs_of ob J = concat (map (\<lambda>(a, p). case read_input J p of Some b \<Rightarrow> b | None \<Rightarrow> []) (filter (\<lambda>(a, p). a = ''shell/input'') ob))"

definition pending :: "json_parser \<Rightarrow> daemon_DefaultShell \<Rightarrow> string" where
  "pending J d = inputs_of (ds_outbox d) J @ ds_inputBuf d @ ds_stdInChan d"

lemma read_input_sent: "(\<And>b. J (M (shellInput_json b)) = Some (shellInput_json b)) \<Longrightarrow> read_input J (Some (M (shellInput_json b))) = Some b"
  by (simp add: read_input_def read_struct_def) (simp add: shellInput_json_def bytes_field_def struct_field_def)

lemma input_turn_pending:
  assumes "\<And>b. J (M (shellInput_json b)) = Some (shellInput_json b)" "ds_isConnected d" "ds_killed d = None" "\<And>e. ev \<noteq> ReadFailed e"
  shows "pending J (input_turn M d ev) = pending J d @ typed [ev] \<and> ds_isConnected (input_turn M d ev) \<and>
    ds_killed (input_turn M d ev) = None"
  using assms(2-4) read_input_sent [OF assms(1)]
  by (cases ev) (auto simp: input_turn_def pending_def inputs_of_def sendOutputMessage_def split: list.splits)

lemma input_turns_pending:
  assumes "\<And>b. J (M (shellInput_json b)) = Some (shellInput_json b)"
  shows "ds_isConnected d \<Longrightarrow> ds_killed d = None \<Longrightarrow> \<forall>e. ReadFailed e \<notin> set evs \<Longrightarrow>
    pending J (foldl (input_turn M) d evs) = pending J d @ typed evs"
proof (induction evs arbitrary: d)
  case (Cons ev evs)
  have s: "pending J (input_turn M d ev) = pending J d @ typed [ev]" "ds_isConnected (input_turn M d ev)"
    "ds_killed (input_turn M d ev) = None"
    using input_turn_pending [OF assms Cons.prems(1,2), of ev] Cons.prems(3) by auto
  have "typed (ev # evs) = typed [ev] @ typed evs" by (cases ev) simp_all
  then show ?case using Cons.IH [OF s(2,3)] s(1) Cons.prems(3) by simp
qed simp

text \<open>The agent's side of the input: the messages are handled one after the other.\<close>

primrec feed :: "json_parser \<Rightarrow> 't pty_ops \<Rightarrow> 't DefaultShell \<Rightarrow> (string \<times> string option) list \<Rightarrow> 't DefaultShell" where
  "feed J T d [] = d"
| "feed J T d (m # ms) = feed J T (fst (DefaultShell_Receive J T True d (fst m) (snd m))) ms"

lemma feed_inputs:
  assumes "\<And>t s. pty_Write T t s = (t @ s, Ok ())"
  shows "sh_terminal d = Some t \<Longrightarrow> \<forall>m \<in> set ms. fst m = ''shell/input'' \<and> read_input J (snd m) \<noteq> None \<Longrightarrow>
    sh_terminal (feed J T d ms) = Some (t @ inputs_of ms J)"
proof (induction ms arbitrary: d t)
  case (Cons m ms)
  then obtain b where b: "fst m = ''shell/input''" "read_input J (snd m) = Some b" by auto
  have "fst (DefaultShell_Receive J T True d ''shell/input'' (snd m)) = d\<lparr>sh_terminal := Some (t @ b)\<rparr>"
    using b assms Cons.prems(1) by (simp add: DefaultShell_Receive_def with_payload_def writeToTerminal_def)
  then show ?case using Cons.IH [of "d\<lparr>sh_terminal := Some (t @ b)\<rparr>" "t @ b"] Cons.prems(2) b
    by (auto simp: inputs_of_def case_prod_unfold)
qed (simp add: inputs_of_def)

definition inputs_only :: "json_parser \<Rightarrow> (string \<times> string option) list \<Rightarrow> bool" where
  "inputs_only J ob \<longleftrightarrow> (\<forall>m \<in> set ob. fst m = ''shell/input'' \<and> read_input J (snd m) \<noteq> None)"

lemma input_turns_only:
  assumes "\<And>b. J (M (shellInput_json b)) = Some (shellInput_json b)"
  shows "inputs_only J (ds_outbox d) \<Longrightarrow> inputs_only J (ds_outbox (foldl (input_turn M) d evs))"
proof (induction evs arbitrary: d)
  case (Cons ev evs)
  have "inputs_only J (ds_outbox (input_turn M d ev))"
    using Cons.prems read_input_sent [OF assms]
    by (auto simp: input_turn_def inputs_only_def sendOutputMessage_def ds_Kill_def split: input_event.splits list.splits)
  then show ?case using Cons.IH by simp
qed simp

lemma input_turns_connected:
  assumes "ds_isConnected d" "ds_killed d = None" "\<forall>e. ReadFailed e \<notin> set evs"
  shows "ds_isConnected (foldl (input_turn M) d evs) \<and> ds_killed (foldl (input_turn M) d evs) = None"
  using assms
proof (induction evs arbitrary: d)
  case (Cons ev evs)
  have "ds_isConnected (input_turn M d ev) \<and> ds_killed (input_turn M d ev) = None"
    using Cons.prems by (cases ev) (auto simp: input_turn_def sendOutputMessage_def split: list.splits)
  then show ?case using Cons.IH Cons.prems(3) by simp
qed simp

lemma takes_drain:
  "ds_killed d = None \<Longrightarrow> length (ds_stdInChan d) \<le> n \<Longrightarrow>
   foldl (input_turn M) d (replicate n Take) = d\<lparr>ds_stdInChan := [], ds_inputBuf := ds_inputBuf d @ ds_stdInChan d\<rparr>"
proof (induction n arbitrary: d)
  case (Suc n)
  then show ?case by (cases "ds_stdInChan d") (simp_all add: input_turn_def)
qed simp

lemma stdInChan_bound:
  "length (ds_stdInChan (foldl (input_turn M) d evs)) \<le> length (ds_stdInChan d) + length (typed evs)"
proof (induction evs arbitrary: d)
  case (Cons ev evs)
  have "length (ds_stdInChan (input_turn M d ev)) \<le> length (ds_stdInChan d) + length (typed [ev])"
    by (cases ev) (auto simp: input_turn_def sendOutputMessage_def ds_Kill_def split: list.splits)
  moreover have "length (typed (ev # evs)) = length (typed [ev]) + length (typed evs)" by (cases ev) simp_all
  ultimately show ?case using Cons.IH [of "input_turn M d ev"] by simp
qed simp

lemma flushed:
  assumes "ds_killed d = None" "length (ds_stdInChan d) \<le> n"
  shows "ds_inputBuf (foldl (input_turn M) d (replicate n Take @ [Tick])) = [] \<and>
    ds_stdInChan (foldl (input_turn M) d (replicate n Take @ [Tick])) = []"
  using assms by (simp add: takes_drain) (auto simp: input_turn_def sendOutputMessage_def Suc_le_eq)

lemma typed_append [simp]: "typed (evs @ evs') = typed evs @ typed evs'"
  by (induction evs rule: typed.induct) simp_all

lemma typed_flush [simp]: "typed (replicate n Take) = []"
  by (induction n) simp_all

text \<open>
  What the user types is what the shell reads: with the daemon connected, however its
  reading, its collecting and its timer interleave, the terminal has at every moment received
  a prefix of the keys typed, in order; and as soon as the collecting routine has caught up and its
  timer fires it has received them all.
\<close>

theorem shell_input_delivered:
  assumes J: "\<And>b. J (M (shellInput_json b)) = Some (shellInput_json b)" and T: "\<And>t s. pty_Write T t s = (t @ s, Ok ())"
    and d: "sh_terminal d = Some t"
    and u: "ds_isConnected u" "ds_killed u = None" "ds_outbox u = []" "ds_inputBuf u = []" "ds_stdInChan u = []"
    and evs: "\<forall>e. ReadFailed e \<notin> set evs" and n: "length (typed evs) \<le> n"
  shows "(\<exists>sent rest. typed evs = sent @ rest \<and>
      sh_terminal (feed J T d (ds_outbox (foldl (input_turn M) u evs))) = Some (t @ sent)) \<and>
    sh_terminal (feed J T d (ds_outbox (foldl (input_turn M) u (evs @ replicate n Take @ [Tick])))) = Some (t @ typed evs)"
proof (intro conjI exI)
  have only: "inputs_only J (ds_outbox (foldl (input_turn M) u es))" for es
    by (rule input_turns_only [OF J]) (simp add: inputs_only_def u(3))
  have fed: "sh_terminal (feed J T d (ds_outbox (foldl (input_turn M) u es))) =
      Some (t @ inputs_of (ds_outbox (foldl (input_turn M) u es)) J)" for es
    by (rule feed_inputs [OF T d only [unfolded inputs_only_def]])
  let ?u = "foldl (input_turn M) u evs" and ?flush = "replicate n Take @ [Tick]"
  have start: "pending J u = []" using u by (simp add: pending_def inputs_of_def)
  have p: "pending J ?u = typed evs" using input_turns_pending [OF J u(1,2) evs] start by simp
  then show "typed evs = inputs_of (ds_outbox ?u) J @ ds_inputBuf ?u @ ds_stdInChan ?u" by (simp add: pending_def)
  show "sh_terminal (feed J T d (ds_outbox ?u)) = Some (t @ inputs_of (ds_outbox ?u) J)" by (rule fed)
  have k: "ds_killed ?u = None" using input_turns_connected [OF u(1,2) evs] by simp
  have "length (ds_stdInChan ?u) \<le> n" using stdInChan_bound [of M u evs] u(5) n by simp
  from flushed [OF k this, of M]
  have empty: "ds_inputBuf (foldl (input_turn M) ?u ?flush) = []" "ds_stdInChan (foldl (input_turn M) ?u ?flush) = []"
    by simp_all
  have "pending J (foldl (input_turn M) u (evs @ ?flush)) = typed evs"
    using input_turns_pending [OF J u(1,2), of "evs @ ?flush"] evs start by simp
  then show "sh_terminal (feed J T d (ds_outbox (foldl (input_turn M) u (evs @ ?flush)))) = Some (t @ typed evs)"
    using fed [of "evs @ ?flush"] empty by (simp add: pending_def)
qed

section \<open>Witnesses\<close>

definition wit_shell :: "string DefaultShell" where
  "wit_shell = DefaultShell_New ''root''"

theorem shell_output_delivered_witness:
  "\<exists>d0 d2. shell_open log_pty wit_shell = (d0, Ok ()) \<and> writePump d0 [PumpRead ''hi'', PumpRead ''!'', PumpExited] = (d2, Ok ()) \<and>
     ds_stdout (foldl ds_ReceiveStream daemon_DefaultShell_New (sh_stream d2)) = ''hi!''"
proof -
  obtain r where r: "RingBuffer_New 10000 = Ok r" by (simp add: RingBuffer_New_def)
  then obtain d0 where o: "shell_open log_pty wit_shell = (d0, Ok ())"
    by (simp add: shell_open_def log_pty_def wit_shell_def DefaultShell_New_def shellStdOutBuffCapacity_def)
  from shell_output_delivered [OF o, of daemon_DefaultShell_New "[''hi'', ''!'']" "\<lambda>_. None" True None] o
  show ?thesis by (auto simp: wit_shell_def DefaultShell_New_def daemon_DefaultShell_New_def)
qed

text \<open>A printer and a parser that agree on the input messages.\<close>

fun wit_print :: json_printer where
  "wit_print (VObject [(k, VString s)]) = s"
| "wit_print _ = []"

theorem shell_input_delivered_witness:
  "sh_terminal (feed (\<lambda>s. Some (VObject [(''data'', VString s)])) log_pty (wit_shell\<lparr>sh_terminal := Some ''> ''\<rparr>)
     (ds_outbox (foldl (input_turn wit_print) (daemon_DefaultShell_New\<lparr>ds_isConnected := True\<rparr>)
        ([Key CHR ''l'', Take, Key CHR ''s'', Tick] @ replicate 2 Take @ [Tick])))) = Some ''> ls''"
proof -
  have "sh_terminal (feed (\<lambda>s. Some (VObject [(''data'', VString s)])) log_pty (wit_shell\<lparr>sh_terminal := Some ''> ''\<rparr>)
     (ds_outbox (foldl (input_turn wit_print) (daemon_DefaultShell_New\<lparr>ds_isConnected := True\<rparr>)
        ([Key CHR ''l'', Take, Key CHR ''s'', Tick] @ replicate 2 Take @ [Tick])))) =
     Some (''> '' @ typed [Key CHR ''l'', Take, Key CHR ''s'', Tick])"
    by (rule conjunct2 [OF shell_input_delivered])
      (simp_all add: shellInput_json_def log_pty_def daemon_DefaultShell_New_def)
  then show ?thesis by simp
qed

end
