(* ===== verification/Go_Text.thy ===== *)
theory Go_Text
  imports Bzero_Prelude
begin

text \<open>
  Text functions of Go's standard library that the Unix packages use: white space, fields and
  trimming of \<^verbatim>\<open>strings\<close>, the line scanner of \<^verbatim>\<open>bufio\<close>, integers of \<^verbatim>\<open>strconv\<close> and slash
  separated paths of \<^verbatim>\<open>path/filepath\<close>.
\<close>

section \<open>White space\<close>

text \<open>
  The encodings of the characters \<^verbatim>\<open>unicode.IsSpace\<close> accepts. None of them is a prefix of
  another, and none starts inside the encoding of a different character, so that looking for
  them in the bytes is looking for them in the decoded text.
\<close>

definition ascii_spaces :: string where
  "ascii_spaces = [CHR 0x09, CHR 0x0A, CHR 0x0B, CHR 0x0C, CHR 0x0D, CHR '' '']"

definition wide_spaces :: "string list" where
  "wide_spaces = [[CHR 0xC2, CHR 0x85], [CHR 0xC2, CHR 0xA0], [CHR 0xE1, CHR 0x9A, CHR 0x80]] @
     map (\<lambda>c. [CHR 0xE2, CHR 0x80, c])
       [CHR 0x80, CHR 0x81, CHR 0x82, CHR 0x83, CHR 0x84, CHR 0x85, CHR 0x86, CHR 0x87,
        CHR 0x88, CHR 0x89, CHR 0x8A, CHR 0xA8, CHR 0xA9, CHR 0xAF] @
     [[CHR 0xE2, CHR 0x81, CHR 0x9F], [CHR 0xE3, CHR 0x80, CHR 0x80]]"

definition spaces :: "string list" where
  "spaces = map (\<lambda>c. [c]) ascii_spaces @ wide_spaces"

definition leading :: "string list \<Rightarrow> string \<Rightarrow> nat" where
  "leading pats s = (case find (\<lambda>p. p \<noteq> [] \<and> has_prefix p s) pats of None \<Rightarrow> 0 | Some p \<Rightarrow> length p)"

abbreviation space_width :: "string \<Rightarrow> nat" where
  "space_width \<equiv> leading spaces"

definition plain :: "char \<Rightarrow> bool" where
  "plain c \<longleftrightarrow> c \<notin> set ascii_spaces \<and> c \<notin> {CHR 0xC2, CHR 0xE1, CHR 0xE2, CHR 0xE3}"

lemma leading_0: "leading pats s = 0 \<longleftrightarrow> (\<forall>p \<in> set pats. p \<noteq> [] \<longrightarrow> \<not> has_prefix p s)"
  by (auto simp: leading_def find_None_iff find_Some_iff split: option.splits)

lemma leading_prefix: "leading pats (s @ t) = 0 \<Longrightarrow> leading pats s = 0"
  by (auto simp: leading_0 has_prefix_iff)

lemma leading_Nil [simp]: "leading pats [] = 0"
  by (auto simp: leading_0 has_prefix_def)

lemma space_width_ascii: "c \<in> set ascii_spaces \<Longrightarrow> space_width (c # s) = 1"
  by (auto simp: leading_def spaces_def ascii_spaces_def)

lemma space_width_plain: "plain c \<Longrightarrow> space_width (c # s) = 0"
  by (auto simp: leading_0 plain_def spaces_def wide_spaces_def)

text \<open>\<^verbatim>\<open>strings.Fields\<close>; \<^term>\<open>acc\<close> is the current field, reversed.\<close>

definition field_end :: "string \<Rightarrow> string list" where
  "field_end acc = (if acc = [] then [] else [rev acc])"

function fields_acc :: "string \<Rightarrow> string \<Rightarrow> string list" where
  "fields_acc acc [] = field_end acc"
| "fields_acc acc (c # s) =
     (if 0 < space_width (c # s) then field_end acc @ fields_acc [] (drop (space_width (c # s)) (c # s))
      else fields_acc (c # acc) s)"
  by pat_completeness auto
termination
  by (relation "measure (\<lambda>(acc, s). length s)") auto

definition Fields :: "string \<Rightarrow> string list" where
  "Fields s = fields_acc [] s"

lemma fields_acc_field:
  assumes "set acc \<inter> set ascii_spaces = {}"
  shows "f \<in> set (fields_acc acc s) \<Longrightarrow> f \<noteq> [] \<and> set f \<inter> set ascii_spaces = {}"
  using assms
proof (induction acc s rule: fields_acc.induct)
  case (2 acc c s)
  then show ?case
    using space_width_ascii [of c s] by (auto simp: field_end_def split: if_splits)
qed (auto simp: field_end_def split: if_splits)

lemma Fields_field: "f \<in> set (Fields s) \<Longrightarrow> f \<noteq> [] \<and> set f \<inter> set ascii_spaces = {}"
  using fields_acc_field [of "[]"] by (simp add: Fields_def)

lemma fields_acc_plain:
  "list_all plain w \<Longrightarrow> c \<in> set ascii_spaces \<Longrightarrow>
   fields_acc acc (w @ c # s) = field_end (rev w @ acc) @ fields_acc [] s"
  by (induction w arbitrary: acc) (simp_all add: space_width_plain space_width_ascii)

lemma fields_acc_plain_end: "list_all plain w \<Longrightarrow> fields_acc acc w = field_end (rev w @ acc)"
  by (induction w arbitrary: acc) (simp_all add: space_width_plain)

lemma fields_acc_nonempty: "acc \<noteq> [] \<Longrightarrow> fields_acc acc s \<noteq> []"
  by (induction acc s rule: fields_acc.induct) (auto simp: field_end_def)

lemma fields_acc_hd:
  "acc \<noteq> [] \<Longrightarrow> \<exists>t. hd (fields_acc acc s) = rev acc @ t"
proof (induction acc s rule: fields_acc.induct)
  case (2 acc c s)
  then show ?case by (fastforce simp: field_end_def split: if_splits)
qed (simp add: field_end_def)

text \<open>\<^verbatim>\<open>strings.TrimSpace\<close>: leading and trailing space removed.\<close>

function strip :: "string list \<Rightarrow> string \<Rightarrow> string" where
  "strip pats s = (if leading pats s = 0 \<or> s = [] then s else strip pats (drop (leading pats s) s))"
  by pat_completeness auto
termination
  by (relation "measure (\<lambda>(pats, s). length s)") auto

declare strip.simps [simp del]

definition TrimSpace :: "string \<Rightarrow> string" where
  "TrimSpace s = rev (strip (map rev spaces) (rev (strip spaces s)))"

lemma strip_leading: "leading pats (strip pats s) = 0"
  by (induction pats s rule: strip.induct) (subst strip.simps, auto)

lemma strip_suffix: "\<exists>t. s = t @ strip pats s"
proof (induction pats s rule: strip.induct)
  case (1 pats s)
  show ?case
  proof (cases "leading pats s = 0 \<or> s = []")
    case False
    then obtain t where "drop (leading pats s) s = t @ strip pats (drop (leading pats s) s)" using 1 by auto
    then have "s = (take (leading pats s) s @ t) @ strip pats s"
      using False by (metis append_assoc append_take_drop_id strip.simps)
    then show ?thesis by blast
  qed (simp add: strip.simps)
qed

lemma strip_id: "leading pats s = 0 \<Longrightarrow> strip pats s = s"
  by (simp add: strip.simps)

lemma TrimSpace_leading: "space_width (TrimSpace s) = 0"
proof -
  obtain t where "rev (strip spaces s) = t @ strip (map rev spaces) (rev (strip spaces s))"
    using strip_suffix by blast
  then have "strip spaces s = TrimSpace s @ rev t"
    unfolding TrimSpace_def by (metis rev_append rev_rev_ident)
  then show ?thesis using leading_prefix strip_leading by metis
qed

lemma Fields_TrimSpace: "TrimSpace s \<noteq> [] \<Longrightarrow> Fields (TrimSpace s) \<noteq> []"
  using TrimSpace_leading [of s]
  by (cases "TrimSpace s") (auto simp: Fields_def fields_acc_nonempty)

section \<open>Lines\<close>

text \<open>
  The tokens of a \<^verbatim>\<open>bufio.Scanner\<close> over a whole text: the lines without their end (a line feed,
  and a carriage return before it). A line of 64 kilobytes or more ends the scan with an error.
\<close>

definition lines_of :: "string \<Rightarrow> string list" where
  "lines_of s = (let ls = split s [CHR 0x0A] in if last ls = [] then butlast ls else ls)"

definition drop_cr :: "string \<Rightarrow> string" where
  "drop_cr l = (if l \<noteq> [] \<and> last l = CHR 0x0D then butlast l else l)"

definition MaxScanTokenSize :: nat where
  "MaxScanTokenSize = 64 * 1024"

definition scan_lines :: "string \<Rightarrow> string list \<times> unit res" where
  "scan_lines s =
     (let ls = lines_of s; good = takeWhile (\<lambda>l. length l < MaxScanTokenSize) ls in
      (map drop_cr good, if good = ls then Ok () else Err (errorf ''bufio.Scanner: token too long'')))"

definition ends_line :: "string \<Rightarrow> bool" where
  "ends_line s \<longleftrightarrow> s = [] \<or> last s = CHR 0x0A"

lemma lines_of_Nil [simp]: "lines_of [] = []"
  by (simp add: lines_of_def split_def)

lemma lines_of_line: "CHR 0x0A \<notin> set l \<Longrightarrow> lines_of (l @ CHR 0x0A # s) = l # lines_of s"
  by (simp add: lines_of_def split_single_append split_no_sep Let_def)

lemma lines_of_one: "CHR 0x0A \<notin> set l \<Longrightarrow> lines_of l = (if l = [] then [] else [l])"
  by (simp add: lines_of_def split_no_sep)

lemma line_cases:
  assumes "\<And>l. CHR 0x0A \<notin> set l \<Longrightarrow> P l" "\<And>l s. CHR 0x0A \<notin> set l \<Longrightarrow> P s \<Longrightarrow> P (l @ CHR 0x0A # s)"
  shows "P s"
proof (induction "length s" arbitrary: s rule: less_induct)
  case less
  show ?case
  proof (cases "CHR 0x0A \<in> set s")
    case True
    then obtain l r where "s = l @ CHR 0x0A # r" "CHR 0x0A \<notin> set l" by (meson split_list_first)
    then show ?thesis using assms(2) less by simp
  qed (rule assms(1))
qed

lemma ends_line_append [simp]: "ends_line (l @ CHR 0x0A # s) = ends_line s"
  by (simp add: ends_line_def)

lemma ends_line_one [simp]: "CHR 0x0A \<notin> set l \<Longrightarrow> ends_line l \<longleftrightarrow> l = []"
  by (metis ends_line_def last_in_set)

lemma lines_of_append: "ends_line s \<Longrightarrow> lines_of (s @ t) = lines_of s @ lines_of t"
  by (induction s rule: line_cases) (simp_all add: lines_of_line)

lemma lines_of_break: "\<not> ends_line s \<Longrightarrow> lines_of (s @ CHR 0x0A # t) = lines_of s @ lines_of t"
  by (induction s rule: line_cases) (auto simp: lines_of_line lines_of_one)

lemma lines_of_no_newline: "l \<in> set (lines_of s) \<Longrightarrow> CHR 0x0A \<notin> set l"
  by (induction s rule: line_cases) (auto simp: lines_of_line lines_of_one split: if_splits)

definition unlines :: "string list \<Rightarrow> string" where
  "unlines ls = concat (map (\<lambda>l. l @ [CHR 0x0A]) ls)"

lemma unlines_append [simp]: "unlines (ls @ ls') = unlines ls @ unlines ls'"
  by (simp add: unlines_def)

lemma unlines_simps [simp]: "unlines [] = []" "unlines (l # ls) = l @ CHR 0x0A # unlines ls"
  by (simp_all add: unlines_def)

lemma lines_of_unlines: "\<forall>l \<in> set ls. CHR 0x0A \<notin> set l \<Longrightarrow> lines_of (unlines ls) = ls"
  by (induction ls) (simp_all add: lines_of_line)

lemma unlines_lines_of: "ends_line s \<Longrightarrow> unlines (lines_of s) = s"
  by (induction s rule: line_cases) (simp_all add: lines_of_line)

section \<open>Integers\<close>

text \<open>\<^verbatim>\<open>strconv.ParseInt\<close> with base 10 and 64 bits; \<^verbatim>\<open>strconv.Atoi\<close> accepts the same texts.\<close>

definition is_digit :: "char \<Rightarrow> bool" where
  "is_digit c \<longleftrightarrow> 48 \<le> (of_char c :: nat) \<and> (of_char c :: nat) \<le> 57"

definition ParseInt64 :: "string \<Rightarrow> int option" where
  "ParseInt64 s =
     (let (neg, ds) = (case s of [] \<Rightarrow> (False, []) | c # r \<Rightarrow>
            if c = CHR ''-'' then (True, r) else if c = CHR ''+'' then (False, r) else (False, s));
          n = (if neg then - int (read_nat ds) else int (read_nat ds)) in
      if ds = [] \<or> \<not> list_all is_digit ds \<or> n < - (2 ^ 63) \<or> 2 ^ 63 \<le> n then None else Some n)"

definition show_int :: "int \<Rightarrow> string" where
  "show_int n = (if n < 0 then CHR ''-'' # show_nat (nat (- n)) else show_nat (nat n))"

lemma of_char_digit [simp]: "n < 10 \<Longrightarrow> of_char (char_of (48 + n) :: char) = 48 + (n :: nat)"
  by simp

lemma show_nat_digits: "list_all is_digit (show_nat n)"
proof (induction n rule: show_nat.induct)
  case (1 n)
  have "is_digit (char_of (48 + m :: nat))" if "m < 10" for m using that by (simp add: is_digit_def)
  then show ?case using 1 by (subst show_nat.simps) simp
qed

lemma show_nat_hd: "show_nat n = c # r \<Longrightarrow> is_digit c"
  using show_nat_digits [of n] by simp

lemma ParseInt64_show_int [simp]: "- (2 ^ 63) \<le> n \<Longrightarrow> n < 2 ^ 63 \<Longrightarrow> ParseInt64 (show_int n) = Some n"
proof (cases "n < 0")
  case False
  then obtain c r where c: "show_nat (nat n) = c # r" by (cases "show_nat (nat n)") auto
  assume "- (2 ^ 63) \<le> n" "n < 2 ^ 63"
  moreover have "c \<noteq> CHR ''-''" "c \<noteq> CHR ''+''" using show_nat_hd [OF c] by (auto simp: is_digit_def)
  ultimately show ?thesis
    using False c show_nat_digits [of "nat n"] read_show_nat [of "nat n"]
    by (auto simp: ParseInt64_def show_int_def)
qed (simp add: ParseInt64_def show_int_def show_nat_digits)

lemma show_int_plain: "\<forall>c \<in> set (show_int n). is_digit c \<or> c = CHR ''-''"
  using show_nat_digits by (auto simp: show_int_def list_all_iff)

section \<open>Paths\<close>

text \<open>
  \<^verbatim>\<open>filepath.Clean\<close> on Unix: the components are read from the left, empty ones and dots are
  dropped, a double dot removes the component before it; at the root it is dropped, and at
  the start of a relative path it is kept. The list of components kept is reversed.
\<close>

definition slash :: char where
  "slash = CHR ''/''"

definition IsAbs :: "string \<Rightarrow> bool" where
  "IsAbs p \<longleftrightarrow> has_prefix [slash] p"

definition clean_step :: "bool \<Rightarrow> string list \<Rightarrow> string \<Rightarrow> string list" where
  "clean_step rooted kept c =
     (if c = [] \<or> c = ''.'' then kept
      else if c = ''..''
      then (case kept of
              [] \<Rightarrow> if rooted then [] else [''..'']
            | k # ks \<Rightarrow> if k = ''..'' then c # kept else ks)
      else c # kept)"

definition Clean :: "string \<Rightarrow> string" where
  "Clean p =
     (let rooted = IsAbs p; comps = rev (foldl (clean_step rooted) [] (split p [slash])) in
      if rooted then slash # join comps [slash] else if comps = [] then ''.'' else join comps [slash])"

definition filepath_Join :: "string \<Rightarrow> string \<Rightarrow> string" where
  "filepath_Join a b = (if a = [] then (if b = [] then [] else Clean b) else if b = [] then Clean a else Clean (a @ slash # b))"

definition filepath_Dir :: "string \<Rightarrow> string" where
  "filepath_Dir p = Clean (rev (dropWhile (\<lambda>c. c \<noteq> slash) (rev p)))"

text \<open>Absolute clean paths are those of lists of proper components.\<close>

definition component :: "string \<Rightarrow> bool" where
  "component c \<longleftrightarrow> c \<noteq> [] \<and> c \<noteq> ''.'' \<and> c \<noteq> ''..'' \<and> slash \<notin> set c"

definition abs_path :: "string list \<Rightarrow> string" where
  "abs_path cs = slash # join cs [slash]"

lemma clean_step_components:
  "list_all component kept \<Longrightarrow> slash \<notin> set c \<Longrightarrow> list_all component (clean_step True kept c)"
  by (auto simp: clean_step_def component_def split: list.splits)

lemma clean_foldl_components:
  "list_all component kept \<Longrightarrow> \<forall>c \<in> set cs. slash \<notin> set c \<Longrightarrow> list_all component (foldl (clean_step True) kept cs)"
  by (induction cs arbitrary: kept) (simp_all add: clean_step_components)

lemma Clean_abs:
  assumes "IsAbs p"
  obtains cs where "Clean p = abs_path cs" "list_all component cs"
proof
  let ?cs = "foldl (clean_step True) [] (split p [slash])"
  show "Clean p = abs_path (rev ?cs)" using assms by (simp add: Clean_def abs_path_def)
  show "list_all component (rev ?cs)"
    using clean_foldl_components [of "[]" "split p [slash]"] split_fields [of _ p slash] by auto
qed

lemma clean_step_component: "component c \<Longrightarrow> clean_step r kept c = c # kept"
  by (simp add: clean_step_def component_def)

lemma clean_foldl_kept: "list_all component cs \<Longrightarrow> foldl (clean_step r) kept cs = rev cs @ kept"
  by (induction cs arbitrary: kept) (simp_all add: clean_step_component)

lemma split_join: "cs \<noteq> [] \<Longrightarrow> list_all component cs \<Longrightarrow> split (join cs [slash]) [slash] = cs"
proof (induction cs)
  case (Cons c cs)
  then show ?case by (cases cs) (auto simp: component_def split_no_sep split_single_append)
qed simp

lemma foldl_clean_join: "list_all component cs \<Longrightarrow> foldl (clean_step r) kept (split (join cs [slash]) [slash]) = rev cs @ kept"
  by (cases "cs = []") (simp_all add: split_join clean_foldl_kept split_no_sep clean_step_def)

lemma split_slash [simp]: "split (slash # s) [slash] = [] # split s [slash]"
  using split_single_append [of "[]" slash s] by (simp add: split_no_sep)

lemma clean_step_empty [simp]: "clean_step r kept [] = kept"
  by (simp add: clean_step_def)

lemma Clean_abs_path [simp]: "list_all component cs \<Longrightarrow> Clean (abs_path cs) = abs_path cs"
  by (simp add: Clean_def abs_path_def IsAbs_def foldl_clean_join)

lemma filepath_Dir_root [simp]: "filepath_Dir (abs_path []) = abs_path []"
  by (simp add: filepath_Dir_def abs_path_def) (simp add: Clean_def IsAbs_def split_no_sep)

lemma filepath_Dir_snoc:
  assumes "list_all component (cs @ [c])"
  shows "filepath_Dir (abs_path (cs @ [c])) = abs_path cs"
proof -
  have c: "slash \<notin> set c" using assms by (simp add: component_def)
  have "rev (dropWhile (\<lambda>x. x \<noteq> slash) (rev (abs_path (cs @ [c])))) = (if cs = [] then [slash] else abs_path cs @ [slash])"
    using c by (auto simp: abs_path_def join_snoc dropWhile_append)
  moreover have "Clean (abs_path cs @ [slash]) = abs_path cs"
    using assms by (simp add: abs_path_def Clean_def IsAbs_def split_single_append split_no_sep foldl_clean_join)
  moreover have "Clean [slash] = abs_path []" by (simp add: Clean_def IsAbs_def abs_path_def split_no_sep)
  ultimately show ?thesis by (simp add: filepath_Dir_def)
qed

end
