(* ===== verification/File_Mode.thy ===== *)
theory File_Mode
  imports Go_Text "HOL-Library.Word"
begin

text \<open>
  \<^verbatim>\<open>bzerolib/unix/filemode\<close>: permissions are read off the text Go prints for a file mode. A
  mode is a word of 32 bits; the text has one letter for every type bit that is set, or a
  dash, and then nine letters for the permission bits.
\<close>

type_synonym FileMode = "32 word"

definition FileMode_String :: "FileMode \<Rightarrow> string" where
  "FileMode_String m =
     (let t = map snd (filter (\<lambda>(i, c). bit m (31 - i)) (enumerate 0 ''dalTLDpSugct?'')) in
      (if t = [] then ''-'' else t) @ map (\<lambda>(i, c). if bit m (8 - i) then c else CHR ''-'') (enumerate 0 ''rwxrwxrwx''))"

datatype PrivilegeSet = User | Group | Other

datatype CheckType = Read | Write | Execute | Open | Create | Remove | OtherCheck string

fun PrivilegeSet_int :: "PrivilegeSet \<Rightarrow> nat" where
  "PrivilegeSet_int User = 1"
| "PrivilegeSet_int Group = 4"
| "PrivilegeSet_int Other = 7"

record ModeParser =
  mp_mode :: string

definition NewParser :: "FileMode \<Rightarrow> ModeParser" where
  "NewParser mode = \<lparr> mp_mode = FileMode_String mode \<rparr>"

definition mode_at :: "ModeParser \<Rightarrow> nat \<Rightarrow> char \<Rightarrow> bool res" where
  "mode_at m i c = (if i < length (mp_mode m) then Ok (mp_mode m ! i = c) else Panic)"

definition mp_CanRead :: "ModeParser \<Rightarrow> PrivilegeSet \<Rightarrow> bool res" where
  "mp_CanRead m pset = mode_at m (PrivilegeSet_int pset + 0) CHR ''r''"

definition mp_CanWrite :: "ModeParser \<Rightarrow> PrivilegeSet \<Rightarrow> bool res" where
  "mp_CanWrite m pset = mode_at m (PrivilegeSet_int pset + 1) CHR ''w''"

definition mp_CanExecute :: "ModeParser \<Rightarrow> PrivilegeSet \<Rightarrow> bool res" where
  "mp_CanExecute m pset = mode_at m (PrivilegeSet_int pset + 2) CHR ''x''"

definition mp_CanOpen :: "ModeParser \<Rightarrow> PrivilegeSet \<Rightarrow> bool res" where
  "mp_CanOpen m pset = mp_CanExecute m pset"

definition mp_CanCreate :: "ModeParser \<Rightarrow> PrivilegeSet \<Rightarrow> bool res" where
  "mp_CanCreate m pset = (case mp_CanExecute m pset of Ok True \<Rightarrow> mp_CanWrite m pset | r \<Rightarrow> r)"

definition mp_CanRemove :: "ModeParser \<Rightarrow> PrivilegeSet \<Rightarrow> bool res" where
  "mp_CanRemove m pset = mp_CanCreate m pset"

definition Verify :: "ModeParser \<Rightarrow> PrivilegeSet \<Rightarrow> CheckType \<Rightarrow> bool res" where
  "Verify m pset mode =
     (case mode of
        Read \<Rightarrow> mp_CanRead m pset
      | Write \<Rightarrow> mp_CanWrite m pset
      | Execute \<Rightarrow> mp_CanExecute m pset | Open \<Rightarrow> mp_CanExecute m pset
      | Create \<Rightarrow> mp_CanCreate m pset | Remove \<Rightarrow> mp_CanCreate m pset
      | OtherCheck _ \<Rightarrow> Ok False)"

section \<open>What the bits mean\<close>

text \<open>The permission a privilege set has according to the bits of the mode.\<close>

fun set_shift :: "PrivilegeSet \<Rightarrow> nat" where
  "set_shift User = 6"
| "set_shift Group = 3"
| "set_shift Other = 0"

fun mode_allows :: "FileMode \<Rightarrow> PrivilegeSet \<Rightarrow> CheckType \<Rightarrow> bool" where
  "mode_allows m s Read = bit m (set_shift s + 2)"
| "mode_allows m s Write = bit m (set_shift s + 1)"
| "mode_allows m s Execute = bit m (set_shift s)"
| "mode_allows m s Open = bit m (set_shift s)"
| "mode_allows m s Create = (bit m (set_shift s) \<and> bit m (set_shift s + 1))"
| "mode_allows m s Remove = (bit m (set_shift s) \<and> bit m (set_shift s + 1))"
| "mode_allows m s (OtherCheck _) = False"

definition type_letters :: "FileMode \<Rightarrow> string" where
  "type_letters m = map snd (filter (\<lambda>(i, c). bit m (31 - i)) (enumerate 0 ''dalTLDpSugct?''))"

definition perm_letters :: "FileMode \<Rightarrow> string" where
  "perm_letters m = map (\<lambda>(i, c). if bit m (8 - i) then c else CHR ''-'') (enumerate 0 ''rwxrwxrwx'')"

lemma FileMode_String_parts: "FileMode_String m = (if type_letters m = [] then ''-'' else type_letters m) @ perm_letters m"
  by (simp add: FileMode_String_def type_letters_def perm_letters_def)

lemma perm_letters_eq:
  "perm_letters m = map (\<lambda>(i, c). if bit m i then c else CHR ''-'')
     [(8, CHR ''r''), (7, CHR ''w''), (6, CHR ''x''), (5, CHR ''r''), (4, CHR ''w''), (3, CHR ''x''),
      (2, CHR ''r''), (1, CHR ''w''), (0, CHR ''x'')]"
  by (simp add: perm_letters_def eval_nat_numeral)

lemmas Verify_defs = Verify_def mp_CanRead_def mp_CanWrite_def mp_CanExecute_def mp_CanCreate_def mode_at_def NewParser_def

lemma Verify_text:
  assumes "FileMode_String m = x # perm_letters m"
  shows "Verify (NewParser m) s c = Ok (mode_allows m s c)"
  by (cases s; cases c) (simp_all add: Verify_defs assms perm_letters_eq numeral_2_eq_2)

definition special_bits :: "FileMode \<Rightarrow> nat" where
  "special_bits m = length (type_letters m)"

lemma Verify_bits:
  assumes "special_bits m \<le> 1"
  shows "Verify (NewParser m) s c = Ok (mode_allows m s c)"
proof -
  obtain x where "FileMode_String m = x # perm_letters m"
    using assms by (cases "type_letters m") (auto simp: FileMode_String_parts special_bits_def)
  then show ?thesis by (rule Verify_text)
qed

lemma enumerate_letters: "c \<in> set (map snd (filter P (enumerate n xs))) \<Longrightarrow> c \<in> set xs"
  by (auto simp: enumerate_eq_zip dest: set_zip_rightD)

lemma type_letters_not_rwx:
  assumes "c \<in> set (type_letters m)"
  shows "c \<notin> set ''rwx''"
  using enumerate_letters [OF assms [unfolded type_letters_def]] by auto

lemma Verify_two_or_three:
  assumes "special_bits m = 2 \<or> special_bits m = 3"
  shows "Verify (NewParser m) s c = Ok False"
proof -
  obtain x y where "type_letters m = [x, y] \<or> (\<exists>z. type_letters m = [x, y, z])"
    using assms by (auto simp: special_bits_def numeral_eq_Suc length_Suc_conv)
  then show ?thesis
  proof
    assume t: "type_letters m = [x, y]"
    then have "y \<notin> set ''rwx''" using type_letters_not_rwx [of y m] by simp
    then show ?thesis
      by (cases s; cases c) (auto simp: Verify_defs FileMode_String_parts perm_letters_eq t)
  next
    assume "\<exists>z. type_letters m = [x, y, z]"
    then obtain z where t: "type_letters m = [x, y, z]" ..
    then have "y \<notin> set ''rwx''" "z \<notin> set ''rwx''" using type_letters_not_rwx [of _ m] by simp_all
    then show ?thesis
      by (cases s; cases c) (auto simp: Verify_defs FileMode_String_parts perm_letters_eq t)
  qed
qed

lemma Verify_four:
  assumes "special_bits m = 4"
  shows "Verify (NewParser m) Group c = Ok (mode_allows m User c)" "Verify (NewParser m) Other c = Ok (mode_allows m Group c)"
proof -
  obtain x y z w where t: "type_letters m = [x, y, z, w]"
    using assms by (auto simp: special_bits_def numeral_eq_Suc length_Suc_conv)
  show "Verify (NewParser m) Group c = Ok (mode_allows m User c)" "Verify (NewParser m) Other c = Ok (mode_allows m Group c)"
    by (cases c; simp add: Verify_defs FileMode_String_parts perm_letters_eq t)+
qed

end
