(* ===== verification/Unix_User.thy ===== *)
theory Unix_User
  imports File_Mode
begin

text \<open>
  \<^verbatim>\<open>bzerolib/unix/unixuser\<close>: users of the target, what they may do with a file according to its
  permissions, and file operations on their behalf.

  The system is a record: the files with their content by their real path, the real path of
  every name, the user database and which calls fail for a reason outside the model. Errors
  that \<^verbatim>\<open>errors.Is\<close> recognises carry their sentinel as kind.
\<close>

section \<open>The system\<close>

record os_user =
  ou_Uid :: string
  ou_Gid :: string
  ou_Username :: string
  ou_Name :: string
  ou_HomeDir :: string

record node =
  n_mode :: FileMode
  n_owner :: "(32 word \<times> 32 word) option"
  n_data :: string

datatype syscall = SysStat | SysRead | SysMkdir | SysChown | SysOpen | SysWriteFile | SysEvalSymlinks | SysLock | SysMkdirAll
  | SysWrite string

datatype run_result = RunOk | RunExit string | RunErr gerror

record unix =
  ux_files :: "string \<Rightarrow> node option"
  ux_resolve :: "string \<Rightarrow> string"
  ux_wd :: "string res"
  ux_fault :: "syscall \<Rightarrow> string \<Rightarrow> gerror option"
  ux_users :: "string \<Rightarrow> os_user res"
  ux_current :: "os_user res"
  ux_groups :: "os_user \<Rightarrow> string list res"
  ux_useradd :: "string list \<Rightarrow> (string \<Rightarrow> os_user res) \<times> run_result"

definition checked :: "unix \<Rightarrow> syscall \<Rightarrow> string \<Rightarrow> 'a res \<Rightarrow> 'a res" where
  "checked ux c path r = (case ux_fault ux c path of Some e \<Rightarrow> Err e | None \<Rightarrow> r)"

definition not_exist :: "string \<Rightarrow> gerror" where
  "not_exist path = GErr (path @ '': no such file or directory'') [ErrNotExist]"

definition os_Stat :: "unix \<Rightarrow> string \<Rightarrow> node res" where
  "os_Stat ux path = checked ux SysStat path
     (case ux_files ux (ux_resolve ux path) of None \<Rightarrow> Err (not_exist path) | Some n \<Rightarrow> Ok n)"

definition os_ReadFile :: "unix \<Rightarrow> string \<Rightarrow> string res" where
  "os_ReadFile ux path = checked ux SysRead path
     (case ux_files ux (ux_resolve ux path) of None \<Rightarrow> Err (not_exist path) | Some n \<Rightarrow> Ok (n_data n))"

definition EvalSymlinks :: "unix \<Rightarrow> string \<Rightarrow> string res" where
  "EvalSymlinks ux path = checked ux SysEvalSymlinks path
     (case ux_files ux (ux_resolve ux path) of None \<Rightarrow> Err (not_exist path) | Some n \<Rightarrow> Ok (ux_resolve ux path))"

definition set_node :: "unix \<Rightarrow> string \<Rightarrow> node \<Rightarrow> unix" where
  "set_node ux path n = ux\<lparr>ux_files := (ux_files ux)(ux_resolve ux path \<mapsto> n)\<rparr>"

text \<open>New files belong to the process, which is root.\<close>

definition new_node :: "FileMode \<Rightarrow> string \<Rightarrow> node" where
  "new_node mode data = \<lparr> n_mode = mode, n_owner = Some (0, 0), n_data = data \<rparr>"

definition sys_update :: "unix \<Rightarrow> syscall \<Rightarrow> string \<Rightarrow> (node option \<Rightarrow> node res) \<Rightarrow> unix \<times> unit res" where
  "sys_update ux c path f =
     (case checked ux c path (f (ux_files ux (ux_resolve ux path))) of
        Ok n \<Rightarrow> (set_node ux path n, Ok ()) | Err e \<Rightarrow> (ux, Err e) | Panic \<Rightarrow> (ux, Panic))"

definition os_Mkdir :: "unix \<Rightarrow> string \<Rightarrow> FileMode \<Rightarrow> unix \<times> unit res" where
  "os_Mkdir ux path perm = sys_update ux SysMkdir path
     (\<lambda>n. case n of Some _ \<Rightarrow> Err (errorf (path @ '': file exists'')) | None \<Rightarrow> Ok (new_node (or perm (push_bit 31 1)) []))"

definition os_Chown :: "unix \<Rightarrow> string \<Rightarrow> 32 word \<Rightarrow> 32 word \<Rightarrow> unix \<times> unit res" where
  "os_Chown ux path uid gid = sys_update ux SysChown path
     (\<lambda>n. case n of None \<Rightarrow> Err (not_exist path) | Some n \<Rightarrow> Ok (n\<lparr>n_owner := Some (uid, gid)\<rparr>))"

definition os_WriteFile :: "unix \<Rightarrow> string \<Rightarrow> string \<Rightarrow> FileMode \<Rightarrow> unix \<times> unit res" where
  "os_WriteFile ux path data perm = sys_update ux SysWriteFile path
     (\<lambda>n. Ok (case n of None \<Rightarrow> new_node perm data | Some n \<Rightarrow> n\<lparr>n_data := data\<rparr>))"

datatype open_access = O_RDONLY | O_WRONLY | O_RDWR

record open_flags =
  O_ACCESS :: open_access
  O_CREATE :: bool
  O_APPEND :: bool

definition os_OpenFile :: "unix \<Rightarrow> string \<Rightarrow> open_flags \<Rightarrow> FileMode \<Rightarrow> unix \<times> unit res" where
  "os_OpenFile ux path flag perm = sys_update ux SysOpen path
     (\<lambda>n. case n of Some n \<Rightarrow> Ok n | None \<Rightarrow> if O_CREATE flag then Ok (new_node perm []) else Err (not_exist path))"

text \<open>Writing to a file opened for appending.\<close>

definition WriteString :: "unix \<Rightarrow> string \<Rightarrow> string \<Rightarrow> unix \<times> unit res" where
  "WriteString ux path data = sys_update ux (SysWrite data) path
     (\<lambda>n. case n of None \<Rightarrow> Err (not_exist path) | Some n \<Rightarrow> Ok (n\<lparr>n_data := n_data n @ data\<rparr>))"

definition filepath_Abs :: "unix \<Rightarrow> string \<Rightarrow> string res" where
  "filepath_Abs ux path = (if IsAbs path then Ok (Clean path) else res_map (\<lambda>wd. filepath_Join wd path) (ux_wd ux))"

section \<open>Users\<close>

record UnixUser =
  uu_Uid :: "32 word"
  uu_Gid :: "32 word"
  uu_Username :: string
  uu_Name :: string
  uu_HomeDir :: string
  uu_Shell :: string
  uu_usr :: os_user

definition PermissionDenied :: "string \<Rightarrow> gerror" where
  "PermissionDenied t = GErr (''permission denied: '' @ t) [PermissionDeniedError]"

definition name_start :: "char \<Rightarrow> bool" where
  "name_start c \<longleftrightarrow> c \<in> set ''abcdefghijklmnopqrstuvwxyz_''"

definition name_char :: "char \<Rightarrow> bool" where
  "name_char c \<longleftrightarrow> name_start c \<or> c \<in> set ''0123456789-''"

definition isValidUsername :: "string \<Rightarrow> bool" where
  "isValidUsername username =
     (case username of
        [] \<Rightarrow> False
      | c # r \<Rightarrow> name_start c \<and>
          ((length r \<le> 31 \<and> list_all name_char r) \<or>
           (r \<noteq> [] \<and> last r = CHR ''$'' \<and> length r \<le> 31 \<and> list_all name_char (butlast r))))"

definition passwdFile :: string where
  "passwdFile = ''/etc/passwd''"

definition getDefaultShell :: "unix \<Rightarrow> string \<Rightarrow> string" where
  "getDefaultShell ux usrName =
     (case os_ReadFile ux passwdFile of
        Ok fileBytes \<Rightarrow>
          (case find (has_prefix usrName) (fst (scan_lines fileBytes)) of
             None \<Rightarrow> [] | Some line \<Rightarrow> TrimSpace (last (split line '':'')))
      | _ \<Rightarrow> [])"

definition Atoi :: "string \<Rightarrow> int res" where
  "Atoi s = (case ParseInt64 s of Some n \<Rightarrow> Ok n | None \<Rightarrow> Err (errorf (''strconv.Atoi: parsing '' @ s)))"

definition convertToUnixUser :: "unix \<Rightarrow> os_user \<Rightarrow> UnixUser res" where
  "convertToUnixUser ux usr =
     (case Atoi (ou_Uid usr) of
        Err e \<Rightarrow> Err (errorf_s ''failed to convert user string UID to int: '' e) | Panic \<Rightarrow> Panic
      | Ok uid \<Rightarrow>
         (case Atoi (ou_Gid usr) of
            Err e \<Rightarrow> Err (errorf_s ''failed to convert user string GID to int: '' e) | Panic \<Rightarrow> Panic
          | Ok gid \<Rightarrow>
             if \<not> isValidUsername (ou_Username usr) then Err (errorf (''invalid username '' @ ou_Username usr))
             else Ok \<lparr> uu_Uid = word_of_int uid, uu_Gid = word_of_int gid, uu_Username = ou_Username usr,
                       uu_Name = ou_Name usr, uu_HomeDir = ou_HomeDir usr, uu_Shell = getDefaultShell ux (ou_Username usr),
                       uu_usr = usr \<rparr>))"

definition user_of :: "unix \<Rightarrow> os_user res \<Rightarrow> UnixUser res" where
  "user_of ux r = (case r of Ok usr \<Rightarrow> convertToUnixUser ux usr | Err e \<Rightarrow> Err e | Panic \<Rightarrow> Panic)"

definition Lookup :: "unix \<Rightarrow> string \<Rightarrow> UnixUser res" where
  "Lookup ux username =
     (if \<not> isValidUsername username then Err (errorf (''invalid username provided: '' @ username))
      else user_of ux (ux_users ux username))"

definition Current :: "unix \<Rightarrow> UnixUser res" where
  "Current ux = user_of ux (ux_current ux)"

fun gid_ints :: "string list \<Rightarrow> 32 word list res" where
  "gid_ints [] = Ok []"
| "gid_ints (gid # gids) =
     (case Atoi gid of
        Err e \<Rightarrow> Err (errorf_s (''failed to convert string GID '' @ gid @ '' to int: '') e)
      | Panic \<Rightarrow> Panic
      | Ok n \<Rightarrow> res_map (Cons (word_of_int n)) (gid_ints gids))"

definition GroupIds :: "unix \<Rightarrow> UnixUser \<Rightarrow> 32 word list res" where
  "GroupIds ux u = (case ux_groups ux (uu_usr u) of Ok gids \<Rightarrow> gid_ints gids | Err e \<Rightarrow> Err e | Panic \<Rightarrow> Panic)"

section \<open>Permissions\<close>

fun CheckType_text :: "CheckType \<Rightarrow> string" where
  "CheckType_text Read = ''read''"
| "CheckType_text Write = ''write''"
| "CheckType_text Execute = ''execute''"
| "CheckType_text Open = ''open''"
| "CheckType_text Create = ''create''"
| "CheckType_text Remove = ''remove''"
| "CheckType_text (OtherCheck s) = s"

definition verified :: "UnixUser \<Rightarrow> string \<Rightarrow> string \<Rightarrow> CheckType \<Rightarrow> FileMode \<Rightarrow> PrivilegeSet \<Rightarrow> bool res" where
  "verified u why path check mode pset =
     (case Verify (NewParser mode) pset check of
        Ok True \<Rightarrow> Ok True
      | Ok False \<Rightarrow> Err (PermissionDenied (uu_Username u @ why @ CheckType_text check @ '' '' @ path @ '': '' @ FileMode_String mode))
      | r \<Rightarrow> r)"

text \<open>A result \<^verbatim>\<open>false\<close> always comes with an error; \<^verbatim>\<open>Ok\<close> is \<^verbatim>\<open>true, nil\<close>.\<close>

definition checkPermissions :: "unix \<Rightarrow> UnixUser \<Rightarrow> string \<Rightarrow> CheckType \<Rightarrow> bool res" where
  "checkPermissions ux u path check =
     (case os_Stat ux path of
        Panic \<Rightarrow> Panic
      | Err e \<Rightarrow> if errors_As ErrNotExist e then Err (errorf (''path does not exist: '' @ path))
                else Err (errorf_s (''error grabbing file '' @ path @ '' info: '') e)
      | Ok info \<Rightarrow>
         (case n_owner info of
            None \<Rightarrow> Err (errorf (''unable to retrieve associated uid and gid of file: '' @ path))
          | Some (fileUid, fileGid) \<Rightarrow>
             if uu_Uid u = 0 then Ok True
             else if uu_Uid u = fileUid
             then verified u '' is owner but does not have sufficient permission to '' path check (n_mode info) User
             else
               (case GroupIds ux u of
                  Err e \<Rightarrow> Err (errorf_s ''failed to get user groups: '' e) | Panic \<Rightarrow> Panic
                | Ok gids \<Rightarrow>
                   if fileGid \<in> set gids
                   then verified u '' is a group member but does not have sufficient permission to '' path check (n_mode info) Group
                   else verified u '' is neither owner nor group member and does not have sufficient permission to '' path check (n_mode info) Other)))"

definition CanRead :: "unix \<Rightarrow> UnixUser \<Rightarrow> string \<Rightarrow> bool res" where
  "CanRead ux u path = checkPermissions ux u path Read"

definition CanWrite :: "unix \<Rightarrow> UnixUser \<Rightarrow> string \<Rightarrow> bool res" where
  "CanWrite ux u path = checkPermissions ux u path Write"

definition CanExecute :: "unix \<Rightarrow> UnixUser \<Rightarrow> string \<Rightarrow> bool res" where
  "CanExecute ux u path = checkPermissions ux u path Execute"

definition CanOpen :: "unix \<Rightarrow> UnixUser \<Rightarrow> string \<Rightarrow> bool res" where
  "CanOpen ux u path = checkPermissions ux u path Open"

definition CanRemove :: "unix \<Rightarrow> UnixUser \<Rightarrow> string \<Rightarrow> bool res" where
  "CanRemove ux u path = checkPermissions ux u path Remove"

text \<open>The search for the longest existing part of a path; \<^verbatim>\<open>None\<close> if it never ends.\<close>

partial_function (option) create_loop :: "unix \<Rightarrow> UnixUser \<Rightarrow> string \<Rightarrow> bool res option" where
  "create_loop ux u path =
     (if path = ''.'' then Some (Err (errorf (''path does not exist: '' @ path)))
      else (case os_Stat ux path of
              Panic \<Rightarrow> Some Panic
            | Err e \<Rightarrow> if errors_As ErrNotExist e then create_loop ux u (filepath_Dir path)
                      else Some (Err (errorf_s ''failed to read file path: '' e))
            | Ok _ \<Rightarrow>
               (case EvalSymlinks ux path of
                  Err e \<Rightarrow> Some (Err (errorf_s ''failed to resolve sym links in path : '' e)) | Panic \<Rightarrow> Some Panic
                | Ok path' \<Rightarrow> Some (checkPermissions ux u path' Create))))"

definition CanCreate :: "unix \<Rightarrow> UnixUser \<Rightarrow> string \<Rightarrow> bool res option" where
  "CanCreate ux u path =
     (case filepath_Abs ux path of Err e \<Rightarrow> Some (Err e) | Panic \<Rightarrow> Some Panic | Ok path' \<Rightarrow> create_loop ux u path')"

section \<open>File operations as a user\<close>

definition permitted :: "UnixUser \<Rightarrow> string \<Rightarrow> string \<Rightarrow> bool res \<Rightarrow> unit res" where
  "permitted u what path r =
     (case r of
        Ok True \<Rightarrow> Ok ()
      | Ok False \<Rightarrow> Err (PermissionDenied (''user '' @ uu_Username u @ '' cannot '' @ what @ '' '' @ path @ '': %!s(<nil>)''))
      | Err e \<Rightarrow> Err (PermissionDenied (''user '' @ uu_Username u @ '' cannot '' @ what @ '' '' @ path @ '': '' @ etext e))
      | Panic \<Rightarrow> Panic)"

definition stat_failed :: "UnixUser \<Rightarrow> string \<Rightarrow> gerror \<Rightarrow> gerror" where
  "stat_failed u path e =
     (if errors_As ErrPermission e then PermissionDenied (uu_Username u @ '' does not have read access to path '' @ path)
      else errorf_s (''failed to check whether path '' @ path @ '' exists: '') e)"

text \<open>Creating something and making the user its owner.\<close>

definition create_owned ::
  "unix \<Rightarrow> UnixUser \<Rightarrow> string \<Rightarrow> (unix \<Rightarrow> unix \<times> unit res) \<Rightarrow> (gerror \<Rightarrow> gerror) \<Rightarrow> (unix \<times> unit res) option" where
  "create_owned ux u path mk chown_err =
     (case CanCreate ux u path of
        None \<Rightarrow> None
      | Some ok \<Rightarrow>
         (case permitted u ''create'' path ok of
            Err e \<Rightarrow> Some (ux, Err e) | Panic \<Rightarrow> Some (ux, Panic)
          | Ok _ \<Rightarrow>
             (case mk ux of
                (ux1, Ok _) \<Rightarrow>
                  (case os_Chown ux1 path (uu_Uid u) (uu_Gid u) of
                     (ux2, r) \<Rightarrow> Some (ux2, wrap_err chown_err r))
              | (ux1, r) \<Rightarrow> Some (ux1, wrap_err (errorf_s (''failed to create '' @ path @ '': '')) r))))"

definition Mkdir :: "unix \<Rightarrow> UnixUser \<Rightarrow> string \<Rightarrow> FileMode \<Rightarrow> (unix \<times> unit res) option" where
  "Mkdir ux u path perm =
     (case os_Stat ux path of
        Ok _ \<Rightarrow> Some (ux, Ok ()) | Panic \<Rightarrow> Some (ux, Panic)
      | Err e \<Rightarrow>
         if errors_As ErrNotExist e
         then create_owned ux u path (\<lambda>x. os_Mkdir x path perm)
                (\<lambda>_. errorf (''failed to set user '' @ uu_Username u @ '' as directory '' @ path @ '' owner''))
         else Some (ux, Err (stat_failed u path e)))"

definition access_allowed :: "unix \<Rightarrow> UnixUser \<Rightarrow> string \<Rightarrow> open_access \<Rightarrow> unit res" where
  "access_allowed ux u path acc =
     (case acc of
        O_WRONLY \<Rightarrow> permitted u ''write to'' path (CanWrite ux u path)
      | O_RDWR \<Rightarrow>
         (case permitted u ''read'' path (CanRead ux u path) of
            Ok _ \<Rightarrow> permitted u ''write to'' path (CanWrite ux u path) | r \<Rightarrow> r)
      | O_RDONLY \<Rightarrow> permitted u ''read'' path (CanRead ux u path))"

definition open_existing :: "unix \<Rightarrow> UnixUser \<Rightarrow> string \<Rightarrow> open_flags \<Rightarrow> FileMode \<Rightarrow> unix \<times> unit res" where
  "open_existing ux u path flag perm =
     (case access_allowed ux u path (O_ACCESS flag) of
        Ok _ \<Rightarrow> os_OpenFile ux path flag perm | r \<Rightarrow> (ux, r))"

definition OpenFile :: "unix \<Rightarrow> UnixUser \<Rightarrow> string \<Rightarrow> open_flags \<Rightarrow> FileMode \<Rightarrow> (unix \<times> unit res) option" where
  "OpenFile ux u path flag perm =
     (case os_Stat ux path of
        Ok _ \<Rightarrow> Some (open_existing ux u path flag perm) | Panic \<Rightarrow> Some (ux, Panic)
      | Err e \<Rightarrow>
         if errors_As ErrNotExist e \<and> O_CREATE flag
         then (case create_owned ux u path (\<lambda>x. os_WriteFile x path [] perm)
                  (errorf_s (''failed to set user '' @ uu_Username u @ '' as owner of file '' @ path @ '': '')) of
                 None \<Rightarrow> None
               | Some (ux1, Ok _) \<Rightarrow> Some (open_existing ux1 u path flag perm)
               | Some (ux1, r) \<Rightarrow> Some (ux1, r))
         else Some (ux, Err (stat_failed u path e)))"

section \<open>Permissions are those of Unix\<close>

text \<open>The rules of the kernel: root may do everything, and of the three classes only the first that fits counts.\<close>

definition unix_access :: "32 word \<Rightarrow> 32 word list \<Rightarrow> 32 word \<times> 32 word \<Rightarrow> FileMode \<Rightarrow> CheckType \<Rightarrow> bool" where
  "unix_access uid gids owner mode check \<longleftrightarrow>
     uid = 0 \<or> mode_allows mode (if uid = fst owner then User else if snd owner \<in> set gids then Group else Other) check"

lemma checkPermissions_regular:
  assumes "os_Stat ux path = Ok info" "n_owner info = Some owner" "GroupIds ux u = Ok gids" "special_bits (n_mode info) \<le> 1"
  shows "if unix_access (uu_Uid u) gids owner (n_mode info) check
    then checkPermissions ux u path check = Ok True
    else \<exists>e. checkPermissions ux u path check = Err e \<and> errors_As PermissionDeniedError e"
  using assms by (cases owner)
    (auto simp: checkPermissions_def unix_access_def verified_def Verify_bits PermissionDenied_def split: bool.splits)

lemma checkPermissions_special:
  assumes "os_Stat ux path = Ok info" "n_owner info = Some (fu, fg)" "GroupIds ux u = Ok gids" "uu_Uid u \<noteq> 0"
  shows "special_bits (n_mode info) = 2 \<or> special_bits (n_mode info) = 3 \<Longrightarrow> checkPermissions ux u path check \<noteq> Ok True"
    and "special_bits (n_mode info) = 4 \<Longrightarrow> uu_Uid u \<noteq> fu \<Longrightarrow>
      checkPermissions ux u path check = Ok True \<longleftrightarrow> mode_allows (n_mode info) (if fg \<in> set gids then User else Group) check"
  using assms by (auto simp: checkPermissions_def verified_def Verify_two_or_three Verify_four split: bool.splits)

text \<open>
  C36. The permission check decides like the kernel for a file without set-id or sticky bits:
  it grants exactly what the rules for owner, group and others grant, to root everything, and
  a refusal is a permission error. Special bits are misread, although the comment says that a
  mode always prints as one letter and nine permissions: with two or three letters, as for a
  sticky directory, everyone but root is refused, and with four the members of
  the group are given the owner's permissions and everyone else the group's.
\<close>

theorem checkPermissions_is_unix_access:
  assumes "os_Stat ux path = Ok info" and "n_owner info = Some (fu, fg)" and "GroupIds ux u = Ok gids"
  shows "(special_bits (n_mode info) \<le> 1 \<longrightarrow>
      (if unix_access (uu_Uid u) gids (fu, fg) (n_mode info) check
       then checkPermissions ux u path check = Ok True
       else \<exists>e. checkPermissions ux u path check = Err e \<and> errors_As PermissionDeniedError e)) \<and>
    (uu_Uid u \<noteq> 0 \<longrightarrow>
      (special_bits (n_mode info) = 2 \<or> special_bits (n_mode info) = 3 \<longrightarrow> checkPermissions ux u path check \<noteq> Ok True) \<and>
      (special_bits (n_mode info) = 4 \<and> uu_Uid u \<noteq> fu \<longrightarrow>
        (checkPermissions ux u path check = Ok True \<longleftrightarrow> mode_allows (n_mode info) (if fg \<in> set gids then User else Group) check)))"
  using checkPermissions_regular [OF assms, of check] checkPermissions_special [OF assms, of check] by blast

section \<open>Searching for an existing directory ends\<close>

lemma create_loop_returns:
  assumes "\<And>e. os_Stat ux (abs_path []) = Err e \<Longrightarrow> \<not> errors_As ErrNotExist e"
  shows "list_all component cs \<Longrightarrow> \<exists>r. create_loop ux u (abs_path cs) = Some r"
proof (induction cs rule: rev_induct)
  case Nil
  then show ?case using assms by (subst create_loop.simps) (auto split: res.splits)
next
  case (snoc c cs)
  then have "\<exists>r. create_loop ux u (filepath_Dir (abs_path (cs @ [c]))) = Some r" by (simp add: filepath_Dir_snoc)
  then show ?case by (subst create_loop.simps) (auto split: res.splits)
qed

lemma IsAbs_Clean: "IsAbs p \<Longrightarrow> IsAbs (Clean p)"
  by (simp add: Clean_def IsAbs_def)

lemma filepath_Abs_path:
  assumes "filepath_Abs ux path = Ok p" "\<And>wd. ux_wd ux = Ok wd \<Longrightarrow> IsAbs wd"
  obtains cs where "p = abs_path cs" "list_all component cs"
proof -
  have "\<exists>q. IsAbs q \<and> p = Clean q"
  proof (cases "IsAbs path")
    case False
    then obtain wd where wd: "ux_wd ux = Ok wd" "p = filepath_Join wd path"
      using assms(1) by (cases "ux_wd ux") (auto simp: filepath_Abs_def)
    then have "IsAbs wd" using assms(2) by simp
    then have "p = Clean (if path = [] then wd else wd @ slash # path)" "IsAbs (if path = [] then wd else wd @ slash # path)"
      using wd(2) by (cases wd; auto simp: filepath_Join_def IsAbs_def)+
    then show ?thesis by blast
  qed (use assms(1) in \<open>auto simp: filepath_Abs_def\<close>)
  then show ?thesis using Clean_abs that by metis
qed

text \<open>
  Looking for the part of a path that exists always ends: as long as the root directory
  is there and the working directory is absolute, the check whether a user may create a file
  returns.
\<close>

lemma CanCreate_returns:
  assumes "\<And>e. os_Stat ux ''/'' = Err e \<Longrightarrow> \<not> errors_As ErrNotExist e" and "\<And>wd. ux_wd ux = Ok wd \<Longrightarrow> IsAbs wd"
  shows "\<exists>r. CanCreate ux u path = Some r"
proof (cases "filepath_Abs ux path")
  case (Ok p)
  have root: "abs_path [] = ''/''" by (simp add: abs_path_def slash_def)
  obtain cs where "p = abs_path cs" "list_all component cs" using filepath_Abs_path [OF Ok assms(2)] .
  then show ?thesis using create_loop_returns [of ux cs u] assms(1) Ok by (simp add: CanCreate_def root)
qed (simp_all add: CanCreate_def)

section \<open>Opening a file as a user\<close>

lemma sys_update_Ok:
  "sys_update ux c path f = (ux', Ok v) \<Longrightarrow> \<exists>n. f (ux_files ux (ux_resolve ux path)) = Ok n \<and> ux' = set_node ux path n"
  by (auto simp: sys_update_def checked_def split: res.splits option.splits)

lemma sys_update_other:
  "sys_update ux c path f = (ux', r) \<Longrightarrow> q \<noteq> ux_resolve ux path \<Longrightarrow>
   ux_files ux' q = ux_files ux q \<and> ux_resolve ux' = ux_resolve ux"
  by (auto simp: sys_update_def set_node_def split: res.splits)

lemma sys_update_resolve: "sys_update ux c path f = (ux', r) \<Longrightarrow> ux_resolve ux' = ux_resolve ux"
  by (auto simp: sys_update_def set_node_def split: res.splits)

lemmas sys_calls = os_Mkdir_def os_Chown_def os_WriteFile_def os_OpenFile_def WriteString_def

lemma open_existing_Ok:
  assumes "open_existing ux u path flag perm = (ux', Ok v)"
  shows "access_allowed ux u path (O_ACCESS flag) = Ok () \<and> os_OpenFile ux path flag perm = (ux', Ok ())"
  using assms by (auto simp: open_existing_def split: res.splits)

lemma access_Ok_exists:
  assumes "access_allowed ux u path acc = Ok v"
  shows "\<exists>n. ux_files ux (ux_resolve ux path) = Some n"
proof -
  have "\<exists>c. checkPermissions ux u path c = Ok True"
    using assms
    by (auto simp: access_allowed_def permitted_def CanRead_def CanWrite_def split: open_access.splits res.splits bool.splits)
  then show ?thesis by (auto simp: checkPermissions_def os_Stat_def checked_def split: res.splits option.splits if_splits)
qed

lemma os_OpenFile_existing:
  assumes "os_OpenFile ux path flag perm = (ux', Ok v)" "ux_files ux (ux_resolve ux path) = Some n"
  shows "ux' = ux"
  using sys_update_Ok [OF assms(1) [unfolded os_OpenFile_def]] assms(2) by (simp add: set_node_def fun_upd_idem)

lemma open_existing_same:
  assumes "open_existing ux u path flag perm = (ux', Ok v)"
  shows "ux' = ux \<and> access_allowed ux u path (O_ACCESS flag) = Ok ()"
  using open_existing_Ok [OF assms] access_Ok_exists os_OpenFile_existing by blast

lemma open_existing_error: "open_existing ux u path flag perm = (ux', Err e) \<Longrightarrow> ux' = ux"
  by (auto simp: open_existing_def os_OpenFile_def sys_update_def split: res.splits)

lemma create_owned_Ok:
  assumes "create_owned ux u path (\<lambda>x. os_WriteFile x path [] perm) f = Some (ux', Ok v)"
    and "ux_files ux (ux_resolve ux path) = None"
  shows "CanCreate ux u path = Some (Ok True)"
    and "ux' = set_node ux path \<lparr> n_mode = perm, n_owner = Some (uu_Uid u, uu_Gid u), n_data = [] \<rparr>"
proof -
  obtain ok ux1 where c: "CanCreate ux u path = Some ok" "permitted u ''create'' path ok = Ok ()"
    "os_WriteFile ux path [] perm = (ux1, Ok ())" "os_Chown ux1 path (uu_Uid u) (uu_Gid u) = (ux', Ok ())"
    using assms(1) by (auto simp: create_owned_def split: option.splits res.splits prod.splits)
  show "CanCreate ux u path = Some (Ok True)" using c(1,2) by (auto simp: permitted_def split: res.splits bool.splits)
  have "ux1 = set_node ux path (new_node perm [])"
    using sys_update_Ok [OF c(3) [unfolded os_WriteFile_def]] assms(2) by auto
  then show "ux' = set_node ux path \<lparr> n_mode = perm, n_owner = Some (uu_Uid u, uu_Gid u), n_data = [] \<rparr>"
    using sys_update_Ok [OF c(4) [unfolded os_Chown_def]] by (auto simp: set_node_def new_node_def)
qed

text \<open>
  Opening a file as a user cannot exceed the user's permissions: when it succeeds, the
  user may access the file in the requested way, a file that was there is unchanged, one that
  was not was created where the user may create files and belongs to the user, and no other
  file is touched.
\<close>

theorem OpenFile_as_user:
  assumes "OpenFile ux u path flag perm = Some (ux', Ok v)"
    and "\<And>e. ux_fault ux SysStat path = Some e \<Longrightarrow> \<not> errors_As ErrNotExist e"
  shows "access_allowed ux' u path (O_ACCESS flag) = Ok () \<and>
    (if ux_files ux (ux_resolve ux path) \<noteq> None then ux' = ux
     else O_CREATE flag \<and> CanCreate ux u path = Some (Ok True) \<and>
       ux' = set_node ux path \<lparr> n_mode = perm, n_owner = Some (uu_Uid u, uu_Gid u), n_data = [] \<rparr>)"
proof (cases "os_Stat ux path")
  case (Ok n)
  then have "ux_files ux (ux_resolve ux path) \<noteq> None" by (auto simp: os_Stat_def checked_def split: option.splits)
  then show ?thesis using assms(1) Ok open_existing_same [of ux u path flag perm ux' v] by (auto simp: OpenFile_def)
next
  case (Err e)
  then have c: "errors_As ErrNotExist e" "O_CREATE flag" using assms(1) by (auto simp: OpenFile_def split: if_splits)
  obtain ux1 where o: "create_owned ux u path (\<lambda>x. os_WriteFile x path [] perm)
      (errorf_s (''failed to set user '' @ uu_Username u @ '' as owner of file '' @ path @ '': '')) = Some (ux1, Ok ())"
    "open_existing ux1 u path flag perm = (ux', Ok ())"
    using assms(1) Err c by (auto simp: OpenFile_def split: option.splits prod.splits res.splits)
  note same = open_existing_same [OF o(2)]
  show ?thesis
  proof (cases "ux_files ux (ux_resolve ux path)")
    case None
    then show ?thesis using create_owned_Ok [OF o(1)] same c(2) by auto
  next
    case (Some n)
    then show ?thesis using Err c(1) assms(2) by (auto simp: os_Stat_def checked_def split: option.splits)
  qed
qed (use assms(1) in \<open>simp add: OpenFile_def\<close>)

section \<open>The login shell\<close>

text \<open>
  A user may get another user's login shell: the entry of the password file is found by
  its first letters, so that any earlier user whose name starts with the same letters decides.
\<close>

lemma default_shell_shadowed:
  assumes "os_ReadFile ux passwdFile = Ok (line @ CHR 0x0A # entries)" and "line = name @ suffix @ '':'' @ mid @ '':'' @ shell"
    and "CHR 0x0A \<notin> set line" and "length line < MaxScanTokenSize"
    and "CHR '':'' \<notin> set shell" and "shell \<noteq> []" and "last shell \<noteq> CHR 0x0D"
  shows "getDefaultShell ux name = TrimSpace shell"
proof -
  have "drop_cr line = line" using assms(2,6,7) by (simp add: drop_cr_def)
  moreover have "last (split line '':'') = shell"
    using split_single_append [of "name @ suffix @ '':'' @ mid" "CHR '':''" shell] assms(2,5) by (simp add: split_no_sep)
  moreover have "has_prefix name line" using assms(2) by simp
  ultimately show ?thesis
    using assms(1,4) lines_of_line [OF assms(3), of entries] by (simp add: getDefaultShell_def scan_lines_def Let_def)
qed

section \<open>Witnesses\<close>

definition wit_os_user :: os_user where
  "wit_os_user = \<lparr> ou_Uid = ''1000'', ou_Gid = ''100'', ou_Username = ''bob'', ou_Name = [], ou_HomeDir = ''/home/bob'' \<rparr>"

definition wit_bob :: UnixUser where
  "wit_bob = \<lparr> uu_Uid = 1000, uu_Gid = 100, uu_Username = ''bob'', uu_Name = [], uu_HomeDir = ''/home/bob'', uu_Shell = [],
     uu_usr = wit_os_user \<rparr>"

definition wit_ux :: unix where
  "wit_ux = \<lparr> ux_files = map_of
       [(''/'', \<lparr> n_mode = 0x800001ED, n_owner = Some (0, 0), n_data = [] \<rparr>),
        (''/tmp'', \<lparr> n_mode = 0x801001FF, n_owner = Some (0, 0), n_data = [] \<rparr>),
        (''/home/bob'', \<lparr> n_mode = 0x800001C0, n_owner = Some (1000, 100), n_data = [] \<rparr>),
        (''/home/bob/f'', \<lparr> n_mode = 0x180, n_owner = Some (1000, 100), n_data = ''x'' \<rparr>),
        (passwdFile, \<lparr> n_mode = 0x1A4, n_owner = Some (0, 0),
           n_data = ''bobby:x:1:1::/home/bobby:/bin/sh'' @ [CHR 0x0A] @ ''bob:x:1000:100::/home/bob:/bin/bash'' @ [CHR 0x0A] \<rparr>)],
     ux_resolve = (\<lambda>p. p), ux_wd = Ok ''/'', ux_fault = (\<lambda>_ _. None),
     ux_users = (\<lambda>n. if n = ''bob'' then Ok wit_os_user else Err (GErr ''user: unknown user'' [UnknownUserError])),
     ux_current = Ok wit_os_user, ux_groups = (\<lambda>_. Ok [''100'']), ux_useradd = (\<lambda>_. (\<lambda>_. Ok wit_os_user, RunOk)) \<rparr>"

lemma wit_uid: "uu_Uid wit_bob \<noteq> 0"
  by (simp add: wit_bob_def)

lemma wit_ux_simps [simp]:
  "ux_fault wit_ux c q = None" "ux_resolve wit_ux q = q" "ux_files wit_ux ''/home/bob/f'' \<noteq> None"
  by (simp_all add: wit_ux_def)

lemma wit_GroupIds [simp]: "GroupIds wit_ux wit_bob = Ok [100]"
  by code_simp

theorem checkPermissions_is_unix_access_witness:
  "checkPermissions wit_ux wit_bob ''/home/bob'' Create = Ok True \<and> checkPermissions wit_ux wit_bob ''/tmp'' Create \<noteq> Ok True"
proof
  let ?n = "\<lparr> n_mode = 0x800001C0, n_owner = Some (1000, 100), n_data = [] \<rparr>"
  have s: "os_Stat wit_ux ''/home/bob'' = Ok ?n" by (simp add: os_Stat_def wit_ux_def checked_def passwdFile_def)
  have "special_bits (0x800001C0 :: 32 word) \<le> 1" by code_simp
  moreover have "unix_access (uu_Uid wit_bob) [100] (1000, 100) 0x800001C0 Create" by code_simp
  ultimately show "checkPermissions wit_ux wit_bob ''/home/bob'' Create = Ok True"
    using checkPermissions_is_unix_access [of wit_ux "''/home/bob''" ?n 1000 100 wit_bob "[100]" Create] s by simp
  let ?t = "\<lparr> n_mode = 0x801001FF, n_owner = Some (0, 0), n_data = [] \<rparr>"
  have t: "os_Stat wit_ux ''/tmp'' = Ok ?t" by (simp add: os_Stat_def wit_ux_def checked_def passwdFile_def)
  have "special_bits (0x801001FF :: 32 word) = 2" by code_simp
  then show "checkPermissions wit_ux wit_bob ''/tmp'' Create \<noteq> Ok True"
    using checkPermissions_is_unix_access [of wit_ux "''/tmp''" ?t 0 0 wit_bob "[100]" Create] t wit_uid by simp
qed

theorem OpenFile_as_user_witness:
  "access_allowed wit_ux wit_bob ''/home/bob/f'' O_WRONLY = Ok ()"
proof -
  let ?flag = "\<lparr> O_ACCESS = O_WRONLY, O_CREATE = False, O_APPEND = True \<rparr>"
  obtain n where n: "ux_files wit_ux ''/home/bob/f'' = Some n" using wit_ux_simps(3) by blast
  have "access_allowed wit_ux wit_bob ''/home/bob/f'' O_WRONLY = Ok ()" by code_simp
  then obtain ux' where o: "OpenFile wit_ux wit_bob ''/home/bob/f'' ?flag 0x180 = Some (ux', Ok ())"
    using n by (simp add: OpenFile_def open_existing_def os_Stat_def os_OpenFile_def sys_update_def checked_def)
  have "ux' = wit_ux \<and> access_allowed ux' wit_bob ''/home/bob/f'' O_WRONLY = Ok ()"
    using OpenFile_as_user [OF o] by auto
  then show ?thesis by blast
qed

end
