(* ===== verification/Sudoers.thy ===== *)
theory Sudoers
  imports Unix_User
begin

text \<open>
  \<^verbatim>\<open>bzerolib/unix/sudoers\<close>: the file that lists the users the agent has made administrators.
\<close>

definition sudoersFilePermissions :: FileMode where
  "sudoersFilePermissions = 0x1A0"

definition defaultSudoersPath :: string where
  "defaultSudoersPath = ''/etc/sudoers.d/bastionzero-users''"

definition sudoers_line :: "string \<Rightarrow> string option res" where
  "sudoers_line line =
     (let entry = TrimSpace line in
      if entry = [] \<or> hd entry = CHR ''#'' then Ok None
      else (case Fields entry of [] \<Rightarrow> Panic | f # _ \<Rightarrow> Ok (Some f)))"

fun sudoers_names :: "string list \<Rightarrow> string list res" where
  "sudoers_names [] = Ok []"
| "sudoers_names (l # ls) =
     (case sudoers_line l of
        Ok None \<Rightarrow> sudoers_names ls | Ok (Some u) \<Rightarrow> res_map (Cons u) (sudoers_names ls)
      | Err e \<Rightarrow> Err e | Panic \<Rightarrow> Panic)"

text \<open>The error of the scanner is not looked at.\<close>

definition sudoers_parse :: "unix \<Rightarrow> string \<Rightarrow> string list res" where
  "sudoers_parse ux filePath =
     (case os_ReadFile ux filePath of
        Ok fileBytes \<Rightarrow> sudoers_names (fst (scan_lines fileBytes))
      | Err e \<Rightarrow> if errors_As ErrNotExist e then Ok []
                else Err (errorf_s (''failed to read from sudoers file '' @ [CHR 0x22] @ filePath @ [CHR 0x22] @ '': '') e)
      | Panic \<Rightarrow> Panic)"

definition sudoersEntry :: "string \<Rightarrow> string" where
  "sudoersEntry username = username @ '' ALL=(ALL) NOPASSWD:ALL'' @ [CHR 0x0A]"

definition sudoersComment :: "string \<Rightarrow> string" where
  "sudoersComment now = ''# Created by BastionZero on '' @ now @ [CHR 0x0A, CHR 0x0A]"

definition append_flags :: open_flags where
  "append_flags = \<lparr> O_ACCESS = O_WRONLY, O_CREATE = True, O_APPEND = True \<rparr>"

definition sudoers_append :: "string \<Rightarrow> unix \<Rightarrow> string \<Rightarrow> string \<Rightarrow> unix \<times> unit res" where
  "sudoers_append now ux filePath username =
     (case os_OpenFile ux filePath append_flags sudoersFilePermissions of
        (ux1, Ok _) \<Rightarrow>
          (case (case os_Stat ux1 filePath of
                   Ok fi \<Rightarrow> if n_data fi = [] then WriteString ux1 filePath (sudoersComment now) else (ux1, Ok ())
                 | Panic \<Rightarrow> (ux1, Panic) | Err _ \<Rightarrow> (ux1, Ok ())) of
             (ux2, Ok _) \<Rightarrow> WriteString ux2 filePath (sudoersEntry username)
           | (ux2, r) \<Rightarrow> (ux2, r))
      | (ux1, r) \<Rightarrow> (ux1, r))"

definition AddUser :: "string \<Rightarrow> unix \<Rightarrow> string \<Rightarrow> string \<Rightarrow> unix \<times> unit res" where
  "AddUser now ux filePath username =
     (case sudoers_parse ux filePath of
        Ok sudoers \<Rightarrow> if username \<in> set sudoers then (ux, Ok ()) else sudoers_append now ux filePath username
      | Err e \<Rightarrow> (ux, Err e) | Panic \<Rightarrow> (ux, Panic))"

section \<open>Reading the list\<close>

definition entry_name :: "string \<Rightarrow> string option" where
  "entry_name line =
     (let entry = TrimSpace line in if entry = [] \<or> hd entry = CHR ''#'' then None else Some (hd (Fields entry)))"

lemma sudoers_line_total: "sudoers_line l = Ok (entry_name l)"
  using Fields_TrimSpace [of l] by (auto simp: sudoers_line_def entry_name_def Let_def split: list.splits)

lemma sudoers_names_total: "sudoers_names ls = Ok (List.map_filter entry_name ls)"
  by (induction ls) (simp_all add: sudoers_line_total List.map_filter_simps split: option.splits)

text \<open>The content of the file, empty if there is none.\<close>

definition file_text :: "unix \<Rightarrow> string \<Rightarrow> string" where
  "file_text ux path = (case ux_files ux (ux_resolve ux path) of None \<Rightarrow> [] | Some n \<Rightarrow> n_data n)"

definition no_fault :: "unix \<Rightarrow> string \<Rightarrow> bool" where
  "no_fault ux path \<longleftrightarrow> (\<forall>c. ux_fault ux c path = None)"

definition short_lines :: "string \<Rightarrow> bool" where
  "short_lines s \<longleftrightarrow> list_all (\<lambda>l. length l < MaxScanTokenSize) (lines_of s)"

lemma scan_short: "short_lines s \<Longrightarrow> scan_lines s = (map drop_cr (lines_of s), Ok ())"
  by (simp add: scan_lines_def short_lines_def list_all_iff Let_def takeWhile_eq_all_conv [THEN iffD2])

lemma sudoers_parse_text:
  assumes "no_fault ux path" "short_lines (file_text ux path)"
  shows "sudoers_parse ux path = Ok (List.map_filter entry_name (map drop_cr (lines_of (file_text ux path))))"
  using assms scan_short
  by (auto simp: sudoers_parse_def os_ReadFile_def checked_def no_fault_def file_text_def not_exist_def
      sudoers_names_total List.map_filter_simps split: option.splits)

section \<open>Adding a user\<close>

lemma sudoers_append_text:
  assumes "no_fault ux path"
  obtains ux' where "sudoers_append now ux path username = (ux', Ok ())" "no_fault ux' path"
    "file_text ux' path = (if file_text ux path = [] then sudoersComment now else file_text ux path) @ sudoersEntry username"
proof -
  have "\<exists>ux'. sudoers_append now ux path username = (ux', Ok ()) \<and> no_fault ux' path \<and>
    file_text ux' path = (if file_text ux path = [] then sudoersComment now else file_text ux path) @ sudoersEntry username"
    using assms
    by (auto simp: sudoers_append_def sys_calls sys_update_def checked_def os_Stat_def no_fault_def file_text_def
        append_flags_def new_node_def set_node_def split: option.splits)
  then show ?thesis using that by blast
qed

lemma name_char_plain: "name_char c \<Longrightarrow> plain c \<and> c \<noteq> CHR ''#'' \<and> c \<noteq> CHR 0x0A"
  by (auto simp: name_char_def name_start_def plain_def ascii_spaces_def)

lemma valid_name_plain:
  assumes "isValidUsername u"
  shows "list_all plain u" "u \<noteq> []" "hd u \<noteq> CHR ''#''" "CHR 0x0A \<notin> set u" "length u \<le> 32"
proof -
  obtain c r where u: "u = c # r" "name_start c" "length r \<le> 31"
    "list_all name_char r \<or> (r \<noteq> [] \<and> last r = CHR ''$'' \<and> list_all name_char (butlast r))"
    using assms by (auto simp: isValidUsername_def split: list.splits)
  have dollar: "plain CHR ''$''" by (simp add: plain_def ascii_spaces_def)
  have c: "name_char c" using u(2) by (simp add: name_char_def)
  have r: "\<forall>x \<in> set r. name_char x \<or> x = CHR ''$''"
    using u(4) append_butlast_last_id [of r] by (metis in_set_butlast_appendI list_all_iff rotate1.simps(2) set_ConsD set_rotate1)
  show "list_all plain u" "u \<noteq> []" "hd u \<noteq> CHR ''#''" "CHR 0x0A \<notin> set u" "length u \<le> 32"
    using u(1,3) c r dollar name_char_plain by (auto simp: list_all_iff)
qed

definition rights :: string where
  "rights = '' ALL=(ALL) NOPASSWD:ALL''"

lemma trailing_L: "leading (map rev spaces) (rev (s @ ''L'')) = 0"
  by (simp add: leading_0 spaces_def wide_spaces_def ascii_spaces_def)

lemma TrimSpace_line:
  assumes "plain c"
  shows "TrimSpace (c # s @ ''L'') = c # s @ ''L''"
proof -
  have "strip spaces (c # s @ ''L'') = c # s @ ''L''" using space_width_plain [OF assms] by (rule strip_id)
  then show ?thesis using strip_id [OF trailing_L [of "c # s"]] by (simp add: TrimSpace_def)
qed

lemma rights_L: "\<exists>r. rights = CHR '' '' # r @ ''L''"
  by (rule exI [of _ "''ALL=(ALL) NOPASSWD:AL''"]) (simp add: rights_def)

text \<open>The name of a line that starts with a word and ends like an entry.\<close>

lemma entry_name_word:
  assumes "list_all plain w" "w \<noteq> []"
  shows "entry_name (drop_cr (w @ CHR '' '' # s @ ''L'')) = (if hd w = CHR ''#'' then None else Some w)"
proof -
  obtain c r where w: "w = c # r" "plain c" using assms by (cases w) auto
  have "drop_cr (w @ CHR '' '' # s @ ''L'') = w @ CHR '' '' # s @ ''L''" by (simp add: drop_cr_def)
  moreover have "TrimSpace (w @ CHR '' '' # s @ ''L'') = w @ CHR '' '' # s @ ''L''"
    using TrimSpace_line [OF w(2), of "r @ CHR '' '' # s"] w(1) by simp
  moreover have "Fields (w @ CHR '' '' # s @ ''L'') = w # fields_acc [] (s @ ''L'')"
    using fields_acc_plain [OF assms(1), of "CHR '' ''" "[]" "s @ ''L''"] assms(2)
    by (simp add: Fields_def ascii_spaces_def field_end_def)
  ultimately show ?thesis using w(1) by (simp add: entry_name_def)
qed

lemma drop_cr_Cons: "c \<noteq> CHR 0x0D \<Longrightarrow> drop_cr (c # s) = c # (if s \<noteq> [] \<and> last s = CHR 0x0D then butlast s else s)"
  by (cases "s = []") (simp_all add: drop_cr_def)

lemma entry_name_comment: "entry_name (drop_cr (CHR ''#'' # s)) = None"
proof -
  obtain s' where d: "drop_cr (CHR ''#'' # s) = CHR ''#'' # s'"
    using drop_cr_Cons [of "CHR ''#''" s] by auto
  have "strip spaces (CHR ''#'' # s') = CHR ''#'' # s'"
    by (rule strip_id) (rule space_width_plain, simp add: plain_def ascii_spaces_def)
  moreover obtain t where "rev (strip spaces (CHR ''#'' # s')) = t @ strip (map rev spaces) (rev (strip spaces (CHR ''#'' # s')))"
    using strip_suffix by blast
  then have "strip spaces (CHR ''#'' # s') = TrimSpace (CHR ''#'' # s') @ rev t"
    unfolding TrimSpace_def by (metis rev_append rev_rev_ident)
  ultimately have "TrimSpace (CHR ''#'' # s') = [] \<or> hd (TrimSpace (CHR ''#'' # s')) = CHR ''#''"
    by (metis append_Cons hd_Cons_tl hd_append2 list.sel(1))
  then show ?thesis using d by (auto simp: entry_name_def Let_def)
qed

definition names_of :: "string \<Rightarrow> string list" where
  "names_of s = List.map_filter entry_name (map drop_cr (lines_of s))"

lemma names_of_append: "ends_line s \<Longrightarrow> names_of (s @ t) = names_of s @ names_of t"
  by (simp add: names_of_def lines_of_append List.map_filter_def)

lemma short_lines_append: "ends_line s \<Longrightarrow> short_lines (s @ t) \<longleftrightarrow> short_lines s \<and> short_lines t"
  by (simp add: short_lines_def lines_of_append)

lemma names_of_line: "CHR 0x0A \<notin> set l \<Longrightarrow> names_of (l @ [CHR 0x0A]) = (case entry_name (drop_cr l) of None \<Rightarrow> [] | Some u \<Rightarrow> [u])"
  using lines_of_line [of l "[]"] by (auto simp: names_of_def List.map_filter_simps split: option.splits)

lemma sudoersEntry_line: "sudoersEntry u = (u @ rights) @ [CHR 0x0A]"
  by (simp add: sudoersEntry_def rights_def)

lemma names_of_entry:
  assumes "list_all plain w" "w \<noteq> []" "CHR 0x0A \<notin> set (w @ t)"
  shows "names_of ((w @ CHR '' '' # t @ rights) @ [CHR 0x0A]) = (if hd w = CHR ''#'' then [] else [w])"
proof -
  obtain r where r: "rights = CHR '' '' # r @ ''L''" using rights_L by blast
  have "CHR 0x0A \<notin> set (w @ CHR '' '' # t @ rights)" using assms(3) by (auto simp: rights_def)
  from names_of_line [OF this] show ?thesis using entry_name_word [OF assms(1,2), of "t @ CHR '' '' # r"] r by simp
qed

lemma names_of_sudoersEntry:
  assumes "isValidUsername u"
  shows "names_of (sudoersEntry u) = [u]"
proof -
  note v = valid_name_plain [OF assms]
  obtain r where r: "rights = CHR '' '' # r @ ''L''" using rights_L by blast
  have "CHR 0x0A \<notin> set (u @ rights)" using v(4) by (auto simp: rights_def)
  from names_of_line [OF this] show ?thesis using entry_name_word [OF v(1,2), of r] v(3) r by (simp add: sudoersEntry_line)
qed

definition sudoersHeader :: "string \<Rightarrow> string" where
  "sudoersHeader now = ''# Created by BastionZero on '' @ now"

lemma sudoersComment_lines:
  assumes "CHR 0x0A \<notin> set now"
  shows "lines_of (sudoersComment now) = [sudoersHeader now, []]" "ends_line (sudoersComment now)"
    "names_of (sudoersComment now) = []"
proof -
  have c: "sudoersComment now = sudoersHeader now @ CHR 0x0A # [] @ CHR 0x0A # []" by (simp add: sudoersComment_def sudoersHeader_def)
  have h: "CHR 0x0A \<notin> set (sudoersHeader now)" using assms by (simp add: sudoersHeader_def)
  show l: "lines_of (sudoersComment now) = [sudoersHeader now, []]"
    unfolding c using lines_of_line [OF h, of "[] @ CHR 0x0A # []"] lines_of_line [of "[]" "[]"] by simp
  show "ends_line (sudoersComment now)" unfolding c by (simp add: ends_line_def)
  have "entry_name (drop_cr (sudoersHeader now)) = None" unfolding sudoersHeader_def using entry_name_comment by simp
  moreover have "entry_name (drop_cr []) = None" by (simp add: drop_cr_def entry_name_def TrimSpace_def strip.simps)
  ultimately show "names_of (sudoersComment now) = []" by (simp add: names_of_def l List.map_filter_simps)
qed

lemma short_sudoersEntry: "isValidUsername u \<Longrightarrow> short_lines (sudoersEntry u)"
proof -
  assume u: "isValidUsername u"
  note v = valid_name_plain [OF u]
  have "CHR 0x0A \<notin> set (u @ rights)" using v(4) by (auto simp: rights_def)
  from lines_of_line [OF this, of "[]"] show ?thesis
    using v(5) by (simp add: short_lines_def sudoersEntry_line rights_def MaxScanTokenSize_def)
qed

text \<open>
  Adding a user to the list works and is done once: on a file whose lines are ended and
  of usual length the user is listed afterwards together with everyone who was, the entries
  that were there are kept, and adding the user again changes nothing.
\<close>

lemma AddUser_spec:
  assumes "no_fault ux path" and "short_lines (file_text ux path)" and "ends_line (file_text ux path)"
    and "isValidUsername u" and "CHR 0x0A \<notin> set now" and "length now < 1000"
  shows "\<exists>ux' ns ns'. AddUser now ux path u = (ux', Ok ()) \<and>
    sudoers_parse ux path = Ok ns \<and> sudoers_parse ux' path = Ok ns' \<and> set ns' = insert u (set ns) \<and>
    (\<exists>added. file_text ux' path = file_text ux path @ added) \<and> AddUser now' ux' path u = (ux', Ok ())"
proof (cases "u \<in> set (names_of (file_text ux path))")
  case True
  then show ?thesis using sudoers_parse_text [OF assms(1,2)] by (auto simp: AddUser_def names_of_def)
next
  case False
  let ?t = "file_text ux path"
  let ?base = "if ?t = [] then sudoersComment now else ?t"
  obtain ux' where x: "sudoers_append now ux path u = (ux', Ok ())" "no_fault ux' path" "file_text ux' path = ?base @ sudoersEntry u"
    using sudoers_append_text [OF assms(1)] .
  note c = sudoersComment_lines [OF assms(5)]
  have base: "ends_line ?base" "names_of ?base = names_of ?t" using c assms(3) by (auto simp: names_of_def)
  have "short_lines ?base" using c(1) assms(2,6) by (auto simp: short_lines_def sudoersHeader_def MaxScanTokenSize_def)
  then have "short_lines (file_text ux' path)" using base(1) short_sudoersEntry [OF assms(4)] x(3) by (simp add: short_lines_append)
  from sudoers_parse_text [OF x(2) this] have p: "sudoers_parse ux' path = Ok (names_of ?t @ [u])"
    using base names_of_sudoersEntry [OF assms(4)] x(3) by (simp add: names_of_def [symmetric] names_of_append)
  have "AddUser now ux path u = (ux', Ok ())" "sudoers_parse ux path = Ok (names_of ?t)"
    using False x(1) sudoers_parse_text [OF assms(1,2)] by (simp_all add: AddUser_def names_of_def)
  moreover have "AddUser now' ux' path u = (ux', Ok ())" using p by (simp add: AddUser_def)
  ultimately show ?thesis using p x(3) by auto
qed

lemma AddUser_listed:
  assumes "no_fault ux path" "short_lines (file_text ux path)" "ends_line (file_text ux path)"
    and "isValidUsername u" "CHR 0x0A \<notin> set now" "length now < 1000"
  shows "\<exists>ux' ns. AddUser now ux path u = (ux', Ok ()) \<and> sudoers_parse ux' path = Ok ns \<and> u \<in> set ns"
  using AddUser_spec [OF assms, of "[]"] by auto

text \<open>
  An entry can be lost: if the last line of the file is not ended, the new entry is
  written onto that line, and the user is not listed although adding reported success.
\<close>

lemma AddUser_glues_lines:
  assumes "no_fault ux path" and "file_text ux path = pre @ w @ CHR '' '' # t" and "ends_line pre" and "short_lines pre"
    and "list_all plain w" and "w \<noteq> []" and "CHR 0x0A \<notin> set (w @ t)" and "length (w @ t) < 60000"
    and "isValidUsername u" and "u \<notin> set (names_of (file_text ux path))" and "w \<noteq> u"
  shows "\<exists>ux' ns. AddUser now ux path u = (ux', Ok ()) \<and> sudoers_parse ux' path = Ok ns \<and> u \<notin> set ns"
proof -
  let ?line = "w @ CHR '' '' # t"
  have nl: "CHR 0x0A \<notin> set ?line" using assms(7) by auto
  have short: "short_lines (file_text ux path)"
    using assms(2-4,8) nl by (simp add: short_lines_append) (simp add: short_lines_def lines_of_one MaxScanTokenSize_def)
  obtain ux' where x: "sudoers_append now ux path u = (ux', Ok ())" "no_fault ux' path"
    "file_text ux' path = pre @ (w @ CHR '' '' # (t @ u) @ rights) @ [CHR 0x0A]"
    using sudoers_append_text [OF assms(1), of now u] assms(2) by (auto simp: sudoersEntry_line)
  note v = valid_name_plain [OF assms(9)]
  have nl': "CHR 0x0A \<notin> set (w @ CHR '' '' # (t @ u) @ rights)" using nl v(4) by (auto simp: rights_def)
  have "short_lines ((w @ CHR '' '' # (t @ u) @ rights) @ [CHR 0x0A])"
    using lines_of_line [OF nl', of "[]"] assms(8) v(5) by (simp add: short_lines_def MaxScanTokenSize_def rights_def)
  then have "short_lines (file_text ux' path)" using x(3) assms(3,4) by (simp only: short_lines_append)
  moreover have "names_of ((w @ CHR '' '' # (t @ u) @ rights) @ [CHR 0x0A]) = (if hd w = CHR ''#'' then [] else [w])"
    by (rule names_of_entry [OF assms(5,6)]) (use nl v(4) in auto)
  ultimately have p: "sudoers_parse ux' path = Ok (names_of pre @ (if hd w = CHR ''#'' then [] else [w]))"
    using sudoers_parse_text [OF x(2)] x(3) names_of_append [OF assms(3)] by (simp add: names_of_def [symmetric])
  have "u \<notin> set (names_of pre)" using assms(2,10) names_of_append [OF assms(3)] by simp
  moreover have "AddUser now ux path u = (ux', Ok ())"
    using assms(10) x(1) sudoers_parse_text [OF assms(1) short] by (simp add: AddUser_def names_of_def)
  ultimately show ?thesis using p assms(11) by auto
qed

section \<open>Witnesses\<close>

lemma wit_no_fault [simp]: "no_fault wit_ux path"
  by (simp add: no_fault_def)

end
