(* ===== verification/User_Add.thy ===== *)
theory User_Add
  imports Sudoers
begin

text \<open>
  \<^verbatim>\<open>bzerolib/unix/unixuser/useradd.go\<close>: creating the users the agent manages. The command
  \<^verbatim>\<open>useradd\<close> is part of the system: given its arguments, a new user database and how it ended.
\<close>

record UserAddOptions =
  ua_HomeDir :: string
  ua_ExpireDate :: "(int \<times> string) option"
  ua_Gid :: "32 word"
  ua_Groups :: "32 word list"
  ua_Shell :: string
  ua_Sudoer :: bool
  ua_SudoersFile :: "string option"

definition sudoer_options :: UserAddOptions where
  "sudoer_options = \<lparr> ua_HomeDir = [], ua_ExpireDate = None, ua_Gid = 0, ua_Groups = [], ua_Shell = [], ua_Sudoer = True,
     ua_SudoersFile = None \<rparr>"

definition managedUsers :: "string \<Rightarrow> UserAddOptions option" where
  "managedUsers = map_of [(''ssm-user'', sudoer_options), (''bzero-user'', sudoer_options)]"

definition show_word :: "32 word \<Rightarrow> string" where
  "show_word w = show_nat (unat w)"

text \<open>The date is known with the text it is formatted to; without one it is the zero time.\<close>

definition useradd_args :: "int \<Rightarrow> string \<Rightarrow> UserAddOptions \<Rightarrow> string list" where
  "useradd_args now username options =
     (let homePath = Clean (TrimSpace (ua_HomeDir options)); shellPath = Clean (TrimSpace (ua_Shell options)) in
      [''-m'', username] @
      (if IsAbs homePath then [''--home'', homePath] else []) @
      (case ua_ExpireDate options of Some (t, txt) \<Rightarrow> if now < t then [''--expiredate'', txt] else [] | None \<Rightarrow> []) @
      (if ua_Gid options \<noteq> 0 then [''--gid'', show_word (ua_Gid options)] else []) @
      (if ua_Groups options \<noteq> [] then [''--groups'', join (map show_word (ua_Groups options)) '',''] else []) @
      (if IsAbs shellPath then [''--shell'', shellPath] else []))"

definition lower :: "char \<Rightarrow> char" where
  "lower c = (if 65 \<le> (of_char c :: nat) \<and> (of_char c :: nat) \<le> 90 then char_of ((of_char c :: nat) + 32) else c)"

definition userAdd :: "int \<Rightarrow> unix \<Rightarrow> string \<Rightarrow> UserAddOptions \<Rightarrow> unix \<times> unit res" where
  "userAdd now ux username options =
     (case ux_useradd ux (useradd_args now username options) of
        (users, r) \<Rightarrow>
          (ux\<lparr>ux_users := users\<rparr>,
           (case r of
              RunOk \<Rightarrow> Ok ()
            | RunExit out \<Rightarrow>
                (let stderr = map lower out in
                 if contains stderr ''permission denied''
                 then Err (PermissionDenied (''failed to create user '' @ username @ '': '' @ stderr)) else Ok ())
            | RunErr e \<Rightarrow> Err e)))"

definition addUserToSudoers :: "string \<Rightarrow> unix \<Rightarrow> string \<Rightarrow> string option \<Rightarrow> unix \<times> unit res" where
  "addUserToSudoers nowText ux username f = AddUser nowText ux (case f of None \<Rightarrow> defaultSudoersPath | Some p \<Rightarrow> p) username"

definition Create_user :: "int \<Rightarrow> string \<Rightarrow> unix \<Rightarrow> string \<Rightarrow> UserAddOptions \<Rightarrow> unix \<times> UnixUser res" where
  "Create_user now nowText ux username options =
     (case Lookup ux username of
        Ok usr \<Rightarrow> (ux, Ok usr) | Panic \<Rightarrow> (ux, Panic)
      | Err e \<Rightarrow>
         if \<not> errors_As UnknownUserError e then (ux, Err e)
         else (case userAdd now ux username options of
                 (ux1, Err e) \<Rightarrow> (ux1, Err e) | (ux1, Panic) \<Rightarrow> (ux1, Panic)
               | (ux1, Ok _) \<Rightarrow>
                  (case (if ua_Sudoer options then addUserToSudoers nowText ux1 username (ua_SudoersFile options) else (ux1, Ok ())) of
                     (ux2, Err e) \<Rightarrow> (ux2, Err e) | (ux2, Panic) \<Rightarrow> (ux2, Panic)
                   | (ux2, Ok _) \<Rightarrow> (ux2, Lookup ux2 username))))"

definition UserNotFound :: gerror where
  "UserNotFound = GErr ''unixuser error: user does not exist'' [UserNotFoundError]"

definition LookupOrCreateFromList :: "int \<Rightarrow> string \<Rightarrow> unix \<Rightarrow> string \<Rightarrow> unix \<times> UnixUser res" where
  "LookupOrCreateFromList now nowText ux username =
     (case Lookup ux username of
        Panic \<Rightarrow> (ux, Panic)
      | Err e \<Rightarrow>
         if errors_As UnknownUserError e
         then (case managedUsers username of
                 None \<Rightarrow> (ux, Err UserNotFound) | Some opts \<Rightarrow> Create_user now nowText ux username opts)
         else (ux, Err e)
      | Ok usr \<Rightarrow>
         (case managedUsers username of
            Some opts \<Rightarrow>
              if ua_Sudoer opts
              then (case addUserToSudoers nowText ux username (ua_SudoersFile opts) of
                      (ux1, Ok _) \<Rightarrow> (ux1, Ok usr) | (ux1, Err e) \<Rightarrow> (ux1, Err e) | (ux1, Panic) \<Rightarrow> (ux1, Panic))
              else (ux, Ok usr)
          | None \<Rightarrow> (ux, Ok usr)))"

section \<open>Who is created\<close>

text \<open>Only the managed users are created or made administrators.\<close>

lemma unmanaged_user_untouched:
  "managedUsers username = None \<Longrightarrow> LookupOrCreateFromList now nowText ux username =
     (ux, case Lookup ux username of Err e \<Rightarrow> Err (if errors_As UnknownUserError e then UserNotFound else e) | r \<Rightarrow> r)"
  by (auto simp: LookupOrCreateFromList_def split: res.splits)

lemma userAdd_unchanged:
  "userAdd now ux username options = (ux1, r) \<Longrightarrow> file_text ux1 = file_text ux \<and> no_fault ux1 = no_fault ux"
  by (auto simp: userAdd_def file_text_def no_fault_def fun_eq_iff split: prod.splits)

lemma managed_sudoer: "managedUsers username = Some opts \<Longrightarrow> ua_Sudoer opts \<and> ua_SudoersFile opts = None \<and> isValidUsername username"
proof -
  assume m: "managedUsers username = Some opts"
  have "isValidUsername ''ssm-user''" "isValidUsername ''bzero-user''" by code_simp+
  then show ?thesis using m by (auto simp: managedUsers_def sudoer_options_def split: if_splits)
qed

lemma addUserToSudoers_listed:
  assumes "no_fault ux defaultSudoersPath" "short_lines (file_text ux defaultSudoersPath)" "ends_line (file_text ux defaultSudoersPath)"
    and "isValidUsername username" "CHR 0x0A \<notin> set nowText" "length nowText < 1000"
  obtains ux' ns where "addUserToSudoers nowText ux username None = (ux', Ok ())" "sudoers_parse ux' defaultSudoersPath = Ok ns"
    "username \<in> set ns"
  using AddUser_listed [OF assms] by (auto simp: addUserToSudoers_def)

text \<open>
  A managed user the agent logs in as is an administrator: whether the account was there
  or has just been created, the user is listed in the agent's sudoers file afterwards.
  A \<^verbatim>\<open>useradd\<close> that fails for another reason than missing permissions counts as a success, so
  that the user can be listed although there is no account.
\<close>

theorem managed_user_is_sudoer:
  assumes "managedUsers username = Some opts"
    and "no_fault ux defaultSudoersPath" and "short_lines (file_text ux defaultSudoersPath)"
    and "ends_line (file_text ux defaultSudoersPath)" and "CHR 0x0A \<notin> set nowText" and "length nowText < 1000"
    and "LookupOrCreateFromList now nowText ux username = (ux', r)"
    and "is_ok (Lookup ux username) \<or> (\<exists>e users out. Lookup ux username = Err e \<and> errors_As UnknownUserError e \<and>
           ux_useradd ux (useradd_args now username opts) = (users, out) \<and>
           (out = RunOk \<or> (\<exists>err. out = RunExit err \<and> \<not> contains (map lower err) ''permission denied'')))"
  shows "\<exists>ns. sudoers_parse ux' defaultSudoersPath = Ok ns \<and> username \<in> set ns"
proof -
  note m = managed_sudoer [OF assms(1)]
  show ?thesis
  proof (cases "is_ok (Lookup ux username)")
    case True
    obtain ux1 ns where "addUserToSudoers nowText ux username None = (ux1, Ok ())" "sudoers_parse ux1 defaultSudoersPath = Ok ns"
      "username \<in> set ns"
      using addUserToSudoers_listed [OF assms(2-4) _ assms(5,6)] m by blast
    then show ?thesis using assms(1,7) True m by (auto simp: LookupOrCreateFromList_def is_ok_iff)
  next
    case False
    then obtain e users out where e: "Lookup ux username = Err e" "errors_As UnknownUserError e"
      "ux_useradd ux (useradd_args now username opts) = (users, out)"
      "out = RunOk \<or> (\<exists>err. out = RunExit err \<and> \<not> contains (map lower err) ''permission denied'')"
      using assms(8) by blast
    obtain ux1 where x: "userAdd now ux username opts = (ux1, Ok ())" using e(3,4) by (auto simp: userAdd_def Let_def)
    note same = userAdd_unchanged [OF x]
    obtain ux2 ns where a: "addUserToSudoers nowText ux1 username None = (ux2, Ok ())" "sudoers_parse ux2 defaultSudoersPath = Ok ns"
      "username \<in> set ns"
      using addUserToSudoers_listed [of ux1] assms(2-6) m same by metis
    have "LookupOrCreateFromList now nowText ux username = (ux2, Lookup ux2 username)"
      using assms(1) e(1,2) x a(1) m by (simp add: LookupOrCreateFromList_def Create_user_def)
    then show ?thesis using assms(7) a by auto
  qed
qed

section \<open>Witness\<close>

theorem managed_user_is_sudoer_witness:
  "\<exists>ux' ns. sudoers_parse ux' defaultSudoersPath = Ok ns \<and> ''ssm-user'' \<in> set ns"
proof -
  have t: "file_text wit_ux defaultSudoersPath = []"
    by (simp add: file_text_def defaultSudoersPath_def) (simp add: wit_ux_def passwdFile_def)
  obtain ux' r where l: "LookupOrCreateFromList 0 ''now'' wit_ux ''ssm-user'' = (ux', r)" by fastforce
  have "isValidUsername ''ssm-user''" by code_simp
  then have u: "Lookup wit_ux ''ssm-user'' = Err (GErr ''user: unknown user'' [UnknownUserError])"
    by (simp add: Lookup_def user_of_def wit_ux_def)
  have a: "ux_useradd wit_ux args = (\<lambda>_. Ok wit_os_user, RunOk)" for args by (simp add: wit_ux_def)
  have m: "managedUsers ''ssm-user'' = Some sudoer_options" by (simp add: managedUsers_def)
  show ?thesis
    using managed_user_is_sudoer [OF m _ _ _ _ _ l] t u a by (auto simp: short_lines_def ends_line_def)
qed

end
