(* ===== verification/Shell_Users.thy ===== *)
theory Shell_Users
  imports Daemon_Shell User_Add
begin

text \<open>
  Logging in: how the lookup of the target user on the agent, the shell plugin, the two data
  channels and the exit code of the daemon fit together.
\<close>

lemma handle_Data_plugin_error:
  assumes "dc_payloadClean a" "dc_plugin a = HasPlugin q" "plugin_Receive AP q (data_Action p) (data_ActionPayload p) = (q', Err e)"
  shows "handle_Data A AP a msg p = (sendError A (a\<lparr>dc_plugin := HasPlugin q'\<rparr>) ComponentProcessingError
    (errorf_s ''plugin error processing MrTAP message: '' e) (MrtapMessage_Hash (aenv_lib A) msg), Ok ())"
  using assms by (simp add: handle_Data_def)

lemma open_unknown_user:
  assumes "sh_terminal sh = None" "read_open J pl = Some v" "pty_Lookup T (sh_runAsUser sh) = Err e"
  shows "\<exists>sh'. plugin_Receive (shell_plugin_ops J T stopSent) sh ''shell/open'' pl =
    (sh', Err (errorf_w (''failed to log in as user '' @ sh_runAsUser sh @ '': '') e))"
  using assms by (simp add: shell_plugin_ops_def ShellPlugin_Receive_def DefaultShell_Receive_def with_payload_def shell_open_def)

lemma processInput_known_error:
  assumes "am_MessageType x = MTError" "am_MessagePayload x = WError e" "err_Type e \<noteq> MrtapValidationError"
    and "checkForKnownErrors (err_Message e) = Some er" "dd_killed d = None"
  shows "processInputMessage E om P R d x = (d\<lparr>dd_killed := Some er\<rparr>, Ok ())"
  using assms by (simp add: processInputMessage_def handleError_def)

text \<open>
  A shell as a user who does not exist ends the daemon with exit code 4: the agent looks
  the user up, creates nobody because the user is not one it manages, and answers the request
  to open the shell with an error whose text the daemon recognises.
\<close>

theorem unknown_user_exit_code:
  assumes "agent_Validate (aenv_lib A) (aenv_now A) (dc_mrtap a) msg = (m, Ok w)" and "msg_Payload msg = PData p"
    and "data_Action p = ''shell/open''" and "dc_payloadClean a" and "dc_plugin a = HasPlugin sh"
    and "sh_terminal sh = None" and "read_open J (data_ActionPayload p) = Some v"
    and "pty_Lookup T (sh_runAsUser sh) = res_map uu_Username (snd (LookupOrCreateFromList now nowText ux (sh_runAsUser sh)))"
    and "Lookup ux (sh_runAsUser sh) = Err e" and "errors_As UnknownUserError e" and "managedUsers (sh_runAsUser sh) = None"
    and "dd_killed d = None"
  shows "fst (LookupOrCreateFromList now nowText ux (sh_runAsUser sh)) = ux \<and>
    (\<exists>x d'. dc_output (fst (handleMrtapMessage A (shell_plugin_ops J T stopSent) a msg)) = dc_output a @ [x] \<and>
       processInputMessage E om P R d (over_the_wire x) = (d', Ok ()) \<and> HandleDaemonExit (dd_killed d') = 4)"
proof
  have l: "LookupOrCreateFromList now nowText ux (sh_runAsUser sh) = (ux, Err UserNotFound)"
    using assms(9-11) by (simp add: unmanaged_user_untouched)
  then show "fst (LookupOrCreateFromList now nowText ux (sh_runAsUser sh)) = ux" by simp
  have "pty_Lookup T (sh_runAsUser sh) = Err UserNotFound" using assms(8) l by simp
  from open_unknown_user [OF assms(6,7) this, of stopSent] obtain sh' where
    sh': "plugin_Receive (shell_plugin_ops J T stopSent) sh (data_Action p) (data_ActionPayload p) =
      (sh', Err (errorf_w (''failed to log in as user '' @ sh_runAsUser sh @ '': '') UserNotFound))"
    using assms(3) by metis
  let ?e = "errorf_s ''plugin error processing MrTAP message: '' (errorf_w (''failed to log in as user '' @ sh_runAsUser sh @ '': '') UserNotFound)"
  let ?a = "a\<lparr>dc_mrtap := m\<rparr>"
  have t: "msg_Type msg = Data" using agent_Validate_Ok_type [OF assms(1)] assms(2) by auto
  have h: "fst (handleMrtapMessage A (shell_plugin_ops J T stopSent) a msg) =
      sendError A (?a\<lparr>dc_plugin := HasPlugin sh'\<rparr>) ComponentProcessingError ?e (MrtapMessage_Hash (aenv_lib A) msg)"
    using handle_Data_plugin_error [of ?a sh "shell_plugin_ops J T stopSent" p sh' _ A msg] assms(1,2,4,5) sh' t
    by (simp add: handleMrtapMessage_def)
  define t where "t = etext ?e"
  have "contains t UserNotFoundErrMsg"
    unfolding t_def etext_simps by (intro contains_append_left) (simp add: UserNotFound_def UserNotFoundErrMsg_def)
  then have known: "checkForKnownErrors t = Some (GErr UserNotFoundErrMsg [UserNotFoundError])"
    by (simp add: checkForKnownErrors_def)
  obtain x err where x: "dc_output (fst (handleMrtapMessage A (shell_plugin_ops J T stopSent) a msg)) = dc_output a @ [x]"
    "am_MessageType x = MTError" "am_MessagePayload x = WError err" "err_Type err = ComponentProcessingError" "err_Message err = t"
    unfolding h t_def by (simp add: sendError_def agent_send_def)
  have k: "checkForKnownErrors (err_Message (received_error err)) = Some (GErr UserNotFoundErrMsg [UserNotFoundError])"
    using x(5) known by (simp add: received_error_def split: res.split)
  have rt: "err_Type (received_error err) \<noteq> MrtapValidationError"
    using x(4) by (simp add: received_error_def ErrorType_UnmarshalJSON_def ErrorType_of_def)
  show "\<exists>x d'. dc_output (fst (handleMrtapMessage A (shell_plugin_ops J T stopSent) a msg)) = dc_output a @ [x] \<and>
      processInputMessage E om P R d (over_the_wire x) = (d', Ok ()) \<and> HandleDaemonExit (dd_killed d') = 4"
    using x(1-3) processInput_known_error [OF _ _ rt k assms(12), of "over_the_wire x" E om P R]
    by (auto simp: HandleDaemonExit_def)
qed

section \<open>Witness\<close>

theorem unknown_user_exit_code_witness:
  "\<exists>x d'. processInputMessage wit_env al_ops quiet_daemon_plugin no_readers wit_daemon_channel x = (d', Ok ()) \<and>
     HandleDaemonExit (dd_killed d') = 4"
proof -
  let ?p = "wit_data\<lparr>data_HPointer := [], data_BZCertHash := EncodeToString (replicate 32 CHR ''h''),
    data_Action := ''shell/open'', data_ActionPayload := Some ''{}''\<rparr>"
  let ?msg = "(wit_data_msg wit_key [])\<lparr>msg_Payload := PData ?p\<rparr>"
  let ?sh = "DefaultShell_New ''eve'' :: string DefaultShell"
  let ?a = "\<lparr> dc_id = ''c'', dc_mrtap = wit_agent, dc_plugin = HasPlugin ?sh, dc_output = [], dc_payloadClean = True \<rparr>"
  let ?T = "log_pty\<lparr>pty_Lookup := \<lambda>u. res_map uu_Username (snd (LookupOrCreateFromList 0 [] wit_ux u))\<rparr>"
  have v: "agent_Validate (aenv_lib wit_agent_env) (aenv_now wit_agent_env) (dc_mrtap ?a) ?msg =
      (wit_agent\<lparr>lastDataMessage := Some ?msg\<rparr>, Ok ())"
    using wit_VerifySignature [of wit_key ?msg]
    by (simp add: wit_data_msg_def Validate_Data_Ok BZCert_Hash_def BZCert_Expired_def second_def)
  have "isValidUsername ''eve''" by code_simp
  then have u: "Lookup wit_ux ''eve'' = Err (GErr ''user: unknown user'' [UnknownUserError])"
    by (simp add: Lookup_def user_of_def wit_ux_def)
  have r: "read_open (\<lambda>_. Some (VObject [])) (Some ''{}'') = Some []" by code_simp
  from unknown_user_exit_code [OF v, of ?p ?sh "\<lambda>_. Some (VObject [])" "[]" ?T 0 "[]" wit_ux
      "GErr ''user: unknown user'' [UnknownUserError]" wit_daemon_channel True wit_env al_ops quiet_daemon_plugin no_readers] u r
  show ?thesis by (auto simp: DefaultShell_New_def managedUsers_def wit_daemon_channel_def)
qed

end
