(* ===== verification/Authorized_Keys.thy ===== *)
theory Authorized_Keys
  imports User_Add Go_Base64
begin

text \<open>
  \<^verbatim>\<open>bctl/agent/plugin/ssh/authorizedkeys\<close>: short-lived keys in a user's file of authorized keys.
  Adding a key starts a routine that removes it when the session is over or the key has
  expired; here that is a separate call of \<^verbatim>\<open>cleanAuthorizedKeys\<close>. Times are in nanoseconds.
\<close>

record AuthorizedKeys =
  ak_keyLifetime :: int
  ak_usr :: UnixUser
  ak_keyFilePath :: string
  ak_lockPath :: string

definition authorizedKeyComment :: string where
  "authorizedKeyComment = ''bzero-temp-key''"

definition created_at :: string where
  "created_at = ''created_at=''"

definition authorizedKeysFilePermission :: FileMode where
  "authorizedKeysFilePermission = 0x180"

definition authorizedKeysDirPermission :: FileMode where
  "authorizedKeysDirPermission = 0x1C0"

section \<open>Setting up\<close>

definition setKeyFilePath :: "unix \<Rightarrow> AuthorizedKeys \<Rightarrow> string \<Rightarrow> (unix \<times> AuthorizedKeys res) option" where
  "setKeyFilePath ux a keyFolder =
     (let path = filepath_Join (uu_HomeDir (ak_usr a)) keyFolder in
      case Mkdir ux (ak_usr a) path authorizedKeysDirPermission of
        None \<Rightarrow> None
      | Some (ux1, r) \<Rightarrow> Some (ux1, res_map (\<lambda>_. a\<lparr>ak_keyFilePath := filepath_Join path ''authorized_keys''\<rparr>) r))"

text \<open>\<^verbatim>\<open>os.MkdirAll\<close> makes every missing directory of the path.\<close>

fun ancestors :: "nat \<Rightarrow> string \<Rightarrow> string list" where
  "ancestors 0 path = []"
| "ancestors (Suc n) path = path # ancestors n (filepath_Dir path)"

definition make_dir :: "string \<Rightarrow> unix \<Rightarrow> unix" where
  "make_dir path ux =
     (case ux_files ux (ux_resolve ux path) of
        None \<Rightarrow> set_node ux path (new_node (or 0x1FF (push_bit 31 1)) []) | Some _ \<Rightarrow> ux)"

definition os_MkdirAll :: "unix \<Rightarrow> string \<Rightarrow> unix \<times> unit res" where
  "os_MkdirAll ux path =
     (case ux_fault ux SysMkdirAll path of
        Some e \<Rightarrow> (ux, Err e) | None \<Rightarrow> (foldr make_dir (ancestors (length path) path) ux, Ok ()))"

definition setFileLock :: "unix \<Rightarrow> AuthorizedKeys \<Rightarrow> string \<Rightarrow> string \<Rightarrow> unix \<times> AuthorizedKeys res" where
  "setFileLock ux a homeDir lockFileFolder =
     (let path = filepath_Join homeDir lockFileFolder in
      case os_MkdirAll ux path of
        (ux1, r) \<Rightarrow> (ux1, wrap_err (errorf_s (''failed to create '' @ path @ '': ''))
                             (res_map (\<lambda>_. a\<lparr>ak_lockPath := filepath_Join path ''.bzero.lock''\<rparr>) r)))"

definition AuthorizedKeys_New ::
  "unix \<Rightarrow> UnixUser option \<Rightarrow> string \<Rightarrow> string \<Rightarrow> int \<Rightarrow> (unix \<times> AuthorizedKeys res) option" where
  "AuthorizedKeys_New ux usr authKeyFolder lockFileFolder keyLifetime =
     (case usr of
        None \<Rightarrow> Some (ux, Err (errorf ''user is nil''))
      | Some u \<Rightarrow>
         if uu_HomeDir u = [] then Some (ux, Err (errorf ''user does not have an associated home directory''))
         else (case setKeyFilePath ux \<lparr> ak_keyLifetime = keyLifetime, ak_usr = u, ak_keyFilePath = [], ak_lockPath = [] \<rparr> authKeyFolder of
                 None \<Rightarrow> None
               | Some (ux1, Ok a) \<Rightarrow> Some (setFileLock ux1 a (uu_HomeDir u) lockFileFolder)
               | Some (ux1, r) \<Rightarrow> Some (ux1, r)))"

section \<open>Adding a key\<close>

definition buildAuthorizedKeyEntry :: "int \<Rightarrow> string \<Rightarrow> string res" where
  "buildAuthorizedKeyEntry now pubkey =
     (case Fields pubkey of
        keyType # keyContents # _ \<Rightarrow>
          (case DecodeString keyContents of
             None \<Rightarrow> Err (errorf (''invalid public key provided: '' @ keyContents))
           | Some _ \<Rightarrow> Ok (keyType @ '' '' @ keyContents @ '' '' @ authorizedKeyComment @ '' '' @ created_at @ show_int now))
      | _ \<Rightarrow> Err (errorf ''malformed public key''))"

text \<open>
  A file that the user may not write but that belongs to root, as older agents made it, is
  opened by the process instead, if the user may create files in the home directory.
\<close>

definition open_as_process :: "unix \<Rightarrow> AuthorizedKeys \<Rightarrow> gerror \<Rightarrow> (unix \<times> unit res) option" where
  "open_as_process ux a err =
     (case CanCreate ux (ak_usr a) (uu_HomeDir (ak_usr a)) of
        None \<Rightarrow> None
      | Some (Ok True) \<Rightarrow>
         (case os_Stat ux (ak_keyFilePath a) of
            Ok fileInfo \<Rightarrow>
              (case n_owner fileInfo of
                 Some (uid, gid) \<Rightarrow>
                   if uid \<noteq> 0 then Some (ux, Err err)
                   else Some (os_OpenFile ux (ak_keyFilePath a) (append_flags\<lparr>O_CREATE := False\<rparr>) authorizedKeysFilePermission)
               | None \<Rightarrow> Some (ux, Err err))
          | Panic \<Rightarrow> Some (ux, Panic) | Err _ \<Rightarrow> Some (ux, Err err))
      | Some Panic \<Rightarrow> Some (ux, Panic)
      | Some _ \<Rightarrow> Some (ux, Err err))"

definition open_key_file :: "unix \<Rightarrow> AuthorizedKeys \<Rightarrow> (unix \<times> unit res) option" where
  "open_key_file ux a =
     (case OpenFile ux (ak_usr a) (ak_keyFilePath a) append_flags authorizedKeysFilePermission of
        None \<Rightarrow> None
      | Some (ux1, Err e) \<Rightarrow> if errors_As PermissionDeniedError e then open_as_process ux1 a e else Some (ux1, Err e)
      | Some r \<Rightarrow> Some r)"

definition write_entry :: "unix \<Rightarrow> AuthorizedKeys \<Rightarrow> string \<Rightarrow> unix \<times> unit res" where
  "write_entry ux a contents =
     (case os_ReadFile ux (ak_keyFilePath a) of
        Err e \<Rightarrow> (ux, Err e) | Panic \<Rightarrow> (ux, Panic)
      | Ok fileBytes \<Rightarrow>
          WriteString ux (ak_keyFilePath a)
            (if fileBytes \<noteq> [] \<and> last fileBytes \<noteq> CHR 0x0A then CHR 0x0A # contents else contents))"

definition addKeyToFile :: "unix \<Rightarrow> AuthorizedKeys \<Rightarrow> string \<Rightarrow> (unix \<times> unit res) option" where
  "addKeyToFile ux a contents =
     (case checked ux SysLock (ak_lockPath a) (Ok ()) of
        Err e \<Rightarrow> Some (ux, Err e) | Panic \<Rightarrow> Some (ux, Panic)
      | Ok _ \<Rightarrow>
         (case open_key_file ux a of
            None \<Rightarrow> None | Some (ux1, Ok _) \<Rightarrow> Some (write_entry ux1 a contents) | Some r \<Rightarrow> Some r))"

text \<open>The result is the entry that the routine started by \<^verbatim>\<open>Add\<close> will remove.\<close>

definition AuthorizedKeys_Add :: "int \<Rightarrow> unix \<Rightarrow> AuthorizedKeys \<Rightarrow> string \<Rightarrow> (unix \<times> string res) option" where
  "AuthorizedKeys_Add now ux a pubkey =
     (case buildAuthorizedKeyEntry now pubkey of
        Err e \<Rightarrow> Some (ux, Err e) | Panic \<Rightarrow> Some (ux, Panic)
      | Ok entry \<Rightarrow>
         (case addKeyToFile ux a entry of
            None \<Rightarrow> None
          | Some (ux1, r) \<Rightarrow> Some (ux1, wrap_err (errorf_s ''failed to add key to authorized_keys file: '') (res_map (\<lambda>_. entry) r))))"

section \<open>Removing keys\<close>

definition keep_line :: "int \<Rightarrow> int \<Rightarrow> string \<Rightarrow> string \<Rightarrow> bool res" where
  "keep_line now keyLifetime currentKey key =
     (if key = currentKey then Ok False
      else if contains key authorizedKeyComment \<and> contains key created_at
      then (case ParseInt64 (hd (split (split key created_at ! 1) '' '')) of
              None \<Rightarrow> Err (errorf ''malformated unix time'')
            | Some t \<Rightarrow> Ok (now - t < keyLifetime))
      else Ok True)"

fun clean_lines :: "int \<Rightarrow> int \<Rightarrow> string \<Rightarrow> string list \<Rightarrow> string res" where
  "clean_lines now keyLifetime currentKey [] = Ok []"
| "clean_lines now keyLifetime currentKey (key # keys) =
     (case keep_line now keyLifetime currentKey key of
        Err e \<Rightarrow> Err e | Panic \<Rightarrow> Panic
      | Ok keep \<Rightarrow> res_map (\<lambda>rest. (if keep then key @ [CHR 0x0A] else []) @ rest) (clean_lines now keyLifetime currentKey keys))"

definition cleanAuthorizedKeys :: "int \<Rightarrow> unix \<Rightarrow> AuthorizedKeys \<Rightarrow> string \<Rightarrow> unix \<times> unit res" where
  "cleanAuthorizedKeys now ux a currentKey =
     (case checked ux SysLock (ak_lockPath a) (Ok ()) of
        Err e \<Rightarrow> (ux, Err e) | Panic \<Rightarrow> (ux, Panic)
      | Ok _ \<Rightarrow>
         (case os_ReadFile ux (ak_keyFilePath a) of
            Err e \<Rightarrow> (ux, Err (errorf_s (''failed to read from authorized_keys file '' @ [CHR 0x22] @ ak_keyFilePath a @ [CHR 0x22] @ '': '') e))
          | Panic \<Rightarrow> (ux, Panic)
          | Ok fileBytes \<Rightarrow>
             (case scan_lines fileBytes of
                (keys, scanned) \<Rightarrow>
                  (case clean_lines now (ak_keyLifetime a) currentKey keys of
                     Err e \<Rightarrow> (ux, Err e) | Panic \<Rightarrow> (ux, Panic)
                   | Ok newFileBytes \<Rightarrow>
                      (case scanned of
                         Err e \<Rightarrow> (ux, Err e) | Panic \<Rightarrow> (ux, Panic)
                       | Ok _ \<Rightarrow> os_WriteFile ux (ak_keyFilePath a) newFileBytes authorizedKeysFilePermission)))))"

section \<open>A key is one line\<close>

lemma show_int_no_break: "CHR 0x0A \<notin> set (show_int n)" "CHR 0x0D \<notin> set (show_int n)"
  using show_int_plain [of n] by (auto simp: is_digit_def)

lemma entry_one_line:
  assumes "buildAuthorizedKeyEntry now pubkey = Ok entry"
  shows "CHR 0x0A \<notin> set entry" "CHR 0x0D \<notin> set entry" "entry \<noteq> []"
proof -
  obtain k c r where f: "Fields pubkey = k # c # r"
    "entry = k @ '' '' @ c @ '' '' @ authorizedKeyComment @ '' '' @ created_at @ show_int now"
    using assms by (auto simp: buildAuthorizedKeyEntry_def split: list.splits option.splits)
  have "set k \<inter> set ascii_spaces = {}" "set c \<inter> set ascii_spaces = {}" using Fields_field [of _ pubkey] f(1) by auto
  then show "CHR 0x0A \<notin> set entry" "CHR 0x0D \<notin> set entry" "entry \<noteq> []"
    using f(2) show_int_no_break [of now] by (auto simp: ascii_spaces_def authorizedKeyComment_def created_at_def)
qed

lemma sys_update_text:
  "sys_update ux c path f = (ux', Ok v) \<Longrightarrow> \<exists>n. f (ux_files ux (ux_resolve ux path)) = Ok n \<and> file_text ux' path = n_data n"
  by (auto simp: file_text_def set_node_def dest!: sys_update_Ok)

lemma WriteString_text: "WriteString ux path s = (ux', Ok v) \<Longrightarrow> file_text ux' path = file_text ux path @ s"
  by (auto simp: WriteString_def file_text_def [of ux] split: option.splits dest!: sys_update_text)

lemma os_WriteFile_text: "os_WriteFile ux path s perm = (ux', Ok v) \<Longrightarrow> file_text ux' path = s"
  by (auto simp: os_WriteFile_def new_node_def split: option.splits dest!: sys_update_text)

lemma os_ReadFile_text: "os_ReadFile ux path = Ok s \<Longrightarrow> s = file_text ux path"
  by (auto simp: os_ReadFile_def checked_def file_text_def split: option.splits)

lemma write_entry_lines:
  assumes "write_entry ux a entry = (ux', Ok v)" "CHR 0x0A \<notin> set entry" "entry \<noteq> []"
  shows "lines_of (file_text ux' (ak_keyFilePath a)) = lines_of (file_text ux (ak_keyFilePath a)) @ [entry]"
proof -
  let ?t = "file_text ux (ak_keyFilePath a)"
  have "WriteString ux (ak_keyFilePath a) (if \<not> ends_line ?t then CHR 0x0A # entry else entry) = (ux', Ok v)"
    using assms(1) os_ReadFile_text [of ux "ak_keyFilePath a"] by (auto simp: write_entry_def ends_line_def split: res.splits)
  from WriteString_text [OF this] show ?thesis
    using assms(2,3) by (auto simp: lines_of_append lines_of_break lines_of_one split: if_splits)
qed

section \<open>Opening the file keeps it\<close>

abbreviation honest_stat :: "unix \<Rightarrow> string \<Rightarrow> bool" where
  "honest_stat ux path \<equiv> \<forall>e. ux_fault ux SysStat path = Some e \<longrightarrow> \<not> errors_As ErrNotExist e"

lemma sys_update_fields: "sys_update ux c path f = (ux', r) \<Longrightarrow> ux_fault ux' = ux_fault ux \<and> ux_resolve ux' = ux_resolve ux"
  by (auto simp: sys_update_def set_node_def split: res.splits)

lemma sys_update_new_text:
  assumes "sys_update ux c path f = (ux', r)" "\<And>n n'. f n = Ok n' \<Longrightarrow> n_data n' = (case n of None \<Rightarrow> [] | Some n \<Rightarrow> n_data n)"
  shows "file_text ux' path = file_text ux path"
  using assms by (auto simp: sys_update_def checked_def set_node_def file_text_def split: res.splits option.splits)

lemma os_Chown_text: "os_Chown ux path uid gid = (ux', r) \<Longrightarrow> file_text ux' path = file_text ux path"
  by (auto simp: os_Chown_def elim!: sys_update_new_text split: option.splits)

lemma os_OpenFile_text: "os_OpenFile ux path flag perm = (ux', r) \<Longrightarrow> file_text ux' path = file_text ux path"
  by (auto simp: os_OpenFile_def new_node_def elim!: sys_update_new_text split: option.splits if_splits)

lemma open_existing_text: "open_existing ux u path flag perm = (ux', r) \<Longrightarrow> file_text ux' path = file_text ux path"
  by (auto simp: open_existing_def os_OpenFile_text split: res.splits)

lemma create_empty_text:
  assumes "os_WriteFile ux path [] perm = (ux', r)" "ux_files ux (ux_resolve ux path) = None"
  shows "file_text ux' path = file_text ux path"
  using assms by (auto simp: os_WriteFile_def sys_update_def checked_def set_node_def file_text_def new_node_def split: res.splits option.splits)

lemma create_owned_text:
  assumes "create_owned ux u path (\<lambda>x. os_WriteFile x path [] perm) f = Some (ux', r)" "ux_files ux (ux_resolve ux path) = None"
  shows "file_text ux' path = file_text ux path"
  using assms create_empty_text [OF _ assms(2)] os_Chown_text
  by (auto simp: create_owned_def split: option.splits res.splits prod.splits)

lemma OpenFile_text:
  assumes "OpenFile ux u path flag perm = Some (ux', r)" "honest_stat ux path"
  shows "file_text ux' path = file_text ux path"
proof (cases "\<exists>e. os_Stat ux path = Err e \<and> errors_As ErrNotExist e \<and> O_CREATE flag")
  case True
  then obtain e where e: "os_Stat ux path = Err e" "errors_As ErrNotExist e" "O_CREATE flag" by blast
  then have "ux_files ux (ux_resolve ux path) = None"
    using assms(2) by (auto simp: os_Stat_def checked_def split: option.splits)
  then show ?thesis using assms(1) e create_owned_text open_existing_text
    by (auto simp: OpenFile_def split: option.splits prod.splits res.splits)
next
  case False
  then show ?thesis using assms(1) open_existing_text
    by (auto simp: OpenFile_def split: option.splits prod.splits res.splits if_splits)
qed

lemma open_key_file_text:
  assumes "open_key_file ux a = Some (ux', r)" "honest_stat ux (ak_keyFilePath a)"
  shows "file_text ux' (ak_keyFilePath a) = file_text ux (ak_keyFilePath a)"
  using assms(1) OpenFile_text [OF _ assms(2)] os_OpenFile_text
  by (auto simp: open_key_file_def open_as_process_def split: option.splits prod.splits res.splits bool.splits if_splits)

lemma addKeyToFile_lines:
  assumes "addKeyToFile ux a entry = Some (ux', Ok v)" "honest_stat ux (ak_keyFilePath a)" "CHR 0x0A \<notin> set entry" "entry \<noteq> []"
  shows "lines_of (file_text ux' (ak_keyFilePath a)) = lines_of (file_text ux (ak_keyFilePath a)) @ [entry]"
proof -
  obtain ux1 where o: "open_key_file ux a = Some (ux1, Ok ())" "write_entry ux1 a entry = (ux', Ok v)"
    using assms(1) by (auto simp: addKeyToFile_def split: option.splits prod.splits res.splits)
  show ?thesis using write_entry_lines [OF o(2) assms(3,4)] open_key_file_text [OF o(1) assms(2)] by simp
qed

section \<open>Cleaning\<close>

definition kept :: "int \<Rightarrow> int \<Rightarrow> string \<Rightarrow> string \<Rightarrow> bool" where
  "kept now keyLifetime currentKey key \<longleftrightarrow> keep_line now keyLifetime currentKey key = Ok True"

definition readable :: "string \<Rightarrow> bool" where
  "readable key \<longleftrightarrow> (contains key authorizedKeyComment \<and> contains key created_at \<longrightarrow>
     ParseInt64 (hd (split (split key created_at ! 1) '' '')) \<noteq> None)"

lemma keep_line_readable: "readable key \<Longrightarrow> keep_line now l cur key = Ok (kept now l cur key)"
  by (auto simp: readable_def keep_line_def kept_def split: option.splits)

lemma keep_line_current: "keep_line now l cur cur = Ok (kept now l cur cur)" "\<not> kept now l cur cur"
  by (simp_all add: keep_line_def kept_def)

lemma keep_line_malformed:
  "key \<noteq> cur \<Longrightarrow> contains key authorizedKeyComment \<Longrightarrow> contains key created_at \<Longrightarrow>
   ParseInt64 (hd (split (split key created_at ! 1) '' '')) = None \<Longrightarrow>
   keep_line now l cur key = Err (errorf ''malformated unix time'')"
  by (simp add: keep_line_def)

lemma clean_lines_readable:
  "\<forall>k \<in> set keys. readable k \<or> k = cur \<Longrightarrow> clean_lines now l cur keys = Ok (unlines (filter (kept now l cur) keys))"
  by (induction keys) (auto simp: keep_line_readable keep_line_current)

lemma clean_lines_malformed:
  "keep_line now l cur k = Err e \<Longrightarrow> k \<in> set keys \<Longrightarrow> \<exists>e'. clean_lines now l cur keys = Err e'"
proof (induction keys)
  case (Cons key keys)
  have "keep_line now l cur key \<noteq> Panic" by (auto simp: keep_line_def split: option.splits)
  then show ?case using Cons by (cases "keep_line now l cur key") auto
qed simp

lemma cleanAuthorizedKeys_lines:
  assumes "no_fault ux (ak_keyFilePath a)" "ux_fault ux SysLock (ak_lockPath a) = None"
    and "file_text ux (ak_keyFilePath a) \<noteq> []" "short_lines (file_text ux (ak_keyFilePath a))"
    and "\<forall>k \<in> set (lines_of (file_text ux (ak_keyFilePath a))). readable (drop_cr k) \<or> drop_cr k = cur"
  shows "\<exists>ux'. cleanAuthorizedKeys now ux a cur = (ux', Ok ()) \<and> file_text ux' (ak_keyFilePath a) =
    unlines (filter (kept now (ak_keyLifetime a) cur) (map drop_cr (lines_of (file_text ux (ak_keyFilePath a)))))"
proof -
  let ?p = "ak_keyFilePath a" and ?keys = "map drop_cr (lines_of (file_text ux (ak_keyFilePath a)))"
  let ?new = "unlines (filter (kept now (ak_keyLifetime a) cur) ?keys)"
  have r: "os_ReadFile ux ?p = Ok (file_text ux ?p)"
    using assms(1,3) by (auto simp: os_ReadFile_def checked_def no_fault_def file_text_def split: option.splits)
  have c: "clean_lines now (ak_keyLifetime a) cur ?keys = Ok ?new" using assms(5) by (intro clean_lines_readable) auto
  have l: "checked ux SysLock (ak_lockPath a) (Ok ()) = Ok ()" using assms(2) by (simp add: checked_def)
  obtain ux' where w: "os_WriteFile ux ?p ?new authorizedKeysFilePermission = (ux', Ok ())"
    using assms(1) by (auto simp: os_WriteFile_def sys_update_def checked_def no_fault_def)
  then have "cleanAuthorizedKeys now ux a cur = (ux', Ok ())"
    using l r c scan_short [OF assms(4)] by (simp add: cleanAuthorizedKeys_def)
  then show ?thesis using os_WriteFile_text [OF w] by blast
qed

lemma drop_cr_subset: "set (drop_cr k) \<subseteq> set k"
  by (auto simp: drop_cr_def dest: in_set_butlastD)

lemma lines_of_cleaned:
  "lines_of (unlines (filter P (map drop_cr (lines_of s)))) = filter P (map drop_cr (lines_of s))"
  using drop_cr_subset by (intro lines_of_unlines) (auto dest: lines_of_no_newline)

text \<open>
  C37. A session's key comes and goes without a trace: adding it appends exactly one line,
  whatever the client sent as its key, and cleaning up afterwards leaves the lines that were
  there before, without their carriage returns and without the agent's own expired keys.
\<close>

theorem key_added_and_removed:
  assumes "AuthorizedKeys_Add now ux a pubkey = Some (ux1, Ok entry)" and "honest_stat ux (ak_keyFilePath a)"
    and "no_fault ux1 (ak_keyFilePath a)" and "ux_fault ux1 SysLock (ak_lockPath a) = None"
    and "short_lines (file_text ux (ak_keyFilePath a))" and "length entry < MaxScanTokenSize"
    and "\<forall>k \<in> set (lines_of (file_text ux (ak_keyFilePath a))). readable (drop_cr k)"
  shows "lines_of (file_text ux1 (ak_keyFilePath a)) = lines_of (file_text ux (ak_keyFilePath a)) @ [entry] \<and>
    (\<exists>ux2. cleanAuthorizedKeys now' ux1 a entry = (ux2, Ok ()) \<and> lines_of (file_text ux2 (ak_keyFilePath a)) =
      filter (kept now' (ak_keyLifetime a) entry) (map drop_cr (lines_of (file_text ux (ak_keyFilePath a)))))"
proof -
  let ?p = "ak_keyFilePath a"
  have b: "buildAuthorizedKeyEntry now pubkey = Ok entry" "addKeyToFile ux a entry = Some (ux1, Ok ())"
    using assms(1) by (auto simp: AuthorizedKeys_Add_def split: res.splits option.splits prod.splits elim!: res_map.elims wrap_err.elims)
  note e = entry_one_line [OF b(1)]
  have l: "lines_of (file_text ux1 ?p) = lines_of (file_text ux ?p) @ [entry]"
    by (rule addKeyToFile_lines [OF b(2) assms(2) e(1,3)])
  have d: "drop_cr entry = entry" using e(2,3) by (metis drop_cr_def last_in_set)
  have "short_lines (file_text ux1 ?p)" using l assms(5,6) by (simp add: short_lines_def)
  moreover have "file_text ux1 ?p \<noteq> []" using l by auto
  moreover have "\<forall>k \<in> set (lines_of (file_text ux1 ?p)). readable (drop_cr k) \<or> drop_cr k = entry" using l d assms(7) by auto
  ultimately obtain ux2 where c: "cleanAuthorizedKeys now' ux1 a entry = (ux2, Ok ())"
    "file_text ux2 ?p = unlines (filter (kept now' (ak_keyLifetime a) entry) (map drop_cr (lines_of (file_text ux1 ?p))))"
    using cleanAuthorizedKeys_lines [OF assms(3,4)] by blast
  have "lines_of (file_text ux2 ?p) = filter (kept now' (ak_keyLifetime a) entry) (map drop_cr (lines_of (file_text ux1 ?p)))"
    unfolding c(2) by (rule lines_of_cleaned)
  then show ?thesis using l d c(1) keep_line_current(2) by auto
qed

text \<open>
  A client can stop the removal of everyone's keys: the type of a key is not checked, and
  one that contains a creation time of its own makes every cleaning up that meets its line
  fail and leave the file as it is.
\<close>

theorem crafted_key_blocks_cleaning:
  "\<exists>entry. buildAuthorizedKeyEntry now ''created_at=x AAAA'' = Ok entry \<and>
     (\<forall>ux a cur now'. entry \<in> set (fst (scan_lines (file_text ux (ak_keyFilePath a)))) \<and> cur \<noteq> entry \<longrightarrow>
        (\<exists>e. cleanAuthorizedKeys now' ux a cur = (ux, Err e)))"
proof (rule exI, rule conjI)
  let ?e = "''created_at=x AAAA bzero-temp-key created_at='' @ show_int now"
  have "Fields ''created_at=x AAAA'' = [''created_at=x'', ''AAAA'']" by code_simp
  moreover have "DecodeString ''AAAA'' \<noteq> None" by code_simp
  ultimately show "buildAuthorizedKeyEntry now ''created_at=x AAAA'' = Ok ?e"
    by (auto simp: buildAuthorizedKeyEntry_def authorizedKeyComment_def created_at_def)
  have "\<exists>e. cleanAuthorizedKeys now' ux a cur = (ux, Err e)"
    if a: "?e \<in> set (fst (scan_lines (file_text ux (ak_keyFilePath a)))) \<and> cur \<noteq> ?e" for ux a cur now'
  proof -
    have "split ?e created_at ! 1 = ''x AAAA bzero-temp-key ''" by (simp add: split_def created_at_def)
  moreover have "contains ?e authorizedKeyComment" "contains ?e created_at" by (simp_all add: authorizedKeyComment_def created_at_def)
  moreover have "ParseInt64 (hd (split ''x AAAA bzero-temp-key '' '' '')) = None" by code_simp
  ultimately have "keep_line now' (ak_keyLifetime a) cur ?e = Err (errorf ''malformated unix time'')"
    using a keep_line_malformed [of ?e cur] by metis
  then obtain e' where "clean_lines now' (ak_keyLifetime a) cur (fst (scan_lines (file_text ux (ak_keyFilePath a)))) = Err e'"
    using clean_lines_malformed a by blast
  then show ?thesis
    using os_ReadFile_text [of ux "ak_keyFilePath a"]
    by (auto simp: cleanAuthorizedKeys_def checked_def os_ReadFile_def split: res.splits prod.splits option.splits)
  qed
  then show "\<forall>ux a cur now'. ?e \<in> set (fst (scan_lines (file_text ux (ak_keyFilePath a)))) \<and> cur \<noteq> ?e \<longrightarrow>
      (\<exists>e. cleanAuthorizedKeys now' ux a cur = (ux, Err e))" by blast
qed

section \<open>Witnesses\<close>

definition wit_keys :: AuthorizedKeys where
  "wit_keys = \<lparr> ak_keyLifetime = 30, ak_usr = wit_bob, ak_keyFilePath = ''/home/bob/f'', ak_lockPath = ''/home/bob/.bzero.lock'' \<rparr>"

lemma wit_key_added:
  "\<exists>ux1. AuthorizedKeys_Add 5 wit_ux wit_keys ''ssh-rsa AAAA'' = Some (ux1, Ok ''ssh-rsa AAAA bzero-temp-key created_at=5'') \<and> ux_fault ux1 = ux_fault wit_ux"
proof -
  have b: "buildAuthorizedKeyEntry 5 ''ssh-rsa AAAA'' = Ok ''ssh-rsa AAAA bzero-temp-key created_at=5''" by code_simp
  obtain n where n: "ux_files wit_ux ''/home/bob/f'' = Some n" "n_data n = ''x''" by (simp add: wit_ux_def passwdFile_def)
  have "access_allowed wit_ux wit_bob ''/home/bob/f'' O_WRONLY = Ok ()" by code_simp
  then have "open_key_file wit_ux wit_keys = Some (wit_ux, Ok ())"
    using n by (simp add: open_key_file_def OpenFile_def open_existing_def os_Stat_def os_OpenFile_def sys_update_def checked_def
        append_flags_def wit_keys_def set_node_def fun_upd_idem)
  then show ?thesis
    using b n by (simp add: AuthorizedKeys_Add_def addKeyToFile_def write_entry_def os_ReadFile_def WriteString_def sys_update_def
        checked_def wit_keys_def set_node_def)
qed

theorem key_added_and_removed_witness:
  "\<exists>ux1 ux2. AuthorizedKeys_Add 5 wit_ux wit_keys ''ssh-rsa AAAA'' = Some (ux1, Ok ''ssh-rsa AAAA bzero-temp-key created_at=5'') \<and>
     cleanAuthorizedKeys 6 ux1 wit_keys ''ssh-rsa AAAA bzero-temp-key created_at=5'' = (ux2, Ok ()) \<and>
     lines_of (file_text ux2 ''/home/bob/f'') = [''x'']"
proof -
  let ?e = "''ssh-rsa AAAA bzero-temp-key created_at=5''" and ?a = wit_keys
  obtain ux1 where x: "AuthorizedKeys_Add 5 wit_ux ?a ''ssh-rsa AAAA'' = Some (ux1, Ok ?e)" "ux_fault ux1 = ux_fault wit_ux"
    using wit_key_added by blast
  have "\<exists>n. ux_files wit_ux ''/home/bob/f'' = Some n \<and> n_data n = ''x''" by (simp add: wit_ux_def passwdFile_def)
  then have t: "file_text wit_ux (ak_keyFilePath ?a) = ''x''" by (auto simp: file_text_def wit_keys_def)
  have k: "kept 6 (ak_keyLifetime ?a) ?e ''x''" "readable ''x''" by code_simp+
  have l: "map drop_cr (lines_of ''x'') = [''x'']" by code_simp
  show ?thesis
    using key_added_and_removed [OF x(1), of 6] x t k l
    by (auto simp: no_fault_def short_lines_def MaxScanTokenSize_def wit_keys_def lines_of_one drop_cr_def)
qed

definition wit_crafted :: string where
  "wit_crafted = ''created_at=x AAAA bzero-temp-key created_at=7''"

definition wit_crafted_ux :: unix where
  "wit_crafted_ux = wit_ux\<lparr>ux_files := [''/home/bob/f'' \<mapsto> new_node 0x180 (wit_crafted @ [CHR 0x0A])]\<rparr>"

lemma wit_crafted_entry: "buildAuthorizedKeyEntry 7 ''created_at=x AAAA'' = Ok wit_crafted"
  by code_simp

lemma wit_crafted_line: "wit_crafted \<in> set (fst (scan_lines (file_text wit_crafted_ux (ak_keyFilePath wit_keys))))"
proof -
  have l: "lines_of (wit_crafted @ [CHR 0x0A]) = [wit_crafted]"
    using lines_of_line [of wit_crafted "[]"] by (simp add: wit_crafted_def)
  then have "fst (scan_lines (wit_crafted @ [CHR 0x0A])) = [wit_crafted]"
    using scan_short [of "wit_crafted @ [CHR 0x0A]"]
    by (simp add: short_lines_def MaxScanTokenSize_def) (simp add: wit_crafted_def drop_cr_def)
  then show ?thesis by (simp add: file_text_def wit_keys_def wit_crafted_ux_def new_node_def)
qed

theorem crafted_key_blocks_cleaning_witness:
  "\<exists>err. cleanAuthorizedKeys 9 wit_crafted_ux wit_keys ''ssh-rsa AAAA bzero-temp-key created_at=8'' = (wit_crafted_ux, Err err)"
proof -
  obtain entry where e: "buildAuthorizedKeyEntry 7 ''created_at=x AAAA'' = Ok entry" and all:
    "\<forall>ux a cur now'. entry \<in> set (fst (scan_lines (file_text ux (ak_keyFilePath a)))) \<and> cur \<noteq> entry \<longrightarrow>
        (\<exists>e. cleanAuthorizedKeys now' ux a cur = (ux, Err e))"
    by (rule exE [OF crafted_key_blocks_cleaning]) (erule conjE)
  have entry: "entry = wit_crafted" using e wit_crafted_entry by simp
  have n: "''ssh-rsa AAAA bzero-temp-key created_at=8'' \<noteq> wit_crafted" by (simp add: wit_crafted_def)
  show ?thesis by (rule all [rule_format, unfolded entry, OF conjI [OF wit_crafted_line n]])
qed

end
