(* ===== verification/Config_Data.thy ===== *)
theory Config_Data
  imports Go_Json Keypair
begin

text \<open>
  \<^verbatim>\<open>bctl/agent/config\<close>, the data: what the agent keeps about its registration
  (\<^verbatim>\<open>agentconfig/data\<close>) and the key shards of passwordless databases
  (\<^verbatim>\<open>keyshardconfig/data\<close>), with their JSON form.
\<close>

section \<open>Key shards\<close>

record KeyEntry =
  KeyShardPem :: string
  CaCertPem :: string

record MappedKeyEntry =
  KeyData :: KeyEntry
  TargetIds :: "string list"

record KeyShardData =
  Keys :: "MappedKeyEntry list"

fun decode_KeyEntry :: "jvalue option \<Rightarrow> KeyEntry decoded" where
  "decode_KeyEntry None = Decoded \<lparr> KeyShardPem = [], CaCertPem = [] \<rparr>"
| "decode_KeyEntry (Some VNull) = Decoded \<lparr> KeyShardPem = [], CaCertPem = [] \<rparr>"
| "decode_KeyEntry (Some (VObject kvs)) =
     (case (string_field kvs ''keyShardPem'', string_field kvs ''caCertPem'') of
        (Decoded k, Decoded c) \<Rightarrow> Decoded \<lparr> KeyShardPem = k, CaCertPem = c \<rparr>
      | _ \<Rightarrow> TypeError)"
| "decode_KeyEntry (Some _) = TypeError"

definition decode_TargetIds :: "jvalue option \<Rightarrow> string list decoded" where
  "decode_TargetIds v =
     (case v of
        None \<Rightarrow> Decoded []
      | Some w \<Rightarrow> (case decode_strings w of Decoded None \<Rightarrow> Decoded [] | Decoded (Some ss) \<Rightarrow> Decoded ss | _ \<Rightarrow> TypeError))"

fun decode_MappedKeyEntry :: "jvalue \<Rightarrow> MappedKeyEntry decoded" where
  "decode_MappedKeyEntry VNull = Decoded \<lparr> KeyData = \<lparr> KeyShardPem = [], CaCertPem = [] \<rparr>, TargetIds = [] \<rparr>"
| "decode_MappedKeyEntry (VObject kvs) =
     (case (decode_KeyEntry (struct_field kvs ''key''), decode_TargetIds (struct_field kvs ''targetIds'')) of
        (Decoded k, Decoded ts) \<Rightarrow> Decoded \<lparr> KeyData = k, TargetIds = ts \<rparr>
      | _ \<Rightarrow> TypeError)"
| "decode_MappedKeyEntry _ = TypeError"

fun decode_KeyShardData :: "jvalue \<Rightarrow> KeyShardData decoded" where
  "decode_KeyShardData VNull = Decoded \<lparr> Keys = [] \<rparr>"
| "decode_KeyShardData (VObject kvs) =
     (case struct_field kvs ''keys'' of
        None \<Rightarrow> Decoded \<lparr> Keys = [] \<rparr>
      | Some VNull \<Rightarrow> Decoded \<lparr> Keys = [] \<rparr>
      | Some (VArray vs) \<Rightarrow> (case decode_all decode_MappedKeyEntry vs of Decoded ks \<Rightarrow> Decoded \<lparr> Keys = ks \<rparr> | _ \<Rightarrow> TypeError)
      | Some _ \<Rightarrow> TypeError)"
| "decode_KeyShardData _ = TypeError"

definition marshal_KeyEntry :: "KeyEntry \<Rightarrow> jvalue" where
  "marshal_KeyEntry k = VObject [(''keyShardPem'', marshal_string (KeyShardPem k)), (''caCertPem'', marshal_string (CaCertPem k))]"

definition marshal_MappedKeyEntry :: "MappedKeyEntry \<Rightarrow> jvalue" where
  "marshal_MappedKeyEntry m =
     VObject [(''key'', marshal_KeyEntry (KeyData m)), (''targetIds'', VArray (map marshal_string (TargetIds m)))]"

definition marshal_KeyShardData :: "KeyShardData \<Rightarrow> jvalue" where
  "marshal_KeyShardData d = VObject [(''keys'', VArray (map marshal_MappedKeyEntry (Keys d)))]"

definition valid_key_entry :: "MappedKeyEntry \<Rightarrow> bool" where
  "valid_key_entry m \<longleftrightarrow> valid_utf8 (KeyShardPem (KeyData m)) \<and> valid_utf8 (CaCertPem (KeyData m)) \<and>
     list_all valid_utf8 (TargetIds m)"

definition valid_key_shards :: "KeyShardData \<Rightarrow> bool" where
  "valid_key_shards d \<longleftrightarrow> list_all valid_key_entry (Keys d)"

lemma decode_marshal_entry: "valid_key_entry m \<Longrightarrow> decode_MappedKeyEntry (marshal_MappedKeyEntry m) = Decoded m"
  by (auto simp: valid_key_entry_def marshal_MappedKeyEntry_def marshal_KeyEntry_def struct_field_def to_lower_def
      string_field_def decode_TargetIds_def decode_all_map [where h = "\<lambda>s. s"] list_all_iff)

lemma key_shards_roundtrip: "valid_key_shards d \<Longrightarrow> decode_KeyShardData (marshal_KeyShardData d) = Decoded d"
  by (auto simp: valid_key_shards_def marshal_KeyShardData_def struct_field_def to_lower_def list_all_iff
      decode_marshal_entry decode_all_map [where h = "\<lambda>m. m"])

section \<open>Agent data\<close>

record AgentDataV2 =
  ad_Version :: string
  ad_AgentType :: string
  ad_PublicKey :: "PublicKey option"
  ad_PrivateKey :: "PrivateKey option"
  ad_AgentIdentityToken :: string
  ad_TargetId :: string
  ad_IdpProvider :: string
  ad_IdpOrgId :: string
  ad_ServiceUrl :: string
  ad_ShutdownReason :: string
  ad_ShutdownState :: "(string \<times> string) list option"
  ad_JwksUrlPatterns :: "string list option"

definition AgentDataV2_zero :: AgentDataV2 where
  "AgentDataV2_zero = \<lparr> ad_Version = [], ad_AgentType = [], ad_PublicKey = None, ad_PrivateKey = None,
     ad_AgentIdentityToken = [], ad_TargetId = [], ad_IdpProvider = [], ad_IdpOrgId = [], ad_ServiceUrl = [],
     ad_ShutdownReason = [], ad_ShutdownState = None, ad_JwksUrlPatterns = None \<rparr>"

text \<open>
  The string fields are all read through one variable \<^verbatim>\<open>t\<close>, which \<^verbatim>\<open>null\<close> leaves as it is. A
  field reader takes its current value and returns the value of the field and the new one.
\<close>

definition read_required :: "(string \<times> jvalue) list \<Rightarrow> string \<Rightarrow> string \<Rightarrow> (string \<times> string) res" where
  "read_required objmap name t =
     res_map (\<lambda>s. (s, s)) (decoded_res (''failed to unmarshal '' @ name @ '': '') (decode_string t (object_key objmap name)))"

definition read_optional :: "(string \<times> jvalue) list \<Rightarrow> string \<Rightarrow> string \<Rightarrow> (string \<times> string) res" where
  "read_optional objmap name t =
     (case object_key objmap name of None \<Rightarrow> Ok ([], t) | Some _ \<Rightarrow> read_required objmap name t)"

text \<open>A key pointer: \<^verbatim>\<open>null\<close> is nil, a string goes through the key's own JSON method.\<close>

fun read_key :: "(string \<Rightarrow> 'k res) \<Rightarrow> string \<Rightarrow> jvalue option \<Rightarrow> 'k option res" where
  "read_key unmarshal name None = Err (errorf (''failed to unmarshal '' @ name @ '': unexpected end of JSON input''))"
| "read_key unmarshal name (Some VNull) = Ok None"
| "read_key unmarshal name (Some (VString s)) =
     wrap_err (errorf_s (''failed to unmarshal '' @ name @ '': '')) (res_map Some (unmarshal (json_quote s)))"
| "read_key unmarshal name (Some _) = Err (errorf (''failed to unmarshal '' @ name @ '': ''))"

definition read_patterns :: "(string \<times> jvalue) list \<Rightarrow> string list option res" where
  "read_patterns objmap =
     (case object_key objmap ''JwksUrlPatterns'' of
        None \<Rightarrow> Ok None
      | Some v \<Rightarrow> decoded_res ''failed to unmarshal jwksUrlPatterns: '' (decode_strings v))"

text \<open>
  The shutdown state used to be a string; a value of another type is replaced by an empty
  map, \<^verbatim>\<open>null\<close> and the empty string leave the field as it was.
\<close>

definition read_shutdown_state ::
  "(string \<times> jvalue) list \<Rightarrow> (string \<times> string) list option \<Rightarrow> (string \<times> string) list option res" where
  "read_shutdown_state objmap old =
     (case object_key objmap ''ShutdownState'' of
        None \<Rightarrow> Ok None
      | Some v \<Rightarrow>
          if v = VNull \<or> v = VString [] then Ok old
          else (case decode_string_map v of
                  TypeError \<Rightarrow> Ok (Some [])
                | SyntaxError \<Rightarrow> Err (errorf ''failed to unmarshal shutdown state'')
                | Decoded m \<Rightarrow> Ok m))"

fun res_bind :: "'a res \<Rightarrow> ('a \<Rightarrow> 'b res) \<Rightarrow> 'b res" where
  "res_bind (Ok a) f = f a"
| "res_bind (Err e) f = Err e"
| "res_bind Panic f = Panic"

definition AgentDataV2_UnmarshalJSON :: "AgentDataV2 \<Rightarrow> jvalue \<Rightarrow> AgentDataV2 res" where
  "AgentDataV2_UnmarshalJSON v data =
     (case data of
        VNull \<Rightarrow> Ok v
      | VString [] \<Rightarrow> Ok v
      | VObject objmap \<Rightarrow>
          res_bind (read_required objmap ''Version'' []) (\<lambda>(version, t1).
          res_bind (read_required objmap ''ServiceUrl'' t1) (\<lambda>(serviceUrl, t2).
          res_bind (read_required objmap ''AgentType'' t2) (\<lambda>(agentType, t3).
          res_bind (read_optional objmap ''AgentIdentityToken'' t3) (\<lambda>(token, t4).
          res_bind (read_required objmap ''TargetId'' t4) (\<lambda>(targetId, t5).
          res_bind (read_required objmap ''IdpProvider'' t5) (\<lambda>(idpProvider, t6).
          res_bind (read_required objmap ''IdpOrgId'' t6) (\<lambda>(idpOrgId, t7).
          res_bind (read_optional objmap ''ShutdownReason'' t7) (\<lambda>(reason, t8).
          res_bind (read_key (PrivateKey_UnmarshalJSON None) ''privateKey'' (object_key objmap ''PrivateKey'')) (\<lambda>priv.
          res_bind (read_key (PublicKey_UnmarshalJSON None) ''publicKey'' (object_key objmap ''PublicKey'')) (\<lambda>pub.
          res_bind (read_patterns objmap) (\<lambda>patterns.
          res_bind (read_shutdown_state objmap (ad_ShutdownState v)) (\<lambda>state.
            Ok \<lparr> ad_Version = version, ad_AgentType = agentType, ad_PublicKey = pub, ad_PrivateKey = priv,
                 ad_AgentIdentityToken = token, ad_TargetId = targetId, ad_IdpProvider = idpProvider,
                 ad_IdpOrgId = idpOrgId, ad_ServiceUrl = serviceUrl, ad_ShutdownReason = reason,
                 ad_ShutdownState = state, ad_JwksUrlPatterns = patterns \<rparr>))))))))))))
      | _ \<Rightarrow> Err (errorf ''json: cannot unmarshal value''))"

definition marshal_pub :: "PublicKey option \<Rightarrow> jvalue" where
  "marshal_pub p = (case p of None \<Rightarrow> VNull | Some _ \<Rightarrow> VString (PublicKey_String p))"

definition marshal_priv :: "PrivateKey option \<Rightarrow> jvalue" where
  "marshal_priv p = (case p of None \<Rightarrow> VNull | Some _ \<Rightarrow> VString (PrivateKey_String p))"

definition AgentDataV2_fields :: "AgentDataV2 \<Rightarrow> (string \<times> jvalue) list" where
  "AgentDataV2_fields d =
     [(''Version'', marshal_string (ad_Version d)), (''AgentType'', marshal_string (ad_AgentType d)),
      (''PublicKey'', marshal_pub (ad_PublicKey d)), (''PrivateKey'', marshal_priv (ad_PrivateKey d)),
      (''AgentIdentityToken'', marshal_string (ad_AgentIdentityToken d)), (''TargetId'', marshal_string (ad_TargetId d)),
      (''IdpProvider'', marshal_string (ad_IdpProvider d)), (''IdpOrgId'', marshal_string (ad_IdpOrgId d)),
      (''ServiceUrl'', marshal_string (ad_ServiceUrl d)), (''ShutdownReason'', marshal_string (ad_ShutdownReason d)),
      (''ShutdownState'', marshal_string_map (ad_ShutdownState d)),
      (''JwksUrlPatterns'', marshal_strings (ad_JwksUrlPatterns d))]"

definition marshal_AgentDataV2 :: "AgentDataV2 \<Rightarrow> jvalue" where
  "marshal_AgentDataV2 d = VObject (AgentDataV2_fields d)"

section \<open>Reading back\<close>

definition storable_key :: "nat \<Rightarrow> string option option \<Rightarrow> bool" where
  "storable_key n k \<longleftrightarrow> (case k of Some (Some b) \<Rightarrow> length b = n | _ \<Rightarrow> True)"

definition valid_agent_data :: "AgentDataV2 \<Rightarrow> bool" where
  "valid_agent_data d \<longleftrightarrow>
     list_all valid_utf8 [ad_Version d, ad_AgentType d, ad_AgentIdentityToken d, ad_TargetId d, ad_IdpProvider d,
       ad_IdpOrgId d, ad_ServiceUrl d, ad_ShutdownReason d] \<and>
     storable_key 32 (ad_PublicKey d) \<and> storable_key 64 (ad_PrivateKey d) \<and>
     (case ad_JwksUrlPatterns d of None \<Rightarrow> True | Some ss \<Rightarrow> list_all valid_utf8 ss) \<and>
     (case ad_ShutdownState d of None \<Rightarrow> True
      | Some kvs \<Rightarrow> distinct (al_keys kvs) \<and> list_all (\<lambda>(k, v). valid_utf8 k \<and> valid_utf8 v) kvs)"

lemma json_quote_Nil [simp]: "json_quote [] = dquote @ dquote"
  using json_quote_plain [of "[]"] by simp

lemma read_pub:
  "storable_key 32 p \<Longrightarrow> read_key (PublicKey_UnmarshalJSON None) name (Some (marshal_pub p)) = Ok p"
  by (cases p) (auto simp: storable_key_def marshal_pub_def PublicKey_json split: option.splits)

lemma read_priv:
  "storable_key 64 p \<Longrightarrow> read_key (PrivateKey_UnmarshalJSON None) name (Some (marshal_priv p)) = Ok p"
  by (cases p) (auto simp: storable_key_def marshal_priv_def PrivateKey_json split: option.splits)

definition with_null :: "string \<Rightarrow> (string \<times> jvalue) list \<Rightarrow> (string \<times> jvalue) list" where
  "with_null name kvs = map (\<lambda>(k, v). (k, if k = name then VNull else v)) kvs"

lemma object_key_map:
  "object_key (map (\<lambda>(k, v). (k, f k v)) kvs) name = map_option (f name) (object_key kvs name)"
proof -
  have "map_of (map (\<lambda>(k, v). (k, f k v)) l) name = map_option (f name) (map_of l name)" for l
    by (induction l) auto
  from this [of "rev kvs"] show ?thesis by (simp add: object_key_def rev_map [symmetric])
qed

lemma object_key_null: "object_key (with_null n kvs) name = (if name = n then map_option (\<lambda>_. VNull) (object_key kvs name)
    else object_key kvs name)"
  unfolding with_null_def object_key_map [where f = "\<lambda>k v. if k = n then VNull else v"]
  by (cases "object_key kvs name") auto

lemma object_key_fields:
  "object_key (AgentDataV2_fields d) ''Version'' = Some (marshal_string (ad_Version d))"
  "object_key (AgentDataV2_fields d) ''AgentType'' = Some (marshal_string (ad_AgentType d))"
  "object_key (AgentDataV2_fields d) ''PublicKey'' = Some (marshal_pub (ad_PublicKey d))"
  "object_key (AgentDataV2_fields d) ''PrivateKey'' = Some (marshal_priv (ad_PrivateKey d))"
  "object_key (AgentDataV2_fields d) ''AgentIdentityToken'' = Some (marshal_string (ad_AgentIdentityToken d))"
  "object_key (AgentDataV2_fields d) ''TargetId'' = Some (marshal_string (ad_TargetId d))"
  "object_key (AgentDataV2_fields d) ''IdpProvider'' = Some (marshal_string (ad_IdpProvider d))"
  "object_key (AgentDataV2_fields d) ''IdpOrgId'' = Some (marshal_string (ad_IdpOrgId d))"
  "object_key (AgentDataV2_fields d) ''ServiceUrl'' = Some (marshal_string (ad_ServiceUrl d))"
  "object_key (AgentDataV2_fields d) ''ShutdownReason'' = Some (marshal_string (ad_ShutdownReason d))"
  "object_key (AgentDataV2_fields d) ''ShutdownState'' = Some (marshal_string_map (ad_ShutdownState d))"
  "object_key (AgentDataV2_fields d) ''JwksUrlPatterns'' = Some (marshal_strings (ad_JwksUrlPatterns d))"
  by (simp_all add: object_key_def AgentDataV2_fields_def)

lemma read_written_patterns:
  "valid_agent_data d \<Longrightarrow> decode_strings (marshal_strings (ad_JwksUrlPatterns d)) = Decoded (ad_JwksUrlPatterns d)"
  by (rule decode_marshal_strings) (simp add: valid_agent_data_def)

lemma read_written_state:
  assumes "valid_agent_data d" "object_key kvs ''ShutdownState'' = Some (marshal_string_map (ad_ShutdownState d))"
  shows "read_shutdown_state kvs None = Ok (ad_ShutdownState d)"
proof -
  have "decode_string_map (marshal_string_map (ad_ShutdownState d)) = Decoded (ad_ShutdownState d)"
    by (rule decode_marshal_string_map) (use assms(1) in \<open>auto simp: valid_agent_data_def list_all_iff\<close>)
  then show ?thesis using assms(2) by (cases "ad_ShutdownState d") (simp_all add: read_shutdown_state_def)
qed

lemmas agent_data_reading = AgentDataV2_UnmarshalJSON_def read_required_def read_optional_def read_patterns_def
  object_key_fields object_key_null read_pub read_priv read_written_patterns

lemma agent_data_read:
  assumes "valid_agent_data d" "kvs = AgentDataV2_fields d \<or> kvs = with_null ''TargetId'' (AgentDataV2_fields d)"
  shows "AgentDataV2_UnmarshalJSON AgentDataV2_zero (VObject kvs) =
    Ok (if kvs = AgentDataV2_fields d then d else d\<lparr>ad_TargetId := ad_AgentIdentityToken d\<rparr>)"
proof -
  have st: "read_shutdown_state kvs None = Ok (ad_ShutdownState d)"
    by (rule read_written_state [OF assms(1)]) (use assms(2) in \<open>auto simp: object_key_fields object_key_null\<close>)
  have z: "ad_ShutdownState AgentDataV2_zero = None" by (simp add: AgentDataV2_zero_def)
  have ne: "with_null ''TargetId'' (AgentDataV2_fields d) \<noteq> AgentDataV2_fields d"
    by (simp add: with_null_def AgentDataV2_fields_def marshal_string_def)
  have v: "storable_key 32 (ad_PublicKey d)" "storable_key 64 (ad_PrivateKey d)"
    "valid_utf8 (ad_Version d)" "valid_utf8 (ad_AgentType d)" "valid_utf8 (ad_AgentIdentityToken d)"
    "valid_utf8 (ad_TargetId d)" "valid_utf8 (ad_IdpProvider d)" "valid_utf8 (ad_IdpOrgId d)"
    "valid_utf8 (ad_ServiceUrl d)" "valid_utf8 (ad_ShutdownReason d)"
    using assms(1) by (simp_all add: valid_agent_data_def)
  from assms(2) show ?thesis
  proof
    assume k: "kvs = AgentDataV2_fields d"
    then show ?thesis using v st [unfolded k] assms(1) by (simp add: agent_data_reading z)
  next
    assume k: "kvs = with_null ''TargetId'' (AgentDataV2_fields d)"
    then show ?thesis using v st [unfolded k] assms(1) ne by (simp add: agent_data_reading z)
  qed
qed

lemma agent_data_written:
  "valid_agent_data d \<Longrightarrow> AgentDataV2_UnmarshalJSON AgentDataV2_zero (marshal_AgentDataV2 d) = Ok d"
  using agent_data_read [of d "AgentDataV2_fields d"] by (simp add: marshal_AgentDataV2_def)

text \<open>
  The agent's configuration survives being saved: what was written is read back field by
  field. But a field that holds null is not read as empty: it takes the value of the field
  read before it, so a null target id becomes the agent identity token.
\<close>

theorem agent_data_roundtrip:
  assumes "valid_agent_data d"
  shows "AgentDataV2_UnmarshalJSON AgentDataV2_zero (marshal_AgentDataV2 d) = Ok d \<and>
    AgentDataV2_UnmarshalJSON AgentDataV2_zero (VObject (with_null ''TargetId'' (AgentDataV2_fields d))) =
      Ok (d\<lparr>ad_TargetId := ad_AgentIdentityToken d\<rparr>)"
proof -
  have "with_null ''TargetId'' (AgentDataV2_fields d) \<noteq> AgentDataV2_fields d"
    by (simp add: with_null_def AgentDataV2_fields_def marshal_string_def)
  then show ?thesis
    using agent_data_written [OF assms] agent_data_read [OF assms, of "with_null ''TargetId'' (AgentDataV2_fields d)"]
    by simp
qed

definition wit_agent_data :: AgentDataV2 where
  "wit_agent_data = AgentDataV2_zero\<lparr>ad_TargetId := ''t'', ad_AgentIdentityToken := ''jwt'',
     ad_PublicKey := Some (Some (replicate 32 CHR ''k'')), ad_JwksUrlPatterns := Some [''u'']\<rparr>"

theorem agent_data_roundtrip_witness:
  "AgentDataV2_UnmarshalJSON AgentDataV2_zero (marshal_AgentDataV2 wit_agent_data) = Ok wit_agent_data"
proof -
  have "valid_agent_data wit_agent_data"
    by (simp add: wit_agent_data_def valid_agent_data_def AgentDataV2_zero_def storable_key_def valid_utf8_def sanitize_def)
  from agent_data_roundtrip [OF this] show ?thesis by blast
qed

end
