(* ===== verification/Config_Store.thy ===== *)
theory Config_Store
  imports Config_Data
begin

text \<open>
  \<^verbatim>\<open>bctl/agent/config/client/filestore.go\<close>: a configuration kept in a file. Every save first
  compares the modification time of the file with the one seen by the last fetch, so that a
  change made by another process in between is not overwritten.

  The file system is a record: the configuration file, the clock (in milliseconds) and which
  system calls fail at the moment. What happens between two calls, by other processes or by
  the clock, is an argument of the operations that make two calls.
\<close>

section \<open>The file\<close>

datatype file_text = FEmpty | FJson jvalue | FInvalid string

record config_file =
  cf_text :: file_text
  cf_mtime :: int

record config_faults =
  flt_lock :: "gerror option"
  flt_read :: "gerror option"
  flt_stat :: "gerror option"
  flt_mkdir :: "gerror option"
  flt_create :: "gerror option"
  flt_truncate :: "gerror option"
  flt_write :: "(gerror \<times> file_text) option"

record config_os =
  os_file :: "config_file option"
  os_clock :: int
  os_faults :: config_faults

definition no_faults :: config_faults where
  "no_faults = \<lparr> flt_lock = None, flt_read = None, flt_stat = None, flt_mkdir = None, flt_create = None,
     flt_truncate = None, flt_write = None \<rparr>"

section \<open>The store\<close>

datatype ConfigType = CTAgent | CTKeyShard | CTOther string

record fileStore =
  configType :: ConfigType
  lastAgentMod :: int
  lastKeyShardMod :: int

type_synonym file_state = "fileStore \<times> config_os"

definition set_file :: "config_os \<Rightarrow> file_text \<Rightarrow> config_os" where
  "set_file os text = os\<lparr>os_file := Some \<lparr> cf_text = text, cf_mtime = os_clock os \<rparr>\<rparr>"

definition NewFileStore :: "config_os \<Rightarrow> ConfigType \<Rightarrow> config_os \<times> fileStore res" where
  "NewFileStore os typ =
     (let store = \<lparr> configType = typ, lastAgentMod = 0, lastKeyShardMod = 0 \<rparr>; F = os_faults os in
      case typ of
        CTOther t \<Rightarrow> (os, Err (errorf (''unsupported config type: '' @ t)))
      | _ \<Rightarrow>
         (case flt_stat F of
            Some e \<Rightarrow> (os, Err (errorf_w ''failed to get file system information on our config: '' e))
          | None \<Rightarrow>
             (case os_file os of
                Some _ \<Rightarrow> (os, Ok store)
              | None \<Rightarrow>
                 (case flt_mkdir F of
                    Some e \<Rightarrow> (os, Err (errorf_w ''failed to create config directory: '' e))
                  | None \<Rightarrow>
                     (case flt_create F of
                        Some e \<Rightarrow> (os, Err (errorf_w ''failed to create config file: '' e))
                      | None \<Rightarrow> (set_file os FEmpty, Ok store))))))"

text \<open>
  What both fetches do: take the lock, read the file, note its modification time, decode. The
  time is noted even if decoding fails; an empty file is the zero value.
\<close>

definition fetch_file :: "(jvalue \<Rightarrow> 'd res) \<Rightarrow> 'd \<Rightarrow> config_os \<Rightarrow> int option \<times> 'd res" where
  "fetch_file decode zero os =
     (let F = os_faults os in
      case flt_lock F of Some e \<Rightarrow> (None, Err e) | None \<Rightarrow>
      (case flt_read F of Some e \<Rightarrow> (None, Err e) | None \<Rightarrow>
      (case os_file os of
         None \<Rightarrow> (None, Err (errorf ''no such file or directory''))
       | Some f \<Rightarrow>
          (case flt_stat F of Some e \<Rightarrow> (None, Err (errorf_w ''failed to get config file info: '' e)) | None \<Rightarrow>
             (Some (cf_mtime f),
              case cf_text f of FEmpty \<Rightarrow> Ok zero | FJson v \<Rightarrow> decode v | FInvalid s \<Rightarrow> Err (errorf ''invalid character''))))))"

definition FetchAgentData :: "file_state \<Rightarrow> file_state \<times> AgentDataV2 res" where
  "FetchAgentData st =
     (case st of (s, os) \<Rightarrow>
      if configType s \<noteq> CTAgent then (st, Err (errorf ''cannot fetch agent data with this client''))
      else (case fetch_file (AgentDataV2_UnmarshalJSON AgentDataV2_zero) AgentDataV2_zero os of
              (None, r) \<Rightarrow> (st, r)
            | (Some t, r) \<Rightarrow> ((s\<lparr>lastAgentMod := t\<rparr>, os), r)))"

definition FetchKeyShardData :: "file_state \<Rightarrow> file_state \<times> KeyShardData res" where
  "FetchKeyShardData st =
     (case st of (s, os) \<Rightarrow>
      if configType s \<noteq> CTKeyShard then (st, Err (errorf ''cannot fetch key shard data with this client''))
      else (case fetch_file (\<lambda>v. decoded_res [] (decode_KeyShardData v)) \<lparr> Keys = [] \<rparr> os of
              (None, r) \<Rightarrow> (st, r)
            | (Some t, r) \<Rightarrow> ((s\<lparr>lastKeyShardMod := t\<rparr>, os), r)))"

definition fileStore_Save :: "('d \<Rightarrow> jvalue) \<Rightarrow> file_state \<Rightarrow> 'd \<Rightarrow> file_state \<times> unit res" where
  "fileStore_Save marshal st d =
     (case st of (s, os) \<Rightarrow>
      let F = os_faults os in
      case flt_lock F of Some e \<Rightarrow> (st, Err e) | None \<Rightarrow>
      (case flt_stat F of Some e \<Rightarrow> (st, Err (errorf_w ''failed to get config file info: '' e)) | None \<Rightarrow>
      (case os_file os of
         None \<Rightarrow> (st, Err (errorf ''failed to get config file info''))
       | Some f \<Rightarrow>
          if (configType s = CTAgent \<and> lastAgentMod s \<noteq> cf_mtime f) \<or>
             (configType s = CTKeyShard \<and> lastKeyShardMod s \<noteq> cf_mtime f)
          then (st, Err (errorf ''config has changed since it was last fetched: our last mod''))
          else (case flt_truncate F of Some e \<Rightarrow> (st, Err e) | None \<Rightarrow>
                 (case flt_write F of
                    Some (e, left) \<Rightarrow> ((s, set_file os left), Err e)
                  | None \<Rightarrow> ((s, set_file os (FJson (marshal d))), Ok ()))))))"

section \<open>What a configuration relies on\<close>

text \<open>
  \<^verbatim>\<open>agentConfigClient\<close> and \<^verbatim>\<open>keyShardConfigClient\<close> are the same interface up to the type of the
  data: a configuration fetches, changes and saves. The operations of a store:
\<close>

record ('s, 'd) store_ops =
  so_fetch :: "'s \<Rightarrow> 's \<times> 'd res"
  so_save :: "'s \<Rightarrow> 'd \<Rightarrow> 's \<times> unit res"

text \<open>
  The common shape of every operation that changes a configuration: fetch, change what was
  fetched, keep the changed data, save it; \<^term>\<open>between\<close> is what others do before the save. A
  change may also turn out to be done already: then nothing is saved.
\<close>

record ('s, 'd) config =
  cfg_data :: 'd
  cfg_store :: 's

definition ConfigFetchErr :: "gerror \<Rightarrow> gerror" where
  "ConfigFetchErr e = GErr (''failed to fetch config: '' @ etext e) [ConfigFetchError]"

definition ConfigSaveErr :: "gerror \<Rightarrow> gerror" where
  "ConfigSaveErr e = GErr (''failed to save config: '' @ etext e) [ConfigSaveError]"

definition update_config ::
  "('s, 'd) store_ops \<Rightarrow> ('s \<Rightarrow> 's) \<Rightarrow> ('d \<Rightarrow> 'd option res) \<Rightarrow> ('s, 'd) config \<Rightarrow> ('s, 'd) config \<times> unit res" where
  "update_config SO between change c =
     (case so_fetch SO (cfg_store c) of
        (s1, Err e) \<Rightarrow> (c\<lparr>cfg_store := s1\<rparr>, Err (ConfigFetchErr e))
      | (s1, Panic) \<Rightarrow> (c\<lparr>cfg_store := s1\<rparr>, Panic)
      | (s1, Ok current) \<Rightarrow>
         (case change current of
            Err e \<Rightarrow> (c\<lparr>cfg_store := s1\<rparr>, Err e)
          | Panic \<Rightarrow> (c\<lparr>cfg_store := s1\<rparr>, Panic)
          | Ok None \<Rightarrow> (c\<lparr>cfg_store := s1\<rparr>, Ok ())
          | Ok (Some new) \<Rightarrow>
             (case so_save SO (between s1) new of
                (s2, r) \<Rightarrow> (\<lparr> cfg_data = new, cfg_store = s2 \<rparr>, wrap_err ConfigSaveErr r))))"

definition load_config :: "('s, 'd) store_ops \<Rightarrow> 's \<Rightarrow> ('s, 'd) config res" where
  "load_config SO s =
     (case so_fetch SO s of
        (s1, Err e) \<Rightarrow> Err (ConfigFetchErr e) | (s1, Panic) \<Rightarrow> Panic
      | (s1, Ok d) \<Rightarrow> Ok \<lparr> cfg_data = d, cfg_store = s1 \<rparr>)"

text \<open>
  The laws: a store has a content; a fetch returns it and does not change it; a successful
  save of data that can be stored replaces the content, and it is only successful if the
  version of the content is still the one the last fetch has seen.
\<close>

locale config_store =
  fixes SO :: "('s, 'd) store_ops" and right :: "'s \<Rightarrow> bool" and content :: "'s \<Rightarrow> 'd option"
    and storable :: "'d \<Rightarrow> bool" and version :: "'s \<Rightarrow> int option" and seen :: "'s \<Rightarrow> int option"
  assumes fetch_Ok: "right s \<Longrightarrow> so_fetch SO s = (s1, Ok d) \<Longrightarrow>
      content s = Some d \<and> version s1 = version s \<and> seen s1 = version s1"
    and fetch_keeps: "right s \<Longrightarrow> so_fetch SO s = (s1, r) \<Longrightarrow> right s1 \<and> content s1 = content s \<and> r \<noteq> Panic"
    and save_Ok: "right s \<Longrightarrow> so_save SO s d = (s1, Ok ()) \<Longrightarrow> storable d \<Longrightarrow> right s1 \<and> content s1 = Some d"
    and save_stale: "right s \<Longrightarrow> seen s \<noteq> version s \<Longrightarrow> \<exists>e. so_save SO s d = (s, Err e)"
begin

lemma update_applies:
  assumes "right (cfg_store c)" "\<And>s. right s \<Longrightarrow> right (between s)"
    and "update_config SO between change c = (c', Ok ())" "\<And>d d'. content (cfg_store c) = Some d \<Longrightarrow> change d = Ok (Some d') \<Longrightarrow> storable d'"
  shows "\<exists>d r. content (cfg_store c) = Some d \<and> change d = Ok r \<and>
     content (cfg_store c') = Some (case r of None \<Rightarrow> d | Some d' \<Rightarrow> d') \<and> right (cfg_store c')"
proof -
  obtain s1 d r where f: "so_fetch SO (cfg_store c) = (s1, Ok d)" and ch: "change d = Ok r"
    using assms(3) by (auto simp: update_config_def split: prod.splits res.splits)
  note k = fetch_keeps [OF assms(1) f] fetch_Ok [OF assms(1) f]
  show ?thesis
  proof (cases r)
    case (Some d')
    then obtain s2 where "so_save SO (between s1) d' = (s2, Ok ())" "c' = \<lparr> cfg_data = d', cfg_store = s2 \<rparr>"
      using assms(3) f ch by (auto simp: update_config_def split: prod.splits)
    then show ?thesis
      using k assms(4) ch Some save_Ok [of "between s1" d' s2] assms(2) [of s1] by auto
  qed (use assms(3) f ch k in \<open>auto simp: update_config_def\<close>)
qed

lemma update_refused:
  assumes "right (cfg_store c)" "content (cfg_store c) = Some d" "change d = Err e"
  shows "\<exists>c' e'. update_config SO between change c = (c', Err e') \<and> content (cfg_store c') = content (cfg_store c) \<and>
     cfg_data c' = cfg_data c"
proof -
  obtain s1 r where f: "so_fetch SO (cfg_store c) = (s1, r)" by fastforce
  have "r \<noteq> Panic" "content s1 = content (cfg_store c)" using fetch_keeps [OF assms(1) f] by auto
  moreover have "r = Ok d'' \<Longrightarrow> d'' = d" for d'' using fetch_Ok [OF assms(1), of s1 d''] f assms(2) by auto
  ultimately show ?thesis using f assms(3) by (cases r) (auto simp: update_config_def)
qed

lemma no_lost_update:
  assumes "right (cfg_store c)" "right (between s1)"
    and "so_fetch SO (cfg_store c) = (s1, Ok d)" "change d = Ok (Some d')"
    and "seen (between s1) = seen s1" "version (between s1) \<noteq> version s1"
  shows "\<exists>e. update_config SO between change c = (\<lparr> cfg_data = d', cfg_store = between s1 \<rparr>, Err (ConfigSaveErr e))"
proof -
  have "seen (between s1) \<noteq> version (between s1)" using fetch_Ok [OF assms(1,3)] assms(5,6) by simp
  then obtain e where "so_save SO (between s1) d' = (between s1, Err e)" using save_stale [OF assms(2)] by blast
  then show ?thesis using assms(3,4) by (auto simp: update_config_def)
qed

end

section \<open>The file store keeps the contract\<close>

definition file_content :: "(jvalue \<Rightarrow> 'd res) \<Rightarrow> 'd \<Rightarrow> file_state \<Rightarrow> 'd option" where
  "file_content decode zero st =
     (case os_file (snd st) of
        None \<Rightarrow> None
      | Some f \<Rightarrow> (case cf_text f of FEmpty \<Rightarrow> Some zero | FInvalid s \<Rightarrow> None
                  | FJson v \<Rightarrow> (case decode v of Ok d \<Rightarrow> Some d | _ \<Rightarrow> None)))"

definition file_version :: "file_state \<Rightarrow> int option" where
  "file_version st = map_option cf_mtime (os_file (snd st))"

definition key_shard_ops :: "(file_state, KeyShardData) store_ops" where
  "key_shard_ops = \<lparr> so_fetch = FetchKeyShardData, so_save = fileStore_Save marshal_KeyShardData \<rparr>"

definition agent_ops :: "(file_state, AgentDataV2) store_ops" where
  "agent_ops = \<lparr> so_fetch = FetchAgentData, so_save = fileStore_Save marshal_AgentDataV2 \<rparr>"

abbreviation decode_key_shards :: "jvalue \<Rightarrow> KeyShardData res" where
  "decode_key_shards v \<equiv> decoded_res [] (decode_KeyShardData v)"

abbreviation decode_agent :: "jvalue \<Rightarrow> AgentDataV2 res" where
  "decode_agent \<equiv> AgentDataV2_UnmarshalJSON AgentDataV2_zero"

lemma fetch_file_Ok:
  "fetch_file decode zero os = (t, Ok d) \<Longrightarrow> file_content decode zero (s, os) = Some d \<and>
     t = file_version (s, os) \<and> t \<noteq> None"
  by (auto simp: fetch_file_def file_content_def file_version_def Let_def
      split: option.splits file_text.splits res.splits)

lemma fetch_file_no_panic: "(\<And>v. decode v \<noteq> Panic) \<Longrightarrow> snd (fetch_file decode zero os) \<noteq> Panic"
  by (auto simp: fetch_file_def Let_def split: option.splits file_text.splits)

lemma file_content_store [simp]: "file_content decode zero (s\<lparr>lastAgentMod := t\<rparr>, os) = file_content decode zero (s, os)"
  "file_content decode zero (s\<lparr>lastKeyShardMod := t\<rparr>, os) = file_content decode zero (s, os)"
  by (simp_all add: file_content_def)

lemma Save_Ok:
  "fileStore_Save marshal (s, os) d = ((s', os'), Ok ()) \<Longrightarrow> s' = s \<and> os' = set_file os (FJson (marshal d))"
  by (auto simp: fileStore_Save_def Let_def split: option.splits if_splits prod.splits)

lemma Save_stale:
  assumes "configType s = CTAgent \<and> Some (lastAgentMod s) \<noteq> file_version (s, os) \<or>
    configType s = CTKeyShard \<and> Some (lastKeyShardMod s) \<noteq> file_version (s, os)"
  shows "\<exists>e. fileStore_Save marshal (s, os) d = ((s, os), Err e)"
  using assms by (auto simp: fileStore_Save_def Let_def file_version_def split: option.splits)

lemma decoded_res_no_panic [simp]: "decoded_res w d \<noteq> Panic"
  by (cases d) auto

lemma res_bind_no_panic: "r \<noteq> Panic \<Longrightarrow> (\<And>a. f a \<noteq> Panic) \<Longrightarrow> res_bind r f \<noteq> Panic"
  by (cases r) auto

lemma read_no_panic:
  "read_required kvs n t \<noteq> Panic" "read_optional kvs n t \<noteq> Panic" "read_patterns kvs \<noteq> Panic"
  "read_shutdown_state kvs old \<noteq> Panic"
  "read_key (PublicKey_UnmarshalJSON None) n v \<noteq> Panic" "read_key (PrivateKey_UnmarshalJSON None) n v \<noteq> Panic"
proof -
  show req: "read_required kvs n t \<noteq> Panic" for kvs n t by (simp add: read_required_def) (cases "decode_string t (object_key kvs n)"; simp)
  show "read_optional kvs n t \<noteq> Panic" using req by (simp add: read_optional_def split: option.split)
  show "read_patterns kvs \<noteq> Panic" by (simp add: read_patterns_def split: option.split)
  show "read_shutdown_state kvs old \<noteq> Panic" by (simp add: read_shutdown_state_def split: option.split decoded.split)
  have pk: "PublicKey_UnmarshalJSON None x \<noteq> Panic" "PrivateKey_UnmarshalJSON None x \<noteq> Panic" for x
    by (simp_all add: PublicKey_UnmarshalJSON_def PublicKeyFromString_def PrivateKey_UnmarshalJSON_def
        PrivateKeyFromString_def split: option.split)
  have "res_map Some (PublicKey_UnmarshalJSON None x) \<noteq> Panic" "res_map Some (PrivateKey_UnmarshalJSON None x) \<noteq> Panic" for x
    using pk [of x] by (cases "PublicKey_UnmarshalJSON None x"; cases "PrivateKey_UnmarshalJSON None x"; simp)+
  then have w: "wrap_err g (res_map Some (PublicKey_UnmarshalJSON None x)) \<noteq> Panic"
    "wrap_err g (res_map Some (PrivateKey_UnmarshalJSON None x)) \<noteq> Panic" for g x
    by (metis wrap_err.elims res.distinct(3,5))+
  show "read_key (PublicKey_UnmarshalJSON None) n v \<noteq> Panic" "read_key (PrivateKey_UnmarshalJSON None) n v \<noteq> Panic"
    using w by (induction "PublicKey_UnmarshalJSON None" n v rule: read_key.induct; simp)
      (use w in \<open>induction "PrivateKey_UnmarshalJSON None" n v rule: read_key.induct; simp\<close>)
qed

lemma decode_agent_no_panic: "decode_agent v \<noteq> Panic"
proof (cases v)
  case (VObject objmap)
  show ?thesis
    unfolding VObject AgentDataV2_UnmarshalJSON_def jvalue.case split_beta
    by (intro res_bind_no_panic read_no_panic) simp
next
  case (VString s)
  then show ?thesis by (cases s) (simp_all add: AgentDataV2_UnmarshalJSON_def)
qed (simp_all add: AgentDataV2_UnmarshalJSON_def)

interpretation ks: config_store key_shard_ops "\<lambda>st. configType (fst st) = CTKeyShard"
  "file_content decode_key_shards \<lparr> Keys = [] \<rparr>" valid_key_shards file_version "\<lambda>st. Some (lastKeyShardMod (fst st))"
proof
  fix s s1 :: file_state and d r
  assume t: "configType (fst s) = CTKeyShard" and f: "so_fetch key_shard_ops s = (s1, r)"
  obtain t' where ff: "fetch_file decode_key_shards \<lparr> Keys = [] \<rparr> (snd s) = (t', r)" "fst s1 = (case t' of None \<Rightarrow> fst s
      | Some x \<Rightarrow> (fst s)\<lparr>lastKeyShardMod := x\<rparr>)" "snd s1 = snd s"
    using t f by (auto simp: key_shard_ops_def FetchKeyShardData_def split: prod.splits option.splits)
  show "configType (fst s1) = CTKeyShard \<and> file_content decode_key_shards \<lparr> Keys = [] \<rparr> s1 =
      file_content decode_key_shards \<lparr> Keys = [] \<rparr> s \<and> r \<noteq> Panic"
    using ff t fetch_file_no_panic [of decode_key_shards "\<lparr> Keys = [] \<rparr>" "snd s"]
    by (auto simp: file_content_def split: option.splits)
next
  fix s s1 :: file_state and d
  assume "configType (fst s) = CTKeyShard" and "so_fetch key_shard_ops s = (s1, Ok d)"
  then show "file_content decode_key_shards \<lparr> Keys = [] \<rparr> s = Some d \<and> file_version s1 = file_version s \<and>
      Some (lastKeyShardMod (fst s1)) = file_version s1"
    using fetch_file_Ok [of decode_key_shards "\<lparr> Keys = [] \<rparr>" "snd s" _ d "fst s"]
    by (auto simp: key_shard_ops_def FetchKeyShardData_def file_version_def split: prod.splits option.splits)
next
  fix s s1 :: file_state and d
  assume "configType (fst s) = CTKeyShard" and "so_save key_shard_ops s d = (s1, Ok ())" and "valid_key_shards d"
  then show "configType (fst s1) = CTKeyShard \<and> file_content decode_key_shards \<lparr> Keys = [] \<rparr> s1 = Some d"
    using Save_Ok [of marshal_KeyShardData "fst s" "snd s" d "fst s1" "snd s1"]
    by (simp add: key_shard_ops_def file_content_def set_file_def key_shards_roundtrip)
next
  fix s :: file_state and d
  assume "configType (fst s) = CTKeyShard" and "Some (lastKeyShardMod (fst s)) \<noteq> file_version s"
  then show "\<exists>e. so_save key_shard_ops s d = (s, Err e)"
    using Save_stale [of "fst s" "snd s" marshal_KeyShardData d] by (simp add: key_shard_ops_def)
qed

interpretation ac: config_store agent_ops "\<lambda>st. configType (fst st) = CTAgent"
  "file_content decode_agent AgentDataV2_zero" valid_agent_data file_version "\<lambda>st. Some (lastAgentMod (fst st))"
proof
  fix s s1 :: file_state and d r
  assume t: "configType (fst s) = CTAgent" and f: "so_fetch agent_ops s = (s1, r)"
  obtain t' where ff: "fetch_file decode_agent AgentDataV2_zero (snd s) = (t', r)" "fst s1 = (case t' of None \<Rightarrow> fst s
      | Some x \<Rightarrow> (fst s)\<lparr>lastAgentMod := x\<rparr>)" "snd s1 = snd s"
    using t f by (auto simp: agent_ops_def FetchAgentData_def split: prod.splits option.splits)
  show "configType (fst s1) = CTAgent \<and> file_content decode_agent AgentDataV2_zero s1 =
      file_content decode_agent AgentDataV2_zero s \<and> r \<noteq> Panic"
    using ff t fetch_file_no_panic [of decode_agent AgentDataV2_zero "snd s"] decode_agent_no_panic
    by (auto simp: file_content_def split: option.splits)
next
  fix s s1 :: file_state and d
  assume "configType (fst s) = CTAgent" and "so_fetch agent_ops s = (s1, Ok d)"
  then show "file_content decode_agent AgentDataV2_zero s = Some d \<and> file_version s1 = file_version s \<and>
      Some (lastAgentMod (fst s1)) = file_version s1"
    using fetch_file_Ok [of decode_agent AgentDataV2_zero "snd s" _ d "fst s"]
    by (auto simp: agent_ops_def FetchAgentData_def file_version_def split: prod.splits option.splits)
next
  fix s s1 :: file_state and d
  assume "configType (fst s) = CTAgent" and "so_save agent_ops s d = (s1, Ok ())" and "valid_agent_data d"
  then show "configType (fst s1) = CTAgent \<and> file_content decode_agent AgentDataV2_zero s1 = Some d"
    using Save_Ok [of marshal_AgentDataV2 "fst s" "snd s" d "fst s1" "snd s1"]
    by (simp add: agent_ops_def file_content_def set_file_def agent_data_written)
next
  fix s :: file_state and d
  assume "configType (fst s) = CTAgent" and "Some (lastAgentMod (fst s)) \<noteq> file_version s"
  then show "\<exists>e. so_save agent_ops s d = (s, Err e)"
    using Save_stale [of "fst s" "snd s" marshal_AgentDataV2 d] by (simp add: agent_ops_def)
qed

end
