(* ===== verification/Key_Shard_Config.thy ===== *)
theory Key_Shard_Config
  imports Config_Store
begin

text \<open>
  \<^verbatim>\<open>bctl/agent/config/keyshardconfig\<close>: the key shards for passwordless databases and the
  targets they are for. For each target the configuration is a stack of keys: adding a key
  pushes it for its targets, the last key is the one in use, deleting a target pops one key,
  or all of them.
\<close>

section \<open>Searching and removing\<close>

definition TargetErr :: "string \<Rightarrow> gerror" where
  "TargetErr t = GErr (''no entry with targetId '' @ t) [TargetError]"

definition NoOpErr :: gerror where
  "NoOpErr = GErr ''Requested action is a no-op'' [NoOpError]"

fun findEntry_from :: "nat \<Rightarrow> MappedKeyEntry list \<Rightarrow> KeyEntry \<Rightarrow> nat option" where
  "findEntry_from i [] key = None"
| "findEntry_from i (m # ms) key =
     (if KeyShardPem (KeyData m) = KeyShardPem key then Some i else findEntry_from (Suc i) ms key)"

definition findEntry :: "KeyShardData \<Rightarrow> KeyEntry \<Rightarrow> nat res" where
  "findEntry keyShards key =
     (case findEntry_from 0 (Keys keyShards) key of Some i \<Rightarrow> Ok i | None \<Rightarrow> Err (GErr ''key not found'' [KeyError]))"

fun containsTarget_in :: "string list \<Rightarrow> string \<Rightarrow> bool" where
  "containsTarget_in [] targetId = False"
| "containsTarget_in (tid # tids) targetId = (tid = targetId \<or> containsTarget_in tids targetId)"

definition containsTarget :: "MappedKeyEntry \<Rightarrow> string \<Rightarrow> bool" where
  "containsTarget entry targetId = containsTarget_in (TargetIds entry) targetId"

text \<open>The loop from the last entry down.\<close>

fun lastIndex_below :: "nat \<Rightarrow> MappedKeyEntry list \<Rightarrow> string \<Rightarrow> nat option" where
  "lastIndex_below 0 ks targetId = None"
| "lastIndex_below (Suc i) ks targetId =
     (if containsTarget (ks ! i) targetId then Some i else lastIndex_below i ks targetId)"

definition lastIndex :: "KeyShardData \<Rightarrow> string \<Rightarrow> nat res" where
  "lastIndex keyShards targetId =
     (case lastIndex_below (length (Keys keyShards)) (Keys keyShards) targetId of
        Some i \<Rightarrow> Ok i | None \<Rightarrow> Err (TargetErr targetId))"

fun target_index :: "nat \<Rightarrow> string list \<Rightarrow> string \<Rightarrow> nat option" where
  "target_index i [] targetId = None"
| "target_index i (tid # tids) targetId = (if tid = targetId then Some i else target_index (Suc i) tids targetId)"

lemma containsTarget_iff [simp]: "containsTarget m t \<longleftrightarrow> t \<in> set (TargetIds m)"
proof -
  have "containsTarget_in ts t \<longleftrightarrow> t \<in> set ts" for ts by (induction ts) auto
  then show ?thesis by (simp add: containsTarget_def)
qed

lemma target_index_remove1:
  "target_index i ts t = Some j \<Longrightarrow> i \<le> j \<and> j - i < length ts \<and> take (j - i) ts @ drop (Suc (j - i)) ts = remove1 t ts \<and> t \<in> set ts"
proof (induction i ts t rule: target_index.induct)
  case (2 i tid tids t)
  show ?case
  proof (cases "tid = t")
    case False
    then have "target_index (Suc i) tids t = Some j" using 2(2) by simp
    from 2(1) [OF False this] have ih: "Suc i \<le> j" "j - Suc i < length tids"
      "take (j - Suc i) tids @ drop (Suc (j - Suc i)) tids = remove1 t tids" "t \<in> set tids" by auto
    then have "j - i = Suc (j - Suc i)" by simp
    with ih False show ?thesis by auto
  qed (use 2 in simp)
qed simp

lemma target_index_None: "target_index i ts t = None \<longleftrightarrow> t \<notin> set ts"
  by (induction i ts t rule: target_index.induct) auto

lemma lastIndex_below_Some:
  "lastIndex_below n ks t = Some i \<Longrightarrow> i < n \<and> t \<in> set (TargetIds (ks ! i)) \<and> (\<forall>j. i < j \<longrightarrow> j < n \<longrightarrow> t \<notin> set (TargetIds (ks ! j)))"
  by (induction n) (auto split: if_splits simp: less_Suc_eq)

lemma lastIndex_below_None: "lastIndex_below n ks t = None \<longleftrightarrow> (\<forall>j<n. t \<notin> set (TargetIds (ks ! j)))"
  by (induction n) (auto simp: less_Suc_eq)

definition occurrences :: "string \<Rightarrow> MappedKeyEntry list \<Rightarrow> nat" where
  "occurrences t ks = sum_list (map (\<lambda>m. count_list (TargetIds m) t) ks)"

definition remove_at :: "MappedKeyEntry list \<Rightarrow> nat \<Rightarrow> nat \<Rightarrow> MappedKeyEntry list" where
  "remove_at ks idx match =
     ks[idx := (ks ! idx)\<lparr>TargetIds := take match (TargetIds (ks ! idx)) @ drop (match + 1) (TargetIds (ks ! idx))\<rparr>]"

lemma count_remove1: "count_list (remove1 t ts) t' = (if t' = t then count_list ts t - 1 else count_list ts t')"
  by (induction ts) (auto simp: count_list_0_iff Suc_diff_Suc split: if_splits
      intro: Suc_pred [symmetric] dest: count_list_0_iff [THEN iffD2])

lemma occurrences_remove_at:
  assumes "idx < length ks" "target_index 0 (TargetIds (ks ! idx)) t = Some match"
  shows "occurrences t (remove_at ks idx match) < occurrences t ks"
proof -
  have r: "remove_at ks idx match = ks[idx := (ks ! idx)\<lparr>TargetIds := remove1 t (TargetIds (ks ! idx))\<rparr>]"
    "t \<in> set (TargetIds (ks ! idx))"
    using target_index_remove1 [OF assms(2)] by (auto simp: remove_at_def)
  have "ks = take idx ks @ ks ! idx # drop (Suc idx) ks" using assms(1) by (simp add: id_take_nth_drop)
  then have "occurrences t ks = occurrences t (take idx ks) + count_list (TargetIds (ks ! idx)) t + occurrences t (drop (Suc idx) ks)"
    by (metis (no_types, lifting) add.assoc list.simps(9) map_append occurrences_def sum_list.Cons sum_list.append)
  moreover have "occurrences t (remove_at ks idx match) =
      occurrences t (take idx ks) + count_list (remove1 t (TargetIds (ks ! idx))) t + occurrences t (drop (Suc idx) ks)"
    using assms(1) by (simp add: r(1) upd_conv_take_nth_drop occurrences_def)
  ultimately show ?thesis
    using r(2) count_list_0_iff [of "TargetIds (ks ! idx)" t] by (simp add: count_remove1)
qed

lemma lastIndex_Ok: "lastIndex d t = Ok i \<longleftrightarrow> lastIndex_below (length (Keys d)) (Keys d) t = Some i"
  by (simp add: lastIndex_def split: option.splits)

text \<open>
  The recursion of a hard removal ends because every step removes one occurrence of the
  target.
\<close>

function removeTarget :: "KeyShardData \<Rightarrow> string \<Rightarrow> bool \<Rightarrow> KeyShardData \<times> unit res" where
  "removeTarget keyShards targetId hard =
     (case lastIndex keyShards targetId of
        Err e \<Rightarrow> (keyShards, Err e)
      | Panic \<Rightarrow> (keyShards, Panic)
      | Ok idx \<Rightarrow>
         (case target_index 0 (TargetIds (Keys keyShards ! idx)) targetId of
            None \<Rightarrow> (\<lparr> Keys = [] \<rparr>, Err (errorf ''underlying list corrupted; the lock may be violated''))
          | Some match \<Rightarrow>
             (let keyShards1 = keyShards\<lparr>Keys := remove_at (Keys keyShards) idx match\<rparr> in
              if \<not> hard then (keyShards1, Ok ())
              else (case removeTarget keyShards1 targetId hard of
                      (keyShards2, Err e) \<Rightarrow>
                        if \<not> errors_As TargetError e then (\<lparr> Keys = [] \<rparr>, Err e) else (keyShards2, Ok ())
                    | (keyShards2, r) \<Rightarrow> (keyShards2, r)))))"
  by pat_completeness auto
termination
proof (relation "measure (\<lambda>(d, t, hard). occurrences t (Keys d))")
  fix d t hard idx match d1
  assume i: "lastIndex d t = Ok idx" "target_index 0 (TargetIds (Keys d ! idx)) t = Some match"
    "d1 = d\<lparr>Keys := remove_at (Keys d) idx match\<rparr>"
  have "idx < length (Keys d)" using i(1) lastIndex_below_Some by (auto simp: lastIndex_Ok)
  then show "((d1, t, hard), (d, t, hard)) \<in> measure (\<lambda>(d, t, hard). occurrences t (Keys d))"
    using occurrences_remove_at [OF _ i(2)] i(3) by simp
qed simp

declare removeTarget.simps [simp del]

section \<open>Operations\<close>

fun add_targets :: "string list \<Rightarrow> string list \<Rightarrow> string list \<times> bool" where
  "add_targets tids [] = (tids, False)"
| "add_targets tids (t # ts) =
     (if containsTarget_in tids t then add_targets tids ts
      else (fst (add_targets (tids @ [t]) ts), True))"

definition AddKey_change :: "MappedKeyEntry \<Rightarrow> KeyShardData \<Rightarrow> KeyShardData option res" where
  "AddKey_change newEntry current =
     (case findEntry current (KeyData newEntry) of
        Ok idx \<Rightarrow>
          (case add_targets (TargetIds (Keys current ! idx)) (TargetIds newEntry) of
             (tids, addedSomeTargets) \<Rightarrow>
               if \<not> addedSomeTargets then Err NoOpErr
               else Ok (Some (current\<lparr>Keys := (Keys current)[idx := (Keys current ! idx)\<lparr>TargetIds := tids\<rparr>]\<rparr>)))
      | _ \<Rightarrow> Ok (Some (current\<lparr>Keys := Keys current @ [newEntry]\<rparr>)))"

definition AddKey ::
  "('s, KeyShardData) store_ops \<Rightarrow> ('s \<Rightarrow> 's) \<Rightarrow> ('s, KeyShardData) config \<Rightarrow> MappedKeyEntry \<Rightarrow>
   ('s, KeyShardData) config \<times> unit res" where
  "AddKey SO between c newEntry = update_config SO between (AddKey_change newEntry) c"

definition add_target_to :: "string \<Rightarrow> MappedKeyEntry \<Rightarrow> MappedKeyEntry" where
  "add_target_to targetId m = (if containsTarget m targetId then m else m\<lparr>TargetIds := TargetIds m @ [targetId]\<rparr>)"

definition AddTarget_change :: "string \<Rightarrow> KeyShardData \<Rightarrow> KeyShardData option res" where
  "AddTarget_change targetId current =
     (if list_all (\<lambda>m. containsTarget m targetId) (Keys current) then Err NoOpErr
      else Ok (Some (current\<lparr>Keys := map (add_target_to targetId) (Keys current)\<rparr>)))"

definition AddTarget ::
  "('s, KeyShardData) store_ops \<Rightarrow> ('s \<Rightarrow> 's) \<Rightarrow> ('s, KeyShardData) config \<Rightarrow> string \<Rightarrow>
   ('s, KeyShardData) config \<times> unit res" where
  "AddTarget SO between c targetId = update_config SO between (AddTarget_change targetId) c"

definition LastKey_in :: "KeyShardData \<Rightarrow> string \<Rightarrow> KeyEntry res" where
  "LastKey_in current targetId = res_map (\<lambda>idx. KeyData (Keys current ! idx)) (lastIndex current targetId)"

definition LastKey ::
  "('s, KeyShardData) store_ops \<Rightarrow> ('s, KeyShardData) config \<Rightarrow> string \<Rightarrow> ('s, KeyShardData) config \<times> KeyEntry res" where
  "LastKey SO c targetId =
     (case so_fetch SO (cfg_store c) of
        (s1, Err e) \<Rightarrow> (c\<lparr>cfg_store := s1\<rparr>, Err (ConfigFetchErr e))
      | (s1, Panic) \<Rightarrow> (c\<lparr>cfg_store := s1\<rparr>, Panic)
      | (s1, Ok current) \<Rightarrow> (c\<lparr>cfg_store := s1\<rparr>, LastKey_in current targetId))"

text \<open>\<^verbatim>\<open>Clear\<close> saves an empty configuration but keeps the data it has loaded.\<close>

definition Clear ::
  "('s, KeyShardData) store_ops \<Rightarrow> ('s \<Rightarrow> 's) \<Rightarrow> ('s, KeyShardData) config \<Rightarrow> ('s, KeyShardData) config \<times> unit res" where
  "Clear SO between c =
     (case so_fetch SO (cfg_store c) of
        (s1, Err e) \<Rightarrow> (c\<lparr>cfg_store := s1\<rparr>, Err (ConfigFetchErr e))
      | (s1, Panic) \<Rightarrow> (c\<lparr>cfg_store := s1\<rparr>, Panic)
      | (s1, Ok current) \<Rightarrow>
          if Keys current = [] then (c\<lparr>cfg_store := s1\<rparr>, Err NoOpErr)
          else (case so_save SO (between s1) \<lparr> Keys = [] \<rparr> of (s2, r) \<Rightarrow> (c\<lparr>cfg_store := s2\<rparr>, wrap_err ConfigSaveErr r)))"

definition DeleteTarget_change :: "string \<Rightarrow> bool \<Rightarrow> KeyShardData \<Rightarrow> KeyShardData option res" where
  "DeleteTarget_change targetId hard current =
     (case removeTarget current targetId hard of
        (d, Ok _) \<Rightarrow> Ok (Some d) | (d, Err e) \<Rightarrow> Err e | (d, Panic) \<Rightarrow> Panic)"

definition DeleteTarget ::
  "('s, KeyShardData) store_ops \<Rightarrow> ('s \<Rightarrow> 's) \<Rightarrow> ('s, KeyShardData) config \<Rightarrow> string \<Rightarrow> bool \<Rightarrow>
   ('s, KeyShardData) config \<times> unit res" where
  "DeleteTarget SO between c targetId hard = update_config SO between (DeleteTarget_change targetId hard) c"

definition LoadKeyShardConfig :: "('s, KeyShardData) store_ops \<Rightarrow> 's \<Rightarrow> ('s, KeyShardData) config res" where
  "LoadKeyShardConfig SO s = load_config SO s"

definition KeyShardConfig_MarshalJSON ::
  "('s, KeyShardData) store_ops \<Rightarrow> ('s, KeyShardData) config \<Rightarrow> ('s, KeyShardData) config \<times> jvalue res" where
  "KeyShardConfig_MarshalJSON SO c =
     (case so_fetch SO (cfg_store c) of
        (s1, r) \<Rightarrow> (c\<lparr>cfg_store := s1\<rparr>, res_map marshal_KeyShardData (wrap_err ConfigFetchErr r)))"

section \<open>Stacks of keys\<close>

text \<open>The abstract configuration: for each target its keys, the one in use last.\<close>

definition keys_of :: "string \<Rightarrow> KeyShardData \<Rightarrow> KeyEntry list" where
  "keys_of t d = concat (map (\<lambda>m. replicate (count_list (TargetIds m) t) (KeyData m)) (Keys d))"

lemma keys_of_absent: "\<forall>m \<in> set ms. t \<notin> set (TargetIds m) \<Longrightarrow> keys_of t \<lparr> Keys = ms \<rparr> = []"
  by (auto simp: keys_of_def count_list_0_iff)

lemma lastIndex_split:
  assumes "lastIndex d t = Ok i"
  shows "i < length (Keys d) \<and> t \<in> set (TargetIds (Keys d ! i)) \<and> (\<forall>m \<in> set (drop (Suc i) (Keys d)). t \<notin> set (TargetIds m))"
proof -
  note l = lastIndex_below_Some [OF assms [unfolded lastIndex_Ok]]
  have "t \<notin> set (TargetIds m)" if m: "m \<in> set (drop (Suc i) (Keys d))" for m
  proof -
    obtain j where "j < length (Keys d) - Suc i" "m = Keys d ! (Suc i + j)" using m by (auto simp: in_set_conv_nth)
    then show ?thesis using l by auto
  qed
  then show ?thesis using l by blast
qed

lemma keys_of_at:
  assumes "i < length (Keys d)"
  shows "keys_of t d = keys_of t \<lparr> Keys = take i (Keys d) \<rparr> @
    replicate (count_list (TargetIds (Keys d ! i)) t) (KeyData (Keys d ! i)) @ keys_of t \<lparr> Keys = drop (Suc i) (Keys d) \<rparr>"
proof -
  have "Keys d = take i (Keys d) @ Keys d ! i # drop (Suc i) (Keys d)" using assms by (simp add: id_take_nth_drop)
  then show ?thesis by (subst keys_of_def) (metis (no_types, lifting) KeyShardData.select_convs(1) concat.simps(2)
      concat_append keys_of_def list.simps(9) map_append)
qed

lemma lastIndex_none: "lastIndex d t = Err e \<Longrightarrow> keys_of t d = []"
proof -
  assume "lastIndex d t = Err e"
  then have "\<forall>j<length (Keys d). t \<notin> set (TargetIds (Keys d ! j))"
    by (auto simp: lastIndex_def lastIndex_below_None split: option.splits)
  then have "\<forall>m \<in> set (Keys d). t \<notin> set (TargetIds m)" by (metis in_set_conv_nth)
  from keys_of_absent [OF this] show ?thesis by (simp add: keys_of_def)
qed

lemma LastKey_is_top:
  "LastKey_in d t = (if keys_of t d = [] then Err (TargetErr t) else Ok (last (keys_of t d)))"
proof (cases "lastIndex d t")
  case (Ok i)
  note s = lastIndex_split [OF Ok]
  then have "keys_of t d = keys_of t \<lparr> Keys = take i (Keys d) \<rparr> @ replicate (count_list (TargetIds (Keys d ! i)) t) (KeyData (Keys d ! i))"
    using keys_of_at [of i d t] keys_of_absent by simp
  moreover have "count_list (TargetIds (Keys d ! i)) t \<noteq> 0" using s by (simp add: count_list_0_iff)
  ultimately show ?thesis using Ok by (simp add: LastKey_in_def)
next
  case (Err e)
  then show ?thesis using lastIndex_none [OF Err] by (auto simp: LastKey_in_def lastIndex_def split: option.splits)
qed (simp add: lastIndex_def split: option.splits)

lemma butlast_replicate: "butlast (replicate n x) = replicate (n - 1) x"
  by (cases n) (simp_all add: replicate_append_same [symmetric])

lemma lastIndex_result: "lastIndex d t = Err (TargetErr t) \<or> (\<exists>i. lastIndex d t = Ok i)"
  by (simp add: lastIndex_def split: option.splits)

lemma remove_step:
  assumes "lastIndex d t = Ok i"
  obtains match where "target_index 0 (TargetIds (Keys d ! i)) t = Some match"
    "keys_of t d \<noteq> []" "keys_of t (d\<lparr>Keys := remove_at (Keys d) i match\<rparr>) = butlast (keys_of t d)"
    "\<And>t'. t' \<noteq> t \<Longrightarrow> keys_of t' (d\<lparr>Keys := remove_at (Keys d) i match\<rparr>) = keys_of t' d"
proof -
  note s = lastIndex_split [OF assms]
  then obtain match where m: "target_index 0 (TargetIds (Keys d ! i)) t = Some match"
    using target_index_None [of 0 "TargetIds (Keys d ! i)" t] by auto
  let ?d = "d\<lparr>Keys := remove_at (Keys d) i match\<rparr>" and ?ts = "TargetIds (Keys d ! i)"
  have r: "Keys ?d = (Keys d)[i := (Keys d ! i)\<lparr>TargetIds := remove1 t ?ts\<rparr>]"
    using target_index_remove1 [OF m] by (simp add: remove_at_def)
  have k: "keys_of u ?d = keys_of u \<lparr> Keys = take i (Keys d) \<rparr> @ replicate (count_list (remove1 t ?ts) u) (KeyData (Keys d ! i)) @
      keys_of u \<lparr> Keys = drop (Suc i) (Keys d) \<rparr>" for u
    using s keys_of_at [of i ?d u] by (simp add: r)
  have top: "keys_of t \<lparr> Keys = drop (Suc i) (Keys d) \<rparr> = []" using s keys_of_absent by simp
  have c: "count_list ?ts t \<noteq> 0" using s by (simp add: count_list_0_iff)
  show ?thesis
  proof (rule that [OF m])
    show "keys_of t d \<noteq> []" using s keys_of_at [of i d t] c by simp
    show "keys_of t ?d = butlast (keys_of t d)"
      using s keys_of_at [of i d t] k [of t] top c by (simp add: count_remove1 butlast_append butlast_replicate)
    show "keys_of t' ?d = keys_of t' d" if "t' \<noteq> t" for t'
      using s keys_of_at [of i d t'] k [of t'] that by (simp add: count_remove1)
  qed
qed

lemma removeTarget_absent: "keys_of t d = [] \<Longrightarrow> removeTarget d t hard = (d, Err (TargetErr t))"
proof -
  assume e: "keys_of t d = []"
  have "lastIndex d t \<noteq> Ok i" for i by (rule notI, rule remove_step [of d t i]) (use e in auto)
  then have "lastIndex d t = Err (TargetErr t)" using lastIndex_result [of d t] by blast
  then show ?thesis by (subst removeTarget.simps) simp
qed

lemma keys_of_lastIndex: "keys_of t d \<noteq> [] \<Longrightarrow> \<exists>i. lastIndex d t = Ok i"
  using lastIndex_none lastIndex_result [of d t] by blast

text \<open>
  C39. Deleting a target ends and pops: if the target has a key, deletion succeeds, leaves
  the target with its earlier keys, or with none if every entry is to go, and leaves all
  other targets as they were.
\<close>

theorem removeTarget_pops:
  assumes "keys_of t d \<noteq> []"
  shows "\<exists>d'. removeTarget d t hard = (d', Ok ()) \<and>
    keys_of t d' = (if hard then [] else butlast (keys_of t d)) \<and> (\<forall>t'. t' \<noteq> t \<longrightarrow> keys_of t' d' = keys_of t' d)"
  using assms
proof (induction d t hard rule: removeTarget.induct)
  case (1 d t hard)
  obtain i where i: "lastIndex d t = Ok i" using keys_of_lastIndex [OF 1(2)] by blast
  then obtain match where m: "target_index 0 (TargetIds (Keys d ! i)) t = Some match"
    and k: "keys_of t (d\<lparr>Keys := remove_at (Keys d) i match\<rparr>) = butlast (keys_of t d)"
      "\<And>t'. t' \<noteq> t \<Longrightarrow> keys_of t' (d\<lparr>Keys := remove_at (Keys d) i match\<rparr>) = keys_of t' d"
    by (rule remove_step) blast
  let ?d = "d\<lparr>Keys := remove_at (Keys d) i match\<rparr>"
  have u: "removeTarget d t hard = (if \<not> hard then (?d, Ok ())
      else (case removeTarget ?d t hard of
              (d2, Err e) \<Rightarrow> if \<not> errors_As TargetError e then (\<lparr> Keys = [] \<rparr>, Err e) else (d2, Ok ())
            | (d2, r) \<Rightarrow> (d2, r)))"
    by (subst removeTarget.simps) (simp add: i m)
  show ?case
  proof (cases "hard \<and> keys_of t ?d \<noteq> []")
    case True
    with 1(1) [OF i m refl] u k show ?thesis by auto
  next
    case False
    then show ?thesis using u k removeTarget_absent [of t ?d hard] by (auto simp: TargetErr_def)
  qed
qed

definition wit_shards :: KeyShardData where
  "wit_shards = \<lparr> Keys =
     [\<lparr> KeyData = \<lparr> KeyShardPem = ''1'', CaCertPem = ''c'' \<rparr>, TargetIds = [''a'', ''b''] \<rparr>,
      \<lparr> KeyData = \<lparr> KeyShardPem = ''2'', CaCertPem = ''c'' \<rparr>, TargetIds = [''b'', ''a''] \<rparr>] \<rparr>"

theorem removeTarget_pops_witness:
  "\<exists>d'. removeTarget wit_shards ''a'' False = (d', Ok ()) \<and> keys_of ''a'' d' = [\<lparr> KeyShardPem = ''1'', CaCertPem = ''c'' \<rparr>]"
proof -
  have "keys_of ''a'' wit_shards = [\<lparr> KeyShardPem = ''1'', CaCertPem = ''c'' \<rparr>, \<lparr> KeyShardPem = ''2'', CaCertPem = ''c'' \<rparr>]"
    by (simp add: keys_of_def wit_shards_def)
  then show ?thesis using removeTarget_pops [of "''a''" wit_shards False] by auto
qed

section \<open>On the file store\<close>

lemma findEntry_new: "KeyShardPem key \<notin> (\<lambda>m. KeyShardPem (KeyData m)) ` set (Keys d) \<Longrightarrow> \<exists>e. findEntry d key = Err e"
proof -
  have "findEntry_from i ms key = None" if "KeyShardPem key \<notin> (\<lambda>m. KeyShardPem (KeyData m)) ` set ms" for i ms
    using that by (induction ms arbitrary: i) auto
  then show "KeyShardPem key \<notin> (\<lambda>m. KeyShardPem (KeyData m)) ` set (Keys d) \<Longrightarrow> ?thesis" by (simp add: findEntry_def)
qed

lemma keys_of_append: "keys_of t (d\<lparr>Keys := Keys d @ [m]\<rparr>) = keys_of t d @ replicate (count_list (TargetIds m) t) (KeyData m)"
  by (simp add: keys_of_def)

text \<open>
  A key that was added is the one in use: after a successful \<^verbatim>\<open>AddKey\<close> of a new key, whatever
  other processes do to the file in between that lets the save succeed, reading the file
  again gives the new key for each of its targets and for every other target what it was.
\<close>

theorem added_key_is_last:
  assumes "configType (fst (cfg_store c)) = CTKeyShard" and "\<And>s. configType (fst (between s)) = configType (fst s)"
    and "file_content decode_key_shards \<lparr> Keys = [] \<rparr> (cfg_store c) = Some d"
    and "valid_key_shards d" and "valid_key_entry newEntry"
    and "KeyShardPem (KeyData newEntry) \<notin> (\<lambda>m. KeyShardPem (KeyData m)) ` set (Keys d)"
    and "AddKey key_shard_ops between c newEntry = (c', Ok ())"
    and "so_fetch key_shard_ops (cfg_store c') = (s2, Ok d')"
  shows "snd (LastKey key_shard_ops c' t) = (if t \<in> set (TargetIds newEntry) then Ok (KeyData newEntry) else LastKey_in d t)"
proof -
  let ?d = "d\<lparr>Keys := Keys d @ [newEntry]\<rparr>"
  have ch: "AddKey_change newEntry d = Ok (Some ?d)"
    using findEntry_new [OF assms(6)] by (auto simp: AddKey_change_def)
  have st: "file_content decode_key_shards \<lparr> Keys = [] \<rparr> (cfg_store c) = Some x \<Longrightarrow>
      AddKey_change newEntry x = Ok (Some x') \<Longrightarrow> valid_key_shards x'" for x x'
    using assms(3,4,5) ch by (auto simp: valid_key_shards_def)
  have "file_content decode_key_shards \<lparr> Keys = [] \<rparr> (cfg_store c') = Some ?d" "configType (fst (cfg_store c')) = CTKeyShard"
    using ks.update_applies [OF assms(1) _ assms(7) [unfolded AddKey_def] st] assms(2,3) ch by auto
  then have "d' = ?d" using ks.fetch_Ok assms(8) by fastforce
  then have "snd (LastKey key_shard_ops c' t) = LastKey_in ?d t" using assms(8) by (simp add: LastKey_def)
  then show ?thesis by (auto simp: LastKey_is_top keys_of_append count_list_0_iff)
qed

definition wit_ks_state :: file_state where
  "wit_ks_state = (\<lparr> configType = CTKeyShard, lastAgentMod = 0, lastKeyShardMod = 0 \<rparr>,
     \<lparr> os_file = Some \<lparr> cf_text = FJson (marshal_KeyShardData wit_shards), cf_mtime = 5 \<rparr>, os_clock = 9, os_faults = no_faults \<rparr>)"

lemma wit_shards_valid: "valid_key_shards wit_shards"
  by (simp add: valid_key_shards_def valid_key_entry_def wit_shards_def valid_utf8_def sanitize_def)

lemma wit_ks_fetch: "FetchKeyShardData wit_ks_state = ((fst wit_ks_state\<lparr>lastKeyShardMod := 5\<rparr>, snd wit_ks_state), Ok wit_shards)"
  by (simp add: FetchKeyShardData_def wit_ks_state_def fetch_file_def no_faults_def key_shards_roundtrip wit_shards_valid)

theorem added_key_is_last_witness:
  "\<exists>c' k. snd (LastKey key_shard_ops c' ''a'') = Ok k \<and> KeyShardPem k = ''3'' \<and>
     fst (AddKey key_shard_ops id \<lparr> cfg_data = wit_shards, cfg_store = wit_ks_state \<rparr>
       \<lparr> KeyData = \<lparr> KeyShardPem = ''3'', CaCertPem = ''c'' \<rparr>, TargetIds = [''a''] \<rparr>) = c'"
proof -
  let ?c = "\<lparr> cfg_data = wit_shards, cfg_store = wit_ks_state \<rparr>"
  let ?e = "\<lparr> KeyData = \<lparr> KeyShardPem = ''3'', CaCertPem = ''c'' \<rparr>, TargetIds = [''a''] \<rparr>"
  let ?d = "wit_shards\<lparr>Keys := Keys wit_shards @ [?e]\<rparr>"
  have e: "valid_key_entry ?e" by (simp add: valid_key_entry_def valid_utf8_def sanitize_def)
  have new: "KeyShardPem (KeyData ?e) \<notin> (\<lambda>m. KeyShardPem (KeyData m)) ` set (Keys wit_shards)" by (simp add: wit_shards_def)
  obtain er where "findEntry wit_shards (KeyData ?e) = Err er" using findEntry_new [OF new] by blast
  then have ch: "AddKey_change ?e wit_shards = Ok (Some ?d)" by (simp add: AddKey_change_def)
  let ?s = "(fst wit_ks_state\<lparr>lastKeyShardMod := 5\<rparr>, set_file (snd wit_ks_state) (FJson (marshal_KeyShardData ?d)))"
  have a: "AddKey key_shard_ops id ?c ?e = (\<lparr> cfg_data = ?d, cfg_store = ?s \<rparr>, Ok ())"
    using ch wit_ks_fetch
    by (simp add: AddKey_def update_config_def key_shard_ops_def fileStore_Save_def wit_ks_state_def no_faults_def)
  have "valid_key_shards ?d" using wit_shards_valid e by (simp add: valid_key_shards_def)
  then have "\<exists>s2. so_fetch key_shard_ops ?s = (s2, Ok ?d)"
    by (simp add: key_shard_ops_def FetchKeyShardData_def wit_ks_state_def fetch_file_def no_faults_def set_file_def key_shards_roundtrip)
  then obtain s2 where f: "so_fetch key_shard_ops (cfg_store \<lparr> cfg_data = ?d, cfg_store = ?s \<rparr>) = (s2, Ok ?d)" by auto
  have "file_content decode_key_shards \<lparr> Keys = [] \<rparr> (cfg_store ?c) = Some wit_shards" "configType (fst (cfg_store ?c)) = CTKeyShard"
    by (simp_all add: file_content_def wit_ks_state_def key_shards_roundtrip wit_shards_valid)
  from added_key_is_last [OF this(2) _ this(1) wit_shards_valid e new a f, of "''a''"] a show ?thesis by auto
qed

end
