(* ===== verification/Agent_Config.thy ===== *)
theory Agent_Config
  imports Config_Store
begin

text \<open>
  \<^verbatim>\<open>bctl/agent/config/agentconfig\<close>: the agent's registration, kept in a store and cached. Readers
  return the cached value; every setter fetches, changes one part and saves.
\<close>

type_synonym 's agent_config = "('s, AgentDataV2) config"
type_synonym 's agent_store = "('s, AgentDataV2) store_ops"

definition LoadAgentConfig :: "'s agent_store \<Rightarrow> 's \<Rightarrow> 's agent_config res" where
  "LoadAgentConfig SO s = load_config SO s"

definition Reload :: "'s agent_store \<Rightarrow> 's agent_config \<Rightarrow> 's agent_config \<times> unit res" where
  "Reload SO c =
     (case so_fetch SO (cfg_store c) of
        (s1, Err e) \<Rightarrow> (c\<lparr>cfg_store := s1\<rparr>, Err (ConfigFetchErr e))
      | (s1, Panic) \<Rightarrow> (c\<lparr>cfg_store := s1\<rparr>, Panic)
      | (s1, Ok newData) \<Rightarrow> (\<lparr> cfg_data = newData, cfg_store = s1 \<rparr>, Ok ()))"

definition GetPublicKey :: "'s agent_config \<Rightarrow> PublicKey option" where
  "GetPublicKey c = ad_PublicKey (cfg_data c)"

definition GetPrivateKey :: "'s agent_config \<Rightarrow> PrivateKey option" where
  "GetPrivateKey c = ad_PrivateKey (cfg_data c)"

definition GetServiceAccountJwksUrls :: "'s agent_config \<Rightarrow> string list option" where
  "GetServiceAccountJwksUrls c = ad_JwksUrlPatterns (cfg_data c)"

definition GetAgentIdentityToken :: "'s agent_config \<Rightarrow> string" where
  "GetAgentIdentityToken c = ad_AgentIdentityToken (cfg_data c)"

definition GetIdpOrgId :: "'s agent_config \<Rightarrow> string" where
  "GetIdpOrgId c = ad_IdpOrgId (cfg_data c)"

definition GetIdpProvider :: "'s agent_config \<Rightarrow> string" where
  "GetIdpProvider c = ad_IdpProvider (cfg_data c)"

definition GetTargetId :: "'s agent_config \<Rightarrow> string" where
  "GetTargetId c = ad_TargetId (cfg_data c)"

definition GetServiceUrl :: "'s agent_config \<Rightarrow> string" where
  "GetServiceUrl c = ad_ServiceUrl (cfg_data c)"

definition GetShutdownInfo :: "'s agent_config \<Rightarrow> string \<times> (string \<times> string) list option" where
  "GetShutdownInfo c = (ad_ShutdownReason (cfg_data c), ad_ShutdownState (cfg_data c))"

definition SetVersion :: "'s agent_store \<Rightarrow> ('s \<Rightarrow> 's) \<Rightarrow> 's agent_config \<Rightarrow> string \<Rightarrow> 's agent_config \<times> unit res" where
  "SetVersion SO between c version = update_config SO between (\<lambda>current. Ok (Some (current\<lparr>ad_Version := version\<rparr>))) c"

definition SetShutdownInfo ::
  "'s agent_store \<Rightarrow> ('s \<Rightarrow> 's) \<Rightarrow> 's agent_config \<Rightarrow> string \<Rightarrow> (string \<times> string) list option \<Rightarrow> 's agent_config \<times> unit res" where
  "SetShutdownInfo SO between c reason state =
     update_config SO between (\<lambda>current. Ok (Some (current\<lparr>ad_ShutdownReason := reason, ad_ShutdownState := state\<rparr>))) c"

definition SetAgentIdentityToken ::
  "'s agent_store \<Rightarrow> ('s \<Rightarrow> 's) \<Rightarrow> 's agent_config \<Rightarrow> string \<Rightarrow> 's agent_config \<times> unit res" where
  "SetAgentIdentityToken SO between c token =
     update_config SO between (\<lambda>current. Ok (Some (current\<lparr>ad_AgentIdentityToken := token\<rparr>))) c"

definition patterns_list :: "string list option \<Rightarrow> string list" where
  "patterns_list p = (case p of None \<Rightarrow> [] | Some ss \<Rightarrow> ss)"

definition add_jwks_url :: "lib \<Rightarrow> string \<Rightarrow> AgentDataV2 \<Rightarrow> AgentDataV2 option res" where
  "add_jwks_url L jwksUrlPattern current =
     (case url_ParseRequestURI L jwksUrlPattern of
        Err e \<Rightarrow> Err (errorf_w (''failed to parse as url the provided jwks url '' @ jwksUrlPattern @ '': '') e)
      | Panic \<Rightarrow> Panic
      | Ok parsed \<Rightarrow>
          if parsed \<in> set (patterns_list (ad_JwksUrlPatterns current)) then Ok None
          else Ok (Some (current\<lparr>ad_JwksUrlPatterns := Some (patterns_list (ad_JwksUrlPatterns current) @ [parsed])\<rparr>)))"

definition SetServiceAccountJwksUrl ::
  "lib \<Rightarrow> 's agent_store \<Rightarrow> ('s \<Rightarrow> 's) \<Rightarrow> 's agent_config \<Rightarrow> string \<Rightarrow> 's agent_config \<times> unit res" where
  "SetServiceAccountJwksUrl L SO between c jwksUrlPattern = update_config SO between (add_jwks_url L jwksUrlPattern) c"

text \<open>The loop over the patterns; an empty list of patterns leaves a nil slice nil.\<close>

fun append_urls :: "lib \<Rightarrow> string list option \<Rightarrow> string list \<Rightarrow> string list option res" where
  "append_urls L acc [] = Ok acc"
| "append_urls L acc (u # us) =
     (case url_ParseRequestURI L u of
        Err e \<Rightarrow> Err (errorf_w (''failed to parse as url provided jwks url '' @ u @ '': '') e)
      | Panic \<Rightarrow> Panic
      | Ok parsed \<Rightarrow> append_urls L (Some (patterns_list acc @ [parsed])) us)"

record registration =
  reg_serviceUrl :: string
  reg_publickey :: "PublicKey option"
  reg_privateKey :: "PrivateKey option"
  reg_idpProvider :: string
  reg_idpOrgId :: string
  reg_targetId :: string
  reg_jwksUrlPatterns :: "string list"

definition register_change :: "lib \<Rightarrow> registration \<Rightarrow> AgentDataV2 \<Rightarrow> AgentDataV2 option res" where
  "register_change L g current =
     (case append_urls L (ad_JwksUrlPatterns current) (reg_jwksUrlPatterns g) of
        Err e \<Rightarrow> Err e | Panic \<Rightarrow> Panic
      | Ok patterns \<Rightarrow> Ok (Some (current\<lparr>ad_ServiceUrl := reg_serviceUrl g, ad_PublicKey := reg_publickey g,
          ad_PrivateKey := reg_privateKey g, ad_IdpProvider := reg_idpProvider g, ad_IdpOrgId := reg_idpOrgId g,
          ad_TargetId := reg_targetId g, ad_JwksUrlPatterns := patterns, ad_AgentIdentityToken := []\<rparr>)))"

definition SetRegistrationData ::
  "lib \<Rightarrow> 's agent_store \<Rightarrow> ('s \<Rightarrow> 's) \<Rightarrow> 's agent_config \<Rightarrow> registration \<Rightarrow> 's agent_config \<times> unit res" where
  "SetRegistrationData L SO between c g = update_config SO between (register_change L g) c"

section \<open>Properties\<close>

text \<open>
  No change of another process is lost: if the configuration file was written, at another
  millisecond, between the fetch and the save of a registration or of any other setter, the
  setter returns an error and leaves the file exactly as the other process wrote it.
\<close>

theorem concurrent_change_kept:
  assumes "configType (fst (cfg_store c)) = CTAgent"
    and "FetchAgentData (cfg_store c) = ((s1, os1), Ok d)" and "change d = Ok (Some d')"
    and "\<And>s os. between (s, os) = (s, other os)"
    and "map_option cf_mtime (os_file (other os1)) \<noteq> map_option cf_mtime (os_file os1)"
  shows "\<exists>c' e. update_config agent_ops between change c = (c', Err e) \<and> errors_As ConfigSaveError e \<and>
    snd (cfg_store c') = other os1"
proof -
  have f: "so_fetch agent_ops (cfg_store c) = ((s1, os1), Ok d)" using assms(2) by (simp add: agent_ops_def)
  have "configType s1 = CTAgent" using ac.fetch_keeps [OF assms(1) f] by simp
  then have "\<exists>e. update_config agent_ops between change c =
      (\<lparr> cfg_data = d', cfg_store = between (s1, os1) \<rparr>, Err (ConfigSaveErr e))"
    using assms(1,3-5) f by (intro ac.no_lost_update [where d = d and change = change]) (simp_all add: file_version_def)
  then show ?thesis using assms(4) by (auto simp: ConfigSaveErr_def)
qed

text \<open>
  A save that fails while writing loses the registration: the file has been emptied
  before, the error is returned, and the next fetch reads an empty configuration without an
  error.
\<close>

lemma failed_save_loses_config:
  assumes "FetchAgentData (cfg_store c) = ((s1, os1), Ok d)"
    and "between (s1, os1) = (s1, os1\<lparr>os_faults := no_faults\<lparr>flt_write := Some (e, FEmpty)\<rparr>\<rparr>)"
    and "change d = Ok (Some d')"
  shows "\<exists>c' s2 os2. update_config agent_ops between change c = (c', Err (ConfigSaveErr e)) \<and> cfg_store c' = (s2, os2) \<and>
    snd (FetchAgentData (s2, os2\<lparr>os_faults := no_faults\<rparr>)) = Ok AgentDataV2_zero"
proof -
  have f: "so_fetch agent_ops (cfg_store c) = ((s1, os1), Ok d)" using assms(1) by (simp add: agent_ops_def)
  have r: "configType (fst (cfg_store c)) = CTAgent"
    using assms(1) by (auto simp: FetchAgentData_def split: prod.splits if_splits)
  have t: "configType s1 = CTAgent" and m: "map_option cf_mtime (os_file os1) = Some (lastAgentMod s1)"
    using ac.fetch_keeps [OF r f] ac.fetch_Ok [OF r f] by (simp_all add: file_version_def)
  let ?os = "os1\<lparr>os_faults := no_faults\<lparr>flt_write := Some (e, FEmpty)\<rparr>\<rparr>"
  have "fileStore_Save marshal_AgentDataV2 (s1, ?os) d' = ((s1, set_file ?os FEmpty), Err e)"
    using t m by (auto simp: fileStore_Save_def no_faults_def)
  then have u: "update_config agent_ops between change c =
      (\<lparr> cfg_data = d', cfg_store = (s1, set_file ?os FEmpty) \<rparr>, Err (ConfigSaveErr e))"
    using assms by (simp add: update_config_def agent_ops_def)
  have "snd (FetchAgentData (s1, (set_file ?os FEmpty)\<lparr>os_faults := no_faults\<rparr>)) = Ok AgentDataV2_zero"
    using t by (simp add: FetchAgentData_def fetch_file_def set_file_def no_faults_def)
  with u show ?thesis by auto
qed

definition wit_ac_state :: file_state where
  "wit_ac_state = (\<lparr> configType = CTAgent, lastAgentMod = 0, lastKeyShardMod = 0 \<rparr>,
     \<lparr> os_file = Some \<lparr> cf_text = FEmpty, cf_mtime = 5 \<rparr>, os_clock = 9, os_faults = no_faults \<rparr>)"

lemma wit_ac_fetch:
  "FetchAgentData wit_ac_state = ((fst wit_ac_state\<lparr>lastAgentMod := 5\<rparr>, snd wit_ac_state), Ok AgentDataV2_zero)"
  by (simp add: FetchAgentData_def wit_ac_state_def fetch_file_def no_faults_def)

theorem concurrent_change_kept_witness:
  "\<exists>c' e. SetAgentIdentityToken agent_ops (\<lambda>(s, os). (s, set_file os FEmpty))
       \<lparr> cfg_data = AgentDataV2_zero, cfg_store = wit_ac_state \<rparr> ''jwt'' = (c', Err e) \<and>
     os_file (snd (cfg_store c')) = Some \<lparr> cf_text = FEmpty, cf_mtime = 9 \<rparr>"
  using concurrent_change_kept [of "\<lparr> cfg_data = AgentDataV2_zero, cfg_store = wit_ac_state \<rparr>"
      "fst wit_ac_state\<lparr>lastAgentMod := 5\<rparr>" "snd wit_ac_state" AgentDataV2_zero
      "\<lambda>current. Ok (Some (current\<lparr>ad_AgentIdentityToken := ''jwt''\<rparr>))" _ "\<lambda>(s, os). (s, set_file os FEmpty)"
      "\<lambda>os. set_file os FEmpty"] wit_ac_fetch
  by (auto simp: SetAgentIdentityToken_def set_file_def wit_ac_state_def)

end
