(* ===== verification/Tomb.thy ===== *)
theory Tomb
  imports Bzero_Prelude
begin

text \<open>
  The documented behaviour of \<^verbatim>\<open>gopkg.in/tomb.v2\<close> that the actions rely on: a tomb is alive until
  it is killed, by a call or by a routine that returns an error; starting a routine after all
  have returned panics. \<^verbatim>\<open>Wait\<close> returns once every routine has returned, and never when there has been
  none. What a routine does is modelled where it is started; a killed one ends at its next turn.
\<close>

record tomb =
  tb_killed :: "gerror option option"
  tb_started :: bool
  tb_running :: nat

definition tomb_new :: tomb where
  "tomb_new = \<lparr> tb_killed = None, tb_started = False, tb_running = 0 \<rparr>"

definition tomb_Alive :: "tomb \<Rightarrow> bool" where
  "tomb_Alive t \<longleftrightarrow> tb_killed t = None"

definition tomb_Kill :: "tomb \<Rightarrow> gerror option \<Rightarrow> tomb" where
  "tomb_Kill t reason =
     (case tb_killed t of
        None \<Rightarrow> t\<lparr>tb_killed := Some reason\<rparr>
      | Some None \<Rightarrow> t\<lparr>tb_killed := Some reason\<rparr>
      | Some (Some _) \<Rightarrow> t)"

definition tomb_Go :: "tomb \<Rightarrow> tomb res" where
  "tomb_Go t = (if tb_started t \<and> tb_running t = 0 then Panic else Ok (t\<lparr>tb_started := True, tb_running := Suc (tb_running t)\<rparr>))"

text \<open>A routine returns; the last one, and one that returns an error, kill the tomb.\<close>

definition tomb_return :: "tomb \<Rightarrow> gerror option \<Rightarrow> tomb" where
  "tomb_return t err =
     (let t1 = t\<lparr>tb_running := tb_running t - 1\<rparr> in
      if tb_running t1 = 0 \<or> err \<noteq> None then tomb_Kill t1 err else t1)"

text \<open>Whether \<^verbatim>\<open>Wait\<close> comes back.\<close>

definition tomb_Waits :: "tomb \<Rightarrow> bool" where
  "tomb_Waits t \<longleftrightarrow> tb_started t"

text \<open>A call that does not come back has no result.\<close>

definition when_back :: "'d \<times> bool \<Rightarrow> 'r \<Rightarrow> 'd \<times> 'r option" where
  "when_back k r = (fst k, if snd k then Some r else None)"

lemma tomb_simps [simp]:
  "tomb_Alive tomb_new" "\<not> tomb_Waits tomb_new" "tomb_Waits (tomb_Kill t r) = tomb_Waits t" "\<not> tomb_Alive (tomb_Kill t r)" "tomb_Go tomb_new = Ok (tomb_new\<lparr>tb_started := True, tb_running := 1\<rparr>)"
  by (auto simp: tomb_new_def tomb_Alive_def tomb_Kill_def tomb_Go_def tomb_Waits_def split: option.splits)

end
