(* ===== verification/Reassembly.thy ===== *)
theory Reassembly
  imports Bzero_Prelude "HOL-Library.Multiset"
begin

text \<open>
  Stream messages are numbered and may arrive in any order. Several actions of the daemon keep
  them in a map and, after every arrival, process them from the next expected number on; this
  theory holds that loop once. Its argument \<^term>\<open>step\<close> is the body: what processing one message
  does to the output, and whether more is expected.
\<close>

section \<open>The loop\<close>

type_synonym ('m, 'o) inbox = "int \<times> (int \<times> 'm) list \<times> 'o \<times> bool"

function drain :: "('o \<Rightarrow> 'm \<Rightarrow> 'o \<times> bool) \<Rightarrow> int \<Rightarrow> (int \<times> 'm) list \<Rightarrow> 'o \<Rightarrow> ('m, 'o) inbox" where
  "drain step expected buf out =
     (case al_get buf expected of
        None \<Rightarrow> (expected, buf, out, True)
      | Some m \<Rightarrow>
         (case step out m of
            (out', True) \<Rightarrow> drain step (expected + 1) (al_delete buf expected) out'
          | (out', False) \<Rightarrow> (expected, buf, out', False)))"
  by pat_completeness auto
termination
proof (relation "measure (\<lambda>(step, expected, buf, out). length buf)")
  fix step :: "'o \<Rightarrow> 'm \<Rightarrow> 'o \<times> bool" and expected :: int and buf :: "(int \<times> 'm) list" and out out' :: 'o and m
  assume "al_get buf expected = Some m"
  then have "expected \<in> set (al_keys buf)" by (metis al_get_None option.distinct(1))
  from length_al_delete [OF this]
  show "((step, expected + 1, al_delete buf expected, out'), step, expected, buf, out)
      \<in> measure (\<lambda>(step, expected, buf, out). length buf)" by simp
qed simp

declare drain.simps [simp del]

definition accept :: "('o \<Rightarrow> 'm \<Rightarrow> 'o \<times> bool) \<Rightarrow> ('m \<Rightarrow> int) \<Rightarrow> ('m, 'o) inbox \<Rightarrow> 'm \<Rightarrow> ('m, 'o) inbox" where
  "accept step sq st m =
     (case st of (expected, buf, out, running) \<Rightarrow>
        if running then drain step expected (al_set buf (sq m) m) out else st)"

text \<open>Processing messages that arrive in order.\<close>

fun in_order :: "('o \<Rightarrow> 'm \<Rightarrow> 'o \<times> bool) \<Rightarrow> 'o \<Rightarrow> 'm list \<Rightarrow> 'o \<times> bool" where
  "in_order step out [] = (out, True)"
| "in_order step out (m # ms) = (case step out m of (out', True) \<Rightarrow> in_order step out' ms | r \<Rightarrow> r)"

lemma in_order_append:
  "in_order step out (ms @ ms') = (case in_order step out ms of (out', True) \<Rightarrow> in_order step out' ms' | r \<Rightarrow> r)"
  by (induction step out ms rule: in_order.induct) (auto split: prod.splits bool.splits)

lemma in_order_stopped:
  assumes "in_order step out (take n ms) = (r, False)"
  shows "in_order step out ms = (r, False)"
  using in_order_append [of step out "take n ms" "drop n ms"] assms by simp

section \<open>Any order of arrival\<close>

definition numbered :: "('m \<Rightarrow> int) \<Rightarrow> 'm list \<Rightarrow> bool" where
  "numbered sq ms \<longleftrightarrow> (\<forall>i < length ms. sq (ms ! i) = int i)"

text \<open>The inbox when the messages with the numbers \<^term>\<open>I\<close> have arrived; before the loop the next one may be there.\<close>

definition running_inbox :: "('o \<Rightarrow> 'm \<Rightarrow> 'o \<times> bool) \<Rightarrow> 'm list \<Rightarrow> 'o \<Rightarrow> int set \<Rightarrow> int \<Rightarrow> (int \<times> 'm) list \<Rightarrow> 'o \<Rightarrow> bool" where
  "running_inbox step ms out0 I expected buf out \<longleftrightarrow>
     0 \<le> expected \<and> expected \<le> int (length ms) \<and> {0..<expected} \<subseteq> I \<and> I \<subseteq> {0..<int (length ms)} \<and>
     distinct (al_keys buf) \<and> in_order step out0 (take (nat expected) ms) = (out, True) \<and>
     (\<forall>j. al_get buf j = (if j \<in> I \<and> expected \<le> j then Some (ms ! nat j) else None))"

definition inbox_inv :: "('o \<Rightarrow> 'm \<Rightarrow> 'o \<times> bool) \<Rightarrow> 'm list \<Rightarrow> 'o \<Rightarrow> int set \<Rightarrow> ('m, 'o) inbox \<Rightarrow> bool" where
  "inbox_inv step ms out0 I st =
     (case st of (expected, buf, out, running) \<Rightarrow>
        if running then running_inbox step ms out0 I expected buf out \<and> expected \<notin> I
        else in_order step out0 ms = (out, False))"

lemma drain_inv:
  "running_inbox step ms out0 I expected buf out \<Longrightarrow> inbox_inv step ms out0 I (drain step expected buf out)"
proof (induction step expected buf out rule: drain.induct)
  case (1 step expected buf out)
  note r = 1(2) [unfolded running_inbox_def]
  show ?case
  proof (cases "expected \<in> I")
    case False
    then have "drain step expected buf out = (expected, buf, out, True)" using r by (subst drain.simps) simp
    then show ?thesis using 1(2) False by (simp add: inbox_inv_def)
  next
    case True
    let ?m = "ms ! nat expected"
    have len: "nat expected < length ms" using True r by auto
    then have tk: "take (nat (expected + 1)) ms = take (nat expected) ms @ [?m]"
      using r by (simp add: nat_add_distrib take_Suc_conv_app_nth)
    have get: "al_get buf expected = Some ?m" using True r by simp
    obtain out' b where st: "step out ?m = (out', b)" by fastforce
    have io: "in_order step out0 (take (nat (expected + 1)) ms) = (out', b)"
      using tk r st by (simp add: in_order_append split: bool.splits)
    show ?thesis
    proof (cases b)
      case b: True
      have "{0..<expected + 1} \<subseteq> I" using r True by (auto simp: subset_iff order_le_less)
      moreover have "\<forall>j. al_get (al_delete buf expected) j = (if j \<in> I \<and> expected + 1 \<le> j then Some (ms ! nat j) else None)"
        using r by (auto simp: al_get_delete)
      ultimately have "running_inbox step ms out0 I (expected + 1) (al_delete buf expected) out'"
        using r io b len by (auto simp: running_inbox_def distinct_al_delete)
      from 1(1) [OF get st [symmetric, unfolded b] _ this] show ?thesis
        using get st b by (subst drain.simps) simp
    next
      case False
      then show ?thesis using get st in_order_stopped io by (subst drain.simps) (simp add: inbox_inv_def)
    qed
  qed
qed

lemma accept_inv:
  assumes "inbox_inv step ms out0 I st" "numbered sq ms" "i < length ms" "int i \<notin> I"
  shows "inbox_inv step ms out0 (insert (int i) I) (accept step sq st (ms ! i))"
proof -
  obtain e buf out r where st: "st = (e, buf, out, r)" by (cases st)
  have sq: "sq (ms ! i) = int i" using assms(2,3) by (simp add: numbered_def)
  show ?thesis
  proof (cases r)
    case True
    then have r: "running_inbox step ms out0 I e buf out" using assms(1) st by (simp add: inbox_inv_def)
    then have "{0..<e} \<subseteq> I" by (simp add: running_inbox_def)
    then have "e \<le> int i" using assms(4) by (metis atLeastLessThan_iff linorder_not_less of_nat_0_le_iff subsetD)
    then have "running_inbox step ms out0 (insert (int i) I) e (al_set buf (int i) (ms ! i)) out"
      using r assms(3) by (auto simp: running_inbox_def)
    then show ?thesis using drain_inv True st sq by (simp add: accept_def)
  next
    case False
    then show ?thesis using assms(1) st by (simp add: accept_def inbox_inv_def)
  qed
qed

lemma accept_all_inv:
  assumes "numbered sq ms"
  shows "inbox_inv step ms out0 I st \<Longrightarrow> distinct is \<Longrightarrow> set is \<subseteq> {0..<length ms} \<Longrightarrow> int ` set is \<inter> I = {} \<Longrightarrow>
    inbox_inv step ms out0 (I \<union> int ` set is) (foldl (accept step sq) st (map ((!) ms) is))"
proof (induction "is" arbitrary: I st)
  case (Cons i js)
  have "inbox_inv step ms out0 (insert (int i) I) (accept step sq st (ms ! i))"
    using Cons.prems by (intro accept_inv [OF _ assms]) auto
  then have "inbox_inv step ms out0 (insert (int i) I \<union> int ` set js) (foldl (accept step sq) (accept step sq st (ms ! i)) (map ((!) ms) js))"
    by (rule Cons.IH) (use Cons.prems in auto)
  then show ?case by simp
qed simp

lemma numbered_distinct: "numbered sq ms \<Longrightarrow> distinct ms"
  by (auto simp: distinct_conv_nth numbered_def) (metis of_nat_eq_iff)

lemma permutation_of_indices:
  assumes "mset as = mset ms" "distinct ms"
  obtains "is" where "as = map ((!) ms) is" "distinct is" "set is = {0..<length ms}"
proof -
  have d: "distinct as" "set as = set ms" using assms by (metis distinct_count_atmost_1 mset_eq_setD set_mset_mset)+
  define "is" where "is = map (\<lambda>a. THE i. i < length ms \<and> ms ! i = a) as"
  have ix: "(THE i. i < length ms \<and> ms ! i = ms ! j) = j" if "j < length ms" for j
    using that assms(2) by (auto simp: nth_eq_iff_index_eq)
  have "as = map ((!) ms) is"
    using d(2) ix by (auto simp: is_def in_set_conv_nth intro!: map_idI [symmetric])
  moreover have "distinct is"
    using \<open>as = map ((!) ms) is\<close> d(1) by (metis distinct_map)
  moreover have "set is = {0..<length ms}"
    using d(2) ix by (auto simp: is_def in_set_conv_nth set_conv_nth [of ms] image_iff) (metis nth_mem)+
  ultimately show ?thesis using that by blast
qed

text \<open>When everything has arrived, everything has been processed.\<close>

lemma inbox_complete:
  assumes "inbox_inv step ms out (int ` {0..<length ms}) (e, buf, o', r)"
  shows "in_order step out ms = (o', r)"
proof (cases r)
  case True
  then have e: "0 \<le> e" "e \<le> int (length ms)" "e \<notin> int ` {0..<length ms}" "in_order step out (take (nat e) ms) = (o', True)"
    using assms by (auto simp: inbox_inv_def running_inbox_def)
  have "nat e = length ms" using e(1-3) by (metis atLeastLessThan_iff image_eqI le_nat_iff nat_0_le nat_le_iff order_le_less zero_le)
  then show ?thesis using e(4) True by simp
qed (use assms in \<open>simp add: inbox_inv_def\<close>)

text \<open>Whatever the order of arrival, the messages are processed in the order of their numbers.\<close>

lemma accept_any_order:
  assumes "numbered sq ms" "mset as = mset ms"
  shows "\<exists>expected buf. foldl (accept step sq) (0, [], out, True) as = (expected, buf, in_order step out ms)"
proof -
  obtain "is" where i: "as = map ((!) ms) is" "distinct is" "set is = {0..<length ms}"
    using permutation_of_indices [OF assms(2) numbered_distinct [OF assms(1)]] .
  have "inbox_inv step ms out {} (0, [], out, True)" by (simp add: inbox_inv_def running_inbox_def)
  from accept_all_inv [OF assms(1) this i(2)] i(1,3)
  have inv: "inbox_inv step ms out (int ` {0..<length ms}) (foldl (accept step sq) (0, [], out, True) as)" by simp
  obtain e buf o' r where f: "foldl (accept step sq) (0, [], out, True) as = (e, buf, o', r)"
    by (cases "foldl (accept step sq) (0, [], out, True) as")
  then show ?thesis using inbox_complete inv by fastforce
qed

section \<open>A stream from its sender to its receiver\<close>

text \<open>
  What a sender and a receiver of a stream promise each other: the sender numbers the pieces
  from zero, and processing the message of a piece emits the piece and ends with the last.
\<close>

locale ordered_stream =
  fixes send :: "'c list \<Rightarrow> 'm list" and sq :: "'m \<Rightarrow> int" and step :: "'o \<Rightarrow> 'm \<Rightarrow> 'o \<times> bool" and emit :: "'o \<Rightarrow> 'c \<Rightarrow> 'o"
  assumes send_length: "length (send cs) = length cs"
    and send_numbered: "numbered sq (send cs)"
    and step_send: "i < length cs \<Longrightarrow> step out (send cs ! i) = (emit out (cs ! i), Suc i < length cs)"
begin

lemma in_order_take:
  "n \<le> length cs \<Longrightarrow> cs \<noteq> [] \<Longrightarrow>
   in_order step out (take n (send cs)) = (foldl emit out (take n cs), n < length cs)"
proof (induction n)
  case (Suc n)
  then have "in_order step out (take n (send cs)) = (foldl emit out (take n cs), True)" by simp
  then show ?case using Suc.prems step_send [of n cs]
    by (simp add: take_Suc_conv_app_nth send_length in_order_append split: bool.splits)
qed simp

lemma delivered:
  assumes "cs \<noteq> []" "mset as = mset (send cs)"
  shows "\<exists>expected buf. foldl (accept step sq) (0, [], out, True) as = (expected, buf, foldl emit out cs, False)"
  using accept_any_order [OF send_numbered assms(2), of step out] in_order_take [of "length cs" cs out] assms(1)
  by (simp add: send_length)

end

end
