(* ===== verification/Json_Codec.thy ===== *)
theory Json_Codec
  imports Go_Json
begin

text \<open>
  A printer and a parser of JSON values that agree on every value, for the witnesses of theorems
  that take the printer and the parser as arguments. The format is not JSON: every character of
  a string carries a mark, and numbers are unary.
\<close>

section \<open>The printer\<close>

fun put_string :: "string \<Rightarrow> string" where
  "put_string [] = ''.''"
| "put_string (c # s) = CHR ''c'' # c # put_string s"

definition put_number :: "int \<Rightarrow> string" where
  "put_number n = (if n < 0 then CHR ''-'' else CHR ''+'') # replicate (nat \<bar>n\<bar>) CHR ''1'' @ ''.''"

fun codec_print :: json_printer where
  "codec_print VNull = ''n''"
| "codec_print (VBool b) = (if b then ''t'' else ''f'')"
| "codec_print (VNumber n) = put_number n"
| "codec_print (VString s) = CHR ''s'' # put_string s"
| "codec_print (VArray vs) = CHR ''['' # concat (map codec_print vs) @ '']''"
| "codec_print (VObject kvs) = CHR ''{'' # concat (map (\<lambda>kv. CHR ''k'' # put_string (fst kv) @ codec_print (snd kv)) kvs) @ ''}''"

section \<open>The parser\<close>

fun get_string :: "string \<Rightarrow> (string \<times> string) option" where
  "get_string (x # s) =
     (if x = CHR ''.'' then Some ([], s)
      else (case s of [] \<Rightarrow> None | c # s' \<Rightarrow> map_option (\<lambda>(t, r). (c # t, r)) (get_string s')))"
| "get_string [] = None"

definition get_unary :: "string \<Rightarrow> int \<times> string" where
  "get_unary s = (int (length (takeWhile (\<lambda>c. c = CHR ''1'') s)), tl (dropWhile (\<lambda>c. c = CHR ''1'') s))"

text \<open>The number bounds the depth and the length of what is read.\<close>

fun get_value :: "nat \<Rightarrow> string \<Rightarrow> (jvalue \<times> string) option"
and get_values :: "nat \<Rightarrow> string \<Rightarrow> (jvalue list \<times> string) option"
and get_members :: "nat \<Rightarrow> string \<Rightarrow> ((string \<times> jvalue) list \<times> string) option" where
  "get_value 0 s = None"
| "get_value (Suc n) [] = None"
| "get_value (Suc n) (c # s) =
     (if c = CHR ''n'' then Some (VNull, s)
      else if c = CHR ''t'' then Some (VBool True, s)
      else if c = CHR ''f'' then Some (VBool False, s)
      else if c = CHR ''+'' then Some (case get_unary s of (i, r) \<Rightarrow> (VNumber i, r))
      else if c = CHR ''-'' then Some (case get_unary s of (i, r) \<Rightarrow> (VNumber (- i), r))
      else if c = CHR ''s'' then map_option (apfst VString) (get_string s)
      else if c = CHR ''['' then map_option (apfst VArray) (get_values n s)
      else if c = CHR ''{'' then map_option (apfst VObject) (get_members n s)
      else None)"
| "get_values 0 s = None"
| "get_values (Suc n) [] = None"
| "get_values (Suc n) (c # s) =
     (if c = CHR '']'' then Some ([], s)
      else (case get_value n (c # s) of
              None \<Rightarrow> None
            | Some (v, r) \<Rightarrow> map_option (apfst (Cons v)) (get_values n r)))"
| "get_members 0 s = None"
| "get_members (Suc n) [] = None"
| "get_members (Suc n) (c # s) =
     (if c = CHR ''}'' then Some ([], s)
      else (case get_string s of
              None \<Rightarrow> None
            | Some (k, r) \<Rightarrow>
               (case get_value n r of
                  None \<Rightarrow> None
                | Some (v, r') \<Rightarrow> map_option (apfst (Cons (k, v))) (get_members n r'))))"

definition codec_parse :: json_parser where
  "codec_parse s = (case get_value (Suc (length s)) s of Some (v, []) \<Rightarrow> Some v | _ \<Rightarrow> None)"

section \<open>Agreement\<close>

lemma get_put_string [simp]: "get_string (put_string s @ r) = Some (s, r)"
  by (induction s) simp_all

lemma get_unary_put: "get_unary (replicate n CHR ''1'' @ CHR ''.'' # r) = (int n, r)"
proof -
  have "takeWhile (\<lambda>c. c = CHR ''1'') (replicate n CHR ''1'' @ CHR ''.'' # r) = replicate n CHR ''1''"
    "dropWhile (\<lambda>c. c = CHR ''1'') (replicate n CHR ''1'' @ CHR ''.'' # r) = CHR ''.'' # r"
    by (induction n) simp_all
  then show ?thesis by (simp add: get_unary_def)
qed

lemma codec_print_head:
  obtains c s where "codec_print v = c # s" "c \<noteq> CHR '']''"
proof -
  have "\<exists>c s. codec_print v = c # s \<and> c \<noteq> CHR '']''" by (cases v) (auto simp: put_number_def)
  with that show thesis by blast
qed

lemma get_values_print:
  assumes "\<And>v n r. v \<in> set vs \<Longrightarrow> length (codec_print v) \<le> n \<Longrightarrow> get_value n (codec_print v @ r) = Some (v, r)"
  shows "length (concat (map codec_print vs)) < n \<Longrightarrow> get_values n (concat (map codec_print vs) @ CHR '']'' # r) = Some (vs, r)"
  using assms
proof (induction vs arbitrary: n)
  case Nil
  then show ?case by (cases n) simp_all
next
  case (Cons v vs)
  obtain c s where c: "codec_print v = c # s" "c \<noteq> CHR '']''" by (rule codec_print_head)
  obtain m where n: "n = Suc m" using Cons.prems by (cases n) simp_all
  have "get_value m (codec_print v @ concat (map codec_print vs) @ CHR '']'' # r) = Some (v, concat (map codec_print vs) @ CHR '']'' # r)"
    using Cons.prems n by simp
  moreover have "get_values m (concat (map codec_print vs) @ CHR '']'' # r) = Some (vs, r)"
    using Cons.prems n c(1) by (intro Cons.IH) auto
  ultimately show ?case using c n by simp
qed

lemma get_members_print:
  assumes "\<And>kv n r. kv \<in> set kvs \<Longrightarrow> length (codec_print (snd kv)) \<le> n \<Longrightarrow> get_value n (codec_print (snd kv) @ r) = Some (snd kv, r)"
  shows "length (concat (map (\<lambda>kv. CHR ''k'' # put_string (fst kv) @ codec_print (snd kv)) kvs)) < n \<Longrightarrow>
    get_members n (concat (map (\<lambda>kv. CHR ''k'' # put_string (fst kv) @ codec_print (snd kv)) kvs) @ CHR ''}'' # r) = Some (kvs, r)"
  using assms
proof (induction kvs arbitrary: n)
  case Nil
  then show ?case by (cases n) simp_all
next
  case (Cons kv kvs)
  let ?rest = "concat (map (\<lambda>kv. CHR ''k'' # put_string (fst kv) @ codec_print (snd kv)) kvs) @ CHR ''}'' # r"
  obtain m where n: "n = Suc m" using Cons.prems by (cases n) simp_all
  have "get_value m (codec_print (snd kv) @ ?rest) = Some (snd kv, ?rest)" using Cons.prems n by simp
  moreover have "get_members m ?rest = Some (kvs, r)" using Cons.prems n by (intro Cons.IH) auto
  ultimately show ?case using n by (simp add: prod.expand)
qed

lemma get_value_print: "length (codec_print v) \<le> n \<Longrightarrow> get_value n (codec_print v @ r) = Some (v, r)"
proof (induction v arbitrary: n r)
  case (VNumber x)
  then show ?case by (cases n) (auto simp: put_number_def get_unary_put)
next
  case (VString x)
  then show ?case by (cases n) simp_all
next
  case (VArray vs)
  then obtain m where n: "n = Suc m" by (cases n) simp_all
  have "get_values m (concat (map codec_print vs) @ CHR '']'' # r) = Some (vs, r)"
    by (rule get_values_print) (use VArray n in auto)
  then show ?case using n by simp
next
  case (VObject kvs)
  then obtain m where n: "n = Suc m" by (cases n) simp_all
  have "get_members m (concat (map (\<lambda>kv. CHR ''k'' # put_string (fst kv) @ codec_print (snd kv)) kvs) @ CHR ''}'' # r) = Some (kvs, r)"
    by (rule get_members_print) (use VObject n in \<open>auto simp: snds.simps\<close>)
  then show ?case using n by simp
qed (auto elim!: le_SucE simp: Suc_le_eq dest!: gr0_implies_Suc)

lemma codec_agrees [simp]: "codec_parse (codec_print v) = Some v"
  using get_value_print [of v "Suc (length (codec_print v))" "[]"] by (simp add: codec_parse_def)

end
