(* ===== verification/Go_Io.thy ===== *)
theory Go_Io
  imports Bzero_Prelude
begin

text \<open>
  What a call of \<^verbatim>\<open>Read\<close> gives: bytes, bytes and the end of the input, or bytes and another error.
  A reader is the sequence of what its reads give.
\<close>

datatype io_read = IoData string | IoEof string | IoFail string gerror

text \<open>Reading to the end (\<^verbatim>\<open>io.ReadAll\<close>).\<close>

fun ReadAll :: "io_read list \<Rightarrow> string res" where
  "ReadAll (IoData b # rs) = res_map (append b) (ReadAll rs)"
| "ReadAll (IoEof b # rs) = Ok b"
| "ReadAll (IoFail b e # rs) = Err e"
| "ReadAll [] = Ok []"

text \<open>A reader over a string gives at most a buffer of bytes with every read, and then its end.\<close>

function pieces :: "nat \<Rightarrow> string \<Rightarrow> string list" where
  "pieces n s = (if s = [] \<or> n = 0 then [] else take n s # pieces n (drop n s))"
  by pat_completeness auto
termination by (relation "measure (\<lambda>(n, s). length s)") auto

declare pieces.simps [simp del]

definition string_reader :: "nat \<Rightarrow> string \<Rightarrow> io_read list" where
  "string_reader n s = map IoData (pieces n s) @ [IoEof []]"

lemma concat_pieces: "0 < n \<Longrightarrow> concat (pieces n s) = s"
  by (induction n s rule: pieces.induct) (subst pieces.simps, simp)

lemma ReadAll_append: "ReadAll (map IoData bs @ rs) = res_map (append (concat bs)) (ReadAll rs)"
proof (induction bs)
  case Nil
  then show ?case by (cases "ReadAll rs") simp_all
next
  case (Cons b bs)
  then show ?case by (cases "ReadAll rs") simp_all
qed

lemma ReadAll_string_reader: "0 < n \<Longrightarrow> ReadAll (string_reader n s) = Ok s"
  by (simp add: string_reader_def ReadAll_append concat_pieces)

end
