(* ===== verification/Db_Dial.thy ===== *)
theory Db_Dial
  imports Tomb Reassembly Daemon_DataChannel Json_Codec Go_Text Go_Io
begin

text \<open>
  \<^verbatim>\<open>bctl/agent/plugin/db\<close> and \<^verbatim>\<open>bctl/daemon/plugin/db\<close>: a TCP connection tunnelled between a local
  client of the daemon and a server behind the agent. Connections are known through the calls
  the code makes; the routines are sequences of turns.
\<close>

record 'c tcp_ops =
  tcp_Resolve :: "string \<Rightarrow> string res"
  tcp_Dial :: "string \<Rightarrow> 'c res"
  tcp_Write :: "'c \<Rightarrow> string \<Rightarrow> 'c \<times> unit res"

section \<open>The agent\<close>

text \<open>Every started routine has its own sequence number; a routine that has returned is \<^verbatim>\<open>None\<close>.\<close>

record 'c Dial =
  dl_tomb :: tomb
  dl_doneClosed :: bool
  dl_stream :: "StreamMessage list"
  dl_version :: string
  dl_requestId :: string
  dl_remoteAddress :: string
  dl_conn :: "'c option"
  dl_routines :: "int option list"

definition Dial_New :: "'c tcp_ops \<Rightarrow> string \<Rightarrow> int \<Rightarrow> 'c Dial res" where
  "Dial_New T remoteHost remotePort =
     wrap_err (errorf_s ''failed to resolve remote address: '')
       (res_map (\<lambda>raddr. \<lparr> dl_tomb = tomb_new, dl_doneClosed = False, dl_stream = [], dl_version = [], dl_requestId = [],
            dl_remoteAddress = raddr, dl_conn = None, dl_routines = [] \<rparr>)
          (tcp_Resolve T (remoteHost @ '':'' @ show_int remotePort)))"

definition dial_sendStreamMessage :: "'c Dial \<Rightarrow> int \<Rightarrow> string \<Rightarrow> bool \<Rightarrow> string \<Rightarrow> 'c Dial" where
  "dial_sendStreamMessage d sequenceNumber streamType moreMessages contentBytes =
     d\<lparr>dl_stream := dl_stream d @ [\<lparr> sm_RequestId = [], sm_SchemaVersion = dl_version d, sm_SequenceNumber = sequenceNumber,
         sm_Action = ''dial'', sm_Type = streamType, sm_More = moreMessages, sm_LogId = [], sm_Content = EncodeToString contentBytes \<rparr>]\<rparr>"

text \<open>
  Killing closes the connection and waits for the routine; a read that is pending fails then.
  The second component says whether the call comes back.
\<close>

definition Dial_Kill :: "'c Dial \<Rightarrow> 'c Dial \<times> bool" where
  "Dial_Kill d =
     (if \<not> tomb_Alive (dl_tomb d) then (d, True) else (d\<lparr>dl_tomb := tomb_Kill (dl_tomb d) None\<rparr>, tomb_Waits (dl_tomb d)))"

definition Dial_start :: "'c tcp_ops \<Rightarrow> 'c Dial \<Rightarrow> string \<Rightarrow> string \<Rightarrow> 'c Dial \<times> string option res" where
  "Dial_start T d requestId version =
     (let d1 = d\<lparr>dl_requestId := requestId, dl_version := version\<rparr> in
      case tcp_Dial T (dl_remoteAddress d) of
        Err e \<Rightarrow> (d1, Err e) | Panic \<Rightarrow> (d1, Panic)
      | Ok c \<Rightarrow>
         (case tomb_Go (dl_tomb d) of
            Ok t \<Rightarrow> (d1\<lparr>dl_conn := Some c, dl_tomb := t, dl_routines := dl_routines d @ [Some 0]\<rparr>, Ok (Some []))
          | _ \<Rightarrow> (d1\<lparr>dl_conn := Some c\<rparr>, Panic)))"

text \<open>A routine returns: its done channel is closed first, a second time panics.\<close>

definition dial_return :: "'c Dial \<Rightarrow> nat \<Rightarrow> gerror option \<Rightarrow> 'c Dial \<times> unit res" where
  "dial_return d i err =
     (if dl_doneClosed d then (d, Panic)
      else (d\<lparr>dl_doneClosed := True, dl_routines := (dl_routines d)[i := None], dl_tomb := tomb_return (dl_tomb d) err\<rparr>, Ok ()))"

definition dial_turn :: "'c Dial \<Rightarrow> nat \<Rightarrow> io_read \<Rightarrow> 'c Dial \<times> unit res" where
  "dial_turn d i ev =
     (case (if i < length (dl_routines d) then dl_routines d ! i else None) of
        None \<Rightarrow> (d, Ok ())
      | Some n \<Rightarrow>
         if \<not> tomb_Alive (dl_tomb d) then dial_return d i None
         else (case ev of
                 IoData b \<Rightarrow>
                   ((dial_sendStreamMessage d n (if dl_version d = [] then ''db/stream'' else ''stream'') True b)
                      \<lparr>dl_routines := (dl_routines d)[i := Some (n + 1)]\<rparr>, Ok ())
               | IoEof b \<Rightarrow>
                   dial_return (dial_sendStreamMessage d n (if dl_version d = [] then ''db/stream/end'' else ''stream'') False b)
                     i (Some (errorf ''EOF''))
               | IoFail b e \<Rightarrow> dial_return (dial_sendStreamMessage d n ''error'' False (etext e)) i (Some e)))"

fun dial_turns :: "'c Dial \<Rightarrow> nat \<Rightarrow> io_read list \<Rightarrow> 'c Dial \<times> unit res" where
  "dial_turns d i [] = (d, Ok ())"
| "dial_turns d i (ev # evs) = (case dial_turn d i ev of (d', Ok _) \<Rightarrow> dial_turns d' i evs | r \<Rightarrow> r)"

definition read_DialActionPayload :: "json_parser \<Rightarrow> string option \<Rightarrow> (string \<times> string) option" where
  "read_DialActionPayload J pl =
     Option.bind (read_struct J pl) (\<lambda>kvs.
       Option.bind (text_field kvs ''requestId'') (\<lambda>r. map_option (Pair r) (text_field kvs ''streamMessageVersion'')))"

definition read_DialInputActionPayload :: "json_parser \<Rightarrow> string option \<Rightarrow> string option" where
  "read_DialInputActionPayload J pl =
     Option.bind (read_struct J pl) (\<lambda>kvs.
       if text_field kvs ''requestId'' = None \<or> int_field kvs ''sequenceNumber'' = None then None else text_field kvs ''data'')"

definition Dial_Receive ::
  "json_parser \<Rightarrow> 'c tcp_ops \<Rightarrow> 'c Dial \<Rightarrow> string \<Rightarrow> string option \<Rightarrow> 'c Dial \<times> string option res option" where
  "Dial_Receive J T d action pl =
     (if action = ''db/dial/start''
      then (case read_DialActionPayload J pl of
              None \<Rightarrow> (d, Some (Err (errorf ''malformed dial action payload'')))
            | Some (requestId, version) \<Rightarrow> apsnd Some (Dial_start T d requestId version))
      else if action = ''db/dial/input''
      then (case read_DialInputActionPayload J pl of
              None \<Rightarrow> (d, Some (Err (errorf ''unable to unmarshal dial input message: '')))
            | Some data \<Rightarrow>
               (case DecodeString data of
                  None \<Rightarrow> (d, Some (Err (errorf ''illegal base64 data'')))
                | Some dataToWrite \<Rightarrow>
                   (case dl_conn d of
                      None \<Rightarrow> (d, Some Panic)
                    | Some c \<Rightarrow>
                       (case tcp_Write T c dataToWrite of
                          (c', r) \<Rightarrow>
                            let d1 = d\<lparr>dl_conn := Some c'\<rparr> in
                            if \<not> tomb_Alive (dl_tomb d) then (d1, Some (Ok (Some [])))
                            else (case r of
                                    Err _ \<Rightarrow> when_back (Dial_Kill d1) (Ok (Some []))
                                  | Panic \<Rightarrow> (d1, Some Panic) | Ok _ \<Rightarrow> (d1, Some (Ok (Some []))))))))
      else if action = ''db/dial/stop'' then when_back (Dial_Kill d) (Ok pl)
      else (d, Some (Err (errorf (''unhandled stream action: '' @ action)))))"

text \<open>The plugin; the other action, \<^verbatim>\<open>pwdb\<close>, is known through its interface only.\<close>

record 'p action_ops =
  act_New :: "string \<Rightarrow> int \<Rightarrow> 'p res"
  act_Receive :: "'p \<Rightarrow> string \<Rightarrow> string option \<Rightarrow> 'p \<times> string option res option"
  act_Kill :: "'p \<Rightarrow> 'p \<times> bool"

datatype ('c, 'p) DbPlugin = DbDial "'c Dial" | DbPwdb 'p

definition parseActionTCPApp :: "string \<Rightarrow> (string \<times> string) res" where
  "parseActionTCPApp action =
     (let parsedAction = split action ''/'' in
      if length parsedAction < 2 then Err (errorf (''malformed action: '' @ action))
      else if length parsedAction = 2 then Ok (parsedAction ! 1, ''db'')
      else Ok (parsedAction ! 1, parsedAction ! 2))"

definition read_remote :: "json_parser \<Rightarrow> string option \<Rightarrow> (string \<times> int) option" where
  "read_remote J pl =
     Option.bind (read_struct J pl) (\<lambda>kvs. Option.bind (text_field kvs ''remoteHost'') (\<lambda>h. map_option (Pair h) (int_field kvs ''remotePort'')))"

definition DbPlugin_New ::
  "json_parser \<Rightarrow> 'c tcp_ops \<Rightarrow> 'p action_ops \<Rightarrow> string \<Rightarrow> string option \<Rightarrow> ('c, 'p) DbPlugin res" where
  "DbPlugin_New J T W action pl =
     (case Option.bind (read_struct J pl) (\<lambda>kvs. if text_field kvs ''schemaVersion'' = None then None else read_remote J pl) of
        None \<Rightarrow> Err (errorf ''malformed SYN payload: '')
      | Some (remoteHost, remotePort) \<Rightarrow>
         (case parseActionTCPApp action of
            Err e \<Rightarrow> Err e | Panic \<Rightarrow> Panic
          | Ok (parsedAction, parsedTcpApp) \<Rightarrow>
             if parsedTcpApp = [] then Err (errorf ''undefined tcp application: '')
             else wrap_err (errorf_s (''failed to start DB plugin with action '' @ action @ '': ''))
                    (if parsedAction = ''dial'' then res_map DbDial (Dial_New T remoteHost remotePort)
                     else if parsedAction = ''pwdb'' then res_map DbPwdb (act_New W remoteHost remotePort)
                     else Err (errorf (''unhandled DB action '' @ parsedAction)))))"

definition DbPlugin_Receive ::
  "json_parser \<Rightarrow> 'c tcp_ops \<Rightarrow> 'p action_ops \<Rightarrow> ('c, 'p) DbPlugin \<Rightarrow> string \<Rightarrow> string option \<Rightarrow> ('c, 'p) DbPlugin \<times> string option res option" where
  "DbPlugin_Receive J T W p action pl =
     (case p of
        DbDial d \<Rightarrow> (case Dial_Receive J T d action pl of (d', r) \<Rightarrow> (DbDial d', r))
      | DbPwdb q \<Rightarrow> (case act_Receive W q action pl of (q', r) \<Rightarrow> (DbPwdb q', r)))"

definition DbPlugin_Kill :: "'p action_ops \<Rightarrow> ('c, 'p) DbPlugin \<Rightarrow> ('c, 'p) DbPlugin \<times> bool" where
  "DbPlugin_Kill W p = (case p of DbDial d \<Rightarrow> apfst DbDial (Dial_Kill d) | DbPwdb q \<Rightarrow> apfst DbPwdb (act_Kill W q))"

section \<open>The daemon\<close>

text \<open>
  The local connection and the tomb are the output of the loop that reads the stream: a failed
  write kills the tomb, and the loop ends when it looks at the tomb again.
\<close>

record 'c DialAction =
  da_tomb :: tomb
  da_requestId :: string
  da_outbox :: "(string \<times> string option) list"
  da_doneClosed :: bool
  da_sequenceNumber :: int
  da_reading :: bool
  da_lconn :: 'c
  da_expected :: int
  da_messages :: "(int \<times> StreamMessage) list"
  da_writing :: bool

definition da_sendOutputMessage :: "json_printer \<Rightarrow> 'c DialAction \<Rightarrow> string \<Rightarrow> jvalue \<Rightarrow> 'c DialAction" where
  "da_sendOutputMessage M d action v = d\<lparr>da_outbox := da_outbox d @ [(action, Some (M v))]\<rparr>"

definition DialActionPayload_json :: "string \<Rightarrow> string \<Rightarrow> jvalue" where
  "DialActionPayload_json requestId version =
     VObject [(''requestId'', VString requestId), (''streamMessageVersion'', VString version)]"

definition DialInput_json :: "string \<Rightarrow> int \<Rightarrow> string \<Rightarrow> jvalue" where
  "DialInput_json requestId sequenceNumber data =
     VObject [(''requestId'', VString requestId), (''sequenceNumber'', VNumber sequenceNumber), (''data'', VString data)]"

definition CurrentSchema :: string where
  "CurrentSchema = ''202204''"

definition DialAction_Start :: "json_printer \<Rightarrow> string \<Rightarrow> 'c \<Rightarrow> 'c DialAction" where
  "DialAction_Start M requestId lconn =
     da_sendOutputMessage M \<lparr> da_tomb = tomb_new\<lparr>tb_started := True, tb_running := 2\<rparr>, da_requestId = requestId, da_outbox = [],
         da_doneClosed = False, da_sequenceNumber = 0, da_reading = True, da_lconn = lconn, da_expected = 0, da_messages = [],
         da_writing = True \<rparr> ''db/dial/start'' (DialActionPayload_json requestId CurrentSchema)"

text \<open>A round of the routine that reads the local connection.\<close>

definition da_stop_reading :: "'c DialAction \<Rightarrow> 'c DialAction" where
  "da_stop_reading d = d\<lparr>da_reading := False, da_doneClosed := True, da_tomb := tomb_return (da_tomb d) None\<rparr>"

definition da_read_turn :: "json_printer \<Rightarrow> 'c DialAction \<Rightarrow> io_read \<Rightarrow> 'c DialAction" where
  "da_read_turn M d ev =
     (if \<not> da_reading d then d
      else if \<not> tomb_Alive (da_tomb d) then da_stop_reading d
      else (case ev of
              IoData b \<Rightarrow>
                if b = [] then d
                else (da_sendOutputMessage M d ''db/dial/input'' (DialInput_json (da_requestId d) (da_sequenceNumber d) (EncodeToString b)))
                       \<lparr>da_sequenceNumber := da_sequenceNumber d + 1\<rparr>
            | _ \<Rightarrow> da_stop_reading (da_sendOutputMessage M d ''db/dial/stop'' (DialActionPayload_json (da_requestId d) []))))"

text \<open>The body of the loop over the messages that are next in order.\<close>

definition dial_step :: "('c \<Rightarrow> string \<Rightarrow> 'c \<times> unit res) \<Rightarrow> 'c \<times> tomb \<Rightarrow> StreamMessage \<Rightarrow> ('c \<times> tomb) \<times> bool" where
  "dial_step write st m =
     (case st of (lconn, tmb) \<Rightarrow>
        if sm_Type m = ''db/stream/end'' then (st, False)
        else if sm_Type m = ''db/stream'' \<or> sm_Type m = ''stream''
        then ((case DecodeString (sm_Content m) of
                 None \<Rightarrow> st
               | Some contentBytes \<Rightarrow>
                  (case write lconn contentBytes of
                     (lconn', Ok _) \<Rightarrow> (lconn', tmb)
                   | (lconn', _) \<Rightarrow> (lconn', if tomb_Alive tmb then tomb_Kill tmb None else tmb))), sm_More m)
        else (st, True))"

definition da_stream_turn :: "('c \<Rightarrow> string \<Rightarrow> 'c \<times> unit res) \<Rightarrow> 'c DialAction \<Rightarrow> StreamMessage \<Rightarrow> 'c DialAction" where
  "da_stream_turn write d m =
     (if \<not> da_writing d then d
      else if \<not> tomb_Alive (da_tomb d) then d\<lparr>da_writing := False, da_tomb := tomb_return (da_tomb d) None\<rparr>
      else (case accept (dial_step write) sm_SequenceNumber (da_expected d, da_messages d, (da_lconn d, da_tomb d), True) m of
              (expected, messages, (lconn, tmb), running) \<Rightarrow>
                d\<lparr>da_expected := expected, da_messages := messages, da_lconn := lconn, da_writing := running,
                   da_tomb := (if running then tmb else tomb_return tmb None)\<rparr>))"

definition DialAction_Kill :: "'c DialAction \<Rightarrow> gerror option \<Rightarrow> 'c DialAction" where
  "DialAction_Kill d err = (if tomb_Alive (da_tomb d) then d\<lparr>da_tomb := tomb_Kill (da_tomb d) err\<rparr> else d)"

text \<open>The plugin.\<close>

record 'p daemon_action_ops =
  dact_Start :: "unit \<Rightarrow> 'p \<times> unit res"
  dact_ReceiveStream :: "'p \<Rightarrow> StreamMessage \<Rightarrow> 'p"
  dact_ReceiveMrtap :: "'p \<Rightarrow> string \<Rightarrow> string option \<Rightarrow> 'p \<times> unit res"
  dact_Kill :: "'p \<Rightarrow> gerror option \<Rightarrow> 'p"

datatype ('c, 'p) db_action = ActDial "'c DialAction" | ActPwdb 'p

record ('c, 'p) DbDaemonPlugin =
  ddb_killed :: bool
  ddb_action :: "('c, 'p) db_action option"

definition DbDaemonPlugin_New :: "('c, 'p) DbDaemonPlugin" where
  "DbDaemonPlugin_New = \<lparr> ddb_killed = False, ddb_action = None \<rparr>"

definition db_StartAction ::
  "json_printer \<Rightarrow> 'p daemon_action_ops \<Rightarrow> string \<Rightarrow> ('c, 'p) DbDaemonPlugin \<Rightarrow> string \<Rightarrow> 'c \<Rightarrow> ('c, 'p) DbDaemonPlugin \<times> unit res" where
  "db_StartAction M W requestId d action conn =
     (if ddb_killed d then (d, Err (errorf ''plugin has already been killed, cannot create a new shell action''))
      else if action = ''dial'' then (d\<lparr>ddb_action := Some (ActDial (DialAction_Start M requestId conn))\<rparr>, Ok ())
      else if action = ''pwdb''
      then (case dact_Start W () of
              (p, r) \<Rightarrow> (d\<lparr>ddb_action := Some (ActPwdb p)\<rparr>, wrap_err (errorf_w (''failed to start '' @ action @ '' action: '')) r))
      else (d, Err (errorf (''unrecognized db action: '' @ action))))"

definition DbDaemonPlugin_Kill :: "'p daemon_action_ops \<Rightarrow> ('c, 'p) DbDaemonPlugin \<Rightarrow> gerror option \<Rightarrow> ('c, 'p) DbDaemonPlugin" where
  "DbDaemonPlugin_Kill W d err =
     d\<lparr>ddb_killed := True, ddb_action := map_option
         (\<lambda>a. case a of ActDial x \<Rightarrow> ActDial (DialAction_Kill x err) | ActPwdb p \<Rightarrow> ActPwdb (dact_Kill W p err)) (ddb_action d)\<rparr>"

text \<open>A stream message waits in the action's channel until the loop takes it.\<close>

definition DbDaemonPlugin_ReceiveStream ::
  "('c \<Rightarrow> string \<Rightarrow> 'c \<times> unit res) \<Rightarrow> 'p daemon_action_ops \<Rightarrow> ('c, 'p) DbDaemonPlugin \<Rightarrow> StreamMessage \<Rightarrow> ('c, 'p) DbDaemonPlugin" where
  "DbDaemonPlugin_ReceiveStream write W d m =
     d\<lparr>ddb_action := map_option
         (\<lambda>a. case a of ActDial x \<Rightarrow> ActDial (da_stream_turn write x m) | ActPwdb p \<Rightarrow> ActPwdb (dact_ReceiveStream W p m)) (ddb_action d)\<rparr>"

definition DbDaemonPlugin_ReceiveMrtap ::
  "'p daemon_action_ops \<Rightarrow> ('c, 'p) DbDaemonPlugin \<Rightarrow> string \<Rightarrow> string option \<Rightarrow> ('c, 'p) DbDaemonPlugin \<times> unit res" where
  "DbDaemonPlugin_ReceiveMrtap W d action pl =
     (case ddb_action d of
        None \<Rightarrow> (d, Err (errorf ''ignoring received mrtap because it was sent before an action was created''))
      | Some (ActDial x) \<Rightarrow> (d, Ok ())
      | Some (ActPwdb p) \<Rightarrow> (case dact_ReceiveMrtap W p action pl of (p', r) \<Rightarrow> (d\<lparr>ddb_action := Some (ActPwdb p')\<rparr>, r)))"

section \<open>The stream of the agent\<close>

definition stream_message :: "string \<Rightarrow> string \<Rightarrow> int \<Rightarrow> bool \<Rightarrow> string \<Rightarrow> StreamMessage" where
  "stream_message v action n moreMessages b = \<lparr> sm_RequestId = [], sm_SchemaVersion = v, sm_SequenceNumber = n, sm_Action = action,
     sm_Type = ''stream'', sm_More = moreMessages, sm_LogId = [], sm_Content = EncodeToString b \<rparr>"

fun stream_messages :: "string \<Rightarrow> string \<Rightarrow> int \<Rightarrow> string list \<Rightarrow> StreamMessage list" where
  "stream_messages v action n [] = []"
| "stream_messages v action n (b # bs) = stream_message v action n (bs \<noteq> []) b # stream_messages v action (n + 1) bs"

lemma length_stream_messages [simp]: "length (stream_messages v action n bs) = length bs"
  by (induction bs arbitrary: n) simp_all

lemma nth_stream_messages:
  "i < length bs \<Longrightarrow> stream_messages v action n bs ! i = stream_message v action (n + int i) (Suc i < length bs) (bs ! i)"
proof (induction bs arbitrary: n i)
  case (Cons b bs)
  then show ?case by (cases i) (simp_all add: algebra_simps)
qed simp

lemma stream_messages_numbered: "numbered sm_SequenceNumber (stream_messages v action 0 bs)"
  by (simp add: numbered_def nth_stream_messages stream_message_def)

definition reads :: "string list \<Rightarrow> io_read list" where
  "reads bs = map IoData (butlast bs) @ [IoEof (last bs)]"

lemma dial_turns_stream:
  assumes "bs \<noteq> []" "tomb_Alive (dl_tomb d)" "\<not> dl_doneClosed d" "dl_version d \<noteq> []" "i < length (dl_routines d)" "dl_routines d ! i = Some n"
  shows "\<exists>d'. dial_turns d i (reads bs) = (d', Ok ()) \<and> dl_stream d' = dl_stream d @ stream_messages (dl_version d) ''dial'' n bs"
  using assms
proof (induction bs arbitrary: d n)
  case (Cons b bs)
  show ?case
  proof (cases "bs = []")
    case True
    then show ?thesis using Cons.prems
      by (simp add: reads_def dial_turn_def dial_return_def dial_sendStreamMessage_def stream_message_def)
  next
    case False
    let ?d = "(dial_sendStreamMessage d n ''stream'' True b)\<lparr>dl_routines := (dl_routines d)[i := Some (n + 1)]\<rparr>"
    have "dial_turns d i (reads (b # bs)) = dial_turns ?d i (reads bs)"
      using False Cons.prems by (simp add: reads_def dial_turn_def)
    moreover have "\<exists>d'. dial_turns ?d i (reads bs) = (d', Ok ()) \<and>
        dl_stream d' = dl_stream ?d @ stream_messages (dl_version ?d) ''dial'' (n + 1) bs"
      by (rule Cons.IH) (use False Cons.prems in \<open>simp_all add: dial_sendStreamMessage_def\<close>)
    ultimately show ?thesis using False by (simp add: dial_sendStreamMessage_def stream_message_def)
  qed
qed simp

text \<open>A connection that takes everything written to it.\<close>

definition log_write :: "string \<Rightarrow> string \<Rightarrow> string \<times> unit res" where
  "log_write c b = (c @ b, Ok ())"

interpretation dbs: ordered_stream "stream_messages CurrentSchema ''dial'' 0" sm_SequenceNumber "dial_step log_write"
  "\<lambda>(c, t) b. (c @ b, t)"
  by unfold_locales (auto simp: stream_messages_numbered nth_stream_messages stream_message_def dial_step_def log_write_def)

text \<open>The loop of the daemon is the generic one as long as the tomb is alive.\<close>

lemma dial_step_tomb: "snd (fst (dial_step log_write st m)) = snd st"
  by (auto simp: dial_step_def log_write_def split: prod.splits option.splits)

lemma drain_tomb: "drain (dial_step log_write) e buf st = (e', buf', st', r) \<Longrightarrow> snd st' = snd st"
proof (induction "dial_step log_write" e buf st arbitrary: e' buf' st' r rule: drain.induct)
  case (1 e buf st)
  show ?case
  proof (cases "al_get buf e")
    case (Some m)
    obtain st1 b where s: "dial_step log_write st m = (st1, b)" by fastforce
    then have t: "snd st1 = snd st" using dial_step_tomb [of st m] by simp
    then show ?thesis using 1 Some s by (subst (asm) (2) drain.simps) (auto split: bool.splits)
  qed (use 1(2) in \<open>simp add: drain.simps\<close>)
qed

lemma da_stream_turns:
  assumes "tomb_Alive (da_tomb d)" "da_writing d"
  shows "\<exists>e buf t r. foldl (accept (dial_step log_write) sm_SequenceNumber) (da_expected d, da_messages d, (da_lconn d, da_tomb d), True) ms
    = (e, buf, (da_lconn (foldl (da_stream_turn log_write) d ms), t), r) \<and> da_writing (foldl (da_stream_turn log_write) d ms) = r"
  using assms
proof (induction ms arbitrary: d)
  case (Cons m ms)
  obtain e buf c t r where a: "accept (dial_step log_write) sm_SequenceNumber (da_expected d, da_messages d, (da_lconn d, da_tomb d), True) m
      = (e, buf, (c, t), r)" by (metis prod.collapse)
  then have t: "t = da_tomb d" using drain_tomb by (fastforce simp: accept_def)
  let ?d = "da_stream_turn log_write d m"
  have d: "?d = d\<lparr>da_expected := e, da_messages := buf, da_lconn := c, da_writing := r, da_tomb := (if r then t else tomb_return t None)\<rparr>"
    using a Cons.prems by (simp add: da_stream_turn_def)
  show ?case
  proof (cases r)
    case True
    then show ?thesis using Cons.IH [of ?d] Cons.prems a d t by simp
  next
    case False
    have "foldl (accept (dial_step log_write) sm_SequenceNumber) (e, buf, (c, t), False) ms = (e, buf, (c, t), False)"
      by (induction ms) (simp_all add: accept_def)
    moreover have "foldl (da_stream_turn log_write) ?d ms = ?d" using False d by (induction ms) (simp_all add: da_stream_turn_def)
    ultimately show ?thesis using a d False by auto
  qed
qed auto

section \<open>The tunnel\<close>

definition dial_feed :: "json_parser \<Rightarrow> 'c tcp_ops \<Rightarrow> 'c Dial \<Rightarrow> (string \<times> string option) list \<Rightarrow> 'c Dial" where
  "dial_feed J T = foldl (\<lambda>d m. fst (Dial_Receive J T d (fst m) (snd m)))"

definition json_agrees :: "json_parser \<Rightarrow> json_printer \<Rightarrow> string \<Rightarrow> bool" where
  "json_agrees J M r \<longleftrightarrow>
     (\<forall>n \<ge> 0. \<forall>b. J (M (DialInput_json r n (EncodeToString b))) = Some (DialInput_json r n (EncodeToString b))) \<and>
     J (M (DialActionPayload_json r CurrentSchema)) = Some (DialActionPayload_json r CurrentSchema)"

lemma Dial_Receive_input:
  assumes "json_agrees J M r" "\<And>c b. tcp_Write T c b = log_write c b" "dl_conn d = Some c" "0 \<le> n" "n < 2 ^ 63"
  shows "fst (Dial_Receive J T d ''db/dial/input'' (Some (M (DialInput_json r n (EncodeToString b))))) = d\<lparr>dl_conn := Some (c @ b)\<rparr>"
proof -
  have "J (M (DialInput_json r n (EncodeToString b))) = Some (DialInput_json r n (EncodeToString b))"
    using assms(1,4) by (simp add: json_agrees_def)
  then have "read_DialInputActionPayload J (Some (M (DialInput_json r n (EncodeToString b)))) = Some (EncodeToString b)"
    using assms(4,5) by (simp add: read_DialInputActionPayload_def read_struct_def)
      (simp add: DialInput_json_def text_field_def string_field_def int_field_def struct_field_def decode_element_def to_lower_def)
  then show ?thesis using assms(2,3) by (simp add: Dial_Receive_def log_write_def Let_def)
qed

lemma upload:
  assumes "json_agrees J M r" "\<And>c b. tcp_Write T c b = log_write c b"
  shows "da_requestId u = r \<Longrightarrow> tomb_Alive (da_tomb u) \<Longrightarrow> da_reading u \<Longrightarrow> list_all (\<lambda>b. b \<noteq> []) bs \<Longrightarrow> 0 \<le> da_sequenceNumber u \<Longrightarrow>
    da_sequenceNumber u + int (length bs) \<le> 2 ^ 63 \<Longrightarrow> dl_conn d = Some c \<Longrightarrow>
    \<exists>sent. da_outbox (foldl (da_read_turn M) u (map IoData bs)) = da_outbox u @ sent \<and>
      dl_conn (dial_feed J T d sent) = Some (c @ concat bs)"
proof (induction bs arbitrary: u d c)
  case (Cons b bs)
  let ?m = "(''db/dial/input'', Some (M (DialInput_json r (da_sequenceNumber u) (EncodeToString b))))"
  let ?u = "u\<lparr>da_outbox := da_outbox u @ [?m], da_sequenceNumber := da_sequenceNumber u + 1\<rparr>"
  have u: "da_read_turn M u (IoData b) = ?u" using Cons.prems by (simp add: da_read_turn_def da_sendOutputMessage_def)
  have f: "fst (Dial_Receive J T d (fst ?m) (snd ?m)) = d\<lparr>dl_conn := Some (c @ b)\<rparr>"
    unfolding fst_conv snd_conv by (rule Dial_Receive_input [OF assms]) (use Cons.prems in simp_all)
  obtain sent where s: "da_outbox (foldl (da_read_turn M) ?u (map IoData bs)) = da_outbox ?u @ sent"
    "dl_conn (dial_feed J T (d\<lparr>dl_conn := Some (c @ b)\<rparr>) sent) = Some ((c @ b) @ concat bs)"
    using Cons.IH [of ?u "d\<lparr>dl_conn := Some (c @ b)\<rparr>" "c @ b"] Cons.prems by auto
  show ?case
    by (rule exI [of _ "?m # sent"]) (use u f s in \<open>simp add: dial_feed_def\<close>)
qed (simp add: dial_feed_def)

text \<open>
  C7. A tunnelled connection is transparent in both directions: after the daemon's first
  message has made the agent connect, what the server sends until it closes is written to the
  local connection in order and ends it, in whatever order the stream messages arrive, and
  what the local client sends is written to the server's connection in order.
\<close>

theorem db_tunnel_transparent:
  assumes "json_agrees J M r" and "\<And>c b. tcp_Write T c b = log_write c b" and "Dial_New T host port = Ok d0" and "tcp_Dial T (dl_remoteAddress d0) = Ok c"
    and "bs \<noteq> []" and "list_all (\<lambda>b. b \<noteq> []) cs" and "int (length cs) \<le> 2 ^ 63"
  shows "\<exists>start d d'. da_outbox (DialAction_Start M r lconn) = [start] \<and> Dial_Receive J T d0 (fst start) (snd start) = (d, Some (Ok (Some []))) \<and>
    dial_turns d 0 (reads bs) = (d', Ok ()) \<and>
    (\<forall>as. mset as = mset (dl_stream d') \<longrightarrow>
       da_lconn (foldl (da_stream_turn log_write) (DialAction_Start M r lconn) as) = lconn @ concat bs \<and>
       \<not> da_writing (foldl (da_stream_turn log_write) (DialAction_Start M r lconn) as)) \<and>
    (\<exists>sent. da_outbox (foldl (da_read_turn M) (DialAction_Start M r lconn) (map IoData cs)) = start # sent \<and>
       dl_conn (dial_feed J T d sent) = Some (c @ concat cs))"
proof -
  let ?u = "DialAction_Start M r lconn" and ?start = "(''db/dial/start'', Some (M (DialActionPayload_json r CurrentSchema)))"
  let ?d = "d0\<lparr>dl_requestId := r, dl_version := CurrentSchema, dl_conn := Some c, dl_tomb := tomb_new\<lparr>tb_started := True, tb_running := 1\<rparr>,
    dl_routines := [Some 0]\<rparr>"
  have d0: "dl_tomb d0 = tomb_new" "dl_routines d0 = []" "\<not> dl_doneClosed d0" "dl_stream d0 = []"
    using assms(3) by (auto simp: Dial_New_def elim!: res_map.elims)
  have u: "da_outbox ?u = [?start]" "tomb_Alive (da_tomb ?u)" "da_writing ?u" "da_reading ?u" "da_sequenceNumber ?u = 0"
    "da_expected ?u = 0" "da_messages ?u = []" "da_lconn ?u = lconn" "da_requestId ?u = r"
    by (simp_all add: DialAction_Start_def da_sendOutputMessage_def tomb_Alive_def tomb_new_def)
  have "read_DialActionPayload J (Some (M (DialActionPayload_json r CurrentSchema))) = Some (r, CurrentSchema)"
    using assms(1) by (simp add: read_DialActionPayload_def read_struct_def json_agrees_def)
      (simp add: DialActionPayload_json_def text_field_def string_field_def struct_field_def decode_element_def to_lower_def)
  then have rcv: "Dial_Receive J T d0 (fst ?start) (snd ?start) = (?d, Some (Ok (Some [])))"
    using assms(4) d0 by (simp add: Dial_Receive_def Dial_start_def)
  have alive: "tomb_Alive (dl_tomb ?d)" by (simp add: tomb_Alive_def tomb_new_def)
  obtain d' where d': "dial_turns ?d 0 (reads bs) = (d', Ok ())" "dl_stream d' = stream_messages CurrentSchema ''dial'' 0 bs"
    using dial_turns_stream [OF assms(5) alive, of 0 0] d0 by (auto simp: CurrentSchema_def)
  have down: "da_lconn (foldl (da_stream_turn log_write) ?u as) = lconn @ concat bs \<and> \<not> da_writing (foldl (da_stream_turn log_write) ?u as)"
    if perm: "mset as = mset (dl_stream d')" for as
  proof -
    have fold: "foldl (\<lambda>(c, t) b. (c @ b, t)) (x, y) bs = (x @ concat bs, y)" for x :: string and y :: tomb and bs
      by (induction bs arbitrary: x) simp_all
    obtain e buf where "foldl (accept (dial_step log_write) sm_SequenceNumber) (0, [], (lconn, da_tomb ?u), True) as =
        (e, buf, (lconn @ concat bs, da_tomb ?u), False)"
      using dbs.delivered [OF assms(5), of as "(lconn, da_tomb ?u)"] perm d'(2) fold by auto
    then show ?thesis using da_stream_turns [OF u(2,3), of as] u(6-8) by auto
  qed
  obtain sent where up: "da_outbox (foldl (da_read_turn M) ?u (map IoData cs)) = [?start] @ sent"
    "dl_conn (dial_feed J T ?d sent) = Some (c @ concat cs)"
    using upload [OF assms(1,2) u(9,2,4) assms(6), of ?d c] u(1,5) assms(7) by auto
  show ?thesis
    by (rule exI [of _ ?start], rule exI [of _ ?d], rule exI [of _ d']) (use u(1) rcv d'(1) down up in simp)
qed

text \<open>
  Misusing a tunnel crashes the agent or blocks it for good: input before the connection was
  started uses a connection that does not exist; starting it twice closes the done channel twice
  when both routines end; and stopping the action, by a message or when its data channel ends,
  waits forever when the connection to the server could not be made.
\<close>

theorem dial_misuse_panics:
  assumes "Dial_New T host port = Ok d0" and "read_DialInputActionPayload J pl = Some data" and "DecodeString data = Some b"
  shows "snd (Dial_Receive J T d0 ''db/dial/input'' pl) = Some Panic \<and>
    (\<forall>c. tcp_Dial T (dl_remoteAddress d0) = Ok c \<longrightarrow>
       (let twice = fst (Dial_start T (fst (Dial_start T d0 r v)) r v) in
        snd (dial_turns (fst (dial_turn twice 0 (IoEof []))) 1 [ev]) = Panic)) \<and>
    (\<forall>e. tcp_Dial T (dl_remoteAddress d0) = Err e \<longrightarrow>
       (let failed = fst (Dial_start T d0 r v) in
        snd (Dial_start T d0 r v) = Err e \<and> snd (Dial_Receive J T failed ''db/dial/stop'' pl) = None \<and> \<not> snd (Dial_Kill failed)))"
proof -
  have d0: "dl_tomb d0 = tomb_new" "dl_routines d0 = []" "\<not> dl_doneClosed d0" "dl_conn d0 = None"
    using assms(1) by (auto simp: Dial_New_def elim!: res_map.elims)
  have "snd (dial_turns (fst (dial_turn (fst (Dial_start T (fst (Dial_start T d0 r v)) r v)) 0 (IoEof []))) 1 [ev]) = Panic"
    if c: "tcp_Dial T (dl_remoteAddress d0) = Ok c" for c
  proof -
    let ?twice = "fst (Dial_start T (fst (Dial_start T d0 r v)) r v)"
    have two: "dl_routines ?twice = [Some 0, Some 0]" "tomb_Alive (dl_tomb ?twice)" "\<not> dl_doneClosed ?twice"
      using d0 c by (simp_all add: Dial_start_def tomb_Go_def tomb_new_def tomb_Alive_def)
    let ?e = "fst (dial_turn ?twice 0 (IoEof []))"
    have e: "dl_doneClosed ?e" "dl_routines ?e = [None, Some 0]" "\<not> tomb_Alive (dl_tomb ?e)"
      using two by (auto simp: dial_turn_def dial_return_def dial_sendStreamMessage_def tomb_return_def Let_def)
    then show ?thesis by (simp add: dial_turn_def dial_return_def)
  qed
  then show ?thesis using assms(2,3) d0 by (simp add: Dial_Receive_def Dial_start_def Dial_Kill_def when_back_def Let_def)
qed

section \<open>Witnesses\<close>

definition log_tcp :: "string tcp_ops" where
  "log_tcp = \<lparr> tcp_Resolve = (\<lambda>a. Ok a), tcp_Dial = (\<lambda>a. Ok []), tcp_Write = log_write \<rparr>"

lemma wit_dial_agrees: "json_agrees codec_parse codec_print r"
  by (simp add: json_agrees_def)

theorem db_tunnel_transparent_witness:
  "\<exists>d (d' :: string Dial). dial_turns d 0 (reads [''he'', ''llo'', []]) = (d', Ok ()) \<and>
     da_lconn (foldl (da_stream_turn log_write) (DialAction_Start codec_print ''r'' []) (rev (dl_stream d'))) = ''hello''"
proof -
  obtain d0 where d: "Dial_New log_tcp ''h'' 5432 = Ok d0" by (simp add: Dial_New_def log_tcp_def)
  have dial: "tcp_Dial log_tcp (dl_remoteAddress d0) = Ok []" by (simp add: log_tcp_def)
  have w: "\<And>c b. tcp_Write log_tcp c b = log_write c b" by (simp add: log_tcp_def)
  have n: "[''he'', ''llo'', []] \<noteq> []" "list_all (\<lambda>b. b \<noteq> []) ([] :: string list)" "int (length ([] :: string list)) \<le> 2 ^ 63" by simp_all
  obtain e and d' :: "string Dial" where e: "dial_turns e 0 (reads [''he'', ''llo'', []]) = (d', Ok ())" and
    all: "\<forall>as. mset as = mset (dl_stream d') \<longrightarrow>
     da_lconn (foldl (da_stream_turn log_write) (DialAction_Start codec_print ''r'' []) as) = [] @ concat [''he'', ''llo'', []] \<and>
     \<not> da_writing (foldl (da_stream_turn log_write) (DialAction_Start codec_print ''r'' []) as)"
    using db_tunnel_transparent [OF wit_dial_agrees w d dial n, where r = "''r''" and lconn = "[]"] by blast
  from all have "da_lconn (foldl (da_stream_turn log_write) (DialAction_Start codec_print ''r'' []) (rev (dl_stream d'))) = ''hello''"
    by (auto dest: spec [of _ "rev (dl_stream d')"])
  with e show ?thesis by blast
qed

theorem dial_misuse_panics_witness:
  "\<exists>d0. Dial_New log_tcp ''h'' 5432 = Ok d0 \<and>
     snd (Dial_Receive (\<lambda>_. Some (DialInput_json ''r'' 0 (EncodeToString ''x''))) log_tcp d0 ''db/dial/input'' (Some ''{}'')) = Some Panic"
proof -
  let ?J = "\<lambda>_ :: string. Some (DialInput_json ''r'' 0 (EncodeToString ''x''))"
  obtain d0 where d: "Dial_New log_tcp ''h'' 5432 = Ok d0" by (simp add: Dial_New_def log_tcp_def)
  have r: "read_DialInputActionPayload ?J (Some ''{}'') = Some (EncodeToString ''x'')" by code_simp
  show ?thesis using dial_misuse_panics [OF d r, of "''x''" "[]" "[]" "IoEof []"] d by auto
qed

end
