(* ===== verification/Bz_Http.thy ===== *)
theory Bz_Http
  imports Go_Json Go_Text Go_Io
begin

text \<open>
  \<^verbatim>\<open>bzerolib/bzhttp\<close>: the address of a proxied request, headers, and requests that are tried again.
  Parsing and printing of URLs and the check of \<^verbatim>\<open>http.NewRequest\<close> are arguments; unescaping and the
  spelling of header names are the ones of the standard library.
\<close>

type_synonym headers = "(string \<times> string list) list"

record 'u url_lib =
  url_Parse :: "string \<Rightarrow> 'u res"
  url_Path :: "'u \<Rightarrow> string"
  url_set_Path :: "'u \<Rightarrow> string \<Rightarrow> 'u"
  url_String :: "'u \<Rightarrow> string"
  url_Host :: "'u \<Rightarrow> string"
  url_Scheme :: "'u \<Rightarrow> string"
  url_make :: "string \<Rightarrow> string \<Rightarrow> string \<Rightarrow> string"
  url_add_query :: "string \<Rightarrow> (string \<times> string) list \<Rightarrow> string"
  url_del_query :: "'u \<Rightarrow> string \<Rightarrow> string"
  url_request_ok :: "string \<Rightarrow> string \<Rightarrow> bool"

section \<open>Addresses\<close>

definition hex_digit :: "char \<Rightarrow> nat option" where
  "hex_digit c =
     (let n = of_char c :: nat in
      if 48 \<le> n \<and> n \<le> 57 then Some (n - 48)
      else if 97 \<le> n \<and> n \<le> 102 then Some (n - 87)
      else if 65 \<le> n \<and> n \<le> 70 then Some (n - 55) else None)"

fun QueryUnescape :: "string \<Rightarrow> string res" where
  "QueryUnescape [] = Ok []"
| "QueryUnescape (c # s) =
     (if c = CHR ''%''
      then (case s of
              a # b # r \<Rightarrow>
                (case (hex_digit a, hex_digit b) of
                   (Some i, Some j) \<Rightarrow> res_map (Cons (char_of (16 * i + j))) (QueryUnescape r)
                 | _ \<Rightarrow> Err (errorf ''invalid URL escape ''))
            | _ \<Rightarrow> Err (errorf ''invalid URL escape ''))
      else res_map (Cons (if c = CHR ''+'' then CHR '' '' else c)) (QueryUnescape s))"

definition has_suffix :: "string \<Rightarrow> string \<Rightarrow> bool" where
  "has_suffix p s \<longleftrightarrow> has_prefix (rev p) (rev s)"

definition BuildEndpoint :: "'u url_lib \<Rightarrow> string \<Rightarrow> string \<Rightarrow> string res" where
  "BuildEndpoint U base toAdd =
     (case url_Parse U base of
        Err e \<Rightarrow> Err e | Panic \<Rightarrow> Panic
      | Ok urlObject \<Rightarrow>
         (case QueryUnescape (url_String U (url_set_Path U urlObject (filepath_Join (url_Path U urlObject) toAdd))) of
            Err e \<Rightarrow> Err e | Panic \<Rightarrow> Panic
          | Ok decodedUrl \<Rightarrow>
             Ok (if has_suffix ''/'' toAdd \<and> \<not> has_suffix ''/'' decodedUrl then decodedUrl @ ''/'' else decodedUrl)))"

definition GetHeaders :: "headers \<Rightarrow> headers" where
  "GetHeaders hs = al_sets [] hs"

definition GetBodyBytes :: "io_read list \<Rightarrow> string res" where
  "GetBodyBytes body = wrap_err (errorf_s ''error building body: '') (ReadAll body)"

section \<open>Requests\<close>

record http_request =
  rq_Method :: string
  rq_URL :: string
  rq_Header :: headers
  rq_Body :: string

record http_response =
  rs_StatusCode :: int
  rs_Header :: headers

text \<open>\<^verbatim>\<open>textproto.CanonicalMIMEHeaderKey\<close>: a name with another character than those of a token stays as it is.\<close>

definition token_char :: "char \<Rightarrow> bool" where
  "token_char c \<longleftrightarrow>
     (let n = of_char c :: nat in 48 \<le> n \<and> n \<le> 57 \<or> 65 \<le> n \<and> n \<le> 90 \<or> 97 \<le> n \<and> n \<le> 122) \<or> c \<in> set ''!#$%&*+-.^_`|~'' \<or> c = CHR 0x27"

definition to_upper_char :: "char \<Rightarrow> char" where
  "to_upper_char c = (if 97 \<le> (of_char c :: nat) \<and> of_char c \<le> (122 :: nat) then char_of (of_char c - 32 :: nat) else c)"

fun canonical_from :: "bool \<Rightarrow> string \<Rightarrow> string" where
  "canonical_from upper [] = []"
| "canonical_from upper (c # s) =
     (if upper then to_upper_char c else hd (to_lower [c])) # canonical_from (c = CHR ''-'') s"

definition canonical_key :: "string \<Rightarrow> string" where
  "canonical_key s = (if list_all token_char s then canonical_from True s else s)"

definition Header_Set :: "headers \<Rightarrow> string \<Rightarrow> string \<Rightarrow> headers" where
  "Header_Set hs name v = al_set hs (canonical_key name) [v]"

definition addHeaders :: "http_request \<Rightarrow> (string \<times> string) list \<Rightarrow> string \<Rightarrow> http_request" where
  "addHeaders rq hs contentType =
     rq\<lparr>rq_Header := Header_Set (foldl (\<lambda>h (name, values). Header_Set h name values) (rq_Header rq) hs) ''Content-Type'' contentType\<rparr>"

definition addQueryParams :: "'u url_lib \<Rightarrow> http_request \<Rightarrow> (string \<times> string) list \<Rightarrow> http_request" where
  "addQueryParams U rq params = rq\<lparr>rq_URL := url_add_query U (rq_URL rq) (params @ [(''clientProtocol'', ''1.5'')])\<rparr>"

definition checkBadStatusCode :: "http_response \<Rightarrow> unit res" where
  "checkBadStatusCode r =
     (if rs_StatusCode r = 401 \<or> rs_StatusCode r = 415 \<or> rs_StatusCode r = 410
      then Err (errorf (''received response code: '' @ show_int (rs_StatusCode r) @ '', not retrying'')) else Ok ())"

text \<open>The request of one attempt; a request that \<^verbatim>\<open>http.NewRequest\<close> refuses is a null pointer when headers are set.\<close>

definition attempt_request ::
  "'u url_lib \<Rightarrow> string \<Rightarrow> string \<Rightarrow> string \<Rightarrow> string \<Rightarrow> (string \<times> string) list \<Rightarrow> (string \<times> string) list \<Rightarrow> http_request res" where
  "attempt_request U method endpoint contentType body hs params =
     (if hs = [] \<and> params = []
      then (if method = ''POST''
            then Ok \<lparr> rq_Method = method, rq_URL = endpoint, rq_Header = [(''Content-Type'', [contentType])], rq_Body = body \<rparr>
            else Ok \<lparr> rq_Method = method, rq_URL = endpoint, rq_Header = [], rq_Body = [] \<rparr>)
      else if \<not> url_request_ok U method endpoint then Panic
      else Ok (addQueryParams U (addHeaders \<lparr> rq_Method = method, rq_URL = endpoint, rq_Header = [], rq_Body = body \<rparr> hs contentType) params))"

text \<open>What the attempts give, one for every tick; the ticks end after 72 hours.\<close>

fun attempts :: "string \<Rightarrow> http_response res list \<Rightarrow> http_response option \<times> unit res" where
  "attempts failed [] = (None, Err (errorf failed))"
| "attempts failed (a # as) =
     (case a of
        Err _ \<Rightarrow> attempts failed as
      | Panic \<Rightarrow> (None, Panic)
      | Ok response \<Rightarrow>
         (case checkBadStatusCode response of
            Ok _ \<Rightarrow> if 200 \<le> rs_StatusCode response \<and> rs_StatusCode response < 300 then (Some response, Ok ()) else attempts failed as
          | r \<Rightarrow> (Some response, r)))"

definition bzhttp_Post ::
  "'u url_lib \<Rightarrow> (http_request \<Rightarrow> nat \<Rightarrow> http_response res) \<Rightarrow> nat \<Rightarrow> string \<Rightarrow> string \<Rightarrow> string \<Rightarrow> (string \<times> string) list \<Rightarrow>
   (string \<times> string) list \<Rightarrow> http_response option \<times> unit res" where
  "bzhttp_Post U send ticks endpoint contentType body hs params =
     attempts ''unable to make post request''
       (map (\<lambda>t. case attempt_request U ''POST'' endpoint contentType body hs params of Ok rq \<Rightarrow> send rq t | Err e \<Rightarrow> Err e | Panic \<Rightarrow> Panic) [0..<ticks])"

definition bzhttp_Get ::
  "'u url_lib \<Rightarrow> (http_request \<Rightarrow> nat \<Rightarrow> http_response res) \<Rightarrow> nat \<Rightarrow> string \<Rightarrow> (string \<times> string) list \<Rightarrow>
   (string \<times> string) list \<Rightarrow> http_response option \<times> unit res" where
  "bzhttp_Get U send ticks endpoint hs params =
     attempts ''unable to make get request''
       (map (\<lambda>t. case attempt_request U ''GET'' endpoint [] [] hs params of Ok rq \<Rightarrow> send rq t | Err e \<Rightarrow> Err e | Panic \<Rightarrow> Panic) [0..<ticks])"

section \<open>Response writers\<close>

text \<open>What a handler does to its \<^verbatim>\<open>http.ResponseWriter\<close> is the list of the calls it makes. The status the client
  sees is the one written before the first part of the body, or 200.\<close>

datatype writer_call = HeaderAdd string string | HeaderSet string string | WriteHeader int | WriteBody string

fun response_status :: "writer_call list \<Rightarrow> int" where
  "response_status (WriteHeader st # cs) = st"
| "response_status (WriteBody b # cs) = 200"
| "response_status (_ # cs) = response_status cs"
| "response_status [] = 200"

section \<open>Properties\<close>

text \<open>A response that ends the attempts.\<close>

definition definitive :: "http_response \<Rightarrow> bool" where
  "definitive r \<longleftrightarrow> 200 \<le> rs_StatusCode r \<and> rs_StatusCode r < 300 \<or> rs_StatusCode r \<in> {401, 410, 415}"

fun definitive_attempt :: "http_response res \<Rightarrow> bool" where
  "definitive_attempt (Ok r) = definitive r"
| "definitive_attempt (Err e) = False"
| "definitive_attempt Panic = True"

lemma attempts_find:
  "attempts failed as =
     (case find definitive_attempt as of
        None \<Rightarrow> (None, Err (errorf failed))
      | Some (Ok r) \<Rightarrow> (Some r, checkBadStatusCode r)
      | Some _ \<Rightarrow> (None, Panic))"
proof (induction as)
  case (Cons a as)
  then show ?case
  proof (cases a)
    case (Ok r)
    then show ?thesis using Cons by (auto simp: definitive_def checkBadStatusCode_def)
  qed auto
qed simp

lemma QueryUnescape_plain:
  "CHR ''%'' \<notin> set s \<Longrightarrow> QueryUnescape s = Ok (map (\<lambda>c. if c = CHR ''+'' then CHR '' '' else c) s)"
  by (induction s rule: QueryUnescape.induct) auto

end
