(* ===== verification/Web_Dial.thy ===== *)
theory Web_Dial
  imports Db_Dial Bz_Http
begin

text \<open>
  \<^verbatim>\<open>bctl/agent/plugin/web/actions/webdial\<close> and \<^verbatim>\<open>bctl/daemon/plugin/web/actions/webdial\<close>: an HTTP request
  made to the daemon is sent in pieces to the agent, which makes the request to the server and
  streams the response back. The response writer of the daemon is the list of the calls made
  of it, and the HTTP client of the agent a function from requests to responses.
\<close>

section \<open>Messages\<close>

record WebInput =
  wi_Body :: string
  wi_Endpoint :: string
  wi_Headers :: headers
  wi_Method :: string
  wi_SequenceNumber :: int
  wi_RequestId :: string
  wi_More :: bool

definition WebInput_json :: "WebInput \<Rightarrow> jvalue" where
  "WebInput_json p =
     VObject [(''body'', VString (EncodeToString (wi_Body p))), (''endpoint'', VString (wi_Endpoint p)), (''headers'', marshal_headers (wi_Headers p)),
       (''method'', VString (wi_Method p)), (''sequenceNumber'', VNumber (wi_SequenceNumber p)), (''requestId'', VString (wi_RequestId p)),
       (''more'', VBool (wi_More p))]"

definition read_WebInput :: "json_parser \<Rightarrow> string option \<Rightarrow> WebInput option" where
  "read_WebInput J pl =
     Option.bind (read_struct J pl) (\<lambda>kvs.
       case (bytes_field kvs ''body'', text_field kvs ''endpoint'', headers_field kvs ''headers'', text_field kvs ''method'',
             int_field kvs ''sequenceNumber'', text_field kvs ''requestId'', bool_field kvs ''more'') of
         (Some b, Some e, Some hs, Some me, Some n, Some r, Some mo) \<Rightarrow>
           Some \<lparr> wi_Body = b, wi_Endpoint = e, wi_Headers = hs, wi_Method = me, wi_SequenceNumber = n, wi_RequestId = r, wi_More = mo \<rparr>
       | _ \<Rightarrow> None)"

definition WebOutput_json :: "int \<Rightarrow> string \<Rightarrow> headers \<Rightarrow> string \<Rightarrow> jvalue" where
  "WebOutput_json statusCode requestId hs content =
     VObject [(''statusCode'', VNumber statusCode), (''requestId'', VString requestId), (''headers'', marshal_headers hs),
       (''content'', VString (EncodeToString content))]"

definition read_WebOutput :: "json_parser \<Rightarrow> string \<Rightarrow> (int \<times> headers \<times> string) option" where
  "read_WebOutput J bs =
     Option.bind (read_struct J (Some bs)) (\<lambda>kvs.
       case (int_field kvs ''statusCode'', text_field kvs ''requestId'', headers_field kvs ''headers'', bytes_field kvs ''content'') of
         (Some st, Some r, Some hs, Some b) \<Rightarrow> Some (st, hs, b) | _ \<Rightarrow> None)"

definition WebInterrupt_json :: "string \<Rightarrow> jvalue" where
  "WebInterrupt_json requestId = VObject [(''requestId'', VString requestId)]"

lemma decode_headers: "decode_all decode_header (map (\<lambda>(k, vs). (k, VArray (map VString vs))) hs) = Decoded hs"
proof -
  have e: "decode_all decode_element (map VString vs) = Decoded vs" for vs
    by (induction vs) (simp_all add: decode_element_def)
  show ?thesis by (induction hs) (auto simp: decode_header_def e)
qed

lemma al_sets_distinct: "distinct (map fst (m @ hs)) \<Longrightarrow> al_sets m hs = m @ hs"
proof (induction hs arbitrary: m)
  case (Cons h hs)
  have "al_set m (fst h) (snd h) = m @ [h]" if "fst h \<notin> fst ` set m" for m :: "('a \<times> 'b) list"
    using that by (induction m) auto
  then have "al_sets m (h # hs) = al_sets (m @ [h]) hs" using Cons.prems by (auto simp: al_sets_def split: prod.splits)
  then show ?case using Cons by simp
qed (simp add: al_sets_def)

lemmas field_simps_json = text_field_def string_field_def int_field_def bool_field_def bytes_field_def headers_field_def struct_field_def
  decode_element_def to_lower_def

lemma headers_roundtrip:
  "distinct (map fst hs) \<Longrightarrow> al_sets [] hs = hs"
  using al_sets_distinct [of "[]" hs] by simp

lemma read_WebOutput_json:
  assumes "J s = Some (WebOutput_json st r hs b)" "distinct (map fst hs)" "- (2 ^ 63) \<le> st" "st < 2 ^ 63"
  shows "read_WebOutput J s = Some (st, hs, b)"
  using assms(1) by (simp add: read_WebOutput_def read_struct_def WebOutput_json_def)
    (use assms(2-4) in \<open>simp add: field_simps_json marshal_headers_def decode_headers headers_roundtrip\<close>)

lemma read_WebInput_json:
  assumes "J s = Some (WebInput_json p)" "distinct (map fst (wi_Headers p))" "- (2 ^ 63) \<le> wi_SequenceNumber p" "wi_SequenceNumber p < 2 ^ 63"
  shows "read_WebInput J (Some s) = Some p"
  using assms(1) by (simp add: read_WebInput_def read_struct_def WebInput_json_def)
    (use assms(2-4) in \<open>simp add: field_simps_json marshal_headers_def decode_headers headers_roundtrip\<close>)

section \<open>The agent\<close>

text \<open>
  The channel for interrupts is never made: it is \<^verbatim>\<open>nil\<close>. A routine keeps the response it reads
  and its sequence number; \<^verbatim>\<open>wd_requests\<close> is the list of the requests made.
\<close>

record WebDial =
  wd_tomb :: tomb
  wd_requestId :: string
  wd_doneClosed :: bool
  wd_stream :: "StreamMessage list"
  wd_version :: string
  wd_remoteHost :: string
  wd_remotePort :: int
  wd_requestBody :: string
  wd_routines :: "(http_response \<times> int) option list"
  wd_requests :: "http_request list"

definition WebDial_New :: "string \<Rightarrow> int \<Rightarrow> WebDial" where
  "WebDial_New remoteHost remotePort =
     \<lparr> wd_tomb = tomb_new, wd_requestId = [], wd_doneClosed = False, wd_stream = [], wd_version = [], wd_remoteHost = remoteHost,
       wd_remotePort = remotePort, wd_requestBody = [], wd_routines = [], wd_requests = [] \<rparr>"

definition WebDial_Kill :: "WebDial \<Rightarrow> WebDial \<times> bool" where
  "WebDial_Kill w = (w\<lparr>wd_tomb := tomb_Kill (wd_tomb w) (Some (errorf ''we've been told to stop''))\<rparr>, tomb_Waits (wd_tomb w))"

definition wd_sendStreamMessage :: "json_printer \<Rightarrow> WebDial \<Rightarrow> int \<Rightarrow> string \<Rightarrow> bool \<Rightarrow> jvalue \<Rightarrow> WebDial" where
  "wd_sendStreamMessage M w sequenceNumber streamType moreMessages payload =
     w\<lparr>wd_stream := wd_stream w @ [\<lparr> sm_RequestId = [], sm_SchemaVersion = wd_version w, sm_SequenceNumber = sequenceNumber,
         sm_Action = ''dial'', sm_Type = streamType, sm_More = moreMessages, sm_LogId = [], sm_Content = EncodeToString (M payload) \<rparr>]\<rparr>"

definition set_headers :: "headers \<Rightarrow> headers \<Rightarrow> headers" where
  "set_headers = foldl (\<lambda>h (name, values). foldl (\<lambda>h v. Header_Set h name v) h values)"

definition buildHttpRequest :: "'u url_lib \<Rightarrow> WebDial \<Rightarrow> string \<Rightarrow> string \<Rightarrow> string \<Rightarrow> headers \<Rightarrow> http_request res" where
  "buildHttpRequest U w endpoint body method hs =
     (case BuildEndpoint U (wd_remoteHost w @ '':'' @ show_int (wd_remotePort w)) endpoint of
        Err e \<Rightarrow> Err e | Panic \<Rightarrow> Panic
      | Ok endpoint' \<Rightarrow>
         (case url_Parse U (wd_remoteHost w) of
            Err e \<Rightarrow> Err e | Panic \<Rightarrow> Panic
          | Ok remoteHostUrl \<Rightarrow>
             if \<not> url_request_ok U method endpoint' then Panic
             else Ok \<lparr> rq_Method = (if method = [] then ''GET'' else method), rq_URL = endpoint',
                       rq_Header = Header_Set (set_headers [] hs) ''Host'' (url_Host U remoteHostUrl), rq_Body = body \<rparr>))"

definition handleNewHttpRequest ::
  "json_printer \<Rightarrow> 'u url_lib \<Rightarrow> (http_request \<Rightarrow> http_response res) \<Rightarrow> WebDial \<Rightarrow> WebInput \<Rightarrow> WebDial \<times> unit res" where
  "handleNewHttpRequest M U send w p =
     (case buildHttpRequest U w (wi_Endpoint p) (wd_requestBody w) (wi_Method p) (wi_Headers p) of
        Err e \<Rightarrow> (w, Err e) | Panic \<Rightarrow> (w, Panic)
      | Ok rq \<Rightarrow>
         let w1 = w\<lparr>wd_requests := wd_requests w @ [rq]\<rparr> in
         (case send rq of
            Err e \<Rightarrow>
              (wd_sendStreamMessage M w1 0 (if wd_version w = [] then ''web/error'' else ''error'') False (WebOutput_json 502 (wi_RequestId p) [] []),
               Err (errorf_s ''bad response to http request: '' e))
          | Panic \<Rightarrow> (w1, Panic)
          | Ok response \<Rightarrow>
             (case tomb_Go (wd_tomb w) of
                Ok t \<Rightarrow> (w1\<lparr>wd_tomb := t, wd_routines := wd_routines w @ [Some (response, 0)]\<rparr>, Ok ())
              | _ \<Rightarrow> (w1, Panic))))"

definition handleRequest ::
  "json_printer \<Rightarrow> 'u url_lib \<Rightarrow> (http_request \<Rightarrow> http_response res) \<Rightarrow> WebDial \<Rightarrow> WebInput \<Rightarrow> WebDial \<times> unit res" where
  "handleRequest M U send w p =
     (let w1 = w\<lparr>wd_requestBody := wd_requestBody w @ wi_Body p\<rparr> in
      if wi_More p then (w1, Ok ()) else handleNewHttpRequest M U send w1 p)"

text \<open>Sending on the channel for interrupts blocks for good, and with it the data channel.\<close>

definition WebDial_Receive ::
  "json_parser \<Rightarrow> json_printer \<Rightarrow> 'u url_lib \<Rightarrow> (http_request \<Rightarrow> http_response res) \<Rightarrow> WebDial \<Rightarrow> string \<Rightarrow> string option \<Rightarrow>
   WebDial \<times> string option res option" where
  "WebDial_Receive J M U send w action pl =
     (if action = ''web/dial/start''
      then (case read_DialActionPayload J pl of
              None \<Rightarrow> (w, Some (Err (errorf ''malformed web dial action payload: '')))
            | Some (requestId, version) \<Rightarrow> (w\<lparr>wd_requestId := requestId, wd_version := version\<rparr>, Some (Ok (Some []))))
      else if action = ''web/dial/datain''
      then (case read_WebInput J pl of
              None \<Rightarrow> (w, Some (Err (errorf ''unable to unmarshal web dial input message: '')))
            | Some p \<Rightarrow> (case handleRequest M U send w p of (w', r) \<Rightarrow> (w', Some (res_map (\<lambda>_. Some []) r))))
      else if action = ''web/dial/interrupt'' then when_back (w, False) (Ok pl)
      else (w, Some (Err (errorf (''unhandled stream action: '' @ action)))))"

text \<open>A round of the routine that reads the body of a response.\<close>

definition wd_return :: "WebDial \<Rightarrow> nat \<Rightarrow> WebDial \<times> unit res" where
  "wd_return w i =
     (if wd_doneClosed w then (w, Panic)
      else (w\<lparr>wd_doneClosed := True, wd_routines := (wd_routines w)[i := None], wd_tomb := tomb_return (wd_tomb w) None\<rparr>, Ok ()))"

definition wd_turn :: "json_printer \<Rightarrow> WebDial \<Rightarrow> nat \<Rightarrow> io_read \<Rightarrow> WebDial \<times> unit res" where
  "wd_turn M w i ev =
     (case (if i < length (wd_routines w) then wd_routines w ! i else None) of
        None \<Rightarrow> (w, Ok ())
      | Some (response, n) \<Rightarrow>
         if \<not> tomb_Alive (wd_tomb w) then wd_return w i
         else
           let out = WebOutput_json (rs_StatusCode response) (wd_requestId w) (rs_Header response);
               legacy = (wd_version w = []);
               next = (\<lambda>w. (w\<lparr>wd_routines := (wd_routines w)[i := Some (response, n + 1)]\<rparr>, Ok ()));
               chunk = (\<lambda>w b. wd_sendStreamMessage M w n (if legacy then ''web/stream'' else ''stream'') True (out b))
           in (case ev of
                 IoData b \<Rightarrow> next (chunk w b)
               | IoEof b \<Rightarrow> wd_return (wd_sendStreamMessage M w n (if legacy then ''web/stream/end'' else ''stream'') False (out b)) i
               | IoFail b e \<Rightarrow>
                   next (chunk (wd_sendStreamMessage M w n (if legacy then ''web/error'' else ''error'') False
                                  (WebOutput_json 502 (wd_requestId w) [] b)) b)))"

fun wd_turns :: "json_printer \<Rightarrow> WebDial \<Rightarrow> nat \<Rightarrow> io_read list \<Rightarrow> WebDial \<times> unit res" where
  "wd_turns M w i [] = (w, Ok ())"
| "wd_turns M w i (ev # evs) = (case wd_turn M w i ev of (w', Ok _) \<Rightarrow> wd_turns M w' i evs | r \<Rightarrow> r)"

section \<open>The daemon\<close>

text \<open>What the loop of \<^verbatim>\<open>Start\<close> changes, and what it returns.\<close>

record web_out =
  wo_calls :: "writer_call list"
  wo_headerSet :: bool
  wo_result :: "unit res option"

record WebDialAction =
  wa_tomb :: tomb
  wa_requestId :: string
  wa_outbox :: "(string \<times> string option) list"
  wa_doneClosed :: bool
  wa_expected :: int
  wa_messages :: "(int \<times> StreamMessage) list"
  wa_out :: web_out
  wa_running :: bool

definition WebDialAction_New :: "string \<Rightarrow> bool \<Rightarrow> WebDialAction" where
  "WebDialAction_New requestId doneClosed =
     \<lparr> wa_tomb = tomb_new, wa_requestId = requestId, wa_outbox = [], wa_doneClosed = doneClosed, wa_expected = 0, wa_messages = [],
       wa_out = \<lparr> wo_calls = [], wo_headerSet = False, wo_result = None \<rparr>, wa_running = True \<rparr>"

definition WebDialAction_Kill :: "WebDialAction \<Rightarrow> gerror option \<Rightarrow> WebDialAction \<times> bool" where
  "WebDialAction_Kill w err =
     (if tomb_Alive (wa_tomb w) then (w\<lparr>wa_tomb := tomb_Kill (wa_tomb w) err\<rparr>, tomb_Waits (wa_tomb w)) else (w, True))"

definition wa_send :: "json_printer \<Rightarrow> WebDialAction \<Rightarrow> string \<Rightarrow> jvalue \<Rightarrow> WebDialAction" where
  "wa_send M w action payload = w\<lparr>wa_outbox := wa_outbox w @ [(action, Some (M payload))]\<rparr>"

fun sendRequestChunks :: "json_printer \<Rightarrow> WebDialAction \<Rightarrow> string \<Rightarrow> headers \<Rightarrow> string \<Rightarrow> int \<Rightarrow> io_read list \<Rightarrow> WebDialAction" where
  "sendRequestChunks M w endpoint hs method n [] = w"
| "sendRequestChunks M w endpoint hs method n (IoData b # rs) =
     sendRequestChunks M (wa_send M w ''web/dial/datain'' (WebInput_json \<lparr> wi_Body = b, wi_Endpoint = endpoint, wi_Headers = hs, wi_Method = method,
        wi_SequenceNumber = n, wi_RequestId = wa_requestId w, wi_More = True \<rparr>)) endpoint hs method (n + 1) rs"
| "sendRequestChunks M w endpoint hs method n (IoEof b # rs) =
     wa_send M w ''web/dial/datain'' (WebInput_json \<lparr> wi_Body = b, wi_Endpoint = endpoint, wi_Headers = hs, wi_Method = method,
        wi_SequenceNumber = n, wi_RequestId = wa_requestId w, wi_More = False \<rparr>)"
| "sendRequestChunks M w endpoint hs method n (IoFail b e # rs) =
     wa_send M w ''web/dial/interrupt'' (WebInterrupt_json (wa_requestId w))"

text \<open>
  A request of the local client: \<^verbatim>\<open>cr_Form\<close> is what \<^verbatim>\<open>ParseForm\<close> finds, the parameters of the address and,
  for a form, those of the body; \<^verbatim>\<open>cr_Body\<close> is what is left to read after that.
\<close>

record client_request =
  cr_Header :: headers
  cr_Host :: string
  cr_URL :: string
  cr_Method :: string
  cr_Form :: headers
  cr_Body :: "io_read list"

definition wa_chunkSize :: nat where
  "wa_chunkSize = 124 * 1024"

definition request_reads :: "(headers \<Rightarrow> string) \<Rightarrow> client_request \<Rightarrow> io_read list" where
  "request_reads encode rq = (if cr_Form rq \<noteq> [] then string_reader wa_chunkSize (encode (cr_Form rq)) else cr_Body rq)"

definition WebDialAction_Start :: "json_printer \<Rightarrow> (headers \<Rightarrow> string) \<Rightarrow> WebDialAction \<Rightarrow> client_request \<Rightarrow> WebDialAction" where
  "WebDialAction_Start M encode w rq =
     sendRequestChunks M (wa_send M w ''web/dial/start'' (DialActionPayload_json (wa_requestId w) CurrentSchema))
       (cr_URL rq) (GetHeaders (Header_Set (cr_Header rq) ''X-Forwarded-Host'' (cr_Host rq))) (cr_Method rq) 0 (request_reads encode rq)"

definition header_calls :: "headers \<Rightarrow> writer_call list" where
  "header_calls hs = concat (map (\<lambda>(name, values). map (HeaderAdd name) values) hs)"

definition web_step :: "json_parser \<Rightarrow> web_out \<Rightarrow> StreamMessage \<Rightarrow> web_out \<times> bool" where
  "web_step J out m =
     (case DecodeString (sm_Content m) of
        None \<Rightarrow> (out\<lparr>wo_result := Some (Err (errorf ''illegal base64 data''))\<rparr>, False)
      | Some contentBytes \<Rightarrow>
         (case read_WebOutput J contentBytes of
            None \<Rightarrow> (out\<lparr>wo_result := Some (Err (errorf ''could not unmarshal web dial output action payload: ''))\<rparr>, False)
          | Some (statusCode, hs, content) \<Rightarrow>
             let out1 = out\<lparr>wo_calls := wo_calls out @ (if wo_headerSet out then [] else header_calls hs @ [WriteHeader statusCode]) @ [WriteBody content],
                            wo_headerSet := True\<rparr> in
             if sm_Type m = ''web/stream/end'' \<or> (sm_Type m = ''stream'' \<and> \<not> sm_More m)
             then (out1, False) else (out1, True)))"

text \<open>\<^verbatim>\<open>Start\<close> returns: the done channel is closed.\<close>

definition wa_return :: "WebDialAction \<Rightarrow> unit res \<Rightarrow> WebDialAction" where
  "wa_return w r =
     w\<lparr>wa_running := False, wa_doneClosed := True, wa_out := (wa_out w)\<lparr>wo_result := Some (if wa_doneClosed w then Panic else r)\<rparr>\<rparr>"

datatype web_event = WebMessage StreamMessage | WebCancelled | WebDying

definition wa_turn :: "json_parser \<Rightarrow> json_printer \<Rightarrow> WebDialAction \<Rightarrow> web_event \<Rightarrow> WebDialAction" where
  "wa_turn J M w ev =
     (if \<not> wa_running w then w
      else (case ev of
              WebDying \<Rightarrow> if tomb_Alive (wa_tomb w) then w else wa_return w (Ok ())
            | WebCancelled \<Rightarrow>
                wa_return (wa_send M w ''web/dial/interrupt'' (WebInterrupt_json (wa_requestId w))) (Err (errorf ''http request cancelled''))
            | WebMessage m \<Rightarrow>
                if sm_Type m \<in> {''web/stream'', ''web/stream/end'', ''stream''}
                then (case accept (web_step J) sm_SequenceNumber (wa_expected w, wa_messages w, wa_out w, True) m of
                        (expected, messages, out, running) \<Rightarrow>
                          let w1 = w\<lparr>wa_expected := expected, wa_messages := messages, wa_out := out\<rparr> in
                          if running then w1 else wa_return w1 (case wo_result out of Some r \<Rightarrow> r | None \<Rightarrow> Ok ()))
                else w))"

section \<open>The request reaches the agent\<close>

definition web_feed ::
  "json_parser \<Rightarrow> json_printer \<Rightarrow> 'u url_lib \<Rightarrow> (http_request \<Rightarrow> http_response res) \<Rightarrow> WebDial \<Rightarrow> (string \<times> string option) list \<Rightarrow> WebDial" where
  "web_feed J M U send = foldl (\<lambda>w m. fst (WebDial_Receive J M U send w (fst m) (snd m)))"

text \<open>The printer and the parser agree on the messages of a request and its response.\<close>

definition web_agrees :: "json_parser \<Rightarrow> json_printer \<Rightarrow> string \<Rightarrow> string \<Rightarrow> headers \<Rightarrow> string \<Rightarrow> http_response \<Rightarrow> bool" where
  "web_agrees J M requestId endpoint hs method rs \<longleftrightarrow>
     (\<forall>p. wi_RequestId p = requestId \<and> wi_Endpoint p = endpoint \<and> wi_Headers p = hs \<and> wi_Method p = method \<longrightarrow>
        J (M (WebInput_json p)) = Some (WebInput_json p)) \<and>
     J (M (DialActionPayload_json requestId CurrentSchema)) = Some (DialActionPayload_json requestId CurrentSchema) \<and>
     (\<forall>b. J (M (WebOutput_json (rs_StatusCode rs) requestId (rs_Header rs) b)) = Some (WebOutput_json (rs_StatusCode rs) requestId (rs_Header rs) b))"

lemma reads_Cons: "reads (b # bs) = (if bs = [] then [IoEof b] else IoData b # reads bs)"
  by (simp add: reads_def)

lemma request_chunks:
  assumes "web_agrees J M r endpoint hs method rs" "distinct (map fst hs)"
  shows "bs \<noteq> [] \<Longrightarrow> wa_requestId a = r \<Longrightarrow> 0 \<le> n \<Longrightarrow> n + int (length bs) \<le> 2 ^ 63 \<Longrightarrow>
    \<exists>sent p. sendRequestChunks M a endpoint hs method n (reads bs) = a\<lparr>wa_outbox := wa_outbox a @ sent\<rparr> \<and>
      wi_Endpoint p = endpoint \<and> wi_Headers p = hs \<and> wi_Method p = method \<and>
      web_feed J M U send w sent = fst (handleNewHttpRequest M U send (w\<lparr>wd_requestBody := wd_requestBody w @ concat bs\<rparr>) p)"
proof (induction bs arbitrary: a w n)
  case (Cons b bs)
  let ?p = "\<lambda>more. \<lparr> wi_Body = b, wi_Endpoint = endpoint, wi_Headers = hs, wi_Method = method, wi_SequenceNumber = n, wi_RequestId = r, wi_More = more \<rparr>"
  let ?m = "\<lambda>more. (''web/dial/datain'', Some (M (WebInput_json (?p more))))"
  have "J (M (WebInput_json (?p more))) = Some (WebInput_json (?p more))" for more
    using assms(1) by (simp add: web_agrees_def)
  then have rd: "read_WebInput J (Some (M (WebInput_json (?p more)))) = Some (?p more)" for more
    by (rule read_WebInput_json) (use assms(2) Cons.prems in auto)
  show ?case
  proof (cases "bs = []")
    case True
    have "sendRequestChunks M a endpoint hs method n (reads [b]) = a\<lparr>wa_outbox := wa_outbox a @ [?m False]\<rparr>"
      using Cons.prems by (simp add: reads_Cons wa_send_def)
    moreover have "web_feed J M U send w [?m False] = fst (handleNewHttpRequest M U send (w\<lparr>wd_requestBody := wd_requestBody w @ b\<rparr>) (?p False))"
      using rd [of False] by (simp add: web_feed_def WebDial_Receive_def handleRequest_def split: prod.splits)
    ultimately show ?thesis using True by (intro exI [of _ "[?m False]"] exI [of _ "?p False"]) simp
  next
    case False
    let ?a = "a\<lparr>wa_outbox := wa_outbox a @ [?m True]\<rparr>" and ?w = "w\<lparr>wd_requestBody := wd_requestBody w @ b\<rparr>"
    obtain sent p where IH: "sendRequestChunks M ?a endpoint hs method (n + 1) (reads bs) = ?a\<lparr>wa_outbox := wa_outbox ?a @ sent\<rparr>"
      "wi_Endpoint p = endpoint" "wi_Headers p = hs" "wi_Method p = method"
      "web_feed J M U send ?w sent = fst (handleNewHttpRequest M U send (?w\<lparr>wd_requestBody := wd_requestBody ?w @ concat bs\<rparr>) p)"
      using Cons.IH [of ?a "n + 1" ?w] False Cons.prems by auto
    have "sendRequestChunks M a endpoint hs method n (reads (b # bs)) = a\<lparr>wa_outbox := wa_outbox a @ ?m True # sent\<rparr>"
      using IH(1) False Cons.prems by (simp add: reads_Cons wa_send_def)
    moreover have "web_feed J M U send w (?m True # sent) = web_feed J M U send ?w sent"
      using rd [of True] by (simp add: web_feed_def WebDial_Receive_def handleRequest_def)
    ultimately show ?thesis using IH(2-5) by (intro exI [of _ "?m True # sent"] exI [of _ p]) simp
  qed
qed simp

text \<open>The body that is sent: the one of the request, or the form when there are parameters.\<close>

definition web_body :: "(headers \<Rightarrow> string) \<Rightarrow> client_request \<Rightarrow> string list \<Rightarrow> string" where
  "web_body encode rq bs = (if cr_Form rq \<noteq> [] then encode (cr_Form rq) else concat bs)"

lemma length_pieces: "length (pieces n s) \<le> length s"
proof (induction n s rule: pieces.induct)
  case (1 n s)
  show ?case
  proof (cases "s = [] \<or> n = 0")
    case False
    then have "length (drop n s) < length s" by simp
    with 1 [OF False] have "Suc (length (pieces n (drop n s))) \<le> length s" by linarith
    then show ?thesis using False by (subst pieces.simps) simp
  qed (subst pieces.simps, simp)
qed

lemma request_reads_body:
  assumes "cr_Body rq = reads bs" "bs \<noteq> []"
  obtains bs' where "bs' \<noteq> []" "request_reads encode rq = reads bs'" "concat bs' = web_body encode rq bs"
    "length bs' \<le> max (length bs) (Suc (length (encode (cr_Form rq))))"
proof (cases "cr_Form rq = []")
  case False
  have "string_reader wa_chunkSize s = reads (pieces wa_chunkSize s @ [[]])" for s by (simp add: string_reader_def reads_def)
  moreover have "concat (pieces wa_chunkSize s) = s" for s by (simp add: concat_pieces wa_chunkSize_def)
  ultimately show ?thesis using False that [of "pieces wa_chunkSize (encode (cr_Form rq)) @ [[]]"] length_pieces [of wa_chunkSize]
    by (simp add: request_reads_def web_body_def le_max_iff_disj)
qed (use that [of bs] assms in \<open>simp add: request_reads_def web_body_def\<close>)

section \<open>The response reaches the client\<close>

definition web_messages :: "json_printer \<Rightarrow> http_response \<Rightarrow> string \<Rightarrow> string list \<Rightarrow> StreamMessage list" where
  "web_messages M rs requestId cs =
     stream_messages CurrentSchema ''dial'' 0 (map (\<lambda>c. M (WebOutput_json (rs_StatusCode rs) requestId (rs_Header rs) c)) cs)"

lemma wd_turns_stream:
  assumes "cs \<noteq> []" "tomb_Alive (wd_tomb w)" "\<not> wd_doneClosed w" "wd_version w \<noteq> []" "i < length (wd_routines w)" "wd_routines w ! i = Some (rs, n)"
  shows "\<exists>w'. wd_turns M w i (reads cs) = (w', Ok ()) \<and> wd_doneClosed w' \<and>
    wd_stream w' = wd_stream w @ stream_messages (wd_version w) ''dial'' n (map (\<lambda>c. M (WebOutput_json (rs_StatusCode rs) (wd_requestId w) (rs_Header rs) c)) cs)"
  using assms
proof (induction cs arbitrary: w n)
  case (Cons c cs)
  show ?case
  proof (cases "cs = []")
    case True
    then show ?thesis using Cons.prems
      by (simp add: reads_def wd_turn_def wd_return_def wd_sendStreamMessage_def stream_message_def Let_def)
  next
    case False
    let ?w = "(wd_sendStreamMessage M w n ''stream'' True (WebOutput_json (rs_StatusCode rs) (wd_requestId w) (rs_Header rs) c))
      \<lparr>wd_routines := (wd_routines w)[i := Some (rs, n + 1)]\<rparr>"
    have "wd_turns M w i (reads (c # cs)) = wd_turns M ?w i (reads cs)"
      using False Cons.prems by (simp add: reads_Cons wd_turn_def Let_def wd_sendStreamMessage_def)
    moreover have "\<exists>w'. wd_turns M ?w i (reads cs) = (w', Ok ()) \<and> wd_doneClosed w' \<and> wd_stream w' = wd_stream ?w @
        stream_messages (wd_version ?w) ''dial'' (n + 1) (map (\<lambda>c. M (WebOutput_json (rs_StatusCode rs) (wd_requestId ?w) (rs_Header rs) c)) cs)"
      by (rule Cons.IH) (use False Cons.prems in \<open>simp_all add: wd_sendStreamMessage_def\<close>)
    ultimately show ?thesis using False by (simp add: wd_sendStreamMessage_def stream_message_def)
  qed
qed simp

text \<open>The contract of a stream holds for web responses, whose pieces are written after the header.\<close>

definition web_emit :: "http_response \<Rightarrow> web_out \<Rightarrow> string \<Rightarrow> web_out" where
  "web_emit rs out c =
     out\<lparr>wo_calls := wo_calls out @ (if wo_headerSet out then [] else header_calls (rs_Header rs) @ [WriteHeader (rs_StatusCode rs)]) @ [WriteBody c],
         wo_headerSet := True\<rparr>"

definition usable_response :: "http_response \<Rightarrow> bool" where
  "usable_response rs \<longleftrightarrow> distinct (map fst (rs_Header rs)) \<and> 0 \<le> rs_StatusCode rs \<and> rs_StatusCode rs < 1000"

lemma web_stream:
  assumes "web_agrees J M r endpoint hs method rs" "usable_response rs"
  shows "ordered_stream (web_messages M rs r) sm_SequenceNumber (web_step J) (web_emit rs)"
proof unfold_locales
  fix cs :: "string list" and i :: nat and out
  assume i: "i < length cs"
  let ?s = "M (WebOutput_json (rs_StatusCode rs) r (rs_Header rs) (cs ! i))"
  have "J ?s = Some (WebOutput_json (rs_StatusCode rs) r (rs_Header rs) (cs ! i))" using assms(1) by (simp add: web_agrees_def)
  then have "read_WebOutput J ?s = Some (rs_StatusCode rs, rs_Header rs, cs ! i)"
    by (rule read_WebOutput_json) (use assms(2) in \<open>auto simp: usable_response_def\<close>)
  then show "web_step J out (web_messages M rs r cs ! i) = (web_emit rs out (cs ! i), Suc i < length cs)"
    using i by (simp add: web_messages_def nth_stream_messages stream_message_def web_step_def web_emit_def Let_def)
qed (simp_all add: web_messages_def stream_messages_numbered)

lemma foldl_web_emit:
  "cs \<noteq> [] \<Longrightarrow> \<not> wo_headerSet out \<Longrightarrow>
   foldl (web_emit rs) out cs = out\<lparr>wo_calls := wo_calls out @ header_calls (rs_Header rs) @ WriteHeader (rs_StatusCode rs) # map WriteBody cs, wo_headerSet := True\<rparr>"
proof -
  have set: "wo_headerSet out \<Longrightarrow> foldl (web_emit rs) out cs = out\<lparr>wo_calls := wo_calls out @ map WriteBody cs\<rparr>" for out cs
    by (induction cs arbitrary: out) (simp_all add: web_emit_def)
  show "cs \<noteq> [] \<Longrightarrow> \<not> wo_headerSet out \<Longrightarrow> ?thesis" by (cases cs) (simp_all add: set web_emit_def)
qed

lemma wa_turns:
  assumes "wa_running a" "\<forall>m \<in> set ms. sm_Type m = ''stream''"
    and "foldl (accept (web_step J) sm_SequenceNumber) (wa_expected a, wa_messages a, wa_out a, True) ms = (e, buf, out, r)"
  shows "foldl (\<lambda>a m. wa_turn J M a (WebMessage m)) a ms =
    (let a1 = a\<lparr>wa_expected := e, wa_messages := buf, wa_out := out\<rparr> in
     if r then a1 else wa_return a1 (case wo_result out of Some r \<Rightarrow> r | None \<Rightarrow> Ok ()))"
  using assms
proof (induction ms arbitrary: a)
  case (Cons m ms)
  obtain e1 buf1 out1 r1 where s: "accept (web_step J) sm_SequenceNumber (wa_expected a, wa_messages a, wa_out a, True) m = (e1, buf1, out1, r1)"
    by (metis prod_cases4)
  let ?a = "a\<lparr>wa_expected := e1, wa_messages := buf1, wa_out := out1\<rparr>"
  show ?case
  proof (cases r1)
    case True
    then have "wa_turn J M a (WebMessage m) = ?a" using s Cons.prems by (simp add: wa_turn_def)
    moreover have "foldl (\<lambda>a m. wa_turn J M a (WebMessage m)) ?a ms =
      (let a1 = ?a\<lparr>wa_expected := e, wa_messages := buf, wa_out := out\<rparr> in
       if r then a1 else wa_return a1 (case wo_result out of Some r \<Rightarrow> r | None \<Rightarrow> Ok ()))"
      by (rule Cons.IH) (use Cons.prems s True in simp_all)
    ultimately show ?thesis by simp
  next
    case False
    have "foldl (accept (web_step J) sm_SequenceNumber) (e1, buf1, out1, False) ms = (e1, buf1, out1, False)"
      by (induction ms) (simp_all add: accept_def)
    then have eq: "e = e1" "buf = buf1" "out = out1" "\<not> r" using Cons.prems(3) s False by simp_all
    let ?b = "wa_return ?a (case wo_result out1 of Some r \<Rightarrow> r | None \<Rightarrow> Ok ())"
    have "foldl (\<lambda>a m. wa_turn J M a (WebMessage m)) ?b ms = ?b"
      by (induction ms) (simp_all add: wa_turn_def wa_return_def)
    moreover have "wa_turn J M a (WebMessage m) = ?b" using s False Cons.prems by (simp add: wa_turn_def)
    ultimately show ?thesis using eq by simp
  qed
qed simp

lemma buildHttpRequest_cong:
  assumes "wd_remoteHost w = wd_remoteHost w'" "wd_remotePort w = wd_remotePort w'"
  shows "buildHttpRequest U w = buildHttpRequest U w'"
  unfolding buildHttpRequest_def assms by (rule refl)

section \<open>Round trip\<close>

text \<open>
  C15. A request made to the daemon is made to the server and its response given back: the
  pieces the daemon sends make the agent send exactly one request, with the method, the address
  and the body, and, in whatever order the stream messages of the response arrive, the daemon
  adds the headers, writes the status once and then the body in order, and returns. When the
  request has parameters, also in its address only, the body sent is their encoding: the body
  of the request itself is lost.
\<close>

theorem web_request_proxied:
  fixes encode :: "headers \<Rightarrow> string"
  assumes "hs = GetHeaders (Header_Set (cr_Header rq) ''X-Forwarded-Host'' (cr_Host rq))" and "distinct (map fst hs)"
    and "web_agrees J M r (cr_URL rq) hs (cr_Method rq) rs" and "usable_response rs"
    and "cr_Body rq = reads bs" and "bs \<noteq> []" and "int (length bs) \<le> 2 ^ 63" and "int (length (encode (cr_Form rq))) < 2 ^ 63"
    and "buildHttpRequest U (WebDial_New host port) (cr_URL rq) (web_body encode rq bs) (cr_Method rq) hs = Ok q" and "send q = Ok rs"
    and "cs \<noteq> []"
  shows "\<exists>w w'. web_feed J M U send (WebDial_New host port) (wa_outbox (WebDialAction_Start M encode (WebDialAction_New r False) rq)) = w \<and>
    wd_requests w = [q] \<and> rq_Body q = web_body encode rq bs \<and> wd_turns M w 0 (reads cs) = (w', Ok ()) \<and>
    (\<forall>as. mset as = mset (wd_stream w') \<longrightarrow>
       (let a = foldl (\<lambda>a m. wa_turn J M a (WebMessage m)) (WebDialAction_Start M encode (WebDialAction_New r False) rq) as in
        \<not> wa_running a \<and> wa_doneClosed a \<and> wo_result (wa_out a) = Some (Ok ()) \<and>
        wo_calls (wa_out a) = header_calls (rs_Header rs) @ WriteHeader (rs_StatusCode rs) # map WriteBody cs))"
proof -
  let ?start = "(''web/dial/start'', Some (M (DialActionPayload_json r CurrentSchema)))"
  let ?begun = "(WebDialAction_New r False)\<lparr>wa_outbox := [?start]\<rparr>" and ?named = "(WebDial_New host port)\<lparr>wd_requestId := r, wd_version := CurrentSchema\<rparr>"
  let ?a = "WebDialAction_Start M encode (WebDialAction_New r False) rq"
  obtain bs' where bs': "bs' \<noteq> []" "request_reads encode rq = reads bs'" "concat bs' = web_body encode rq bs"
    "length bs' \<le> max (length bs) (Suc (length (encode (cr_Form rq))))"
    using request_reads_body [OF assms(5,6)] by blast
  have "int (length bs') \<le> 2 ^ 63" using bs'(4) assms(7,8) by (simp add: le_max_iff_disj) linarith
  then obtain sent p where c: "sendRequestChunks M ?begun (cr_URL rq) hs (cr_Method rq) 0 (reads bs') = ?begun\<lparr>wa_outbox := wa_outbox ?begun @ sent\<rparr>"
    "wi_Endpoint p = cr_URL rq" "wi_Headers p = hs" "wi_Method p = cr_Method rq"
    "web_feed J M U send ?named sent = fst (handleNewHttpRequest M U send (?named\<lparr>wd_requestBody := wd_requestBody ?named @ concat bs'\<rparr>) p)"
    using request_chunks [OF assms(3,2) bs'(1), of ?begun 0 U send ?named] by (auto simp: WebDialAction_New_def)
  have a: "?a = ?begun\<lparr>wa_outbox := [?start] @ sent\<rparr>"
    using c(1) bs'(2) assms(1) by (simp add: WebDialAction_Start_def wa_send_def WebDialAction_New_def)
  have "read_DialActionPayload J (Some (M (DialActionPayload_json r CurrentSchema))) = Some (r, CurrentSchema)"
    using assms(3) by (simp add: web_agrees_def read_DialActionPayload_def read_struct_def)
      (simp add: DialActionPayload_json_def field_simps_json)
  then have f: "web_feed J M U send (WebDial_New host port) (wa_outbox ?a) = web_feed J M U send ?named sent"
    using a by (simp add: web_feed_def WebDial_Receive_def)
  let ?w = "?named\<lparr>wd_requestBody := web_body encode rq bs, wd_requests := [q], wd_tomb := tomb_new\<lparr>tb_started := True, tb_running := 1\<rparr>,
    wd_routines := [Some (rs, 0)]\<rparr>"
  have w: "web_feed J M U send ?named sent = ?w"
  proof -
    have "buildHttpRequest U (?named\<lparr>wd_requestBody := web_body encode rq bs\<rparr>) (cr_URL rq) (web_body encode rq bs) (cr_Method rq) hs = Ok q"
      using assms(9) by (subst buildHttpRequest_cong [of _ "WebDial_New host port"]) simp_all
    moreover have "wd_tomb (WebDial_New host port) = tomb_new" "wd_routines (WebDial_New host port) = []" "wd_requests (WebDial_New host port) = []"
      "wd_requestBody (WebDial_New host port) = []" by (simp_all add: WebDial_New_def)
    ultimately show ?thesis using c(2-5) bs'(3) assms(10) by (simp add: handleNewHttpRequest_def Let_def)
  qed
  have q: "rq_Body q = web_body encode rq bs" using assms(9) by (auto simp: buildHttpRequest_def split: res.splits if_splits)
  obtain w' where w': "wd_turns M ?w 0 (reads cs) = (w', Ok ())" "wd_stream w' = web_messages M rs r cs"
    using wd_turns_stream [OF assms(11), of ?w 0 rs 0 M] by (auto simp: WebDial_New_def web_messages_def CurrentSchema_def tomb_Alive_def tomb_new_def)
  have "let a = foldl (\<lambda>a m. wa_turn J M a (WebMessage m)) ?a as in \<not> wa_running a \<and> wa_doneClosed a \<and> wo_result (wa_out a) = Some (Ok ()) \<and>
      wo_calls (wa_out a) = header_calls (rs_Header rs) @ WriteHeader (rs_StatusCode rs) # map WriteBody cs"
    if as: "mset as = mset (wd_stream w')" for as
  proof -
    obtain e buf where d: "foldl (accept (web_step J) sm_SequenceNumber) (wa_expected ?a, wa_messages ?a, wa_out ?a, True) as
        = (e, buf, foldl (web_emit rs) (wa_out ?a) cs, False)"
      using ordered_stream.delivered [OF web_stream [OF assms(3,4)] assms(11), of as "wa_out ?a"] as w'(2) a
      by (auto simp: WebDialAction_New_def)
    have "\<forall>m \<in> set as. sm_Type m = ''stream''"
      using mset_eq_setD [OF as] w'(2) by (auto simp: web_messages_def in_set_conv_nth nth_stream_messages stream_message_def)
    from wa_turns [OF _ this d, of M] show ?thesis
      using a foldl_web_emit [OF assms(11), of "wa_out ?a" rs] by (simp add: WebDialAction_New_def wa_return_def Let_def)
  qed
  then show ?thesis using f w q w'(1) by (intro exI [of _ ?w] exI [of _ w']) auto
qed

section \<open>Blocking\<close>

lemma sendRequestChunks_tomb: "wa_tomb (sendRequestChunks M a endpoint hs meth n rs) = wa_tomb a"
  by (induction M a endpoint hs meth n rs rule: sendRequestChunks.induct) (simp_all add: wa_send_def)

lemma wa_turn_tomb: "wa_tomb (wa_turn J M a ev) = wa_tomb a"
  by (auto simp: wa_turn_def wa_return_def wa_send_def Let_def split: web_event.splits prod.splits)

lemma wa_turns_tomb: "wa_tomb (foldl (wa_turn J M) a evs) = wa_tomb a"
  by (induction evs arbitrary: a) (simp_all add: wa_turn_tomb)

lemma wd_failing_turns:
  assumes "tomb_Alive (wd_tomb w)" "i < length (wd_routines w)" "wd_routines w ! i = Some (rs, n)"
  shows "\<exists>w'. wd_turns M w i (replicate k (IoFail b e)) = (w', Ok ()) \<and> wd_routines w' ! i = Some (rs, n + int k) \<and>
    length (wd_stream w') = length (wd_stream w) + 2 * k"
  using assms
proof (induction k arbitrary: w n)
  case (Suc k)
  obtain w1 where w1: "wd_turn M w i (IoFail b e) = (w1, Ok ())" "wd_tomb w1 = wd_tomb w" "length (wd_routines w1) = length (wd_routines w)"
    "wd_routines w1 ! i = Some (rs, n + 1)" "length (wd_stream w1) = length (wd_stream w) + 2"
    using Suc.prems by (simp add: wd_turn_def wd_sendStreamMessage_def Let_def)
  show ?case using Suc.IH [of w1 "n + 1"] Suc.prems w1 by (auto simp: algebra_simps)
qed simp

text \<open>
  Where a web request blocks: the interrupt that the daemon sends when the client goes away
  is never answered by the agent; killing the action of the daemon never comes back, because no
  routine was ever started under its tomb; and an agent that cannot read the body of the
  response goes on for ever, with two messages for every failed read.
\<close>

theorem web_dial_blocks:
  assumes "wd_routines w ! i = Some (rs, n)" and "i < length (wd_routines w)" and "tomb_Alive (wd_tomb w)"
  shows "snd (WebDial_Receive J M U send w ''web/dial/interrupt'' pl) = None \<and>
    \<not> snd (WebDialAction_Kill (foldl (wa_turn J M) (WebDialAction_Start M encode (WebDialAction_New r closed) rq) evs) err) \<and>
    (\<forall>k. \<exists>w'. wd_turns M w i (replicate k (IoFail b e)) = (w', Ok ()) \<and> wd_routines w' ! i \<noteq> None \<and>
       length (wd_stream w') = length (wd_stream w) + 2 * k)"
proof -
  have "wa_tomb (foldl (wa_turn J M) (WebDialAction_Start M encode (WebDialAction_New r closed) rq) evs) = tomb_new"
    by (simp add: wa_turns_tomb WebDialAction_Start_def sendRequestChunks_tomb wa_send_def WebDialAction_New_def)
  moreover have "\<exists>w'. wd_turns M w i (replicate k (IoFail b e)) = (w', Ok ()) \<and> wd_routines w' ! i \<noteq> None \<and>
       length (wd_stream w') = length (wd_stream w) + 2 * k" for k
    using wd_failing_turns [OF assms(3,2,1), of M k b e] by auto
  ultimately show ?thesis by (simp add: WebDial_Receive_def when_back_def WebDialAction_Kill_def)
qed

section \<open>Witnesses\<close>

text \<open>Addresses as texts: every text parses, and its path is empty.\<close>

definition plain_urls :: "string url_lib" where
  "plain_urls = \<lparr> url_Parse = Ok, url_Path = (\<lambda>_. []), url_set_Path = (@), url_String = id, url_Host = id, url_Scheme = (\<lambda>_. ''http''), url_make = (\<lambda>s h p. s @ ''://'' @ h @ p),
     url_add_query = (\<lambda>u _. u), url_del_query = (\<lambda>u _. u), url_request_ok = (\<lambda>_ _. True) \<rparr>"

definition wit_client :: client_request where
  "wit_client = \<lparr> cr_Header = [(''Accept'', [''text/html''])], cr_Host = ''localhost'', cr_URL = ''/a?x=1'', cr_Method = ''POST'',
     cr_Form = [(''x'', [''1''])], cr_Body = reads [''lost''] \<rparr>"

theorem web_request_proxied_witness:
  "\<exists>w. web_feed codec_parse codec_print plain_urls (\<lambda>_. Ok \<lparr> rs_StatusCode = 200, rs_Header = [] \<rparr>) (WebDial_New ''h'' 80)
       (wa_outbox (WebDialAction_Start codec_print (\<lambda>_. ''x=1'') (WebDialAction_New ''r'' False) wit_client)) = w \<and>
     map rq_Body (wd_requests w) = [''x=1'']"
proof -
  let ?hs = "GetHeaders (Header_Set (cr_Header wit_client) ''X-Forwarded-Host'' (cr_Host wit_client))"
  let ?rs = "\<lparr> rs_StatusCode = 200, rs_Header = [] \<rparr>"
  have d: "distinct (map fst ?hs)" by code_simp
  have a: "web_agrees codec_parse codec_print ''r'' (cr_URL wit_client) ?hs (cr_Method wit_client) ?rs" by (simp add: web_agrees_def)
  have u: "usable_response ?rs" by (simp add: usable_response_def)
  have b: "cr_Body wit_client = reads [''lost'']" by (simp add: wit_client_def)
  obtain q where q: "buildHttpRequest plain_urls (WebDial_New ''h'' 80) (cr_URL wit_client) (web_body (\<lambda>_. ''x=1'') wit_client [''lost''])
      (cr_Method wit_client) ?hs = Ok q"
  proof -
    have "is_ok (buildHttpRequest plain_urls (WebDial_New ''h'' 80) (cr_URL wit_client) (web_body (\<lambda>_. ''x=1'') wit_client [''lost'']) (cr_Method wit_client) ?hs)"
      by code_simp
    then show ?thesis using that by (elim is_ok.elims) auto
  qed
  have len: "int (length [''lost'']) \<le> 2 ^ 63" "int (length ''x=1'') < 2 ^ 63" "[''lost''] \<noteq> []" "[''ok''] \<noteq> []" by simp_all
  have "web_body (\<lambda>_. ''x=1'') wit_client [''lost''] = ''x=1''" by (simp add: web_body_def wit_client_def)
  with web_request_proxied [OF refl d a u b len(3,1) len(2) q refl len(4)] show ?thesis by auto
qed

theorem web_dial_blocks_witness:
  "\<exists>w'. wd_turns codec_print ((WebDial_New ''h'' 80)\<lparr>wd_routines := [Some (\<lparr> rs_StatusCode = 200, rs_Header = [] \<rparr>, 0)]\<rparr>) 0
     (replicate 7 (IoFail [] (errorf ''reset''))) = (w', Ok ()) \<and> length (wd_stream w') = 14"
proof -
  let ?w = "(WebDial_New ''h'' 80)\<lparr>wd_routines := [Some (\<lparr> rs_StatusCode = 200, rs_Header = [] \<rparr>, 0)]\<rparr>"
  have w: "wd_routines ?w ! 0 = Some (\<lparr> rs_StatusCode = 200, rs_Header = [] \<rparr>, 0)" "0 < length (wd_routines ?w)" "tomb_Alive (wd_tomb ?w)" "wd_stream ?w = []"
    by (simp_all add: WebDial_New_def)
  obtain w' where "wd_turns codec_print ?w 0 (replicate 7 (IoFail [] (errorf ''reset''))) = (w', Ok ())" "length (wd_stream w') = length (wd_stream ?w) + 2 * 7"
    using web_dial_blocks [OF w(1-3), THEN conjunct2, THEN conjunct2, THEN spec, of codec_print 7 "[]" "errorf ''reset''"] by auto
  then show ?thesis using w(4) by auto
qed

end
