(* ===== verification/Web_Socket.thy ===== *)
theory Web_Socket
  imports Web_Dial
begin

text \<open>
  \<^verbatim>\<open>bctl/agent/plugin/web\<close> and \<^verbatim>\<open>bctl/daemon/plugin/web\<close>: websockets, and the plugins that choose between
  them and plain requests. A websocket is known through the calls the code makes; what reading
  from one gives is an event.
\<close>

record 'c ws_ops =
  ws_Dial :: "string \<Rightarrow> 'c res"
  ws_Write :: "'c \<Rightarrow> int \<Rightarrow> string \<Rightarrow> 'c \<times> unit res"
  ws_Close :: "'c \<Rightarrow> 'c"

datatype ws_read = WsMessage int string | WsFail gerror

section \<open>Messages\<close>

definition WsStart_json :: "string \<Rightarrow> string \<Rightarrow> string \<Rightarrow> headers \<Rightarrow> string \<Rightarrow> jvalue" where
  "WsStart_json requestId version endpoint hs method =
     VObject [(''requestId'', VString requestId), (''streamMessageVersion'', VString version), (''endpoint'', VString endpoint),
       (''headers'', marshal_headers hs), (''method'', VString method)]"

definition read_WsStart :: "json_parser \<Rightarrow> string option \<Rightarrow> (string \<times> string \<times> string) option" where
  "read_WsStart J pl =
     Option.bind (read_struct J pl) (\<lambda>kvs.
       case (text_field kvs ''requestId'', text_field kvs ''streamMessageVersion'', text_field kvs ''endpoint'', headers_field kvs ''headers'',
             text_field kvs ''method'') of
         (Some r, Some v, Some e, Some _, Some _) \<Rightarrow> Some (r, v, e) | _ \<Rightarrow> None)"

definition WsDataIn_json :: "string \<Rightarrow> string \<Rightarrow> int \<Rightarrow> jvalue" where
  "WsDataIn_json requestId message messageType =
     VObject [(''requestId'', VString requestId), (''message'', VString message), (''messageType'', VNumber messageType)]"

definition read_WsDataIn :: "json_parser \<Rightarrow> string option \<Rightarrow> (string \<times> int) option" where
  "read_WsDataIn J pl =
     Option.bind (read_struct J pl) (\<lambda>kvs.
       case (text_field kvs ''requestId'', text_field kvs ''message'', int_field kvs ''messageType'') of
         (Some _, Some m, Some t) \<Rightarrow> Some (m, t) | _ \<Rightarrow> None)"

definition WsDataOut_json :: "string \<Rightarrow> int \<Rightarrow> jvalue" where
  "WsDataOut_json message messageType = VObject [(''message'', VString message), (''messageType'', VNumber messageType)]"

definition read_WsDataOut :: "json_parser \<Rightarrow> string \<Rightarrow> (string \<times> int) option" where
  "read_WsDataOut J bs =
     Option.bind (read_struct J (Some bs)) (\<lambda>kvs.
       case (text_field kvs ''message'', int_field kvs ''messageType'') of (Some m, Some t) \<Rightarrow> Some (m, t) | _ \<Rightarrow> None)"

definition read_WsStop :: "json_parser \<Rightarrow> string option \<Rightarrow> string option" where
  "read_WsStop J pl = Option.bind (read_struct J pl) (\<lambda>kvs. text_field kvs ''requestId'')"

section \<open>The agent\<close>

record 'c WebWebsocket =
  ww_tomb :: tomb
  ww_doneClosed :: bool
  ww_stream :: "StreamMessage list"
  ww_version :: string
  ww_ws :: "'c option"
  ww_remoteHost :: string
  ww_remotePort :: int
  ww_requestId :: string
  ww_routines :: "int option list"

definition WebWebsocket_New :: "string \<Rightarrow> int \<Rightarrow> 'c WebWebsocket" where
  "WebWebsocket_New remoteHost remotePort =
     \<lparr> ww_tomb = tomb_new, ww_doneClosed = False, ww_stream = [], ww_version = [], ww_ws = None, ww_remoteHost = remoteHost,
       ww_remotePort = remotePort, ww_requestId = [], ww_routines = [] \<rparr>"

definition WebWebsocket_Kill :: "'c WebWebsocket \<Rightarrow> 'c WebWebsocket \<times> bool" where
  "WebWebsocket_Kill w = (w\<lparr>ww_tomb := tomb_Kill (ww_tomb w) (Some (errorf ''we've been told to stop''))\<rparr>, tomb_Waits (ww_tomb w))"

definition ww_sendStreamMessage :: "'c WebWebsocket \<Rightarrow> int \<Rightarrow> string \<Rightarrow> bool \<Rightarrow> string \<Rightarrow> 'c WebWebsocket" where
  "ww_sendStreamMessage w sequenceNumber streamType moreMessages contentBytes =
     w\<lparr>ww_stream := ww_stream w @ [\<lparr> sm_RequestId = [], sm_SchemaVersion = ww_version w, sm_SequenceNumber = sequenceNumber,
         sm_Action = ''websocket'', sm_Type = streamType, sm_More = moreMessages, sm_LogId = [], sm_Content = EncodeToString contentBytes \<rparr>]\<rparr>"

definition dataInWebsocket :: "'c ws_ops \<Rightarrow> 'c WebWebsocket \<Rightarrow> string \<times> int \<Rightarrow> 'c WebWebsocket \<times> string option res" where
  "dataInWebsocket S w p =
     (case DecodeString (fst p) of
        None \<Rightarrow> (w, Err (errorf ''illegal base64 data''))
      | Some messageDecoded \<Rightarrow>
         (case ww_ws w of
            None \<Rightarrow> (w, Panic)
          | Some ws \<Rightarrow> (case ws_Write S ws (snd p) messageDecoded of (ws', r) \<Rightarrow> (w\<lparr>ww_ws := Some ws'\<rparr>, res_map (\<lambda>_. Some []) r))))"

text \<open>The whole address of the request, with its parameters, becomes the path.\<close>

definition startWebsocket :: "'u url_lib \<Rightarrow> 'c ws_ops \<Rightarrow> 'c WebWebsocket \<Rightarrow> string \<times> string \<times> string \<Rightarrow> 'c WebWebsocket \<times> string option res" where
  "startWebsocket U S w p =
     (case p of (requestId, version, endpoint) \<Rightarrow>
        let w1 = w\<lparr>ww_requestId := requestId, ww_version := version\<rparr> in
        (case url_Parse U (ww_remoteHost w @ '':'' @ show_int (ww_remotePort w)) of
           Err e \<Rightarrow> (w1, Err e) | Panic \<Rightarrow> (w1, Panic)
         | Ok remoteHostUrl \<Rightarrow>
            let scheme = (if url_Scheme U remoteHostUrl = ''https'' then ''wss'' else ''ws'') in
            (case ws_Dial S (url_make U scheme (url_Host U remoteHostUrl) endpoint) of
               Err e \<Rightarrow> (ww_sendStreamMessage w1 0 (if version = [] then ''web/websocket/agentstop'' else ''stop'') False [], Ok (Some []))
             | Panic \<Rightarrow> (w1, Panic)
             | Ok ws \<Rightarrow>
                (case tomb_Go (ww_tomb w) of
                   Ok t \<Rightarrow> (w1\<lparr>ww_ws := Some ws, ww_tomb := t, ww_routines := ww_routines w @ [Some 0]\<rparr>, Ok (Some []))
                 | _ \<Rightarrow> (w1\<lparr>ww_ws := Some ws\<rparr>, Panic)))))"

definition WebWebsocket_Receive ::
  "json_parser \<Rightarrow> 'u url_lib \<Rightarrow> 'c ws_ops \<Rightarrow> 'c WebWebsocket \<Rightarrow> string \<Rightarrow> string option \<Rightarrow> 'c WebWebsocket \<times> string option res" where
  "WebWebsocket_Receive J U S w action pl =
     (if action = ''web/websocket/start''
      then (case read_WsStart J pl of None \<Rightarrow> (w, Err (errorf ''unable to unmarshal dataIn message: '')) | Some p \<Rightarrow> startWebsocket U S w p)
      else if action = ''web/websocket/datain''
      then (case read_WsDataIn J pl of None \<Rightarrow> (w, Err (errorf ''unable to unmarshal dataIn message: '')) | Some p \<Rightarrow> dataInWebsocket S w p)
      else if action = ''web/websocket/daemonstop''
      then (case read_WsStop J pl of
              None \<Rightarrow> (w, Err (errorf ''unable to unmarshal daemonStop message: ''))
            | Some _ \<Rightarrow> (w\<lparr>ww_ws := map_option (ws_Close S) (ww_ws w)\<rparr>, Ok (Some [])))
      else (w, Err (errorf (''unhandled stream action: '' @ action))))"

definition ww_return :: "'c WebWebsocket \<Rightarrow> nat \<Rightarrow> 'c WebWebsocket \<times> unit res" where
  "ww_return w i =
     (if ww_doneClosed w then (w, Panic)
      else (w\<lparr>ww_doneClosed := True, ww_routines := (ww_routines w)[i := None], ww_tomb := tomb_return (ww_tomb w) None\<rparr>, Ok ()))"

definition ww_turn :: "json_printer \<Rightarrow> 'c WebWebsocket \<Rightarrow> nat \<Rightarrow> ws_read \<Rightarrow> 'c WebWebsocket \<times> unit res" where
  "ww_turn M w i ev =
     (case (if i < length (ww_routines w) then ww_routines w ! i else None) of
        None \<Rightarrow> (w, Ok ())
      | Some n \<Rightarrow>
         if \<not> tomb_Alive (ww_tomb w) then ww_return w i
         else (case ev of
                 WsFail e \<Rightarrow> ww_return (ww_sendStreamMessage w n (if ww_version w = [] then ''web/websocket/agentstop'' else ''stop'') False []) i
               | WsMessage mt message \<Rightarrow>
                   ((ww_sendStreamMessage w n (if ww_version w = [] then ''web/websocket/dataout'' else ''data'') True
                       (M (WsDataOut_json (EncodeToString message) mt)))\<lparr>ww_routines := (ww_routines w)[i := Some (n + 1)]\<rparr>, Ok ())))"

fun ww_turns :: "json_printer \<Rightarrow> 'c WebWebsocket \<Rightarrow> nat \<Rightarrow> ws_read list \<Rightarrow> 'c WebWebsocket \<times> unit res" where
  "ww_turns M w i [] = (w, Ok ())"
| "ww_turns M w i (ev # evs) = (case ww_turn M w i ev of (w', Ok _) \<Rightarrow> ww_turns M w' i evs | r \<Rightarrow> r)"

text \<open>The plugin.\<close>

datatype 'c WebPlugin = PlainWeb WebDial | SocketWeb "'c WebWebsocket"

definition parseAction :: "string \<Rightarrow> string res" where
  "parseAction action =
     (let parsedAction = split action ''/'' in
      if length parsedAction < 2 then Err (errorf (''malformed action: '' @ action)) else Ok (parsedAction ! 1))"

definition WebPlugin_New :: "json_parser \<Rightarrow> string \<Rightarrow> string option \<Rightarrow> 'c WebPlugin res" where
  "WebPlugin_New J action pl =
     (case read_remote J pl of
        None \<Rightarrow> Err (errorf ''malformed web plugin SYN payload'')
      | Some (remoteHost, remotePort) \<Rightarrow>
         (case parseAction action of
            Err e \<Rightarrow> Err e | Panic \<Rightarrow> Panic
          | Ok parsed \<Rightarrow>
             if parsed = ''dial'' then Ok (PlainWeb (WebDial_New remoteHost remotePort))
             else if parsed = ''websocket'' then Ok (SocketWeb (WebWebsocket_New remoteHost remotePort))
             else Err (errorf ''unhandled Web action'')))"

definition WebPlugin_Receive ::
  "json_parser \<Rightarrow> json_printer \<Rightarrow> 'u url_lib \<Rightarrow> (http_request \<Rightarrow> http_response res) \<Rightarrow> 'c ws_ops \<Rightarrow> 'c WebPlugin \<Rightarrow> string \<Rightarrow> string option \<Rightarrow>
   'c WebPlugin \<times> string option res option" where
  "WebPlugin_Receive J M U send S p action pl =
     (case p of
        PlainWeb w \<Rightarrow> apfst PlainWeb (WebDial_Receive J M U send w action pl)
      | SocketWeb w \<Rightarrow> (case WebWebsocket_Receive J U S w action pl of (w', r) \<Rightarrow> (SocketWeb w', Some r)))"

definition WebPlugin_Kill :: "'c WebPlugin \<Rightarrow> 'c WebPlugin \<times> bool" where
  "WebPlugin_Kill p = (case p of PlainWeb w \<Rightarrow> apfst PlainWeb (WebDial_Kill w) | SocketWeb w \<Rightarrow> apfst SocketWeb (WebWebsocket_Kill w))"

section \<open>The daemon\<close>

text \<open>\<^verbatim>\<open>wwa_reading\<close> says that \<^verbatim>\<open>Start\<close> has not returned, \<^verbatim>\<open>wwa_streaming\<close> that its routine has not; both close the done channel.\<close>

record 'c WebWebsocketAction =
  wwa_tomb :: tomb
  wwa_requestId :: string
  wwa_outbox :: "(string \<times> string option) list"
  wwa_doneClosed :: bool
  wwa_conn :: "'c option"
  wwa_reading :: bool
  wwa_streaming :: bool
  wwa_result :: "unit res option"

definition WebWebsocketAction_New :: "string \<Rightarrow> bool \<Rightarrow> 'c WebWebsocketAction" where
  "WebWebsocketAction_New requestId doneClosed =
     \<lparr> wwa_tomb = tomb_new, wwa_requestId = requestId, wwa_outbox = [], wwa_doneClosed = doneClosed, wwa_conn = None,
       wwa_reading = False, wwa_streaming = False, wwa_result = None \<rparr>"

definition wwa_send :: "json_printer \<Rightarrow> 'c WebWebsocketAction \<Rightarrow> string \<Rightarrow> jvalue \<Rightarrow> 'c WebWebsocketAction" where
  "wwa_send M w action payload = w\<lparr>wwa_outbox := wwa_outbox w @ [(action, Some (M payload))]\<rparr>"

text \<open>\<^verbatim>\<open>Start\<close> returns.\<close>

definition wwa_return :: "'c WebWebsocketAction \<Rightarrow> unit res \<Rightarrow> 'c WebWebsocketAction" where
  "wwa_return w r = w\<lparr>wwa_reading := False, wwa_doneClosed := True, wwa_result := Some (if wwa_doneClosed w then Panic else r)\<rparr>"

definition WebWebsocketAction_Start ::
  "json_printer \<Rightarrow> (client_request \<Rightarrow> 'c res) \<Rightarrow> 'c WebWebsocketAction \<Rightarrow> client_request \<Rightarrow> 'c WebWebsocketAction" where
  "WebWebsocketAction_Start M upgrade w rq =
     (let w1 = wwa_send M w ''web/websocket/start''
                 (WsStart_json (wwa_requestId w) CurrentSchema (cr_URL rq) (GetHeaders (cr_Header rq)) (cr_Method rq)) in
      case upgrade rq of
        Err e \<Rightarrow> wwa_return w1 (Err e) | Panic \<Rightarrow> wwa_return w1 Panic
      | Ok conn \<Rightarrow>
         (case tomb_Go (wwa_tomb w) of
            Ok t \<Rightarrow> w1\<lparr>wwa_conn := Some conn, wwa_tomb := t, wwa_reading := True, wwa_streaming := True\<rparr>
          | _ \<Rightarrow> wwa_return w1 Panic))"

definition writeOutData :: "json_parser \<Rightarrow> 'c ws_ops \<Rightarrow> 'c \<Rightarrow> string \<Rightarrow> 'c \<times> unit res" where
  "writeOutData J S conn content =
     (case DecodeString content of
        None \<Rightarrow> (conn, Err (errorf ''error decoding stream message: ''))
      | Some incomingContent \<Rightarrow>
         (case read_WsDataOut J incomingContent of
            None \<Rightarrow> (conn, Err (errorf ''error unmarshalling stream message: ''))
          | Some (message, messageType) \<Rightarrow>
             (case DecodeString message of
                None \<Rightarrow> (conn, Err (errorf ''error decoding stream message: ''))
              | Some websocketMessage \<Rightarrow> (fst (ws_Write S conn messageType websocketMessage), Ok ()))))"

text \<open>The routine returns: the done channel is closed, then the connection. A second close crashes the daemon.\<close>

definition wwa_stream_return :: "'c ws_ops \<Rightarrow> 'c WebWebsocketAction \<Rightarrow> gerror option \<Rightarrow> 'c WebWebsocketAction \<times> unit res" where
  "wwa_stream_return S w err =
     (if wwa_doneClosed w then (w, Panic)
      else (w\<lparr>wwa_doneClosed := True, wwa_streaming := False, wwa_conn := map_option (ws_Close S) (wwa_conn w),
              wwa_tomb := tomb_return (wwa_tomb w) err\<rparr>, Ok ()))"

definition wwa_stream_turn :: "json_parser \<Rightarrow> 'c ws_ops \<Rightarrow> 'c WebWebsocketAction \<Rightarrow> StreamMessage \<Rightarrow> 'c WebWebsocketAction \<times> unit res" where
  "wwa_stream_turn J S w m =
     (case (wwa_streaming w, wwa_conn w) of
        (True, Some conn) \<Rightarrow>
          if sm_Type m = ''web/websocket/dataout'' \<or> sm_Type m = ''data''
          then (case writeOutData J S conn (sm_Content m) of
                  (conn', Err e) \<Rightarrow> wwa_stream_return S (w\<lparr>wwa_conn := Some conn'\<rparr>) (Some e)
                | (conn', _) \<Rightarrow> (w\<lparr>wwa_conn := Some conn'\<rparr>, Ok ()))
          else if sm_Type m = ''web/websocket/agentstop'' \<or> sm_Type m = ''stop'' then wwa_stream_return S w None
          else (w, Ok ())
      | _ \<Rightarrow> (w, Ok ()))"

definition wwa_read_turn :: "json_printer \<Rightarrow> 'c WebWebsocketAction \<Rightarrow> ws_read \<Rightarrow> 'c WebWebsocketAction" where
  "wwa_read_turn M w ev =
     (if \<not> wwa_reading w then w
      else if \<not> tomb_Alive (wwa_tomb w) then wwa_return w (Ok ())
      else (case ev of
              WsFail e \<Rightarrow>
                wwa_return (wwa_send M w ''web/websocket/daemonstop'' (WebInterrupt_json (wwa_requestId w)))
                  (Err (errorf_s ''failed to read from connection: '' e))
            | WsMessage mt message \<Rightarrow>
                wwa_send M w ''web/websocket/datain'' (WsDataIn_json (wwa_requestId w) (EncodeToString message) mt)))"

text \<open>
  The routine waits for the tomb to be dead, which it is not while the routine runs: killing
  the action does not end the routine, and waiting for it does not come back.
\<close>

definition WebWebsocketAction_Kill :: "'c WebWebsocketAction \<Rightarrow> gerror option \<Rightarrow> 'c WebWebsocketAction \<times> bool" where
  "WebWebsocketAction_Kill w err =
     (if tomb_Alive (wwa_tomb w) then (w\<lparr>wwa_tomb := tomb_Kill (wwa_tomb w) err\<rparr>, tomb_Waits (wwa_tomb w) \<and> \<not> wwa_streaming w) else (w, True))"

text \<open>The plugin.\<close>

datatype 'c web_action = ActWebDial WebDialAction | ActWebSocket "'c WebWebsocketAction"

record 'c WebDaemonPlugin =
  wdp_killed :: bool
  wdp_action :: "'c web_action option"

definition WebDaemonPlugin_New :: "'c WebDaemonPlugin" where
  "WebDaemonPlugin_New = \<lparr> wdp_killed = False, wdp_action = None \<rparr>"

text \<open>All actions of a plugin have its done channel.\<close>

definition wdp_doneClosed :: "'c WebDaemonPlugin \<Rightarrow> bool" where
  "wdp_doneClosed p =
     (case wdp_action p of None \<Rightarrow> False | Some (ActWebDial a) \<Rightarrow> wa_doneClosed a | Some (ActWebSocket a) \<Rightarrow> wwa_doneClosed a)"

definition web_StartAction ::
  "json_printer \<Rightarrow> (headers \<Rightarrow> string) \<Rightarrow> (client_request \<Rightarrow> 'c res) \<Rightarrow> string \<Rightarrow> 'c WebDaemonPlugin \<Rightarrow> string \<Rightarrow> client_request \<Rightarrow>
   'c WebDaemonPlugin \<times> gerror option" where
  "web_StartAction M encode upgrade requestId p action rq =
     (if wdp_killed p then (p, Some (errorf ''plugin has already been killed, cannot create a new web action''))
      else if action = ''dial''
      then (p\<lparr>wdp_action := Some (ActWebDial (WebDialAction_Start M encode (WebDialAction_New requestId (wdp_doneClosed p)) rq))\<rparr>, None)
      else if action = ''websocket''
      then (p\<lparr>wdp_action := Some (ActWebSocket (WebWebsocketAction_Start M upgrade (WebWebsocketAction_New requestId (wdp_doneClosed p)) rq))\<rparr>, None)
      else (p, Some (errorf (''unrecognized web action: '' @ action))))"

definition WebDaemonPlugin_Kill :: "'c WebDaemonPlugin \<Rightarrow> gerror option \<Rightarrow> 'c WebDaemonPlugin \<times> bool" where
  "WebDaemonPlugin_Kill p err =
     (let p1 = p\<lparr>wdp_killed := True\<rparr> in
      case wdp_action p of
        None \<Rightarrow> (p1, True)
      | Some (ActWebDial a) \<Rightarrow> apfst (\<lambda>a. p1\<lparr>wdp_action := Some (ActWebDial a)\<rparr>) (WebDialAction_Kill a err)
      | Some (ActWebSocket a) \<Rightarrow> apfst (\<lambda>a. p1\<lparr>wdp_action := Some (ActWebSocket a)\<rparr>) (WebWebsocketAction_Kill a err))"

definition WebDaemonPlugin_ReceiveStream ::
  "json_parser \<Rightarrow> json_printer \<Rightarrow> 'c ws_ops \<Rightarrow> 'c WebDaemonPlugin \<Rightarrow> StreamMessage \<Rightarrow> 'c WebDaemonPlugin \<times> unit res" where
  "WebDaemonPlugin_ReceiveStream J M S p m =
     (case wdp_action p of
        None \<Rightarrow> (p, Ok ())
      | Some (ActWebDial a) \<Rightarrow> (p\<lparr>wdp_action := Some (ActWebDial (wa_turn J M a (WebMessage m)))\<rparr>, Ok ())
      | Some (ActWebSocket a) \<Rightarrow> apfst (\<lambda>a. p\<lparr>wdp_action := Some (ActWebSocket a)\<rparr>) (wwa_stream_turn J S a m))"

definition WebDaemonPlugin_ReceiveMrtap :: "'c WebDaemonPlugin \<Rightarrow> string \<Rightarrow> string option \<Rightarrow> 'c WebDaemonPlugin \<times> unit res" where
  "WebDaemonPlugin_ReceiveMrtap p action pl = (p, Ok ())"

section \<open>Messages pass both ways\<close>

text \<open>Every websocket message is text or binary.\<close>

definition ws_messages :: "(int \<times> string) list \<Rightarrow> ws_read list" where
  "ws_messages ms = map (\<lambda>(t, b). WsMessage t b) ms"

definition ws_types :: "(int \<times> string) list \<Rightarrow> bool" where
  "ws_types ms = list_all (\<lambda>(t, b). t = 1 \<or> t = 2) ms"

definition ws_agrees :: "json_parser \<Rightarrow> json_printer \<Rightarrow> string \<Rightarrow> bool" where
  "ws_agrees J M requestId \<longleftrightarrow>
     (\<forall>t b. (t = 1 \<or> t = 2) \<longrightarrow>
        J (M (WsDataOut_json (EncodeToString b) t)) = Some (WsDataOut_json (EncodeToString b) t) \<and>
        J (M (WsDataIn_json requestId (EncodeToString b) t)) = Some (WsDataIn_json requestId (EncodeToString b) t))"

lemma read_WsDataOut_agrees:
  "ws_agrees J M r \<Longrightarrow> t = 1 \<or> t = 2 \<Longrightarrow> read_WsDataOut J (M (WsDataOut_json (EncodeToString b) t)) = Some (EncodeToString b, t)"
  by (simp add: ws_agrees_def read_WsDataOut_def read_struct_def) (auto simp: WsDataOut_json_def field_simps_json)

lemma read_WsDataIn_agrees:
  "ws_agrees J M r \<Longrightarrow> t = 1 \<or> t = 2 \<Longrightarrow> read_WsDataIn J (Some (M (WsDataIn_json r (EncodeToString b) t))) = Some (EncodeToString b, t)"
  by (simp add: ws_agrees_def read_WsDataIn_def read_struct_def) (auto simp: WsDataIn_json_def field_simps_json)

text \<open>A websocket that takes every message.\<close>

definition log_ws :: "(int \<times> string) list ws_ops" where
  "log_ws = \<lparr> ws_Dial = (\<lambda>_. Ok []), ws_Write = (\<lambda>c t b. (c @ [(t, b)], Ok ())), ws_Close = id \<rparr>"

definition ws_stream :: "json_parser \<Rightarrow> 'c ws_ops \<Rightarrow> 'c WebWebsocketAction \<Rightarrow> StreamMessage list \<Rightarrow> 'c WebWebsocketAction" where
  "ws_stream J S = foldl (\<lambda>a m. fst (wwa_stream_turn J S a m))"

definition ws_feed :: "json_parser \<Rightarrow> 'u url_lib \<Rightarrow> 'c ws_ops \<Rightarrow> 'c WebWebsocket \<Rightarrow> (string \<times> string option) list \<Rightarrow> 'c WebWebsocket" where
  "ws_feed J U S = foldl (\<lambda>w m. fst (WebWebsocket_Receive J U S w (fst m) (snd m)))"

lemma ws_download:
  assumes "ws_agrees J M r"
  shows "ws_types ms \<Longrightarrow> tomb_Alive (ww_tomb w) \<Longrightarrow> \<not> ww_doneClosed w \<Longrightarrow> ww_version w \<noteq> [] \<Longrightarrow> i < length (ww_routines w) \<Longrightarrow>
    ww_routines w ! i = Some n \<Longrightarrow> wwa_streaming a \<Longrightarrow> \<not> wwa_doneClosed a \<Longrightarrow> wwa_conn a = Some c \<Longrightarrow>
    \<exists>w' sent. ww_turns M w i (ws_messages ms @ [WsFail e]) = (w', Ok ()) \<and> ww_stream w' = ww_stream w @ sent \<and> ww_doneClosed w' \<and>
      wwa_conn (ws_stream J log_ws a sent) = Some (c @ ms) \<and> \<not> wwa_streaming (ws_stream J log_ws a sent)"
proof (induction ms arbitrary: w n a c)
  case Nil
  then show ?case
    by (simp add: ws_messages_def ww_turn_def ww_return_def ww_sendStreamMessage_def ws_stream_def wwa_stream_turn_def wwa_stream_return_def log_ws_def)
next
  case (Cons m ms)
  obtain t b where m: "m = (t, b)" by (cases m)
  then have t: "t = 1 \<or> t = 2" using Cons.prems(1) by (simp add: ws_types_def)
  let ?bs = "M (WsDataOut_json (EncodeToString b) t)"
  let ?w = "(ww_sendStreamMessage w n ''data'' True ?bs)\<lparr>ww_routines := (ww_routines w)[i := Some (n + 1)]\<rparr>"
  have w: "ww_turn M w i (WsMessage t b) = (?w, Ok ())" using Cons.prems by (simp add: ww_turn_def)
  obtain sm where sm: "ww_stream ?w = ww_stream w @ [sm]" "sm_Type sm = ''data''" "sm_Content sm = EncodeToString ?bs"
    by (simp add: ww_sendStreamMessage_def)
  have "fst (wwa_stream_turn J log_ws a sm) = a\<lparr>wwa_conn := Some (c @ [(t, b)])\<rparr>"
    using sm(2,3) Cons.prems read_WsDataOut_agrees [OF assms t] by (simp add: wwa_stream_turn_def writeOutData_def log_ws_def)
  moreover obtain w' sent where IH: "ww_turns M ?w i (ws_messages ms @ [WsFail e]) = (w', Ok ())" "ww_stream w' = ww_stream ?w @ sent" "ww_doneClosed w'"
    "wwa_conn (ws_stream J log_ws (a\<lparr>wwa_conn := Some (c @ [(t, b)])\<rparr>) sent) = Some ((c @ [(t, b)]) @ ms)"
    "\<not> wwa_streaming (ws_stream J log_ws (a\<lparr>wwa_conn := Some (c @ [(t, b)])\<rparr>) sent)"
    using Cons.IH [of ?w "n + 1" "a\<lparr>wwa_conn := Some (c @ [(t, b)])\<rparr>" "c @ [(t, b)]"] Cons.prems
    by (auto simp: ww_sendStreamMessage_def ws_types_def)
  ultimately show ?case using m w sm(1) by (intro exI [of _ w'] exI [of _ "sm # sent"]) (simp add: ws_messages_def ws_stream_def)
qed

lemma ws_upload:
  assumes "ws_agrees J M r"
  shows "ws_types ms \<Longrightarrow> wwa_requestId a = r \<Longrightarrow> wwa_reading a \<Longrightarrow> tomb_Alive (wwa_tomb a) \<Longrightarrow> ww_ws w = Some c \<Longrightarrow>
    \<exists>sent. wwa_outbox (foldl (wwa_read_turn M) a (ws_messages ms)) = wwa_outbox a @ sent \<and> ww_ws (ws_feed J U log_ws w sent) = Some (c @ ms)"
proof (induction ms arbitrary: a w c)
  case Nil
  then show ?case by (simp add: ws_messages_def ws_feed_def)
next
  case (Cons m ms)
  obtain t b where m: "m = (t, b)" by (cases m)
  then have t: "t = 1 \<or> t = 2" using Cons.prems(1) by (simp add: ws_types_def)
  let ?m = "(''web/websocket/datain'', Some (M (WsDataIn_json r (EncodeToString b) t)))"
  let ?a = "a\<lparr>wwa_outbox := wwa_outbox a @ [?m]\<rparr>" and ?w = "w\<lparr>ww_ws := Some (c @ [(t, b)])\<rparr>"
  have a: "wwa_read_turn M a (WsMessage t b) = ?a" using Cons.prems by (simp add: wwa_read_turn_def wwa_send_def)
  have w: "fst (WebWebsocket_Receive J U log_ws w (fst ?m) (snd ?m)) = ?w"
    using Cons.prems read_WsDataIn_agrees [OF assms t] by (simp add: WebWebsocket_Receive_def dataInWebsocket_def log_ws_def)
  obtain sent where "wwa_outbox (foldl (wwa_read_turn M) ?a (ws_messages ms)) = wwa_outbox ?a @ sent"
    "ww_ws (ws_feed J U log_ws ?w sent) = Some ((c @ [(t, b)]) @ ms)"
    using Cons.IH [of ?a ?w "c @ [(t, b)]"] Cons.prems by (auto simp: ws_types_def)
  then show ?case using m a w by (intro exI [of _ "?m # sent"]) (simp add: ws_messages_def ws_feed_def)
qed

lemma started_socket:
  assumes "upgrade rq = Ok c"
  shows "wwa_streaming (WebWebsocketAction_Start M upgrade (WebWebsocketAction_New r False) rq)"
    "wwa_reading (WebWebsocketAction_Start M upgrade (WebWebsocketAction_New r False) rq)"
    "\<not> wwa_doneClosed (WebWebsocketAction_Start M upgrade (WebWebsocketAction_New r False) rq)"
    "wwa_conn (WebWebsocketAction_Start M upgrade (WebWebsocketAction_New r False) rq) = Some c"
    "wwa_requestId (WebWebsocketAction_Start M upgrade (WebWebsocketAction_New r False) rq) = r"
    "wwa_tomb (WebWebsocketAction_Start M upgrade (WebWebsocketAction_New r False) rq) = tomb_new\<lparr>tb_started := True, tb_running := 1\<rparr>"
    "tomb_Alive (wwa_tomb (WebWebsocketAction_Start M upgrade (WebWebsocketAction_New r False) rq))"
  using assms by (simp_all add: WebWebsocketAction_Start_def WebWebsocketAction_New_def wwa_send_def tomb_Alive_def tomb_new_def tomb_Go_def Let_def)

text \<open>
  C16. A tunnelled websocket passes messages on with their type and in order, both ways: what
  the server sends until it closes arrives at the client, whose connection is closed then, and
  what the client sends arrives at the server.
\<close>

theorem websocket_transparent:
  assumes "ws_agrees J M r" and "ws_types ms" and "ws_types ks" and "upgrade rq = Ok c" and "url_Parse U (host @ '':'' @ show_int port) = Ok u"
    and "v \<noteq> []"
  shows "\<exists>w w' ks'. startWebsocket U log_ws (WebWebsocket_New host port) (r, v, endpoint) = (w, Ok (Some [])) \<and>
    ww_turns M w 0 (ws_messages ms @ [WsFail e]) = (w', Ok ()) \<and>
    (let a = WebWebsocketAction_Start M upgrade (WebWebsocketAction_New r False) rq; a' = ws_stream J log_ws a (ww_stream w') in
     wwa_conn a' = Some (c @ ms) \<and> \<not> wwa_streaming a' \<and>
     wwa_outbox (foldl (wwa_read_turn M) a (ws_messages ks)) = wwa_outbox a @ ks' \<and> ww_ws (ws_feed J U log_ws w ks') = Some ks)"
proof -
  let ?w = "(WebWebsocket_New host port)\<lparr>ww_requestId := r, ww_version := v, ww_ws := Some ([] :: (int \<times> string) list), ww_tomb := tomb_new\<lparr>tb_started := True, tb_running := 1\<rparr>,
    ww_routines := [Some 0]\<rparr>"
  let ?a = "WebWebsocketAction_Start M upgrade (WebWebsocketAction_New r False) rq"
  have w: "startWebsocket U log_ws (WebWebsocket_New host port) (r, v, endpoint) = (?w, Ok (Some []))"
    using assms(5) by (simp add: startWebsocket_def WebWebsocket_New_def log_ws_def Let_def)
  note a = started_socket [of upgrade rq c M r, OF assms(4)]
  have "\<exists>w' sent. ww_turns M ?w 0 (ws_messages ms @ [WsFail e]) = (w', Ok ()) \<and> ww_stream w' = ww_stream ?w @ sent \<and> ww_doneClosed w' \<and>
      wwa_conn (ws_stream J log_ws ?a sent) = Some (c @ ms) \<and> \<not> wwa_streaming (ws_stream J log_ws ?a sent)"
    using ws_download [OF assms(1,2), where w = ?w and i = 0 and n = 0 and a = ?a and c = c and e = e] a assms(6)
    by (simp add: WebWebsocket_New_def tomb_Alive_def tomb_new_def)
  then obtain w' where d: "ww_turns M ?w 0 (ws_messages ms @ [WsFail e]) = (w', Ok ())" "wwa_conn (ws_stream J log_ws ?a (ww_stream w')) = Some (c @ ms)"
    "\<not> wwa_streaming (ws_stream J log_ws ?a (ww_stream w'))" by (auto simp: WebWebsocket_New_def)
  obtain ks' where u: "wwa_outbox (foldl (wwa_read_turn M) ?a (ws_messages ks)) = wwa_outbox ?a @ ks'" "ww_ws (ws_feed J U log_ws ?w ks') = Some ([] @ ks)"
    using ws_upload [OF assms(1,3) a(5,2,7), of ?w "[]" U] by auto
  show ?thesis using w d u by (intro exI [of _ ?w] exI [of _ w'] exI [of _ ks']) (simp add: Let_def)
qed

text \<open>
  The daemon closes the done channel of a websocket twice: after the agent has closed it,
  the next read of the client makes \<^verbatim>\<open>Start\<close> panic, and when the client closes first, the stop
  message that the agent answers with crashes the daemon. Killing the action in between never
  comes back, and a killed action panics all the same.
\<close>

theorem websocket_done_twice:
  assumes "upgrade rq = Ok c" and "sm_Type stop = ''stop'' \<or> sm_Type stop = ''web/websocket/agentstop''"
  shows "let a = WebWebsocketAction_Start M upgrade (WebWebsocketAction_New r False) rq in
    wwa_result (wwa_read_turn M (fst (wwa_stream_turn J S a stop)) ev) = Some Panic \<and>
    snd (wwa_stream_turn J S (wwa_read_turn M a (WsFail e)) stop) = Panic \<and>
    \<not> snd (WebWebsocketAction_Kill (wwa_read_turn M a (WsFail e)) err) \<and>
    snd (wwa_stream_turn J S (wwa_read_turn M (fst (WebWebsocketAction_Kill a err)) ev) stop) = Panic"
proof -
  let ?a = "WebWebsocketAction_Start M upgrade (WebWebsocketAction_New r False) rq"
  note a = started_socket [of upgrade rq c M r, OF assms(1)]
  let ?stopped = "?a\<lparr>wwa_doneClosed := True, wwa_streaming := False, wwa_conn := Some (ws_Close S c), wwa_tomb := tomb_return (wwa_tomb ?a) None\<rparr>"
  have st: "fst (wwa_stream_turn J S ?a stop) = ?stopped"
    using assms(2) a by (auto simp: wwa_stream_turn_def wwa_stream_return_def)
  have "\<not> tomb_Alive (wwa_tomb ?stopped)" using a by (simp add: tomb_return_def Let_def)
  then have 1: "wwa_result (wwa_read_turn M ?stopped ev) = Some Panic" using a by (simp add: wwa_read_turn_def wwa_return_def)
  have twice: "snd (wwa_stream_turn J S a' stop) = Panic" if "wwa_streaming a'" "wwa_conn a' = Some c" "wwa_doneClosed a'" for a'
    using that assms(2) by (auto simp: wwa_stream_turn_def wwa_stream_return_def)
  let ?gone = "wwa_read_turn M ?a (WsFail e)"
  have gone: "wwa_streaming ?gone" "wwa_conn ?gone = Some c" "wwa_doneClosed ?gone" "tomb_Alive (wwa_tomb ?gone)"
    using a by (simp_all add: wwa_read_turn_def wwa_return_def wwa_send_def)
  let ?killed = "wwa_read_turn M (fst (WebWebsocketAction_Kill ?a err)) ev"
  have "wwa_streaming ?killed" "wwa_conn ?killed = Some c" "wwa_doneClosed ?killed"
    using a by (simp_all add: WebWebsocketAction_Kill_def wwa_read_turn_def wwa_return_def)
  then show ?thesis unfolding Let_def using st 1 gone twice by (simp add: WebWebsocketAction_Kill_def)
qed

section \<open>Witnesses\<close>

theorem websocket_transparent_witness:
  "\<exists>w'. wwa_conn (ws_stream codec_parse log_ws (WebWebsocketAction_Start codec_print (\<lambda>_. Ok []) (WebWebsocketAction_New ''r'' False) wit_client)
     (ww_stream (w' :: (int \<times> string) list WebWebsocket))) = Some [(1, ''hi''), (2, ''x'')]"
proof -
  have a: "ws_agrees codec_parse codec_print ''r''" by (simp add: ws_agrees_def)
  have t: "ws_types [(1, ''hi''), (2, ''x'')]" "ws_types []" by (simp_all add: ws_types_def)
  have u: "url_Parse plain_urls (''h'' @ '':'' @ show_int 80) = Ok (''h'' @ '':'' @ show_int 80)" by (simp add: plain_urls_def)
  have c: "(\<lambda>_. Ok []) wit_client = Ok []" by simp
  show ?thesis using websocket_transparent [OF a t c u, where v = "''v''" and e = "errorf []" and endpoint = "[]"] by (auto simp: Let_def)
qed

theorem websocket_done_twice_witness:
  "snd (wwa_stream_turn codec_parse log_ws
      (wwa_read_turn codec_print (WebWebsocketAction_Start codec_print (\<lambda>_. Ok []) (WebWebsocketAction_New ''r'' False) wit_client) (WsFail (errorf ''closed'')))
      (stream_message CurrentSchema ''websocket'' 0 False []\<lparr>sm_Type := ''stop''\<rparr>)) = Panic"
proof -
  have c: "(\<lambda>_. Ok []) wit_client = Ok []" by simp
  have s: "sm_Type (stream_message CurrentSchema ''websocket'' 0 False []\<lparr>sm_Type := ''stop''\<rparr>) = ''stop'' \<or>
    sm_Type (stream_message CurrentSchema ''websocket'' 0 False []\<lparr>sm_Type := ''stop''\<rparr>) = ''web/websocket/agentstop''" by simp
  show ?thesis
    using websocket_done_twice [OF c s, where J = codec_parse and M = codec_print and S = log_ws and r = "''r''" and e = "errorf ''closed''"]
    by (simp add: Let_def)
qed

end
