(* ===== verification/Kube_Rest.thy ===== *)
theory Kube_Rest
  imports Web_Dial
begin

text \<open>
  \<^verbatim>\<open>bzerolib/plugin/kube/utils\<close> and the REST action of \<^verbatim>\<open>bctl/agent/plugin/kube\<close> and \<^verbatim>\<open>bctl/daemon/plugin/kube\<close>:
  a request of kubectl is made by the agent with its service account, impersonating the target
  user and groups. The API server is a function from requests to responses with their body.
\<close>

type_synonym api = "http_request \<Rightarrow> (http_response \<times> io_read list) res"

section \<open>Requests to the API server\<close>

definition MatchRequestId :: "string \<Rightarrow> string \<Rightarrow> unit res" where
  "MatchRequestId requestIdPassed requestIdSaved =
     (if requestIdPassed \<noteq> requestIdSaved then Err (errorf (''invalid request ID passed: '' @ requestIdPassed)) else Ok ())"

definition WriteToHttpRequest :: "('w \<Rightarrow> string \<Rightarrow> 'w \<times> unit res) \<Rightarrow> string \<Rightarrow> 'w \<Rightarrow> 'w \<times> unit res" where
  "WriteToHttpRequest write contentBytes writer =
     (case write writer contentBytes of (w, r) \<Rightarrow> (w, wrap_err (errorf_s ''error streaming data to kubectl: '') r))"

definition IsQueryParamPresent :: "headers \<Rightarrow> string \<Rightarrow> bool" where
  "IsQueryParamPresent query paramArg =
     (case al_get query paramArg of Some (v # vs) \<Rightarrow> v = ''true'' \<or> v = ''1'' | _ \<Rightarrow> False)"

definition cleanHeaders :: "headers \<Rightarrow> headers" where
  "cleanHeaders hs = filter (\<lambda>(headerName, _). \<not> has_prefix ''Impersonate-Extra-'' headerName \<and> to_lower headerName \<noteq> ''impersonate-uid'') hs"

definition Header_Get :: "headers \<Rightarrow> string \<Rightarrow> string" where
  "Header_Get hs name = (case al_get hs (canonical_key name) of Some (v # vs) \<Rightarrow> v | _ \<Rightarrow> [])"

text \<open>A request that \<^verbatim>\<open>http.NewRequest\<close> refuses is a nil pointer.\<close>

definition BuildHttpRequest ::
  "'u url_lib \<Rightarrow> string \<Rightarrow> string \<Rightarrow> string \<Rightarrow> string \<Rightarrow> headers \<Rightarrow> string \<Rightarrow> string \<Rightarrow> string list \<Rightarrow> http_request res" where
  "BuildHttpRequest U kubeHost endpoint body method hs serviceAccountToken targetUser targetGroups =
     (let kubeApiUrl = kubeHost @ endpoint in
      if \<not> url_request_ok U method kubeApiUrl then Panic
      else
        let h1 = set_headers [] (cleanHeaders hs);
            h2 = Header_Set h1 ''Authorization'' (''Bearer '' @ serviceAccountToken);
            h3 = Header_Set h2 ''Impersonate-User'' targetUser;
            h4 = foldl (\<lambda>h g. Header_Set h ''Impersonate-Group'' g) h3 targetGroups
        in if Header_Get h4 ''Impersonate-User'' = [] then Err (errorf ''target user field is not set'')
           else Ok \<lparr> rq_Method = (if method = [] then ''GET'' else method), rq_URL = kubeApiUrl, rq_Header = h4, rq_Body = body \<rparr>)"

section \<open>Messages\<close>

record KubeRequest =
  kr_Endpoint :: string
  kr_Headers :: headers
  kr_Method :: string
  kr_Body :: string
  kr_RequestId :: string
  kr_LogId :: string
  kr_CommandBeingRun :: string

definition RestRequest_json :: "KubeRequest \<Rightarrow> jvalue" where
  "RestRequest_json p =
     VObject [(''endpoint'', VString (kr_Endpoint p)), (''headers'', marshal_headers (kr_Headers p)), (''method'', VString (kr_Method p)),
       (''body'', marshal_string (kr_Body p)), (''requestId'', VString (kr_RequestId p)), (''commandBeingRun'', VString (kr_CommandBeingRun p)),
       (''logId'', VString (kr_LogId p))]"

definition read_RestRequest :: "json_parser \<Rightarrow> string option \<Rightarrow> KubeRequest option" where
  "read_RestRequest J pl =
     Option.bind (read_struct J pl) (\<lambda>kvs.
       case (text_field kvs ''endpoint'', headers_field kvs ''headers'', text_field kvs ''method'', text_field kvs ''body'',
             text_field kvs ''requestId'', text_field kvs ''logId'', text_field kvs ''commandBeingRun'') of
         (Some e, Some hs, Some me, Some b, Some r, Some l, Some c) \<Rightarrow>
           Some \<lparr> kr_Endpoint = e, kr_Headers = hs, kr_Method = me, kr_Body = b, kr_RequestId = r, kr_LogId = l, kr_CommandBeingRun = c \<rparr>
       | _ \<Rightarrow> None)"

text \<open>The response has the same fields as the one of a web request.\<close>

abbreviation RestResponse_json :: "int \<Rightarrow> string \<Rightarrow> headers \<Rightarrow> string \<Rightarrow> jvalue" where
  "RestResponse_json \<equiv> WebOutput_json"

abbreviation read_RestResponse :: "json_parser \<Rightarrow> string \<Rightarrow> (int \<times> headers \<times> string) option" where
  "read_RestResponse \<equiv> read_WebOutput"

section \<open>The agent\<close>

record kube_identity =
  ki_serviceAccountToken :: string
  ki_kubeHost :: string
  ki_targetGroups :: "string list"
  ki_targetUser :: string

definition identity_request :: "'u url_lib \<Rightarrow> kube_identity \<Rightarrow> string \<Rightarrow> string \<Rightarrow> string \<Rightarrow> headers \<Rightarrow> http_request res" where
  "identity_request U k endpoint body method hs =
     BuildHttpRequest U (ki_kubeHost k) endpoint body method hs (ki_serviceAccountToken k) (ki_targetUser k) (ki_targetGroups k)"

record RestApi =
  ra_identity :: kube_identity
  ra_doneClosed :: bool

text \<open>Every call closes the done channel when it returns.\<close>

definition RestApi_Receive ::
  "json_parser \<Rightarrow> json_printer \<Rightarrow> 'u url_lib \<Rightarrow> api \<Rightarrow> RestApi \<Rightarrow> string \<Rightarrow> string option \<Rightarrow> RestApi \<times> string option res" where
  "RestApi_Receive J M U send r action pl =
     (let result =
        (case read_RestRequest J pl of
           None \<Rightarrow> Err (errorf ''malformed MrTAP Action payload'')
         | Some p \<Rightarrow>
            (case identity_request U (ra_identity r) (kr_Endpoint p) (kr_Body p) (kr_Method p) (kr_Headers p) of
               Err e \<Rightarrow> Err e | Panic \<Rightarrow> Panic
             | Ok rq \<Rightarrow>
                (case send rq of
                   Err e \<Rightarrow> Err (errorf_s ''bad response to API request: '' e) | Panic \<Rightarrow> Panic
                 | Ok (response, body) \<Rightarrow>
                    res_map (\<lambda>bodyBytes. Some (M (RestResponse_json (rs_StatusCode response) (kr_RequestId p) (rs_Header response) bodyBytes)))
                      (ReadAll body))))
      in (r\<lparr>ra_doneClosed := True\<rparr>, if ra_doneClosed r then Panic else result))"

section \<open>The daemon\<close>

record RestApiAction =
  rt_requestId :: string
  rt_logId :: string
  rt_command :: string
  rt_doneClosed :: bool
  rt_outbox :: "(string \<times> string option) list"
  rt_calls :: "writer_call list"
  rt_result :: "unit res option"

definition RestApiAction_New :: "string \<Rightarrow> string \<Rightarrow> string \<Rightarrow> bool \<Rightarrow> RestApiAction" where
  "RestApiAction_New requestId logId command doneClosed =
     \<lparr> rt_requestId = requestId, rt_logId = logId, rt_command = command, rt_doneClosed = doneClosed, rt_outbox = [], rt_calls = [],
       rt_result = None \<rparr>"

definition RestApiAction_Kill :: "RestApiAction \<Rightarrow> RestApiAction \<times> unit res" where
  "RestApiAction_Kill a = (a\<lparr>rt_doneClosed := True\<rparr>, if rt_doneClosed a then Panic else Ok ())"

definition kube_request :: "string \<Rightarrow> string \<Rightarrow> string \<Rightarrow> client_request \<Rightarrow> string \<Rightarrow> KubeRequest" where
  "kube_request requestId logId command rq body =
     \<lparr> kr_Endpoint = cr_URL rq, kr_Headers = GetHeaders (cr_Header rq), kr_Method = cr_Method rq, kr_Body = body, kr_RequestId = requestId,
       kr_LogId = logId, kr_CommandBeingRun = command \<rparr>"

definition RestApiAction_Start :: "json_printer \<Rightarrow> RestApiAction \<Rightarrow> client_request \<Rightarrow> RestApiAction" where
  "RestApiAction_Start M a rq =
     (case GetBodyBytes (cr_Body rq) of
        Err e \<Rightarrow> a\<lparr>rt_result := Some (Err e)\<rparr> | Panic \<Rightarrow> a\<lparr>rt_result := Some Panic\<rparr>
      | Ok bodyInBytes \<Rightarrow>
         a\<lparr>rt_outbox := rt_outbox a @ [(''kube/restapi/request'',
             Some (M (RestRequest_json (kube_request (rt_requestId a) (rt_logId a) (rt_command a) rq bodyInBytes))))]\<rparr>)"

datatype rest_event = RestDone | RestCancelled | RestResponded string

definition rest_close :: "RestApiAction \<Rightarrow> unit res \<Rightarrow> RestApiAction" where
  "rest_close a r = a\<lparr>rt_doneClosed := True, rt_result := Some (if rt_doneClosed a then Panic else r)\<rparr>"

definition set_calls :: "headers \<Rightarrow> writer_call list" where
  "set_calls hs = concat (map (\<lambda>(name, values). if name \<noteq> ''Content-Length'' then map (HeaderSet name) values else []) hs)"

text \<open>The select at the end of \<^verbatim>\<open>Start\<close>: one event is waited for.\<close>

definition rest_turn :: "json_parser \<Rightarrow> RestApiAction \<Rightarrow> rest_event \<Rightarrow> RestApiAction" where
  "rest_turn J a ev =
     (if rt_result a \<noteq> None then a
      else (case ev of
              RestDone \<Rightarrow> if rt_doneClosed a then a\<lparr>rt_result := Some (Ok ())\<rparr> else a
            | RestCancelled \<Rightarrow> rest_close a (Err (errorf ''request context cancelled''))
            | RestResponded rspBytes \<Rightarrow>
               (case read_RestResponse J rspBytes of
                  None \<Rightarrow> rest_close a (Err (errorf (''could not unmarshal Action Response Payload: '' @ rspBytes)))
                | Some (statusCode, hs, content) \<Rightarrow>
                   let a1 = a\<lparr>rt_calls := rt_calls a @ set_calls hs @ [WriteBody content]\<rparr> in
                   if statusCode \<noteq> 200
                   then rest_close (a1\<lparr>rt_calls := rt_calls a1 @ [WriteHeader 500]\<rparr>)
                          (Err (errorf (''request failed with status code '' @ show_int statusCode @ '': '' @ content)))
                   else rest_close a1 (Ok ()))))"

section \<open>Who the API server sees\<close>

definition lower_char :: "char \<Rightarrow> char" where
  "lower_char c = hd (to_lower [c])"

lemma to_lower_map: "to_lower s = map lower_char s"
  by (simp add: to_lower_def lower_char_def)

lemma of_char_char_of: "m < 256 \<Longrightarrow> of_char (char_of m :: char) = (m :: nat)"
  by simp

lemma lower_char_lower [simp]: "lower_char (lower_char c) = lower_char c"
proof (cases "65 \<le> (of_char c :: nat) \<and> of_char c \<le> (90 :: nat)")
  case True
  then have "lower_char c = char_of (of_char c + 32 :: nat)" by (simp add: lower_char_def to_lower_def)
  moreover have "of_char (char_of (of_char c + 32 :: nat) :: char) = (of_char c + 32 :: nat)" using True by (intro of_char_char_of) simp
  ultimately show ?thesis using True by (simp add: lower_char_def to_lower_def)
qed (auto simp: lower_char_def to_lower_def)

lemma lower_char_upper [simp]: "lower_char (to_upper_char c) = lower_char c"
proof (cases "97 \<le> (of_char c :: nat) \<and> of_char c \<le> (122 :: nat)")
  case True
  then have u: "to_upper_char c = char_of (of_char c - 32 :: nat)" by (simp add: to_upper_char_def)
  have "of_char (char_of (of_char c - 32 :: nat) :: char) = (of_char c - 32 :: nat)" using True by (intro of_char_char_of) linarith
  then have "lower_char (to_upper_char c) = char_of (of_char c - 32 + 32 :: nat)" using True u by (auto simp: lower_char_def to_lower_def)
  then show ?thesis using True by (simp add: lower_char_def to_lower_def)
qed (auto simp: to_upper_char_def)

lemma to_lower_canonical: "to_lower (canonical_key s) = to_lower s"
proof -
  have "map lower_char (canonical_from u s) = map lower_char s" for u
    by (induction u s rule: canonical_from.induct) (simp_all add: lower_char_def [symmetric])
  then show ?thesis by (simp add: canonical_key_def to_lower_map)
qed

lemma canonical_constants [simp]:
  "canonical_key ''Authorization'' = ''Authorization''" "canonical_key ''Impersonate-User'' = ''Impersonate-User''"
  "canonical_key ''Impersonate-Group'' = ''Impersonate-Group''"
  by code_simp+

lemma get_Header_Set: "al_get (Header_Set h name v) k = (if k = canonical_key name then Some [v] else al_get h k)"
  by (simp add: Header_Set_def)

lemma get_set_headers_None:
  "al_get h k = None \<Longrightarrow> \<forall>(name, values) \<in> set hs. canonical_key name \<noteq> k \<Longrightarrow> al_get (set_headers h hs) k = None"
proof (induction hs arbitrary: h)
  case (Cons nv hs)
  obtain name vs where nv: "nv = (name, vs)" by (cases nv)
  have "al_get (foldl (\<lambda>h v. Header_Set h name v) h ws) k = None" if "al_get h k = None" for h ws
    using that Cons.prems(2) nv by (induction ws arbitrary: h) (auto simp: get_Header_Set)
  then show ?case using Cons nv by (simp add: set_headers_def)
qed (simp add: set_headers_def)

lemma get_groups:
  "al_get (foldl (\<lambda>h g. Header_Set h ''Impersonate-Group'' g) h gs) k =
     (if k = ''Impersonate-Group'' \<and> gs \<noteq> [] then Some [last gs] else al_get h k)"
  by (induction gs arbitrary: h) (auto simp: get_Header_Set)

lemma no_uid: "(name, values) \<in> set (cleanHeaders hs) \<Longrightarrow> canonical_key name \<noteq> ''Impersonate-Uid''"
proof
  assume "(name, values) \<in> set (cleanHeaders hs)" "canonical_key name = ''Impersonate-Uid''"
  moreover have "to_lower name = to_lower ''Impersonate-Uid''" using calculation(2) to_lower_canonical [of name] by simp
  moreover have "to_lower ''Impersonate-Uid'' = ''impersonate-uid''" by code_simp
  ultimately show False by (simp add: cleanHeaders_def)
qed

definition impersonates :: "kube_identity \<Rightarrow> http_request \<Rightarrow> bool" where
  "impersonates k rq \<longleftrightarrow>
     al_get (rq_Header rq) ''Authorization'' = Some [''Bearer '' @ ki_serviceAccountToken k] \<and>
     al_get (rq_Header rq) ''Impersonate-User'' = Some [ki_targetUser k] \<and> ki_targetUser k \<noteq> [] \<and> has_prefix (ki_kubeHost k) (rq_URL rq)"

lemma identity_request_impersonates: "identity_request U k endpoint body meth hs = Ok rq \<Longrightarrow> impersonates k rq"
  by (auto simp: identity_request_def impersonates_def BuildHttpRequest_def Let_def get_groups get_Header_Set Header_Get_def split: if_splits)

text \<open>
  Every request the agent makes to the API server carries the token of its service account
  and names the target user, who is not empty, whatever headers the user sent; it never
  impersonates a uid; and when the policy has target groups, the user cannot choose another
  group. Of several target groups only the last one is sent.
\<close>

theorem kube_request_identity:
  assumes "BuildHttpRequest U host endpoint body method hs token user groups = Ok rq"
  shows "al_get (rq_Header rq) ''Authorization'' = Some [''Bearer '' @ token] \<and>
    al_get (rq_Header rq) ''Impersonate-User'' = Some [user] \<and> user \<noteq> [] \<and>
    al_get (rq_Header rq) ''Impersonate-Uid'' = None \<and>
    (groups \<noteq> [] \<longrightarrow> al_get (rq_Header rq) ''Impersonate-Group'' = Some [last groups]) \<and>
    rq_URL rq = host @ endpoint \<and> rq_Body rq = body"
proof -
  have "al_get (set_headers [] (cleanHeaders hs)) ''Impersonate-Uid'' = None"
    by (rule get_set_headers_None) (auto dest: no_uid)
  then show ?thesis
    using assms by (auto simp: BuildHttpRequest_def Let_def get_groups get_Header_Set Header_Get_def split: if_splits)
qed

text \<open>
  The headers are not sanitised where it matters: without target groups the user chooses the
  groups that are impersonated, up to \<^verbatim>\<open>system:masters\<close>, and an extra attribute whose header name is
  written in lower case passes the filter and is sent under its proper name.
\<close>

theorem kube_headers_escalate:
  assumes "url_request_ok U method (host @ endpoint)" and "user \<noteq> []"
  shows "\<exists>rq. BuildHttpRequest U host endpoint body method [(''Impersonate-Group'', [g]), (''impersonate-extra-scopes'', [x])] token user [] = Ok rq \<and>
    al_get (rq_Header rq) ''Impersonate-Group'' = Some [g] \<and> al_get (rq_Header rq) ''Impersonate-Extra-Scopes'' = Some [x]"
proof -
  have "cleanHeaders [(''Impersonate-Group'', [g]), (''impersonate-extra-scopes'', [x])] = [(''Impersonate-Group'', [g]), (''impersonate-extra-scopes'', [x])]"
    by (simp add: cleanHeaders_def has_prefix_def to_lower_def)
  moreover have "canonical_key ''impersonate-extra-scopes'' = ''Impersonate-Extra-Scopes''" by code_simp
  ultimately show ?thesis using assms
    by (simp add: BuildHttpRequest_def Let_def set_headers_def get_Header_Set Header_Get_def)
qed

section \<open>A request and its response\<close>

lemma read_RestRequest_json:
  assumes "J s = Some (RestRequest_json p)" "distinct (map fst (kr_Headers p))" "sanitize (kr_Body p) = kr_Body p"
  shows "read_RestRequest J (Some s) = Some p"
  using assms(1) by (simp add: read_RestRequest_def read_struct_def RestRequest_json_def marshal_string_def)
    (use assms(2,3) in \<open>simp add: field_simps_json marshal_headers_def decode_headers headers_roundtrip\<close>)

lemma status_after_body: "response_status (set_calls hs @ WriteBody b # cs) = 200"
proof -
  have "\<exists>nvs. set_calls hs = map (\<lambda>(n, v). HeaderSet n v) nvs"
  proof (induction hs)
    case (Cons h hs)
    then obtain nvs where IH: "set_calls hs = map (\<lambda>(n, v). HeaderSet n v) nvs" by blast
    obtain n vs where h: "h = (n, vs)" by (cases h)
    show ?case
      by (rule exI [of _ "(if n \<noteq> ''Content-Length'' then map (Pair n) vs else []) @ nvs"]) (use IH h in \<open>auto simp: set_calls_def\<close>)
  qed (simp add: set_calls_def)
  then obtain nvs where "set_calls hs = map (\<lambda>(n, v). HeaderSet n v) nvs" by blast
  moreover have "response_status (map (\<lambda>(n, v). HeaderSet n v) nvs @ WriteBody b # cs) = 200" by (induction nvs) auto
  ultimately show ?thesis by simp
qed

text \<open>
  A REST request of kubectl is made with the identity of the agent, and the content of the
  response is written as it is; but the status is always 200: the body is written before the
  status, which is 500 whatever the API server answered.
\<close>

theorem kube_rest_roundtrip:
  assumes "GetBodyBytes (cr_Body rq) = Ok body" and "sanitize body = body" and "distinct (map fst (GetHeaders (cr_Header rq)))"
    and "p = kube_request r l c rq body" and "J (M (RestRequest_json p)) = Some (RestRequest_json p)"
    and "identity_request U k (cr_URL rq) body (cr_Method rq) (GetHeaders (cr_Header rq)) = Ok q" and "send q = Ok (rs, rbody)" and "ReadAll rbody = Ok content"
    and "usable_response rs" and "J (M (RestResponse_json (rs_StatusCode rs) r (rs_Header rs) content)) = Some (RestResponse_json (rs_StatusCode rs) r (rs_Header rs) content)"
  shows "\<exists>m response. rt_outbox (RestApiAction_Start M (RestApiAction_New r l c False) rq) = [m] \<and>
    RestApi_Receive J M U send \<lparr> ra_identity = k, ra_doneClosed = False \<rparr> (fst m) (snd m) = (\<lparr> ra_identity = k, ra_doneClosed = True \<rparr>, Ok (Some response)) \<and>
    (let a = rest_turn J (RestApiAction_Start M (RestApiAction_New r l c False) rq) (RestResponded response) in
     rt_calls a = set_calls (rs_Header rs) @ WriteBody content # (if rs_StatusCode rs = 200 then [] else [WriteHeader 500]) \<and>
     response_status (rt_calls a) = 200 \<and> (rt_result a = Some (Ok ()) \<longleftrightarrow> rs_StatusCode rs = 200))"
proof -
  let ?a = "RestApiAction_Start M (RestApiAction_New r l c False) rq"
  let ?out = "M (RestResponse_json (rs_StatusCode rs) r (rs_Header rs) content)"
  have a: "rt_outbox ?a = [(''kube/restapi/request'', Some (M (RestRequest_json p)))]" "rt_calls ?a = []" "rt_result ?a = None" "\<not> rt_doneClosed ?a"
    using assms(1,4) by (simp_all add: RestApiAction_Start_def RestApiAction_New_def)
  have "read_RestRequest J (Some (M (RestRequest_json p))) = Some p"
    by (rule read_RestRequest_json [where J = J, OF assms(5)]) (use assms(2-4) in \<open>simp_all add: kube_request_def\<close>)
  then have rcv: "RestApi_Receive J M U send \<lparr> ra_identity = k, ra_doneClosed = False \<rparr> ''kube/restapi/request'' (Some (M (RestRequest_json p))) =
      (\<lparr> ra_identity = k, ra_doneClosed = True \<rparr>, Ok (Some ?out))"
    using assms(4,6-8) by (simp add: RestApi_Receive_def kube_request_def Let_def)
  have "read_RestResponse J ?out = Some (rs_StatusCode rs, rs_Header rs, content)"
    by (rule read_WebOutput_json [where J = J, OF assms(10)]) (use assms(9) in \<open>auto simp: usable_response_def\<close>)
  then have calls: "rt_calls (rest_turn J ?a (RestResponded ?out)) =
      set_calls (rs_Header rs) @ WriteBody content # (if rs_StatusCode rs = 200 then [] else [WriteHeader 500])"
    "rt_result (rest_turn J ?a (RestResponded ?out)) = Some (Ok ()) \<longleftrightarrow> rs_StatusCode rs = 200"
    using a by (simp_all add: rest_turn_def rest_close_def Let_def)
  show ?thesis using a(1) rcv calls by (intro exI [of _ "(''kube/restapi/request'', Some (M (RestRequest_json p)))"] exI [of _ ?out])
      (simp add: status_after_body Let_def)
qed

section \<open>Witnesses\<close>

theorem kube_request_identity_witness:
  "\<exists>rq. BuildHttpRequest plain_urls ''https://k8s'' ''/api'' [] ''GET'' [(''impersonate-UID'', [''0'']), (''Impersonate-User'', [''root''])] ''t'' ''alice'' [''dev''] = Ok rq \<and>
     al_get (rq_Header rq) ''Impersonate-User'' = Some [''alice''] \<and> al_get (rq_Header rq) ''Impersonate-Uid'' = None"
proof -
  let ?b = "BuildHttpRequest plain_urls ''https://k8s'' ''/api'' [] ''GET'' [(''impersonate-UID'', [''0'']), (''Impersonate-User'', [''root''])] ''t'' ''alice'' [''dev'']"
  have "is_ok ?b" by code_simp
  then obtain rq where "?b = Ok rq" by (elim is_ok.elims) auto
  then show ?thesis using kube_request_identity [of plain_urls "''https://k8s''" "''/api''"] by blast
qed

theorem kube_headers_escalate_witness:
  "\<exists>rq. BuildHttpRequest plain_urls ''https://k8s'' ''/api'' [] ''GET'' [(''Impersonate-Group'', [''system:masters'']), (''impersonate-extra-scopes'', [''all''])]
      ''t'' ''alice'' [] = Ok rq \<and> al_get (rq_Header rq) ''Impersonate-Group'' = Some [''system:masters'']"
proof -
  have ok: "url_request_ok plain_urls ''GET'' (''https://k8s'' @ ''/api'')" and u: "''alice'' \<noteq> []" by (simp_all add: plain_urls_def)
  show ?thesis using kube_headers_escalate [OF ok u, of "[]" "''system:masters''" "''all''" "''t''"] by blast
qed

definition wit_kubectl :: client_request where
  "wit_kubectl = \<lparr> cr_Header = [(''Accept'', [''application/json''])], cr_Host = ''localhost'', cr_URL = ''/api/v1/pods'', cr_Method = ''GET'',
     cr_Form = [], cr_Body = [IoEof []] \<rparr>"

definition wit_identity :: kube_identity where
  "wit_identity = \<lparr> ki_serviceAccountToken = ''t'', ki_kubeHost = ''https://k8s'', ki_targetGroups = [], ki_targetUser = ''alice'' \<rparr>"

theorem kube_rest_roundtrip_witness:
  "\<exists>response. rt_calls (rest_turn codec_parse (RestApiAction_Start codec_print (RestApiAction_New ''r'' ''l'' ''c'' False) wit_kubectl)
     (RestResponded response)) = [WriteBody ''not found'', WriteHeader 500]"
proof -
  let ?rs = "\<lparr> rs_StatusCode = 404, rs_Header = [] \<rparr>" and ?p = "kube_request ''r'' ''l'' ''c'' wit_kubectl []"
  let ?q = "identity_request plain_urls wit_identity (cr_URL wit_kubectl) [] (cr_Method wit_kubectl) (GetHeaders (cr_Header wit_kubectl))"
  have b: "GetBodyBytes (cr_Body wit_kubectl) = Ok []" "sanitize ([] :: string) = []" "distinct (map fst (GetHeaders (cr_Header wit_kubectl)))" by code_simp+
  have "is_ok ?q" by code_simp
  then obtain q where q: "?q = Ok q" by (elim is_ok.elims) auto
  have s: "(\<lambda>_. Ok (?rs, [IoEof ''not found''])) q = Ok (?rs, [IoEof ''not found''])" "ReadAll [IoEof ''not found''] = Ok ''not found''" "usable_response ?rs"
    by (simp_all add: usable_response_def)
  show ?thesis
    using kube_rest_roundtrip [OF b refl codec_agrees q s(1) s(2,3) codec_agrees, of "''r''" "''l''" "''c''"] by (auto simp: Let_def set_calls_def)
qed

end
