(* ===== verification/Kube_Exec.thy ===== *)
theory Kube_Exec
  imports Kube_Rest
begin

text \<open>
  The exec action of \<^verbatim>\<open>bctl/agent/plugin/kube\<close> and \<^verbatim>\<open>bctl/daemon/plugin/kube\<close>: a command in a container. The
  agent runs it through the remote command client, which reads standard input from and writes
  its output to small adapters; the daemon speaks SPDY to kubectl. The clients are known
  through the calls made of the adapters and streams.
\<close>

definition ExecChunkSize :: nat where
  "ExecChunkSize = 8192"

definition ExecDefaultMaxBufferSize :: nat where
  "ExecDefaultMaxBufferSize = 8192"

section \<open>Messages\<close>

record ExecStart =
  xs_RequestId :: string
  xs_Version :: string
  xs_LogId :: string
  xs_IsStdIn :: bool
  xs_IsTty :: bool
  xs_Command :: "string list option"
  xs_Endpoint :: string
  xs_CommandBeingRun :: string

definition ExecStart_json :: "ExecStart \<Rightarrow> jvalue" where
  "ExecStart_json p =
     VObject [(''requestId'', VString (xs_RequestId p)), (''streamMessageVersion'', VString (xs_Version p)), (''logId'', VString (xs_LogId p)),
       (''isStdIn'', VBool (xs_IsStdIn p)), (''isTty'', VBool (xs_IsTty p)), (''command'', marshal_strings (xs_Command p)),
       (''endpoint'', VString (xs_Endpoint p)), (''commandBeingRun'', VString (xs_CommandBeingRun p))]"

definition strings_field :: "(string \<times> jvalue) list \<Rightarrow> string \<Rightarrow> string list option option" where
  "strings_field kvs name =
     (case struct_field kvs name of None \<Rightarrow> Some None | Some v \<Rightarrow> (case decode_strings v of Decoded ss \<Rightarrow> Some ss | _ \<Rightarrow> None))"

definition read_ExecStart :: "json_parser \<Rightarrow> string option \<Rightarrow> ExecStart option" where
  "read_ExecStart J pl =
     Option.bind (read_struct J pl) (\<lambda>kvs.
       case (text_field kvs ''requestId'', text_field kvs ''streamMessageVersion'', text_field kvs ''logId'', bool_field kvs ''isStdIn'',
             bool_field kvs ''isTty'', strings_field kvs ''command'', text_field kvs ''endpoint'', text_field kvs ''commandBeingRun'') of
         (Some r, Some v, Some l, Some i, Some t, Some cs, Some e, Some c) \<Rightarrow>
           Some \<lparr> xs_RequestId = r, xs_Version = v, xs_LogId = l, xs_IsStdIn = i, xs_IsTty = t, xs_Command = cs, xs_Endpoint = e, xs_CommandBeingRun = c \<rparr>
       | _ \<Rightarrow> None)"

definition ExecStdin_json :: "string \<Rightarrow> string \<Rightarrow> string \<Rightarrow> jvalue" where
  "ExecStdin_json requestId logId stdin =
     VObject [(''requestId'', VString requestId), (''logId'', VString logId), (''stdin'', VString (EncodeToString stdin))]"

definition read_ExecStdin :: "json_parser \<Rightarrow> string option \<Rightarrow> string option" where
  "read_ExecStdin J pl =
     Option.bind (read_struct J pl) (\<lambda>kvs.
       if text_field kvs ''requestId'' = None \<or> text_field kvs ''logId'' = None then None else bytes_field kvs ''stdin'')"

definition uint16_field :: "(string \<times> jvalue) list \<Rightarrow> string \<Rightarrow> nat option" where
  "uint16_field kvs name = Option.bind (uint32_field kvs name) (\<lambda>n. if n < 2 ^ 16 then Some n else None)"

definition ExecResize_json :: "string \<Rightarrow> string \<Rightarrow> nat \<Rightarrow> nat \<Rightarrow> jvalue" where
  "ExecResize_json requestId logId width height =
     VObject [(''requestId'', VString requestId), (''logId'', VString logId), (''width'', VNumber (int width)), (''height'', VNumber (int height))]"

definition read_ExecResize :: "json_parser \<Rightarrow> string option \<Rightarrow> (nat \<times> nat) option" where
  "read_ExecResize J pl =
     Option.bind (read_struct J pl) (\<lambda>kvs.
       case (text_field kvs ''requestId'', text_field kvs ''logId'', uint16_field kvs ''width'', uint16_field kvs ''height'') of
         (Some _, Some _, Some w, Some h) \<Rightarrow> Some (w, h) | _ \<Rightarrow> None)"

definition ExecStop_json :: "string \<Rightarrow> string \<Rightarrow> jvalue" where
  "ExecStop_json requestId logId =
     VObject [(''requestId'', VString requestId), (''logId'', VString logId), (''streamMessageVersion'', VString [])]"

section \<open>The agent\<close>

text \<open>
  The two channels hold at most ten values; the list of a channel includes what a blocked call
  still has to send. \<^verbatim>\<open>ke_eofRead\<close> says that the client has read the end of the input, after which it
  reads no more. The counters are those of the writers of the last command that was started.
\<close>

record KubeExec =
  ke_doneClosed :: bool
  ke_stream :: "StreamMessage list"
  ke_version :: string
  ke_stdin :: "string list"
  ke_resize :: "(nat \<times> nat) list"
  ke_reader :: bool
  ke_identity :: kube_identity
  ke_logId :: string
  ke_requestId :: string
  ke_stopped :: bool
  ke_running :: nat
  ke_eofRead :: bool
  ke_outSequence :: int
  ke_errSequence :: int

definition KubeExec_New :: "kube_identity \<Rightarrow> KubeExec" where
  "KubeExec_New k =
     \<lparr> ke_doneClosed = False, ke_stream = [], ke_version = [], ke_stdin = [], ke_resize = [], ke_reader = False, ke_identity = k, ke_logId = [],
       ke_requestId = [], ke_stopped = False, ke_running = 0, ke_eofRead = False, ke_outSequence = 0, ke_errSequence = 0 \<rparr>"

text \<open>Closing the reader hands the end of the input to a read; then the end of the command is waited for.\<close>

definition KubeExec_Kill :: "KubeExec \<Rightarrow> KubeExec \<times> bool" where
  "KubeExec_Kill e =
     (if \<not> ke_reader e then (e, True)
      else if ke_running e = 0 \<or> ke_eofRead e then (e, False)
      else (e\<lparr>ke_eofRead := True\<rparr>, True))"

definition ke_sendStreamMessage :: "KubeExec \<Rightarrow> int \<Rightarrow> string \<Rightarrow> bool \<Rightarrow> string \<Rightarrow> KubeExec" where
  "ke_sendStreamMessage e sequenceNumber streamType moreMessages contentBytes =
     e\<lparr>ke_stream := ke_stream e @ [\<lparr> sm_RequestId = [], sm_SchemaVersion = ke_version e, sm_SequenceNumber = sequenceNumber,
         sm_Action = ''exec'', sm_Type = streamType, sm_More = moreMessages, sm_LogId = [], sm_Content = EncodeToString contentBytes \<rparr>]\<rparr>"

text \<open>The adapters: standard output and error, and standard input. A read that has to wait has no result.\<close>

datatype std_stream = Stdout | Stderr

definition StdWriter_Write :: "KubeExec \<Rightarrow> std_stream \<Rightarrow> string \<Rightarrow> KubeExec" where
  "StdWriter_Write e st p =
     (let n = (case st of Stdout \<Rightarrow> ke_outSequence e | Stderr \<Rightarrow> ke_errSequence e);
          e1 = e\<lparr>ke_stream := ke_stream e @ [\<lparr> sm_RequestId = ke_requestId e, sm_SchemaVersion = ke_version e, sm_SequenceNumber = n,
                   sm_Action = ''exec'', sm_Type = (case st of Stdout \<Rightarrow> ''stdout'' | Stderr \<Rightarrow> ''stderr''), sm_More = True, sm_LogId = ke_logId e,
                   sm_Content = EncodeToString p \<rparr>]\<rparr>
      in case st of Stdout \<Rightarrow> e1\<lparr>ke_outSequence := n + 1\<rparr> | Stderr \<Rightarrow> e1\<lparr>ke_errSequence := n + 1\<rparr>)"

text \<open>Bytes of a value that do not fit into the buffer of the read are lost.\<close>

definition StdReader_Read :: "KubeExec \<Rightarrow> nat \<Rightarrow> KubeExec \<times> io_read option" where
  "StdReader_Read e len =
     (case ke_stdin e of
        stdin # rest \<Rightarrow> (e\<lparr>ke_stdin := rest\<rparr>, Some (IoData (take len stdin)))
      | [] \<Rightarrow> if ke_stopped e then (e\<lparr>ke_eofRead := True\<rparr>, Some (IoEof [])) else (e, None))"

definition TerminalSizeQueue_Next :: "KubeExec \<Rightarrow> KubeExec \<times> (nat \<times> nat) option" where
  "TerminalSizeQueue_Next e = (case ke_resize e of wh # rest \<Rightarrow> (e\<lparr>ke_resize := rest\<rparr>, Some wh) | [] \<Rightarrow> (e, None))"

text \<open>The configuration of the cluster and the executor come from the Kubernetes client.\<close>

definition startExec :: "unit res \<Rightarrow> 'u url_lib \<Rightarrow> (kube_identity \<Rightarrow> 'u \<Rightarrow> unit res) \<Rightarrow> KubeExec \<Rightarrow> ExecStart \<Rightarrow> KubeExec \<times> string option res" where
  "startExec config U executor e p =
     (let e1 = e\<lparr>ke_requestId := xs_RequestId p, ke_logId := xs_LogId p, ke_version := xs_Version p\<rparr> in
      case config of
        Err x \<Rightarrow> (e1, Err (errorf_s ''error creating in-custer config: '' x)) | Panic \<Rightarrow> (e1, Panic)
      | Ok _ \<Rightarrow>
         if ki_targetUser (ke_identity e) = [] then (e1, Err (errorf ''target user field is not set''))
         else (case url_Parse U (ki_kubeHost (ke_identity e) @ xs_Endpoint p) of
                 Err x \<Rightarrow> (e1, Err (errorf_s ''could not parse kube exec url: '' x)) | Panic \<Rightarrow> (e1, Panic)
               | Ok url \<Rightarrow>
                  (case executor (ke_identity e) url of
                     Err x \<Rightarrow> (e1, Err (errorf_s ''error creating Spdy executor: '' x)) | Panic \<Rightarrow> (e1, Panic)
                   | Ok _ \<Rightarrow>
                      (e1\<lparr>ke_running := Suc (ke_running e), ke_reader := ke_reader e \<or> xs_IsStdIn p, ke_outSequence := 0, ke_errSequence := 0\<rparr>,
                       Ok (Some [])))))"

text \<open>The command ends, with an error or not.\<close>

definition exec_finish :: "KubeExec \<Rightarrow> gerror option \<Rightarrow> KubeExec \<times> unit res" where
  "exec_finish e err =
     (if ke_running e = 0 then (e, Ok ())
      else
        let e1 = (case err of
                    Some x \<Rightarrow> ke_sendStreamMessage e 0 ''error'' False (''error in SPDY stream: '' @ etext x)
                  | None \<Rightarrow> e);
            e2 = ke_sendStreamMessage e1 (ke_outSequence e1) ''stdout'' False []
        in if ke_doneClosed e then (e2, Panic) else (e2\<lparr>ke_doneClosed := True, ke_running := ke_running e - 1\<rparr>, Ok ()))"

text \<open>The pieces of the input go to the channel as long as it is not closed.\<close>

definition KubeExec_Receive ::
  "json_parser \<Rightarrow> unit res \<Rightarrow> 'u url_lib \<Rightarrow> (kube_identity \<Rightarrow> 'u \<Rightarrow> unit res) \<Rightarrow> KubeExec \<Rightarrow> string \<Rightarrow> string option \<Rightarrow>
   KubeExec \<times> string option res option" where
  "KubeExec_Receive J config U executor e action pl =
     (if action = ''kube/exec/start''
      then (case read_ExecStart J pl of
              None \<Rightarrow> (e, Some (Err (errorf ''unable to unmarshal start exec message: '')))
            | Some p \<Rightarrow> apsnd Some (startExec config U executor e p))
      else if action = ''kube/exec/input''
      then (case read_ExecStdin J pl of
              None \<Rightarrow> (e, Some (Err (errorf ''error unmarshaling stdin: '')))
            | Some stdin \<Rightarrow>
               let e1 = (if ke_stopped e then e else e\<lparr>ke_stdin := ke_stdin e @ pieces ExecChunkSize stdin\<rparr>) in
               when_back (e1, length (ke_stdin e1) \<le> 10) (Ok (Some [])))
      else if action = ''kube/exec/resize''
      then (case read_ExecResize J pl of
              None \<Rightarrow> (e, Some (Err (errorf ''error unmarshaling resize message: '')))
            | Some wh \<Rightarrow>
               let e1 = e\<lparr>ke_resize := ke_resize e @ [wh]\<rparr> in when_back (e1, length (ke_resize e1) \<le> 10) (Ok (Some [])))
      else if action = ''kube/exec/stop'' then (e\<lparr>ke_stopped := True\<rparr>, Some (Ok (Some [])))
      else (e, Some (Err (errorf (''unhandled exec action: '' @ action)))))"

section \<open>The daemon\<close>

text \<open>The streams of the connection; one that kubectl did not open is nil.\<close>

record 'w SPDYService =
  sp_closed :: bool
  sp_stdin :: bool
  sp_stdout :: "'w option"
  sp_stderr :: "'w option"
  sp_status :: "'w option"
  sp_resize :: bool

record ExecOptions =
  xo_Stdin :: bool
  xo_Stdout :: bool
  xo_Stderr :: bool
  xo_TTY :: bool
  xo_ExpectedStreams :: nat
  xo_Command :: "string list"

definition form_value :: "headers \<Rightarrow> string \<Rightarrow> string" where
  "form_value form name = (case al_get form name of Some (v # vs) \<Rightarrow> v | _ \<Rightarrow> [])"

definition extractExecOptions :: "client_request \<Rightarrow> ExecOptions" where
  "extractExecOptions rq =
     (let tty = form_value (cr_Form rq) ''tty'' = ''true''; stdin = form_value (cr_Form rq) ''stdin'' = ''true'';
          stdout = form_value (cr_Form rq) ''stdout'' = ''true''; stderr = form_value (cr_Form rq) ''stderr'' = ''true''
      in \<lparr> xo_Stdin = stdin, xo_Stdout = stdout, xo_Stderr = stderr, xo_TTY = tty,
           xo_ExpectedStreams = 1 + of_bool stdin + of_bool stdout + of_bool stderr + of_bool tty,
           xo_Command = (case al_get (cr_Form rq) ''command'' of Some cs \<Rightarrow> cs | None \<Rightarrow> []) \<rparr>)"

datatype 'w spdy_event = SpStream string 'w | SpReply | SpExpired | SpDropped

fun waitForStreams :: "'w SPDYService \<Rightarrow> nat \<Rightarrow> nat \<Rightarrow> 'w spdy_event list \<Rightarrow> 'w SPDYService \<times> unit res option" where
  "waitForStreams s received expected [] = (s, None)"
| "waitForStreams s received expected (SpStream streamType w # evs) =
     waitForStreams (if streamType = ''error'' then s\<lparr>sp_status := Some w\<rparr>
                     else if streamType = ''stdin'' then s\<lparr>sp_stdin := True\<rparr>
                     else if streamType = ''stdout'' then s\<lparr>sp_stdout := Some w\<rparr>
                     else if streamType = ''stderr'' then s\<lparr>sp_stderr := Some w\<rparr>
                     else if streamType = ''resize'' then s\<lparr>sp_resize := True\<rparr> else s) received expected evs"
| "waitForStreams s received expected (SpReply # evs) =
     (if Suc received = expected then (s, Some (Ok ())) else waitForStreams s (Suc received) expected evs)"
| "waitForStreams s received expected (SpExpired # evs) = (s, Some (Err (errorf ''timed out waiting for client to create streams'')))"
| "waitForStreams s received expected (SpDropped # evs) = (s, Some (Err (errorf ''onnectoin has dropped, exiting'')))"

definition new_spdy :: "'w SPDYService" where
  "new_spdy = \<lparr> sp_closed = False, sp_stdin = False, sp_stdout = None, sp_stderr = None, sp_status = None, sp_resize = False \<rparr>"

text \<open>The handshake and the upgrade are the SPDY library's; the streams arrive as events.\<close>

definition NewSPDYService :: "unit res \<Rightarrow> unit option \<Rightarrow> 'w spdy_event list \<Rightarrow> client_request \<Rightarrow> 'w SPDYService res option" where
  "NewSPDYService handshake upgraded evs rq =
     (case handshake of
        Err e \<Rightarrow> Some (Err (errorf_s ''could not complete http stream handshake: '' e)) | Panic \<Rightarrow> Some Panic
      | Ok _ \<Rightarrow>
         if upgraded = None then Some (Err (errorf ''unable to upgrade request''))
         else (case waitForStreams new_spdy 0 (xo_ExpectedStreams (extractExecOptions rq)) evs of
                 (s, None) \<Rightarrow> None
               | (s, Some (Ok _)) \<Rightarrow> Some (Ok s)
               | (s, Some (Err e)) \<Rightarrow> Some (Err (errorf_s ''error waiting for streams to come in: '' e))
               | (s, Some Panic) \<Rightarrow> Some Panic))"

record 'w ExecAction =
  ea_tomb :: tomb
  ea_requestId :: string
  ea_logId :: string
  ea_command :: string
  ea_doneClosed :: bool
  ea_outbox :: "(string \<times> string option) list"
  ea_stopped :: bool
  ea_spdy :: "'w SPDYService"
  ea_streaming :: bool
  ea_reading :: bool
  ea_resizing :: bool
  ea_buffer :: string

definition ExecAction_New :: "string \<Rightarrow> string \<Rightarrow> string \<Rightarrow> 'w ExecAction" where
  "ExecAction_New requestId logId command =
     \<lparr> ea_tomb = tomb_new, ea_requestId = requestId, ea_logId = logId, ea_command = command, ea_doneClosed = False, ea_outbox = [],
       ea_stopped = False, ea_spdy = new_spdy, ea_streaming = False, ea_reading = False, ea_resizing = False, ea_buffer = [] \<rparr>"

definition ExecAction_Kill :: "'w ExecAction \<Rightarrow> gerror option \<Rightarrow> 'w ExecAction \<times> bool" where
  "ExecAction_Kill a err =
     (if tomb_Alive (ea_tomb a) then (a\<lparr>ea_tomb := tomb_Kill (ea_tomb a) err\<rparr>, tomb_Waits (ea_tomb a)) else (a, True))"

definition ea_send :: "json_printer \<Rightarrow> 'w ExecAction \<Rightarrow> string \<Rightarrow> jvalue \<Rightarrow> 'w ExecAction" where
  "ea_send M a action payload = a\<lparr>ea_outbox := ea_outbox a @ [(action, Some (M payload))]\<rparr>"

definition sendStartMessage :: "json_printer \<Rightarrow> 'w ExecAction \<Rightarrow> bool \<Rightarrow> bool \<Rightarrow> string list option \<Rightarrow> string \<Rightarrow> 'w ExecAction" where
  "sendStartMessage M a isStdIn isTty command endpoint =
     ea_send M a ''kube/exec/start'' (ExecStart_json \<lparr> xs_RequestId = ea_requestId a, xs_Version = CurrentSchema, xs_LogId = ea_logId a,
       xs_IsStdIn = isStdIn, xs_IsTty = isTty, xs_Command = command, xs_Endpoint = endpoint, xs_CommandBeingRun = ea_command a \<rparr>)"

definition sendStdinMessage :: "json_printer \<Rightarrow> 'w ExecAction \<Rightarrow> string \<Rightarrow> 'w ExecAction" where
  "sendStdinMessage M a stdin = ea_send M a ''kube/exec/input'' (ExecStdin_json (ea_requestId a) (ea_logId a) stdin)"

definition sendResizeMessage :: "json_printer \<Rightarrow> 'w ExecAction \<Rightarrow> nat \<Rightarrow> nat \<Rightarrow> 'w ExecAction" where
  "sendResizeMessage M a width height = ea_send M a ''kube/exec/resize'' (ExecResize_json (ea_requestId a) (ea_logId a) width height)"

text \<open>The routines start once the streams are there.\<close>

definition ExecAction_Start :: "json_printer \<Rightarrow> 'w SPDYService \<Rightarrow> 'w ExecAction \<Rightarrow> client_request \<Rightarrow> 'w ExecAction" where
  "ExecAction_Start M spdy a rq =
     (let isStdIn = IsQueryParamPresent (cr_Form rq) ''stdin''; isTty = IsQueryParamPresent (cr_Form rq) ''tty'' in
      (sendStartMessage M a isStdIn isTty (al_get (cr_Form rq) ''command'') (cr_URL rq))
        \<lparr>ea_spdy := spdy, ea_tomb := (ea_tomb a)\<lparr>tb_started := True, tb_running := 1\<rparr>, ea_streaming := True, ea_reading := isStdIn,
         ea_resizing := isTty\<rparr>)"

definition ea_stream_return :: "'w ExecAction \<Rightarrow> gerror option \<Rightarrow> 'w ExecAction \<times> unit res" where
  "ea_stream_return a err =
     (if ea_doneClosed a then (a, Panic)
      else (a\<lparr>ea_streaming := False, ea_doneClosed := True, ea_tomb := tomb_return (ea_tomb a) err\<rparr>, Ok ()))"

definition ea_stop :: "json_printer \<Rightarrow> 'w ExecAction \<Rightarrow> string \<Rightarrow> string \<Rightarrow> 'w ExecAction" where
  "ea_stop M a requestId logId =
     (if ea_stopped a then a else (ea_send M a ''kube/exec/stop'' (ExecStop_json requestId logId))\<lparr>ea_stopped := True\<rparr>)"

datatype exec_event = ExMessage StreamMessage | ExClosed | ExDying

text \<open>A stream that is nil makes the write panic; an error of a write is only logged.\<close>

definition spdy_write :: "('w \<Rightarrow> string \<Rightarrow> 'w \<times> unit res) \<Rightarrow> 'w option \<Rightarrow> string \<Rightarrow> 'w res" where
  "spdy_write write s b = (case s of None \<Rightarrow> Panic | Some w \<Rightarrow> Ok (fst (write w b)))"

definition ea_stream_turn ::
  "json_printer \<Rightarrow> (string \<Rightarrow> string) \<Rightarrow> ('w \<Rightarrow> string \<Rightarrow> 'w \<times> unit res) \<Rightarrow> (string \<Rightarrow> string) \<Rightarrow> 'w ExecAction \<Rightarrow> exec_event \<Rightarrow> 'w ExecAction \<times> unit res" where
  "ea_stream_turn M rest write status a ev =
     (if \<not> ea_streaming a then (a, Ok ())
      else (case ev of
              ExDying \<Rightarrow> if tomb_Alive (ea_tomb a) then (a, Ok ()) else ea_stream_return a None
            | ExClosed \<Rightarrow> ea_stream_return (ea_stop M a (ea_requestId a) (ea_logId a)) None
            | ExMessage m \<Rightarrow>
               let contentBytes = (case DecodeString (sm_Content m) of Some b \<Rightarrow> b | None \<Rightarrow> rest (sm_Content m)); s = ea_spdy a in
               if sm_Type m = ''stdout''
               then (if contentBytes = ''^['' \<or> \<not> sm_More m then ea_stream_return (a\<lparr>ea_spdy := s\<lparr>sp_closed := True\<rparr>\<rparr>) None
                     else (case spdy_write write (sp_stdout s) contentBytes of
                             Ok w \<Rightarrow> (a\<lparr>ea_spdy := s\<lparr>sp_stdout := Some w\<rparr>\<rparr>, Ok ()) | _ \<Rightarrow> (a, Panic)))
               else if sm_Type m = ''stderr''
               then (case spdy_write write (sp_stderr s) contentBytes of
                       Ok w \<Rightarrow> (a\<lparr>ea_spdy := s\<lparr>sp_stderr := Some w\<rparr>\<rparr>, Ok ()) | _ \<Rightarrow> (a, Panic))
               else if sm_Type m = ''error''
               then (case spdy_write write (sp_status s) (status contentBytes) of
                       Ok w \<Rightarrow> ea_stream_return (a\<lparr>ea_spdy := s\<lparr>sp_status := Some w, sp_closed := True\<rparr>\<rparr>)
                                (Some (errorf (''error in kube exec on agent: '' @ contentBytes)))
                     | _ \<Rightarrow> (a, Panic))
               else (a, Ok ())))"

text \<open>A read of standard input: full chunks are collected up to a maximum, then sent.\<close>

definition ea_read_turn :: "json_printer \<Rightarrow> 'w ExecAction \<Rightarrow> io_read \<Rightarrow> 'w ExecAction \<times> unit res" where
  "ea_read_turn M a ev =
     (if \<not> ea_reading a then (a, Ok ())
      else if \<not> tomb_Alive (ea_tomb a) then (a\<lparr>ea_reading := False\<rparr>, Ok ())
      else if \<not> sp_stdin (ea_spdy a) then (a, Panic)
      else (case ev of
              IoData b \<Rightarrow>
                let buffer = ea_buffer a @ b in
                if length b \<noteq> ExecChunkSize \<or> ExecDefaultMaxBufferSize < length buffer
                then ((sendStdinMessage M a buffer)\<lparr>ea_buffer := []\<rparr>, Ok ())
                else (a\<lparr>ea_buffer := buffer\<rparr>, Ok ())
            | IoEof b \<Rightarrow>
                let buffer = ea_buffer a @ b; a1 = (if buffer \<noteq> [] then sendStdinMessage M a buffer else a) in
                ((ea_stop M a1 [] [])\<lparr>ea_buffer := [], ea_reading := False\<rparr>, Ok ())
            | IoFail b e \<Rightarrow>
                let buffer = ea_buffer a @ b; a1 = (if buffer \<noteq> [] then sendStdinMessage M a buffer else a) in
                ((ea_stop M a1 [] [])\<lparr>ea_buffer := [], ea_reading := False\<rparr>, Ok ())))"

datatype resize_event = ReSize nat nat | ReEnd | ReBad

definition ea_resize_turn :: "json_printer \<Rightarrow> 'w ExecAction \<Rightarrow> resize_event \<Rightarrow> 'w ExecAction \<times> unit res" where
  "ea_resize_turn M a ev =
     (if \<not> ea_resizing a then (a, Ok ())
      else if \<not> tomb_Alive (ea_tomb a) then (a\<lparr>ea_resizing := False\<rparr>, Ok ())
      else if \<not> sp_resize (ea_spdy a) then (a, Panic)
      else (case ev of
              ReSize w h \<Rightarrow> (sendResizeMessage M a w h, Ok ())
            | ReEnd \<Rightarrow> (a\<lparr>ea_resizing := False\<rparr>, Ok ())
            | ReBad \<Rightarrow> (a, Ok ())))"

section \<open>Standard input\<close>

definition exec_feed ::
  "json_parser \<Rightarrow> unit res \<Rightarrow> 'u url_lib \<Rightarrow> (kube_identity \<Rightarrow> 'u \<Rightarrow> unit res) \<Rightarrow> KubeExec \<Rightarrow> (string \<times> string option) list \<Rightarrow> KubeExec" where
  "exec_feed J config U executor = foldl (\<lambda>e m. fst (KubeExec_Receive J config U executor e (fst m) (snd m)))"

definition exec_agrees :: "json_parser \<Rightarrow> json_printer \<Rightarrow> string \<Rightarrow> string \<Rightarrow> bool" where
  "exec_agrees J M requestId logId \<longleftrightarrow> (\<forall>b. J (M (ExecStdin_json requestId logId b)) = Some (ExecStdin_json requestId logId b))"

definition ea_reads :: "json_printer \<Rightarrow> 'w ExecAction \<Rightarrow> io_read list \<Rightarrow> 'w ExecAction" where
  "ea_reads M = foldl (\<lambda>a ev. fst (ea_read_turn M a ev))"

text \<open>What repeated reads of the client give.\<close>

fun stdin_reads :: "KubeExec \<Rightarrow> nat \<Rightarrow> nat \<Rightarrow> io_read option list" where
  "stdin_reads e len 0 = []"
| "stdin_reads e len (Suc n) = (case StdReader_Read e len of (e', r) \<Rightarrow> r # stdin_reads e' len n)"

lemma pieces_short: "0 < n \<Longrightarrow> b \<in> set (pieces n s) \<Longrightarrow> length b \<le> n"
proof (induction n s rule: pieces.induct)
  case (1 n s)
  then show ?case by (subst (asm) (2) pieces.simps) (auto split: if_splits)
qed

lemma stdin_reads_all:
  "\<forall>b \<in> set (ke_stdin e). length b \<le> len \<Longrightarrow> ke_stopped e \<Longrightarrow>
   stdin_reads e len (Suc (length (ke_stdin e))) = map (Some \<circ> IoData) (ke_stdin e) @ [Some (IoEof [])]"
proof (induction "ke_stdin e" arbitrary: e)
  case Nil
  from Nil(1) [symmetric] Nil(3) show ?case by (simp add: StdReader_Read_def)
next
  case (Cons b bs)
  have k: "ke_stdin e = b # bs" using Cons(2) by simp
  have "stdin_reads (e\<lparr>ke_stdin := bs\<rparr>) len (Suc (length bs)) = map (Some \<circ> IoData) bs @ [Some (IoEof [])]"
    using Cons(1) [of "e\<lparr>ke_stdin := bs\<rparr>"] Cons(3,4) k by simp
  then show ?case using Cons(3) k by (simp add: StdReader_Read_def)
qed

lemma receive_stdin:
  assumes "exec_agrees J M r l" "\<not> ke_stopped e"
  shows "fst (KubeExec_Receive J config U executor e ''kube/exec/input'' (Some (M (ExecStdin_json r l b)))) = e\<lparr>ke_stdin := ke_stdin e @ pieces ExecChunkSize b\<rparr>"
proof -
  have "J (M (ExecStdin_json r l b)) = Some (ExecStdin_json r l b)" using assms(1) by (simp add: exec_agrees_def)
  then have "read_ExecStdin J (Some (M (ExecStdin_json r l b))) = Some b"
    by (simp add: read_ExecStdin_def read_struct_def) (simp add: ExecStdin_json_def field_simps_json)
  then show ?thesis using assms(2) by (simp add: KubeExec_Receive_def when_back_def Let_def)
qed

definition short_pieces :: "KubeExec \<Rightarrow> bool" where
  "short_pieces e \<longleftrightarrow> (\<forall>b \<in> set (ke_stdin e). length b \<le> ExecChunkSize)"

lemma short_pieces_append: "short_pieces e \<Longrightarrow> short_pieces (e\<lparr>ke_stdin := ke_stdin e @ pieces ExecChunkSize b\<rparr>)"
  using pieces_short [of ExecChunkSize _ b] by (auto simp: short_pieces_def ExecChunkSize_def)

lemma exec_upload:
  assumes "exec_agrees J M r l"
  shows "ea_requestId a = r \<Longrightarrow> ea_logId a = l \<Longrightarrow> ea_reading a \<Longrightarrow> sp_stdin (ea_spdy a) \<Longrightarrow> tomb_Alive (ea_tomb a) \<Longrightarrow> \<not> ea_stopped a \<Longrightarrow>
    \<not> ke_stopped e \<Longrightarrow> short_pieces e \<Longrightarrow>
    \<exists>sent. ea_outbox (ea_reads M a (map IoData cs @ [IoEof c])) = ea_outbox a @ sent \<and>
      (let e' = exec_feed J config U executor e sent in
       concat (ke_stdin e') = concat (ke_stdin e) @ ea_buffer a @ concat cs @ c \<and> ke_stopped e' \<and> short_pieces e')"
proof (induction cs arbitrary: a e)
  case Nil
  let ?b = "ea_buffer a @ c"
  let ?m = "(''kube/exec/input'', Some (M (ExecStdin_json r l ?b)))" and ?stop = "(''kube/exec/stop'', Some (M (ExecStop_json [] [])))"
  have cp: "concat (pieces ExecChunkSize ?b) = ?b" by (simp add: concat_pieces ExecChunkSize_def)
  have st: "fst (KubeExec_Receive J config U executor e' ''kube/exec/stop'' pl) = e'\<lparr>ke_stopped := True\<rparr>" for e' pl
    by (simp add: KubeExec_Receive_def)
  show ?case
  proof (cases "?b = []")
    case True
    then have "ea_outbox (ea_reads M a [IoEof c]) = ea_outbox a @ [?stop]"
      using Nil by (simp add: ea_reads_def ea_read_turn_def ea_stop_def ea_send_def Let_def)
    then show ?thesis using True Nil st by (intro exI [of _ "[?stop]"]) (auto simp: exec_feed_def Let_def short_pieces_def)
  next
    case False
    then have "ea_outbox (ea_reads M a [IoEof c]) = ea_outbox a @ [?m, ?stop]"
      using Nil by (simp add: ea_reads_def ea_read_turn_def ea_stop_def ea_send_def sendStdinMessage_def Let_def)
    then show ?thesis
      using receive_stdin [OF assms Nil(7), of config U executor ?b] st cp short_pieces_append [OF Nil(8), of ?b]
      by (intro exI [of _ "[?m, ?stop]"]) (auto simp: exec_feed_def Let_def short_pieces_def)
  qed
next
  case (Cons b bs)
  let ?b = "ea_buffer a @ b"
  have split: "ea_reads M a (map IoData (b # bs) @ [IoEof c]) = ea_reads M (fst (ea_read_turn M a (IoData b))) (map IoData bs @ [IoEof c])"
    by (simp add: ea_reads_def)
  show ?case
  proof (cases "length b \<noteq> ExecChunkSize \<or> ExecDefaultMaxBufferSize < length ?b")
    case True
    let ?m = "(''kube/exec/input'', Some (M (ExecStdin_json r l ?b)))"
    let ?a = "a\<lparr>ea_outbox := ea_outbox a @ [?m], ea_buffer := []\<rparr>" and ?e = "e\<lparr>ke_stdin := ke_stdin e @ pieces ExecChunkSize ?b\<rparr>"
    have t: "fst (ea_read_turn M a (IoData b)) = ?a" using Cons.prems True by (simp add: ea_read_turn_def sendStdinMessage_def ea_send_def Let_def)
    obtain sent where "ea_outbox (ea_reads M ?a (map IoData bs @ [IoEof c])) = ea_outbox ?a @ sent"
      "let e' = exec_feed J config U executor ?e sent in
       concat (ke_stdin e') = concat (ke_stdin ?e) @ ea_buffer ?a @ concat bs @ c \<and> ke_stopped e' \<and> short_pieces e'"
      using Cons.IH [of ?a ?e] Cons.prems short_pieces_append [OF Cons.prems(8), of ?b] by auto
    then show ?thesis using split t receive_stdin [OF assms Cons.prems(7), of config U executor ?b]
      by (intro exI [of _ "?m # sent"]) (simp add: exec_feed_def Let_def concat_pieces ExecChunkSize_def)
  next
    case False
    then have t: "fst (ea_read_turn M a (IoData b)) = a\<lparr>ea_buffer := ?b\<rparr>" using Cons.prems by (simp add: ea_read_turn_def Let_def)
    show ?thesis using Cons.IH [of "a\<lparr>ea_buffer := ?b\<rparr>" e] Cons.prems split t by simp
  qed
qed

text \<open>
  What kubectl sends on standard input is what the command reads: however the input is read
  and collected into messages, the reads of the client on the agent give the same bytes in the
  same order, no piece longer than the chunk size, and then the end of the input.
\<close>

theorem exec_input_delivered:
  assumes "exec_agrees J M r l" and "sp_stdin spdy" and "IsQueryParamPresent (cr_Form rq) ''stdin''" and "\<not> ke_stopped e" and "ke_stdin e = []"
  shows "\<exists>start sent. ea_outbox (ea_reads M (ExecAction_Start M spdy (ExecAction_New r l c) rq) (map IoData cs @ [IoEof b])) = start # sent \<and>
    (let e' = exec_feed J config U executor e sent in
     (\<exists>bs. stdin_reads e' ExecChunkSize (Suc (length bs)) = map (Some \<circ> IoData) bs @ [Some (IoEof [])] \<and> concat bs = concat cs @ b \<and>
        (\<forall>x \<in> set bs. length x \<le> ExecChunkSize)))"
proof -
  let ?a = "ExecAction_Start M spdy (ExecAction_New r l c) rq"
  obtain start where a: "ea_outbox ?a = [start]" "ea_requestId ?a = r" "ea_logId ?a = l" "ea_reading ?a" "sp_stdin (ea_spdy ?a)" "tomb_Alive (ea_tomb ?a)"
    "\<not> ea_stopped ?a" "ea_buffer ?a = []"
    using assms(2,3) by (simp add: ExecAction_Start_def ExecAction_New_def sendStartMessage_def ea_send_def tomb_Alive_def tomb_new_def Let_def)
  obtain sent where s: "ea_outbox (ea_reads M ?a (map IoData cs @ [IoEof b])) = ea_outbox ?a @ sent"
    "let e' = exec_feed J config U executor e sent in concat (ke_stdin e') = concat (ke_stdin e) @ ea_buffer ?a @ concat cs @ b \<and> ke_stopped e' \<and> short_pieces e'"
    using exec_upload [OF assms(1) a(2-7) assms(4), of cs b config U executor] assms(5) by (auto simp: short_pieces_def)
  let ?e = "exec_feed J config U executor e sent"
  have "stdin_reads ?e ExecChunkSize (Suc (length (ke_stdin ?e))) = map (Some \<circ> IoData) (ke_stdin ?e) @ [Some (IoEof [])]"
    using s(2) by (intro stdin_reads_all) (auto simp: short_pieces_def Let_def)
  then show ?thesis using s a(1,8) assms(5) by (auto simp: Let_def short_pieces_def intro!: exI [of _ "ke_stdin ?e"])
qed

section \<open>Output\<close>

definition exec_writes :: "KubeExec \<Rightarrow> (std_stream \<times> string) list \<Rightarrow> KubeExec" where
  "exec_writes = foldl (\<lambda>e (st, b). StdWriter_Write e st b)"

definition ea_stream :: "json_printer \<Rightarrow> (string \<Rightarrow> string) \<Rightarrow> (string \<Rightarrow> string) \<Rightarrow> string ExecAction \<Rightarrow> StreamMessage list \<Rightarrow> string ExecAction" where
  "ea_stream M rest status = foldl (\<lambda>a m. fst (ea_stream_turn M rest log_write status a (ExMessage m)))"

definition output_of :: "std_stream \<Rightarrow> (std_stream \<times> string) list \<Rightarrow> string" where
  "output_of st ws = concat (map snd (filter (\<lambda>w. fst w = st) ws))"

lemma output_of_simps [simp]:
  "output_of st [] = []" "output_of st ((st', b) # ws) = (if st' = st then b @ output_of st ws else output_of st ws)"
  by (simp_all add: output_of_def)

lemma exec_download:
  "ea_streaming a \<Longrightarrow> sp_stdout (ea_spdy a) = Some out \<Longrightarrow> sp_stderr (ea_spdy a) = Some err \<Longrightarrow> \<forall>b. (Stdout, b) \<in> set ws \<longrightarrow> b \<noteq> ''^['' \<Longrightarrow>
   \<exists>sent. ke_stream (exec_writes e ws) = ke_stream e @ sent \<and> ke_running (exec_writes e ws) = ke_running e \<and>
     ke_doneClosed (exec_writes e ws) = ke_doneClosed e \<and>
     (\<exists>s. ea_stream M rest status a sent = a\<lparr>ea_spdy := s\<rparr> \<and> sp_stdout s = Some (out @ output_of Stdout ws) \<and>
        sp_stderr s = Some (err @ output_of Stderr ws) \<and> sp_closed s = sp_closed (ea_spdy a))"
proof (induction ws arbitrary: a e out err)
  case Nil
  show ?case using Nil by (intro exI [of _ "[]"]) (auto simp: exec_writes_def ea_stream_def intro!: exI [of _ "ea_spdy a"])
next
  case (Cons w ws)
  obtain st b where w: "w = (st, b)" by (cases w)
  let ?e = "StdWriter_Write e st b"
  obtain m where m: "ke_stream ?e = ke_stream e @ [m]" "sm_Content m = EncodeToString b" "sm_More m" "ke_running ?e = ke_running e" "ke_doneClosed ?e = ke_doneClosed e"
    "sm_Type m = (case st of Stdout \<Rightarrow> ''stdout'' | Stderr \<Rightarrow> ''stderr'')"
    by (cases st) (simp_all add: StdWriter_Write_def Let_def)
  let ?out = "out @ output_of Stdout [(st, b)]" and ?err = "err @ output_of Stderr [(st, b)]"
  let ?a = "a\<lparr>ea_spdy := (ea_spdy a)\<lparr>sp_stdout := Some ?out, sp_stderr := Some ?err\<rparr>\<rparr>"
  have "st = Stdout \<Longrightarrow> b \<noteq> ''^[''" using Cons.prems(4) w by auto
  then have t: "fst (ea_stream_turn M rest log_write status a (ExMessage m)) = ?a"
    using Cons.prems(1-3) m by (cases st) (auto simp: ea_stream_turn_def spdy_write_def log_write_def Let_def)
  obtain sent s where IH: "ke_stream (exec_writes ?e ws) = ke_stream ?e @ sent" "ke_running (exec_writes ?e ws) = ke_running ?e"
    "ke_doneClosed (exec_writes ?e ws) = ke_doneClosed ?e" "ea_stream M rest status ?a sent = ?a\<lparr>ea_spdy := s\<rparr>"
    "sp_stdout s = Some (?out @ output_of Stdout ws)" "sp_stderr s = Some (?err @ output_of Stderr ws)" "sp_closed s = sp_closed (ea_spdy a)"
    using Cons.IH [of ?a ?out ?err ?e] Cons.prems by auto
  have "exec_writes e (w # ws) = exec_writes ?e ws" using w by (simp add: exec_writes_def)
  then show ?case using IH m(1,4,5) t w
    by (intro exI [of _ "m # sent"]) (auto simp: ea_stream_def)
qed

lemma stream_turn_end:
  assumes "ea_streaming a" and "\<not> ea_doneClosed a" and "sm_Type m = ''stdout''" and "\<not> sm_More m \<or> sm_Content m = EncodeToString ''^[''"
  shows "fst (ea_stream_turn M rest write status a (ExMessage m)) =
    a\<lparr>ea_spdy := (ea_spdy a)\<lparr>sp_closed := True\<rparr>, ea_streaming := False, ea_doneClosed := True, ea_tomb := tomb_return (ea_tomb a) None\<rparr>"
proof -
  have "(case DecodeString (sm_Content m) of Some b \<Rightarrow> b | None \<Rightarrow> rest (sm_Content m)) = ''^['' \<or> \<not> sm_More m"
    using assms(4) Decode_Encode [of "''^[''"] by auto
  then show ?thesis using assms(1-3) by (simp only: ea_stream_turn_def ea_stream_return_def Let_def exec_event.case if_True if_False not_True_eq_False) simp
qed

text \<open>
  The output of a command reaches kubectl: what it writes to standard output and to standard
  error arrives on the same stream in the same order, and when it ends without an error the
  connection is closed. The exception is a write of exactly a circumflex and a bracket, which
  ends the session.
\<close>

theorem exec_output_delivered:
  assumes "ea_streaming a" and "\<not> ea_doneClosed a" and "sp_stdout (ea_spdy a) = Some []" and "sp_stderr (ea_spdy a) = Some []"
    and "\<forall>b. (Stdout, b) \<in> set ws \<longrightarrow> b \<noteq> ''^[''" and "0 < ke_running e" and "\<not> ke_doneClosed e" and "ke_stream e = []"
  shows "\<exists>e'. exec_finish (exec_writes e ws) None = (e', Ok ()) \<and>
    (let a' = ea_stream M rest status a (ke_stream e') in
     sp_stdout (ea_spdy a') = Some (output_of Stdout ws) \<and> sp_stderr (ea_spdy a') = Some (output_of Stderr ws) \<and>
     sp_closed (ea_spdy a') \<and> \<not> ea_streaming a') \<and>
    \<not> ea_streaming (ea_stream M rest status a (ke_stream (StdWriter_Write e Stdout ''^['')))"
proof -
  obtain sent s where d: "ke_stream (exec_writes e ws) = sent" "ke_running (exec_writes e ws) = ke_running e" "ke_doneClosed (exec_writes e ws) = ke_doneClosed e"
    "ea_stream M rest status a sent = a\<lparr>ea_spdy := s\<rparr>" "sp_stdout s = Some (output_of Stdout ws)" "sp_stderr s = Some (output_of Stderr ws)"
    using exec_download [OF assms(1,3,4,5), of e M rest status] assms(8) by auto
  obtain e' m where f: "exec_finish (exec_writes e ws) None = (e', Ok ())" "ke_stream e' = sent @ [m]" "sm_Type m = ''stdout''" "\<not> sm_More m"
    using d(1-3) assms(6,7) by (simp add: exec_finish_def ke_sendStreamMessage_def Let_def)
  have "ea_stream M rest status a (ke_stream e') = fst (ea_stream_turn M rest log_write status (a\<lparr>ea_spdy := s\<rparr>) (ExMessage m))"
    using f(2) d(4) by (simp add: ea_stream_def)
  moreover have "ea_streaming (a\<lparr>ea_spdy := s\<rparr>)" "\<not> ea_doneClosed (a\<lparr>ea_spdy := s\<rparr>)" using assms(1,2) by simp_all
  ultimately have "ea_stream M rest status a (ke_stream e') =
      a\<lparr>ea_spdy := s\<lparr>sp_closed := True\<rparr>, ea_streaming := False, ea_doneClosed := True, ea_tomb := tomb_return (ea_tomb a) None\<rparr>"
    using stream_turn_end [of "a\<lparr>ea_spdy := s\<rparr>" m] f(3,4) by simp
  moreover have "\<not> ea_streaming (ea_stream M rest status a (ke_stream (StdWriter_Write e Stdout ''^['')))"
    using stream_turn_end [OF assms(1,2)] assms(8) by (simp add: ea_stream_def StdWriter_Write_def Let_def)
  ultimately show ?thesis using f(1) d(5,6) by simp
qed

text \<open>
  How exec goes wrong: a client that asks for standard input with \<^verbatim>\<open>stdin=1\<close> does not have to open
  the stream, and reading it crashes the daemon; output that kubectl did not ask for crashes it
  as well; and stopping the action on the agent after its command has ended, or after the
  command has read the end of its input, never comes back.
\<close>

theorem exec_faults:
  assumes "al_get (cr_Form rq) ''stdin'' = Some [''1'']" and "\<not> sp_stdin spdy" and "sp_stdout spdy = None"
    and "sm_Type m = ''stdout''" and "sm_More m" and "sm_Content m = EncodeToString ''x''"
    and "ke_reader e" and "exec_finish e err = (e', Ok ())" and "ke_running e = 1"
  shows "let a = ExecAction_Start M spdy (ExecAction_New r l c) rq in
    \<not> xo_Stdin (extractExecOptions rq) \<and> snd (ea_read_turn M a ev) = Panic \<and> snd (ea_stream_turn M rest write status a (ExMessage m)) = Panic \<and>
    \<not> snd (KubeExec_Kill e') \<and> (ke_stdin e = [] \<and> ke_stopped e \<longrightarrow> \<not> snd (KubeExec_Kill (fst (StdReader_Read e n))))"
proof -
  let ?a = "ExecAction_Start M spdy (ExecAction_New r l c) rq"
  have a: "ea_reading ?a" "ea_streaming ?a" "ea_spdy ?a = spdy" "tomb_Alive (ea_tomb ?a)"
    using assms(1) by (simp_all add: ExecAction_Start_def ExecAction_New_def IsQueryParamPresent_def tomb_Alive_def tomb_new_def Let_def)
  have "ke_running e' = 0" "ke_reader e'"
    using assms(7-9) by (auto simp: exec_finish_def ke_sendStreamMessage_def Let_def split: if_splits option.splits)
  then show ?thesis using a assms(1-7)
    by (simp add: extractExecOptions_def form_value_def ea_read_turn_def ea_stream_turn_def spdy_write_def KubeExec_Kill_def StdReader_Read_def Let_def)
qed

section \<open>Witnesses\<close>

definition wit_exec :: client_request where
  "wit_exec = \<lparr> cr_Header = [], cr_Host = ''localhost'', cr_URL = ''/exec'', cr_Method = ''POST'', cr_Form = [(''stdin'', [''1''])], cr_Body = [] \<rparr>"

theorem exec_input_delivered_witness:
  "\<exists>start sent. ea_outbox (ea_reads codec_print (ExecAction_Start codec_print ((new_spdy :: string SPDYService)\<lparr>sp_stdin := True\<rparr>) (ExecAction_New ''r'' ''l'' ''c'') wit_exec)
      (map IoData [''ls'', ''!''] @ [IoEof []])) = start # sent \<and>
    (\<exists>bs. stdin_reads (exec_feed codec_parse (Ok ()) plain_urls (\<lambda>_ _. Ok ()) (KubeExec_New wit_identity) sent) ExecChunkSize (Suc (length bs)) =
       map (Some \<circ> IoData) bs @ [Some (IoEof [])] \<and> concat bs = ''ls!'')"
proof -
  have a: "exec_agrees codec_parse codec_print ''r'' ''l''" by (simp add: exec_agrees_def)
  have s: "sp_stdin ((new_spdy :: string SPDYService)\<lparr>sp_stdin := True\<rparr>)" by simp
  have q: "IsQueryParamPresent (cr_Form wit_exec) ''stdin''" by code_simp
  have e: "\<not> ke_stopped (KubeExec_New wit_identity)" "ke_stdin (KubeExec_New wit_identity) = []" by (simp_all add: KubeExec_New_def)
  show ?thesis
    using exec_input_delivered [OF a s q e, of "''c''" "[''ls'', ''!'']" "[]" "Ok ()" plain_urls "\<lambda>_ _. Ok ()"] by (auto simp: Let_def simp del: stdin_reads.simps)
qed

definition wit_running :: KubeExec where
  "wit_running = (KubeExec_New wit_identity)\<lparr>ke_running := 1, ke_reader := True\<rparr>"

theorem exec_output_delivered_witness:
  "\<exists>e'. exec_finish (exec_writes wit_running [(Stdout, ''a''), (Stderr, ''b''), (Stdout, ''c'')]) None = (e', Ok ()) \<and>
     sp_stdout (ea_spdy (ea_stream codec_print id id
       ((ExecAction_New ''r'' ''l'' ''c'')\<lparr>ea_streaming := True, ea_spdy := new_spdy\<lparr>sp_stdout := Some [], sp_stderr := Some []\<rparr>\<rparr>) (ke_stream e'))) = Some ''ac''"
proof -
  let ?a = "(ExecAction_New ''r'' ''l'' ''c'')\<lparr>ea_streaming := True, ea_spdy := new_spdy\<lparr>sp_stdout := Some [], sp_stderr := Some []\<rparr>\<rparr> :: string ExecAction"
  let ?ws = "[(Stdout, ''a''), (Stderr, ''b''), (Stdout, ''c'')]"
  have a: "ea_streaming ?a" "\<not> ea_doneClosed ?a" "sp_stdout (ea_spdy ?a) = Some []" "sp_stderr (ea_spdy ?a) = Some []" by (simp_all add: ExecAction_New_def)
  have w: "\<forall>b. (Stdout, b) \<in> set ?ws \<longrightarrow> b \<noteq> ''^[''" by simp
  have e: "0 < ke_running wit_running" "\<not> ke_doneClosed wit_running" "ke_stream wit_running = []" by (simp_all add: wit_running_def KubeExec_New_def)
  show ?thesis using exec_output_delivered [OF a w e, of codec_print id id] by (auto simp: Let_def)
qed

theorem exec_faults_witness:
  "snd (ea_read_turn codec_print (ExecAction_Start codec_print (new_spdy :: string SPDYService) (ExecAction_New ''r'' ''l'' ''c'') wit_exec) (IoData ''x'')) = Panic"
proof -
  let ?m = "stream_message CurrentSchema ''exec'' 0 True ''x''\<lparr>sm_Type := ''stdout''\<rparr>"
  have q: "al_get (cr_Form wit_exec) ''stdin'' = Some [''1'']" by (simp add: wit_exec_def)
  have s: "\<not> sp_stdin (new_spdy :: string SPDYService)" "sp_stdout (new_spdy :: string SPDYService) = None" by (simp_all add: new_spdy_def)
  have m: "sm_Type ?m = ''stdout''" "sm_More ?m" "sm_Content ?m = EncodeToString ''x''" by (simp_all add: stream_message_def)
  obtain e' where e: "ke_reader wit_running" "exec_finish wit_running None = (e', Ok ())" "ke_running wit_running = 1"
    by (simp add: wit_running_def KubeExec_New_def exec_finish_def ke_sendStreamMessage_def Let_def)
  show ?thesis using exec_faults [OF q s m e, of codec_print "''r''" "''l''" "''c''"] by (simp add: Let_def)
qed

end
