(* ===== verification/Kube_Stream.thy ===== *)
theory Kube_Stream
  imports Kube_Rest
begin

text \<open>
  The stream action of \<^verbatim>\<open>bctl/agent/plugin/kube\<close> and \<^verbatim>\<open>bctl/daemon/plugin/kube\<close>: logs and watches. The agent
  sends the headers of the response first and then its body in pieces; the daemon waits for the
  headers and writes the pieces in order.
\<close>

section \<open>Messages\<close>

definition KubeStream_json :: "KubeRequest \<Rightarrow> string \<Rightarrow> jvalue" where
  "KubeStream_json p version =
     VObject [(''endpoint'', VString (kr_Endpoint p)), (''headers'', marshal_headers (kr_Headers p)), (''method'', VString (kr_Method p)),
       (''body'', marshal_string (kr_Body p)), (''requestId'', VString (kr_RequestId p)), (''streamMessageVersion'', VString version),
       (''logId'', VString (kr_LogId p)), (''commandBeingRun'', VString (kr_CommandBeingRun p))]"

definition read_KubeStream :: "json_parser \<Rightarrow> string option \<Rightarrow> (KubeRequest \<times> string) option" where
  "read_KubeStream J pl =
     Option.bind (read_RestRequest J pl) (\<lambda>p.
       Option.bind (read_struct J pl) (\<lambda>kvs. map_option (Pair p) (text_field kvs ''streamMessageVersion'')))"

definition KubeHeaders_json :: "headers \<Rightarrow> jvalue" where
  "KubeHeaders_json hs = VObject [(''Headers'', marshal_headers hs)]"

definition read_KubeHeaders :: "json_parser \<Rightarrow> string \<Rightarrow> headers option" where
  "read_KubeHeaders J bs = Option.bind (read_struct J (Some bs)) (\<lambda>kvs. headers_field kvs ''Headers'')"

section \<open>The agent\<close>

record KubeStream =
  kst_tomb :: tomb
  kst_doneClosed :: bool
  kst_stream :: "StreamMessage list"
  kst_version :: string
  kst_requestId :: string
  kst_identity :: kube_identity
  kst_routines :: "(KubeRequest \<times> int) option list"

definition KubeStream_New :: "kube_identity \<Rightarrow> KubeStream" where
  "KubeStream_New k =
     \<lparr> kst_tomb = tomb_new, kst_doneClosed = False, kst_stream = [], kst_version = [], kst_requestId = [], kst_identity = k, kst_routines = [] \<rparr>"

definition KubeStream_Kill :: "KubeStream \<Rightarrow> KubeStream \<times> bool" where
  "KubeStream_Kill s =
     (if tomb_Alive (kst_tomb s) then (s\<lparr>kst_tomb := tomb_Kill (kst_tomb s) None\<rparr>, tomb_Waits (kst_tomb s)) else (s, True))"

definition kst_sendStreamMessage :: "KubeStream \<Rightarrow> int \<Rightarrow> string \<Rightarrow> bool \<Rightarrow> string \<Rightarrow> string \<Rightarrow> KubeStream" where
  "kst_sendStreamMessage s sequenceNumber streamType moreMessages contentBytes logId =
     s\<lparr>kst_stream := kst_stream s @ [\<lparr> sm_RequestId = kst_requestId s, sm_SchemaVersion = kst_version s, sm_SequenceNumber = sequenceNumber,
         sm_Action = ''stream'', sm_Type = streamType, sm_More = moreMessages, sm_LogId = logId, sm_Content = EncodeToString contentBytes \<rparr>]\<rparr>"

definition kst_data :: "KubeStream \<Rightarrow> int \<Rightarrow> string \<Rightarrow> string \<Rightarrow> KubeStream" where
  "kst_data s n contentBytes logId =
     kst_sendStreamMessage s n (if kst_version s = [] then ''kube/stream/stdout'' else ''data'') True contentBytes logId"

definition startStream :: "json_printer \<Rightarrow> 'u url_lib \<Rightarrow> api \<Rightarrow> KubeStream \<Rightarrow> KubeRequest \<times> string \<Rightarrow> KubeStream \<times> string option res" where
  "startStream M U send s pv =
     (case pv of (p, version) \<Rightarrow>
        let s1 = s\<lparr>kst_requestId := kr_RequestId p, kst_version := version\<rparr> in
        (case identity_request U (kst_identity s) (kr_Endpoint p) (kr_Body p) (kr_Method p) (kr_Headers p) of
           Err e \<Rightarrow> (s1, Err e) | Panic \<Rightarrow> (s1, Panic)
         | Ok rq \<Rightarrow>
            (case send rq of
               Err e \<Rightarrow> (s1, Err (errorf_s ''bad response to API request: '' e)) | Panic \<Rightarrow> (s1, Panic)
             | Ok (res, body) \<Rightarrow>
                let s2 = kst_data s1 0 (M (KubeHeaders_json (rs_Header res))) (kr_LogId p) in
                (case tomb_Go (kst_tomb s) of
                   Ok t \<Rightarrow> (s2\<lparr>kst_tomb := t, kst_routines := kst_routines s @ [Some (p, 1)]\<rparr>, Ok (Some []))
                 | _ \<Rightarrow> (s2, Panic)))))"

definition KubeStream_Receive ::
  "json_parser \<Rightarrow> json_printer \<Rightarrow> 'u url_lib \<Rightarrow> api \<Rightarrow> KubeStream \<Rightarrow> string \<Rightarrow> string option \<Rightarrow> KubeStream \<times> string option res option" where
  "KubeStream_Receive J M U send s action pl =
     (if action = ''kube/stream/start''
      then (case read_KubeStream J pl of
              None \<Rightarrow> (s, Some (Err (errorf ''malformed Kube Stream Action payload '')))
            | Some pv \<Rightarrow> apsnd Some (startStream M U send s pv))
      else if action = ''kube/stream/stop''
      then (case read_KubeStream J pl of
              None \<Rightarrow> (s, Some (Err (errorf ''malformed Kube Stream Action payload '')))
            | Some pv \<Rightarrow> when_back (KubeStream_Kill s) (Ok (Some [])))
      else (s, Some (Err (errorf (''unhandled stream action: '' @ action)))))"

text \<open>The logs there are when following them failed; every error is ignored.\<close>

definition handleLastLogStream :: "'u url_lib \<Rightarrow> api \<Rightarrow> KubeStream \<Rightarrow> 'u \<Rightarrow> KubeRequest \<Rightarrow> int \<Rightarrow> KubeStream" where
  "handleLastLogStream U send s url p n =
     (case identity_request U (kst_identity s) (url_del_query U url ''follow'') (kr_Body p) (kr_Method p) (kr_Headers p) of
        Ok rq \<Rightarrow> (case send rq of Ok (res, body) \<Rightarrow> (case ReadAll body of Ok bodyBytes \<Rightarrow> kst_data s n bodyBytes (kr_LogId p) | _ \<Rightarrow> s) | _ \<Rightarrow> s)
      | _ \<Rightarrow> s)"

definition kst_return :: "KubeStream \<Rightarrow> nat \<Rightarrow> gerror option \<Rightarrow> KubeStream \<times> unit res" where
  "kst_return s i err =
     (if kst_doneClosed s then (s, Panic)
      else (s\<lparr>kst_doneClosed := True, kst_routines := (kst_routines s)[i := None], kst_tomb := tomb_return (kst_tomb s) err\<rparr>, Ok ()))"

text \<open>
  A round of the routine. A read is cancelled only when the tomb is dying, which is looked at
  first, so another error is a failure of the connection.
\<close>

definition kst_turn :: "'u url_lib \<Rightarrow> api \<Rightarrow> KubeStream \<Rightarrow> nat \<Rightarrow> io_read \<Rightarrow> KubeStream \<times> unit res" where
  "kst_turn U send s i ev =
     (case (if i < length (kst_routines s) then kst_routines s ! i else None) of
        None \<Rightarrow> (s, Ok ())
      | Some (p, n) \<Rightarrow>
         let endMessage = (\<lambda>s b. kst_sendStreamMessage s n (if kst_version s = [] then ''kube/stream/end'' else ''stream'') False b (kr_LogId p)) in
         if \<not> tomb_Alive (kst_tomb s) then kst_return s i None
         else (case ev of
                 IoData b \<Rightarrow> ((kst_data s n b (kr_LogId p))\<lparr>kst_routines := (kst_routines s)[i := Some (p, n + 1)]\<rparr>, Ok ())
               | IoEof b \<Rightarrow> kst_return (endMessage s b) i (Some (errorf ''EOF''))
               | IoFail b e \<Rightarrow>
                   let s1 = (if n = 1
                             then (case url_Parse U (kr_Endpoint p) of
                                     Ok url \<Rightarrow> if has_suffix ''/log'' (url_Path U url) then handleLastLogStream U send s url p n else s
                                   | _ \<Rightarrow> s)
                             else s)
                   in kst_return (endMessage s1 b) i (Some e)))"

fun kst_turns :: "'u url_lib \<Rightarrow> api \<Rightarrow> KubeStream \<Rightarrow> nat \<Rightarrow> io_read list \<Rightarrow> KubeStream \<times> unit res" where
  "kst_turns U send s i [] = (s, Ok ())"
| "kst_turns U send s i (ev # evs) = (case kst_turn U send s i ev of (s', Ok _) \<Rightarrow> kst_turns U send s' i evs | r \<Rightarrow> r)"

section \<open>The daemon\<close>

text \<open>
  \<^verbatim>\<open>Start\<close> waits for the headers, then streams, then has returned. Headers set on the writer are
  calls; the body is what the writer has taken. Content that is not base64 is what \<^verbatim>\<open>DecodeString\<close>
  leaves, an argument.
\<close>

datatype stream_phase = WaitHeaders | Streaming | Returned "unit res"

record 'w StreamAction =
  st_requestId :: string
  st_logId :: string
  st_command :: string
  st_doneClosed :: bool
  st_outbox :: "(string \<times> string option) list"
  st_expected :: int
  st_outOfOrder :: "(int \<times> StreamMessage) list"
  st_headers :: "writer_call list"
  st_writer :: 'w
  st_phase :: stream_phase
  st_payload :: KubeRequest

definition StreamAction_New :: "string \<Rightarrow> string \<Rightarrow> string \<Rightarrow> bool \<Rightarrow> 'w \<Rightarrow> 'w StreamAction" where
  "StreamAction_New requestId logId command doneClosed writer =
     \<lparr> st_requestId = requestId, st_logId = logId, st_command = command, st_doneClosed = doneClosed, st_outbox = [], st_expected = 1,
       st_outOfOrder = [], st_headers = [], st_writer = writer, st_phase = WaitHeaders,
       st_payload = \<lparr> kr_Endpoint = [], kr_Headers = [], kr_Method = [], kr_Body = [], kr_RequestId = [], kr_LogId = [], kr_CommandBeingRun = [] \<rparr> \<rparr>"

definition st_close :: "'w StreamAction \<Rightarrow> 'w StreamAction \<times> unit res" where
  "st_close a = (a\<lparr>st_doneClosed := True\<rparr>, if st_doneClosed a then Panic else Ok ())"

definition StreamAction_Kill :: "'w StreamAction \<Rightarrow> 'w StreamAction \<times> unit res" where
  "StreamAction_Kill a = st_close a"

definition st_return :: "'w StreamAction \<Rightarrow> unit res \<Rightarrow> 'w StreamAction" where
  "st_return a r = a\<lparr>st_phase := Returned r\<rparr>"

text \<open>Closing the done channel and returning; the close may panic.\<close>

definition st_finish :: "'w StreamAction \<Rightarrow> unit res \<Rightarrow> 'w StreamAction" where
  "st_finish a r = (case st_close a of (a', Ok _) \<Rightarrow> st_return a' r | (a', e) \<Rightarrow> st_return a' e)"

definition StreamAction_Start :: "json_printer \<Rightarrow> 'w StreamAction \<Rightarrow> client_request \<Rightarrow> 'w StreamAction" where
  "StreamAction_Start M a rq =
     (case GetBodyBytes (cr_Body rq) of
        Err e \<Rightarrow> st_return a (Err e) | Panic \<Rightarrow> st_return a Panic
      | Ok bodyInBytes \<Rightarrow>
         let p = kube_request (st_requestId a) (st_logId a) (st_command a) rq bodyInBytes in
         a\<lparr>st_payload := p, st_outbox := st_outbox a @ [(''kube/stream/start'', Some (M (KubeStream_json p CurrentSchema)))]\<rparr>)"

definition decoded :: "(string \<Rightarrow> string) \<Rightarrow> string \<Rightarrow> string" where
  "decoded rest content = (case DecodeString content of Some b \<Rightarrow> b | None \<Rightarrow> rest content)"

text \<open>The loop over early messages does not remove them.\<close>

lemma al_get_keys: "al_get m k = Some v \<Longrightarrow> k \<in> set (al_keys m)"
  by (metis al_get_None option.distinct(1))

function early_messages ::
  "(string \<Rightarrow> string) \<Rightarrow> ('w \<Rightarrow> string \<Rightarrow> 'w \<times> unit res) \<Rightarrow> (int \<times> StreamMessage) list \<Rightarrow> int \<Rightarrow> 'w \<Rightarrow> int \<times> 'w" where
  "early_messages rest write msgs expected writer =
     (case al_get msgs expected of
        None \<Rightarrow> (expected, writer)
      | Some m \<Rightarrow>
         (case WriteToHttpRequest write (decoded rest (sm_Content m)) writer of
            (w, Ok _) \<Rightarrow> early_messages rest write msgs (expected + 1) w
          | (w, _) \<Rightarrow> (expected, w)))"
  by pat_completeness auto
termination
proof (relation "measure (\<lambda>(rest, write, msgs, expected, writer). card {k \<in> set (al_keys msgs). expected \<le> k})")
  fix rest :: "string \<Rightarrow> string" and wr :: "'w \<Rightarrow> string \<Rightarrow> 'w \<times> unit res" and msgs :: "(int \<times> StreamMessage) list" and expected :: int and writer w :: "'w" and m
  assume "al_get msgs expected = Some m"
  then have "expected \<in> {k \<in> set (al_keys msgs). expected \<le> k}" by (auto dest: al_get_keys)
  then have "{k \<in> set (al_keys msgs). expected + 1 \<le> k} \<subset> {k \<in> set (al_keys msgs). expected \<le> k}" by force
  then show "((rest, wr, msgs, expected + 1, w), rest, wr, msgs, expected, writer)
      \<in> measure (\<lambda>(rest, write, msgs, expected, writer). card {k \<in> set (al_keys msgs). expected \<le> k})"
    by (simp add: psubset_card_mono)
qed simp

declare early_messages.simps [simp del]

definition handleOutOfOrderMessage ::
  "(string \<Rightarrow> string) \<Rightarrow> ('w \<Rightarrow> string \<Rightarrow> 'w \<times> unit res) \<Rightarrow> 'w StreamAction \<Rightarrow> 'w StreamAction" where
  "handleOutOfOrderMessage rest write a =
     (case early_messages rest write (st_outOfOrder a) (st_expected a) (st_writer a) of (e, w) \<Rightarrow> a\<lparr>st_expected := e, st_writer := w\<rparr>)"

datatype kube_event = StMessage StreamMessage | StDone | StCancelled | StTimeout

definition wait_turn ::
  "json_parser \<Rightarrow> (string \<Rightarrow> string) \<Rightarrow> ('w \<Rightarrow> string \<Rightarrow> 'w \<times> unit res) \<Rightarrow> 'w StreamAction \<Rightarrow> kube_event \<Rightarrow> 'w StreamAction" where
  "wait_turn J rest write a ev =
     (case ev of
        StDone \<Rightarrow> if st_doneClosed a then st_return a (Ok ()) else a
      | StTimeout \<Rightarrow> st_return a (Err (errorf ''timed out waiting for initial header message''))
      | StCancelled \<Rightarrow> a
      | StMessage m \<Rightarrow>
         (case read_KubeHeaders J (decoded rest (sm_Content m)) of
            None \<Rightarrow> a\<lparr>st_outOfOrder := al_set (st_outOfOrder a) (sm_SequenceNumber m) m\<rparr>
          | Some hs \<Rightarrow>
             handleOutOfOrderMessage rest write
               (a\<lparr>st_phase := Streaming, st_headers := st_headers a @ concat (map (\<lambda>(name, values). map (HeaderSet name) values) hs)\<rparr>)))"

definition stream_turn ::
  "json_printer \<Rightarrow> (string \<Rightarrow> string) \<Rightarrow> ('w \<Rightarrow> string \<Rightarrow> 'w \<times> unit res) \<Rightarrow> 'w StreamAction \<Rightarrow> kube_event \<Rightarrow> 'w StreamAction" where
  "stream_turn M rest write a ev =
     (case ev of
        StDone \<Rightarrow> if st_doneClosed a then st_return a (Ok ()) else a
      | StTimeout \<Rightarrow> a
      | StCancelled \<Rightarrow>
         (case st_close (a\<lparr>st_outbox := st_outbox a @ [(''kube/stream/stop'', Some (M (KubeStream_json ((st_payload a)\<lparr>kr_CommandBeingRun := []\<rparr>) [])))]\<rparr>) of
            (a', Ok _) \<Rightarrow> a' | (a', r) \<Rightarrow> st_return a' r)
      | StMessage m \<Rightarrow>
         if sm_Type m \<in> {''kube/stream/stdout'', ''kube/stream/end'', ''data''}
         then (if sm_Type m = ''kube/stream/end'' \<or> (sm_Type m = ''data'' \<and> \<not> sm_More m) then st_finish a (Ok ())
               else if sm_SequenceNumber m = st_expected a
               then (case WriteToHttpRequest write (decoded rest (sm_Content m)) (st_writer a) of
                       (w, Ok _) \<Rightarrow> handleOutOfOrderMessage rest write (a\<lparr>st_writer := w, st_expected := st_expected a + 1\<rparr>)
                     | (w, Err e) \<Rightarrow> st_finish (a\<lparr>st_writer := w\<rparr>) (Err (errorf_s ''could not write response: '' e))
                     | (w, Panic) \<Rightarrow> st_return (a\<lparr>st_writer := w\<rparr>) Panic)
               else a\<lparr>st_outOfOrder := al_set (st_outOfOrder a) (sm_SequenceNumber m) m\<rparr>)
         else a)"

definition st_turn ::
  "json_parser \<Rightarrow> json_printer \<Rightarrow> (string \<Rightarrow> string) \<Rightarrow> ('w \<Rightarrow> string \<Rightarrow> 'w \<times> unit res) \<Rightarrow> 'w StreamAction \<Rightarrow> kube_event \<Rightarrow> 'w StreamAction" where
  "st_turn J M rest write a ev =
     (case st_phase a of WaitHeaders \<Rightarrow> wait_turn J rest write a ev | Streaming \<Rightarrow> stream_turn M rest write a ev | Returned _ \<Rightarrow> a)"

section \<open>The pieces arrive in order\<close>

definition kube_step :: "(string \<Rightarrow> string) \<Rightarrow> string \<Rightarrow> StreamMessage \<Rightarrow> string \<times> bool" where
  "kube_step rest out m = (out @ decoded rest (sm_Content m), True)"

definition kube_sq :: "StreamMessage \<Rightarrow> int" where
  "kube_sq m = sm_SequenceNumber m - 1"

lemma write_log [simp]: "WriteToHttpRequest log_write b w = (w @ b, Ok ())"
  by (simp add: WriteToHttpRequest_def log_write_def)

text \<open>The loop over early messages does what the loop that removes them does.\<close>

lemma early_drain:
  "distinct (al_keys buf) \<Longrightarrow> \<forall>j \<ge> e. al_get msgs (j + 1) = al_get buf j \<Longrightarrow>
   \<exists>e' buf' out'. drain (kube_step rest) e buf out = (e', buf', out', True) \<and> early_messages rest log_write msgs (e + 1) out = (e' + 1, out') \<and>
     distinct (al_keys buf') \<and> (\<forall>j \<ge> e'. al_get msgs (j + 1) = al_get buf' j) \<and> al_get buf' e' = None"
proof (induction "kube_step rest" e buf out rule: drain.induct)
  case (1 e buf out)
  show ?case
  proof (cases "al_get buf e")
    case None
    then have "early_messages rest log_write msgs (e + 1) out = (e + 1, out)" using 1(3) by (subst early_messages.simps) simp
    then show ?thesis using None 1(2,3) by (subst drain.simps) simp
  next
    case (Some m)
    let ?out = "out @ decoded rest (sm_Content m)" and ?buf = "al_delete buf e"
    have "distinct (al_keys ?buf)" "\<forall>j \<ge> e + 1. al_get msgs (j + 1) = al_get ?buf j"
      using 1(2,3) by (auto simp: distinct_al_delete al_get_delete)
    from 1(1) [OF Some _ refl this] have IH: "\<exists>e' buf' out'. drain (kube_step rest) (e + 1) ?buf ?out = (e', buf', out', True) \<and>
        early_messages rest log_write msgs (e + 1 + 1) ?out = (e' + 1, out') \<and>
        distinct (al_keys buf') \<and> (\<forall>j \<ge> e'. al_get msgs (j + 1) = al_get buf' j) \<and> al_get buf' e' = None"
      by (simp add: kube_step_def)
    moreover have "drain (kube_step rest) e buf out = drain (kube_step rest) (e + 1) ?buf ?out"
      using Some by (subst drain.simps) (simp add: kube_step_def)
    moreover have "al_get msgs (e + 1) = Some m" using 1(3) Some by simp
    then have "early_messages rest log_write msgs (e + 1) out = early_messages rest log_write msgs (e + 1 + 1) ?out"
      by (subst early_messages.simps) simp
    ultimately show ?thesis by simp
  qed
qed

definition kube_sim :: "string StreamAction \<Rightarrow> (StreamMessage, string) inbox \<Rightarrow> bool" where
  "kube_sim a st =
     (case st of (e, buf, out, r) \<Rightarrow>
        r \<and> st_phase a = Streaming \<and> st_expected a = e + 1 \<and> st_writer a = out \<and> distinct (al_keys buf) \<and>
        (\<forall>j \<ge> e. al_get (st_outOfOrder a) (j + 1) = al_get buf j) \<and> al_get buf e = None)"

lemma sim_handle:
  assumes "st_phase a = Streaming" "st_expected a = e + 1" "distinct (al_keys buf)" "\<forall>j \<ge> e. al_get (st_outOfOrder a) (j + 1) = al_get buf j"
  shows "kube_sim (handleOutOfOrderMessage rest log_write a) (drain (kube_step rest) e buf (st_writer a))"
  using early_drain [OF assms(3,4), of rest "st_writer a"] assms(1,2) by (auto simp: kube_sim_def handleOutOfOrderMessage_def)

lemma sim_turn:
  assumes "kube_sim a st" "sm_Type m = ''data''" "sm_More m"
  shows "kube_sim (st_turn J M rest log_write a (StMessage m)) (accept (kube_step rest) kube_sq st m)"
proof -
  obtain e buf out where st: "st = (e, buf, out, True)" using assms(1) by (cases st) (auto simp: kube_sim_def)
  note a = assms(1) [unfolded st kube_sim_def, simplified]
  let ?q = "sm_SequenceNumber m" and ?buf = "al_set buf (kube_sq m) m"
  show ?thesis
  proof (cases "?q = e + 1")
    case True
    let ?a = "a\<lparr>st_writer := out @ decoded rest (sm_Content m), st_expected := e + 1 + 1\<rparr>"
    have t: "st_turn J M rest log_write a (StMessage m) = handleOutOfOrderMessage rest log_write ?a"
      using a assms(2,3) True by (simp add: st_turn_def stream_turn_def)
    have "drain (kube_step rest) e ?buf out = drain (kube_step rest) (e + 1) (al_delete ?buf e) (out @ decoded rest (sm_Content m))"
      using True by (subst drain.simps) (simp add: kube_step_def kube_sq_def)
    moreover have "kube_sim (handleOutOfOrderMessage rest log_write ?a) (drain (kube_step rest) (e + 1) (al_delete ?buf e) (st_writer ?a))"
      by (rule sim_handle) (use a True in \<open>auto simp: distinct_al_delete al_get_delete kube_sq_def\<close>)
    ultimately show ?thesis using t st by (simp add: accept_def)
  next
    case False
    then have "al_get ?buf e = None" using a by (auto simp: kube_sq_def)
    then have "drain (kube_step rest) e ?buf out = (e, ?buf, out, True)" by (subst drain.simps) simp
    moreover have "st_turn J M rest log_write a (StMessage m) = a\<lparr>st_outOfOrder := al_set (st_outOfOrder a) ?q m\<rparr>"
      using a assms(2,3) False by (simp add: st_turn_def stream_turn_def)
    ultimately show ?thesis using st a \<open>al_get ?buf e = None\<close> by (auto simp: accept_def kube_sim_def kube_sq_def)
  qed
qed

definition kube_data :: "StreamMessage \<Rightarrow> bool" where
  "kube_data m \<longleftrightarrow> sm_Type m = ''data'' \<and> sm_More m"

lemma sim_turns:
  "kube_sim a st \<Longrightarrow> list_all kube_data ms \<Longrightarrow>
   kube_sim (foldl (st_turn J M rest log_write) a (map StMessage ms)) (foldl (accept (kube_step rest) kube_sq) st ms)"
  by (induction ms arbitrary: a st) (simp_all add: sim_turn kube_data_def)

lemma turns_headers:
  "st_phase a = Streaming \<Longrightarrow> list_all kube_data ms \<Longrightarrow>
   st_headers (foldl (st_turn J M rest log_write) a (map StMessage ms)) = st_headers a \<and>
   st_phase (foldl (st_turn J M rest log_write) a (map StMessage ms)) = Streaming"
proof (induction ms arbitrary: a)
  case (Cons m ms)
  then have "st_phase (st_turn J M rest log_write a (StMessage m)) = Streaming \<and> st_headers (st_turn J M rest log_write a (StMessage m)) = st_headers a"
    by (auto simp: st_turn_def stream_turn_def kube_data_def handleOutOfOrderMessage_def split: prod.splits)
  then show ?case using Cons by simp
qed simp

section \<open>Waiting for the headers\<close>

lemma wait_turns:
  "st_phase a = WaitHeaders \<Longrightarrow> \<forall>m \<in> set es. read_KubeHeaders J (decoded rest (sm_Content m)) = None \<Longrightarrow>
   foldl (st_turn J M rest write) a (map StMessage es) = a\<lparr>st_outOfOrder := foldl (\<lambda>b m. al_set b (sm_SequenceNumber m) m) (st_outOfOrder a) es\<rparr>"
  by (induction es arbitrary: a) (simp_all add: st_turn_def wait_turn_def)

lemma stored:
  assumes "numbered sq ms"
  shows "set is \<subseteq> {0..<length ms} \<Longrightarrow>
    al_get (foldl (\<lambda>b m. al_set b (sq m) m) [] (map ((!) ms) is)) j = (if j \<in> int ` set is then Some (ms ! nat j) else None)"
  by (induction "is" rule: rev_induct) (use assms in \<open>auto simp: numbered_def\<close>)

lemma stored_shift:
  "al_get (foldl (\<lambda>b m. al_set b (sm_SequenceNumber m) m) [] es) (j + 1) = al_get (foldl (\<lambda>b m. al_set b (kube_sq m) m) [] es) j"
  by (induction es rule: rev_induct) (auto simp: kube_sq_def)

lemma distinct_stored: "distinct (al_keys (foldl (\<lambda>b m. al_set b (sq m) m) [] es))"
  by (induction es rule: rev_induct) simp_all

lemma in_order_kube: "in_order (kube_step rest) out ms = (out @ concat (map (\<lambda>m. decoded rest (sm_Content m)) ms), True)"
  by (induction ms arbitrary: out) (simp_all add: kube_step_def)

text \<open>Whatever arrives before the headers is written once they are there, and the rest after it.\<close>

lemma kube_any_order:
  assumes "numbered kube_sq ms" "mset (es @ ls) = mset ms" "list_all kube_data ms"
    and "\<forall>m \<in> set ms. read_KubeHeaders J (decoded rest (sm_Content m)) = None" and "read_KubeHeaders J (decoded rest (sm_Content h)) = Some hs"
    and "st_phase a = WaitHeaders" "st_outOfOrder a = []" "st_expected a = 1"
  shows "let a' = foldl (st_turn J M rest log_write) a (map StMessage (es @ h # ls)) in
    st_phase a' = Streaming \<and> st_headers a' = st_headers a @ concat (map (\<lambda>(name, values). map (HeaderSet name) values) hs) \<and>
    st_writer a' = st_writer a @ concat (map (\<lambda>m. decoded rest (sm_Content m)) ms)"
proof -
  obtain "is" where i: "es @ ls = map ((!) ms) is" "distinct is" "set is = {0..<length ms}"
    using permutation_of_indices [OF assms(2) numbered_distinct [OF assms(1)]] .
  then obtain is1 is2 where is12: "is = is1 @ is2" "es = map ((!) ms) is1" "ls = map ((!) ms) is2"
    by (metis append_eq_map_conv)
  have sub: "set es \<subseteq> set ms" "set ls \<subseteq> set ms" using mset_eq_setD [OF assms(2)] by auto
  let ?buf = "foldl (\<lambda>b m. al_set b (kube_sq m) m) [] es" and ?out = "st_writer a"
  let ?a1 = "a\<lparr>st_outOfOrder := foldl (\<lambda>b m. al_set b (sm_SequenceNumber m) m) [] es\<rparr>"
  let ?a2 = "?a1\<lparr>st_phase := Streaming, st_headers := st_headers a @ concat (map (\<lambda>(name, values). map (HeaderSet name) values) hs)\<rparr>"
  let ?a3 = "handleOutOfOrderMessage rest log_write ?a2"
  have w: "foldl (st_turn J M rest log_write) a (map StMessage es) = ?a1"
    using wait_turns [OF assms(6), of es J rest M log_write] assms(4,7) sub(1) by auto
  have h: "st_turn J M rest log_write ?a1 (StMessage h) = ?a3"
    using assms(5,6) by (simp add: st_turn_def wait_turn_def)
  have sim: "kube_sim ?a3 (drain (kube_step rest) 0 ?buf ?out)"
    using sim_handle [of ?a2 0 ?buf rest] assms(8) by (simp add: stored_shift distinct_stored)
  have "running_inbox (kube_step rest) ms ?out (int ` set is1) 0 ?buf ?out"
  proof -
    have s1: "set is1 \<subseteq> {0..<length ms}" using i(3) is12(1) by auto
    have "al_get ?buf j = (if j \<in> int ` set is1 \<and> 0 \<le> j then Some (ms ! nat j) else None)" for j
      using stored [OF assms(1) s1, of j] is12(2) by auto
    then show ?thesis using i(3) is12(1) distinct_stored by (auto simp: running_inbox_def)
  qed
  then have "inbox_inv (kube_step rest) ms ?out (int ` set is1) (drain (kube_step rest) 0 ?buf ?out)" by (rule drain_inv)
  moreover have "distinct is2" "set is2 \<subseteq> {0..<length ms}" "int ` set is2 \<inter> int ` set is1 = {}" using i(2,3) is12(1) by auto
  ultimately have "inbox_inv (kube_step rest) ms ?out (int ` set is1 \<union> int ` set is2)
      (foldl (accept (kube_step rest) kube_sq) (drain (kube_step rest) 0 ?buf ?out) ls)"
    unfolding is12(3) by (rule accept_all_inv [OF assms(1)])
  moreover have "int ` set is1 \<union> int ` set is2 = int ` {0..<length ms}" using i(3) is12(1) by (metis image_Un set_append)
  ultimately have inv: "inbox_inv (kube_step rest) ms ?out (int ` {0..<length ms})
      (foldl (accept (kube_step rest) kube_sq) (drain (kube_step rest) 0 ?buf ?out) ls)" by simp
  have d: "list_all kube_data ls" using assms(3) sub(2) by (auto simp: list_all_iff)
  obtain e buf out r where f: "foldl (accept (kube_step rest) kube_sq) (drain (kube_step rest) 0 ?buf ?out) ls = (e, buf, out, r)"
    by (rule prod_cases4)
  have "out = ?out @ concat (map (\<lambda>m. decoded rest (sm_Content m)) ms)"
    using inbox_complete [OF inv [unfolded f]] by (simp add: in_order_kube)
  then have "st_writer (foldl (st_turn J M rest log_write) ?a3 (map StMessage ls)) = ?out @ concat (map (\<lambda>m. decoded rest (sm_Content m)) ms)"
    using sim_turns [OF sim d, of J M rest] f by (simp add: kube_sim_def)
  moreover have "st_phase ?a3 = Streaming" "st_headers ?a3 = st_headers ?a2" by (simp_all add: handleOutOfOrderMessage_def split: prod.splits)
  ultimately show ?thesis using turns_headers [of ?a3 ls J M rest] d w h by (simp add: Let_def)
qed

section \<open>From the API server to kubectl\<close>

definition kube_message :: "string \<Rightarrow> string \<Rightarrow> string \<Rightarrow> int \<Rightarrow> string \<Rightarrow> StreamMessage" where
  "kube_message v requestId logId n b = \<lparr> sm_RequestId = requestId, sm_SchemaVersion = v, sm_SequenceNumber = n, sm_Action = ''stream'', sm_Type = ''data'',
     sm_More = True, sm_LogId = logId, sm_Content = EncodeToString b \<rparr>"

lemma kst_turns_data:
  assumes "kst_version s \<noteq> []" "tomb_Alive (kst_tomb s)" "i < length (kst_routines s)" "kst_routines s ! i = Some (p, n)"
  shows "\<exists>s'. kst_turns U send s i (map IoData bs) = (s', Ok ()) \<and>
    kst_stream s' = kst_stream s @ map (\<lambda>(k, b). kube_message (kst_version s) (kst_requestId s) (kr_LogId p) (n + int k) b) (enumerate 0 bs)"
  using assms
proof (induction bs arbitrary: s n)
  case (Cons b bs)
  let ?s = "(kst_data s n b (kr_LogId p))\<lparr>kst_routines := (kst_routines s)[i := Some (p, n + 1)]\<rparr>"
  have t: "kst_turn U send s i (IoData b) = (?s, Ok ())" using Cons.prems by (simp add: kst_turn_def Let_def)
  obtain s' where s': "kst_turns U send ?s i (map IoData bs) = (s', Ok ())"
    "kst_stream s' = kst_stream ?s @ map (\<lambda>(k, b). kube_message (kst_version ?s) (kst_requestId ?s) (kr_LogId p) (n + 1 + int k) b) (enumerate 0 bs)"
    using Cons.IH [of ?s "n + 1"] Cons.prems by (auto simp: kst_data_def kst_sendStreamMessage_def)
  have "map (\<lambda>(k, b). f (n + 1 + int k) b) (enumerate 0 bs) = map (\<lambda>(k, b). f (n + int k) b) (enumerate (Suc 0) bs)" for f :: "int \<Rightarrow> string \<Rightarrow> StreamMessage"
    by (auto intro!: nth_equalityI simp: nth_enumerate_eq algebra_simps)
  then show ?case using t s' Cons.prems by (simp add: kst_data_def kst_sendStreamMessage_def kube_message_def)
qed simp

lemma read_KubeHeaders_json:
  assumes "J s = Some (KubeHeaders_json hs)" "distinct (map fst hs)"
  shows "read_KubeHeaders J s = Some hs"
  using assms(1) by (simp add: read_KubeHeaders_def read_struct_def KubeHeaders_json_def)
    (use assms(2) in \<open>simp add: field_simps_json marshal_headers_def decode_headers headers_roundtrip\<close>)

text \<open>
  A stream of the API server reaches kubectl: the agent sends the headers and then every piece
  of the body, and in whatever order these messages arrive, the daemon sets the headers and
  writes the pieces in order, as long as no piece reads as a message of headers.
\<close>

theorem kube_stream_delivered:
  assumes "identity_request U k (kr_Endpoint p) (kr_Body p) (kr_Method p) (kr_Headers p) = Ok q" and "send q = Ok (res, rbody)" and "v \<noteq> []"
    and "J (M (KubeHeaders_json (rs_Header res))) = Some (KubeHeaders_json (rs_Header res))" and "distinct (map fst (rs_Header res))"
    and "\<forall>b \<in> set bs. read_KubeHeaders J b = None" and "GetBodyBytes (cr_Body rq) = Ok body"
  shows "\<exists>s s' header ms. startStream M U send (KubeStream_New k) (p, v) = (s, Ok (Some [])) \<and> kst_stream s = [header] \<and>
    kst_turns U send s 0 (map IoData bs) = (s', Ok ()) \<and> kst_stream s' = header # ms \<and>
    (\<forall>es ls. mset (es @ ls) = mset ms \<longrightarrow>
       (let a = foldl (st_turn J M rest log_write) (StreamAction_Start M (StreamAction_New r l c False w) rq) (map StMessage (es @ header # ls)) in
        st_phase a = Streaming \<and> st_headers a = concat (map (\<lambda>(name, values). map (HeaderSet name) values) (rs_Header res)) \<and>
        st_writer a = w @ concat bs))"
proof -
  let ?h = "kube_message v (kr_RequestId p) (kr_LogId p) 0 (M (KubeHeaders_json (rs_Header res)))"
  let ?ms = "map (\<lambda>(k, b). kube_message v (kr_RequestId p) (kr_LogId p) (1 + int k) b) (enumerate 0 bs)"
  let ?a = "StreamAction_Start M (StreamAction_New r l c False w) rq"
  obtain s where s: "startStream M U send (KubeStream_New k) (p, v) = (s, Ok (Some []))" "kst_stream s = [?h]" "kst_version s = v"
    "kst_requestId s = kr_RequestId p" "tomb_Alive (kst_tomb s)" "kst_routines s = [Some (p, 1)]"
    using assms(1-3) by (simp add: startStream_def KubeStream_New_def kst_data_def kst_sendStreamMessage_def kube_message_def tomb_Alive_def tomb_new_def
        tomb_Go_def Let_def)
  obtain s' where s': "kst_turns U send s 0 (map IoData bs) = (s', Ok ())" "kst_stream s' = ?h # ?ms"
    using kst_turns_data [of s 0 p 1 U send bs] s assms(3) by auto
  have num: "numbered kube_sq ?ms" by (simp add: numbered_def kube_sq_def kube_message_def nth_enumerate_eq)
  have dat: "list_all kube_data ?ms" by (auto simp: list_all_iff kube_data_def kube_message_def)
  have dec: "decoded rest (sm_Content (kube_message v r' l' n b)) = b" for r' l' n b by (simp add: decoded_def kube_message_def)
  have none: "\<forall>m \<in> set ?ms. read_KubeHeaders J (decoded rest (sm_Content m)) = None"
    using assms(6) by (auto simp: dec in_set_enumerate_eq)
  have hd: "read_KubeHeaders J (decoded rest (sm_Content ?h)) = Some (rs_Header res)"
    using read_KubeHeaders_json [of J, OF assms(4,5)] by (simp add: dec)
  have cc: "concat (map (\<lambda>m. decoded rest (sm_Content m)) ?ms) = concat bs"
    by (simp add: dec comp_def case_prod_beta)
  have a: "st_phase ?a = WaitHeaders" "st_outOfOrder ?a = []" "st_expected ?a = 1" "st_headers ?a = []" "st_writer ?a = w"
    using assms(7) by (simp_all add: StreamAction_Start_def StreamAction_New_def Let_def)
  have "let a = foldl (st_turn J M rest log_write) ?a (map StMessage (es @ ?h # ls)) in
        st_phase a = Streaming \<and> st_headers a = concat (map (\<lambda>(name, values). map (HeaderSet name) values) (rs_Header res)) \<and> st_writer a = w @ concat bs"
    if "mset (es @ ls) = mset ?ms" for es ls
    using kube_any_order [OF num that dat none hd a(1-3), of M] a(4,5) cc by (simp add: Let_def)
  then show ?thesis using s(1,2) s' by blast
qed

text \<open>
  How a kube stream goes wrong. With the current messages the daemon does not recognise the
  end of the stream, whose type it does not look at; with the old ones it ends at once, whatever
  is missing. A request that is cancelled can be noticed as cancelled again, and the second time
  closes the done channel twice, as killing the action then does. And a piece that is a JSON
  object, such as the event of a watch, is taken for the headers when it arrives before them.
\<close>

theorem kube_stream_faults:
  assumes "kst_routines s ! i = Some (p, n)" and "i < length (kst_routines s)" and "tomb_Alive (kst_tomb s)" and "\<not> kst_doneClosed s"
    and "st_phase a = Streaming" and "\<not> st_doneClosed a"
    and "st_phase a0 = WaitHeaders" and "st_outOfOrder a0 = []" and "st_expected a0 = 1" and "read_KubeHeaders J (decoded rest (sm_Content early)) = Some hs"
  shows "(\<exists>s' m. kst_turn U send s i (IoEof b) = (s', Ok ()) \<and> kst_stream s' = kst_stream s @ [m] \<and> kst_doneClosed s' \<and>
      st_turn J M rest write a (StMessage m) = (if kst_version s = [] then st_finish a (Ok ()) else a)) \<and>
    st_phase (st_turn J M rest write (st_turn J M rest write a StCancelled) StCancelled) = Returned Panic \<and>
    snd (StreamAction_Kill (st_turn J M rest write a StCancelled)) = Panic \<and>
    st_phase (st_turn J M rest write a0 (StMessage early)) = Streaming \<and> st_writer (st_turn J M rest write a0 (StMessage early)) = st_writer a0"
proof (intro conjI)
  show "\<exists>s' m. kst_turn U send s i (IoEof b) = (s', Ok ()) \<and> kst_stream s' = kst_stream s @ [m] \<and> kst_doneClosed s' \<and>
      st_turn J M rest write a (StMessage m) = (if kst_version s = [] then st_finish a (Ok ()) else a)"
    using assms(1-5) by (simp add: kst_turn_def kst_return_def kst_sendStreamMessage_def st_turn_def stream_turn_def Let_def)
  let ?a = "st_turn J M rest write a StCancelled"
  have c: "st_phase ?a = Streaming" "st_doneClosed ?a" using assms(5,6) by (simp_all add: st_turn_def stream_turn_def st_close_def)
  then show "st_phase (st_turn J M rest write ?a StCancelled) = Returned Panic"
    by (simp add: st_turn_def [of J M rest "write" ?a] stream_turn_def st_close_def st_return_def)
  show "snd (StreamAction_Kill ?a) = Panic" using c(2) by (simp add: StreamAction_Kill_def st_close_def)
  have "early_messages rest write [] 1 (st_writer a0) = (1, st_writer a0)" by (subst early_messages.simps) simp
  then show "st_phase (st_turn J M rest write a0 (StMessage early)) = Streaming" "st_writer (st_turn J M rest write a0 (StMessage early)) = st_writer a0"
    using assms(7-10) by (simp_all add: st_turn_def wait_turn_def handleOutOfOrderMessage_def)
qed

section \<open>Witnesses\<close>

definition wit_kube :: KubeRequest where
  "wit_kube = kube_request ''r'' ''l'' ''c'' wit_kubectl []"

theorem kube_stream_delivered_witness:
  "\<exists>s' :: KubeStream. st_writer (foldl (st_turn codec_parse codec_print id log_write)
     (StreamAction_Start codec_print (StreamAction_New ''r'' ''l'' ''c'' False []) wit_kubectl) (map StMessage (rev (kst_stream s')))) = ''one two''"
proof -
  let ?send = "\<lambda>_. Ok (\<lparr> rs_StatusCode = 200, rs_Header = [(''A'', [''b''])] \<rparr>, [])" and ?res = "\<lparr> rs_StatusCode = 200, rs_Header = [(''A'', [''b''])] \<rparr>"
  let ?q = "identity_request plain_urls wit_identity (kr_Endpoint wit_kube) (kr_Body wit_kube) (kr_Method wit_kube) (kr_Headers wit_kube)"
  have "is_ok ?q" by code_simp
  then obtain q where q: "?q = Ok q" by (elim is_ok.elims) auto
  have bs: "\<forall>b \<in> set [''one'', '' two'']. read_KubeHeaders codec_parse b = None" by code_simp
  have x: "?send q = Ok (?res, [])" "''v'' \<noteq> []" "distinct (map fst (rs_Header ?res))" "GetBodyBytes (cr_Body wit_kubectl) = Ok []"
    by (simp_all add: wit_kubectl_def GetBodyBytes_def)
  note T = kube_stream_delivered [where send = ?send and J = codec_parse and M = codec_print, OF q x(1,2) codec_agrees x(3) bs x(4), of id "''r''" "''l''" "''c''" "[]"]
  then obtain s' :: KubeStream and header ms where st: "kst_stream s' = header # ms" and
    all: "\<And>es ls. mset (es @ ls) = mset ms \<Longrightarrow>
       st_writer (foldl (st_turn codec_parse codec_print id log_write) (StreamAction_Start codec_print (StreamAction_New ''r'' ''l'' ''c'' False []) wit_kubectl)
          (map StMessage (es @ header # ls))) = [] @ concat [''one'', '' two'']"
    unfolding Let_def by blast
  have "st_writer (foldl (st_turn codec_parse codec_print id log_write) (StreamAction_Start codec_print (StreamAction_New ''r'' ''l'' ''c'' False []) wit_kubectl)
      (map StMessage (rev (kst_stream s')))) = ''one two''"
    using all [of "rev ms" "[]"] unfolding st by simp
  then show ?thesis by blast
qed

theorem kube_stream_faults_witness:
  "snd (StreamAction_Kill (st_turn codec_parse codec_print id log_write
     ((StreamAction_New ''r'' ''l'' ''c'' False [])\<lparr>st_phase := Streaming\<rparr>) StCancelled)) = Panic"
proof -
  let ?s = "(KubeStream_New wit_identity)\<lparr>kst_routines := [Some (wit_kube, 1)]\<rparr>"
  let ?a = "(StreamAction_New ''r'' ''l'' ''c'' False [])\<lparr>st_phase := Streaming\<rparr>" and ?b = "StreamAction_New ''r'' ''l'' ''c'' False []"
  let ?m = "kube_message ''v'' ''r'' ''l'' 3 (codec_print (VObject []))"
  have s: "kst_routines ?s ! 0 = Some (wit_kube, 1)" "0 < length (kst_routines ?s)" "tomb_Alive (kst_tomb ?s)" "\<not> kst_doneClosed ?s"
    by (simp_all add: KubeStream_New_def)
  have a: "st_phase ?a = Streaming" "\<not> st_doneClosed ?a" by (simp_all add: StreamAction_New_def)
  have b: "st_phase ?b = WaitHeaders" "st_outOfOrder ?b = []" "st_expected ?b = 1" by (simp_all add: StreamAction_New_def)
  have r: "read_KubeHeaders codec_parse (decoded id (sm_Content ?m)) = Some []"
    by code_simp
  show ?thesis using kube_stream_faults [OF s a b r, of plain_urls "\<lambda>_. Panic" "[]" codec_print log_write] by blast
qed

end
