(* ===== verification/Kube_Forward.thy ===== *)
theory Kube_Forward
  imports Kube_Stream
begin

text \<open>
  Port forwarding of \<^verbatim>\<open>bctl/agent/plugin/kube\<close> and \<^verbatim>\<open>bctl/daemon/plugin/kube\<close>. Every connection kubectl
  accepts is a request with a data and an error stream; the agent opens the same two streams to
  the pod. Streams take writes through an argument; what they give is a sequence of reads.
\<close>

section \<open>Messages\<close>

record PfStart =
  fs_RequestId :: string
  fs_Version :: string
  fs_LogId :: string
  fs_Endpoint :: string
  fs_DataHeaders :: "(string \<times> string) list"
  fs_ErrorHeaders :: "(string \<times> string) list"
  fs_CommandBeingRun :: string

definition PfStart_json :: "PfStart \<Rightarrow> jvalue" where
  "PfStart_json p =
     VObject [(''requestId'', VString (fs_RequestId p)), (''streamMessageVersion'', VString (fs_Version p)), (''logId'', VString (fs_LogId p)),
       (''endpoint'', VString (fs_Endpoint p)), (''dataHeaders'', marshal_string_map (Some (fs_DataHeaders p))),
       (''errorHeaders'', marshal_string_map (Some (fs_ErrorHeaders p))), (''commandBeingRun'', VString (fs_CommandBeingRun p))]"

definition string_map_field :: "(string \<times> jvalue) list \<Rightarrow> string \<Rightarrow> (string \<times> string) list option" where
  "string_map_field kvs name =
     (case struct_field kvs name of
        None \<Rightarrow> Some []
      | Some v \<Rightarrow> (case decode_string_map v of Decoded None \<Rightarrow> Some [] | Decoded (Some m) \<Rightarrow> Some m | _ \<Rightarrow> None))"

definition read_PfStart :: "json_parser \<Rightarrow> string option \<Rightarrow> PfStart option" where
  "read_PfStart J pl =
     Option.bind (read_struct J pl) (\<lambda>kvs.
       case (text_field kvs ''requestId'', text_field kvs ''streamMessageVersion'', text_field kvs ''logId'', text_field kvs ''endpoint'',
             string_map_field kvs ''dataHeaders'', string_map_field kvs ''errorHeaders'', text_field kvs ''commandBeingRun'') of
         (Some r, Some v, Some l, Some e, Some d, Some x, Some c) \<Rightarrow>
           Some \<lparr> fs_RequestId = r, fs_Version = v, fs_LogId = l, fs_Endpoint = e, fs_DataHeaders = d, fs_ErrorHeaders = x, fs_CommandBeingRun = c \<rparr>
       | _ \<Rightarrow> None)"

definition PfData_json :: "string \<Rightarrow> string \<Rightarrow> string \<Rightarrow> string \<Rightarrow> int \<Rightarrow> jvalue" where
  "PfData_json requestId logId bytes portForwardRequestId podPort =
     VObject [(''requestId'', VString requestId), (''logId'', VString logId), (''data'', VString (EncodeToString bytes)),
       (''portForwardRequestId'', VString portForwardRequestId), (''podPort'', VNumber podPort)]"

definition read_PfData :: "json_parser \<Rightarrow> string option \<Rightarrow> (string \<times> string \<times> int) option" where
  "read_PfData J pl =
     Option.bind (read_struct J pl) (\<lambda>kvs.
       case (text_field kvs ''requestId'', text_field kvs ''logId'', bytes_field kvs ''data'', text_field kvs ''portForwardRequestId'',
             int_field kvs ''podPort'') of
         (Some _, Some _, Some b, Some i, Some n) \<Rightarrow> Some (b, i, n) | _ \<Rightarrow> None)"

definition PfStopRequest_json :: "string \<Rightarrow> string \<Rightarrow> string \<Rightarrow> jvalue" where
  "PfStopRequest_json requestId logId portForwardRequestId =
     VObject [(''requestId'', VString requestId), (''logId'', VString logId), (''portForwardRequestId'', VString portForwardRequestId)]"

definition read_PfStopRequest :: "json_parser \<Rightarrow> string option \<Rightarrow> string option" where
  "read_PfStopRequest J pl =
     Option.bind (read_struct J pl) (\<lambda>kvs.
       case (text_field kvs ''requestId'', text_field kvs ''logId'', text_field kvs ''portForwardRequestId'') of
         (Some _, Some _, Some i) \<Rightarrow> Some i | _ \<Rightarrow> None)"

definition PfStop_json :: "string \<Rightarrow> string \<Rightarrow> jvalue" where
  "PfStop_json requestId logId = VObject [(''requestId'', VString requestId), (''logId'', VString logId)]"

definition PfContent_json :: "string \<Rightarrow> string \<Rightarrow> jvalue" where
  "PfContent_json portForwardRequestId content =
     VObject [(''portForwardRequestId'', VString portForwardRequestId), (''content'', VString (EncodeToString content))]"

definition read_PfContent :: "json_parser \<Rightarrow> string \<Rightarrow> (string \<times> string) option" where
  "read_PfContent J bytes =
     Option.bind (read_struct J (Some bytes)) (\<lambda>kvs.
       case (text_field kvs ''portForwardRequestId'', bytes_field kvs ''content'') of (Some i, Some c) \<Rightarrow> Some (i, c) | _ \<Rightarrow> None)"

section \<open>A request on the agent\<close>

text \<open>
  What the agent needs of the Kubernetes client: the host of its configuration, whether there is
  a transport for it, dialling as the target user, and opening streams on a connection.
\<close>

record ('c, 'w) kube_lib =
  kl_config :: "string res"
  kl_transport :: "unit res"
  kl_dial :: "kube_identity \<Rightarrow> string \<Rightarrow> string \<Rightarrow> 'c res"
  kl_create :: "'c \<Rightarrow> headers \<Rightarrow> 'w res"

definition Header_Add :: "headers \<Rightarrow> string \<Rightarrow> string \<Rightarrow> headers" where
  "Header_Add hs name v =
     al_set hs (canonical_key name) (case al_get hs (canonical_key name) of Some vs \<Rightarrow> vs @ [v] | None \<Rightarrow> [v])"

text \<open>The routine that writes, and the next numbers of the two that read, while they run.\<close>

record 'w PfRequest =
  pr_tomb :: tomb
  pr_version :: string
  pr_requestId :: string
  pr_logId :: string
  pr_id :: string
  pr_dataStream :: 'w
  pr_errorStream :: 'w
  pr_main :: bool
  pr_dataSeq :: "int option"
  pr_errorSeq :: "int option"

definition openPortForwardStream ::
  "('c, 'w) kube_lib \<Rightarrow> string \<Rightarrow> string \<Rightarrow> string \<Rightarrow> string \<Rightarrow> (string \<times> string) list \<Rightarrow> (string \<times> string) list \<Rightarrow> int \<Rightarrow> 'c option \<Rightarrow>
   'w PfRequest res" where
  "openPortForwardStream K version requestId logId portForwardRequestId dataHeaders errorHeaders podPort streamConn =
     (case streamConn of None \<Rightarrow> Panic | Some conn \<Rightarrow>
        let h1 = foldl (\<lambda>h (name, v). Header_Add h name v) [] errorHeaders;
            h2 = Header_Add (Header_Add h1 ''Port'' (show_int podPort)) ''RequestId'' portForwardRequestId
        in (case kl_create K conn h2 of
              Err e \<Rightarrow> Err (errorf_s ''error creating error stream: '' e) | Panic \<Rightarrow> Panic
            | Ok errorStream \<Rightarrow>
               (case kl_create K conn (foldl (\<lambda>h (name, v). Header_Set h name v) h2 dataHeaders) of
                  Err e \<Rightarrow> Err (errorf_s ''error creating data stream: '' e) | Panic \<Rightarrow> Panic
                | Ok dataStream \<Rightarrow>
                   Ok \<lparr> pr_tomb = \<lparr> tb_killed = None, tb_started = True, tb_running = 3 \<rparr>, pr_version = version, pr_requestId = requestId,
                        pr_logId = logId, pr_id = portForwardRequestId, pr_dataStream = dataStream, pr_errorStream = errorStream,
                        pr_main = True, pr_dataSeq = Some 0, pr_errorSeq = Some 0 \<rparr>)))"

text \<open>Killing waits for the routines: the first to end closes the streams the others read from.\<close>

definition PfRequest_Kill :: "'w PfRequest \<Rightarrow> 'w PfRequest" where
  "PfRequest_Kill r =
     r\<lparr>pr_tomb := (tomb_Kill (pr_tomb r) None)\<lparr>tb_running := 0\<rparr>, pr_main := False, pr_dataSeq := None, pr_errorSeq := None\<rparr>"

definition wrapStreamMessageContent :: "json_printer \<Rightarrow> 'w PfRequest \<Rightarrow> string \<Rightarrow> string" where
  "wrapStreamMessageContent M r content = EncodeToString (M (PfContent_json (pr_id r) content))"

definition pr_message :: "json_printer \<Rightarrow> 'w PfRequest \<Rightarrow> int \<Rightarrow> string \<Rightarrow> bool \<Rightarrow> string \<Rightarrow> StreamMessage" where
  "pr_message M r sequenceNumber streamType moreMessages content =
     \<lparr> sm_RequestId = pr_requestId r, sm_SchemaVersion = pr_version r, sm_SequenceNumber = sequenceNumber, sm_Action = ''portforward'',
       sm_Type = streamType, sm_More = moreMessages, sm_LogId = pr_logId r, sm_Content = wrapStreamMessageContent M r content \<rparr>"

text \<open>The end of the data stream is no error: the routine reads again.\<close>

definition forwardStream :: "json_printer \<Rightarrow> 'w PfRequest \<Rightarrow> string \<Rightarrow> io_read \<Rightarrow> int \<Rightarrow> StreamMessage list \<times> gerror option" where
  "forwardStream M r streamType ev n =
     (if \<not> tomb_Alive (pr_tomb r) then ([], None)
      else (case ev of
              IoFail b e \<Rightarrow> ([], Some (errorf_s (''error reading data from '' @ streamType @ '' stream: '') e))
            | IoEof b \<Rightarrow>
                if streamType = ''data'' then ([pr_message M r n streamType False []], None) else ([], Some (errorf ''EOF''))
            | IoData b \<Rightarrow> ([pr_message M r n streamType True b], None)))"

definition pr_set_seq :: "'w PfRequest \<Rightarrow> string \<Rightarrow> int option \<Rightarrow> 'w PfRequest" where
  "pr_set_seq r streamType n = (if streamType = ''data'' then r\<lparr>pr_dataSeq := n\<rparr> else r\<lparr>pr_errorSeq := n\<rparr>)"

definition pr_forward_turn :: "json_printer \<Rightarrow> 'w PfRequest \<Rightarrow> string \<Rightarrow> io_read \<Rightarrow> 'w PfRequest \<times> StreamMessage list" where
  "pr_forward_turn M r streamType ev =
     (case (if streamType = ''data'' then pr_dataSeq r else pr_errorSeq r) of
        None \<Rightarrow> (r, [])
      | Some n \<Rightarrow>
         if \<not> tomb_Alive (pr_tomb r) then ((pr_set_seq r streamType None)\<lparr>pr_tomb := tomb_return (pr_tomb r) None\<rparr>, [])
         else (case forwardStream M r streamType ev n of
                 (ms, None) \<Rightarrow> (pr_set_seq r streamType (Some (n + 1)), ms)
               | (ms, Some e) \<Rightarrow> ((pr_set_seq r streamType None)\<lparr>pr_tomb := tomb_return (pr_tomb r) (Some e)\<rparr>, ms)))"

definition pr_main_turn :: "'w PfRequest \<Rightarrow> 'w PfRequest" where
  "pr_main_turn r =
     (if pr_main r \<and> \<not> tomb_Alive (pr_tomb r) then r\<lparr>pr_main := False, pr_tomb := tomb_return (pr_tomb r) None\<rparr> else r)"

text \<open>
  Handing data to the request: only its routine takes it, so the call does not come back when
  that has ended. A write that fails ends the routine.
\<close>

definition pr_input :: "('w \<Rightarrow> string \<Rightarrow> 'w \<times> unit res) \<Rightarrow> 'w PfRequest \<Rightarrow> string \<Rightarrow> 'w PfRequest \<times> bool" where
  "pr_input write r b =
     (if \<not> pr_main r \<or> \<not> tomb_Alive (pr_tomb r) then (r, False)
      else (case write (pr_dataStream r) b of
              (w, Ok _) \<Rightarrow> (r\<lparr>pr_dataStream := w\<rparr>, True)
            | (w, _) \<Rightarrow> (r\<lparr>pr_dataStream := w, pr_main := False, pr_tomb := tomb_return (pr_tomb r) None\<rparr>, True)))"

section \<open>The agent\<close>

record ('c, 'w) PortForward =
  pf_identity :: kube_identity
  pf_logId :: string
  pf_requestId :: string
  pf_stream :: "StreamMessage list"
  pf_version :: string
  pf_doneClosed :: bool
  pf_requestMap :: "(string \<times> 'w PfRequest) list"
  pf_endpoint :: string
  pf_dataHeaders :: "(string \<times> string) list"
  pf_errorHeaders :: "(string \<times> string) list"
  pf_conn :: "'c option"
  pf_connClosed :: bool
  pf_watchers :: nat

definition PortForward_New :: "kube_identity \<Rightarrow> ('c, 'w) PortForward" where
  "PortForward_New k =
     \<lparr> pf_identity = k, pf_logId = [], pf_requestId = [], pf_stream = [], pf_version = [], pf_doneClosed = False, pf_requestMap = [],
       pf_endpoint = [], pf_dataHeaders = [], pf_errorHeaders = [], pf_conn = None, pf_connClosed = False, pf_watchers = 0 \<rparr>"

definition PortForward_Kill :: "('c, 'w) PortForward \<Rightarrow> ('c, 'w) PortForward" where
  "PortForward_Kill p =
     p\<lparr>pf_requestMap := map (apsnd PfRequest_Kill) (pf_requestMap p), pf_connClosed := pf_connClosed p \<or> pf_conn p \<noteq> None\<rparr>"

definition sendReadyMessage :: "('c, 'w) PortForward \<Rightarrow> string \<Rightarrow> string \<Rightarrow> ('c, 'w) PortForward" where
  "sendReadyMessage p streamType errorMessage =
     p\<lparr>pf_stream := pf_stream p @ [\<lparr> sm_RequestId = pf_requestId p, sm_SchemaVersion = pf_version p, sm_SequenceNumber = 0,
         sm_Action = ''portforward'', sm_Type = streamType, sm_More = False, sm_LogId = pf_logId p, sm_Content = errorMessage \<rparr>]\<rparr>"

definition TrimLeft :: "string \<Rightarrow> string \<Rightarrow> string" where
  "TrimLeft s cutset = dropWhile (\<lambda>c. c \<in> set cutset) s"

text \<open>
  After a dial that failed the connection is nil; the routine that waits for its end then
  crashes the process.
\<close>

definition startPortForward :: "('c, 'w) kube_lib \<Rightarrow> ('c, 'w) PortForward \<Rightarrow> PfStart \<Rightarrow> ('c, 'w) PortForward \<times> string option res" where
  "startPortForward K p rq =
     (let p1 = p\<lparr>pf_dataHeaders := fs_DataHeaders rq, pf_errorHeaders := fs_ErrorHeaders rq, pf_endpoint := fs_Endpoint rq, pf_logId := fs_LogId rq,
                pf_requestId := fs_RequestId rq, pf_version := fs_Version rq\<rparr>;
          readyType = (if fs_Version rq = [] then ''kube/portforward/ready'' else ''ready'') in
      case kl_config K of
        Err e \<Rightarrow> (p1, Err (errorf_s ''error creating in-custer config: '' e)) | Panic \<Rightarrow> (p1, Panic)
      | Ok host \<Rightarrow>
         if ki_targetUser (pf_identity p) = [] then (p1, Err (errorf ''target user field is not set''))
         else (case kl_transport K of
                 Err e \<Rightarrow> (p1, Err (errorf_s ''error creating spdy RoundTripper: '' e)) | Panic \<Rightarrow> (p1, Panic)
               | Ok _ \<Rightarrow>
                  (case kl_dial K (pf_identity p) (TrimLeft host ''htps:/'') (fs_Endpoint rq) of
                     Ok conn \<Rightarrow>
                       ((sendReadyMessage p1 readyType [])\<lparr>pf_conn := Some conn, pf_connClosed := False, pf_watchers := Suc (pf_watchers p)\<rparr>, Ok (Some []))
                   | Err e \<Rightarrow> ((sendReadyMessage p1 readyType (etext e))\<lparr>pf_conn := None\<rparr>, Panic)
                   | Panic \<Rightarrow> (p1, Panic))))"

text \<open>A connection has been closed.\<close>

definition pf_conn_turn :: "('c, 'w) PortForward \<Rightarrow> ('c, 'w) PortForward \<times> unit res" where
  "pf_conn_turn p =
     (if pf_watchers p = 0 then (p, Ok ())
      else if pf_doneClosed p then (p, Panic)
      else (p\<lparr>pf_doneClosed := True, pf_watchers := pf_watchers p - 1\<rparr>, Ok ()))"

definition pf_input :: "('w \<Rightarrow> string \<Rightarrow> 'w \<times> unit res) \<Rightarrow> ('c, 'w) PortForward \<Rightarrow> 'w PfRequest \<Rightarrow> string \<Rightarrow> ('c, 'w) PortForward \<times> string option res option" where
  "pf_input write p r b =
     (case pr_input write r b of (r', back) \<Rightarrow>
        when_back (p\<lparr>pf_requestMap := al_set (pf_requestMap p) (pr_id r) r'\<rparr>, back) (Ok (Some [])))"

definition PortForward_Receive ::
  "json_parser \<Rightarrow> ('c, 'w) kube_lib \<Rightarrow> ('w \<Rightarrow> string \<Rightarrow> 'w \<times> unit res) \<Rightarrow> ('c, 'w) PortForward \<Rightarrow> string \<Rightarrow> string option \<Rightarrow>
   ('c, 'w) PortForward \<times> string option res option" where
  "PortForward_Receive J K write p action pl =
     (if action = ''kube/portforward/start''
      then (case read_PfStart J pl of
              None \<Rightarrow> (p, Some (Err (errorf ''unable to unmarshal start portforward message: '')))
            | Some rq \<Rightarrow> apsnd Some (startPortForward K p rq))
      else if action = ''kube/portforward/datain'' \<or> action = ''kube/portforward/errorin''
      then (case read_PfData J pl of
              None \<Rightarrow> (p, Some (Err (errorf ''error unmarshaling datain: '')))
            | Some (b, i, podPort) \<Rightarrow>
               (case al_get (pf_requestMap p) i of
                  Some r \<Rightarrow> pf_input write p r b
                | None \<Rightarrow>
                   (case openPortForwardStream K (pf_version p) (pf_requestId p) (pf_logId p) i (pf_dataHeaders p) (pf_errorHeaders p) podPort (pf_conn p) of
                      Err e \<Rightarrow> (p, Some (Err (errorf_s ''error opening stream for new portforward request: '' e)))
                    | Panic \<Rightarrow> (p, Some Panic)
                    | Ok r \<Rightarrow> pf_input write p r b)))
      else if action = ''kube/portforward/request/stop''
      then (case read_PfStopRequest J pl of
              None \<Rightarrow> (p, Some (Err (errorf ''error unmarshaling stop request: '')))
            | Some i \<Rightarrow> (p\<lparr>pf_requestMap := al_delete (pf_requestMap p) i\<rparr>, Some (Ok (Some []))))
      else if action = ''kube/portforward/stop'' then (PortForward_Kill p, Some (Ok (Some [])))
      else (p, Some (Err (errorf (''unhandled portforward action: '' @ action)))))"

datatype forward_event = FwMain | FwRead string io_read

definition pf_turn :: "json_printer \<Rightarrow> ('c, 'w) PortForward \<Rightarrow> string \<Rightarrow> forward_event \<Rightarrow> ('c, 'w) PortForward" where
  "pf_turn M p i ev =
     (case al_get (pf_requestMap p) i of
        None \<Rightarrow> p
      | Some r \<Rightarrow>
         (case ev of
            FwMain \<Rightarrow> p\<lparr>pf_requestMap := al_set (pf_requestMap p) i (pr_main_turn r)\<rparr>
          | FwRead streamType rd \<Rightarrow>
              (case pr_forward_turn M r streamType rd of (r', ms) \<Rightarrow>
                 p\<lparr>pf_requestMap := al_set (pf_requestMap p) i r', pf_stream := pf_stream p @ ms\<rparr>)))"

section \<open>Streams of kubectl\<close>

text \<open>The streams kubectl opens are known by their place in a list of what has been written to them.\<close>

definition ParseUint16 :: "string \<Rightarrow> nat option" where
  "ParseUint16 s = (if s \<noteq> [] \<and> list_all is_digit s \<and> read_nat s < 2 ^ 16 then Some (read_nat s) else None)"

definition quoted :: "string \<Rightarrow> string" where
  "quoted s = CHR 0x22 # s @ [CHR 0x22]"

definition httpStreamReceived :: "headers \<Rightarrow> unit res" where
  "httpStreamReceived hs =
     (let portString = Header_Get hs ''Port''; streamType = Header_Get hs ''StreamType'' in
      if portString = [] then Err (errorf (quoted ''Port'' @ '' header is required''))
      else (case ParseUint16 portString of
              None \<Rightarrow> Err (errorf (''unable to parse '' @ quoted portString @ '' as a port: ''))
            | Some port \<Rightarrow>
               if port < 1 then Err (errorf (''port '' @ quoted portString @ '' must be > 0''))
               else if streamType = [] then Err (errorf (quoted ''StreamType'' @ '' header is required''))
               else if streamType \<noteq> ''error'' \<and> streamType \<noteq> ''data'' then Err (errorf (''invalid stream type '' @ quoted streamType))
               else Ok ()))"

record httpStreamPair =
  hp_data :: "(nat \<times> headers) option"
  hp_error :: "(nat \<times> headers) option"

definition newPortForwardPair :: httpStreamPair where
  "newPortForwardPair = \<lparr> hp_data = None, hp_error = None \<rparr>"

definition pair_add :: "httpStreamPair \<Rightarrow> nat \<Rightarrow> headers \<Rightarrow> httpStreamPair \<times> bool res" where
  "pair_add p stream hs =
     (let streamType = Header_Get hs ''StreamType'' in
      if streamType = ''error'' \<and> hp_error p \<noteq> None then (p, Err (errorf ''error stream already assigned''))
      else if streamType = ''data'' \<and> hp_data p \<noteq> None then (p, Err (errorf ''data stream already assigned''))
      else
        let p1 = (if streamType = ''error'' then p\<lparr>hp_error := Some (stream, hs)\<rparr>
                  else if streamType = ''data'' then p\<lparr>hp_data := Some (stream, hs)\<rparr> else p)
        in (p1, Ok (hp_error p1 \<noteq> None \<and> hp_data p1 \<noteq> None)))"

section \<open>A request on the daemon\<close>

record pf_session =
  ps_requestID :: string
  ps_port :: int
  ps_dataStream :: nat
  ps_errorStream :: nat
  ps_tomb :: tomb
  ps_expectedData :: int
  ps_expectedError :: int
  ps_dataBuffer :: "(int \<times> string \<times> bool) list"
  ps_errorBuffer :: "(int \<times> string \<times> bool) list"
  ps_reading :: bool
  ps_errorReading :: bool
  ps_ended :: bool

definition processDataMessage :: "('w \<Rightarrow> string \<Rightarrow> 'w \<times> unit res) \<Rightarrow> pf_session \<Rightarrow> 'w \<Rightarrow> string \<times> bool \<Rightarrow> pf_session \<times> 'w" where
  "processDataMessage write s w cm =
     (case cm of (content, moreMessages) \<Rightarrow>
        (case write w content of (w', r) \<Rightarrow>
           (s\<lparr>ps_tomb := (if is_ok r \<and> moreMessages then ps_tomb s else tomb_Kill (ps_tomb s) None), ps_expectedData := ps_expectedData s + 1\<rparr>, w')))"

definition processErrorMessage :: "('w \<Rightarrow> string \<Rightarrow> 'w \<times> unit res) \<Rightarrow> pf_session \<Rightarrow> 'w \<Rightarrow> string \<Rightarrow> pf_session \<times> 'w" where
  "processErrorMessage write s w content =
     (case write w content of (w', r) \<Rightarrow>
        (s\<lparr>ps_tomb := (if is_ok r then ps_tomb s else tomb_Kill (ps_tomb s) None), ps_expectedError := ps_expectedError s + 1\<rparr>, w'))"

text \<open>
  The loops over messages that came early: the messages stay in the map, and the number is
  advanced by the processing and by the loop. The loop for errors looks into the map for data.
\<close>

lemma fewer_early:
  assumes "al_get m (e :: int) = Some v" and "e < e'"
  shows "card {k \<in> set (al_keys m). e' \<le> k} < card {k \<in> set (al_keys m). e \<le> k}"
proof -
  have "e \<in> {k \<in> set (al_keys m). e \<le> k}" using assms(1) by (auto dest: al_get_keys)
  then have "{k \<in> set (al_keys m). e' \<le> k} \<subset> {k \<in> set (al_keys m). e \<le> k}" using assms(2) by force
  then show ?thesis by (simp add: psubset_card_mono)
qed

function early_data :: "('w \<Rightarrow> string \<Rightarrow> 'w \<times> unit res) \<Rightarrow> pf_session \<Rightarrow> 'w \<Rightarrow> pf_session \<times> 'w" where
  "early_data write s w =
     (case al_get (ps_dataBuffer s) (ps_expectedData s) of
        None \<Rightarrow> (s, w)
      | Some cm \<Rightarrow>
         (case processDataMessage write s w cm of (s1, w1) \<Rightarrow>
            early_data write (s1\<lparr>ps_expectedData := ps_expectedData s1 + 1\<rparr>) w1))"
  by pat_completeness auto
termination
  by (relation "measure (\<lambda>(write, s, w). card {k \<in> set (al_keys (ps_dataBuffer s)). ps_expectedData s \<le> k})")
     (auto simp: processDataMessage_def split: prod.splits intro!: fewer_early)

function early_error :: "('w \<Rightarrow> string \<Rightarrow> 'w \<times> unit res) \<Rightarrow> pf_session \<Rightarrow> 'w \<Rightarrow> pf_session \<times> 'w" where
  "early_error write s w =
     (case al_get (ps_dataBuffer s) (ps_expectedError s) of
        None \<Rightarrow> (s, w)
      | Some (content, _) \<Rightarrow>
         (case processErrorMessage write s w content of (s1, w1) \<Rightarrow>
            early_error write (s1\<lparr>ps_expectedError := ps_expectedError s1 + 1\<rparr>) w1))"
  by pat_completeness auto
termination
  by (relation "measure (\<lambda>(write, s, w). card {k \<in> set (al_keys (ps_dataBuffer s)). ps_expectedError s \<le> k})")
     (auto simp: processErrorMessage_def split: prod.splits intro!: fewer_early)

declare early_data.simps [simp del] early_error.simps [simp del]

definition session_message ::
  "('w \<Rightarrow> string \<Rightarrow> 'w \<times> unit res) \<Rightarrow> pf_session \<Rightarrow> 'w \<Rightarrow> 'w \<Rightarrow> StreamMessage \<Rightarrow> string \<Rightarrow> pf_session \<times> 'w \<times> 'w" where
  "session_message write s wd we m content =
     (if sm_Type m = ''data''
      then (case (if sm_SequenceNumber m = ps_expectedData s then processDataMessage write s wd (content, sm_More m)
                  else (s\<lparr>ps_dataBuffer := al_set (ps_dataBuffer s) (sm_SequenceNumber m) (content, sm_More m)\<rparr>, wd)) of
              (s1, wd1) \<Rightarrow> (case early_data write s1 wd1 of (s2, wd2) \<Rightarrow> (s2, wd2, we)))
      else if sm_Type m = ''error''
      then (case (if sm_SequenceNumber m = ps_expectedError s then processErrorMessage write s we content
                  else (s\<lparr>ps_errorBuffer := al_set (ps_errorBuffer s) (sm_SequenceNumber m) (content, sm_More m)\<rparr>, we)) of
              (s1, we1) \<Rightarrow> (case early_error write s1 we1 of (s2, we2) \<Rightarrow> (s2, wd, we2)))
      else (s, wd, we))"

section \<open>The daemon\<close>

datatype forward_phase = PfWaitReady | PfListening | PfReturned "unit res"

record 'w PortForwardAction =
  fa_requestId :: string
  fa_logId :: string
  fa_command :: string
  fa_killed :: bool
  fa_cancelClosed :: bool
  fa_doneClosed :: bool
  fa_outbox :: "(string \<times> string option) list"
  fa_endpoint :: string
  fa_streams :: "'w list"
  fa_pairs :: "(string \<times> httpStreamPair) list"
  fa_sessions :: "pf_session list"
  fa_requestMap :: "(string \<times> nat) list"
  fa_phase :: forward_phase
  fa_calls :: "writer_call list"

definition PortForwardAction_New :: "string \<Rightarrow> string \<Rightarrow> string \<Rightarrow> bool \<Rightarrow> 'w PortForwardAction" where
  "PortForwardAction_New requestId logId command doneClosed =
     \<lparr> fa_requestId = requestId, fa_logId = logId, fa_command = command, fa_killed = False, fa_cancelClosed = False, fa_doneClosed = doneClosed,
       fa_outbox = [], fa_endpoint = [], fa_streams = [], fa_pairs = [], fa_sessions = [], fa_requestMap = [], fa_phase = PfWaitReady, fa_calls = [] \<rparr>"

definition PortForwardAction_Kill :: "'w PortForwardAction \<Rightarrow> 'w PortForwardAction \<times> unit res" where
  "PortForwardAction_Kill a = (if fa_cancelClosed a then (a, Panic) else (a\<lparr>fa_cancelClosed := True, fa_killed := True\<rparr>, Ok ()))"

definition fa_send :: "json_printer \<Rightarrow> 'w PortForwardAction \<Rightarrow> string \<Rightarrow> jvalue \<Rightarrow> 'w PortForwardAction" where
  "fa_send M a action payload = a\<lparr>fa_outbox := fa_outbox a @ [(action, Some (M payload))]\<rparr>"

definition sendCloseRequestMessage :: "json_printer \<Rightarrow> 'w PortForwardAction \<Rightarrow> string \<Rightarrow> 'w PortForwardAction" where
  "sendCloseRequestMessage M a i = fa_send M a ''kube/portforward/request/stop'' (PfStopRequest_json (fa_requestId a) (fa_logId a) i)"

definition sendCloseMessage :: "json_printer \<Rightarrow> 'w PortForwardAction \<Rightarrow> 'w PortForwardAction" where
  "sendCloseMessage M a = fa_send M a ''kube/portforward/stop'' (PfStop_json (fa_requestId a) (fa_logId a))"

definition fa_return :: "'w PortForwardAction \<Rightarrow> unit res \<Rightarrow> 'w PortForwardAction" where
  "fa_return a r = a\<lparr>fa_doneClosed := True, fa_phase := PfReturned (if fa_doneClosed a then Panic else r)\<rparr>"

definition PortForwardAction_Start :: "json_printer \<Rightarrow> 'w PortForwardAction \<Rightarrow> client_request \<Rightarrow> 'w PortForwardAction" where
  "PortForwardAction_Start M a rq =
     (fa_send M a ''kube/portforward/start'' (PfStart_json
        \<lparr> fs_RequestId = fa_requestId a, fs_Version = CurrentSchema, fs_LogId = fa_logId a, fs_Endpoint = cr_URL rq,
          fs_DataHeaders = [(''StreamType'', ''data'')], fs_ErrorHeaders = [(''StreamType'', ''error'')], fs_CommandBeingRun = fa_command a \<rparr>))
       \<lparr>fa_endpoint := cr_URL rq\<rparr>"

text \<open>The status object of the Kubernetes API is marshalled by an argument.\<close>

definition bubbleUpError :: "(string \<Rightarrow> string res) \<Rightarrow> string \<Rightarrow> writer_call list" where
  "bubbleUpError status content =
     (case status content of
        Ok b \<Rightarrow> [WriteHeader 403, HeaderSet ''Content-Type'' ''application/json'', WriteBody b]
      | Err e \<Rightarrow> [WriteHeader 500, WriteBody (etext e)]
      | Panic \<Rightarrow> [])"

definition ready_turn :: "json_printer \<Rightarrow> (string \<Rightarrow> string res) \<Rightarrow> unit res \<Rightarrow> unit option \<Rightarrow> 'w PortForwardAction \<Rightarrow> StreamMessage \<Rightarrow> 'w PortForwardAction" where
  "ready_turn M status handshake upgraded a m =
     (if fa_phase a \<noteq> PfWaitReady then a
      else if sm_Content m \<noteq> []
      then fa_return (sendCloseMessage M (a\<lparr>fa_calls := fa_calls a @ bubbleUpError status (sm_Content m)\<rparr>))
             (Err (errorf (''error starting portforward stream: '' @ sm_Content m)))
      else (case handshake of
              Err e \<Rightarrow> fa_return a (Err (errorf_s ''could not perform http handshake: '' e)) | Panic \<Rightarrow> fa_return a Panic
            | Ok _ \<Rightarrow>
               if upgraded = None then fa_return a (Err (errorf ''unable to upgrade websocket connection''))
               else a\<lparr>fa_phase := PfListening\<rparr>))"

text \<open>
  A stream message: the ready message goes to the loop above, another one to the session of its
  request. A session that is ending has nobody to take it.
\<close>

definition PortForwardAction_ReceiveStream ::
  "json_parser \<Rightarrow> json_printer \<Rightarrow> (string \<Rightarrow> string) \<Rightarrow> ('w \<Rightarrow> string \<Rightarrow> 'w \<times> unit res) \<Rightarrow> (string \<Rightarrow> string res) \<Rightarrow> unit res \<Rightarrow> unit option \<Rightarrow>
   'w PortForwardAction \<Rightarrow> StreamMessage \<Rightarrow> 'w PortForwardAction \<times> bool" where
  "PortForwardAction_ReceiveStream J M rest write status handshake upgraded a m =
     (if sm_Type m = ''kube/portforward/ready'' \<or> sm_Type m = ''ready'' then (ready_turn M status handshake upgraded a m, True)
      else (case read_PfContent J (decoded rest (sm_Content m)) of
              None \<Rightarrow> (a, True)
            | Some (i, content) \<Rightarrow>
               (case al_get (fa_requestMap a) i of
                  None \<Rightarrow> (a, True)
                | Some k \<Rightarrow>
                   let s = fa_sessions a ! k in
                   if ps_ended s \<or> \<not> tomb_Alive (ps_tomb s) then (a, False)
                   else (case session_message write s (fa_streams a ! ps_dataStream s) (fa_streams a ! ps_errorStream s) m content of
                           (s', wd, we) \<Rightarrow>
                             (a\<lparr>fa_sessions := (fa_sessions a)[k := s'],
                               fa_streams := (fa_streams a)[ps_dataStream s := wd, ps_errorStream s := we]\<rparr>, True)))))"

text \<open>The port of a pair: a stream whose port does not parse has been refused before.\<close>

definition stream_port :: "headers \<Rightarrow> int" where
  "stream_port hs = (case ParseInt64 (Header_Get hs ''Port'') of None \<Rightarrow> 0 | Some n \<Rightarrow> max (- (2 ^ 31)) (min (2 ^ 31 - 1) n))"

definition forwardStreamPair :: "'w PortForwardAction \<Rightarrow> string \<Rightarrow> nat \<times> headers \<Rightarrow> nat \<Rightarrow> 'w PortForwardAction" where
  "forwardStreamPair a requestID dataStream errorStream =
     a\<lparr>fa_requestMap := al_set (fa_requestMap a) requestID (length (fa_sessions a)),
       fa_sessions := fa_sessions a @ [\<lparr> ps_requestID = requestID, ps_port = stream_port (snd dataStream), ps_dataStream = fst dataStream,
         ps_errorStream = errorStream, ps_tomb = \<lparr> tb_killed = None, tb_started = True, tb_running = 2 \<rparr>, ps_expectedData = 0, ps_expectedError = 0,
         ps_dataBuffer = [], ps_errorBuffer = [], ps_reading = True, ps_errorReading = True, ps_ended = False \<rparr>]\<rparr>"

datatype 'w listen_event = LCancel | LConnClosed | LContextDone | LStream headers 'w | LMonitor string

definition listen_turn ::
  "json_printer \<Rightarrow> ('w \<Rightarrow> string \<Rightarrow> 'w \<times> unit res) \<Rightarrow> 'w PortForwardAction \<Rightarrow> 'w listen_event \<Rightarrow> 'w PortForwardAction" where
  "listen_turn M write a ev =
     (case ev of
        LMonitor i \<Rightarrow> a\<lparr>fa_pairs := al_delete (fa_pairs a) i\<rparr>
      | _ \<Rightarrow>
        if fa_phase a \<noteq> PfListening then a
        else (case ev of
                LCancel \<Rightarrow> if fa_cancelClosed a then fa_return (sendCloseMessage M a) (Ok ()) else a
              | LStream hs w \<Rightarrow>
                 if \<not> is_ok (httpStreamReceived hs) then a
                 else
                   let requestID = Header_Get hs ''RequestId''; n = length (fa_streams a); a1 = a\<lparr>fa_streams := fa_streams a @ [w]\<rparr> in
                   if requestID = [] then fa_return (sendCloseMessage M a1) (Ok ())
                   else
                     (case pair_add (case al_get (fa_pairs a) requestID of Some p \<Rightarrow> p | None \<Rightarrow> newPortForwardPair) n hs of
                        (p, r) \<Rightarrow>
                          let a2 = a1\<lparr>fa_pairs := al_set (fa_pairs a) requestID p\<rparr> in
                          (case r of
                             Ok False \<Rightarrow> a2
                           | Ok True \<Rightarrow> (case (hp_data p, hp_error p) of (Some d, Some e) \<Rightarrow> forwardStreamPair a2 requestID d (fst e) | _ \<Rightarrow> a2)
                           | Err e \<Rightarrow>
                              (case hp_error p of
                                 None \<Rightarrow> a2
                               | Some (k, _) \<Rightarrow>
                                  a2\<lparr>fa_streams := (fa_streams a2)[k := fst (write (fa_streams a2 ! k)
                                       (''error processing stream for request '' @ requestID @ '': '' @ etext e))]\<rparr>)
                           | Panic \<Rightarrow> a2))
              | _ \<Rightarrow> fa_return (sendCloseMessage M a) (Ok ())))"

text \<open>A session notices that it is dying, and its two routines read.\<close>

definition session_end_turn :: "json_printer \<Rightarrow> 'w PortForwardAction \<Rightarrow> nat \<Rightarrow> 'w PortForwardAction" where
  "session_end_turn M a k =
     (let s = fa_sessions a ! k in
      if k < length (fa_sessions a) \<and> \<not> ps_ended s \<and> \<not> tomb_Alive (ps_tomb s)
      then sendCloseRequestMessage M (a\<lparr>fa_requestMap := al_delete (fa_requestMap a) (ps_requestID s), fa_sessions := (fa_sessions a)[k := s\<lparr>ps_ended := True\<rparr>]\<rparr>)
             (ps_requestID s)
      else a)"

definition set_session :: "'w PortForwardAction \<Rightarrow> nat \<Rightarrow> pf_session \<Rightarrow> 'w PortForwardAction" where
  "set_session a k s = a\<lparr>fa_sessions := (fa_sessions a)[k := s]\<rparr>"

definition data_read_turn :: "json_printer \<Rightarrow> 'w PortForwardAction \<Rightarrow> nat \<Rightarrow> io_read \<Rightarrow> 'w PortForwardAction" where
  "data_read_turn M a k ev =
     (let s = fa_sessions a ! k; stop = set_session a k (s\<lparr>ps_reading := False, ps_tomb := tomb_return (ps_tomb s) None\<rparr>) in
      if \<not> (k < length (fa_sessions a) \<and> ps_reading s) then a
      else if fa_cancelClosed a \<or> \<not> tomb_Alive (ps_tomb s) then stop
      else (case ev of
              IoData b \<Rightarrow> fa_send M a ''kube/portforward/datain'' (PfData_json (fa_requestId a) (fa_logId a) b (ps_requestID s) (ps_port s))
            | _ \<Rightarrow> stop))"

definition error_read_turn :: "json_printer \<Rightarrow> 'w PortForwardAction \<Rightarrow> nat \<Rightarrow> io_read \<Rightarrow> 'w PortForwardAction" where
  "error_read_turn M a k ev =
     (let s = fa_sessions a ! k; stop = set_session a k (s\<lparr>ps_errorReading := False, ps_tomb := tomb_return (ps_tomb s) None\<rparr>);
          go = (\<lambda>b. fa_send M a ''kube/portforward/error'' (PfData_json (fa_requestId a) (fa_logId a) b (ps_requestID s) 0)) in
      if \<not> (k < length (fa_sessions a) \<and> ps_errorReading s) then a
      else if fa_cancelClosed a \<or> \<not> tomb_Alive (ps_tomb s) \<or> fa_killed a then stop
      else (case ev of IoEof b \<Rightarrow> stop | IoData b \<Rightarrow> go b | IoFail b e \<Rightarrow> go b))"

section \<open>Forwarding in order\<close>

definition pf_agrees :: "json_parser \<Rightarrow> json_printer \<Rightarrow> string \<Rightarrow> string \<Rightarrow> string \<Rightarrow> int \<Rightarrow> bool" where
  "pf_agrees J M r l i port \<longleftrightarrow>
     (\<forall>b. J (M (PfData_json r l b i port)) = Some (PfData_json r l b i port) \<and> J (M (PfContent_json i b)) = Some (PfContent_json i b))"

lemma read_PfData_json:
  assumes "pf_agrees J M r l i port" "- (2 ^ 63) \<le> port" "port < 2 ^ 63"
  shows "read_PfData J (Some (M (PfData_json r l b i port))) = Some (b, i, port)"
proof -
  have "J (M (PfData_json r l b i port)) = Some (PfData_json r l b i port)" using assms(1) by (simp add: pf_agrees_def)
  then show ?thesis using assms(2,3) by (simp add: read_PfData_def read_struct_def) (simp add: PfData_json_def field_simps_json)
qed

lemma read_PfContent_json:
  assumes "pf_agrees J M r l i port"
  shows "read_PfContent J (M (PfContent_json i b)) = Some (i, b)"
proof -
  have "J (M (PfContent_json i b)) = Some (PfContent_json i b)" using assms by (simp add: pf_agrees_def)
  then show ?thesis by (simp add: read_PfContent_def read_struct_def) (simp add: PfContent_json_def field_simps_json)
qed

text \<open>The agent takes what the daemon has sent for a request.\<close>

definition pf_receive_all :: "json_parser \<Rightarrow> ('c, string) kube_lib \<Rightarrow> ('c, string) PortForward \<Rightarrow> (string \<times> string option) list \<Rightarrow> ('c, string) PortForward" where
  "pf_receive_all J K = foldl (\<lambda>p m. fst (PortForward_Receive J K log_write p (fst m) (snd m)))"

definition data_in :: "json_printer \<Rightarrow> string \<Rightarrow> string \<Rightarrow> string \<Rightarrow> int \<Rightarrow> string \<Rightarrow> string \<times> string option" where
  "data_in M r l i port b = (''kube/portforward/datain'', Some (M (PfData_json r l b i port)))"

definition running_request :: "'w PfRequest \<Rightarrow> string \<Rightarrow> bool" where
  "running_request q i \<longleftrightarrow> pr_id q = i \<and> pr_main q \<and> tomb_Alive (pr_tomb q) \<and> pr_dataSeq q = Some 0"

lemma receive_input:
  assumes "pf_agrees J M r l i port" "- (2 ^ 63) \<le> port" "port < 2 ^ 63" "al_get (pf_requestMap p) i = Some q" "running_request q i"
  shows "fst (PortForward_Receive J K log_write p (fst (data_in M r l i port b)) (snd (data_in M r l i port b))) =
    p\<lparr>pf_requestMap := al_set (pf_requestMap p) i (q\<lparr>pr_dataStream := pr_dataStream q @ b\<rparr>)\<rparr>"
  using read_PfData_json [OF assms(1-3), of b] assms(4,5)
  by (simp add: data_in_def PortForward_Receive_def pf_input_def pr_input_def when_back_def log_write_def running_request_def)

lemma receive_inputs:
  assumes "pf_agrees J M r l i port" "- (2 ^ 63) \<le> port" "port < 2 ^ 63"
  shows "al_get (pf_requestMap p) i = Some q \<Longrightarrow> running_request q i \<Longrightarrow>
    \<exists>q'. al_get (pf_requestMap (pf_receive_all J K p (map (data_in M r l i port) cs))) i = Some q' \<and> running_request q' i \<and>
      pr_dataStream q' = pr_dataStream q @ concat cs \<and> pf_stream (pf_receive_all J K p (map (data_in M r l i port) cs)) = pf_stream p"
proof (induction cs arbitrary: p q)
  case Nil
  then show ?case by (simp add: pf_receive_all_def)
next
  case (Cons c cs)
  let ?q = "q\<lparr>pr_dataStream := pr_dataStream q @ c\<rparr>"
  let ?p = "p\<lparr>pf_requestMap := al_set (pf_requestMap p) i ?q\<rparr>"
  have "al_get (pf_requestMap ?p) i = Some ?q" "running_request ?q i" using Cons.prems(2) by (simp_all add: running_request_def)
  from Cons.IH [OF this] receive_input [OF assms Cons.prems, of K c] show ?case by (simp add: pf_receive_all_def)
qed

lemma first_input:
  assumes "pf_agrees J M r l i port" "- (2 ^ 63) \<le> port" "port < 2 ^ 63" "al_get (pf_requestMap p) i = None" "pf_conn p = Some conn" "\<And>h. kl_create K conn h = Ok []"
  shows "\<exists>q. al_get (pf_requestMap (pf_receive_all J K p (map (data_in M r l i port) (c # cs)))) i = Some q \<and> running_request q i \<and>
      pr_dataStream q = c @ concat cs \<and> pf_stream (pf_receive_all J K p (map (data_in M r l i port) (c # cs))) = pf_stream p"
proof -
  obtain q where q: "openPortForwardStream K (pf_version p) (pf_requestId p) (pf_logId p) i (pf_dataHeaders p) (pf_errorHeaders p) port (pf_conn p) = Ok q"
    "running_request q i" "pr_dataStream q = []"
    using assms(5,6) by (simp add: openPortForwardStream_def running_request_def tomb_Alive_def Let_def)
  let ?q = "q\<lparr>pr_dataStream := c\<rparr>"
  let ?p = "p\<lparr>pf_requestMap := al_set (pf_requestMap p) i ?q\<rparr>"
  have f: "fst (PortForward_Receive J K log_write p (fst (data_in M r l i port c)) (snd (data_in M r l i port c))) = ?p"
    using read_PfData_json [OF assms(1-3), of c] q assms(4)
    by (simp add: data_in_def PortForward_Receive_def pf_input_def pr_input_def when_back_def log_write_def running_request_def)
  have "al_get (pf_requestMap ?p) i = Some ?q" "running_request ?q i" using q(2) by (simp_all add: running_request_def)
  from receive_inputs [OF assms(1-3) this, of K cs] show ?thesis using f by (simp add: pf_receive_all_def)
qed

text \<open>What the agent makes of the reads of a data stream.\<close>

definition pf_reads :: "json_printer \<Rightarrow> string \<Rightarrow> ('c, 'w) PortForward \<Rightarrow> io_read list \<Rightarrow> ('c, 'w) PortForward" where
  "pf_reads M i = foldl (\<lambda>p rd. pf_turn M p i (FwRead ''data'' rd))"

fun data_messages :: "json_printer \<Rightarrow> 'w PfRequest \<Rightarrow> int \<Rightarrow> string list \<Rightarrow> StreamMessage list" where
  "data_messages M q n [] = [pr_message M q n ''data'' False []]"
| "data_messages M q n (b # bs) = pr_message M q n ''data'' True b # data_messages M q (n + 1) bs"

lemma data_messages_seq [simp]: "data_messages M (q\<lparr>pr_dataSeq := x\<rparr>) n bs = data_messages M q n bs"
  by (induction bs arbitrary: n) (simp_all add: pr_message_def wrapStreamMessageContent_def)

lemma reads_sent:
  "al_get (pf_requestMap p) i = Some q \<Longrightarrow> pr_dataSeq q = Some n \<Longrightarrow> tomb_Alive (pr_tomb q) \<Longrightarrow>
   pf_stream (pf_reads M i p (map IoData bs @ [IoEof x])) =
     pf_stream p @ data_messages M q n bs"
proof (induction bs arbitrary: p q n)
  case Nil
  then show ?case by (simp add: pf_reads_def pf_turn_def pr_forward_turn_def forwardStream_def)
next
  case (Cons b bs)
  let ?q = "q\<lparr>pr_dataSeq := Some (n + 1)\<rparr>"
  let ?p = "p\<lparr>pf_requestMap := al_set (pf_requestMap p) i ?q, pf_stream := pf_stream p @ [pr_message M q n ''data'' True b]\<rparr>"
  have t: "pf_turn M p i (FwRead ''data'' (IoData b)) = ?p"
    using Cons.prems by (simp add: pf_turn_def pr_forward_turn_def forwardStream_def pr_set_seq_def)
  have "pf_stream (pf_reads M i ?p (map IoData bs @ [IoEof x])) =
     pf_stream ?p @ data_messages M ?q (n + 1) bs"
    using Cons.prems by (intro Cons.IH) simp_all
  moreover have "pf_reads M i p (map IoData (b # bs) @ [IoEof x]) = pf_reads M i ?p (map IoData bs @ [IoEof x])" using t by (simp add: pf_reads_def)
  ultimately show ?case by simp
qed

text \<open>The daemon takes them.\<close>

definition fa_receive_all ::
  "json_parser \<Rightarrow> json_printer \<Rightarrow> (string \<Rightarrow> string) \<Rightarrow> (string \<Rightarrow> string res) \<Rightarrow> unit res \<Rightarrow> unit option \<Rightarrow> string PortForwardAction \<Rightarrow> StreamMessage list \<Rightarrow>
   string PortForwardAction" where
  "fa_receive_all J M rest status handshake upgraded = foldl (\<lambda>a m. fst (PortForwardAction_ReceiveStream J M rest log_write status handshake upgraded a m))"

lemma decoded_Encode [simp]: "decoded rest (EncodeToString b) = b"
  by (simp add: decoded_def)

definition open_session :: "string PortForwardAction \<Rightarrow> string \<Rightarrow> nat \<Rightarrow> bool" where
  "open_session a i k \<longleftrightarrow>
     al_get (fa_requestMap a) i = Some k \<and> k < length (fa_sessions a) \<and>
     (let s = fa_sessions a ! k in \<not> ps_ended s \<and> tomb_Alive (ps_tomb s) \<and> ps_dataStream s < length (fa_streams a) \<and>
        ps_errorStream s < length (fa_streams a) \<and> ps_dataStream s \<noteq> ps_errorStream s)"

lemma receive_data:
  assumes "pf_agrees J M r l i port" "open_session a i k" "pr_id q = i"
    and "session_message log_write (fa_sessions a ! k) (fa_streams a ! ps_dataStream (fa_sessions a ! k)) we (pr_message M q n ''data'' x b) b = (s', wd, we)"
    and "we = fa_streams a ! ps_errorStream (fa_sessions a ! k)"
  shows "fst (PortForwardAction_ReceiveStream J M rest log_write status handshake upgraded a (pr_message M q n ''data'' x b)) =
    a\<lparr>fa_sessions := (fa_sessions a)[k := s'], fa_streams := (fa_streams a)[ps_dataStream (fa_sessions a ! k) := wd]\<rparr>"
proof -
  let ?s = "fa_sessions a ! k" and ?m = "pr_message M q n ''data'' x b"
  have c: "read_PfContent J (decoded rest (sm_Content ?m)) = Some (i, b)"
    using read_PfContent_json [OF assms(1)] assms(3) by (simp add: pr_message_def wrapStreamMessageContent_def)
  have t: "sm_Type ?m = ''data''" by (simp add: pr_message_def)
  have e: "ps_errorStream ?s < length (fa_streams a)" "ps_dataStream ?s \<noteq> ps_errorStream ?s" using assms(2) by (simp_all add: open_session_def Let_def)
  have "(fa_streams a)[ps_dataStream ?s := wd, ps_errorStream ?s := we] = (fa_streams a)[ps_dataStream ?s := wd]"
    using assms(5) e by (metis list_update_id list_update_swap)
  moreover have "al_get (fa_requestMap a) i = Some k" "\<not> ps_ended ?s" "tomb_Alive (ps_tomb ?s)" using assms(2) by (simp_all add: open_session_def Let_def)
  ultimately show ?thesis using assms(4,5) c t
    by (simp add: PortForwardAction_ReceiveStream_def Let_def)
qed

lemma session_next:
  assumes "ps_dataBuffer s = []" "ps_expectedData s = n"
  shows "session_message log_write s wd we (pr_message M q n ''data'' x b) b =
    (s\<lparr>ps_tomb := (if x then ps_tomb s else tomb_Kill (ps_tomb s) None), ps_expectedData := n + 1\<rparr>, wd @ b, we)"
  using assms by (simp add: session_message_def pr_message_def processDataMessage_def log_write_def early_data.simps)

lemma receive_reads:
  assumes "pf_agrees J M r l i port" "pr_id q = i"
  shows "open_session a i k \<Longrightarrow> s = fa_sessions a ! k \<Longrightarrow> ps_dataBuffer s = [] \<Longrightarrow> ps_expectedData s = n \<Longrightarrow>
    (let a' = fa_receive_all J M rest status handshake upgraded a (data_messages M q n bs) in
     fa_streams a' = (fa_streams a)[ps_dataStream s := fa_streams a ! ps_dataStream s @ concat bs] \<and> \<not> tomb_Alive (ps_tomb (fa_sessions a' ! k)))"
proof (induction bs arbitrary: a s n)
  case Nil
  have k: "k < length (fa_sessions a)" using Nil(1) by (simp add: open_session_def)
  from receive_data [OF assms(1) Nil(1) assms(2) session_next [OF _ _] refl] Nil(2-4) k
  show ?case by (simp add: fa_receive_all_def)
next
  case (Cons b bs)
  let ?s = "s\<lparr>ps_expectedData := n + 1\<rparr>"
  let ?a = "a\<lparr>fa_sessions := (fa_sessions a)[k := ?s], fa_streams := (fa_streams a)[ps_dataStream s := fa_streams a ! ps_dataStream s @ b]\<rparr>"
  have k: "k < length (fa_sessions a)" "ps_dataStream s < length (fa_streams a)" using Cons.prems(1,2) by (simp_all add: open_session_def Let_def)
  have t: "fst (PortForwardAction_ReceiveStream J M rest log_write status handshake upgraded a (pr_message M q n ''data'' True b)) = ?a"
    using receive_data [OF assms(1) Cons.prems(1) assms(2) session_next [OF _ _] refl, where n = n and x = True and b = b] Cons.prems(2-4) by simp
  have o: "open_session ?a i k" "?s = fa_sessions ?a ! k" using Cons.prems(1,2) k by (auto simp: open_session_def Let_def)
  from Cons.IH [OF o] Cons.prems(3) k
  have "let a' = fa_receive_all J M rest status handshake upgraded ?a (data_messages M q (n + 1) bs) in
     fa_streams a' = (fa_streams a)[ps_dataStream s := fa_streams a ! ps_dataStream s @ b @ concat bs] \<and> \<not> tomb_Alive (ps_tomb (fa_sessions a' ! k))"
    by simp
  then show ?case using t by (simp add: fa_receive_all_def)
qed

definition reads_up :: "json_printer \<Rightarrow> nat \<Rightarrow> 'w PortForwardAction \<Rightarrow> string list \<Rightarrow> 'w PortForwardAction" where
  "reads_up M k = foldl (\<lambda>a b. data_read_turn M a k (IoData b))"

lemma reads_up_sent:
  assumes "k < length (fa_sessions a)" "ps_reading (fa_sessions a ! k)" "tomb_Alive (ps_tomb (fa_sessions a ! k))" "\<not> fa_cancelClosed a"
  shows "reads_up M k a cs = a\<lparr>fa_outbox := fa_outbox a @
    map (data_in M (fa_requestId a) (fa_logId a) (ps_requestID (fa_sessions a ! k)) (ps_port (fa_sessions a ! k))) cs\<rparr>"
  using assms
proof (induction cs arbitrary: a)
  case Nil
  then show ?case by (simp add: reads_up_def)
next
  case (Cons c cs)
  let ?s = "fa_sessions a ! k"
  let ?a = "a\<lparr>fa_outbox := fa_outbox a @ [data_in M (fa_requestId a) (fa_logId a) (ps_requestID ?s) (ps_port ?s) c]\<rparr>"
  have "data_read_turn M a k (IoData c) = ?a" using Cons.prems by (simp add: data_read_turn_def fa_send_def data_in_def Let_def)
  then show ?case using Cons.IH [of ?a] Cons.prems by (simp add: reads_up_def)
qed

lemma forwarded_session:
  assumes "d < length (fa_streams a)" "e < length (fa_streams a)" "d \<noteq> e"
  shows "open_session (forwardStreamPair a i (d, hs) e) i (length (fa_sessions a))"
  using assms by (simp add: open_session_def forwardStreamPair_def tomb_Alive_def Let_def)

text \<open>
  A forwarded connection passes bytes both ways: what kubectl writes is written to the pod
  over a stream opened for it, and when the messages arrive in order what the pod writes reaches
  kubectl, and its end ends the request.
\<close>

theorem port_forward_in_order:
  assumes "pf_agrees J M (fa_requestId a) (fa_logId a) i (stream_port hs)" and "al_get (pf_requestMap p) i = None"
    and "pf_conn p = Some conn" and "\<And>h. kl_create K conn h = Ok []" and "d < length (fa_streams a)" and "e < length (fa_streams a)" and "d \<noteq> e"
    and "\<not> fa_cancelClosed a" and "a' = forwardStreamPair a i (d, hs) e" and "k = length (fa_sessions a)"
  shows "\<exists>sent. fa_outbox (reads_up M k a' (c # cs)) = fa_outbox a @ sent \<and>
    (let p' = pf_receive_all J K p sent in
     (\<exists>q. al_get (pf_requestMap p') i = Some q \<and> pr_dataStream q = concat (c # cs)) \<and>
     (\<exists>ms. pf_stream (pf_reads M i p' (map IoData bs @ [IoEof []])) = pf_stream p @ ms \<and>
       (let b = fa_receive_all J M rest status handshake upgraded (reads_up M k a' (c # cs)) ms in
        fa_streams b ! d = fa_streams a ! d @ concat bs \<and> \<not> tomb_Alive (ps_tomb (fa_sessions b ! k)))))"
proof -
  let ?s = "fa_sessions a' ! k" and ?sent = "map (data_in M (fa_requestId a) (fa_logId a) i (stream_port hs)) (c # cs)"
  let ?p = "pf_receive_all J K p ?sent" and ?a = "reads_up M k a' (c # cs)"
  have s: "k < length (fa_sessions a')" "ps_reading ?s" "tomb_Alive (ps_tomb ?s)" "\<not> fa_cancelClosed a'" "ps_requestID ?s = i" "ps_port ?s = stream_port hs"
    "ps_dataStream ?s = d" "ps_dataBuffer ?s = []" "ps_expectedData ?s = 0" "fa_requestId a' = fa_requestId a" "fa_logId a' = fa_logId a"
    "fa_outbox a' = fa_outbox a" "fa_streams a' = fa_streams a"
    using assms(8-10) by (simp_all add: forwardStreamPair_def tomb_Alive_def)
  have up: "?a = a'\<lparr>fa_outbox := fa_outbox a @ ?sent\<rparr>" using reads_up_sent [OF s(1-4)] s(5,6,10-12) by simp
  have port: "- (2 ^ 63) \<le> stream_port hs" "stream_port hs < 2 ^ 63" by (auto simp: stream_port_def split: option.splits)
  obtain q where q: "al_get (pf_requestMap ?p) i = Some q" "running_request q i" "pr_dataStream q = c @ concat cs" "pf_stream ?p = pf_stream p"
    using first_input [OF assms(1) port assms(2-4)] by blast
  have ms: "pf_stream (pf_reads M i ?p (map IoData bs @ [IoEof []])) = pf_stream p @ data_messages M q 0 bs"
    using reads_sent [OF q(1), of 0] q(2,4) by (simp add: running_request_def)
  have "open_session ?a i k" using forwarded_session [OF assms(5-7)] up assms(9,10) by (simp add: open_session_def)
  then have "let b = fa_receive_all J M rest status handshake upgraded ?a (data_messages M q 0 bs) in
      fa_streams b = (fa_streams a)[d := fa_streams a ! d @ concat bs] \<and> \<not> tomb_Alive (ps_tomb (fa_sessions b ! k))"
    using receive_reads [OF assms(1), of q ?a k ?s 0] q(2) up s(7-9,13) by (simp add: running_request_def)
  then show ?thesis using up q(1,3) ms assms(5)
    by (intro exI [of _ ?sent] conjI) (auto simp: Let_def)
qed

section \<open>What goes wrong\<close>

text \<open>
  When the second message of a connection overtakes the first, the third is never written
  but the fourth is: the loop over early messages counts every message twice, so kubectl gets
  the bytes with a piece missing and no error.
\<close>

theorem port_forward_reordered:
  assumes "pf_agrees J M r l i port" and "pr_id q = i" and "d < length (fa_streams a)" and "e < length (fa_streams a)" and "d \<noteq> e"
  shows "let m = (\<lambda>n b. pr_message M q n ''data'' True b);
      a' = fa_receive_all J M rest status handshake upgraded (forwardStreamPair a i (d, hs) e) [m 1 b1, m 0 b0, m 2 b2, m 3 b3] in
    fa_streams a' ! d = fa_streams a ! d @ b0 @ b1 @ b3 \<and> tomb_Alive (ps_tomb (fa_sessions a' ! length (fa_sessions a)))"
proof -
  let ?k = "length (fa_sessions a)" and ?a = "forwardStreamPair a i (d, hs) e"
  let ?w = "fa_streams a ! d" and ?R = "\<lambda>a m. fst (PortForwardAction_ReceiveStream J M rest log_write status handshake upgraded a m)"
  let ?m = "\<lambda>n b. pr_message M q n ''data'' True b"
  define sess where "sess n buf = (fa_sessions ?a ! ?k)\<lparr>ps_expectedData := n, ps_dataBuffer := buf\<rparr>" for n buf
  define now where "now n buf w = ?a\<lparr>fa_sessions := fa_sessions a @ [sess n buf], fa_streams := (fa_streams a)[d := w]\<rparr>" for n buf w
  have s: "ps_dataStream (sess n buf) = d" "ps_errorStream (sess n buf) = e" "\<not> ps_ended (sess n buf)" "tomb_Alive (ps_tomb (sess n buf))"
    "ps_expectedData (sess n buf) = n" "ps_dataBuffer (sess n buf) = buf" "(sess n buf)\<lparr>ps_expectedData := n'\<rparr> = sess n' buf"
    "(sess n buf)\<lparr>ps_dataBuffer := buf'\<rparr> = sess n buf'" "(sess n buf)\<lparr>ps_tomb := ps_tomb (sess n buf)\<rparr> = sess n buf" for n buf n' buf'
    by (simp_all add: sess_def forwardStreamPair_def tomb_Alive_def)
  have f: "fa_sessions (now n buf w) ! ?k = sess n buf" "fa_streams (now n buf w) = (fa_streams a)[d := w]" "fa_requestMap (now n buf w) = fa_requestMap ?a"
    "length (fa_sessions (now n buf w)) = Suc ?k"
    "(now n buf w)\<lparr>fa_sessions := (fa_sessions (now n buf w))[?k := sess n' buf'], fa_streams := (fa_streams (now n buf w))[d := w']\<rparr> = now n' buf' w'"
    for n buf w n' buf' w'
    by (simp_all add: now_def)
  have a0: "?a = now 0 [] ?w" by (simp add: now_def sess_def forwardStreamPair_def)
  have rm: "al_get (fa_requestMap ?a) i = Some ?k" by (simp add: forwardStreamPair_def)
  have o: "open_session (now n buf w) i ?k" for n buf w using assms(3-5) s f(1-4) rm by (simp add: open_session_def Let_def)
  have step: "?R (now n buf w) (?m j b) = now n' buf' w'"
    if "session_message log_write (sess n buf) w (fa_streams a ! e) (?m j b) b = (sess n' buf', w', fa_streams a ! e)" for n buf w j b n' buf' w'
  proof -
    have "?R (now n buf w) (?m j b) = (now n buf w)\<lparr>fa_sessions := (fa_sessions (now n buf w))[?k := sess n' buf'],
        fa_streams := (fa_streams (now n buf w))[ps_dataStream (fa_sessions (now n buf w) ! ?k) := w']\<rparr>"
      by (rule receive_data [OF assms(1) o assms(2), where we = "fa_streams a ! e"]) (use that assms(3-5) in \<open>simp_all add: f(1,2) s(1,2)\<close>)
    then show ?thesis by (simp only: f(1) s(1) f(5))
  qed
  have early: "early_data log_write (sess n buf) w = (sess n buf, w)" if "al_get buf n = None" for n buf w
    using that s(5,6) by (subst early_data.simps) simp
  have process: "processDataMessage log_write (sess n buf) w (b, True) = (sess (n + 1) buf, w @ b)" for n buf w b
    using s by (simp add: processDataMessage_def log_write_def)
  have "?R (now 0 [] ?w) (?m 1 b1) = now 0 [(1, b1, True)] ?w"
    by (rule step) (simp add: session_message_def pr_message_def s early)
  moreover have "early_data log_write (sess 1 [(1, b1, True)]) w = (sess 3 [(1, b1, True)], w @ b1)" for w
    using early [of "[(1, b1, True)]" 3] by (subst early_data.simps) (simp add: s process)
  then have "?R (now 0 [(1, b1, True)] ?w) (?m 0 b0) = now 3 [(1, b1, True)] (?w @ b0 @ b1)"
    by (intro step) (simp add: session_message_def pr_message_def s process)
  moreover have "?R (now 3 [(1, b1, True)] (?w @ b0 @ b1)) (?m 2 b2) = now 3 [(1, b1, True), (2, b2, True)] (?w @ b0 @ b1)"
    by (rule step) (simp add: session_message_def pr_message_def s early)
  moreover have "?R (now 3 [(1, b1, True), (2, b2, True)] (?w @ b0 @ b1)) (?m 3 b3) = now 4 [(1, b1, True), (2, b2, True)] (?w @ b0 @ b1 @ b3)"
    by (rule step) (simp add: session_message_def pr_message_def s process early)
  ultimately have "fa_receive_all J M rest status handshake upgraded ?a [?m 1 b1, ?m 0 b0, ?m 2 b2, ?m 3 b3] =
      now 4 [(1, b1, True), (2, b2, True)] (?w @ b0 @ b1 @ b3)"
    using a0 by (simp add: fa_receive_all_def)
  then show ?thesis using assms(3) s(4) f(1,2) by (simp add: Let_def)
qed

text \<open>
  A dial that fails crashes the agent. The end of a pod's error stream ends the request, and
  the next bytes of kubectl for it block the agent. Every further read at the end of a data
  stream sends another end. Errors of kubectl are sent under a name the agent does not know, and
  killing the daemon's action a second time panics.
\<close>

theorem port_forward_faults:
  assumes "kl_config K = Ok host" and "kl_transport K = Ok ()" and "ki_targetUser (pf_identity p) \<noteq> []"
    and "kl_dial K (pf_identity p) (TrimLeft host ''htps:/'') (fs_Endpoint rq) = Err x"
    and "pr_errorSeq r = Some n" and "pr_dataSeq r = Some m" and "tomb_Alive (pr_tomb r)"
  shows "snd (startPortForward K p rq) = Panic \<and> snd (pr_input write (fst (pr_forward_turn M r ''error'' (IoEof []))) b) = False \<and>
    (let r1 = fst (pr_forward_turn M r ''data'' (IoEof [])) in
     map (\<lambda>m. (sm_SequenceNumber m, sm_More m)) (snd (pr_forward_turn M r ''data'' (IoEof [])) @ snd (pr_forward_turn M r1 ''data'' (IoEof []))) =
       [(m, False), (m + 1, False)]) \<and>
    PortForward_Receive J K write p ''kube/portforward/error'' pl = (p, Some (Err (errorf ''unhandled portforward action: kube/portforward/error''))) \<and>
    snd (PortForwardAction_Kill (fst (PortForwardAction_Kill a))) = Panic"
proof (intro conjI)
  show "snd (startPortForward K p rq) = Panic" using assms(1-4) by (simp add: startPortForward_def Let_def)
  have "fst (pr_forward_turn M r ''error'' (IoEof [])) = r\<lparr>pr_errorSeq := None, pr_tomb := tomb_return (pr_tomb r) (Some (errorf ''EOF''))\<rparr>"
    using assms(5,7) by (simp add: pr_forward_turn_def forwardStream_def pr_set_seq_def)
  moreover have "\<not> tomb_Alive (tomb_return t (Some err))" for t err by (simp add: tomb_return_def Let_def)
  ultimately show "snd (pr_input write (fst (pr_forward_turn M r ''error'' (IoEof []))) b) = False" by (simp add: pr_input_def)
  show "let r1 = fst (pr_forward_turn M r ''data'' (IoEof [])) in
     map (\<lambda>m. (sm_SequenceNumber m, sm_More m)) (snd (pr_forward_turn M r ''data'' (IoEof [])) @ snd (pr_forward_turn M r1 ''data'' (IoEof []))) =
       [(m, False), (m + 1, False)]"
    using assms(6,7) by (simp add: pr_forward_turn_def forwardStream_def pr_set_seq_def pr_message_def)
  show "PortForward_Receive J K write p ''kube/portforward/error'' pl = (p, Some (Err (errorf ''unhandled portforward action: kube/portforward/error'')))"
    by (simp add: PortForward_Receive_def)
  show "snd (PortForwardAction_Kill (fst (PortForwardAction_Kill a))) = Panic" by (simp add: PortForwardAction_Kill_def)
qed

section \<open>Witnesses\<close>

definition wit_kube_lib :: "(unit, string) kube_lib" where
  "wit_kube_lib = \<lparr> kl_config = Ok ''https://10.0.0.1'', kl_transport = Ok (), kl_dial = (\<lambda>_ _ _. Err (errorf ''refused'')), kl_create = (\<lambda>_ _. Ok []) \<rparr>"

definition wit_forward :: "string PortForwardAction" where
  "wit_forward = (PortForwardAction_New ''r'' ''l'' ''c'' False)\<lparr>fa_streams := [[], []]\<rparr>"

definition wit_pods :: "(unit, string) PortForward" where
  "wit_pods = (PortForward_New wit_identity)\<lparr>pf_conn := Some ()\<rparr>"

definition wit_request :: "string PfRequest" where
  "wit_request = \<lparr> pr_tomb = \<lparr> tb_killed = None, tb_started = True, tb_running = 3 \<rparr>, pr_version = ''v'', pr_requestId = ''r'', pr_logId = ''l'', pr_id = ''7'',
     pr_dataStream = [], pr_errorStream = [], pr_main = True, pr_dataSeq = Some 0, pr_errorSeq = Some 0 \<rparr>"

lemma pf_agrees_codec: "pf_agrees codec_parse codec_print r l i port"
  by (simp add: pf_agrees_def)

theorem port_forward_in_order_witness:
  "\<exists>sent. fa_outbox (reads_up codec_print 0 (forwardStreamPair wit_forward ''7'' (0, [(''Port'', [''80''])]) 1) [''GET'', '' /'']) = sent \<and>
    (\<exists>q. al_get (pf_requestMap (pf_receive_all codec_parse wit_kube_lib wit_pods sent)) ''7'' = Some q \<and> pr_dataStream q = ''GET /'')"
proof -
  have x: "al_get (pf_requestMap wit_pods) ''7'' = None" "pf_conn wit_pods = Some ()" "\<And>h. kl_create wit_kube_lib () h = Ok []"
    "0 < length (fa_streams wit_forward)" "1 < length (fa_streams wit_forward)" "(0 :: nat) \<noteq> 1" "\<not> fa_cancelClosed wit_forward"
    "0 = length (fa_sessions wit_forward)"
    by (simp_all add: wit_pods_def PortForward_New_def wit_kube_lib_def wit_forward_def PortForwardAction_New_def)
  have "fa_outbox wit_forward = []" by (simp add: wit_forward_def PortForwardAction_New_def)
  then show ?thesis
    using port_forward_in_order [OF pf_agrees_codec x(1-7) refl x(8), where hs = "[(''Port'', [''80''])]" and c = "''GET''" and cs = "['' /'']"]
    by (auto simp: Let_def)
qed

theorem port_forward_reordered_witness:
  "let m = (\<lambda>n b. pr_message codec_print wit_request n ''data'' True b) in
   fa_streams (fa_receive_all codec_parse codec_print id (\<lambda>_. Panic) (Ok ()) (Some ()) (forwardStreamPair wit_forward ''7'' (0, []) 1)
     [m 1 ''b'', m 0 ''a'', m 2 ''c'', m 3 ''d'']) ! 0 = ''abd''"
proof -
  have x: "pr_id wit_request = ''7''" "0 < length (fa_streams wit_forward)" "1 < length (fa_streams wit_forward)" "(0 :: nat) \<noteq> 1"
    by (simp_all add: wit_request_def wit_forward_def)
  have "fa_streams wit_forward ! 0 = []" by (simp add: wit_forward_def)
  then show ?thesis
    using port_forward_reordered [OF pf_agrees_codec [of "''r''" "''l''" "''7''" 0] x, of id "\<lambda>_. Panic" "Ok ()" "Some ()" "[]" "''b''" "''a''" "''c''" "''d''"]
    by (simp add: Let_def)
qed

theorem port_forward_faults_witness:
  "snd (startPortForward wit_kube_lib (PortForward_New wit_identity)
     \<lparr> fs_RequestId = [], fs_Version = [], fs_LogId = [], fs_Endpoint = ''/p'', fs_DataHeaders = [], fs_ErrorHeaders = [], fs_CommandBeingRun = [] \<rparr>) = Panic"
proof -
  let ?rq = "\<lparr> fs_RequestId = [], fs_Version = [], fs_LogId = [], fs_Endpoint = ''/p'', fs_DataHeaders = [], fs_ErrorHeaders = [], fs_CommandBeingRun = [] \<rparr>"
  let ?p = "PortForward_New wit_identity :: (unit, string) PortForward"
  have k: "kl_config wit_kube_lib = Ok ''https://10.0.0.1''" "kl_transport wit_kube_lib = Ok ()" "ki_targetUser (pf_identity ?p) \<noteq> []"
    "kl_dial wit_kube_lib (pf_identity ?p) (TrimLeft ''https://10.0.0.1'' ''htps:/'') (fs_Endpoint ?rq) = Err (errorf ''refused'')"
    by (simp_all add: wit_kube_lib_def PortForward_New_def wit_identity_def)
  have r: "pr_errorSeq wit_request = Some 0" "pr_dataSeq wit_request = Some 0" "tomb_Alive (pr_tomb wit_request)"
    by (simp_all add: wit_request_def tomb_Alive_def)
  show ?thesis using port_forward_faults [OF k r, of log_write codec_print] by blast
qed

end
