(* ===== verification/Kube_Plugin.thy ===== *)
theory Kube_Plugin
  imports Kube_Exec Kube_Forward
begin

text \<open>
  The Kubernetes plugins of the agent and the daemon (\<^verbatim>\<open>bctl/agent/plugin/kube/kube.go\<close> and
  \<^verbatim>\<open>bctl/daemon/plugin/kube/kube.go\<close>): one action each, chosen when the session is opened.
\<close>

section \<open>The agent\<close>

datatype ('c, 'w) kube_action = KubeExecAction KubeExec | KubeForwardAction "('c, 'w) PortForward" | KubeRestAction RestApi | KubeStreamAction KubeStream

record ('c, 'w) KubePlugin =
  kp_identity :: kube_identity
  kp_action :: "('c, 'w) kube_action"

definition kube_parseAction :: "string \<Rightarrow> string res" where
  "kube_parseAction action =
     (let parsedAction = split action ''/'' in
      if length parsedAction < 2 then Err (errorf (''malformed action: '' @ action)) else Ok (parsedAction ! 1))"

definition read_KubeActionParams :: "json_parser \<Rightarrow> string option \<Rightarrow> (string \<times> string list) option" where
  "read_KubeActionParams J pl =
     Option.bind (read_struct J pl) (\<lambda>kvs.
       case (text_field kvs ''targetUser'', strings_field kvs ''targetGroups'') of
         (Some u, Some gs) \<Rightarrow> Some (u, case gs of None \<Rightarrow> [] | Some gs \<Rightarrow> gs) | _ \<Rightarrow> None)"

text \<open>The token is the one of the configuration of the cluster, the host comes from the environment.\<close>

definition KubePlugin_New :: "json_parser \<Rightarrow> string res \<Rightarrow> string \<Rightarrow> string \<Rightarrow> string option \<Rightarrow> ('c, 'w) KubePlugin res" where
  "KubePlugin_New J config serviceHost action pl =
     (case read_KubeActionParams J pl of
        None \<Rightarrow> Err (errorf (''malformed Kube plugin SYN payload '' @ (case pl of None \<Rightarrow> [] | Some b \<Rightarrow> b)))
      | Some (targetUser, targetGroups) \<Rightarrow>
         (case config of
            Err e \<Rightarrow> Err (errorf_s ''error getting incluser config: '' e) | Panic \<Rightarrow> Panic
          | Ok token \<Rightarrow>
             let k = \<lparr> ki_serviceAccountToken = token, ki_kubeHost = ''https://'' @ serviceHost, ki_targetGroups = targetGroups, ki_targetUser = targetUser \<rparr>;
                 plugin = (\<lambda>a. Ok \<lparr> kp_identity = k, kp_action = a \<rparr>) in
             (case kube_parseAction action of
                Err e \<Rightarrow> Err e | Panic \<Rightarrow> Panic
              | Ok parsed \<Rightarrow>
                 if parsed = ''exec'' then plugin (KubeExecAction (KubeExec_New k))
                 else if parsed = ''portforward'' then plugin (KubeForwardAction (PortForward_New k))
                 else if parsed = ''restapi'' then plugin (KubeRestAction \<lparr> ra_identity = k, ra_doneClosed = False \<rparr>)
                 else if parsed = ''stream'' then plugin (KubeStreamAction (KubeStream_New k))
                 else Err (errorf ''unhandled Kube action''))))"

definition KubePlugin_Kill :: "('c, 'w) KubePlugin \<Rightarrow> ('c, 'w) KubePlugin \<times> bool" where
  "KubePlugin_Kill p =
     (case kp_action p of
        KubeExecAction a \<Rightarrow> apfst (\<lambda>a. p\<lparr>kp_action := KubeExecAction a\<rparr>) (KubeExec_Kill a)
      | KubeForwardAction a \<Rightarrow> (p\<lparr>kp_action := KubeForwardAction (PortForward_Kill a)\<rparr>, True)
      | KubeRestAction a \<Rightarrow> (p, True)
      | KubeStreamAction a \<Rightarrow> apfst (\<lambda>a. p\<lparr>kp_action := KubeStreamAction a\<rparr>) (KubeStream_Kill a))"

definition KubePlugin_Receive ::
  "json_parser \<Rightarrow> json_printer \<Rightarrow> 'u url_lib \<Rightarrow> api \<Rightarrow> (kube_identity \<Rightarrow> 'u \<Rightarrow> unit res) \<Rightarrow> ('c, 'w) kube_lib \<Rightarrow> ('w \<Rightarrow> string \<Rightarrow> 'w \<times> unit res) \<Rightarrow>
   ('c, 'w) KubePlugin \<Rightarrow> string \<Rightarrow> string option \<Rightarrow> ('c, 'w) KubePlugin \<times> string option res option" where
  "KubePlugin_Receive J M U send executor K write p action pl =
     (case kp_action p of
        KubeExecAction a \<Rightarrow>
          apfst (\<lambda>a. p\<lparr>kp_action := KubeExecAction a\<rparr>) (KubeExec_Receive J (res_map (\<lambda>_. ()) (kl_config K)) U executor a action pl)
      | KubeForwardAction a \<Rightarrow> apfst (\<lambda>a. p\<lparr>kp_action := KubeForwardAction a\<rparr>) (PortForward_Receive J K write a action pl)
      | KubeRestAction a \<Rightarrow> map_prod (\<lambda>a. p\<lparr>kp_action := KubeRestAction a\<rparr>) Some (RestApi_Receive J M U send a action pl)
      | KubeStreamAction a \<Rightarrow> apfst (\<lambda>a. p\<lparr>kp_action := KubeStreamAction a\<rparr>) (KubeStream_Receive J M U send a action pl))"

section \<open>The daemon\<close>

datatype 'w kube_daemon_action =
  DaemonExec "'w ExecAction" | DaemonStream "'w StreamAction" | DaemonRest RestApiAction | DaemonForward "'w PortForwardAction"

record 'w KubeDaemonPlugin =
  kdp_killed :: bool
  kdp_action :: "'w kube_daemon_action option"

definition KubeDaemonPlugin_New :: "'w KubeDaemonPlugin" where
  "KubeDaemonPlugin_New = \<lparr> kdp_killed = False, kdp_action = None \<rparr>"

text \<open>All actions of a plugin have its done channel.\<close>

definition kdp_doneClosed :: "'w KubeDaemonPlugin \<Rightarrow> bool" where
  "kdp_doneClosed p =
     (case kdp_action p of
        None \<Rightarrow> False | Some (DaemonExec a) \<Rightarrow> ea_doneClosed a | Some (DaemonStream a) \<Rightarrow> st_doneClosed a
      | Some (DaemonRest a) \<Rightarrow> rt_doneClosed a | Some (DaemonForward a) \<Rightarrow> fa_doneClosed a)"

definition KubeDaemonPlugin_Kill :: "'w KubeDaemonPlugin \<Rightarrow> gerror option \<Rightarrow> 'w KubeDaemonPlugin \<times> unit res option" where
  "KubeDaemonPlugin_Kill p err =
     (let p1 = p\<lparr>kdp_killed := True\<rparr> in
      case kdp_action p of
        None \<Rightarrow> (p1, Some (Ok ()))
      | Some (DaemonExec a) \<Rightarrow> (case ExecAction_Kill a err of (a', back) \<Rightarrow> when_back (p1\<lparr>kdp_action := Some (DaemonExec a')\<rparr>, back) (Ok ()))
      | Some (DaemonStream a) \<Rightarrow> map_prod (\<lambda>a. p1\<lparr>kdp_action := Some (DaemonStream a)\<rparr>) Some (StreamAction_Kill a)
      | Some (DaemonRest a) \<Rightarrow> map_prod (\<lambda>a. p1\<lparr>kdp_action := Some (DaemonRest a)\<rparr>) Some (RestApiAction_Kill a)
      | Some (DaemonForward a) \<Rightarrow> map_prod (\<lambda>a. p1\<lparr>kdp_action := Some (DaemonForward a)\<rparr>) Some (PortForwardAction_Kill a))"

definition KubeDaemonPlugin_Err :: "'w KubeDaemonPlugin \<Rightarrow> gerror option res" where
  "KubeDaemonPlugin_Err p = (case kdp_action p of None \<Rightarrow> Panic | Some a \<Rightarrow> Ok None)"

text \<open>
  The SPDY service of an exec is there, could not be made, or is waited for. An action that
  fails to start is only logged.
\<close>

definition kube_StartAction ::
  "json_printer \<Rightarrow> 'w SPDYService res option \<Rightarrow> 'w \<Rightarrow> string \<Rightarrow> 'w KubeDaemonPlugin \<Rightarrow> string \<Rightarrow> string \<Rightarrow> string \<Rightarrow> client_request \<Rightarrow>
   'w KubeDaemonPlugin \<times> gerror option" where
  "kube_StartAction M spdy writer requestId p action logId command rq =
     (let d = kdp_doneClosed p; start = (\<lambda>a. (p\<lparr>kdp_action := Some a\<rparr>, None)) in
      if kdp_killed p then (p, Some (errorf ''plugin has already been killed, cannot create a new kube action''))
      else if action = ''exec''
      then let a = (ExecAction_New requestId logId command)\<lparr>ea_doneClosed := d\<rparr>
           in start (DaemonExec (case spdy of Some (Ok s) \<Rightarrow> ExecAction_Start M s a rq | _ \<Rightarrow> a))
      else if action = ''stream'' then start (DaemonStream (StreamAction_Start M (StreamAction_New requestId logId command d writer) rq))
      else if action = ''restapi'' then start (DaemonRest (RestApiAction_Start M (RestApiAction_New requestId logId command d) rq))
      else if action = ''portforward'' then start (DaemonForward (PortForwardAction_Start M (PortForwardAction_New requestId logId command d) rq))
      else (p, Some (errorf (''unrecognized kubectl action: '' @ action))))"

definition KubeDaemonPlugin_ReceiveStream ::
  "json_parser \<Rightarrow> json_printer \<Rightarrow> (string \<Rightarrow> string) \<Rightarrow> ('w \<Rightarrow> string \<Rightarrow> 'w \<times> unit res) \<Rightarrow> (string \<Rightarrow> string) \<Rightarrow> unit res \<Rightarrow> unit option \<Rightarrow>
   'w KubeDaemonPlugin \<Rightarrow> StreamMessage \<Rightarrow> 'w KubeDaemonPlugin \<times> unit res option" where
  "KubeDaemonPlugin_ReceiveStream J M rest write status handshake upgraded p m =
     (case kdp_action p of
        None \<Rightarrow> (p, Some (Ok ()))
      | Some (DaemonExec a) \<Rightarrow> map_prod (\<lambda>a. p\<lparr>kdp_action := Some (DaemonExec a)\<rparr>) Some (ea_stream_turn M rest write status a (ExMessage m))
      | Some (DaemonStream a) \<Rightarrow> (p\<lparr>kdp_action := Some (DaemonStream (st_turn J M rest write a (StMessage m)))\<rparr>, Some (Ok ()))
      | Some (DaemonRest a) \<Rightarrow> (p, Some (Ok ()))
      | Some (DaemonForward a) \<Rightarrow>
          (case PortForwardAction_ReceiveStream J M rest write (Ok \<circ> status) handshake upgraded a m of (a', back) \<Rightarrow>
             when_back (p\<lparr>kdp_action := Some (DaemonForward a')\<rparr>, back) (Ok ())))"

text \<open>A response for a REST action that has returned has nobody to take it.\<close>

definition KubeDaemonPlugin_ReceiveMrtap :: "json_parser \<Rightarrow> 'w KubeDaemonPlugin \<Rightarrow> string \<Rightarrow> string \<Rightarrow> 'w KubeDaemonPlugin \<times> unit res option" where
  "KubeDaemonPlugin_ReceiveMrtap J p action pl =
     (if pl = [] then (p, Some (Ok ()))
      else (case kdp_action p of
              None \<Rightarrow> (p, Some (Err (errorf ''received MrTAP message before action was created'')))
            | Some (DaemonRest a) \<Rightarrow>
                if rt_result a \<noteq> None then (p, None)
                else (p\<lparr>kdp_action := Some (DaemonRest (rest_turn J a (RestResponded pl)))\<rparr>, Some (Ok ()))
            | Some _ \<Rightarrow> (p, Some (Ok ()))))"

section \<open>The target user\<close>

fun action_identity :: "('c, 'w) kube_action \<Rightarrow> kube_identity" where
  "action_identity (KubeExecAction a) = ke_identity a"
| "action_identity (KubeForwardAction a) = pf_identity a"
| "action_identity (KubeRestAction a) = ra_identity a"
| "action_identity (KubeStreamAction a) = kst_identity a"

text \<open>Two worlds that answer alike whatever is asked on behalf of an identity.\<close>

definition same_answers ::
  "kube_identity \<Rightarrow> api \<times> (kube_identity \<Rightarrow> 'u \<Rightarrow> unit res) \<times> ('c, 'w) kube_lib \<Rightarrow> api \<times> (kube_identity \<Rightarrow> 'u \<Rightarrow> unit res) \<times> ('c, 'w) kube_lib \<Rightarrow> bool" where
  "same_answers k v v' \<longleftrightarrow>
     (case (v, v') of ((send, executor, K), (send', executor', K')) \<Rightarrow>
        (\<forall>rq. impersonates k rq \<longrightarrow> send rq = send' rq) \<and>
        (ki_targetUser k \<noteq> [] \<longrightarrow> executor k = executor' k \<and> kl_dial K k = kl_dial K' k) \<and>
        kl_config K = kl_config K' \<and> kl_transport K = kl_transport K' \<and> kl_create K = kl_create K')"

lemma rest_same:
  assumes "\<forall>rq. impersonates (ra_identity r) rq \<longrightarrow> send rq = send' rq"
  shows "RestApi_Receive J M U send r action pl = RestApi_Receive J M U send' r action pl \<and> ra_identity (fst (RestApi_Receive J M U send r action pl)) = ra_identity r"
  using assms identity_request_impersonates [of U "ra_identity r"]
  by (auto simp: RestApi_Receive_def Let_def split: option.splits res.splits)

lemma stream_same:
  assumes "\<forall>rq. impersonates (kst_identity s) rq \<longrightarrow> send rq = send' rq"
  shows "KubeStream_Receive J M U send s action pl = KubeStream_Receive J M U send' s action pl \<and>
    kst_identity (fst (KubeStream_Receive J M U send s action pl)) = kst_identity s"
proof -
  have "kst_identity (fst (startStream M U f s pv)) = kst_identity s" for f pv
    by (auto simp: startStream_def kst_data_def kst_sendStreamMessage_def Let_def split: prod.splits res.splits)
  moreover have "startStream M U send s pv = startStream M U send' s pv" for pv
    using assms identity_request_impersonates [of U "kst_identity s"]
    by (auto simp: startStream_def kst_data_def kst_sendStreamMessage_def Let_def split: prod.splits res.splits)
  ultimately show ?thesis
    by (auto simp: KubeStream_Receive_def KubeStream_Kill_def when_back_def split: option.splits)
qed

lemma exec_same:
  assumes "ki_targetUser (ke_identity e) \<noteq> [] \<longrightarrow> executor (ke_identity e) = executor' (ke_identity e)"
  shows "KubeExec_Receive J config U executor e action pl = KubeExec_Receive J config U executor' e action pl \<and>
    ke_identity (fst (KubeExec_Receive J config U executor e action pl)) = ke_identity e"
proof -
  have "ke_identity (fst (startExec config U f e s)) = ke_identity e" for f s by (auto simp: startExec_def Let_def split: res.splits)
  moreover have "startExec config U executor e s = startExec config U executor' e s" for s
    using assms by (auto simp: startExec_def Let_def split: res.splits)
  ultimately show ?thesis by (auto simp: KubeExec_Receive_def when_back_def Let_def split: option.splits)
qed

lemma forward_same:
  assumes "ki_targetUser (pf_identity p) \<noteq> [] \<longrightarrow> kl_dial K (pf_identity p) = kl_dial K' (pf_identity p)"
    and "kl_config K = kl_config K'" "kl_transport K = kl_transport K'" "kl_create K = kl_create K'"
  shows "PortForward_Receive J K write p action pl = PortForward_Receive J K' write p action pl \<and>
    pf_identity (fst (PortForward_Receive J K write p action pl)) = pf_identity p"
proof -
  have "pf_identity (fst (startPortForward L p rq)) = pf_identity p" for L rq
    by (auto simp: startPortForward_def sendReadyMessage_def Let_def split: res.splits)
  moreover have "startPortForward K p rq = startPortForward K' p rq" for rq
    using assms by (auto simp: startPortForward_def sendReadyMessage_def Let_def split: res.splits)
  moreover have "openPortForwardStream K = openPortForwardStream K'" unfolding openPortForwardStream_def assms(4) by (rule refl)
  ultimately show ?thesis
    by (auto simp: PortForward_Receive_def pf_input_def when_back_def PortForward_Kill_def split: option.splits res.splits prod.splits)
qed

lemma plugin_same:
  assumes "same_answers (kp_identity q) (send, executor, K) (send', executor', K')" and "action_identity (kp_action q) = kp_identity q"
    and "r = KubePlugin_Receive J M U send executor K write q action pl"
  shows "r = KubePlugin_Receive J M U send' executor' K' write q action pl \<and> kp_identity (fst r) = kp_identity q \<and>
    action_identity (kp_action (fst r)) = kp_identity q"
proof -
  note w = assms(1) [unfolded same_answers_def, simplified]
  show ?thesis
  proof (cases "kp_action q")
    case (KubeExecAction a)
    let ?c = "res_map (\<lambda>_. ()) (kl_config K)"
    have "KubeExec_Receive J ?c U executor a action pl = KubeExec_Receive J ?c U executor' a action pl \<and>
        ke_identity (fst (KubeExec_Receive J ?c U executor a action pl)) = ke_identity a"
      using w assms(2) KubeExecAction by (intro exec_same) simp
    then show ?thesis using w assms(2,3) KubeExecAction by (auto simp: KubePlugin_Receive_def)
  next
    case (KubeForwardAction a)
    have "PortForward_Receive J K write a action pl = PortForward_Receive J K' write a action pl \<and>
        pf_identity (fst (PortForward_Receive J K write a action pl)) = pf_identity a"
      using w assms(2) KubeForwardAction by (intro forward_same) simp_all
    then show ?thesis using assms(2,3) KubeForwardAction by (auto simp: KubePlugin_Receive_def)
  next
    case (KubeRestAction a)
    have "RestApi_Receive J M U send a action pl = RestApi_Receive J M U send' a action pl \<and>
        ra_identity (fst (RestApi_Receive J M U send a action pl)) = ra_identity a"
      using w assms(2) KubeRestAction by (intro rest_same) simp
    then show ?thesis using assms(2,3) KubeRestAction by (auto simp: KubePlugin_Receive_def)
  next
    case (KubeStreamAction a)
    have "KubeStream_Receive J M U send a action pl = KubeStream_Receive J M U send' a action pl \<and>
        kst_identity (fst (KubeStream_Receive J M U send a action pl)) = kst_identity a"
      using w assms(2) KubeStreamAction by (intro stream_same) simp
    then show ?thesis using assms(2,3) KubeStreamAction by (auto simp: KubePlugin_Receive_def)
  qed
qed

text \<open>
  C11. Whatever a client asks a Kubernetes session for, the cluster is only asked on behalf of the
  target user the session was opened for: two clusters that treat that user alike, and may
  differ in everything else, make no difference. Without a target user nothing is asked at all.
  The user stays the same for the life of the session.
\<close>

theorem kube_plugin_impersonates:
  assumes "KubePlugin_New J config serviceHost opened syn = Ok p" and "same_answers (kp_identity p) (send, executor, K) (send', executor', K')"
    and "p' = foldl (\<lambda>p m. fst (KubePlugin_Receive J M U send executor K write p (fst m) (snd m))) p ms"
  shows "KubePlugin_Receive J M U send executor K write p' action pl = KubePlugin_Receive J M U send' executor' K' write p' action pl \<and>
    kp_identity p' = kp_identity p \<and> action_identity (kp_action p') = kp_identity p \<and>
    (\<exists>u gs. read_KubeActionParams J syn = Some (u, gs) \<and> ki_targetUser (kp_identity p) = u \<and> ki_targetGroups (kp_identity p) = gs)"
proof -
  let ?R = "KubePlugin_Receive J M U send executor K write"
  note step = plugin_same [where send = send and executor = executor and K = K and send' = send' and executor' = executor' and K' = K']
  have start: "action_identity (kp_action p) = kp_identity p \<and>
      (\<exists>u gs. read_KubeActionParams J syn = Some (u, gs) \<and> ki_targetUser (kp_identity p) = u \<and> ki_targetGroups (kp_identity p) = gs)"
    using assms(1) by (auto simp: KubePlugin_New_def KubeExec_New_def PortForward_New_def KubeStream_New_def Let_def split: option.splits res.splits if_splits)
  have kept: "kp_identity p' = kp_identity p \<and> action_identity (kp_action p') = kp_identity p"
    using assms(3)
  proof (induction ms arbitrary: p' rule: rev_induct)
    case Nil
    then show ?case using start by simp
  next
    case (snoc m ms)
    let ?q = "foldl (\<lambda>p m. fst (?R p (fst m) (snd m))) p ms"
    have q: "kp_identity ?q = kp_identity p" "action_identity (kp_action ?q) = kp_identity p" using snoc.IH by simp_all
    have "same_answers (kp_identity ?q) (send, executor, K) (send', executor', K')" "action_identity (kp_action ?q) = kp_identity ?q"
      using q assms(2) by simp_all
    from step [OF this refl, of J M U "write" "fst m" "snd m"] show ?case using q(1) snoc.prems by auto
  qed
  then have "same_answers (kp_identity p') (send, executor, K) (send', executor', K')" "action_identity (kp_action p') = kp_identity p'"
    using assms(2) by simp_all
  from step [OF this refl, of J M U "write" action pl] show ?thesis using kept start by auto
qed

section \<open>Witnesses\<close>

definition wit_syn :: string where
  "wit_syn = codec_print (VObject [(''targetUser'', VString ''alice''), (''targetGroups'', VArray [VString ''dev''])])"

theorem kube_plugin_impersonates_witness:
  "\<exists>p :: (unit, string) KubePlugin. KubePlugin_New codec_parse (Ok ''t'') ''k8s'' ''kube/restapi/request'' (Some wit_syn) = Ok p \<and>
     ki_targetUser (kp_identity p) = ''alice'' \<and> kp_identity (fst (KubePlugin_Receive codec_parse codec_print plain_urls (\<lambda>_. Panic) (\<lambda>_ _. Panic) wit_kube_lib log_write p ''x'' None)) = kp_identity p"
proof -
  let ?n = "KubePlugin_New codec_parse (Ok ''t'') ''k8s'' ''kube/restapi/request'' (Some wit_syn) :: (unit, string) KubePlugin res"
  have "is_ok ?n" by code_simp
  then obtain p where p: "?n = Ok p" by (elim is_ok.elims) auto
  have r: "read_KubeActionParams codec_parse (Some wit_syn) = Some (''alice'', [''dev''])" by code_simp
  have s: "same_answers (kp_identity p) (\<lambda>_. Panic, \<lambda>_ _. Panic, wit_kube_lib) (\<lambda>_. Panic, \<lambda>_ _. Panic, wit_kube_lib)" by (simp add: same_answers_def)
  note T = kube_plugin_impersonates [OF p s refl, of codec_print plain_urls log_write]
  from T [of "[]"] have "ki_targetUser (kp_identity p) = ''alice''" using r by simp
  moreover from T [of "[(''x'', None)]"] have "kp_identity (fst (KubePlugin_Receive codec_parse codec_print plain_urls (\<lambda>_. Panic) (\<lambda>_ _. Panic) wit_kube_lib log_write p ''x'' None)) = kp_identity p"
    by simp
  ultimately show ?thesis using p by blast
qed

end
