(* ===== verification/Ssh_Keys.thy ===== *)
theory Ssh_Keys
  imports Db_Dial
begin

text \<open>
  \<^verbatim>\<open>bzerolib/plugin/ssh\<close>: the messages of the ssh actions, which commands are a file transfer, and the
  daemon's temporary key pair with its files. RSA, PEM and the ssh formats are those of the
  libraries, an argument.
\<close>

section \<open>Messages\<close>

definition bytes_json :: "string option \<Rightarrow> jvalue" where
  "bytes_json b = (case b of None \<Rightarrow> VNull | Some b \<Rightarrow> VString (EncodeToString b))"

definition SshOpen_json :: "string option \<Rightarrow> string \<Rightarrow> jvalue" where
  "SshOpen_json publicKey version =
     VObject [(''targetUser'', VString []), (''publicKey'', bytes_json publicKey), (''streamMessageVersion'', VString version)]"

definition read_SshOpen :: "json_parser \<Rightarrow> string option \<Rightarrow> (string \<times> string) option" where
  "read_SshOpen J pl =
     Option.bind (read_struct J pl) (\<lambda>kvs.
       case (text_field kvs ''targetUser'', bytes_field kvs ''publicKey'', text_field kvs ''streamMessageVersion'') of
         (Some _, Some k, Some v) \<Rightarrow> Some (k, v) | _ \<Rightarrow> None)"

definition SshInput_json :: "string \<Rightarrow> jvalue" where
  "SshInput_json bytes = VObject [(''data'', bytes_json (Some bytes))]"

definition read_SshInput :: "json_parser \<Rightarrow> string option \<Rightarrow> string option" where
  "read_SshInput J pl = Option.bind (read_struct J pl) (\<lambda>kvs. bytes_field kvs ''data'')"

definition SshExec_json :: "string \<Rightarrow> bool \<Rightarrow> jvalue" where
  "SshExec_json command sftp = VObject [(''command'', marshal_string command), (''sftp'', VBool sftp)]"

definition read_SshExec :: "json_parser \<Rightarrow> string option \<Rightarrow> (string \<times> bool) option" where
  "read_SshExec J pl =
     Option.bind (read_struct J pl) (\<lambda>kvs.
       case (text_field kvs ''command'', bool_field kvs ''sftp'') of (Some c, Some s) \<Rightarrow> Some (c, s) | _ \<Rightarrow> None)"

definition SshClose_json :: "string \<Rightarrow> jvalue" where
  "SshClose_json reason = VObject [(''reason'', marshal_string reason)]"

definition endedByUser :: string where
  "endedByUser = ''SSH session ended''"

lemmas ssh_fields = text_field_def string_field_def bool_field_def bytes_field_def struct_field_def to_lower_def decode_element_def

section \<open>Commands\<close>

text \<open>
  The first four runes of the command are cut out of a slice of them. How many runes that slice
  has room for is up to the implementation of Go: with less than four the cut panics, and runes
  after the end are zero.
\<close>

definition IsValidScp :: "(string \<Rightarrow> nat) \<Rightarrow> string \<Rightarrow> bool res" where
  "IsValidScp room command = (if room command < 4 then Panic else Ok (has_prefix ''scp '' command))"

definition IsValidSftp :: "string \<Rightarrow> bool" where
  "IsValidSftp command \<longleftrightarrow> command = ''sftp''"

definition UnauthorizedCommandError :: "string \<Rightarrow> string" where
  "UnauthorizedCommandError received =
     ''unauthorized command: this user is only allowed to perform file transfer via scp or sftp, but received '' @ received"

definition single_quoted :: "string \<Rightarrow> string" where
  "single_quoted s = CHR 0x27 # s @ [CHR 0x27]"

text \<open>The slice has room for the runes of the command, so for the four of the prefix.\<close>

definition rune_room :: "(string \<Rightarrow> nat) \<Rightarrow> bool" where
  "rune_room room \<longleftrightarrow> (\<forall>s. has_prefix ''scp '' s \<longrightarrow> 4 \<le> room s)"

lemma IsValidScp_iff: "rune_room room \<Longrightarrow> IsValidScp room command = Ok True \<longleftrightarrow> has_prefix ''scp '' command"
  by (auto simp: IsValidScp_def rune_room_def not_less)

section \<open>Key pairs\<close>

record 'r rsa_lib =
  rl_generate :: "'r res"
  rl_validate :: "'r \<Rightarrow> unit res"
  rl_marshal :: "'r \<Rightarrow> string"
  rl_parse :: "string \<Rightarrow> 'r res"
  rl_pem :: "string \<Rightarrow> string"
  rl_unpem :: "string \<Rightarrow> string option"
  rl_authorized :: "'r \<Rightarrow> string res"
  rl_line :: "string list \<Rightarrow> string \<Rightarrow> string"
  rl_read_authorized :: "string \<Rightarrow> string res"

definition generatePrivateKey :: "'r rsa_lib \<Rightarrow> 'r res" where
  "generatePrivateKey L =
     (case rl_generate L of
        Ok k \<Rightarrow> (case rl_validate L k of Ok _ \<Rightarrow> Ok k | Err e \<Rightarrow> Err e | Panic \<Rightarrow> Panic) | r \<Rightarrow> r)"

definition encodePrivateKeyToPem :: "'r rsa_lib \<Rightarrow> 'r \<Rightarrow> string" where
  "encodePrivateKeyToPem L k = rl_pem L (rl_marshal L k)"

definition decodePemToPrivateKey :: "'r rsa_lib \<Rightarrow> string \<Rightarrow> 'r res" where
  "decodePemToPrivateKey L pem =
     (case rl_unpem L pem of None \<Rightarrow> Err (errorf ''error decoding private key: No PEM data was found'') | Some der \<Rightarrow> rl_parse L der)"

definition GenerateKeys :: "'r rsa_lib \<Rightarrow> (string \<times> string) res" where
  "GenerateKeys L =
     (case generatePrivateKey L of
        Err e \<Rightarrow> Err e | Panic \<Rightarrow> Panic
      | Ok k \<Rightarrow> res_map (Pair (encodePrivateKeyToPem L k)) (rl_authorized L k))"

definition ReadPublicKeyRsa :: "'r rsa_lib \<Rightarrow> string \<Rightarrow> 'r res" where
  "ReadPublicKeyRsa L pem =
     (case decodePemToPrivateKey L pem of Ok k \<Rightarrow> res_map (\<lambda>_. k) (rl_validate L k) | r \<Rightarrow> r)"

text \<open>The files of the daemon: the identity file, or why it cannot be read, and the known hosts.\<close>

record ssh_files =
  sf_identity :: "string res"
  sf_knownHosts :: string
  sf_hosts :: "string list"
  sf_write_fault :: "gerror option"
  sf_hosts_fault :: "gerror option"
  sf_lock_fault :: "gerror option"

definition SetKey :: "ssh_files \<Rightarrow> string \<Rightarrow> ssh_files \<times> unit res" where
  "SetKey f key = (case sf_write_fault f of Some e \<Rightarrow> (f, Err e) | None \<Rightarrow> (f\<lparr>sf_identity := Ok key\<rparr>, Ok ()))"

definition AddHostKeyPublic :: "'r rsa_lib \<Rightarrow> ssh_files \<Rightarrow> string \<Rightarrow> ssh_files \<times> unit res" where
  "AddHostKeyPublic L f publicKey =
     (case sf_hosts_fault f of
        Some e \<Rightarrow> (f, Err e)
      | None \<Rightarrow> (f\<lparr>sf_knownHosts := sf_knownHosts f @ rl_line L (sf_hosts f) publicKey @ [CHR 0x0A]\<rparr>, Ok ()))"

definition AddHostKeyPrivate :: "'r rsa_lib \<Rightarrow> ssh_files \<Rightarrow> string \<Rightarrow> ssh_files \<times> unit res" where
  "AddHostKeyPrivate L f privateKey =
     (case ReadPublicKeyRsa L privateKey of
        Err e \<Rightarrow> (f, Err (errorf_s ''failed to decode private key: '' e)) | Panic \<Rightarrow> (f, Panic)
      | Ok k \<Rightarrow>
         (case rl_authorized L k of
            Err e \<Rightarrow> (f, Err (errorf_s ''failed to process public key: '' e)) | Panic \<Rightarrow> (f, Panic)
          | Ok publicKey \<Rightarrow> AddHostKeyPublic L f publicKey))"

definition new_keys :: "'r rsa_lib \<Rightarrow> ssh_files \<Rightarrow> ssh_files \<times> (string \<times> string) res" where
  "new_keys L f =
     (case GenerateKeys L of
        Err e \<Rightarrow> (f, Err (errorf_s ''error generating temporary keys: '' e)) | Panic \<Rightarrow> (f, Panic)
      | Ok (priv, pub) \<Rightarrow>
         (case SetKey f priv of
            (f1, Ok _) \<Rightarrow> (f1, Ok (priv, pub))
          | (f1, Err e) \<Rightarrow> (f1, Err (errorf_s ''error writing temporary private key: '' e)) | (f1, Panic) \<Rightarrow> (f1, Panic)))"

definition SetUpKeys :: "'r rsa_lib \<Rightarrow> ssh_files \<Rightarrow> ssh_files \<times> (string \<times> string) res" where
  "SetUpKeys L f =
     (case sf_lock_fault f of
        Some e \<Rightarrow> (f, Err e)
      | None \<Rightarrow>
         (case sf_identity f of
            Ok priv \<Rightarrow>
              (case ReadPublicKeyRsa L priv of
                 Ok k \<Rightarrow> (case rl_authorized L k of Ok pub \<Rightarrow> (f, Ok (priv, pub)) | Err _ \<Rightarrow> new_keys L f | Panic \<Rightarrow> (f, Panic))
               | Err _ \<Rightarrow> new_keys L f | Panic \<Rightarrow> (f, Panic))
          | Err _ \<Rightarrow> new_keys L f | Panic \<Rightarrow> (f, Panic)))"

text \<open>What is documented of the formats: encoding is undone by decoding.\<close>

definition rsa_formats :: "'r rsa_lib \<Rightarrow> bool" where
  "rsa_formats L \<longleftrightarrow> (\<forall>d. rl_unpem L (rl_pem L d) = Some d) \<and> (\<forall>k. rl_parse L (rl_marshal L k) = Ok k)"

lemma ReadPublicKeyRsa_encoded: "rsa_formats L \<Longrightarrow> ReadPublicKeyRsa L (encodePrivateKeyToPem L k) = res_map (\<lambda>_. k) (rl_validate L k)"
  by (simp add: rsa_formats_def ReadPublicKeyRsa_def decodePemToPrivateKey_def encodePrivateKeyToPem_def)

lemma new_keys_used:
  assumes "rsa_formats L" "new_keys L f = (f', Ok ks)" "sf_lock_fault f = None"
  shows "SetUpKeys L f' = (f', Ok ks)"
proof -
  obtain k priv pub where k: "rl_validate L k = Ok ()" "priv = encodePrivateKeyToPem L k" "rl_authorized L k = Ok pub" "ks = (priv, pub)" "f' = f\<lparr>sf_identity := Ok priv\<rparr>"
    using assms(2) by (auto simp: new_keys_def GenerateKeys_def generatePrivateKey_def SetKey_def split: res.splits prod.splits option.splits elim!: res_map.elims)
  then show ?thesis using ReadPublicKeyRsa_encoded [OF assms(1), of k] assms(3) by (simp add: SetUpKeys_def)
qed

text \<open>
  The temporary key pair of the daemon lasts: once it has been set up, new or found in the
  identity file, every later session gets the same pair and leaves the file alone.
\<close>

theorem ssh_keys_reused:
  assumes "rsa_formats L" and "SetUpKeys L f = (f', Ok ks)"
  shows "SetUpKeys L f' = (f', Ok ks) \<and> sf_identity f' = Ok (fst ks) \<and> sf_knownHosts f' = sf_knownHosts f"
proof -
  have l: "sf_lock_fault f = None" using assms(2) by (auto simp: SetUpKeys_def split: option.splits)
  have n: "sf_identity f' = Ok (fst ks) \<and> sf_knownHosts f' = sf_knownHosts f" if "new_keys L f = (f', Ok ks)"
    using that by (auto simp: new_keys_def SetKey_def split: res.splits prod.splits option.splits)
  have "f' = f \<and> sf_identity f = Ok (fst ks) \<or> new_keys L f = (f', Ok ks)"
    using assms(2) l by (auto simp: SetUpKeys_def split: res.splits)
  then show ?thesis
  proof
    assume "f' = f \<and> sf_identity f = Ok (fst ks)"
    then show ?thesis using assms(2) by simp
  next
    assume k: "new_keys L f = (f', Ok ks)"
    show ?thesis using new_keys_used [OF assms(1) k l] n [OF k] by simp
  qed
qed

definition wit_rsa :: "nat rsa_lib" where
  "wit_rsa = \<lparr> rl_generate = Ok 7, rl_validate = (\<lambda>_. Ok ()), rl_marshal = (\<lambda>k. replicate k CHR ''k''), rl_parse = (\<lambda>s. Ok (length s)),
     rl_pem = (\<lambda>s. CHR ''-'' # s), rl_unpem = (\<lambda>s. case s of [] \<Rightarrow> None | c # r \<Rightarrow> Some r), rl_authorized = (\<lambda>k. Ok (''ssh-rsa AAAA'')),
     rl_line = (\<lambda>_ k. k), rl_read_authorized = Ok \<rparr>"

definition wit_files :: ssh_files where
  "wit_files = \<lparr> sf_identity = Err (errorf ''no such file''), sf_knownHosts = [], sf_hosts = [], sf_write_fault = None, sf_hosts_fault = None, sf_lock_fault = None \<rparr>"

lemma wit_rsa_formats: "rsa_formats wit_rsa"
  by (simp add: rsa_formats_def wit_rsa_def)

theorem ssh_keys_reused_witness:
  "\<exists>f'. SetUpKeys wit_rsa wit_files = (f', Ok (''-kkkkkkk'', ''ssh-rsa AAAA'')) \<and> SetUpKeys wit_rsa f' = (f', Ok (''-kkkkkkk'', ''ssh-rsa AAAA''))"
proof -
  let ?f = "wit_files\<lparr>sf_identity := Ok ''-kkkkkkk''\<rparr>"
  have s: "SetUpKeys wit_rsa wit_files = (?f, Ok (''-kkkkkkk'', ''ssh-rsa AAAA''))" by code_simp
  show ?thesis using ssh_keys_reused [OF wit_rsa_formats s] s by blast
qed

end
