(* ===== verification/Ssh_Opaque.thy ===== *)
theory Ssh_Opaque
  imports Ssh_Keys Authorized_Keys
begin

text \<open>
  The opaque ssh action (\<^verbatim>\<open>opaquessh.go\<close> of the agent and the daemon): the daemon passes the bytes
  of the local ssh client to an ssh server near the agent, after the agent has authorised the
  client's temporary key. The TCP connection takes writes through an argument.
\<close>

section \<open>The agent\<close>

record 'c OpaqueSsh =
  os_tomb :: tomb
  os_doneClosed :: bool
  os_stream :: "StreamMessage list"
  os_version :: string
  os_conn :: 'c
  os_connClosed :: bool
  os_authKeys :: AuthorizedKeys
  os_routines :: "int option list"

definition OpaqueSsh_New :: "'c \<Rightarrow> AuthorizedKeys \<Rightarrow> 'c OpaqueSsh" where
  "OpaqueSsh_New conn authKeys =
     \<lparr> os_tomb = tomb_new, os_doneClosed = False, os_stream = [], os_version = [], os_conn = conn, os_connClosed = False, os_authKeys = authKeys,
       os_routines = [] \<rparr>"

definition OpaqueSsh_Kill :: "'c OpaqueSsh \<Rightarrow> 'c OpaqueSsh \<times> bool" where
  "OpaqueSsh_Kill s = (s\<lparr>os_tomb := tomb_Kill (os_tomb s) None, os_connClosed := True\<rparr>, tomb_Waits (os_tomb s))"

definition os_sendStreamMessage :: "'c OpaqueSsh \<Rightarrow> int \<Rightarrow> string \<Rightarrow> bool \<Rightarrow> string \<Rightarrow> 'c OpaqueSsh" where
  "os_sendStreamMessage s sequenceNumber streamType moreMessages contentBytes =
     s\<lparr>os_stream := os_stream s @ [\<lparr> sm_RequestId = [], sm_SchemaVersion = os_version s, sm_SequenceNumber = sequenceNumber,
         sm_Action = ''opaque'', sm_Type = streamType, sm_More = moreMessages, sm_LogId = [], sm_Content = EncodeToString contentBytes \<rparr>]\<rparr>"

definition sshPubKeyFiles :: "string list" where
  "sshPubKeyFiles = [''ssh_host_dsa_key.pub'', ''ssh_host_ecdsa_key.pub'', ''ssh_host_ed25519_key.pub'', ''ssh_host_rsa_key.pub'']"

text \<open>The host keys that can be read are sent, then a routine passes on what the server sends.\<close>

definition send_host_key :: "(string \<Rightarrow> string res) \<Rightarrow> 'c OpaqueSsh \<Rightarrow> string \<Rightarrow> 'c OpaqueSsh" where
  "send_host_key readFile s keyFile =
     (case readFile (filepath_Join ''/etc/ssh'' keyFile) of Ok keyContents \<Rightarrow> os_sendStreamMessage s 0 ''data'' False keyContents | _ \<Rightarrow> s)"

definition OpaqueSsh_start :: "(string \<Rightarrow> string res) \<Rightarrow> 'c OpaqueSsh \<Rightarrow> string \<Rightarrow> 'c OpaqueSsh \<times> string option res" where
  "OpaqueSsh_start readFile s version =
     (let s1 = foldl (send_host_key readFile) (s\<lparr>os_version := version\<rparr>) sshPubKeyFiles in
      case tomb_Go (os_tomb s1) of
        Ok t \<Rightarrow> (s1\<lparr>os_tomb := t, os_routines := os_routines s1 @ [Some 1]\<rparr>, Ok (Some []))
      | _ \<Rightarrow> (s1, Panic))"

definition os_return :: "'c OpaqueSsh \<Rightarrow> nat \<Rightarrow> gerror option \<Rightarrow> 'c OpaqueSsh \<times> unit res" where
  "os_return s i err =
     (if os_doneClosed s then (s, Panic)
      else (s\<lparr>os_doneClosed := True, os_routines := (os_routines s)[i := None], os_tomb := tomb_return (os_tomb s) err\<rparr>, Ok ()))"

definition os_turn :: "'c OpaqueSsh \<Rightarrow> nat \<Rightarrow> io_read \<Rightarrow> 'c OpaqueSsh \<times> unit res" where
  "os_turn s i ev =
     (case (if i < length (os_routines s) then os_routines s ! i else None) of
        None \<Rightarrow> (s, Ok ())
      | Some n \<Rightarrow>
         if \<not> tomb_Alive (os_tomb s) then os_return s i None
         else (case ev of
                 IoData b \<Rightarrow> ((os_sendStreamMessage s n ''stdout'' True b)\<lparr>os_routines := (os_routines s)[i := Some (n + 1)]\<rparr>, Ok ())
               | IoEof b \<Rightarrow> os_return (os_sendStreamMessage s n ''stdout'' False b) i (Some (errorf ''EOF''))
               | IoFail b e \<Rightarrow> os_return (os_sendStreamMessage s n ''error'' False b) i (Some e)))"

fun os_turns :: "'c OpaqueSsh \<Rightarrow> nat \<Rightarrow> io_read list \<Rightarrow> 'c OpaqueSsh \<times> unit res" where
  "os_turns s i [] = (s, Ok ())"
| "os_turns s i (ev # evs) = (case os_turn s i ev of (s', Ok _) \<Rightarrow> os_turns s' i evs | r \<Rightarrow> r)"

text \<open>The result says whether the call comes back; adding a key may have to look for ever.\<close>

definition OpaqueSsh_Receive ::
  "json_parser \<Rightarrow> int \<Rightarrow> (string \<Rightarrow> string res) \<Rightarrow> ('c \<Rightarrow> string \<Rightarrow> 'c \<times> unit res) \<Rightarrow> unix \<times> 'c OpaqueSsh \<Rightarrow> string \<Rightarrow> string option \<Rightarrow>
   (unix \<times> 'c OpaqueSsh) \<times> string option res option" where
  "OpaqueSsh_Receive J now readFile write us action pl =
     (case us of (ux, s) \<Rightarrow>
        if action = ''ssh/open''
        then (case read_SshOpen J pl of
                None \<Rightarrow> (us, Some (Err (errorf ''malformed opaque ssh action payload '')))
              | Some (publicKey, version) \<Rightarrow>
                 (case AuthorizedKeys_Add now ux (os_authKeys s) publicKey of
                    None \<Rightarrow> (us, None)
                  | Some (ux1, Err e) \<Rightarrow> ((ux1, s), Some (Err e))
                  | Some (ux1, Panic) \<Rightarrow> ((ux1, s), Some Panic)
                  | Some (ux1, Ok _) \<Rightarrow> (case OpaqueSsh_start readFile s version of (s1, r) \<Rightarrow> ((ux1, s1), Some r))))
        else if action = ''ssh/input''
        then (case read_SshInput J pl of
                None \<Rightarrow> (us, Some (Err (errorf ''unable to unmarshal opaque ssh input message: '')))
              | Some b \<Rightarrow>
                 (case write (os_conn s) b of (c, r) \<Rightarrow>
                    let s1 = s\<lparr>os_conn := c\<rparr> in
                    if \<not> tomb_Alive (os_tomb s) \<or> is_ok r then ((ux, s1), Some (Ok (Some [])))
                    else (case OpaqueSsh_Kill s1 of (s2, back) \<Rightarrow> when_back ((ux, s2), back) (Ok (Some [])))))
        else if action = ''ssh/close'' then (case OpaqueSsh_Kill s of (s1, back) \<Rightarrow> when_back ((ux, s1), back) (Ok pl))
        else (us, Some (Err (errorf (''unhandled stream action: '' @ action)))))"

section \<open>The daemon\<close>

text \<open>
  A routine waits for the tomb to be dying, closes the done channel and then stores the error;
  it is in the first of these states, between the two steps, or through.
\<close>

datatype watcher = NoWatcher | Watching | DoneClosed | Stored

record 'w OpaqueSshAction =
  oa_tomb :: tomb
  oa_outbox :: "(string \<times> string option) list"
  oa_doneClosed :: bool
  oa_err :: "gerror option"
  oa_stdout :: 'w
  oa_files :: ssh_files
  oa_watcher :: watcher
  oa_reading :: bool

definition OpaqueSshAction_New :: "'w \<Rightarrow> ssh_files \<Rightarrow> bool \<Rightarrow> 'w OpaqueSshAction" where
  "OpaqueSshAction_New stdIo files doneClosed =
     \<lparr> oa_tomb = tomb_new, oa_outbox = [], oa_doneClosed = doneClosed, oa_err = None, oa_stdout = stdIo, oa_files = files, oa_watcher = NoWatcher,
       oa_reading = False \<rparr>"

definition OpaqueSshAction_Kill :: "'w OpaqueSshAction \<Rightarrow> gerror option \<Rightarrow> 'w OpaqueSshAction" where
  "OpaqueSshAction_Kill a err = a\<lparr>oa_tomb := tomb_Kill (oa_tomb a) err\<rparr>"

definition oa_sendOutputMessage :: "json_printer \<Rightarrow> 'w OpaqueSshAction \<Rightarrow> string \<Rightarrow> jvalue \<Rightarrow> 'w OpaqueSshAction" where
  "oa_sendOutputMessage M a action payload = a\<lparr>oa_outbox := oa_outbox a @ [(action, Some (M payload))]\<rparr>"

definition OpaqueSshAction_Start :: "json_printer \<Rightarrow> 'r rsa_lib \<Rightarrow> 'w OpaqueSshAction \<Rightarrow> 'w OpaqueSshAction \<times> unit res" where
  "OpaqueSshAction_Start M L a =
     (case SetUpKeys L (oa_files a) of
        (f, Err e) \<Rightarrow> (a\<lparr>oa_files := f\<rparr>, Err (errorf_s ''failed to set up ssh keypair: '' e)) | (f, Panic) \<Rightarrow> (a\<lparr>oa_files := f\<rparr>, Panic)
      | (f, Ok (priv, publicKey)) \<Rightarrow>
         (case tomb_Go (oa_tomb a) of
            Ok t \<Rightarrow>
              ((oa_sendOutputMessage M a ''ssh/open'' (SshOpen_json (Some publicKey) CurrentSchema))
                 \<lparr>oa_files := f, oa_tomb := t, oa_watcher := Watching, oa_reading := True\<rparr>, Ok ())
          | _ \<Rightarrow> (a\<lparr>oa_files := f\<rparr>, Panic)))"

definition stdin_closed :: gerror where
  "stdin_closed = GErr ''finished reading from stdin'' [SshStdinClosedError]"

definition oa_read_turn :: "json_printer \<Rightarrow> 'w OpaqueSshAction \<Rightarrow> io_read \<Rightarrow> 'w OpaqueSshAction" where
  "oa_read_turn M a ev =
     (let stop = (\<lambda>a err. a\<lparr>oa_reading := False, oa_tomb := tomb_return (oa_tomb a) err\<rparr>) in
      if \<not> oa_reading a then a
      else if \<not> tomb_Alive (oa_tomb a) then stop a None
      else (case ev of
              IoData b \<Rightarrow> if b = [] then a else oa_sendOutputMessage M a ''ssh/input'' (SshInput_json b)
            | IoEof b \<Rightarrow> stop (oa_sendOutputMessage M a ''ssh/close'' (SshClose_json endedByUser)) (Some stdin_closed)
            | IoFail b e \<Rightarrow> stop a (Some (errorf_s ''error reading from Stdin: '' e))))"

definition oa_watch_turn :: "'w OpaqueSshAction \<Rightarrow> 'w OpaqueSshAction \<times> unit res" where
  "oa_watch_turn a =
     (case oa_watcher a of
        Watching \<Rightarrow>
          if tomb_Alive (oa_tomb a) then (a, Ok ())
          else if oa_doneClosed a then (a, Panic)
          else (a\<lparr>oa_doneClosed := True, oa_watcher := DoneClosed\<rparr>, Ok ())
      | DoneClosed \<Rightarrow> (a\<lparr>oa_err := (case tb_killed (oa_tomb a) of Some r \<Rightarrow> r | None \<Rightarrow> None), oa_watcher := Stored\<rparr>, Ok ())
      | _ \<Rightarrow> (a, Ok ()))"

text \<open>Messages are taken in the order in which they arrive; errors are logged.\<close>

definition OpaqueSshAction_ReceiveStream ::
  "'r rsa_lib \<Rightarrow> ('w \<Rightarrow> string \<Rightarrow> 'w \<times> unit res) \<Rightarrow> 'w OpaqueSshAction \<Rightarrow> StreamMessage \<Rightarrow> 'w OpaqueSshAction" where
  "OpaqueSshAction_ReceiveStream L write a m =
     (if sm_Type m = ''stdout''
      then (case DecodeString (sm_Content m) of
              None \<Rightarrow> a
            | Some contentBytes \<Rightarrow>
               let a1 = a\<lparr>oa_stdout := fst (write (oa_stdout a) contentBytes)\<rparr> in
               if \<not> sm_More m then OpaqueSshAction_Kill a1 (Some (errorf ''received ssh close stream message'')) else a1)
      else if sm_Type m = ''error'' then OpaqueSshAction_Kill a (Some (errorf ''received an error from the agent''))
      else if sm_Type m = ''data''
      then (case DecodeString (sm_Content m) of
              None \<Rightarrow> a
            | Some contentBytes \<Rightarrow>
               (case rl_read_authorized L contentBytes of
                  Ok parsedKey \<Rightarrow> a\<lparr>oa_files := fst (AddHostKeyPublic L (oa_files a) parsedKey)\<rparr>
                | _ \<Rightarrow> a))
      else a)"

section \<open>A session\<close>

definition ssh_agrees :: "json_parser \<Rightarrow> json_printer \<Rightarrow> bool" where
  "ssh_agrees J M \<longleftrightarrow>
     (\<forall>k v. J (M (SshOpen_json k v)) = Some (SshOpen_json k v)) \<and> (\<forall>b. J (M (SshInput_json b)) = Some (SshInput_json b)) \<and>
     (\<forall>c s. J (M (SshExec_json c s)) = Some (SshExec_json c s)) \<and> (\<forall>r. J (M (SshClose_json r)) = Some (SshClose_json r))"

lemma read_ssh:
  assumes "ssh_agrees J M"
  shows "read_SshOpen J (Some (M (SshOpen_json (Some k) v))) = Some (k, v)" "read_SshInput J (Some (M (SshInput_json b))) = Some b"
proof -
  have j: "J (M (SshOpen_json (Some k) v)) = Some (SshOpen_json (Some k) v)" "J (M (SshInput_json b)) = Some (SshInput_json b)"
    using assms by (simp_all add: ssh_agrees_def)
  show "read_SshOpen J (Some (M (SshOpen_json (Some k) v))) = Some (k, v)" using j(1)
    by (simp add: read_SshOpen_def read_struct_def)
       (simp add: SshOpen_json_def bytes_json_def ssh_fields)
  show "read_SshInput J (Some (M (SshInput_json b))) = Some b" using j(2)
    by (simp add: read_SshInput_def read_struct_def) (simp add: SshInput_json_def bytes_json_def ssh_fields)
qed

lemma started_alive [simp]: "tomb_Alive (tomb_new\<lparr>tb_started := True, tb_running := n\<rparr>)"
  by (simp add: tomb_Alive_def tomb_new_def)

definition oa_reads :: "json_printer \<Rightarrow> 'w OpaqueSshAction \<Rightarrow> io_read list \<Rightarrow> 'w OpaqueSshAction" where
  "oa_reads M = foldl (oa_read_turn M)"

definition os_receive_all ::
  "json_parser \<Rightarrow> int \<Rightarrow> (string \<Rightarrow> string res) \<Rightarrow> unix \<times> string OpaqueSsh \<Rightarrow> (string \<times> string option) list \<Rightarrow> unix \<times> string OpaqueSsh" where
  "os_receive_all J now readFile = foldl (\<lambda>us m. fst (OpaqueSsh_Receive J now readFile log_write us (fst m) (snd m)))"

definition oa_receive_all :: "'r rsa_lib \<Rightarrow> string OpaqueSshAction \<Rightarrow> StreamMessage list \<Rightarrow> string OpaqueSshAction" where
  "oa_receive_all L = foldl (OpaqueSshAction_ReceiveStream L log_write)"

lemma reads_input:
  "oa_reading a \<Longrightarrow> tomb_Alive (oa_tomb a) \<Longrightarrow>
   oa_reads M a (map IoData cs) = a\<lparr>oa_outbox := oa_outbox a @ map (\<lambda>b. (''ssh/input'', Some (M (SshInput_json b)))) (filter (\<lambda>b. b \<noteq> []) cs)\<rparr>"
proof (induction cs arbitrary: a)
  case (Cons c cs)
  let ?a = "oa_read_turn M a (IoData c)"
  have "?a = (if c = [] then a else a\<lparr>oa_outbox := oa_outbox a @ [(''ssh/input'', Some (M (SshInput_json c)))]\<rparr>)"
    using Cons.prems by (simp add: oa_read_turn_def oa_sendOutputMessage_def Let_def)
  then show ?case using Cons.IH [of ?a] Cons.prems by (cases "c = []") (simp_all add: oa_reads_def)
qed (simp add: oa_reads_def)

lemma ssh_inputs_received:
  assumes "ssh_agrees J M"
  shows "tomb_Alive (os_tomb s) \<Longrightarrow>
    os_receive_all J now readFile (ux, s) (map (\<lambda>b. (''ssh/input'', Some (M (SshInput_json b)))) cs) = (ux, s\<lparr>os_conn := os_conn s @ concat cs\<rparr>)"
proof (induction cs arbitrary: s)
  case (Cons c cs)
  let ?s = "s\<lparr>os_conn := os_conn s @ c\<rparr>"
  have "fst (OpaqueSsh_Receive J now readFile log_write (ux, s) ''ssh/input'' (Some (M (SshInput_json c)))) = (ux, ?s)"
    using read_ssh(2) [OF assms] by (simp add: OpaqueSsh_Receive_def log_write_def Let_def)
  then show ?case using Cons.IH [of ?s] Cons.prems by (simp add: os_receive_all_def)
qed (simp add: os_receive_all_def)

definition os_output :: "string \<Rightarrow> int \<Rightarrow> bool \<Rightarrow> string \<Rightarrow> StreamMessage" where
  "os_output v n moreMessages b =
     \<lparr> sm_RequestId = [], sm_SchemaVersion = v, sm_SequenceNumber = n, sm_Action = ''opaque'', sm_Type = ''stdout'', sm_More = moreMessages,
       sm_LogId = [], sm_Content = EncodeToString b \<rparr>"

fun os_outputs :: "string \<Rightarrow> int \<Rightarrow> string list \<Rightarrow> string \<Rightarrow> StreamMessage list" where
  "os_outputs v n [] b = [os_output v n False b]"
| "os_outputs v n (c # cs) b = os_output v n True c # os_outputs v (n + 1) cs b"

lemma turns_output:
  "os_routines s = [Some n] \<Longrightarrow> tomb_Alive (os_tomb s) \<Longrightarrow> \<not> os_doneClosed s \<Longrightarrow>
   \<exists>s'. os_turns s 0 (map IoData bs @ [IoEof b]) = (s', Ok ()) \<and> os_stream s' = os_stream s @ os_outputs (os_version s) n bs b \<and> os_doneClosed s'"
proof (induction bs arbitrary: s n)
  case Nil
  then show ?case by (simp add: os_turn_def os_return_def os_sendStreamMessage_def os_output_def)
next
  case (Cons c cs)
  let ?s = "(os_sendStreamMessage s n ''stdout'' True c)\<lparr>os_routines := [Some (n + 1)]\<rparr>"
  have "os_turn s 0 (IoData c) = (?s, Ok ())" using Cons.prems by (simp add: os_turn_def)
  then show ?case using Cons.IH [of ?s "n + 1"] Cons.prems by (simp add: os_sendStreamMessage_def os_output_def)
qed

lemma receive_outputs:
  "oa_stdout (oa_receive_all L a (os_outputs v n bs b)) = oa_stdout a @ concat bs @ b \<and> \<not> tomb_Alive (oa_tomb (oa_receive_all L a (os_outputs v n bs b)))"
  by (induction bs arbitrary: a n)
     (simp_all add: oa_receive_all_def OpaqueSshAction_ReceiveStream_def os_output_def log_write_def OpaqueSshAction_Kill_def Let_def)

lemma host_keys_sent:
  "\<exists>keys. foldl (send_host_key readFile) s fs = s\<lparr>os_stream := os_stream s @ keys\<rparr> \<and> (\<forall>m \<in> set keys. sm_Type m = ''data'')"
proof (induction fs arbitrary: s)
  case Nil
  then show ?case by (auto intro: exI [of _ "[]"])
next
  case (Cons x fs)
  obtain k where k: "send_host_key readFile s x = s\<lparr>os_stream := os_stream s @ k\<rparr>" "\<forall>m \<in> set k. sm_Type m = ''data''"
    by (cases "readFile (filepath_Join ''/etc/ssh'' x)")
       (auto simp: send_host_key_def os_sendStreamMessage_def intro: that [of "[]"])
  obtain keys where "foldl (send_host_key readFile) (s\<lparr>os_stream := os_stream s @ k\<rparr>) fs = s\<lparr>os_stream := os_stream s @ k @ keys\<rparr>" "\<forall>m \<in> set keys. sm_Type m = ''data''"
    using Cons [of "s\<lparr>os_stream := os_stream s @ k\<rparr>"] by auto
  then show ?case using k by (auto intro!: exI [of _ "k @ keys"])
qed

lemma host_keys_quiet:
  "\<forall>m \<in> set keys. sm_Type m = ''data'' \<Longrightarrow>
   oa_stdout (oa_receive_all L a keys) = oa_stdout a \<and> oa_tomb (oa_receive_all L a keys) = oa_tomb a \<and> oa_outbox (oa_receive_all L a keys) = oa_outbox a"
proof (induction keys arbitrary: a)
  case (Cons m keys)
  have "oa_stdout (OpaqueSshAction_ReceiveStream L log_write a m) = oa_stdout a \<and> oa_tomb (OpaqueSshAction_ReceiveStream L log_write a m) = oa_tomb a \<and>
      oa_outbox (OpaqueSshAction_ReceiveStream L log_write a m) = oa_outbox a"
    using Cons.prems by (auto simp: OpaqueSshAction_ReceiveStream_def split: option.splits res.splits)
  then show ?case using Cons by (simp add: oa_receive_all_def)
qed (simp add: oa_receive_all_def)

text \<open>
  C28. An ssh session through the agent: opening it authorises the daemon's public key for the
  target user, then what the local client sends reaches the ssh server, and what the server
  sends reaches the client, unchanged and in order, until the server closes the connection.
\<close>

theorem opaque_ssh_session:
  assumes "ssh_agrees J M" and "SetUpKeys L files = (f, Ok (priv, pub))" and "AuthorizedKeys_Add now ux authKeys pub = Some (ux', Ok entry)"
    and "OpaqueSshAction_Start M L (OpaqueSshAction_New [] files False) = (a, r)"
  shows "r = Ok () \<and> (\<exists>openMessage sent. oa_outbox (oa_reads M a (map IoData cs)) = openMessage # sent \<and>
    (case os_receive_all J now readFile (ux, OpaqueSsh_New [] authKeys) (openMessage # sent) of (ux1, s) \<Rightarrow>
       ux1 = ux' \<and> os_conn s = concat cs \<and>
       (\<exists>s'. os_turns s 0 (map IoData bs @ [IoEof b]) = (s', Ok ()) \<and> os_doneClosed s' \<and>
          (let a' = oa_receive_all L (oa_reads M a (map IoData cs)) (os_stream s') in oa_stdout a' = concat bs @ b \<and> \<not> tomb_Alive (oa_tomb a')))))"
proof -
  let ?open = "(''ssh/open'', Some (M (SshOpen_json (Some pub) CurrentSchema)))"
  let ?sent = "map (\<lambda>b. (''ssh/input'', Some (M (SshInput_json b)))) (filter (\<lambda>b. b \<noteq> []) cs)"
  have a: "r = Ok ()" "oa_outbox a = [?open]" "oa_reading a" "tomb_Alive (oa_tomb a)" "oa_stdout a = []"
    using assms(2,4) by (auto simp: OpaqueSshAction_Start_def OpaqueSshAction_New_def oa_sendOutputMessage_def)
  have r: "oa_reads M a (map IoData cs) = a\<lparr>oa_outbox := ?open # ?sent\<rparr>" using reads_input [OF a(3,4)] a(2) by simp
  let ?n = "OpaqueSsh_New ([] :: string) authKeys"
  obtain keys where k: "foldl (send_host_key readFile) (?n\<lparr>os_version := CurrentSchema\<rparr>) sshPubKeyFiles =
      ?n\<lparr>os_version := CurrentSchema, os_stream := keys\<rparr>" "\<forall>m \<in> set keys. sm_Type m = ''data''"
    using host_keys_sent [of readFile "?n\<lparr>os_version := CurrentSchema\<rparr>" sshPubKeyFiles] by (auto simp: OpaqueSsh_New_def)
  let ?s = "?n\<lparr>os_version := CurrentSchema, os_stream := keys, os_tomb := tomb_new\<lparr>tb_started := True, tb_running := 1\<rparr>, os_routines := [Some 1]\<rparr>"
  have n: "os_tomb ?n = tomb_new" "os_routines ?n = []" "os_authKeys ?n = authKeys" by (simp_all add: OpaqueSsh_New_def)
  have st: "OpaqueSsh_start readFile ?n CurrentSchema = (?s, Ok (Some []))"
    unfolding OpaqueSsh_start_def k(1) Let_def by (simp add: n tomb_Go_def tomb_new_def)
  have o: "fst (OpaqueSsh_Receive J now readFile log_write (ux, ?n) ''ssh/open'' (snd ?open)) = (ux', ?s)"
    using read_ssh(1) [OF assms(1)] assms(3) st by (simp add: OpaqueSsh_Receive_def n)
  have s: "os_tomb ?s = tomb_new\<lparr>tb_started := True, tb_running := 1\<rparr>" "os_routines ?s = [Some 1]" "\<not> os_doneClosed ?s" "os_conn ?s = []" "os_stream ?s = keys"
    by (simp_all add: OpaqueSsh_New_def)
  have cc: "concat (filter (\<lambda>b. b \<noteq> []) cs) = concat cs" by (induction cs) auto
  have rcv: "os_receive_all J now readFile (ux, ?n) (?open # ?sent) = (ux', ?s\<lparr>os_conn := concat cs\<rparr>)"
    using o ssh_inputs_received [OF assms(1), of ?s now readFile ux' "filter (\<lambda>b. b \<noteq> []) cs"] s cc by (simp add: os_receive_all_def tomb_Alive_def tomb_new_def)
  obtain s' where s': "os_turns (?s\<lparr>os_conn := concat cs\<rparr>) 0 (map IoData bs @ [IoEof b]) = (s', Ok ())"
      "os_stream s' = keys @ os_outputs CurrentSchema 1 bs b" "os_doneClosed s'"
    using turns_output [of "?s\<lparr>os_conn := concat cs\<rparr>" 1 bs b] s by (auto simp: tomb_Alive_def tomb_new_def)
  have split: "oa_receive_all L x (os_stream s') = oa_receive_all L (oa_receive_all L x keys) (os_outputs CurrentSchema 1 bs b)" for x
    using s'(2) by (simp add: oa_receive_all_def)
  have "oa_stdout (oa_receive_all L x (os_stream s')) = oa_stdout x @ concat bs @ b \<and> \<not> tomb_Alive (oa_tomb (oa_receive_all L x (os_stream s')))" for x
    unfolding split by (simp add: receive_outputs host_keys_quiet [OF k(2)])
  then show ?thesis using a(1,5) r rcv s'(1,3) by (simp add: Let_def)
qed

text \<open>
  How it goes wrong: closing a session that was not opened never comes back; opening it
  twice panics the agent when the connections end; and the daemon announces the end of a session
  before it stores the reason, so a client that looks at once sees none.
\<close>

theorem opaque_ssh_faults:
  assumes "os_tomb s = tomb_new" and "os_routines s = []" and "\<not> os_doneClosed s"
    and "oa_watcher a = Watching" and "oa_reading a" and "tomb_Alive (oa_tomb a)" and "\<not> oa_doneClosed a" and "oa_err a = None" and "tb_running (oa_tomb a) = 1"
  shows "snd (OpaqueSsh_Receive J now readFile write (ux, s) ''ssh/close'' pl) = None \<and>
    (let twice = fst (OpaqueSsh_start readFile (fst (OpaqueSsh_start readFile s v)) v) in snd (os_turn (fst (os_turn twice 0 (IoEof []))) 1 ev) = Panic) \<and>
    (let closed = fst (oa_watch_turn (oa_read_turn M a (IoEof []))); stored = fst (oa_watch_turn closed) in
     oa_doneClosed closed \<and> oa_err closed = None \<and> oa_err stored = Some stdin_closed)"
proof (intro conjI)
  show "snd (OpaqueSsh_Receive J now readFile write (ux, s) ''ssh/close'' pl) = None"
    using assms(1) by (simp add: OpaqueSsh_Receive_def OpaqueSsh_Kill_def when_back_def)
  let ?one = "fst (OpaqueSsh_start readFile s v)"
  obtain k1 k2 where "os_routines (fst (OpaqueSsh_start readFile ?one v)) = [Some 1, Some 1]" "\<not> os_doneClosed (fst (OpaqueSsh_start readFile ?one v))"
    "tomb_Alive (os_tomb (fst (OpaqueSsh_start readFile ?one v)))"
  proof -
    obtain k1 where k1: "foldl (send_host_key readFile) (s\<lparr>os_version := v\<rparr>) sshPubKeyFiles = s\<lparr>os_version := v, os_stream := k1\<rparr>"
      using host_keys_sent [of readFile "s\<lparr>os_version := v\<rparr>"] by fastforce
    then have one: "?one = s\<lparr>os_version := v, os_stream := k1, os_tomb := tomb_new\<lparr>tb_started := True, tb_running := 1\<rparr>, os_routines := [Some 1]\<rparr>"
      using assms(1,2) by (simp add: OpaqueSsh_start_def Let_def)
    obtain k2 where "foldl (send_host_key readFile) (?one\<lparr>os_version := v\<rparr>) sshPubKeyFiles = ?one\<lparr>os_version := v, os_stream := k2\<rparr>"
      using host_keys_sent [of readFile "?one\<lparr>os_version := v\<rparr>"] by fastforce
    then show ?thesis using that assms(3) one by (simp add: OpaqueSsh_start_def tomb_Go_def tomb_Alive_def tomb_new_def Let_def)
  qed
  then show "let twice = fst (OpaqueSsh_start readFile ?one v) in snd (os_turn (fst (os_turn twice 0 (IoEof []))) 1 ev) = Panic"
    by (simp add: os_turn_def os_return_def os_sendStreamMessage_def tomb_return_def Let_def)
  show "let closed = fst (oa_watch_turn (oa_read_turn M a (IoEof []))); stored = fst (oa_watch_turn closed) in
     oa_doneClosed closed \<and> oa_err closed = None \<and> oa_err stored = Some stdin_closed"
    using assms(4-9) by (simp add: oa_read_turn_def oa_sendOutputMessage_def oa_watch_turn_def tomb_return_def tomb_Kill_def tomb_Alive_def Let_def)
qed

section \<open>Witnesses\<close>

lemma ssh_agrees_codec: "ssh_agrees codec_parse codec_print"
  by (simp add: ssh_agrees_def)

theorem opaque_ssh_session_witness:
  "\<exists>openMessage sent. oa_outbox (oa_reads codec_print (fst (OpaqueSshAction_Start codec_print wit_rsa (OpaqueSshAction_New ([] :: string) wit_files False))) (map IoData [''SSH'', ''-2.0''])) = openMessage # sent \<and>
     os_conn (snd (os_receive_all codec_parse 5 (\<lambda>_. Err (errorf ''none'')) (wit_ux, OpaqueSsh_New [] wit_keys) (openMessage # sent))) = ''SSH-2.0''"
proof -
  let ?f = "wit_files\<lparr>sf_identity := Ok ''-kkkkkkk''\<rparr>" and ?st = "OpaqueSshAction_Start codec_print wit_rsa (OpaqueSshAction_New ([] :: string) wit_files False)"
  have k: "SetUpKeys wit_rsa wit_files = (?f, Ok (''-kkkkkkk'', ''ssh-rsa AAAA''))" by code_simp
  obtain ux1 where x: "AuthorizedKeys_Add 5 wit_ux wit_keys ''ssh-rsa AAAA'' = Some (ux1, Ok ''ssh-rsa AAAA bzero-temp-key created_at=5'')"
    using wit_key_added by blast
  have s: "?st = (fst ?st, snd ?st)" by simp
  show ?thesis
    using opaque_ssh_session [OF ssh_agrees_codec k x s, where cs = "[''SSH'', ''-2.0'']" and readFile = "\<lambda>_. Err (errorf ''none'')" and bs = "[]" and b = "[]"]
    by (auto simp: case_prod_beta)
qed

theorem opaque_ssh_faults_witness:
  "snd (OpaqueSsh_Receive codec_parse 0 (\<lambda>_. Panic) log_write (wit_ux, OpaqueSsh_New [] wit_keys) ''ssh/close'' None) = None"
proof -
  let ?s = "OpaqueSsh_New [] wit_keys :: string OpaqueSsh"
  let ?a = "(OpaqueSshAction_New [] wit_files False)\<lparr>oa_watcher := Watching, oa_reading := True, oa_tomb := \<lparr> tb_killed = None, tb_started = True, tb_running = 1 \<rparr>\<rparr> :: string OpaqueSshAction"
  have s: "os_tomb ?s = tomb_new" "os_routines ?s = []" "\<not> os_doneClosed ?s" by (simp_all add: OpaqueSsh_New_def)
  have a: "oa_watcher ?a = Watching" "oa_reading ?a" "tomb_Alive (oa_tomb ?a)" "\<not> oa_doneClosed ?a" "oa_err ?a = None" "tb_running (oa_tomb ?a) = 1"
    by (simp_all add: OpaqueSshAction_New_def tomb_Alive_def)
  show ?thesis using opaque_ssh_faults [OF s a] by blast
qed

end
