(* ===== verification/Ssh_Transparent.thy ===== *)
theory Ssh_Transparent
  imports Ssh_Opaque
begin

text \<open>
  The transparent ssh action (\<^verbatim>\<open>transparentssh.go\<close> of the agent and the daemon): the daemon is the
  ssh server of the local client and lets only file transfers through, the agent is the client
  of the real server; and the ssh plugins of both sides (\<^verbatim>\<open>ssh.go\<close>).
\<close>

section \<open>The agent\<close>

text \<open>
  What is asked of the ssh library on the session: which subsystem, which command. Making a
  session and its pipes can fail. Pipes are written through an argument.
\<close>

datatype session_call = RequestSubsystem string | StartCommand string

record ('c, 'w) ssh_client =
  sc_NewSession :: "'c \<Rightarrow> unit res"
  sc_StdinPipe :: "'c \<Rightarrow> 'w res"
  sc_StdoutPipe :: "'c \<Rightarrow> unit res"
  sc_StderrPipe :: "'c \<Rightarrow> unit res"

record ('c, 'w) TransparentSsh =
  ts_tomb :: tomb
  ts_doneClosed :: bool
  ts_stream :: "StreamMessage list"
  ts_conn :: 'c
  ts_connClosed :: bool
  ts_session :: bool
  ts_calls :: "session_call list"
  ts_stdInChan :: "string list"
  ts_stdin :: "'w option"
  ts_writing :: bool
  ts_stdout :: bool
  ts_stderr :: bool

definition TransparentSsh_New :: "'c \<Rightarrow> ('c, 'w) TransparentSsh" where
  "TransparentSsh_New conn =
     \<lparr> ts_tomb = tomb_new, ts_doneClosed = False, ts_stream = [], ts_conn = conn, ts_connClosed = False, ts_session = False, ts_calls = [],
       ts_stdInChan = [], ts_stdin = None, ts_writing = False, ts_stdout = False, ts_stderr = False \<rparr>"

definition TransparentSsh_Kill :: "('c, 'w) TransparentSsh \<Rightarrow> ('c, 'w) TransparentSsh \<times> bool" where
  "TransparentSsh_Kill t =
     (let t1 = t\<lparr>ts_connClosed := True\<rparr> in
      if tomb_Alive (ts_tomb t) then (t1\<lparr>ts_tomb := tomb_Kill (ts_tomb t) None\<rparr>, tomb_Waits (ts_tomb t)) else (t1, True))"

definition ts_sendStreamMessage :: "('c, 'w) TransparentSsh \<Rightarrow> string \<Rightarrow> bool \<Rightarrow> string \<Rightarrow> ('c, 'w) TransparentSsh" where
  "ts_sendStreamMessage t streamType moreMessages contentBytes =
     t\<lparr>ts_stream := ts_stream t @ [\<lparr> sm_RequestId = [], sm_SchemaVersion = [], sm_SequenceNumber = 0, sm_Action = ''transparent'',
         sm_Type = streamType, sm_More = moreMessages, sm_LogId = [], sm_Content = EncodeToString contentBytes \<rparr>]\<rparr>"

datatype std_pipe = OutPipe | ErrPipe

text \<open>The three routines: writing standard input, reading standard output and error.\<close>

definition TransparentSsh_start :: "('c, 'w) ssh_client \<Rightarrow> ('c, 'w) TransparentSsh \<Rightarrow> ('c, 'w) TransparentSsh \<times> string option res" where
  "TransparentSsh_start S t =
     (case sc_NewSession S (ts_conn t) of
        Err e \<Rightarrow> (t\<lparr>ts_session := False\<rparr>, Err (errorf_s ''session err: '' e)) | Panic \<Rightarrow> (t, Panic)
      | Ok _ \<Rightarrow>
         let t1 = t\<lparr>ts_session := True\<rparr> in
         (case sc_StdinPipe S (ts_conn t) of
            Err e \<Rightarrow> (t1, Err (errorf_s ''stdin pipe err: '' e)) | Panic \<Rightarrow> (t1, Panic)
          | Ok stdin \<Rightarrow>
             (case sc_StdoutPipe S (ts_conn t) of
                Err e \<Rightarrow> (t1, Err (errorf_s ''stdout pipe err: '' e)) | Panic \<Rightarrow> (t1, Panic)
              | Ok _ \<Rightarrow>
                 (case sc_StderrPipe S (ts_conn t) of
                    Err e \<Rightarrow> (t1, Err (errorf_s ''stderr pipe err: '' e)) | Panic \<Rightarrow> (t1, Panic)
                  | Ok _ \<Rightarrow>
                     (case tomb_Go (ts_tomb t) of
                        Ok tb \<Rightarrow>
                          (t1\<lparr>ts_tomb := tb\<lparr>tb_running := tb_running tb + 2\<rparr>, ts_stdin := Some stdin, ts_writing := True, ts_stdout := True,
                              ts_stderr := True\<rparr>, Ok (Some []))
                      | _ \<Rightarrow> (t1, Panic))))))"

definition ts_exec :: "('c, 'w) TransparentSsh \<Rightarrow> session_call \<Rightarrow> ('c, 'w) TransparentSsh \<times> string option res" where
  "ts_exec t call = (if ts_session t then (t\<lparr>ts_calls := ts_calls t @ [call]\<rparr>, Ok (Some [])) else (t, Panic))"

definition ts_refuse :: "('c, 'w) TransparentSsh \<Rightarrow> string \<Rightarrow> ('c, 'w) TransparentSsh \<times> string option res" where
  "ts_refuse t command =
     (let errMsg = UnauthorizedCommandError (single_quoted command) in (ts_sendStreamMessage t ''error'' False errMsg, Err (errorf errMsg)))"

definition TransparentSsh_Receive ::
  "json_parser \<Rightarrow> (string \<Rightarrow> nat) \<Rightarrow> ('c, 'w) ssh_client \<Rightarrow> ('c, 'w) TransparentSsh \<Rightarrow> string \<Rightarrow> string option \<Rightarrow>
   ('c, 'w) TransparentSsh \<times> string option res option" where
  "TransparentSsh_Receive J room S t action pl =
     (if action = ''ssh/open''
      then (case read_SshOpen J pl of
              None \<Rightarrow> (t, Some (Err (errorf ''unable to unmarshal transparent ssh open message: '')))
            | Some _ \<Rightarrow> apsnd Some (TransparentSsh_start S t))
      else if action = ''ssh/input''
      then (case read_SshInput J pl of
              None \<Rightarrow> (t, Some (Err (errorf ''unable to unmarshal transparent ssh input message: '')))
            | Some b \<Rightarrow>
               let t1 = t\<lparr>ts_stdInChan := ts_stdInChan t @ [b]\<rparr> in when_back (t1, length (ts_stdInChan t1) \<le> 10) (Ok (Some [])))
      else if action = ''ssh/exec''
      then (case read_SshExec J pl of
              None \<Rightarrow> (t, Some (Err (errorf ''unable to unmarshal transparent SSH exec message: '')))
            | Some (command, sftp) \<Rightarrow>
               if sftp
               then (if \<not> IsValidSftp command then apsnd Some (ts_refuse t command) else apsnd Some (ts_exec t (RequestSubsystem command)))
               else (case IsValidScp room command of
                       Ok False \<Rightarrow> apsnd Some (ts_refuse t command)
                     | Ok True \<Rightarrow> apsnd Some (ts_exec t (StartCommand command))
                     | _ \<Rightarrow> (t, Some Panic)))
      else if action = ''ssh/close''
      then when_back (TransparentSsh_Kill (ts_sendStreamMessage t ''stop'' False [])) (Ok pl)
      else (t, Some (Err (errorf (''unhandled stream action: '' @ action)))))"

text \<open>
  A turn of the writing routine, which is told whether to take input when it could stop as well.
  The result of a write is that of a read without data.
\<close>

definition ts_write_turn ::
  "('w \<Rightarrow> string \<Rightarrow> 'w \<times> io_read) \<Rightarrow> ('c, 'w) TransparentSsh \<Rightarrow> bool \<Rightarrow> ('c, 'w) TransparentSsh \<times> unit res" where
  "ts_write_turn write t takeInput =
     (let stop = (\<lambda>t err. if ts_doneClosed t then (t, Panic)
                          else (t\<lparr>ts_writing := False, ts_doneClosed := True, ts_tomb := tomb_return (ts_tomb t) err\<rparr>, Ok ())) in
      if \<not> ts_writing t then (t, Ok ())
      else if \<not> tomb_Alive (ts_tomb t) \<and> (\<not> takeInput \<or> ts_stdInChan t = []) then stop t None
      else (case (ts_stdInChan t, ts_stdin t) of
              (d # ds, Some w) \<Rightarrow>
                (case write w d of (w', r) \<Rightarrow>
                   let t1 = t\<lparr>ts_stdInChan := ds, ts_stdin := Some w'\<rparr> in
                   (case r of IoData _ \<Rightarrow> (t1, Ok ()) | IoEof _ \<Rightarrow> stop t1 None | IoFail _ e \<Rightarrow> stop t1 (Some e)))
            | _ \<Rightarrow> (t, Ok ())))"

definition pipe_reading :: "('c, 'w) TransparentSsh \<Rightarrow> std_pipe \<Rightarrow> bool" where
  "pipe_reading t p = (case p of OutPipe \<Rightarrow> ts_stdout t | ErrPipe \<Rightarrow> ts_stderr t)"

definition readPipe_turn :: "('c, 'w) TransparentSsh \<Rightarrow> std_pipe \<Rightarrow> io_read \<Rightarrow> ('c, 'w) TransparentSsh" where
  "readPipe_turn t p ev =
     (let messageType = (case p of OutPipe \<Rightarrow> ''stdout'' | ErrPipe \<Rightarrow> ''stderr'');
          stop = (\<lambda>t err. (case p of OutPipe \<Rightarrow> t\<lparr>ts_stdout := False\<rparr> | ErrPipe \<Rightarrow> t\<lparr>ts_stderr := False\<rparr>)\<lparr>ts_tomb := tomb_return (ts_tomb t) err\<rparr>) in
      if \<not> pipe_reading t p then t
      else if \<not> tomb_Alive (ts_tomb t) then stop t None
      else (case ev of
              IoData b \<Rightarrow> if b = [] then t else ts_sendStreamMessage t messageType True b
            | IoEof b \<Rightarrow> stop (ts_sendStreamMessage t messageType False b) None
            | IoFail b e \<Rightarrow> stop t (Some e)))"

section \<open>The daemon\<close>

text \<open>
  The channel to the local client: what has been written to it and to its standard error, the
  requests sent on it, and whether it is closed.
\<close>

record ssh_channel =
  ch_out :: string
  ch_err :: string
  ch_requests :: "(string \<times> string) list"
  ch_closed :: bool

record TransparentSshAction =
  ta_outbox :: "(string \<times> string option) list"
  ta_doneClosed :: bool
  ta_zli :: string
  ta_zliErr :: string
  ta_channel :: "ssh_channel option"
  ta_files :: ssh_files
  ta_readers :: nat
  ta_listener :: bool
  ta_accepting :: bool
  ta_handshake :: bool
  ta_serving :: "bool list"

definition TransparentSshAction_New :: "bool \<Rightarrow> ssh_files \<Rightarrow> bool \<Rightarrow> TransparentSshAction" where
  "TransparentSshAction_New listener files doneClosed =
     \<lparr> ta_outbox = [], ta_doneClosed = doneClosed, ta_zli = [], ta_zliErr = [], ta_channel = None, ta_files = files, ta_readers = 0,
       ta_listener = listener, ta_accepting = False, ta_handshake = False, ta_serving = [] \<rparr>"

definition ta_send :: "json_printer \<Rightarrow> TransparentSshAction \<Rightarrow> string \<Rightarrow> jvalue \<Rightarrow> TransparentSshAction" where
  "ta_send M a action payload = a\<lparr>ta_outbox := ta_outbox a @ [(action, Some (M payload))]\<rparr>"

definition signalSuccess :: "TransparentSshAction \<Rightarrow> TransparentSshAction" where
  "signalSuccess a =
     a\<lparr>ta_channel := map_option (\<lambda>c. c\<lparr>ch_requests := ch_requests c @ [(''exit-status'', replicate 4 (CHR 0x00))]\<rparr>) (ta_channel a)\<rparr>"

definition TransparentSshAction_Kill :: "TransparentSshAction \<Rightarrow> TransparentSshAction \<times> unit res" where
  "TransparentSshAction_Kill a =
     (a\<lparr>ta_channel := map_option (\<lambda>c. c\<lparr>ch_closed := True\<rparr>) (ta_channel a), ta_doneClosed := True\<rparr>, if ta_doneClosed a then Panic else Ok ())"

definition rejectSshWithError :: "TransparentSshAction \<Rightarrow> string \<Rightarrow> TransparentSshAction \<times> unit res" where
  "rejectSshWithError a errMsg = TransparentSshAction_Kill (a\<lparr>ta_zliErr := ta_zliErr a @ errMsg\<rparr>)"

definition readyMsg :: string where
  "readyMsg = ''BZERO-DAEMON READY-TO-CONNECT''"

text \<open>Afterwards a routine waits for a connection of the client, with the listener it was given or none.\<close>

definition TransparentSshAction_Start :: "json_printer \<Rightarrow> 'r rsa_lib \<Rightarrow> TransparentSshAction \<Rightarrow> TransparentSshAction \<times> unit res" where
  "TransparentSshAction_Start M L a =
     (case SetUpKeys L (ta_files a) of
        (f, Err e) \<Rightarrow> (a\<lparr>ta_files := f\<rparr>, Err (errorf_s ''failed to set up ssh keypair: '' e)) | (f, Panic) \<Rightarrow> (a\<lparr>ta_files := f\<rparr>, Panic)
      | (f, Ok (privateKey, _)) \<Rightarrow>
         (case AddHostKeyPrivate L f privateKey of
            (f1, Err e) \<Rightarrow> (a\<lparr>ta_files := f1\<rparr>, Err (errorf_s ''failed to update known_hosts file: '' e)) | (f1, Panic) \<Rightarrow> (a\<lparr>ta_files := f1\<rparr>, Panic)
          | (f1, Ok _) \<Rightarrow>
             ((ta_send M a ''ssh/open'' (SshOpen_json None []))\<lparr>ta_files := f1, ta_zli := ta_zli a @ readyMsg, ta_accepting := True\<rparr>, Ok ())))"

definition ssh_accept :: "TransparentSshAction \<Rightarrow> bool \<Rightarrow> TransparentSshAction \<times> unit res" where
  "ssh_accept a handshake =
     (if \<not> ta_accepting a then (a, Ok ())
      else if \<not> ta_listener a then (a, Panic)
      else (a\<lparr>ta_accepting := False, ta_handshake := handshake\<rparr>, Ok ()))"

text \<open>The client asks for a channel: only sessions are accepted, and each gets a routine for its requests.\<close>

definition new_channel :: "TransparentSshAction \<Rightarrow> string \<Rightarrow> unit res \<Rightarrow> TransparentSshAction" where
  "new_channel a channelType accepted =
     (if \<not> ta_handshake a \<or> channelType \<noteq> ''session'' \<or> \<not> is_ok accepted then a
      else a\<lparr>ta_channel := Some \<lparr> ch_out = [], ch_err = [], ch_requests = [], ch_closed = False \<rparr>, ta_serving := ta_serving a @ [True]\<rparr>)"

definition sshPayloadOffset :: nat where
  "sshPayloadOffset = 4"

text \<open>
  A request on one of the channels. The result has the answer, if the request is answered; without one
  the routine has returned. Only the last of the four bytes of the length is looked at.
\<close>

definition ssh_request ::
  "json_printer \<Rightarrow> (string \<Rightarrow> nat) \<Rightarrow> TransparentSshAction \<Rightarrow> nat \<Rightarrow> string \<Rightarrow> string \<Rightarrow> TransparentSshAction \<times> bool option res" where
  "ssh_request M room a i requestType payload =
     (let reject = (\<lambda>errMsg. (case rejectSshWithError a errMsg of (a1, r) \<Rightarrow> (a1\<lparr>ta_serving := (ta_serving a1)[i := False]\<rparr>, res_map (\<lambda>_. None) r)));
          payloadSize = of_char (payload ! 3) :: nat; command = take payloadSize (drop sshPayloadOffset payload);
          go = (\<lambda>sftp. ((ta_send M a ''ssh/exec'' (SshExec_json command sftp))\<lparr>ta_readers := Suc (ta_readers a)\<rparr>, Ok (Some True))) in
      if \<not> (i < length (ta_serving a) \<and> ta_serving a ! i) then (a, Ok None)
      else if length payload < sshPayloadOffset
      then reject (''ssh payload must begin with 4 bytes of metadata. Received '' @ show_nat (length payload) @ '' bytes'')
      else if length payload < sshPayloadOffset + payloadSize
      then reject (''ssh payload metadata indicated body length of '' @ show_nat payloadSize @ '' bytes. Received '' @
             show_nat (length payload - sshPayloadOffset) @ '' bytes'')
      else if requestType = ''exec''
      then (case IsValidScp room command of
              Ok True \<Rightarrow> go False | Ok False \<Rightarrow> reject (UnauthorizedCommandError (single_quoted command)) | _ \<Rightarrow> (a, Panic))
      else if requestType = ''subsystem''
      then (if IsValidSftp command then go True else reject (UnauthorizedCommandError (single_quoted command)))
      else if requestType = ''shell'' then reject (UnauthorizedCommandError ''shell request'')
      else if requestType = ''pty-req'' then reject (UnauthorizedCommandError ''PTY request'')
      else (a, Ok (Some False)))"

definition readFromChannel_turn :: "json_printer \<Rightarrow> TransparentSshAction \<Rightarrow> io_read \<Rightarrow> TransparentSshAction" where
  "readFromChannel_turn M a ev =
     (if ta_readers a = 0 then a
      else (case ev of
              IoData b \<Rightarrow> if b = [] then a else ta_send M a ''ssh/input'' (SshInput_json b)
            | IoEof b \<Rightarrow> (ta_send M (signalSuccess a) ''ssh/close'' (SshClose_json endedByUser))\<lparr>ta_readers := ta_readers a - 1\<rparr>
            | IoFail b e \<Rightarrow> (ta_send M a ''ssh/close'' (SshClose_json (etext e)))\<lparr>ta_readers := ta_readers a - 1\<rparr>))"

text \<open>A write to a channel that is not there panics.\<close>

definition channel_write :: "TransparentSshAction \<Rightarrow> std_pipe \<Rightarrow> string \<Rightarrow> TransparentSshAction res" where
  "channel_write a p b =
     (case ta_channel a of
        None \<Rightarrow> Panic
      | Some c \<Rightarrow> Ok (if ch_closed c then a
                      else a\<lparr>ta_channel := Some (case p of OutPipe \<Rightarrow> c\<lparr>ch_out := ch_out c @ b\<rparr> | ErrPipe \<Rightarrow> c\<lparr>ch_err := ch_err c @ b\<rparr>)\<rparr>))"

definition TransparentSshAction_ReceiveStream :: "TransparentSshAction \<Rightarrow> StreamMessage \<Rightarrow> TransparentSshAction \<times> unit res" where
  "TransparentSshAction_ReceiveStream a m =
     (if sm_Type m = ''stderr'' \<and> ta_channel a = None then (a, Panic)
      else if sm_Type m = ''stderr'' \<or> sm_Type m = ''stdout''
      then (case DecodeString (sm_Content m) of
              None \<Rightarrow> (a, Ok ())
            | Some contentBytes \<Rightarrow>
               (case channel_write a (if sm_Type m = ''stderr'' then ErrPipe else OutPipe) contentBytes of
                  Ok a1 \<Rightarrow> if \<not> sm_More m then TransparentSshAction_Kill (signalSuccess a1) else (a1, Ok ())
                | _ \<Rightarrow> (a, Panic)))
      else if sm_Type m = ''error''
      then TransparentSshAction_Kill (case DecodeString (sm_Content m) of None \<Rightarrow> a | Some b \<Rightarrow> a\<lparr>ta_zliErr := ta_zliErr a @ b\<rparr>)
      else if sm_Type m = ''stop'' then TransparentSshAction_Kill a
      else (a, Ok ()))"

section \<open>Which commands run\<close>

inductive ts_step ::
  "json_parser \<Rightarrow> (string \<Rightarrow> nat) \<Rightarrow> ('c, 'w) ssh_client \<Rightarrow> ('w \<Rightarrow> string \<Rightarrow> 'w \<times> io_read) \<Rightarrow> ('c, 'w) TransparentSsh \<Rightarrow> ('c, 'w) TransparentSsh \<Rightarrow> bool"
  for J room S wr where
  ts_receive: "TransparentSsh_Receive J room S t action pl = (t', r) \<Longrightarrow> ts_step J room S wr t t'"
| ts_writes: "ts_write_turn wr t takeInput = (t', r) \<Longrightarrow> ts_step J room S wr t t'"
| ts_reads: "readPipe_turn t p ev = t' \<Longrightarrow> ts_step J room S wr t t'"

definition transfer_call :: "session_call \<Rightarrow> bool" where
  "transfer_call c = (case c of RequestSubsystem s \<Rightarrow> IsValidSftp s | StartCommand s \<Rightarrow> has_prefix ''scp '' s)"

lemma start_calls: "ts_calls (fst (TransparentSsh_start S t)) = ts_calls t"
  by (simp add: TransparentSsh_start_def Let_def split: res.split)

lemma exec_calls:
  "ts_calls (fst (ts_exec t c)) = (if ts_session t then ts_calls t @ [c] else ts_calls t)" "ts_calls (fst (ts_refuse t s)) = ts_calls t"
  by (simp_all add: ts_exec_def ts_refuse_def ts_sendStreamMessage_def Let_def)

lemma kill_calls: "ts_calls (fst (TransparentSsh_Kill t)) = ts_calls t"
  by (simp add: TransparentSsh_Kill_def Let_def)

lemma write_calls: "ts_calls (fst (ts_write_turn wr t b)) = ts_calls t"
  by (auto simp: ts_write_turn_def Let_def split: list.split option.split prod.split io_read.split)

lemma read_calls: "ts_calls (readPipe_turn t p ev) = ts_calls t"
  by (auto simp: readPipe_turn_def ts_sendStreamMessage_def Let_def split: std_pipe.split io_read.split)

lemma receive_calls:
  "\<exists>cs. ts_calls (fst (TransparentSsh_Receive J room S t action pl)) = ts_calls t @ cs \<and> list_all transfer_call cs"
proof -
  have x: "\<exists>cs. ts_calls (fst (ts_exec t c)) = ts_calls t @ cs \<and> list_all transfer_call cs" if "transfer_call c" for c
    using that by (auto simp: exec_calls)
  have s: "IsValidScp room s = Ok True \<Longrightarrow> transfer_call (StartCommand s)" for s
    by (auto simp: IsValidScp_def transfer_call_def split: if_splits)
  show ?thesis
    using x s
    by (auto simp: TransparentSsh_Receive_def when_back_def exec_calls start_calls kill_calls ts_sendStreamMessage_def Let_def transfer_call_def
      split: option.split res.split bool.split)
qed

lemma transfers_only:
  assumes "(ts_step J room S wr)\<^sup>*\<^sup>* t t'" "list_all transfer_call (ts_calls t)"
  shows "list_all transfer_call (ts_calls t')"
  using assms
proof (induction rule: rtranclp_induct)
  case (step u v)
  from step.hyps(2) have "\<exists>cs. ts_calls v = ts_calls u @ cs \<and> list_all transfer_call cs"
  proof cases
    case (ts_receive action pl r)
    then show ?thesis using receive_calls [of J room S u action pl] by simp
  next
    case (ts_writes takeInput r)
    then show ?thesis using write_calls [of wr u takeInput] by simp
  next
    case (ts_reads p ev)
    then show ?thesis using read_calls [of u p ev] by simp
  qed
  then show ?case using step by auto
qed simp

lemma read_exec:
  assumes "ssh_agrees J M"
  shows "read_SshExec J (Some (M (SshExec_json c s))) = Some (sanitize c, s)"
proof -
  have "J (M (SshExec_json c s)) = Some (SshExec_json c s)" using assms by (simp add: ssh_agrees_def)
  then show ?thesis by (simp add: read_SshExec_def read_struct_def) (simp add: SshExec_json_def marshal_string_def ssh_fields)
qed

text \<open>The libraries make a session with its pipes.\<close>

definition session_made :: "('c, 'w) ssh_client \<Rightarrow> 'c \<Rightarrow> bool" where
  "session_made S conn \<longleftrightarrow>
     sc_NewSession S conn = Ok () \<and> is_ok (sc_StdinPipe S conn) \<and> sc_StdoutPipe S conn = Ok () \<and> sc_StderrPipe S conn = Ok ()"

lemma session_opened:
  assumes "ssh_agrees J M" "session_made S conn"
  obtains t where "TransparentSsh_Receive J room S (TransparentSsh_New conn) ''ssh/open'' (Some (M (SshOpen_json (Some k) v))) = (t, Some (Ok (Some [])))"
    "ts_session t" "ts_calls t = []"
proof -
  obtain w where w: "sc_StdinPipe S conn = Ok w" using assms(2) by (cases "sc_StdinPipe S conn") (auto simp: session_made_def)
  show ?thesis
    using that read_ssh(1) [OF assms(1), of k v] assms(2) w
    by (simp add: TransparentSsh_Receive_def TransparentSsh_start_def TransparentSsh_New_def session_made_def tomb_Go_def tomb_new_def Let_def)
qed

lemma scp_started:
  assumes "ssh_agrees J M" "rune_room room" "has_prefix ''scp '' command" "sanitize command = command" "ts_session t"
  shows "TransparentSsh_Receive J room S t ''ssh/exec'' (Some (M (SshExec_json command False))) =
    (t\<lparr>ts_calls := ts_calls t @ [StartCommand command]\<rparr>, Some (Ok (Some [])))"
  using read_exec [OF assms(1), of command False] IsValidScp_iff [OF assms(2), of command] assms(3-5)
  by (simp add: TransparentSsh_Receive_def ts_exec_def)

text \<open>
  C13. A user who may only transfer files: whatever messages the agent gets and however its
  routines interleave, all that it asks of the ssh server is the sftp subsystem or a command
  that begins with \<^verbatim>\<open>scp\<close> and a blank. But nothing else of the command is looked at: every
  command with this beginning, a second one after a semicolon included, does reach the server.
\<close>

theorem transparent_runs_transfers:
  assumes "ssh_agrees J M" and "rune_room room" and "session_made S conn" and "sanitize (''scp '' @ rest) = ''scp '' @ rest"
  shows "((ts_step J room S wr)\<^sup>*\<^sup>* (TransparentSsh_New conn) t \<and> c \<in> set (ts_calls t) \<longrightarrow>
      c = RequestSubsystem ''sftp'' \<or> (\<exists>r. c = StartCommand (''scp '' @ r))) \<and>
    (\<exists>t'. (ts_step J room S wr)\<^sup>*\<^sup>* (TransparentSsh_New conn) t' \<and> ts_calls t' = [StartCommand (''scp '' @ rest)])"
proof (intro conjI impI)
  assume r: "(ts_step J room S wr)\<^sup>*\<^sup>* (TransparentSsh_New conn) t \<and> c \<in> set (ts_calls t)"
  have "list_all transfer_call (ts_calls t)" using transfers_only [of J room S wr "TransparentSsh_New conn" t] r by (simp add: TransparentSsh_New_def)
  then have "transfer_call c" using r by (simp add: list_all_iff)
  then show "c = RequestSubsystem ''sftp'' \<or> (\<exists>r. c = StartCommand (''scp '' @ r))"
    by (cases c) (auto simp: transfer_call_def IsValidSftp_def has_prefix_iff)
next
  from session_opened [OF assms(1,3)] obtain t where
    t: "ts_step J room S wr (TransparentSsh_New conn) t" "ts_session t" "ts_calls t = []" by (metis ts_receive)
  let ?t = "t\<lparr>ts_calls := ts_calls t @ [StartCommand (''scp '' @ rest)]\<rparr>"
  have "ts_step J room S wr t (t\<lparr>ts_calls := ts_calls t @ [StartCommand (''scp '' @ rest)]\<rparr>)"
    by (rule ts_receive [OF scp_started [OF assms(1,2) has_prefix_append assms(4) t(2)]])
  with t(1) have "(ts_step J room S wr)\<^sup>*\<^sup>* (TransparentSsh_New conn) ?t" by (rule converse_rtranclp_into_rtranclp [OF _ rtranclp.rtrancl_into_rtrancl [OF rtranclp.rtrancl_refl]])
  then show "\<exists>t'. (ts_step J room S wr)\<^sup>*\<^sup>* (TransparentSsh_New conn) t' \<and> ts_calls t' = [StartCommand (''scp '' @ rest)]"
    using t(3) by (intro exI [of _ ?t]) simp
qed

section \<open>What the client asked for\<close>

text \<open>A string in a request of the ssh protocol: its length in four bytes, highest first, and the bytes.\<close>

definition ssh_string :: "string \<Rightarrow> string" where
  "ssh_string s = map (\<lambda>k. char_of (length s div 256 ^ k)) [3, 2, 1, 0] @ s"

text \<open>
  Only the last byte of the length of a command is looked at: the daemon sends on the first
  \<^verbatim>\<open>n mod 256\<close> of the \<^verbatim>\<open>n\<close> bytes, and these are what the agent runs. Shorter commands run as the
  client asked.
\<close>

theorem scp_command_cut:
  assumes "ssh_agrees J M" and "rune_room room" and "i < length (ta_serving a)" and "ta_serving a ! i" and "ts_session t"
    and "front = take (length command mod 256) command" and "has_prefix ''scp '' front" and "sanitize front = front"
  shows "\<exists>a'. ssh_request M room a i ''exec'' (ssh_string command) = (a', Ok (Some True)) \<and> ta_readers a' = Suc (ta_readers a) \<and>
    (\<exists>pl. ta_outbox a' = ta_outbox a @ [(''ssh/exec'', pl)] \<and>
       TransparentSsh_Receive J room S t ''ssh/exec'' pl = (t\<lparr>ts_calls := ts_calls t @ [StartCommand front]\<rparr>, Some (Ok (Some [])))) \<and>
    (front = command \<longleftrightarrow> length command < 256)"
proof -
  have p: "\<not> length (ssh_string command) < 4" "of_char (ssh_string command ! 3) = length command mod 256" "drop 4 (ssh_string command) = command"
    "length (ssh_string command) = 4 + length command"
    by (simp_all add: ssh_string_def)
  have "\<not> length command < length command mod 256" by (simp add: not_less)
  moreover have "IsValidScp room front = Ok True" using assms(7) IsValidScp_iff [OF assms(2)] by simp
  ultimately have r: "ssh_request M room a i ''exec'' (ssh_string command) =
      ((ta_send M a ''ssh/exec'' (SshExec_json front False))\<lparr>ta_readers := Suc (ta_readers a)\<rparr>, Ok (Some True))"
    using assms(3,4,6) by (simp add: ssh_request_def sshPayloadOffset_def p Let_def)
  have "front = command \<longleftrightarrow> length command < 256"
  proof
    assume "front = command"
    moreover have "length front = length command mod 256" unfolding assms(6) by simp
    moreover have "length command mod 256 < 256" by simp
    ultimately show "length command < 256" by argo
  qed (use assms(6) in simp)
  then show ?thesis using r scp_started [OF assms(1,2,7,8,5), of S] by (simp add: ta_send_def)
qed

section \<open>Faults\<close>

definition ts_end :: "std_pipe \<Rightarrow> string \<Rightarrow> StreamMessage" where
  "ts_end p b =
     \<lparr> sm_RequestId = [], sm_SchemaVersion = [], sm_SequenceNumber = 0, sm_Action = ''transparent'', sm_Type = (case p of OutPipe \<Rightarrow> ''stdout'' | ErrPipe \<Rightarrow> ''stderr''),
       sm_More = False, sm_LogId = [], sm_Content = EncodeToString b \<rparr>"

lemma ends_sent:
  assumes "ts_stdout t" "ts_stderr t" "tomb_Alive (ts_tomb t)" "2 < tb_running (ts_tomb t)"
  shows "ts_stream (readPipe_turn (readPipe_turn t OutPipe (IoEof b)) ErrPipe (IoEof d)) = ts_stream t @ [ts_end OutPipe b, ts_end ErrPipe d]"
  using assms by (simp add: readPipe_turn_def pipe_reading_def ts_sendStreamMessage_def tomb_return_def tomb_Alive_def ts_end_def Let_def)

lemma end_received:
  assumes "ta_channel a = Some c"
  shows "snd (TransparentSshAction_ReceiveStream a (ts_end p b)) = (if ta_doneClosed a then Panic else Ok ())"
    "ta_doneClosed (fst (TransparentSshAction_ReceiveStream a (ts_end p b)))"
    "\<exists>c'. ta_channel (fst (TransparentSshAction_ReceiveStream a (ts_end p b))) = Some c'"
  using assms
  by (cases p; simp add: TransparentSshAction_ReceiveStream_def ts_end_def channel_write_def TransparentSshAction_Kill_def signalSuccess_def)+

text \<open>
  How a file transfer goes wrong: when the server ends both its outputs, as it does after
  every command, the agent tells the daemon twice that this was all, and the second time the
  daemon closes a channel that is closed and panics; a command before the session is opened
  panics the agent; and any request of the client that carries less than four bytes ends the
  session.
\<close>

theorem transparent_ssh_faults:
  assumes "ts_stdout t" and "ts_stderr t" and "tomb_Alive (ts_tomb t)" and "2 < tb_running (ts_tomb t)" and "ta_channel a = Some c" and "\<not> ta_doneClosed a"
    and "ssh_agrees J M" and "i < length (ta_serving a)" and "ta_serving a ! i" and "length payload < 4"
  shows "(\<exists>m1 m2. ts_stream (readPipe_turn (readPipe_turn t OutPipe (IoEof b)) ErrPipe (IoEof d)) = ts_stream t @ [m1, m2] \<and>
      (case TransparentSshAction_ReceiveStream a m1 of (a1, r) \<Rightarrow> r = Ok () \<and> snd (TransparentSshAction_ReceiveStream a1 m2) = Panic)) \<and>
    snd (TransparentSsh_Receive J room S (TransparentSsh_New conn) ''ssh/exec'' (Some (M (SshExec_json ''sftp'' True)))) = Some Panic \<and>
    (case ssh_request M room a i requestType payload of (a', r) \<Rightarrow> r = Ok None \<and> ta_doneClosed a' \<and> \<not> ta_serving a' ! i)"
proof (intro conjI)
  obtain a1 c1 where a1: "TransparentSshAction_ReceiveStream a (ts_end OutPipe b) = (a1, Ok ())" "ta_doneClosed a1" "ta_channel a1 = Some c1"
    using end_received [OF assms(5), of OutPipe b] assms(6) by (cases "TransparentSshAction_ReceiveStream a (ts_end OutPipe b)") auto
  have "snd (TransparentSshAction_ReceiveStream a1 (ts_end ErrPipe d)) = Panic" using end_received(1) [OF a1(3), of ErrPipe d] a1(2) by simp
  then show "\<exists>m1 m2. ts_stream (readPipe_turn (readPipe_turn t OutPipe (IoEof b)) ErrPipe (IoEof d)) = ts_stream t @ [m1, m2] \<and>
      (case TransparentSshAction_ReceiveStream a m1 of (a1, r) \<Rightarrow> r = Ok () \<and> snd (TransparentSshAction_ReceiveStream a1 m2) = Panic)"
    using ends_sent [OF assms(1-4), of b d] a1(1) by (intro exI [of _ "ts_end OutPipe b"] exI [of _ "ts_end ErrPipe d"]) simp
  have "sanitize ''sftp'' = ''sftp''" by code_simp
  then show "snd (TransparentSsh_Receive J room S (TransparentSsh_New conn) ''ssh/exec'' (Some (M (SshExec_json ''sftp'' True)))) = Some Panic"
    using read_exec [OF assms(7), of "''sftp''" True] by (simp add: TransparentSsh_Receive_def IsValidSftp_def ts_exec_def TransparentSsh_New_def)
  show "case ssh_request M room a i requestType payload of (a', r) \<Rightarrow> r = Ok None \<and> ta_doneClosed a' \<and> \<not> ta_serving a' ! i"
    using assms(6,8,9,10) by (simp add: ssh_request_def sshPayloadOffset_def rejectSshWithError_def TransparentSshAction_Kill_def)
qed

section \<open>Witnesses\<close>

definition wit_ssh_client :: "(string, string) ssh_client" where
  "wit_ssh_client = \<lparr> sc_NewSession = (\<lambda>_. Ok ()), sc_StdinPipe = (\<lambda>_. Ok []), sc_StdoutPipe = (\<lambda>_. Ok ()), sc_StderrPipe = (\<lambda>_. Ok ()) \<rparr>"

lemma wit_session: "session_made wit_ssh_client conn"
  by (simp add: session_made_def wit_ssh_client_def)

lemma wit_room: "rune_room (\<lambda>s. max 32 (length s))"
  by (simp add: rune_room_def le_max_iff_disj)

theorem transparent_runs_transfers_witness:
  "\<exists>t. (ts_step codec_parse (\<lambda>s. max 32 (length s)) wit_ssh_client (\<lambda>w b. (w @ b, IoData [])))\<^sup>*\<^sup>* (TransparentSsh_New ''c'') t \<and>
     ts_calls t = [StartCommand ''scp a b; reboot'']"
proof -
  have "sanitize (''scp '' @ ''a b; reboot'') = ''scp '' @ ''a b; reboot''" by code_simp
  from transparent_runs_transfers [OF ssh_agrees_codec wit_room wit_session this] show ?thesis by auto
qed

definition wit_served :: TransparentSshAction where
  "wit_served = (TransparentSshAction_New True wit_files False)
     \<lparr>ta_serving := [True], ta_channel := Some \<lparr> ch_out = [], ch_err = [], ch_requests = [], ch_closed = False \<rparr>\<rparr>"

definition wit_transfer :: "(string, string) TransparentSsh" where
  "wit_transfer = (TransparentSsh_New ''c'')
     \<lparr>ts_session := True, ts_tomb := \<lparr> tb_killed = None, tb_started = True, tb_running = 3 \<rparr>, ts_stdout := True, ts_stderr := True\<rparr>"

lemma wit_states:
  "ta_serving wit_served = [True]" "\<exists>c. ta_channel wit_served = Some c" "\<not> ta_doneClosed wit_served" "ts_session wit_transfer"
  "tb_killed (ts_tomb wit_transfer) = None" "tb_running (ts_tomb wit_transfer) = 3" "ts_stdout wit_transfer" "ts_stderr wit_transfer"
  by (simp_all add: wit_served_def wit_transfer_def TransparentSshAction_New_def TransparentSsh_New_def)

theorem scp_command_cut_witness:
  "\<exists>a'. ssh_request codec_print (\<lambda>s. max 32 (length s)) wit_served 0 ''exec'' (ssh_string (''scp a b'' @ replicate 256 CHR ''c'')) = (a', Ok (Some True))"
proof -
  let ?c = "''scp a b'' @ replicate 256 CHR ''c''"
  have t: "take (length ?c mod 256) ?c = ''scp a b''" by simp
  have s: "sanitize (take (length ?c mod 256) ?c) = take (length ?c mod 256) ?c" unfolding t by code_simp
  have h: "has_prefix ''scp '' (take (length ?c mod 256) ?c)" unfolding t by simp
  have i: "0 < length (ta_serving wit_served)" "ta_serving wit_served ! 0" using wit_states(1) by simp_all
  show ?thesis using scp_command_cut [OF ssh_agrees_codec wit_room i wit_states(4) refl h s] by blast
qed

theorem transparent_ssh_faults_witness:
  "\<exists>m1 m2. ts_stream (readPipe_turn (readPipe_turn wit_transfer OutPipe (IoEof [])) ErrPipe (IoEof [])) = ts_stream wit_transfer @ [m1, m2] \<and>
     snd (TransparentSshAction_ReceiveStream (fst (TransparentSshAction_ReceiveStream wit_served m1)) m2) = Panic"
proof -
  obtain c where c: "ta_channel wit_served = Some c" using wit_states(2) by blast
  have h: "tomb_Alive (ts_tomb wit_transfer)" "2 < tb_running (ts_tomb wit_transfer)" "0 < length (ta_serving wit_served)" "ta_serving wit_served ! 0"
    using wit_states by (simp_all add: tomb_Alive_def)
  have p: "length ''abc'' < 4" by simp
  from transparent_ssh_faults [OF wit_states(7,8) h(1,2) c wit_states(3) ssh_agrees_codec h(3,4) p, of "[]" "[]" length wit_ssh_client "[]" "[]"]
  show ?thesis by (auto simp: case_prod_beta)
qed

end
