(* ===== verification/Ssh_Plugin.thy ===== *)
theory Ssh_Plugin
  imports Ssh_Transparent
begin

text \<open>
  The ssh plugins of the agent and the daemon (\<^verbatim>\<open>bctl/agent/plugin/ssh/ssh.go\<close> and
  \<^verbatim>\<open>bctl/daemon/plugin/ssh/ssh.go\<close>): one action each, the opaque or the transparent one. Addresses,
  TCP connections and the handshake of an ssh client are those of the libraries, arguments.
\<close>

section \<open>The agent\<close>

datatype ('c, 'k, 'w) ssh_action = AgentOpaque "'c OpaqueSsh" | AgentTransparent "('k, 'w) TransparentSsh"

definition ssh_parseAction :: "string \<Rightarrow> string res" where
  "ssh_parseAction action =
     (let parsedAction = split action ''/'' in
      if length parsedAction < 2 then Err (errorf (''malformed action: '' @ action)) else Ok (parsedAction ! 1))"

definition read_SshActionParams :: "json_parser \<Rightarrow> string option \<Rightarrow> (string \<times> string \<times> int) option" where
  "read_SshActionParams J pl =
     Option.bind (read_struct J pl) (\<lambda>kvs.
       case (text_field kvs ''targetUser'', text_field kvs ''remoteHost'', int_field kvs ''remotePort'') of
         (Some u, Some h, Some p) \<Rightarrow> Some (u, h, p) | _ \<Rightarrow> None)"

definition sshDir :: string where
  "sshDir = ''.ssh''"

definition ssh_maxKeyLifetime :: int where
  "ssh_maxKeyLifetime = 30 * second"

record ('a, 'c, 's, 'k) ssh_net =
  sn_resolve :: "string \<Rightarrow> 'a res"
  sn_dial :: "'a \<Rightarrow> 'c res"
  sn_parseKey :: "string \<Rightarrow> 's res"
  sn_sshDial :: "string \<Rightarrow> string \<Rightarrow> 's \<Rightarrow> 'k res"

definition opaque_action :: "('a, 'c, 's, 'k) ssh_net \<Rightarrow> unix \<Rightarrow> AuthorizedKeys \<Rightarrow> string \<Rightarrow> unix \<times> ('c, 'k, 'w) ssh_action res" where
  "opaque_action N ux authKeys remoteAddress =
     (ux, case sn_resolve N remoteAddress of
            Err e \<Rightarrow> Err (errorf_s ''failed to resolve remote address: '' e) | Panic \<Rightarrow> Panic
          | Ok raddr \<Rightarrow>
             (case sn_dial N raddr of
                Err e \<Rightarrow> Err (errorf_s ''failed to dial remote address: '' e) | Panic \<Rightarrow> Panic
              | Ok conn \<Rightarrow> Ok (AgentOpaque (OpaqueSsh_New conn authKeys))))"

text \<open>The agent's own key pair; what goes wrong while it is made and authorised is ignored.\<close>

definition transparent_action ::
  "('a, 'c, 's, 'k) ssh_net \<Rightarrow> 'r rsa_lib \<Rightarrow> int \<Rightarrow> unix \<Rightarrow> AuthorizedKeys \<Rightarrow> string \<Rightarrow> string \<Rightarrow> (unix \<times> ('c, 'k, 'w) ssh_action res) option" where
  "transparent_action N L now ux authKeys targetUser remoteAddress =
     (case (case GenerateKeys L of Ok ks \<Rightarrow> Ok ks | Err _ \<Rightarrow> Ok ([], []) | Panic \<Rightarrow> Panic) of
        Ok (privateBytes, publicBytes) \<Rightarrow>
          (case AuthorizedKeys_Add now ux authKeys publicBytes of
             None \<Rightarrow> None
           | Some (ux1, Panic) \<Rightarrow> Some (ux1, Panic)
           | Some (ux1, _) \<Rightarrow>
              Some (ux1, case sn_parseKey N privateBytes of
                 Err e \<Rightarrow> Err e | Panic \<Rightarrow> Panic
               | Ok signer \<Rightarrow>
                  (case sn_sshDial N targetUser remoteAddress signer of
                     Err e \<Rightarrow> Err (errorf_s ''dial error: '' e) | Panic \<Rightarrow> Panic
                   | Ok conn \<Rightarrow> Ok (AgentTransparent (TransparentSsh_New conn)))))
      | _ \<Rightarrow> Some (ux, Panic))"

text \<open>Without a result the search for an existing parent directory never ends.\<close>

definition SshPlugin_New ::
  "json_parser \<Rightarrow> ('a, 'c, 's, 'k) ssh_net \<Rightarrow> 'r rsa_lib \<Rightarrow> int \<Rightarrow> string \<Rightarrow> unix \<Rightarrow> string \<Rightarrow> string option \<Rightarrow> (unix \<times> ('c, 'k, 'w) ssh_action res) option" where
  "SshPlugin_New J N L now nowText ux action pl =
     (case read_SshActionParams J pl of
        None \<Rightarrow> Some (ux, Err (errorf (''malformed Ssh plugin SYN payload '' @ (case pl of None \<Rightarrow> [] | Some b \<Rightarrow> b))))
      | Some (targetUser, remoteHost, remotePort) \<Rightarrow>
         (case ssh_parseAction action of
            Err e \<Rightarrow> Some (ux, Err e) | Panic \<Rightarrow> Some (ux, Panic)
          | Ok parsedAction \<Rightarrow>
             (case LookupOrCreateFromList now nowText ux targetUser of
                (ux1, Err e) \<Rightarrow> Some (ux1, Err (errorf_s (''failed to use ssh as user '' @ targetUser @ '': '') e)) | (ux1, Panic) \<Rightarrow> Some (ux1, Panic)
              | (ux1, Ok usr) \<Rightarrow>
                 (case AuthorizedKeys_New ux1 (Some usr) sshDir sshDir ssh_maxKeyLifetime of
                    None \<Rightarrow> None
                  | Some (ux2, Err e) \<Rightarrow> Some (ux2, Err (errorf_s ''failed to set up authorized_keys file: '' e)) | Some (ux2, Panic) \<Rightarrow> Some (ux2, Panic)
                  | Some (ux2, Ok authKeys) \<Rightarrow>
                     let remoteAddress = remoteHost @ '':'' @ show_int remotePort in
                     if parsedAction = ''opaque'' then Some (opaque_action N ux2 authKeys remoteAddress)
                     else if parsedAction = ''transparent'' then transparent_action N L now ux2 authKeys targetUser remoteAddress
                     else Some (ux2, Err (errorf (''unhandled Ssh action '' @ parsedAction)))))))"

definition SshPlugin_Receive ::
  "json_parser \<Rightarrow> (string \<Rightarrow> nat) \<Rightarrow> int \<Rightarrow> (string \<Rightarrow> string res) \<Rightarrow> ('c \<Rightarrow> string \<Rightarrow> 'c \<times> unit res) \<Rightarrow> ('k, 'w) ssh_client \<Rightarrow>
   unix \<times> ('c, 'k, 'w) ssh_action \<Rightarrow> string \<Rightarrow> string option \<Rightarrow> (unix \<times> ('c, 'k, 'w) ssh_action) \<times> string option res option" where
  "SshPlugin_Receive J room now readFile write S up action pl =
     (case up of
        (ux, AgentOpaque s) \<Rightarrow> apfst (apsnd AgentOpaque) (OpaqueSsh_Receive J now readFile write (ux, s) action pl)
      | (ux, AgentTransparent t) \<Rightarrow> apfst (\<lambda>t. (ux, AgentTransparent t)) (TransparentSsh_Receive J room S t action pl))"

definition SshPlugin_Kill :: "('c, 'k, 'w) ssh_action \<Rightarrow> ('c, 'k, 'w) ssh_action \<times> bool" where
  "SshPlugin_Kill p =
     (case p of AgentOpaque s \<Rightarrow> apfst AgentOpaque (OpaqueSsh_Kill s) | AgentTransparent t \<Rightarrow> apfst AgentTransparent (TransparentSsh_Kill t))"

section \<open>The daemon\<close>

datatype 'w ssh_daemon_action = DaemonOpaque "'w OpaqueSshAction" | DaemonTransparent TransparentSshAction

record 'w SshDaemonPlugin =
  sd_doneClosed :: bool
  sd_killed :: bool
  sd_action :: "'w ssh_daemon_action option"
  sd_files :: ssh_files
  sd_stdIo :: 'w

definition SshDaemonPlugin_New :: "ssh_files \<Rightarrow> 'w \<Rightarrow> 'w SshDaemonPlugin" where
  "SshDaemonPlugin_New files stdIo = \<lparr> sd_doneClosed = False, sd_killed = False, sd_action = None, sd_files = files, sd_stdIo = stdIo \<rparr>"

definition start_ssh_action :: "json_printer \<Rightarrow> 'r rsa_lib \<Rightarrow> 'w ssh_daemon_action \<Rightarrow> 'w ssh_daemon_action \<times> unit res" where
  "start_ssh_action M L act =
     (case act of
        DaemonOpaque a \<Rightarrow> apfst DaemonOpaque (OpaqueSshAction_Start M L a) | DaemonTransparent a \<Rightarrow> apfst DaemonTransparent (TransparentSshAction_Start M L a))"

text \<open>Whether the port can be listened on is an argument; if not, the action is started all the same.\<close>

definition SshDaemonPlugin_StartAction :: "json_printer \<Rightarrow> 'r rsa_lib \<Rightarrow> bool \<Rightarrow> 'w SshDaemonPlugin \<Rightarrow> string \<Rightarrow> 'w SshDaemonPlugin \<times> unit res" where
  "SshDaemonPlugin_StartAction M L listening s actionName =
     (if sd_killed s then (s, Err (errorf ''plugin has already been killed, cannot create a new ssh action''))
      else (case (if actionName = ''opaque'' then Some (DaemonOpaque (OpaqueSshAction_New (sd_stdIo s) (sd_files s) (sd_doneClosed s)))
                  else if actionName = ''transparent'' then Some (DaemonTransparent (TransparentSshAction_New listening (sd_files s) (sd_doneClosed s)))
                  else sd_action s) of
              None \<Rightarrow> (s, Panic)
            | Some act \<Rightarrow>
               (case start_ssh_action M L act of
                  (act', Err e) \<Rightarrow> (s\<lparr>sd_action := Some act'\<rparr>, Err (errorf_s ''error starting the ssh action: '' e))
                | (act', r) \<Rightarrow> (s\<lparr>sd_action := Some act'\<rparr>, r))))"

definition SshDaemonPlugin_Kill :: "'w SshDaemonPlugin \<Rightarrow> gerror option \<Rightarrow> 'w SshDaemonPlugin \<times> unit res" where
  "SshDaemonPlugin_Kill s err =
     (let s1 = s\<lparr>sd_killed := True\<rparr> in
      case sd_action s of
        None \<Rightarrow> (s1, Ok ())
      | Some (DaemonOpaque a) \<Rightarrow> (s1\<lparr>sd_action := Some (DaemonOpaque (OpaqueSshAction_Kill a err))\<rparr>, Ok ())
      | Some (DaemonTransparent a) \<Rightarrow> (case TransparentSshAction_Kill a of (a', r) \<Rightarrow> (s1\<lparr>sd_action := Some (DaemonTransparent a')\<rparr>, r)))"

definition SshDaemonPlugin_Err :: "'w SshDaemonPlugin \<Rightarrow> gerror option res" where
  "SshDaemonPlugin_Err s =
     (case sd_action s of None \<Rightarrow> Panic | Some (DaemonOpaque a) \<Rightarrow> Ok (oa_err a) | Some (DaemonTransparent a) \<Rightarrow> Ok None)"

definition SshDaemonPlugin_ReceiveStream ::
  "'r rsa_lib \<Rightarrow> ('w \<Rightarrow> string \<Rightarrow> 'w \<times> unit res) \<Rightarrow> 'w SshDaemonPlugin \<Rightarrow> StreamMessage \<Rightarrow> 'w SshDaemonPlugin \<times> unit res" where
  "SshDaemonPlugin_ReceiveStream L write s m =
     (case sd_action s of
        None \<Rightarrow> (s, Ok ())
      | Some (DaemonOpaque a) \<Rightarrow> (s\<lparr>sd_action := Some (DaemonOpaque (OpaqueSshAction_ReceiveStream L write a m))\<rparr>, Ok ())
      | Some (DaemonTransparent a) \<Rightarrow>
         (case TransparentSshAction_ReceiveStream a m of (a', r) \<Rightarrow> (s\<lparr>sd_action := Some (DaemonTransparent a')\<rparr>, r)))"

section \<open>Whose keys\<close>

lemma setKeyFilePath_usr: "setKeyFilePath ux a d = Some (ux', Ok a') \<Longrightarrow> ak_usr a' = ak_usr a"
  by (auto simp: setKeyFilePath_def Let_def split: option.splits if_splits prod.splits res.splits elim!: res_map.elims)

lemma setFileLock_usr: "setFileLock ux a h d = (ux', Ok a') \<Longrightarrow> ak_usr a' = ak_usr a"
  by (auto simp: setFileLock_def Let_def split: option.splits if_splits prod.splits res.splits elim!: res_map.elims)

lemma AuthorizedKeys_New_usr: "AuthorizedKeys_New ux (Some u) d l k = Some (ux', Ok a) \<Longrightarrow> ak_usr a = u"
  by (auto simp: AuthorizedKeys_New_def dest!: setKeyFilePath_usr setFileLock_usr split: option.splits if_splits prod.splits res.splits)

text \<open>
  An ssh session is one as its target user: a plugin starts only once that user has been
  looked up or created, an opaque session authorises keys for that user, a transparent one logs
  in as that user; and for a user who is unknown and not a managed one no session starts and
  the system is left as it was.
\<close>

theorem ssh_plugin_target:
  assumes "read_SshActionParams J pl = Some (user, host, port)" and "SshPlugin_New J N L now nowText ux action pl = Some (ux', r)"
  shows "(Lookup ux user = Err e \<and> errors_As UnknownUserError e \<and> managedUsers user = None \<longrightarrow> ux' = ux \<and> (\<exists>e'. r = Err e')) \<and>
    (\<forall>p. r = Ok p \<longrightarrow> (\<exists>ux1 u. LookupOrCreateFromList now nowText ux user = (ux1, Ok u) \<and>
       (case p of
          AgentOpaque s \<Rightarrow> ak_usr (os_authKeys s) = u
        | AgentTransparent t \<Rightarrow> \<exists>signer. sn_sshDial N user (host @ '':'' @ show_int port) signer = Ok (ts_conn t))))"
proof (intro conjI impI allI)
  assume a: "Lookup ux user = Err e \<and> errors_As UnknownUserError e \<and> managedUsers user = None"
  have "LookupOrCreateFromList now nowText ux user = (ux, Err UserNotFound)" using a by (simp add: unmanaged_user_untouched)
  moreover have "ssh_parseAction action \<noteq> Panic" by (simp add: ssh_parseAction_def Let_def)
  ultimately show "ux' = ux" "\<exists>e'. r = Err e'"
    using assms by (auto simp: SshPlugin_New_def split: res.splits)
next
  fix p
  assume r: "r = Ok p"
  obtain parsed where pa: "ssh_parseAction action = Ok parsed" using assms r by (cases "ssh_parseAction action") (auto simp: SshPlugin_New_def)
  obtain ux1 u where u: "LookupOrCreateFromList now nowText ux user = (ux1, Ok u)"
    using assms r pa by (cases "LookupOrCreateFromList now nowText ux user"; cases "snd (LookupOrCreateFromList now nowText ux user)") (auto simp: SshPlugin_New_def)
  obtain ux2 k where k: "AuthorizedKeys_New ux1 (Some u) sshDir sshDir ssh_maxKeyLifetime = Some (ux2, Ok k)"
    using assms r pa u by (auto simp: SshPlugin_New_def split: option.splits prod.splits res.splits)
  have "case p of AgentOpaque s \<Rightarrow> ak_usr (os_authKeys s) = u
      | AgentTransparent t \<Rightarrow> \<exists>signer. sn_sshDial N user (host @ '':'' @ show_int port) signer = Ok (ts_conn t)"
    using assms r pa u k AuthorizedKeys_New_usr [OF k]
    by (auto simp: SshPlugin_New_def opaque_action_def transparent_action_def OpaqueSsh_New_def TransparentSsh_New_def Let_def
      split: option.splits prod.splits res.splits if_splits)
  then show "\<exists>ux1 u. LookupOrCreateFromList now nowText ux user = (ux1, Ok u) \<and>
      (case p of AgentOpaque s \<Rightarrow> ak_usr (os_authKeys s) = u
       | AgentTransparent t \<Rightarrow> \<exists>signer. sn_sshDial N user (host @ '':'' @ show_int port) signer = Ok (ts_conn t))"
    using u by blast
qed

text \<open>
  What the plugins do not catch: the agent logs in with a key it could not authorise, and the
  daemon panics for an action it does not know, when it is asked for an error before there is
  an action, and when the client connects to a port that could not be listened on.
\<close>

lemma ssh_key_not_authorised:
  assumes "GenerateKeys L = Ok (priv, pub)" "AuthorizedKeys_Add now ux k pub = Some (ux', Err e)" "sn_parseKey N priv = Ok signer"
    and "sn_sshDial N user addr signer = Ok conn"
  shows "transparent_action N L now ux k user addr = Some (ux', Ok (AgentTransparent (TransparentSsh_New conn)))"
  using assms by (simp add: transparent_action_def)

lemma ssh_daemon_panics:
  "name \<noteq> ''opaque'' \<Longrightarrow> name \<noteq> ''transparent'' \<Longrightarrow> snd (SshDaemonPlugin_StartAction M L listening (SshDaemonPlugin_New f w) name) = Panic"
  "SshDaemonPlugin_Err (SshDaemonPlugin_New f w) = Panic"
  "TransparentSshAction_Start M L (TransparentSshAction_New False f False) = (a, Ok ()) \<Longrightarrow> snd (ssh_accept a b) = Panic"
  by (auto simp: SshDaemonPlugin_StartAction_def SshDaemonPlugin_New_def SshDaemonPlugin_Err_def TransparentSshAction_Start_def
    TransparentSshAction_New_def ssh_accept_def ta_send_def split: prod.splits res.splits)

section \<open>Witness\<close>

definition wit_net :: "(string, string, string, string) ssh_net" where
  "wit_net = \<lparr> sn_resolve = Ok, sn_dial = Ok, sn_parseKey = Ok, sn_sshDial = (\<lambda>u a k. Ok (u @ a)) \<rparr>"

theorem ssh_plugin_target_witness:
  "\<exists>J e'. SshPlugin_New J wit_net wit_rsa 0 [] wit_ux ''ssh/opaque'' (Some []) = Some (wit_ux, Err e' :: (string, string, string) ssh_action res)"
proof -
  let ?J = "\<lambda>_. Some (VObject [(''targetUser'', VString ''eve''), (''remoteHost'', VString ''h''), (''remotePort'', VNumber 22)])"
  let ?r = "SshPlugin_New ?J wit_net wit_rsa 0 [] wit_ux ''ssh/opaque'' (Some []) :: (unix \<times> (string, string, string) ssh_action res) option"
  have p: "read_SshActionParams ?J (Some []) = Some (''eve'', ''h'', 22)" by code_simp
  have "isValidUsername ''eve''" by code_simp
  then have u: "Lookup wit_ux ''eve'' = Err (GErr ''user: unknown user'' [UnknownUserError])" by (simp add: Lookup_def user_of_def wit_ux_def)
  have m: "managedUsers ''eve'' = None" by (simp add: managedUsers_def)
  have "ssh_parseAction ''ssh/opaque'' = Ok ''opaque''" by code_simp
  then obtain ux' r where r: "?r = Some (ux', r)"
    using p u m by (simp add: SshPlugin_New_def unmanaged_user_untouched)
  have "ux' = wit_ux \<and> (\<exists>e'. r = Err e')" using ssh_plugin_target [OF p r, of "GErr ''user: unknown user'' [UnknownUserError]"] u m by simp
  then show ?thesis using r by blast
qed

end
