(* ===== verification/Control_Channel.thy ===== *)
theory Control_Channel
  imports Tomb Agent_Connection Agent_Config Key_Shard_Config "HOL-Library.AList"
begin

text \<open>
  \<^verbatim>\<open>bctl/agent/controlchannel\<close>: the channel through which Bastion tells the agent to open and close
  connections to daemons, to trust further service accounts and to store key shards; and the
  life of a data connection (\<^verbatim>\<open>New\<close> and the main loop of \<^verbatim>\<open>dataconnection\<close>).

  The control connection is known by what is sent on it and whether it is ready. Connections to
  daemons are objects that the channel and their own routines share: they are kept in a store,
  and the map of connections refers to them by their position.
\<close>

section \<open>Messages\<close>

definition HeartbeatMessage_json :: "nat \<Rightarrow> jvalue" where
  "HeartbeatMessage_json n = VObject [(''alive'', VBool True), (''numDataChannels'', VNumber (int n))]"

definition ClusterUsersMessage_json :: "string list \<Rightarrow> jvalue" where
  "ClusterUsersMessage_json users = VObject [(''clusterUsers'', VArray (map marshal_string users))]"

definition read_two :: "string \<Rightarrow> string \<Rightarrow> json_parser \<Rightarrow> string option \<Rightarrow> (string \<times> string) option" where
  "read_two f g J pl =
     Option.bind (read_struct J pl) (\<lambda>kvs. case (text_field kvs f, text_field kvs g) of (Some a, Some b) \<Rightarrow> Some (a, b) | _ \<Rightarrow> None)"

definition read_OpenWebsocket :: "json_parser \<Rightarrow> string option \<Rightarrow> (string \<times> string) option" where
  "read_OpenWebsocket = read_two ''connectionId'' ''connectionServiceUrl''"

definition read_CloseWebsocket :: "json_parser \<Rightarrow> string option \<Rightarrow> (string \<times> string) option" where
  "read_CloseWebsocket = read_two ''connectionId'' ''reason''"

definition read_RestartAgent :: "json_parser \<Rightarrow> string option \<Rightarrow> (string \<times> string) option" where
  "read_RestartAgent = read_two ''restartedBy'' ''restartedAt''"

definition read_RetrieveAgentLogs :: "json_parser \<Rightarrow> string option \<Rightarrow> (string \<times> string) option" where
  "read_RetrieveAgentLogs = read_two ''userEmail'' ''uploadLogsRequestId''"

definition read_KeyShard :: "json_parser \<Rightarrow> string option \<Rightarrow> MappedKeyEntry option" where
  "read_KeyShard J pl =
     Option.bind (read_struct J pl) (\<lambda>kvs.
       case (decode_TargetIds (struct_field kvs ''virtualTargetIds''), decode_KeyEntry (struct_field kvs ''keyShard'')) of
         (Decoded ts, Decoded k) \<Rightarrow> Some \<lparr> KeyData = k, TargetIds = ts \<rparr> | _ \<Rightarrow> None)"

text \<open>A nested struct: absent or null it is left as it is, with empty fields.\<close>

definition nested :: "(string \<times> jvalue) list \<Rightarrow> string \<Rightarrow> (string \<times> jvalue) list option" where
  "nested kvs name = (case struct_field kvs name of None \<Rightarrow> Some [] | Some VNull \<Rightarrow> Some [] | Some (VObject ks) \<Rightarrow> Some ks | _ \<Rightarrow> None)"

definition read_BZCert :: "(string \<times> jvalue) list \<Rightarrow> BZCert option" where
  "read_BZCert kvs =
     (case (text_field kvs ''initialIdToken'', text_field kvs ''currentIdToken'', text_field kvs ''clientPublicKey'', text_field kvs ''rand'',
            text_field kvs ''signatureOnRand'') of
        (Some i, Some c, Some k, Some r, Some s) \<Rightarrow>
          Some \<lparr> InitialIdToken = i, CurrentIdToken = c, ClientPublicKey = k, Rand = r, SignatureOnRand = s, expiration = 0, cert_hash = [] \<rparr>
      | _ \<Rightarrow> None)"

record ConfigureServiceAccountMessage =
  cs_JwksUrlPattern :: string
  cs_BZCert :: BZCert
  cs_Signature :: string

definition read_Configure :: "json_parser \<Rightarrow> string option \<Rightarrow> ConfigureServiceAccountMessage option" where
  "read_Configure J pl =
     Option.bind (read_struct J pl) (\<lambda>kvs.
     Option.bind (nested kvs ''serviceAccountConfiguration'') (\<lambda>sa.
     Option.bind (nested kvs ''bZCert'') (\<lambda>cert.
       case (text_field sa ''jwksUrlPattern'', read_BZCert cert, text_field kvs ''signature'') of
         (Some p, Some b, Some s) \<Rightarrow> Some \<lparr> cs_JwksUrlPattern = p, cs_BZCert = b, cs_Signature = s \<rparr> | _ \<Rightarrow> None)))"

definition ServiceAccountConfiguration_json :: "string \<Rightarrow> json" where
  "ServiceAccountConfiguration_json jwksUrlPattern = JObject [(''jwksUrlPattern'', JString jwksUrlPattern)]"

section \<open>Data connections\<close>

text \<open>Without a result the connection is still being tried.\<close>

definition DataConnection_New ::
  "lib \<Rightarrow> MrtapConfig \<Rightarrow> PrivateKey option \<Rightarrow> string \<Rightarrow> connect_event list \<Rightarrow> string \<Rightarrow> string \<Rightarrow> 'p agent_conn res option" where
  "DataConnection_New L config privateKey signed events connUrl connectionId =
     (case url_ParseRequestURI L connUrl of
        Err e \<Rightarrow> Some (Err e) | Panic \<Rightarrow> Some Panic
      | Ok _ \<Rightarrow>
         (case agent_connect L privateKey signed
                 \<lparr> cn_ready = False, cn_connectionId = connectionId, cn_broker = Broker_New, cn_sendQueue = [], cn_idleTimeout = 0, cn_killed = None,
                   cn_mrtapConfig = config \<rparr> events of
            (c, None) \<Rightarrow> None
          | (c, Some (Ok _)) \<Rightarrow> Some (Ok c)
          | (c, Some (Err e)) \<Rightarrow> Some (Err e) | (c, Some Panic) \<Rightarrow> Some Panic))"

text \<open>
  A turn of the main loop while the connection is not dying: the websocket is lost and connected
  again, or the next message is sent. The second component is what was sent.
\<close>

datatype conn_event = ClientDone "connect_event list" | QueueReady "unit res"

definition agent_conn_turn ::
  "lib \<Rightarrow> PrivateKey option \<Rightarrow> string \<Rightarrow> 'p agent_conn \<Rightarrow> conn_event \<Rightarrow> ('p agent_conn \<times> AgentMessage list) \<times> unit res" where
  "agent_conn_turn L privateKey signed c ev =
     (case ev of
        ClientDone events \<Rightarrow>
          (case agent_connect L privateKey signed (c\<lparr>cn_ready := False\<rparr>) events of
             (c1, Some (Err e)) \<Rightarrow> ((conn_kill e c1, []), Ok ())
           | (c1, Some Panic) \<Rightarrow> ((c1, []), Panic)
           | (c1, _) \<Rightarrow> ((c1, []), Ok ()))
      | QueueReady sent \<Rightarrow>
          (case cn_sendQueue c of
             [] \<Rightarrow> ((c, []), Ok ())
           | m # ms \<Rightarrow> ((c\<lparr>cn_sendQueue := ms\<rparr>, if is_ok sent then [m] else []), Ok ())))"

section \<open>The control channel\<close>

record ('s, 'k, 'p) ControlChannel =
  cc_tomb :: tomb
  cc_channelId :: string
  cc_agentType :: string
  cc_privateKey :: "PrivateKey option"
  cc_config :: "'s agent_config"
  cc_keyShardConfig :: "('k, KeyShardData) config"
  cc_sent :: "AgentMessage list"
  cc_inputChan :: "AgentMessage list"
  cc_threads :: "AgentMessage list"
  cc_pongs :: nat
  cc_runtimeErrs :: "gerror list"
  cc_store :: "'p agent_conn list"
  cc_connections :: "(string \<times> nat) list"
  cc_waiting :: "(string \<times> nat) list"
  cc_isSendingPongs :: bool
  cc_clusterUserCache :: "string list"

text \<open>
  What the channel works with: the libraries and the clock, JSON, the two configuration stores
  with what others do to them between a fetch and a save, what happens while a connection to a
  given URL is made, the signed request, and the upload of logs.
\<close>

record ('s, 'k) control_env =
  ce_lib :: lib
  ce_now :: int
  ce_json :: json_parser
  ce_print :: json_printer
  ce_store :: "'s agent_store"
  ce_between :: "'s \<Rightarrow> 's"
  ce_shards :: "('k, KeyShardData) store_ops"
  ce_shardsBetween :: "'k \<Rightarrow> 'k"
  ce_connecting :: "string \<Rightarrow> connect_event list"
  ce_request :: string
  ce_reportLogs :: "string \<Rightarrow> string \<Rightarrow> unit res"

definition ControlChannel_Start ::
  "bool \<Rightarrow> string \<Rightarrow> string \<Rightarrow> PrivateKey option \<Rightarrow> 's agent_config \<Rightarrow> ('k, KeyShardData) config \<Rightarrow> ('s, 'k, 'p) ControlChannel" where
  "ControlChannel_Start ready chanId agentType privateKey config shards =
     \<lparr> cc_tomb = \<lparr> tb_killed = None, tb_started = True, tb_running = 2 \<rparr>, cc_channelId = chanId, cc_agentType = agentType, cc_privateKey = privateKey,
       cc_config = config, cc_keyShardConfig = shards, cc_sent = [], cc_inputChan = [], cc_threads = [], cc_pongs = 0, cc_runtimeErrs = [],
       cc_store = [], cc_connections = [], cc_waiting = [], cc_isSendingPongs = ready, cc_clusterUserCache = [] \<rparr>"

definition ControlChannel_Close :: "('s, 'k, 'p) ControlChannel \<Rightarrow> gerror \<Rightarrow> ('s, 'k, 'p) ControlChannel" where
  "ControlChannel_Close c reason = (if tomb_Alive (cc_tomb c) then c\<lparr>cc_tomb := tomb_Kill (cc_tomb c) (Some reason)\<rparr> else c)"

text \<open>Without a result the caller waits for room in the channel of 25 messages.\<close>

definition ControlChannel_Receive :: "('s, 'k, 'p) ControlChannel \<Rightarrow> AgentMessage \<Rightarrow> ('s, 'k, 'p) ControlChannel option" where
  "ControlChannel_Receive c m = (if length (cc_inputChan c) < 25 then Some (c\<lparr>cc_inputChan := cc_inputChan c @ [m]\<rparr>) else None)"

definition ShouldBeSendingPongs :: "bool \<Rightarrow> ('s, 'k, 'p) ControlChannel \<Rightarrow> ('s, 'k, 'p) ControlChannel \<times> bool" where
  "ShouldBeSendingPongs ready c = (c\<lparr>cc_isSendingPongs := ready\<rparr>, if ready \<and> \<not> cc_isSendingPongs c then False else ready)"

definition cc_send :: "json_printer \<Rightarrow> ('s, 'k, 'p) ControlChannel \<Rightarrow> MessageType \<Rightarrow> jvalue \<Rightarrow> ('s, 'k, 'p) ControlChannel" where
  "cc_send M c messageType payload =
     c\<lparr>cc_sent := cc_sent c @ [\<lparr> am_ChannelId = cc_channelId c, am_MessageType = messageType, am_SchemaVersion = am_CurrentVersion,
         am_MessagePayload = WRaw (M payload) \<rparr>]\<rparr>"

text \<open>The configuration that a connection and a certificate are checked against.\<close>

definition mrtap_config :: "'s agent_config \<Rightarrow> MrtapConfig" where
  "mrtap_config a =
     \<lparr> cfg_PublicKey = GetPublicKey a, cfg_PrivateKey = GetPrivateKey a, cfg_IdpProvider = GetIdpProvider a, cfg_IdpOrgId = GetIdpOrgId a,
       cfg_ServiceAccountJwksUrls = patterns_list (GetServiceAccountJwksUrls a) \<rparr>"

text \<open>A connection that is made stays in the map until its routine has seen it end.\<close>

definition openWebsocket :: "('s, 'k) control_env \<Rightarrow> ('s, 'k, 'p) ControlChannel \<Rightarrow> string \<Rightarrow> string \<Rightarrow> ('s, 'k, 'p) ControlChannel \<times> unit res" where
  "openWebsocket E c connectionId connectionServiceUrl =
     (case DataConnection_New (ce_lib E) (mrtap_config (cc_config c)) (cc_privateKey c) (ce_request E) (ce_connecting E connectionServiceUrl)
             connectionServiceUrl connectionId of
        None \<Rightarrow> (c, Ok ())
      | Some (Err e) \<Rightarrow> (c, Err (errorf_s ''could not create new connection: '' e))
      | Some Panic \<Rightarrow> (c, Panic)
      | Some (Ok conn) \<Rightarrow>
         let r = length (cc_store c) in
         (c\<lparr>cc_store := cc_store c @ [conn], cc_connections := AList.update connectionId r (cc_connections c),
            cc_waiting := cc_waiting c @ [(connectionId, r)]\<rparr>, Ok ()))"

definition connection_ended :: "('s, 'k, 'p) ControlChannel \<Rightarrow> nat \<Rightarrow> ('s, 'k, 'p) ControlChannel" where
  "connection_ended c i =
     (if i < length (cc_waiting c) \<and> cn_killed (cc_store c ! snd (cc_waiting c ! i)) \<noteq> None
      then c\<lparr>cc_connections := AList.delete (fst (cc_waiting c ! i)) (cc_connections c),
             cc_waiting := take i (cc_waiting c) @ drop (Suc i) (cc_waiting c)\<rparr>
      else c)"

definition kill_at :: "gerror \<Rightarrow> nat \<Rightarrow> 'p agent_conn list \<Rightarrow> 'p agent_conn list" where
  "kill_at reason r cs = cs[r := conn_kill reason (cs ! r)]"

definition close_object :: "gerror \<Rightarrow> nat \<Rightarrow> ('s, 'k, 'p) ControlChannel \<Rightarrow> ('s, 'k, 'p) ControlChannel" where
  "close_object reason r c = c\<lparr>cc_store := kill_at reason r (cc_store c)\<rparr>"

definition configureServiceAccount ::
  "('s, 'k) control_env \<Rightarrow> ('s, 'k, 'p) ControlChannel \<Rightarrow> ConfigureServiceAccountMessage \<Rightarrow> ('s, 'k, 'p) ControlChannel \<times> unit res" where
  "configureServiceAccount E c m =
     (let L = ce_lib E; a = cc_config c; pattern = cs_JwksUrlPattern m in
      case BZCert_Verify L (ce_now E) (cs_BZCert m) (GetIdpProvider a) (GetIdpOrgId a) (patterns_list (GetServiceAccountJwksUrls a)) of
        Err e \<Rightarrow> (c, Err (errorf_w ''failed to verify configure's BZCert: '' e)) | Panic \<Rightarrow> (c, Panic)
      | Ok b \<Rightarrow>
         (case PublicKeyFromString (ClientPublicKey b) of
            Err e \<Rightarrow> (c, Err (errorf (''malformed public key: '' @ ClientPublicKey b))) | Panic \<Rightarrow> (c, Panic)
          | Ok pubkey \<Rightarrow>
             (case HashPayload L (ServiceAccountConfiguration_json pattern) of
                (hashBits, ok) \<Rightarrow>
                  if \<not> ok then (c, Err (errorf ''failed to hash the mrtap payload''))
                  else (case PublicKey_Verify L (Some pubkey) hashBits (cs_Signature m) of
                          Err e \<Rightarrow> (c, Err e) | Panic \<Rightarrow> (c, Panic)
                        | Ok False \<Rightarrow> (c, Err (errorf (''invalid signature for payload: {JwksUrlPattern:'' @ pattern @ ''}'')))
                        | Ok True \<Rightarrow>
                           (case SetServiceAccountJwksUrl L (ce_store E) (ce_between E) a pattern of
                              (a', r) \<Rightarrow> (c\<lparr>cc_config := a'\<rparr>, wrap_err (errorf_s ''error adding new jwksUrlPattern to the config: '') r))))))"

definition ManualRestartMsg :: string where
  "ManualRestartMsg = ''received manual restart from subject''"

definition restart_reason :: "(string \<times> string) option \<Rightarrow> gerror" where
  "restart_reason r =
     (case (case r of None \<Rightarrow> ([], []) | Some x \<Rightarrow> x) of
        (by, at) \<Rightarrow> errorf (ManualRestartMsg @ '': {RestartedBy:'' @ by @ '' RestartedAt:'' @ at @ ''}''))"

definition raw_payload :: "AgentMessage \<Rightarrow> string option" where
  "raw_payload m = (case am_MessagePayload m of WRaw b \<Rightarrow> Some b | _ \<Rightarrow> None)"

definition cc_processInput :: "('s, 'k) control_env \<Rightarrow> ('s, 'k, 'p) ControlChannel \<Rightarrow> AgentMessage \<Rightarrow> ('s, 'k, 'p) ControlChannel \<times> unit res" where
  "cc_processInput E c m =
     (let J = ce_json E; pl = raw_payload m; bad = (\<lambda>what. (c, Err (errorf (''malformed '' @ what @ '' request'')))) in
      case am_MessageType m of
        MTHealthCheck \<Rightarrow> (c\<lparr>cc_pongs := Suc (cc_pongs c)\<rparr>, Ok ())
      | MTRestart \<Rightarrow> (ControlChannel_Close c (restart_reason (read_RestartAgent J pl)), Ok ())
      | MTRetrieveLogs \<Rightarrow>
         (case read_RetrieveAgentLogs J pl of
            None \<Rightarrow> bad ''retrieve agent logs''
          | Some (email, requestId) \<Rightarrow> (c, wrap_err (errorf_s ''failed to send agent logs to Bastion: '') (ce_reportLogs E email requestId)))
      | MTConfigure \<Rightarrow>
         (case read_Configure J pl of
            None \<Rightarrow> bad ''configure agent''
          | Some req \<Rightarrow>
             apsnd (wrap_err (errorf_s (''error while configuring agent with jwksUrlPattern '' @ cs_JwksUrlPattern req @ '' : ''))) (configureServiceAccount E c req))
      | MTOpenWebsocket \<Rightarrow>
         (case read_OpenWebsocket J pl of None \<Rightarrow> bad ''open websocket'' | Some (connectionId, url) \<Rightarrow> openWebsocket E c connectionId url)
      | MTCloseWebsocket \<Rightarrow>
         (case read_CloseWebsocket J pl of
            None \<Rightarrow> bad ''close websocket''
          | Some (connectionId, reason) \<Rightarrow>
             (case map_of (cc_connections c) connectionId of
                Some r \<Rightarrow> (close_object (errorf (''connection was closed through the control channel with reason: '' @ reason)) r c, Ok ())
              | None \<Rightarrow> (c, Err (errorf (''could not close non existent connection with id: '' @ connectionId)))))
      | MTKeyShard \<Rightarrow>
         (case read_KeyShard J pl of
            None \<Rightarrow> bad ''distribute shard''
          | Some entry \<Rightarrow>
             (case AddKey (ce_shards E) (ce_shardsBetween E) (cc_keyShardConfig c) entry of
                (k, r) \<Rightarrow> (c\<lparr>cc_keyShardConfig := k\<rparr>, wrap_err (errorf_s ''failed to add key shard to config: '') r)))
      | t \<Rightarrow> (c, Err (errorf (''unrecognized message type: '' @ MessageType_string t))))"

section \<open>Health and cluster users\<close>

text \<open>A user whose name has a colon looks like one of the system: the pattern matches anywhere in the name.\<close>

definition valid_subject :: "string \<times> string \<Rightarrow> bool" where
  "valid_subject s \<longleftrightarrow> fst s = ''User'' \<and> CHR '':'' \<notin> set (snd s)"

definition valid_users :: "(string \<times> string) list list \<Rightarrow> (string \<times> string) list list \<Rightarrow> string list" where
  "valid_users clusterRoleBindings roleBindings =
     sort (remdups (map snd (filter valid_subject (concat clusterRoleBindings @ concat roleBindings))))"

record cluster =
  cl_config :: "unit res"
  cl_clusterRoleBindings :: "(string \<times> string) list list res"
  cl_roleBindings :: "(string \<times> string) list list res"

definition reportClusterUsers :: "json_printer \<Rightarrow> cluster \<Rightarrow> ('s, 'k, 'p) ControlChannel \<Rightarrow> ('s, 'k, 'p) ControlChannel \<times> unit res" where
  "reportClusterUsers M K c =
     (case (cl_config K, cl_clusterRoleBindings K, cl_roleBindings K) of
        (Err e, _, _) \<Rightarrow> (c, Err e) | (Panic, _, _) \<Rightarrow> (c, Panic)
      | (Ok _, Err e, _) \<Rightarrow> (c, Err e) | (Ok _, Panic, _) \<Rightarrow> (c, Panic)
      | (Ok _, Ok _, Err e) \<Rightarrow> (c, Err e) | (Ok _, Ok _, Panic) \<Rightarrow> (c, Panic)
      | (Ok _, Ok crs, Ok rs) \<Rightarrow>
         let users = valid_users crs rs in
         (if users \<noteq> cc_clusterUserCache c
          then (cc_send M c MTClusterUsers (ClusterUsersMessage_json users))\<lparr>cc_clusterUserCache := users\<rparr> else c, Ok ()))"

definition reportHealth :: "json_printer \<Rightarrow> cluster \<Rightarrow> ('s, 'k, 'p) ControlChannel \<Rightarrow> ('s, 'k, 'p) ControlChannel \<times> unit res" where
  "reportHealth M K c =
     (let n = sum_list (map (\<lambda>(_, r). agent_NumDataChannels (cc_store c ! r)) (cc_connections c));
          c1 = cc_send M c MTHealthCheck (HeartbeatMessage_json (n mod 2 ^ 32)) in
      if cc_agentType c = ''cluster''
      then (case reportClusterUsers M K c1 of (c2, Panic) \<Rightarrow> (c2, Panic) | (c2, _) \<Rightarrow> (c2, Ok ()))
      else (c1, Ok ()))"

definition heartbeat :: "json_printer \<Rightarrow> bool \<Rightarrow> cluster \<Rightarrow> ('s, 'k, 'p) ControlChannel \<Rightarrow> ('s, 'k, 'p) ControlChannel \<times> unit res" where
  "heartbeat M ready K c =
     (if \<not> tomb_Alive (cc_tomb c) then (c\<lparr>cc_tomb := tomb_return (cc_tomb c) None\<rparr>, Ok ())
      else if ready then reportHealth M K c
      else (c\<lparr>cc_isSendingPongs := False\<rparr>, Ok ()))"

section \<open>The main loop\<close>

text \<open>Every message gets a routine of its own, and these run in any order.\<close>

definition take_input :: "('s, 'k, 'p) ControlChannel \<Rightarrow> ('s, 'k, 'p) ControlChannel" where
  "take_input c = (case cc_inputChan c of [] \<Rightarrow> c | m # ms \<Rightarrow> c\<lparr>cc_inputChan := ms, cc_threads := cc_threads c @ [m]\<rparr>)"

definition run_thread :: "('s, 'k) control_env \<Rightarrow> ('s, 'k, 'p) ControlChannel \<Rightarrow> nat \<Rightarrow> ('s, 'k, 'p) ControlChannel \<times> unit res" where
  "run_thread E c i =
     (if i < length (cc_threads c)
      then (case cc_processInput E (c\<lparr>cc_threads := take i (cc_threads c) @ drop (Suc i) (cc_threads c)\<rparr>) (cc_threads c ! i) of
              (c', Err e) \<Rightarrow> (c'\<lparr>cc_runtimeErrs := cc_runtimeErrs c' @ [e]\<rparr>, Ok ()) | r \<Rightarrow> r)
      else (c, Ok ()))"

definition tomb_reason :: "tomb \<Rightarrow> gerror" where
  "tomb_reason t = (case tb_killed t of Some (Some e) \<Rightarrow> e | _ \<Rightarrow> errorf [])"

text \<open>The loop ends because the channel is closed, or because the control connection has ended with a text.\<close>

definition loop_dying :: "('s, 'k, 'p) ControlChannel \<Rightarrow> ('s, 'k, 'p) ControlChannel" where
  "loop_dying c =
     c\<lparr>cc_store := fold (\<lambda>(_, r). kill_at (tomb_reason (cc_tomb c)) r) (cc_connections c) (cc_store c), cc_tomb := tomb_return (cc_tomb c) None\<rparr>"

definition loop_conn_done :: "('s, 'k, 'p) ControlChannel \<Rightarrow> string \<Rightarrow> ('s, 'k, 'p) ControlChannel" where
  "loop_conn_done c err = c\<lparr>cc_tomb := tomb_return (cc_tomb c) (Some (errorf (''connection closed with err: '' @ err)))\<rparr>"

section \<open>Steps\<close>

text \<open>
  A step of the channel in some environment: a call from outside, a turn of one of its routines,
  or a change of a connection by the routines of the connection, which never undo its end.
\<close>

inductive cc_step :: "('s, 'k) control_env \<Rightarrow> ('s, 'k, 'p) ControlChannel \<Rightarrow> ('s, 'k, 'p) ControlChannel \<Rightarrow> bool" where
  cc_receive: "ControlChannel_Receive c m = Some c' \<Longrightarrow> cc_step E c c'"
| cc_take: "cc_step E c (take_input c)"
| cc_run: "run_thread E c i = (c', r) \<Longrightarrow> cc_step E c c'"
| cc_ended: "cc_step E c (connection_ended c i)"
| cc_beat: "heartbeat (ce_print E) ready K c = (c', r) \<Longrightarrow> cc_step E c c'"
| cc_asked: "ShouldBeSendingPongs ready c = (c', b) \<Longrightarrow> cc_step E c c'"
| cc_closed: "cc_step E c (ControlChannel_Close c reason)"
| cc_dying: "\<not> tomb_Alive (cc_tomb c) \<Longrightarrow> cc_step E c (loop_dying c)"
| cc_done: "cc_step E c (loop_conn_done c err)"
| cc_object: "(cn_killed (cc_store c ! r) \<noteq> None \<longrightarrow> cn_killed conn' \<noteq> None) \<Longrightarrow> cc_step E c (c\<lparr>cc_store := (cc_store c)[r := conn']\<rparr>)"

definition cc_steps :: "json_printer \<Rightarrow> ('s, 'k, 'p) ControlChannel \<Rightarrow> ('s, 'k, 'p) ControlChannel \<Rightarrow> bool" where
  "cc_steps M = (\<lambda>c c'. \<exists>E. ce_print E = M \<and> cc_step E c c')\<^sup>*\<^sup>*"

lemma cc_steps_refl: "cc_steps M c c"
  by (simp add: cc_steps_def)

lemma cc_steps_step: "cc_steps M c c' \<Longrightarrow> ce_print E = M \<Longrightarrow> cc_step E c' c'' \<Longrightarrow> cc_steps M c c''"
  unfolding cc_steps_def by (rule rtranclp.rtrancl_into_rtrancl) auto

lemma cc_steps_invariant [consumes 1, case_names start step]:
  assumes "cc_steps M c c'" "P c" "\<And>c c' E. P c \<Longrightarrow> ce_print E = M \<Longrightarrow> cc_step E c c' \<Longrightarrow> P c'"
  shows "P c'"
  using assms(1) unfolding cc_steps_def by (induction rule: rtranclp_induct) (use assms(2,3) in auto)

lemma kill_at_simps [simp]:
  "length (kill_at e r cs) = length cs"
  "i < length cs \<Longrightarrow> cn_killed (kill_at e r cs ! i) =
     (if i = r then Some (case cn_killed (cs ! i) of None \<Rightarrow> e | Some x \<Rightarrow> x) else cn_killed (cs ! i))"
  by (auto simp: kill_at_def conn_kill_def nth_list_update split: option.split)

lemma fold_kill_length [simp]: "length (fold (\<lambda>(_, r). kill_at e r) ms cs) = length cs"
  by (induction ms arbitrary: cs) auto

lemma fold_kill_at:
  "i < length cs \<Longrightarrow> cn_killed (fold (\<lambda>(_, r). kill_at e r) ms cs ! i) =
     (if i \<in> snd ` set ms then Some (case cn_killed (cs ! i) of None \<Rightarrow> e | Some x \<Rightarrow> x) else cn_killed (cs ! i))"
proof (induction ms arbitrary: cs)
  case (Cons m ms)
  then show ?case by (cases m; cases "i \<in> snd ` set ms") (simp_all split: option.split)
qed simp

text \<open>The references of the map and of the waiting routines are to objects of the store.\<close>

definition cc_refs :: "('s, 'k, 'p) ControlChannel \<Rightarrow> nat set" where
  "cc_refs c = snd ` set (cc_connections c) \<union> snd ` set (cc_waiting c)"

definition cc_wf :: "('s, 'k, 'p) ControlChannel \<Rightarrow> bool" where
  "cc_wf c \<longleftrightarrow> (\<forall>r \<in> cc_refs c. r < length (cc_store c))"

lemma set_update: "snd ` set (AList.update k v al) \<subseteq> insert v (snd ` set al)"
  by (induction al) auto

lemma set_delete: "snd ` set (AList.delete k al) \<subseteq> snd ` set al"
  by (auto simp: AList.delete_eq)

lemma openWebsocket_refs:
  "openWebsocket E c k url = (c', r) \<Longrightarrow>
   c' = c \<or> (\<exists>x. cc_store c' = cc_store c @ [x]) \<and> cc_refs c' \<subseteq> insert (length (cc_store c)) (cc_refs c)"
  using set_update [of k "length (cc_store c)" "cc_connections c"]
  by (simp add: openWebsocket_def cc_refs_def Let_def split: option.splits res.splits) (force simp: image_Un)

lemma ended_refs: "cc_store (connection_ended c i) = cc_store c" "cc_refs (connection_ended c i) \<subseteq> cc_refs c"
proof -
  have "snd ` set (take i (cc_waiting c) @ drop (Suc i) (cc_waiting c)) \<subseteq> snd ` set (cc_waiting c)"
    by (intro image_mono) (auto dest: in_set_takeD in_set_dropD)
  then show "cc_store (connection_ended c i) = cc_store c" "cc_refs (connection_ended c i) \<subseteq> cc_refs c"
    using set_delete [of "fst (cc_waiting c ! i)" "cc_connections c"] by (simp_all add: connection_ended_def cc_refs_def) blast
qed

lemma configure_config:
  "configureServiceAccount E c m = (c', r) \<Longrightarrow> \<exists>a. c' = c\<lparr>cc_config := a\<rparr>"
  by (auto simp: configureServiceAccount_def Let_def split: res.splits bool.splits prod.splits if_splits intro: exI [of _ "cc_config c"])

lemma processInput_refs:
  assumes "cc_processInput E c m = (c', r)"
  shows "length (cc_store c') = length (cc_store c) \<and> cc_refs c' = cc_refs c \<or>
    length (cc_store c') = Suc (length (cc_store c)) \<and> cc_refs c' \<subseteq> insert (length (cc_store c)) (cc_refs c)"
proof (cases "am_MessageType m = MTOpenWebsocket")
  case True
  then show ?thesis using assms
    by (auto simp: cc_processInput_def Let_def split: option.splits dest!: openWebsocket_refs)
next
  case False
  then show ?thesis using assms
    by (cases "am_MessageType m")
       (auto simp: cc_processInput_def ControlChannel_Close_def close_object_def cc_refs_def Let_def apsnd_def map_prod_def
         split: option.splits prod.splits if_splits dest!: configure_config)
qed

lemma cc_wf_simps [simp]: "cc_wf (c\<lparr>cc_threads := ms\<rparr>) = cc_wf c" "cc_wf (c\<lparr>cc_runtimeErrs := es\<rparr>) = cc_wf c"
  "cc_wf (c\<lparr>cc_inputChan := ms\<rparr>) = cc_wf c" "cc_wf (c\<lparr>cc_isSendingPongs := b\<rparr>) = cc_wf c" "cc_wf (c\<lparr>cc_tomb := tb\<rparr>) = cc_wf c"
  "length cs = length (cc_store c) \<Longrightarrow> cc_wf (c\<lparr>cc_store := cs\<rparr>) = cc_wf c"
  by (simp_all add: cc_wf_def cc_refs_def)

lemma processInput_wf: "cc_processInput E c m = (c', r) \<Longrightarrow> cc_wf c \<Longrightarrow> cc_wf c'"
  by (drule processInput_refs) (auto simp: cc_wf_def less_Suc_eq)

lemma reports_refs:
  "heartbeat M ready K c = (c', r) \<Longrightarrow> cc_store c' = cc_store c \<and> cc_refs c' = cc_refs c"
  by (auto simp: heartbeat_def reportHealth_def reportClusterUsers_def cc_send_def cc_refs_def Let_def split: if_splits res.splits prod.splits)

lemma cc_wf_step:
  assumes "cc_step E c c'" "cc_wf c"
  shows "cc_wf c'"
  using assms
proof cases
  case (cc_run i r)
  then show ?thesis using assms(2)
    by (auto simp: run_thread_def split: if_splits prod.splits res.splits dest!: processInput_wf)
next
  case (cc_beat ready K r)
  then show ?thesis using assms(2) by (auto simp: cc_wf_def dest!: reports_refs)
next
  case (cc_ended i)
  then show ?thesis using assms(2) ended_refs [of c i] unfolding cc_wf_def by auto
qed (auto simp: ControlChannel_Receive_def take_input_def ShouldBeSendingPongs_def ControlChannel_Close_def
    loop_dying_def loop_conn_done_def split: if_splits list.splits)

section \<open>Who may configure the agent\<close>

lemma processInput_config:
  assumes "cc_processInput E c m = (c', r)" "cc_config c' \<noteq> cc_config c"
  obtains req r' where "am_MessageType m = MTConfigure" "read_Configure (ce_json E) (raw_payload m) = Some req" "configureServiceAccount E c req = (c', r')"
proof (cases "am_MessageType m = MTConfigure")
  case True
  then show ?thesis using assms that
    by (auto simp: cc_processInput_def Let_def apsnd_def map_prod_def split: option.splits prod.splits)
next
  case False
  then have "cc_config c' = cc_config c" using assms(1)
    by (cases "am_MessageType m")
       (auto simp: cc_processInput_def ControlChannel_Close_def close_object_def openWebsocket_def Let_def split: option.splits prod.splits if_splits res.splits)
  then show ?thesis using assms(2) by simp
qed

lemma configure_verified:
  assumes "configureServiceAccount E c req = (c', r)" "cc_config c' \<noteq> cc_config c"
  obtains b pubkey where
    "BZCert_Verify (ce_lib E) (ce_now E) (cs_BZCert req) (GetIdpProvider (cc_config c)) (GetIdpOrgId (cc_config c))
       (patterns_list (GetServiceAccountJwksUrls (cc_config c))) = Ok b"
    "PublicKeyFromString (ClientPublicKey b) = Ok pubkey"
    "PublicKey_Verify (ce_lib E) (Some pubkey) (sha3 (ce_lib E) (hash_preimage (ServiceAccountConfiguration_json (cs_JwksUrlPattern req)))) (cs_Signature req) = Ok True"
    "cc_config c' = fst (SetServiceAccountJwksUrl (ce_lib E) (ce_store E) (ce_between E) (cc_config c) (cs_JwksUrlPattern req))"
  using assms that
  by (auto simp: configureServiceAccount_def HashPayload_def Let_def split: res.splits bool.splits prod.splits)

lemma other_steps_config:
  "heartbeat M ready K c = (c', r) \<Longrightarrow> cc_config c' = cc_config c"
  by (auto simp: heartbeat_def reportHealth_def reportClusterUsers_def cc_send_def Let_def split: if_splits res.splits prod.splits)

text \<open>
  C8. The list of trusted service accounts changes for one reason only: a message to configure
  the agent whose certificate verifies against the identity provider, the organisation and the
  accounts trusted so far, with a signature by the key of that certificate over the new entry;
  and then it is exactly this entry that the configuration is asked to add.
\<close>

theorem configuration_authorised:
  assumes "cc_step E c c'" and "cc_config c' \<noteq> cc_config c"
  shows "\<exists>m \<in> set (cc_threads c). \<exists>req b pubkey. am_MessageType m = MTConfigure \<and> read_Configure (ce_json E) (raw_payload m) = Some req \<and>
    BZCert_Verify (ce_lib E) (ce_now E) (cs_BZCert req) (GetIdpProvider (cc_config c)) (GetIdpOrgId (cc_config c))
      (patterns_list (GetServiceAccountJwksUrls (cc_config c))) = Ok b \<and>
    PublicKeyFromString (ClientPublicKey b) = Ok pubkey \<and>
    PublicKey_Verify (ce_lib E) (Some pubkey) (sha3 (ce_lib E) (hash_preimage (ServiceAccountConfiguration_json (cs_JwksUrlPattern req)))) (cs_Signature req) = Ok True \<and>
    cc_config c' = fst (SetServiceAccountJwksUrl (ce_lib E) (ce_store E) (ce_between E) (cc_config c) (cs_JwksUrlPattern req))"
  using assms(1)
proof cases
  case (cc_run i r)
  let ?c = "c\<lparr>cc_threads := take i (cc_threads c) @ drop (Suc i) (cc_threads c)\<rparr>" and ?m = "cc_threads c ! i"
  obtain c1 r1 where i: "i < length (cc_threads c)" and p: "cc_processInput E ?c ?m = (c1, r1)" "cc_config c1 = cc_config c'"
    using cc_run assms(2) by (auto simp: run_thread_def split: if_splits prod.splits res.splits)
  then have ne: "cc_config c1 \<noteq> cc_config ?c" using assms(2) by simp
  obtain req r' where q: "am_MessageType ?m = MTConfigure" "read_Configure (ce_json E) (raw_payload ?m) = Some req"
    "configureServiceAccount E ?c req = (c1, r')" by (rule processInput_config [OF p(1) ne])
  have "?m \<in> set (cc_threads c)" using i by simp
  moreover obtain b pubkey where
    "BZCert_Verify (ce_lib E) (ce_now E) (cs_BZCert req) (GetIdpProvider (cc_config c)) (GetIdpOrgId (cc_config c))
       (patterns_list (GetServiceAccountJwksUrls (cc_config c))) = Ok b"
    "PublicKeyFromString (ClientPublicKey b) = Ok pubkey"
    "PublicKey_Verify (ce_lib E) (Some pubkey) (sha3 (ce_lib E) (hash_preimage (ServiceAccountConfiguration_json (cs_JwksUrlPattern req)))) (cs_Signature req) = Ok True"
    "cc_config c' = fst (SetServiceAccountJwksUrl (ce_lib E) (ce_store E) (ce_between E) (cc_config c) (cs_JwksUrlPattern req))"
    using configure_verified [OF q(3) ne] p(2) by auto
  ultimately show ?thesis using q(1,2) by blast
next
  case (cc_beat ready K r)
  then show ?thesis using assms(2) other_steps_config by blast
qed (use assms(2) in \<open>auto simp: ControlChannel_Receive_def take_input_def ShouldBeSendingPongs_def ControlChannel_Close_def connection_ended_def
    loop_dying_def loop_conn_done_def split: if_splits list.splits\<close>)

text \<open>
  The signature covers the entry alone: another agent with the same settings that gets the same
  message takes it as well, whenever it does.
\<close>

lemma configuration_replayed:
  assumes "configureServiceAccount E c req = (c1, r1)" "cc_config c1 \<noteq> cc_config c" "cfg_data (cc_config d) = cfg_data (cc_config c)"
  shows "configureServiceAccount E d req =
    (case SetServiceAccountJwksUrl (ce_lib E) (ce_store E) (ce_between E) (cc_config d) (cs_JwksUrlPattern req) of
       (a, r) \<Rightarrow> (d\<lparr>cc_config := a\<rparr>, wrap_err (errorf_s ''error adding new jwksUrlPattern to the config: '') r))"
proof -
  have g: "GetIdpProvider (cc_config d) = GetIdpProvider (cc_config c)" "GetIdpOrgId (cc_config d) = GetIdpOrgId (cc_config c)"
    "GetServiceAccountJwksUrls (cc_config d) = GetServiceAccountJwksUrls (cc_config c)"
    using assms(3) by (simp_all add: GetIdpProvider_def GetIdpOrgId_def GetServiceAccountJwksUrls_def)
  show ?thesis
    by (rule configure_verified [OF assms(1,2)]) (simp add: configureServiceAccount_def HashPayload_def g Let_def)
qed

section \<open>Pongs\<close>

text \<open>What bears on the answer: the agent asks, and the heart beats; with whether the connection is ready then.\<close>

datatype pong_event = Asked bool | Beat bool

fun pong_run :: "json_printer \<Rightarrow> cluster \<Rightarrow> ('s, 'k, 'p) ControlChannel \<Rightarrow> pong_event list \<Rightarrow> ('s, 'k, 'p) ControlChannel" where
  "pong_run M K c [] = c"
| "pong_run M K c (Asked ready # es) = pong_run M K (fst (ShouldBeSendingPongs ready c)) es"
| "pong_run M K c (Beat ready # es) = pong_run M K (fst (heartbeat M ready K c)) es"

text \<open>Ready when the agent asked last, or when the channel was started, and at every beat since.\<close>

fun ready_since :: "bool \<Rightarrow> pong_event list \<Rightarrow> bool" where
  "ready_since b [] = b"
| "ready_since b (Asked ready # es) = ready_since ready es"
| "ready_since b (Beat ready # es) = ready_since (b \<and> ready) es"

lemma heartbeat_pongs:
  assumes "tomb_Alive (cc_tomb c)"
  shows "cc_isSendingPongs (fst (heartbeat M ready K c)) = (cc_isSendingPongs c \<and> ready)" "tomb_Alive (cc_tomb (fst (heartbeat M ready K c)))"
  using assms
  by (auto simp: heartbeat_def reportHealth_def reportClusterUsers_def cc_send_def Let_def split: res.splits prod.splits if_splits)

text \<open>
  The grace period after a reconnect: the agent is told to expect a pong exactly when the
  connection is ready now, was ready when the agent asked the last time, and was so at every
  heartbeat in between; so the first question after the connection was found down is answered
  with no.
\<close>

theorem pongs_expected:
  assumes "tomb_Alive (cc_tomb c)"
  shows "snd (ShouldBeSendingPongs ready (pong_run M K c es)) \<longleftrightarrow> ready \<and> ready_since (cc_isSendingPongs c) es"
  using assms
proof (induction es arbitrary: c)
  case (Cons ev es)
  show ?case
  proof (cases ev)
    case (Asked x)
    then show ?thesis using Cons.IH [of "fst (ShouldBeSendingPongs x c)"] Cons.prems by (simp add: ShouldBeSendingPongs_def)
  next
    case (Beat x)
    then show ?thesis using Cons.IH [of "fst (heartbeat M x K c)"] heartbeat_pongs [OF Cons.prems, of M x K] by simp
  qed
qed (auto simp: ShouldBeSendingPongs_def)

section \<open>Cluster users\<close>

definition user_messages :: "('s, 'k, 'p) ControlChannel \<Rightarrow> AgentMessage list" where
  "user_messages c = filter (\<lambda>m. am_MessageType m = MTClusterUsers) (cc_sent c)"

text \<open>What Bastion was told last is what the channel remembers.\<close>

definition users_told :: "json_printer \<Rightarrow> ('s, 'k, 'p) ControlChannel \<Rightarrow> bool" where
  "users_told M c \<longleftrightarrow>
     (if user_messages c = [] then cc_clusterUserCache c = []
      else am_MessagePayload (last (user_messages c)) = WRaw (M (ClusterUsersMessage_json (cc_clusterUserCache c))))"

lemma users_told_cong: "cc_sent c' = cc_sent c \<Longrightarrow> cc_clusterUserCache c' = cc_clusterUserCache c \<Longrightarrow> users_told M c' = users_told M c"
  by (simp add: users_told_def user_messages_def)

lemma processInput_quiet:
  assumes "cc_processInput E c m = (c', r)"
  shows "cc_sent c' = cc_sent c \<and> cc_clusterUserCache c' = cc_clusterUserCache c"
proof (cases "am_MessageType m = MTConfigure")
  case True
  then show ?thesis using assms
    by (auto simp: cc_processInput_def Let_def apsnd_def map_prod_def split: option.splits prod.splits dest!: configure_config)
next
  case False
  then show ?thesis using assms
    by (cases "am_MessageType m")
       (auto simp: cc_processInput_def ControlChannel_Close_def close_object_def openWebsocket_def Let_def split: option.splits prod.splits if_splits res.splits)
qed

lemma run_thread_quiet:
  "run_thread E c i = (c', r) \<Longrightarrow> cc_sent c' = cc_sent c \<and> cc_clusterUserCache c' = cc_clusterUserCache c"
  by (auto simp: run_thread_def split: if_splits prod.splits res.splits dest!: processInput_quiet)

lemma send_users:
  "user_messages (cc_send M c t v) = user_messages c @
     (if t = MTClusterUsers then [\<lparr> am_ChannelId = cc_channelId c, am_MessageType = t, am_SchemaVersion = am_CurrentVersion, am_MessagePayload = WRaw (M v) \<rparr>] else [])"
  "cc_clusterUserCache (cc_send M c t v) = cc_clusterUserCache c" "cc_agentType (cc_send M c t v) = cc_agentType c"
  by (simp_all add: user_messages_def cc_send_def)

lemma cluster_users_told: "reportClusterUsers M K c = (c', r) \<Longrightarrow> users_told M c \<Longrightarrow> users_told M c'"
  by (auto simp: reportClusterUsers_def users_told_def send_users Let_def user_messages_def cc_send_def split: res.splits if_splits)

lemma heartbeat_told: "heartbeat M ready K c = (c', r) \<Longrightarrow> users_told M c \<Longrightarrow> users_told M c'"
proof -
  assume a: "heartbeat M ready K c = (c', r)" "users_told M c"
  have s: "users_told M (cc_send M c MTHealthCheck v)" for v using a(2) by (simp add: users_told_def send_users)
  have "users_told M (c\<lparr>cc_tomb := tb\<rparr>)" "users_told M (c\<lparr>cc_isSendingPongs := b\<rparr>)" for tb b
    using a(2) users_told_cong [of "c\<lparr>cc_tomb := tb\<rparr>" c M] users_told_cong [of "c\<lparr>cc_isSendingPongs := b\<rparr>" c M] by simp_all
  then show ?thesis using a(1) cluster_users_told [OF _ s]
    by (auto simp: heartbeat_def reportHealth_def Let_def split: if_splits prod.splits res.splits intro: s)
qed

lemma users_told_step:
  assumes "cc_step E c c'" "users_told (ce_print E) c"
  shows "users_told (ce_print E) c'"
proof -
  have "(\<exists>ready K r. heartbeat (ce_print E) ready K c = (c', r)) \<or> cc_sent c' = cc_sent c \<and> cc_clusterUserCache c' = cc_clusterUserCache c"
    using assms(1)
  proof cases
    case (cc_run i r)
    then show ?thesis using run_thread_quiet by blast
  qed (auto simp: ControlChannel_Receive_def take_input_def ShouldBeSendingPongs_def ControlChannel_Close_def connection_ended_def
      loop_dying_def loop_conn_done_def split: if_splits list.splits)
  then show ?thesis using assms(2) heartbeat_told users_told_cong by blast
qed

lemma start_told: "users_told M (ControlChannel_Start ready chanId agentType privateKey config shards)"
  by (simp add: users_told_def user_messages_def ControlChannel_Start_def)

lemma valid_users_set: "set (valid_users crs rs) = {u. CHR '':'' \<notin> set u \<and> (\<exists>b \<in> set (crs @ rs). (''User'', u) \<in> set b)}"
  by (force simp: valid_users_def valid_subject_def)

text \<open>
  Bastion knows the users of the cluster: whatever has happened before, after a heartbeat of
  the agent of a cluster that could read the role bindings, the last list of users that was sent
  (if one ever was, and otherwise the empty list) is the sorted list, without repetition, of all
  users that any binding names and that have no colon in their name; and when they have not
  changed no list is sent.
\<close>

theorem cluster_users_known:
  assumes "cc_steps M (ControlChannel_Start ready0 chanId ''cluster'' privateKey config shards) c" and "tomb_Alive (cc_tomb c)"
    and "cc_agentType c = ''cluster''" and "cl_config K = Ok ()" and "cl_clusterRoleBindings K = Ok crs" and "cl_roleBindings K = Ok rs"
    and "heartbeat M True K c = (c', r)"
  shows "users_told M c' \<and> cc_clusterUserCache c' = valid_users crs rs \<and>
    sorted (valid_users crs rs) \<and> distinct (valid_users crs rs) \<and>
    set (valid_users crs rs) = {u. CHR '':'' \<notin> set u \<and> (\<exists>b \<in> set (crs @ rs). (''User'', u) \<in> set b)} \<and>
    (cc_clusterUserCache c = valid_users crs rs \<longrightarrow> user_messages c' = user_messages c)"
proof -
  have "users_told M c" using assms(1)
    by (induction rule: cc_steps_invariant) (auto simp: start_told dest: users_told_step)
  then have "users_told M c'" using heartbeat_told [OF assms(7)] by simp
  moreover have "cc_clusterUserCache c' = valid_users crs rs" "cc_clusterUserCache c = valid_users crs rs \<Longrightarrow> user_messages c' = user_messages c"
    using assms(2-7) by (auto simp: heartbeat_def reportHealth_def reportClusterUsers_def send_users Let_def)
  moreover have "sorted (valid_users crs rs)" "distinct (valid_users crs rs)" by (simp_all add: valid_users_def)
  ultimately show ?thesis using valid_users_set by blast
qed

section \<open>Connections\<close>

text \<open>
  Closing the control channel ends every connection in its map: whatever has happened
  before, each of them is told the reason, unless it has ended for another one already.
\<close>

theorem control_channel_closes:
  assumes "cc_steps M (ControlChannel_Start ready chanId agentType privateKey config shards) c" and "tomb_Alive (cc_tomb c)"
    and "map_of (cc_connections c) connectionId = Some i"
  shows "i < length (cc_store c) \<and>
    cn_killed (cc_store (loop_dying (ControlChannel_Close c reason)) ! i) = Some (case cn_killed (cc_store c ! i) of None \<Rightarrow> reason | Some e \<Rightarrow> e)"
proof -
  have "cc_wf c" using assms(1)
  proof (induction rule: cc_steps_invariant)
    case start
    then show ?case by (simp add: cc_wf_def cc_refs_def ControlChannel_Start_def)
  qed (rule cc_wf_step)
  moreover have m: "i \<in> snd ` set (cc_connections c)" using assms(3) by (force dest: map_of_SomeD)
  ultimately have i: "i < length (cc_store c)" by (auto simp: cc_wf_def cc_refs_def)
  then show ?thesis using m assms(2) fold_kill_at [OF i, of reason "cc_connections c"]
    by (simp add: loop_dying_def ControlChannel_Close_def tomb_reason_def tomb_Kill_def tomb_Alive_def)
qed

text \<open>
  What the bookkeeping of connections misses: when two connections with the same identifier
  are opened, the end of the first takes the second out of the map, so that closing the channel
  no longer reaches it; a message to close a connection that runs before the one that opens it
  is refused, and the connection stays open; and when the control connection itself ends, the
  channel dies without closing any connection.
\<close>

theorem control_channel_faults:
  fixes c :: "('s, 'k, 'p) ControlChannel" and x :: "'p agent_conn"
  assumes "cc_store c = []" and "cc_connections c = []" and "cc_waiting c = []" and "cc_threads c = [opening, closing]" and "tomb_Alive (cc_tomb c)"
    and "am_MessageType opening = MTOpenWebsocket" and "read_OpenWebsocket (ce_json E) (raw_payload opening) = Some (connectionId, url)"
    and "am_MessageType closing = MTCloseWebsocket" and "read_CloseWebsocket (ce_json E) (raw_payload closing) = Some (connectionId, why)"
    and "DataConnection_New (ce_lib E) (mrtap_config (cc_config c)) (cc_privateKey c) (ce_request E) (ce_connecting E url) url connectionId = Some (Ok x)"
    and "cn_killed x = None"
  shows "(let twice = fst (openWebsocket E (fst (openWebsocket E c connectionId url)) connectionId url);
      after = loop_dying (ControlChannel_Close (connection_ended (close_object e 0 twice) 0) reason) in
      map_of (cc_connections twice) connectionId = Some 1 \<and> cn_killed (cc_store after ! 1) = None) \<and>
    (let swapped = fst (run_thread E (fst (run_thread E c 1)) 0) in
      cc_threads swapped = [] \<and> length (cc_runtimeErrs swapped) = Suc (length (cc_runtimeErrs c)) \<and>
      map_of (cc_connections swapped) connectionId = Some 0 \<and> cn_killed (cc_store swapped ! 0) = None) \<and>
    (let ended = loop_conn_done (fst (run_thread E c 0)) why in
      \<not> tomb_Alive (cc_tomb ended) \<and> map_of (cc_connections ended) connectionId = Some 0 \<and> cn_killed (cc_store ended ! 0) = None)"
proof (intro conjI)
  have o: "openWebsocket E d connectionId url =
      (d\<lparr>cc_store := cc_store d @ [x], cc_connections := AList.update connectionId (length (cc_store d)) (cc_connections d),
         cc_waiting := cc_waiting d @ [(connectionId, length (cc_store d))]\<rparr>, Ok ())" if "cc_config d = cc_config c" "cc_privateKey d = cc_privateKey c" for d
    using assms(10) that by (simp add: openWebsocket_def Let_def)
  show "let twice = fst (openWebsocket E (fst (openWebsocket E c connectionId url)) connectionId url);
      after = loop_dying (ControlChannel_Close (connection_ended (close_object e 0 twice) 0) reason) in
      map_of (cc_connections twice) connectionId = Some 1 \<and> cn_killed (cc_store after ! 1) = None"
    using assms(1-3,5,11)
    by (simp add: o close_object_def kill_at_def conn_kill_def connection_ended_def ControlChannel_Close_def loop_dying_def Let_def)
  show "let swapped = fst (run_thread E (fst (run_thread E c 1)) 0) in
      cc_threads swapped = [] \<and> length (cc_runtimeErrs swapped) = Suc (length (cc_runtimeErrs c)) \<and>
      map_of (cc_connections swapped) connectionId = Some 0 \<and> cn_killed (cc_store swapped ! 0) = None"
    using assms(1-4,6-9,11) by (simp add: run_thread_def cc_processInput_def o Let_def)
  show "let ended = loop_conn_done (fst (run_thread E c 0)) why in
      \<not> tomb_Alive (cc_tomb ended) \<and> map_of (cc_connections ended) connectionId = Some 0 \<and> cn_killed (cc_store ended ! 0) = None"
    using assms(1-7,11)
    by (simp add: run_thread_def cc_processInput_def o loop_conn_done_def tomb_return_def tomb_Kill_def tomb_Alive_def Let_def split: option.splits)
qed

section \<open>Witnesses\<close>

definition wit_configure :: jvalue where
  "wit_configure = VObject
     [(''serviceAccountConfiguration'', VObject [(''jwksUrlPattern'', VString ''u'')]),
      (''bZCert'', VObject [(''initialIdToken'', VString (InitialIdToken wit_cert)), (''currentIdToken'', VString ''cur''),
         (''clientPublicKey'', VString (ClientPublicKey wit_cert)), (''rand'', VString []), (''signatureOnRand'', VString (SignatureOnRand wit_cert))]),
      (''signature'', VString (SignatureOnRand wit_cert)), (''connectionId'', VString ''c''), (''connectionServiceUrl'', VString ''u''), (''reason'', VString [])]"

definition wit_cenv :: "(file_state, file_state) control_env" where
  "wit_cenv = \<lparr> ce_lib = wit_nonce_lib, ce_now = 0, ce_json = (\<lambda>_. Some wit_configure), ce_print = (\<lambda>_. []), ce_store = agent_ops, ce_between = id,
     ce_shards = key_shard_ops, ce_shardsBetween = id, ce_connecting = (\<lambda>_. [CTick (Ok []) (Ok ())]), ce_request = [], ce_reportLogs = (\<lambda>_ _. Ok ()) \<rparr>"

definition wit_agent_config :: "file_state agent_config" where
  "wit_agent_config = \<lparr> cfg_data = AgentDataV2_zero\<lparr>ad_IdpProvider := ''okta'', ad_IdpOrgId := ''acme''\<rparr>, cfg_store = wit_ac_state \<rparr>"

definition wit_message :: "MessageType \<Rightarrow> AgentMessage" where
  "wit_message t = \<lparr> am_ChannelId = [], am_MessageType = t, am_SchemaVersion = [], am_MessagePayload = WRaw [] \<rparr>"

definition wit_control :: "(file_state, file_state, unit) ControlChannel" where
  "wit_control = ControlChannel_Start True ''cc'' ''cluster'' (Some (Some (replicate 64 CHR ''k''))) wit_agent_config \<lparr> cfg_data = \<lparr> Keys = [] \<rparr>, cfg_store = wit_ks_state \<rparr>"

lemmas wit_fields = read_struct_def nested_def text_field_def string_field_def struct_field_def to_lower_def decode_element_def wit_configure_def

lemma wit_read: "read_Configure (\<lambda>_. Some wit_configure) (Some []) = Some \<lparr> cs_JwksUrlPattern = ''u'', cs_BZCert = wit_cert, cs_Signature = SignatureOnRand wit_cert \<rparr>"
  by (simp add: read_Configure_def read_BZCert_def wit_fields) (simp add: wit_cert_def)

lemma wit_pubkey: "PublicKeyFromString (ClientPublicKey wit_cert) = Ok (Some wit_key)"
  by (simp add: wit_cert_def PublicKeyFromString_def wit_key_def)

lemma wit_signature: "PublicKey_Verify wit_nonce_lib (Some (Some wit_key)) (replicate 32 CHR ''h'') (SignatureOnRand wit_cert) = Ok True"
  by (simp add: PublicKey_Verify_def wit_cert_def wit_key_def)

lemma wit_url: "url_ParseRequestURI wit_nonce_lib s = Ok s"
  by (simp add: wit_nonce_lib_def)

theorem configuration_authorised_witness:
  "\<exists>c'. cc_step wit_cenv (wit_control\<lparr>cc_threads := [wit_message MTConfigure]\<rparr>) c' \<and> cc_config c' \<noteq> cc_config wit_control \<and> (\<exists>m \<in> set (cc_threads (wit_control\<lparr>cc_threads := [wit_message MTConfigure]\<rparr>)). am_MessageType m = MTConfigure)"
proof -
  let ?c = "wit_control\<lparr>cc_threads := [wit_message MTConfigure]\<rparr>"
  let ?a = "fst (SetServiceAccountJwksUrl wit_nonce_lib agent_ops id wit_agent_config ''u'')"
  have cfg: "cc_config wit_control = wit_agent_config" by (simp add: wit_control_def ControlChannel_Start_def)
  have g: "GetIdpProvider wit_agent_config = ''okta''" "GetIdpOrgId wit_agent_config = ''acme''" "patterns_list (GetServiceAccountJwksUrls wit_agent_config) = []"
    by (simp_all add: GetIdpProvider_def GetIdpOrgId_def GetServiceAccountJwksUrls_def wit_agent_config_def patterns_list_def AgentDataV2_zero_def)
  have "cfg_data ?a \<noteq> cfg_data wit_agent_config"
    using wit_ac_fetch by (simp add: SetServiceAccountJwksUrl_def update_config_def add_jwks_url_def wit_url agent_ops_def wit_agent_config_def patterns_list_def
      AgentDataV2_zero_def split: prod.split)
  then have ne: "?a \<noteq> wit_agent_config" by metis
  have "\<exists>r. configureServiceAccount wit_cenv (?c\<lparr>cc_threads := []\<rparr>) \<lparr> cs_JwksUrlPattern = ''u'', cs_BZCert = wit_cert, cs_Signature = SignatureOnRand wit_cert \<rparr> =
      (?c\<lparr>cc_threads := [], cc_config := ?a\<rparr>, r)"
    using wit_Verify wit_pubkey wit_signature
    by (simp add: configureServiceAccount_def wit_cenv_def cfg g HashPayload_def case_prod_beta Let_def)
  then obtain r where r: "configureServiceAccount wit_cenv (?c\<lparr>cc_threads := []\<rparr>) \<lparr> cs_JwksUrlPattern = ''u'', cs_BZCert = wit_cert, cs_Signature = SignatureOnRand wit_cert \<rparr> =
      (?c\<lparr>cc_threads := [], cc_config := ?a\<rparr>, r)" ..
  obtain c' r' where c': "run_thread wit_cenv ?c 0 = (c', r')" by fastforce
  moreover have "cc_config (fst (run_thread wit_cenv ?c 0)) = ?a"
    using r wit_read by (simp add: run_thread_def cc_processInput_def wit_message_def raw_payload_def wit_cenv_def Let_def split: res.split)
  ultimately have a: "cc_config c' = ?a" by simp
  have n: "cc_config c' \<noteq> cc_config ?c" using a ne cfg by simp
  have "\<exists>m \<in> set (cc_threads ?c). am_MessageType m = MTConfigure" using configuration_authorised [OF cc_run [OF c'] n] by blast
  then show ?thesis using cc_run [OF c'] n by auto
qed

theorem pongs_expected_witness:
  "\<not> snd (ShouldBeSendingPongs True (pong_run (\<lambda>_. []) \<lparr> cl_config = Ok (), cl_clusterRoleBindings = Ok [], cl_roleBindings = Ok [] \<rparr> wit_control [Asked True, Beat False]))"
proof -
  have a: "tomb_Alive (cc_tomb wit_control)" by (simp add: wit_control_def ControlChannel_Start_def tomb_Alive_def)
  show ?thesis using pongs_expected [OF a, of True "\<lambda>_. []" _ "[Asked True, Beat False]"] by (simp del: pong_run.simps)
qed

definition wit_cluster :: cluster where
  "wit_cluster = \<lparr> cl_config = Ok (), cl_clusterRoleBindings = Ok [[(''User'', ''bob''), (''User'', ''system:x'')]], cl_roleBindings = Ok [[(''User'', ''alice'')]] \<rparr>"

theorem cluster_users_known_witness:
  "cc_clusterUserCache (fst (heartbeat (\<lambda>_. []) True wit_cluster wit_control)) = [''alice'', ''bob'']"
proof -
  have s: "cc_steps (\<lambda>_. []) wit_control wit_control" by (rule cc_steps_refl)
  have a: "tomb_Alive (cc_tomb wit_control)" "cc_agentType wit_control = ''cluster''" by (simp_all add: wit_control_def ControlChannel_Start_def tomb_Alive_def)
  have k: "cl_config wit_cluster = Ok ()" "cl_clusterRoleBindings wit_cluster = Ok [[(''User'', ''bob''), (''User'', ''system:x'')]]"
    "cl_roleBindings wit_cluster = Ok [[(''User'', ''alice'')]]" by (simp_all add: wit_cluster_def)
  have v: "valid_users [[(''User'', ''bob''), (''User'', ''system:x'')]] [[(''User'', ''alice'')]] = [''alice'', ''bob'']" by code_simp
  show ?thesis
    using cluster_users_known [OF s [unfolded wit_control_def] _ _ k, of "fst (heartbeat (\<lambda>_. []) True wit_cluster wit_control)" "snd (heartbeat (\<lambda>_. []) True wit_cluster wit_control)"]
      a v by (simp add: wit_control_def)
qed

definition wit_conn_new :: "unit agent_conn" where
  "wit_conn_new = \<lparr> cn_ready = True, cn_connectionId = ''c'', cn_broker = [], cn_sendQueue = [], cn_idleTimeout = initialDaemonConnectTimeout, cn_killed = None,
     cn_mrtapConfig = mrtap_config wit_agent_config \<rparr>"

lemma wit_connects:
  "DataConnection_New (ce_lib wit_cenv) (mrtap_config (cc_config wit_control)) (cc_privateKey wit_control) (ce_request wit_cenv) (ce_connecting wit_cenv ''u'') ''u'' ''c'' =
    Some (Ok wit_conn_new)"
  by (simp add: DataConnection_New_def wit_cenv_def wit_url wit_control_def ControlChannel_Start_def PrivateKey_Sign_def wit_conn_new_def Broker_New_def)

lemma wit_reads:
  "read_OpenWebsocket (ce_json wit_cenv) (raw_payload (wit_message t)) = Some (''c'', ''u'')"
  "read_CloseWebsocket (ce_json wit_cenv) (raw_payload (wit_message t)) = Some (''c'', [])"
  by (simp_all add: read_OpenWebsocket_def read_CloseWebsocket_def read_two_def wit_cenv_def wit_message_def raw_payload_def wit_fields)

lemma wit_control_simps:
  "cc_store wit_control = []" "cc_connections wit_control = []" "cc_waiting wit_control = []" "tomb_Alive (cc_tomb wit_control)"
  by (simp_all add: wit_control_def ControlChannel_Start_def tomb_Alive_def)

theorem control_channel_faults_witness:
  "let c = wit_control\<lparr>cc_threads := [wit_message MTOpenWebsocket, wit_message MTCloseWebsocket]\<rparr>;
       swapped = fst (run_thread wit_cenv (fst (run_thread wit_cenv c 1)) 0) in
     map_of (cc_connections swapped) ''c'' = Some 0 \<and> cn_killed (cc_store swapped ! 0) = None"
proof -
  let ?c = "wit_control\<lparr>cc_threads := [wit_message MTOpenWebsocket, wit_message MTCloseWebsocket]\<rparr>"
  have c: "cc_store ?c = []" "cc_connections ?c = []" "cc_waiting ?c = []" "cc_threads ?c = [wit_message MTOpenWebsocket, wit_message MTCloseWebsocket]"
    "tomb_Alive (cc_tomb ?c)" by (simp_all add: wit_control_simps)
  have t: "am_MessageType (wit_message MTOpenWebsocket) = MTOpenWebsocket" "am_MessageType (wit_message MTCloseWebsocket) = MTCloseWebsocket"
    by (simp_all add: wit_message_def)
  have n: "DataConnection_New (ce_lib wit_cenv) (mrtap_config (cc_config ?c)) (cc_privateKey ?c) (ce_request wit_cenv) (ce_connecting wit_cenv ''u'') ''u'' ''c'' =
    Some (Ok wit_conn_new)" using wit_connects by simp
  have k: "cn_killed wit_conn_new = None" by (simp add: wit_conn_new_def)
  show ?thesis using control_channel_faults [OF c t(1) wit_reads(1) t(2) wit_reads(2) n k, of "errorf []" "errorf []"] by (simp add: Let_def)
qed

theorem control_channel_closes_witness:
  "\<exists>c. cc_steps (\<lambda>_. []) wit_control c \<and> map_of (cc_connections c) ''c'' = Some 0 \<and>
     cn_killed (cc_store (loop_dying (ControlChannel_Close c (errorf ''restart''))) ! 0) = Some (errorf ''restart'')"
proof -
  let ?m = "wit_message MTOpenWebsocket"
  let ?c = "wit_control\<lparr>cc_store := [wit_conn_new], cc_connections := [(''c'', 0)], cc_waiting := [(''c'', 0)]\<rparr>"
  have e: "ce_print wit_cenv = (\<lambda>_. [])" by (simp add: wit_cenv_def)
  have i: "cc_inputChan wit_control = []" "cc_threads wit_control = []" by (simp_all add: wit_control_def ControlChannel_Start_def)
  have 1: "ControlChannel_Receive wit_control ?m = Some (wit_control\<lparr>cc_inputChan := [?m]\<rparr>)" by (simp add: ControlChannel_Receive_def i)
  have "take_input (wit_control\<lparr>cc_inputChan := [?m]\<rparr>) = wit_control\<lparr>cc_inputChan := [], cc_threads := [?m]\<rparr>" by (simp add: take_input_def i)
  then have 2: "cc_step wit_cenv (wit_control\<lparr>cc_inputChan := [?m]\<rparr>) (wit_control\<lparr>cc_inputChan := [], cc_threads := [?m]\<rparr>)" by (metis cc_take)
  have t: "am_MessageType ?m = MTOpenWebsocket" by (simp add: wit_message_def)
  have 3: "run_thread wit_cenv (wit_control\<lparr>cc_inputChan := [], cc_threads := [?m]\<rparr>) 0 = (?c\<lparr>cc_inputChan := [], cc_threads := []\<rparr>, Ok ())"
    using wit_connects by (simp add: run_thread_def cc_processInput_def openWebsocket_def t wit_reads wit_control_simps Let_def)
  let ?d = "?c\<lparr>cc_inputChan := [], cc_threads := []\<rparr>"
  have s: "cc_steps (\<lambda>_. []) wit_control ?d"
    by (rule cc_steps_step [OF cc_steps_step [OF cc_steps_step [OF cc_steps_refl e cc_receive [OF 1]] e 2] e cc_run [OF 3]])
  have a: "tomb_Alive (cc_tomb ?d)" "map_of (cc_connections ?d) ''c'' = Some 0" by (simp_all add: wit_control_simps)
  show ?thesis using control_channel_closes [OF s [unfolded wit_control_def]] s a by (intro exI [of _ ?d]) (simp add: wit_control_def wit_conn_new_def)
qed

end
