(* ===== verification/Signal_R.thy ===== *)
theory Signal_R
  imports Tomb Agent_Connection Json_Codec "HOL-Library.AList"
begin

text \<open>
  \<^verbatim>\<open>bzerolib/connection/messenger/signalr\<close> and \<^verbatim>\<open>bzerolib/connection/transporter/websocket\<close>: agent
  messages are wrapped as invocations of the SignalR protocol, each ended by a byte, and sent over
  a websocket; invocations are remembered until the server reports that they are complete.
\<close>

section \<open>The websocket\<close>

text \<open>What was written to the websocket is kept; whether dialling and writing succeed are arguments.\<close>

record Websocket =
  ws_tomb :: tomb
  ws_client :: bool
  ws_closed :: bool
  ws_written :: "string list"
  ws_inbound :: "string list"

definition Websocket_New :: Websocket where
  "Websocket_New = \<lparr> ws_tomb = tomb_new, ws_client = False, ws_closed = False, ws_written = [], ws_inbound = [] \<rparr>"

text \<open>Closing a websocket that was never connected panics; the second result says whether the call comes back.\<close>

definition Websocket_Close :: "Websocket \<Rightarrow> gerror option \<Rightarrow> Websocket \<times> unit res option" where
  "Websocket_Close w reason =
     (if tomb_Alive (ws_tomb w)
      then let w1 = w\<lparr>ws_tomb := tomb_Kill (ws_tomb w) reason\<rparr> in
           if \<not> ws_client w then (w1, Some Panic) else when_back (w1\<lparr>ws_closed := True\<rparr>, tomb_Waits (ws_tomb w)) (Ok ())
      else (w, Some (Ok ())))"

definition Websocket_Send :: "unit res \<Rightarrow> Websocket \<Rightarrow> string \<Rightarrow> Websocket \<times> unit res" where
  "Websocket_Send sent w message =
     (if ws_client w then (if is_ok sent then w\<lparr>ws_written := ws_written w @ [message]\<rparr> else w, sent)
      else (w, Err (errorf ''cannot send message because websocket is closed'')))"

definition Websocket_Dial :: "unit res \<Rightarrow> Websocket \<Rightarrow> Websocket \<times> unit res" where
  "Websocket_Dial dialled w =
     (case dialled of
        Err e \<Rightarrow> (w\<lparr>ws_client := False\<rparr>, Err (errorf_w ''error dialing websocket: '' e)) | Panic \<Rightarrow> (w, Panic)
      | Ok _ \<Rightarrow> (w\<lparr>ws_client := True, ws_closed := False, ws_tomb := \<lparr> tb_killed = None, tb_started = True, tb_running = 1 \<rparr>\<rparr>, Ok ()))"

definition websocket_receive_turn :: "Websocket \<Rightarrow> string res \<Rightarrow> Websocket" where
  "websocket_receive_turn w read =
     (if tb_running (ws_tomb w) = 0 then w
      else if \<not> tomb_Alive (ws_tomb w) then w\<lparr>ws_tomb := tomb_return (ws_tomb w) None\<rparr>
      else (case read of
              Ok rawMessage \<Rightarrow> w\<lparr>ws_inbound := ws_inbound w @ [rawMessage]\<rparr>
            | Err e \<Rightarrow> w\<lparr>ws_tomb := tomb_return (ws_tomb w) (Some e)\<rparr>
            | Panic \<Rightarrow> w))"

definition Websocket_Done :: "Websocket \<Rightarrow> bool" where
  "Websocket_Done w \<longleftrightarrow> tb_started (ws_tomb w) \<and> tb_running (ws_tomb w) = 0"

section \<open>Messages\<close>

record SignalRMessage =
  sg_Type :: int
  sg_Target :: string
  sg_Arguments :: "jvalue list"
  sg_InvocationId :: string

definition Invocation :: int where
  "Invocation = 1"

definition Completion :: int where
  "Completion = 3"

definition Ping :: int where
  "Ping = 6"

definition CloseType :: int where
  "CloseType = 7"

definition SignalRMessage_json :: "SignalRMessage \<Rightarrow> jvalue" where
  "SignalRMessage_json m =
     VObject [(''type'', VNumber (sg_Type m)), (''target'', marshal_string (sg_Target m)), (''arguments'', VArray (sg_Arguments m)),
       (''invocationId'', marshal_string (sg_InvocationId m))]"

definition PingMessage_json :: jvalue where
  "PingMessage_json = VObject [(''type'', VNumber Ping)]"

definition values_field :: "(string \<times> jvalue) list \<Rightarrow> string \<Rightarrow> jvalue list option" where
  "values_field kvs name =
     (case struct_field kvs name of None \<Rightarrow> Some [] | Some VNull \<Rightarrow> Some [] | Some (VArray vs) \<Rightarrow> Some vs | _ \<Rightarrow> None)"

definition read_SignalRMessage :: "json_parser \<Rightarrow> string \<Rightarrow> SignalRMessage option" where
  "read_SignalRMessage J raw =
     Option.bind (read_struct J (Some raw)) (\<lambda>kvs.
       case (int_field kvs ''type'', text_field kvs ''target'', values_field kvs ''arguments'', text_field kvs ''invocationId'') of
         (Some t, Some g, Some as, Some i) \<Rightarrow> Some \<lparr> sg_Type = t, sg_Target = g, sg_Arguments = as, sg_InvocationId = i \<rparr> | _ \<Rightarrow> None)"

definition read_type :: "json_parser \<Rightarrow> string \<Rightarrow> int option" where
  "read_type J raw = Option.bind (read_struct J (Some raw)) (\<lambda>kvs. int_field kvs ''type'')"

text \<open>A pointer to a string: nil when the field is absent or null.\<close>

definition text_pointer :: "(string \<times> jvalue) list \<Rightarrow> string \<Rightarrow> string option option" where
  "text_pointer kvs name =
     (case struct_field kvs name of None \<Rightarrow> Some None | Some VNull \<Rightarrow> Some None | Some (VString s) \<Rightarrow> Some (Some s) | _ \<Rightarrow> None)"

record ResultMessage =
  rs_ErrorMessage :: "string option"
  rs_Error :: bool

record CompletionMessage =
  cp_InvocationId :: "string option"
  cp_Result :: "ResultMessage option"
  cp_Error :: "string option"

definition read_Result :: "(string \<times> jvalue) list \<Rightarrow> ResultMessage option option" where
  "read_Result kvs =
     (case struct_field kvs ''result'' of
        None \<Rightarrow> Some None | Some VNull \<Rightarrow> Some None
      | Some (VObject ks) \<Rightarrow>
         (case (text_pointer ks ''errorMessage'', bool_field ks ''error'') of
            (Some m, Some e) \<Rightarrow> Some (Some \<lparr> rs_ErrorMessage = m, rs_Error = e \<rparr>) | _ \<Rightarrow> None)
      | _ \<Rightarrow> None)"

definition read_Completion :: "json_parser \<Rightarrow> string \<Rightarrow> CompletionMessage option" where
  "read_Completion J raw =
     Option.bind (read_struct J (Some raw)) (\<lambda>kvs.
       case (int_field kvs ''type'', text_pointer kvs ''invocationId'', read_Result kvs, text_pointer kvs ''error'') of
         (Some _, Some i, Some r, Some e) \<Rightarrow> Some \<lparr> cp_InvocationId = i, cp_Result = r, cp_Error = e \<rparr> | _ \<Rightarrow> None)"

definition read_Close :: "json_parser \<Rightarrow> string \<Rightarrow> string option" where
  "read_Close J raw =
     Option.bind (read_struct J (Some raw)) (\<lambda>kvs.
       if int_field kvs ''type'' = None \<or> bool_field kvs ''allowReconnect'' = None then None else text_field kvs ''error'')"

section \<open>Tracking invocations\<close>

record InvocationTracker =
  it_tracked :: "(string \<times> SignalRMessage) list"
  it_counter :: nat

definition NewInvocationTracker :: InvocationTracker where
  "NewInvocationTracker = \<lparr> it_tracked = [], it_counter = 0 \<rparr>"

definition tracker_IsEmpty :: "InvocationTracker \<Rightarrow> bool" where
  "tracker_IsEmpty t \<longleftrightarrow> it_tracked t = []"

definition tracker_Match :: "InvocationTracker \<Rightarrow> string \<Rightarrow> InvocationTracker \<times> SignalRMessage option" where
  "tracker_Match t i = (t\<lparr>it_tracked := AList.delete i (it_tracked t)\<rparr>, map_of (it_tracked t) i)"

definition tracker_Track :: "InvocationTracker \<Rightarrow> SignalRMessage \<Rightarrow> InvocationTracker \<times> SignalRMessage" where
  "tracker_Track t message =
     (let invocationId = show_nat (it_counter t); m = message\<lparr>sg_InvocationId := invocationId\<rparr> in
      (t\<lparr>it_counter := Suc (it_counter t), it_tracked := AList.update invocationId m (it_tracked t)\<rparr>, m))"

text \<open>
  The interface \<^verbatim>\<open>Invocator\<close>: a finite set of pending invocations, a new one of which gets an
  identifier that was never used before.
\<close>

locale invocator =
  fixes isEmpty :: "'t \<Rightarrow> bool" and matchId :: "'t \<Rightarrow> string \<Rightarrow> 't \<times> SignalRMessage option" and track :: "'t \<Rightarrow> SignalRMessage \<Rightarrow> 't \<times> SignalRMessage"
    and ok :: "'t \<Rightarrow> bool" and pending :: "'t \<Rightarrow> string \<Rightarrow> SignalRMessage option" and used :: "'t \<Rightarrow> string set"
  assumes empty_iff: "ok t \<Longrightarrow> isEmpty t \<longleftrightarrow> (\<forall>i. pending t i = None)"
    and match_spec: "ok t \<Longrightarrow> ok (fst (matchId t i)) \<and> snd (matchId t i) = pending t i \<and> pending (fst (matchId t i)) = (pending t)(i := None) \<and>
      used (fst (matchId t i)) = used t"
    and track_spec: "ok t \<Longrightarrow> sg_InvocationId (snd (track t m)) \<notin> used t \<and> ok (fst (track t m)) \<and>
      pending (fst (track t m)) = (pending t)(sg_InvocationId (snd (track t m)) \<mapsto> snd (track t m)) \<and>
      used (fst (track t m)) = insert (sg_InvocationId (snd (track t m))) (used t) \<and>
      snd (track t m) = m\<lparr>sg_InvocationId := sg_InvocationId (snd (track t m))\<rparr>"
    and pending_used: "ok t \<Longrightarrow> dom (pending t) \<subseteq> used t"
begin

text \<open>Sending messages and matching identifiers, in any order.\<close>

fun ids_after :: "'t \<Rightarrow> SignalRMessage list \<Rightarrow> 't \<times> string list" where
  "ids_after t [] = (t, [])"
| "ids_after t (m # ms) = (case track t m of (t1, m1) \<Rightarrow> case ids_after t1 ms of (t2, is) \<Rightarrow> (t2, sg_InvocationId m1 # is))"

definition match_all :: "'t \<Rightarrow> string list \<Rightarrow> 't" where
  "match_all = foldl (\<lambda>t i. fst (matchId t i))"

lemma ids_after_spec:
  "ok t \<Longrightarrow> ids_after t ms = (t', is) \<Longrightarrow>
   ok t' \<and> distinct is \<and> set is \<inter> used t = {} \<and> used t' = used t \<union> set is \<and> dom (pending t') = dom (pending t) \<union> set is"
proof (induction ms arbitrary: t t' "is")
  case (Cons m ms)
  obtain t1 m1 where 1: "track t m = (t1, m1)" by fastforce
  obtain is1 where 2: "ids_after t1 ms = (t', is1)" "is = sg_InvocationId m1 # is1" using Cons.prems 1 by (auto split: prod.splits)
  note s = track_spec [OF Cons.prems(1), of m, unfolded 1 fst_conv snd_conv]
  show ?case using Cons.IH [OF _ 2(1)] s 2(2) by auto
qed simp

lemma match_all_spec: "ok t \<Longrightarrow> ok (match_all t is) \<and> dom (pending (match_all t is)) = dom (pending t) - set is"
proof (induction "is" arbitrary: t)
  case (Cons i "is")
  show ?case using Cons.IH [of "fst (matchId t i)"] match_spec [OF Cons.prems, of i] by (auto simp: match_all_def split: if_splits)
qed (simp add: match_all_def)

lemma emptied_by_matches:
  assumes "ok t" "isEmpty t" "ids_after t ms = (t', is)"
  shows "isEmpty (match_all t' js) \<longleftrightarrow> set is \<subseteq> set js"
proof -
  have "dom (pending t) = {}" using empty_iff [OF assms(1)] assms(2) by auto
  then have "dom (pending (match_all t' js)) = set is - set js"
    using ids_after_spec [OF assms(1,3)] match_all_spec [of t' js] by auto
  moreover have "ok (match_all t' js)" using ids_after_spec [OF assms(1,3)] match_all_spec [of t' js] by auto
  ultimately show ?thesis using empty_iff [of "match_all t' js"] by (auto simp: dom_def)
qed

end

definition tracker_used :: "InvocationTracker \<Rightarrow> string set" where
  "tracker_used t = show_nat ` {..<it_counter t}"

definition tracker_ok :: "InvocationTracker \<Rightarrow> bool" where
  "tracker_ok t \<longleftrightarrow> fst ` set (it_tracked t) \<subseteq> tracker_used t"

interpretation it: invocator tracker_IsEmpty tracker_Match tracker_Track tracker_ok "\<lambda>t. map_of (it_tracked t)" tracker_used
proof
  fix t m i
  assume ok: "tracker_ok t"
  show "tracker_IsEmpty t \<longleftrightarrow> (\<forall>i. map_of (it_tracked t) i = None)"
    by (cases "it_tracked t") (auto simp: tracker_IsEmpty_def)
  show "tracker_ok (fst (tracker_Match t i)) \<and> snd (tracker_Match t i) = map_of (it_tracked t) i \<and>
      map_of (it_tracked (fst (tracker_Match t i))) = (map_of (it_tracked t))(i := None) \<and> tracker_used (fst (tracker_Match t i)) = tracker_used t"
    using ok subset_trans [OF AList.dom_delete_subset [of i "it_tracked t"]]
    by (simp add: tracker_ok_def tracker_Match_def tracker_used_def AList.delete_conv')
  let ?i = "sg_InvocationId (snd (tracker_Track t m))"
  have i: "?i = show_nat (it_counter t)" by (simp add: tracker_Track_def Let_def)
  show "?i \<notin> tracker_used t \<and> tracker_ok (fst (tracker_Track t m)) \<and>
      map_of (it_tracked (fst (tracker_Track t m))) = (map_of (it_tracked t))(?i \<mapsto> snd (tracker_Track t m)) \<and>
      tracker_used (fst (tracker_Track t m)) = insert ?i (tracker_used t) \<and> snd (tracker_Track t m) = m\<lparr>sg_InvocationId := ?i\<rparr>"
    using ok AList.dom_update [of "show_nat (it_counter t)" "snd (tracker_Track t m)" "it_tracked t"] unfolding i
    by (auto simp: tracker_ok_def tracker_Track_def tracker_used_def Let_def AList.update_conv' lessThan_Suc)
  show "dom (map_of (it_tracked t)) \<subseteq> tracker_used t"
    using ok by (auto simp: tracker_ok_def tracker_used_def dom_map_of_conv_image_fst)
qed

section \<open>The messenger\<close>

record SignalR =
  sr_tomb :: tomb
  sr_client :: Websocket
  sr_inbound :: "SignalRMessage list"
  sr_invocator :: InvocationTracker
  sr_sending :: bool
  sr_main :: bool

definition TerminatorByte :: char where
  "TerminatorByte = CHR 0x1E"

definition SignalR_New :: "Websocket \<Rightarrow> SignalR" where
  "SignalR_New client =
     \<lparr> sr_tomb = tomb_new, sr_client = client, sr_inbound = [], sr_invocator = NewInvocationTracker, sr_sending = False, sr_main = False \<rparr>"

definition SignalR_Close :: "SignalR \<Rightarrow> gerror option \<Rightarrow> SignalR \<times> bool" where
  "SignalR_Close s reason =
     (if \<not> tomb_Alive (sr_tomb s) then (s, True) else (s\<lparr>sr_tomb := tomb_Kill (sr_tomb s) reason\<rparr>, tomb_Waits (sr_tomb s)))"

definition handshake :: string where
  "handshake = [CHR 0x7B, CHR 0x22] @ ''protocol'' @ [CHR 0x22] @ '': '' @ [CHR 0x22] @ ''json'' @ [CHR 0x22] @ '','' @ [CHR 0x22] @ ''version'' @ [CHR 0x22] @ '': 1'' @
     [CHR 0x7D, TerminatorByte]"

text \<open>What the URL, the dialling and the first write give are arguments; without a result a close does not come back.\<close>

definition SignalR_Connect :: "unit res \<Rightarrow> unit res \<Rightarrow> unit res \<Rightarrow> SignalR \<Rightarrow> SignalR \<times> unit res option" where
  "SignalR_Connect url dialled sent s =
     (let s1 = (if tomb_Alive (sr_tomb s) then s else s\<lparr>sr_tomb := tomb_new, sr_invocator := NewInvocationTracker\<rparr>) in
      case url of
        Err e \<Rightarrow> (s1, Some (Err (errorf_w ''failed to parse connection node service url: '' e))) | Panic \<Rightarrow> (s1, Some Panic)
      | Ok _ \<Rightarrow>
         (case Websocket_Dial dialled (sr_client s1) of
            (w, Err e) \<Rightarrow> (s1\<lparr>sr_client := w\<rparr>, Some (Err (errorf_w ''error connecting: '' e))) | (w, Panic) \<Rightarrow> (s1\<lparr>sr_client := w\<rparr>, Some Panic)
          | (w, Ok _) \<Rightarrow>
             (case Websocket_Send sent w handshake of
                (w1, Err e) \<Rightarrow>
                  let rerr = errorf_w ''failed to negotiate SignalR version: '' e in
                  (case Websocket_Close w1 (Some rerr) of
                     (w2, Some (Ok _)) \<Rightarrow> (s1\<lparr>sr_client := w2\<rparr>, Some (Err rerr)) | (w2, r) \<Rightarrow> (s1\<lparr>sr_client := w2\<rparr>, r))
              | (w1, Panic) \<Rightarrow> (s1\<lparr>sr_client := w1\<rparr>, Some Panic)
              | (w1, Ok _) \<Rightarrow>
                 (case tomb_Go (sr_tomb s1) of
                    Ok tb \<Rightarrow> (s1\<lparr>sr_client := w1, sr_tomb := tb\<lparr>tb_running := Suc (tb_running tb)\<rparr>, sr_sending := True, sr_main := True\<rparr>, Some (Ok ()))
                  | _ \<Rightarrow> (s1\<lparr>sr_client := w1\<rparr>, Some Panic)))))"

definition sr_ping :: "json_printer \<Rightarrow> unit res \<Rightarrow> SignalR \<Rightarrow> SignalR \<times> unit res" where
  "sr_ping M sent s = (case Websocket_Send sent (sr_client s) (M PingMessage_json @ [TerminatorByte]) of (w, r) \<Rightarrow> (s\<lparr>sr_client := w\<rparr>, r))"

text \<open>The sending routine begins with a ping, which must succeed, and then pings when nothing was sent for a while.\<close>

definition sr_send_start :: "json_printer \<Rightarrow> unit res \<Rightarrow> SignalR \<Rightarrow> SignalR" where
  "sr_send_start M sent s =
     (case sr_ping M sent s of
        (s1, Err e) \<Rightarrow> s1\<lparr>sr_sending := False, sr_tomb := tomb_return (sr_tomb s1) (Some (errorf_w ''Failed to send initial ping message to server. Error: '' e))\<rparr>
      | (s1, _) \<Rightarrow> s1)"

definition sr_send_turn :: "json_printer \<Rightarrow> unit res \<Rightarrow> SignalR \<Rightarrow> SignalR" where
  "sr_send_turn M sent s =
     (if \<not> sr_sending s then s
      else if \<not> tomb_Alive (sr_tomb s) then s\<lparr>sr_sending := False, sr_tomb := tomb_return (sr_tomb s) None\<rparr>
      else fst (sr_ping M sent s))"

text \<open>
  Sending hands the message to the sending routine and waits for it; without that routine the
  call does not come back.
\<close>

definition SignalR_Send ::
  "json_printer \<Rightarrow> (AgentMessage \<Rightarrow> jvalue) \<Rightarrow> (AgentMessage \<Rightarrow> string res) \<Rightarrow> unit res \<Rightarrow> SignalR \<Rightarrow> AgentMessage \<Rightarrow> SignalR \<times> unit res option" where
  "SignalR_Send M marshal targetSelectHandler sent s message =
     (case targetSelectHandler message of
        Err e \<Rightarrow> (s, Some (Err (errorf_w ''error in selecting SignalR Endpoint target name: '' e))) | Panic \<Rightarrow> (s, Some Panic)
      | Ok target \<Rightarrow>
         (case tracker_Track (sr_invocator s) \<lparr> sg_Type = Invocation, sg_Target = target, sg_Arguments = [marshal message], sg_InvocationId = [] \<rparr> of
            (t, tracked) \<Rightarrow>
              let s1 = s\<lparr>sr_invocator := t\<rparr> in
              if \<not> sr_sending s then (s1, None)
              else (case Websocket_Send sent (sr_client s) (M (SignalRMessage_json tracked) @ [TerminatorByte]) of
                      (w, Ok _) \<Rightarrow> (s1\<lparr>sr_client := w\<rparr>, Some (Ok ()))
                    | (w, r) \<Rightarrow> (s1\<lparr>sr_client := w, sr_invocator := fst (tracker_Match t (sg_InvocationId tracked))\<rparr>, Some r))))"

definition WebsocketNormalClosure :: "string \<Rightarrow> gerror" where
  "WebsocketNormalClosure serverError = GErr (''websocket was closed by the server with error: '' @ serverError) [WebsocketNormalClosureError]"

definition processCloseMessage :: "json_parser \<Rightarrow> SignalR \<Rightarrow> string \<Rightarrow> SignalR \<times> unit res" where
  "processCloseMessage J s msg =
     (case read_Close J msg of
        None \<Rightarrow> (s, Err (errorf (''error unmarshalling SignalR close message: '' @ msg)))
      | Some e \<Rightarrow> (s\<lparr>sr_tomb := tomb_Kill (sr_tomb s) (Some (WebsocketNormalClosure e))\<rparr>, Ok ()))"

definition processCompletionMessage :: "json_parser \<Rightarrow> SignalR \<Rightarrow> string \<Rightarrow> SignalR \<times> unit res" where
  "processCompletionMessage J s msg =
     (case read_Completion J msg of
        None \<Rightarrow> (s, Err (errorf (''error unmarshalling SignalR completion message: '' @ msg)))
      | Some c \<Rightarrow>
         (case cp_InvocationId c of
            None \<Rightarrow> (s, Err (errorf (''received completion message without an invocationId: '' @ msg)))
          | Some i \<Rightarrow>
             (case tracker_Match (sr_invocator s) i of
                (t, None) \<Rightarrow> (s\<lparr>sr_invocator := t\<rparr>, Err (errorf ''received completion message for a message we did not send''))
              | (t, Some message) \<Rightarrow>
                 let s1 = s\<lparr>sr_invocator := t\<rparr>; failed = (\<lambda>e. Err (errorf (''server error on message with method '' @ sg_Target message @ '': '' @ e))) in
                 (case cp_Error c of
                    Some e \<Rightarrow> (s1, failed e)
                  | None \<Rightarrow>
                     (case cp_Result c of
                        Some r \<Rightarrow> if rs_Error r then (case rs_ErrorMessage r of Some e \<Rightarrow> (s1, failed e) | None \<Rightarrow> (s1, Panic)) else (s1, Ok ())
                      | None \<Rightarrow> (s1, Ok ()))))))"

text \<open>The channel to whoever listens has room for 200 messages; without a result the push waits.\<close>

definition unwrap_message :: "json_parser \<Rightarrow> SignalR \<Rightarrow> string \<Rightarrow> SignalR \<times> unit res option" where
  "unwrap_message J s raw =
     (if length raw \<le> 2 then (s, Some (Ok ()))
      else (case read_type J raw of
              None \<Rightarrow> (s, Some (Err (errorf (''error unmarshalling SignalR message: '' @ raw))))
            | Some t \<Rightarrow>
               if t = CloseType then apsnd Some (processCloseMessage J s raw)
               else if t = Completion then apsnd Some (processCompletionMessage J s raw)
               else if t = Invocation
               then (case read_SignalRMessage J raw of
                       None \<Rightarrow> (s, Some (Err (errorf (''error unmarshalling SignalR message: '' @ raw))))
                     | Some m \<Rightarrow> when_back (s\<lparr>sr_inbound := sr_inbound s @ [m]\<rparr>, length (sr_inbound s) < 200) (Ok ()))
               else (s, Some (Ok ()))))"

fun unwrap_all :: "json_parser \<Rightarrow> SignalR \<Rightarrow> string list \<Rightarrow> SignalR \<times> unit res option" where
  "unwrap_all J s [] = (s, Some (Ok ()))"
| "unwrap_all J s (raw # raws) = (case unwrap_message J s raw of (s1, Some (Ok _)) \<Rightarrow> unwrap_all J s1 raws | r \<Rightarrow> r)"

definition unwrap :: "json_parser \<Rightarrow> SignalR \<Rightarrow> string \<Rightarrow> SignalR \<times> unit res option" where
  "unwrap J s raw = unwrap_all J s (split raw [TerminatorByte])"

text \<open>Waiting, after a close, for the server to answer what was sent: a minute at most.\<close>

datatype endgame_event = EClientDone | EInbound string | ECheck | ECountdown

fun avengersEndgame :: "json_parser \<Rightarrow> SignalR \<Rightarrow> endgame_event list \<Rightarrow> SignalR \<times> unit res option" where
  "avengersEndgame J s [] = (s, None)"
| "avengersEndgame J s (EClientDone # es) = (s, Some (Ok ()))"
| "avengersEndgame J s (EInbound raw # es) =
     (case unwrap J s raw of (s1, None) \<Rightarrow> (s1, None) | (s1, Some Panic) \<Rightarrow> (s1, Some Panic) | (s1, _) \<Rightarrow> avengersEndgame J s1 es)"
| "avengersEndgame J s (ECheck # es) = (if tracker_IsEmpty (sr_invocator s) then (s, Some (Ok ())) else avengersEndgame J s es)"
| "avengersEndgame J s (ECountdown # es) = (s, Some (Err (errorf ''connection failed to close, forcing shutdown'')))"

datatype signalr_event = SDying "endgame_event list" | SClientDone | SPingTimeout | SInbound string

definition sr_return :: "SignalR \<Rightarrow> gerror option \<Rightarrow> SignalR" where
  "sr_return s err = s\<lparr>sr_main := False, sr_tomb := tomb_return (sr_tomb s) err\<rparr>"

definition close_client :: "SignalR \<Rightarrow> gerror option \<Rightarrow> gerror option \<Rightarrow> SignalR \<times> unit res option" where
  "close_client s reason err =
     (case Websocket_Close (sr_client s) reason of
        (w, Some (Ok _)) \<Rightarrow> (sr_return (s\<lparr>sr_client := w\<rparr>) err, Some (Ok ())) | (w, r) \<Rightarrow> (s\<lparr>sr_client := w\<rparr>, r))"

definition sr_turn :: "json_parser \<Rightarrow> SignalR \<Rightarrow> signalr_event \<Rightarrow> SignalR \<times> unit res option" where
  "sr_turn J s ev =
     (if \<not> sr_main s then (s, Some (Ok ()))
      else (case ev of
              SDying es \<Rightarrow>
                if tomb_Alive (sr_tomb s) then (s, Some (Ok ()))
                else (case avengersEndgame J s es of
                        (s1, None) \<Rightarrow> (s1, None) | (s1, Some Panic) \<Rightarrow> (s1, Some Panic)
                      | (s1, Some r) \<Rightarrow>
                         close_client s1 (case tb_killed (sr_tomb s1) of Some k \<Rightarrow> k | None \<Rightarrow> None) (case r of Err e \<Rightarrow> Some e | _ \<Rightarrow> None))
            | SClientDone \<Rightarrow> (sr_return s (Some (errorf ''closed websocket'')), Some (Ok ()))
            | SPingTimeout \<Rightarrow>
                let err = errorf ''server ping timeout: failed to receive any messages from the server after 30s'' in close_client s (Some err) (Some err)
            | SInbound raw \<Rightarrow>
                (case unwrap J s raw of (s1, None) \<Rightarrow> (s1, None) | (s1, Some Panic) \<Rightarrow> (s1, Some Panic) | (s1, _) \<Rightarrow> (s1, Some (Ok ())))))"

section \<open>Framing\<close>

text \<open>
  JSON as \<^verbatim>\<open>encoding/json\<close> prints it: reading gives back what was printed, control characters are
  escaped, so that the terminator does not occur, and an object with a field has more than two
  characters.
\<close>

definition framed_json :: "json_parser \<Rightarrow> json_printer \<Rightarrow> bool" where
  "framed_json J M \<longleftrightarrow> (\<forall>v. J (M v) = Some v \<and> TerminatorByte \<notin> set (M v)) \<and> (\<forall>kv kvs. 2 < length (M (VObject (kv # kvs))))"

lemma split_frames:
  "(\<And>x. x \<in> set xs \<Longrightarrow> d \<notin> set x) \<Longrightarrow> split (concat (map (\<lambda>x. x @ [d]) xs)) [d] = xs @ [[]]"
  by (induction xs) (simp_all add: split_def split_acc_single_append split_acc_no_sep)

lemma read_framed:
  assumes "framed_json J M"
  shows "read_type J (M (SignalRMessage_json m)) = (if - (2 ^ 63) \<le> sg_Type m \<and> sg_Type m < 2 ^ 63 then Some (sg_Type m) else None)"
    "sg_Type m = Invocation \<Longrightarrow> read_SignalRMessage J (M (SignalRMessage_json m)) = Some (m\<lparr>sg_Target := sanitize (sg_Target m), sg_InvocationId := sanitize (sg_InvocationId m)\<rparr>)"
proof -
  have j: "J (M (SignalRMessage_json m)) = Some (SignalRMessage_json m)" using assms by (simp add: framed_json_def)
  show "read_type J (M (SignalRMessage_json m)) = (if - (2 ^ 63) \<le> sg_Type m \<and> sg_Type m < 2 ^ 63 then Some (sg_Type m) else None)"
    by (simp add: read_type_def read_struct_def j) (simp add: SignalRMessage_json_def int_field_def struct_field_def to_lower_def)
  show "sg_Type m = Invocation \<Longrightarrow> read_SignalRMessage J (M (SignalRMessage_json m)) = Some (m\<lparr>sg_Target := sanitize (sg_Target m), sg_InvocationId := sanitize (sg_InvocationId m)\<rparr>)"
    by (simp add: read_SignalRMessage_def read_struct_def j)
       (simp add: SignalRMessage_json_def marshal_string_def int_field_def text_field_def string_field_def values_field_def struct_field_def to_lower_def
          decode_element_def Invocation_def)
qed

definition received_as :: "SignalRMessage \<Rightarrow> SignalRMessage" where
  "received_as m = m\<lparr>sg_Target := sanitize (sg_Target m), sg_InvocationId := sanitize (sg_InvocationId m)\<rparr>"

lemma unwrap_invocations:
  assumes "framed_json J M" "\<And>m. m \<in> set ms \<Longrightarrow> sg_Type m = Invocation" "length (sr_inbound s) + length ms \<le> 200"
  shows "unwrap J s (concat (map (\<lambda>m. M (SignalRMessage_json m) @ [TerminatorByte]) ms)) = (s\<lparr>sr_inbound := sr_inbound s @ map received_as ms\<rparr>, Some (Ok ()))"
proof -
  have "split (concat (map (\<lambda>m. M (SignalRMessage_json m) @ [TerminatorByte]) ms)) [TerminatorByte] = map (\<lambda>m. M (SignalRMessage_json m)) ms @ [[]]"
    using split_frames [of "map (\<lambda>m. M (SignalRMessage_json m)) ms" TerminatorByte] assms(1) by (auto simp: framed_json_def comp_def)
  moreover have "unwrap_all J s (map (\<lambda>m. M (SignalRMessage_json m)) ms @ [[]]) = (s\<lparr>sr_inbound := sr_inbound s @ map received_as ms\<rparr>, Some (Ok ()))"
    using assms(2,3)
  proof (induction ms arbitrary: s)
    case (Cons m ms)
    have t: "sg_Type m = Invocation" using Cons.prems(1) by simp
    have l: "\<not> length (M (SignalRMessage_json m)) \<le> 2" using assms(1) by (simp add: framed_json_def SignalRMessage_json_def not_le)
    have "unwrap_message J s (M (SignalRMessage_json m)) = (s\<lparr>sr_inbound := sr_inbound s @ [received_as m]\<rparr>, Some (Ok ()))"
      using Cons.prems(2) l read_framed [OF assms(1), of m] t
      by (simp add: unwrap_message_def when_back_def received_as_def Invocation_def Completion_def CloseType_def)
    then show ?case using Cons.IH [of "s\<lparr>sr_inbound := sr_inbound s @ [received_as m]\<rparr>"] Cons.prems by simp
  qed (simp add: unwrap_message_def)
  ultimately show ?thesis by (simp add: unwrap_def)
qed

text \<open>What a list of calls to send puts on the wire.\<close>

fun sr_sends ::
  "json_printer \<Rightarrow> (AgentMessage \<Rightarrow> jvalue) \<Rightarrow> (AgentMessage \<Rightarrow> string res) \<Rightarrow> SignalR \<Rightarrow> AgentMessage list \<Rightarrow> SignalR" where
  "sr_sends M marshal handler s [] = s"
| "sr_sends M marshal handler s (m # ms) = sr_sends M marshal handler (fst (SignalR_Send M marshal handler (Ok ()) s m)) ms"

definition to_send :: "(AgentMessage \<Rightarrow> jvalue) \<Rightarrow> (AgentMessage \<Rightarrow> string res) \<Rightarrow> AgentMessage \<Rightarrow> SignalRMessage" where
  "to_send marshal handler m =
     \<lparr> sg_Type = Invocation, sg_Target = (case handler m of Ok t \<Rightarrow> t | _ \<Rightarrow> []), sg_Arguments = [marshal m], sg_InvocationId = [] \<rparr>"

lemma sr_sends_spec:
  assumes "sr_sending s" "ws_client (sr_client s)" "\<forall>m \<in> set ms. is_ok (handler m)"
  shows "\<exists>sent. length sent = length ms \<and>
    ws_written (sr_client (sr_sends M marshal handler s ms)) = ws_written (sr_client s) @ map (\<lambda>m. M (SignalRMessage_json m) @ [TerminatorByte]) sent \<and>
    list_all2 (\<lambda>x m. \<exists>i. x = (to_send marshal handler m)\<lparr>sg_InvocationId := i\<rparr>) sent ms \<and>
    it.ids_after (sr_invocator s) (map (to_send marshal handler) ms) = (sr_invocator (sr_sends M marshal handler s ms), map sg_InvocationId sent)"
  using assms
proof (induction ms arbitrary: s)
  case (Cons m ms)
  obtain g where g: "handler m = Ok g" using Cons.prems(3) by (cases "handler m") auto
  obtain t x where x: "tracker_Track (sr_invocator s) (to_send marshal handler m) = (t, x)" by fastforce
  let ?s = "fst (SignalR_Send M marshal handler (Ok ()) s m)"
  have s: "?s = s\<lparr>sr_invocator := t, sr_client := (sr_client s)\<lparr>ws_written := ws_written (sr_client s) @ [M (SignalRMessage_json x) @ [TerminatorByte]]\<rparr>\<rparr>"
    using Cons.prems(1,2) g x by (simp add: SignalR_Send_def to_send_def Websocket_Send_def Let_def)
  have i: "x = (to_send marshal handler m)\<lparr>sg_InvocationId := sg_InvocationId x\<rparr>" using x by (auto simp: tracker_Track_def Let_def)
  obtain sent where "length sent = length ms"
    "ws_written (sr_client (sr_sends M marshal handler ?s ms)) = ws_written (sr_client ?s) @ map (\<lambda>m. M (SignalRMessage_json m) @ [TerminatorByte]) sent"
    "list_all2 (\<lambda>x m. \<exists>i. x = (to_send marshal handler m)\<lparr>sg_InvocationId := i\<rparr>) sent ms"
    "it.ids_after (sr_invocator ?s) (map (to_send marshal handler) ms) = (sr_invocator (sr_sends M marshal handler ?s ms), map sg_InvocationId sent)"
    using Cons.IH [of ?s] Cons.prems s by auto
  then show ?case using x s i by (intro exI [of _ "x # sent"]) auto
qed simp

text \<open>
  C32. Agent messages survive SignalR: whatever is sent, the bytes on the wire, in as many
  pieces as there were calls but received as one, give the other side the same messages for the
  same hub operations in the same order.
\<close>

theorem signalr_roundtrip:
  assumes "framed_json J M" and "sr_sending s" and "ws_client (sr_client s)" and "ws_written (sr_client s) = []"
    and "\<forall>m \<in> set ms. handler m = Ok (target m)" and "length (sr_inbound r) + length ms \<le> 200"
  shows "\<exists>r'. unwrap J r (concat (ws_written (sr_client (sr_sends M marshal handler s ms)))) = (r', Some (Ok ())) \<and>
    map (\<lambda>x. (sg_Target x, sg_Arguments x)) (sr_inbound r') =
    map (\<lambda>x. (sg_Target x, sg_Arguments x)) (sr_inbound r) @ map (\<lambda>m. (sanitize (target m), [marshal m])) ms"
proof -
  have h: "\<forall>m \<in> set ms. is_ok (handler m)" using assms(5) by simp
  obtain sent where sent: "length sent = length ms"
    "ws_written (sr_client (sr_sends M marshal handler s ms)) = map (\<lambda>m. M (SignalRMessage_json m) @ [TerminatorByte]) sent"
    "list_all2 (\<lambda>x m. \<exists>i. x = (to_send marshal handler m)\<lparr>sg_InvocationId := i\<rparr>) sent ms"
    using sr_sends_spec [OF assms(2,3) h, where M = M and marshal = marshal] assms(4) by auto
  have all: "list_all2 (\<lambda>x m. sg_Type x = Invocation \<and> (sg_Target (received_as x), sg_Arguments (received_as x)) = (sanitize (target m), [marshal m])) sent ms"
    using sent(3) assms(5) by (fastforce simp: list_all2_conv_all_nth to_send_def received_as_def)
  then have "\<And>x. x \<in> set sent \<Longrightarrow> sg_Type x = Invocation" by (auto simp: list_all2_conv_all_nth in_set_conv_nth)
  then have u: "unwrap J r (concat (ws_written (sr_client (sr_sends M marshal handler s ms)))) =
      (r\<lparr>sr_inbound := sr_inbound r @ map received_as sent\<rparr>, Some (Ok ()))"
    using unwrap_invocations [OF assms(1), of sent r] assms(6) sent(1,2) by simp
  have "map (\<lambda>x. (sg_Target x, sg_Arguments x)) (map received_as sent) = map (\<lambda>m. (sanitize (target m), [marshal m])) ms"
    using all by (auto simp: list_all2_conv_all_nth list_eq_iff_nth_eq)
  then show ?thesis using u by auto
qed

section \<open>Completions\<close>

definition Completion_json :: "string \<Rightarrow> (string \<times> jvalue) list \<Rightarrow> jvalue" where
  "Completion_json i rest = VObject ((''type'', VNumber Completion) # (''invocationId'', VString i) # rest)"

lemma completion_matches:
  assumes "framed_json J M"
  shows "sr_invocator (fst (processCompletionMessage J s (M (Completion_json i [])))) = fst (tracker_Match (sr_invocator s) i)"
proof -
  have "J (M (Completion_json i [])) = Some (Completion_json i [])" using assms by (simp add: framed_json_def)
  then have "read_Completion J (M (Completion_json i [])) = Some \<lparr> cp_InvocationId = Some i, cp_Result = None, cp_Error = None \<rparr>"
    by (simp add: read_Completion_def read_struct_def)
       (simp add: Completion_json_def Completion_def read_Result_def int_field_def text_pointer_def struct_field_def to_lower_def)
  then show ?thesis by (auto simp: processCompletionMessage_def tracker_Match_def Let_def split: option.split)
qed

text \<open>
  Nothing that was sent is forgotten before it is answered: invocations get distinct
  identifiers, and after any answers the tracker is empty exactly when each of them has been
  among the answers. Only then does closing the connection end at its next look.
\<close>

theorem signalr_completions:
  assumes "framed_json J M" and "sr_sending s" and "ws_client (sr_client s)" and "sr_invocator s = NewInvocationTracker"
    and "\<forall>m \<in> set ms. is_ok (handler m)"
  shows "\<exists>sent. ws_written (sr_client (sr_sends M marshal handler s ms)) = ws_written (sr_client s) @ map (\<lambda>m. M (SignalRMessage_json m) @ [TerminatorByte]) sent \<and>
    length sent = length ms \<and> distinct (map sg_InvocationId sent) \<and>
    (let s' = foldl (\<lambda>s i. fst (processCompletionMessage J s (M (Completion_json i [])))) (sr_sends M marshal handler s ms) js in
     (tracker_IsEmpty (sr_invocator s') \<longleftrightarrow> sg_InvocationId ` set sent \<subseteq> set js) \<and>
     avengersEndgame J s' [ECheck] = (s', if sg_InvocationId ` set sent \<subseteq> set js then Some (Ok ()) else None))"
proof -
  let ?s = "sr_sends M marshal handler s ms"
  obtain sent where sent: "length sent = length ms"
    "ws_written (sr_client ?s) = ws_written (sr_client s) @ map (\<lambda>m. M (SignalRMessage_json m) @ [TerminatorByte]) sent"
    "it.ids_after (sr_invocator s) (map (to_send marshal handler) ms) = (sr_invocator ?s, map sg_InvocationId sent)"
    using sr_sends_spec [OF assms(2,3,5), where M = M and marshal = marshal] by blast
  have ok: "tracker_ok (sr_invocator s)" "tracker_IsEmpty (sr_invocator s)" using assms(4)
    by (simp_all add: tracker_ok_def tracker_IsEmpty_def NewInvocationTracker_def)
  have f: "sr_invocator (foldl (\<lambda>s i. fst (processCompletionMessage J s (M (Completion_json i [])))) x js) = it.match_all (sr_invocator x) js" for x
    by (induction js arbitrary: x) (simp_all add: it.match_all_def completion_matches [OF assms(1)])
  have "distinct (map sg_InvocationId sent)" using it.ids_after_spec [OF ok(1) sent(3)] by simp
  moreover have "tracker_IsEmpty (it.match_all (sr_invocator ?s) js) \<longleftrightarrow> sg_InvocationId ` set sent \<subseteq> set js"
    using it.emptied_by_matches [OF ok sent(3), of js] by simp
  ultimately show ?thesis using sent(1,2) by (auto simp: f Let_def)
qed

text \<open>
  How messages and callers get lost: a call to send when the sending routine has ended never
  comes back and leaves its invocation behind; when the server reports that a call failed, every
  message after that report in the same websocket message is dropped; and a failed result without
  a text panics the process.
\<close>

theorem signalr_faults:
  assumes "framed_json J M" and "handler m = Ok target" and "\<not> sr_sending s" and "map_of (it_tracked (sr_invocator s)) i = Some x"
    and "\<forall>m \<in> set ms. TerminatorByte \<notin> set m"
  shows "snd (SignalR_Send M marshal handler sent s m) = None \<and> \<not> tracker_IsEmpty (sr_invocator (fst (SignalR_Send M marshal handler sent s m))) \<and>
    (case unwrap J s (concat (map (\<lambda>x. x @ [TerminatorByte]) (M (Completion_json i [(''error'', VString e)]) # ms))) of (s', r) \<Rightarrow>
       sr_inbound s' = sr_inbound s \<and> (\<exists>err. r = Some (Err err))) \<and>
    snd (unwrap J s (M (Completion_json i [(''result'', VObject [(''error'', VBool True)])]) @ [TerminatorByte])) = Some Panic"
proof (intro conjI)
  show "snd (SignalR_Send M marshal handler sent s m) = None" "\<not> tracker_IsEmpty (sr_invocator (fst (SignalR_Send M marshal handler sent s m)))"
    using assms(2,3) by (simp_all add: SignalR_Send_def tracker_Track_def tracker_IsEmpty_def Let_def)
  have j: "J (M v) = Some v" "TerminatorByte \<notin> set (M v)" "2 < length (M (Completion_json i k))" for v k
    using assms(1) by (simp_all add: framed_json_def Completion_json_def)
  have t: "read_type J (M (Completion_json i [(''error'', VString e)])) = Some Completion"
    "read_type J (M (Completion_json i [(''result'', VObject [(''error'', VBool True)])])) = Some Completion"
    by (simp_all add: read_type_def read_struct_def j) (simp_all add: Completion_json_def Completion_def int_field_def struct_field_def to_lower_def)
  have c1: "read_Completion J (M (Completion_json i [(''error'', VString e)])) = Some \<lparr> cp_InvocationId = Some i, cp_Result = None, cp_Error = Some e \<rparr>"
    by (simp add: read_Completion_def read_struct_def j)
       (simp add: Completion_json_def Completion_def read_Result_def int_field_def text_pointer_def struct_field_def to_lower_def)
  have c2: "read_Completion J (M (Completion_json i [(''result'', VObject [(''error'', VBool True)])])) =
      Some \<lparr> cp_InvocationId = Some i, cp_Result = Some \<lparr> rs_ErrorMessage = None, rs_Error = True \<rparr>, cp_Error = None \<rparr>"
    by (simp add: read_Completion_def read_struct_def j)
       (simp add: Completion_json_def Completion_def read_Result_def int_field_def bool_field_def text_pointer_def struct_field_def to_lower_def)
  have s1: "split (concat (map (\<lambda>x. x @ [TerminatorByte]) (M (Completion_json i [(''error'', VString e)]) # ms))) [TerminatorByte] =
      (M (Completion_json i [(''error'', VString e)]) # ms) @ [[]]"
    by (rule split_frames) (use assms(5) j(2) in auto)
  then show "case unwrap J s (concat (map (\<lambda>x. x @ [TerminatorByte]) (M (Completion_json i [(''error'', VString e)]) # ms))) of (s', r) \<Rightarrow>
       sr_inbound s' = sr_inbound s \<and> (\<exists>err. r = Some (Err err))"
    using c1 t assms(4) j(3) [of "[(''error'', VString e)]"]
    by (simp add: unwrap_def unwrap_message_def processCompletionMessage_def tracker_Match_def Completion_def CloseType_def Let_def)
  have "split (M (Completion_json i [(''result'', VObject [(''error'', VBool True)])]) @ [TerminatorByte]) [TerminatorByte] =
      [M (Completion_json i [(''result'', VObject [(''error'', VBool True)])]), []]"
    using split_frames [of "[M (Completion_json i [(''result'', VObject [(''error'', VBool True)])])]" TerminatorByte] j(2) by simp
  then show "snd (unwrap J s (M (Completion_json i [(''result'', VObject [(''error'', VBool True)])]) @ [TerminatorByte])) = Some Panic"
    using c2 t assms(4) j(3) [of "[(''result'', VObject [(''error'', VBool True)])]"]
    by (simp add: unwrap_def unwrap_message_def processCompletionMessage_def tracker_Match_def Completion_def CloseType_def Let_def)
qed

section \<open>Witnesses\<close>

text \<open>A printer that escapes the terminator.\<close>

fun escape :: "string \<Rightarrow> string" where
  "escape [] = []"
| "escape (c # s) = (if c = TerminatorByte then CHR ''^'' # CHR ''t'' # escape s else if c = CHR ''^'' then CHR ''^'' # CHR ''^'' # escape s else c # escape s)"

fun unescape :: "string \<Rightarrow> string" where
  "unescape (c # d # s) = (if c = CHR ''^'' then (if d = CHR ''t'' then TerminatorByte else d) # unescape s else c # unescape (d # s))"
| "unescape s = s"

lemma unescape_cons: "c \<noteq> CHR ''^'' \<Longrightarrow> unescape (c # s) = c # unescape s"
  by (cases s) auto

lemma unescape_escape: "unescape (escape s) = s"
  by (induction s) (auto simp: unescape_cons)

lemma escape_clean: "TerminatorByte \<notin> set (escape s)"
  by (induction s) (auto simp: TerminatorByte_def)

lemma escape_length: "length s \<le> length (escape s)"
  by (induction s) auto

lemma wit_framed: "framed_json (\<lambda>s. codec_parse (unescape s)) (\<lambda>v. escape (codec_print v))"
proof -
  have "2 < length (codec_print (VObject (kv # kvs)))" for kv kvs by simp
  then have "2 < length (escape (codec_print (VObject (kv # kvs))))" for kv kvs using escape_length less_le_trans by blast
  then show ?thesis by (simp add: framed_json_def unescape_escape escape_clean)
qed

definition wit_messenger :: SignalR where
  "wit_messenger = (SignalR_New (Websocket_New\<lparr>ws_client := True\<rparr>))\<lparr>sr_sending := True, sr_main := True\<rparr>"

definition wit_wire :: AgentMessage where
  "wit_wire = \<lparr> am_ChannelId = ''c'', am_MessageType = MTMrtap, am_SchemaVersion = [], am_MessagePayload = WRaw [] \<rparr>"

lemma wit_messenger_simps:
  "sr_sending wit_messenger" "ws_client (sr_client wit_messenger)" "ws_written (sr_client wit_messenger) = []" "sr_inbound wit_messenger = []"
  "sr_invocator wit_messenger = NewInvocationTracker"
  by (simp_all add: wit_messenger_def SignalR_New_def Websocket_New_def)

theorem signalr_roundtrip_witness:
  "\<exists>r'. unwrap (\<lambda>s. codec_parse (unescape s)) wit_messenger
       (concat (ws_written (sr_client (sr_sends (\<lambda>v. escape (codec_print v)) (\<lambda>_. VNull) agent_targetSelectHandler wit_messenger [wit_wire, wit_wire])))) = (r', Some (Ok ())) \<and>
     length (sr_inbound r') = 2"
proof -
  have h: "\<forall>m \<in> set [wit_wire, wit_wire]. agent_targetSelectHandler m = Ok ((\<lambda>_. ''ResponseAgentToBastionV1'') m)"
    by (simp add: agent_targetSelectHandler_def wit_wire_def)
  have l: "length (sr_inbound wit_messenger) + length [wit_wire, wit_wire] \<le> 200" by (simp add: wit_messenger_simps)
  from signalr_roundtrip [OF wit_framed wit_messenger_simps(1-3) h l, where marshal = "\<lambda>_. VNull"] obtain r' where
    r: "unwrap (\<lambda>s. codec_parse (unescape s)) wit_messenger
       (concat (ws_written (sr_client (sr_sends (\<lambda>v. escape (codec_print v)) (\<lambda>_. VNull) agent_targetSelectHandler wit_messenger [wit_wire, wit_wire])))) = (r', Some (Ok ()))"
    and m: "map (\<lambda>x. (sg_Target x, sg_Arguments x)) (sr_inbound r') = map (\<lambda>x. (sg_Target x, sg_Arguments x)) (sr_inbound wit_messenger) @
      map (\<lambda>m. (sanitize ''ResponseAgentToBastionV1'', [VNull])) [wit_wire, wit_wire]" by auto
  have "length (sr_inbound r') = 2" using arg_cong [OF m, of length] by (simp add: wit_messenger_simps)
  then show ?thesis using r by blast
qed

theorem signalr_completions_witness:
  "\<not> tracker_IsEmpty (sr_invocator (sr_sends (\<lambda>v. escape (codec_print v)) (\<lambda>_. VNull) agent_targetSelectHandler wit_messenger [wit_wire]))"
proof -
  have h: "\<forall>m \<in> set [wit_wire]. is_ok (agent_targetSelectHandler m)" by (simp add: agent_targetSelectHandler_def wit_wire_def)
  show ?thesis
    using signalr_completions [OF wit_framed wit_messenger_simps(1,2,5) h, where marshal = "\<lambda>_. VNull" and js = "[]"] by (auto simp: Let_def)
qed

theorem signalr_faults_witness:
  "\<exists>s. snd (SignalR_Send (\<lambda>v. escape (codec_print v)) (\<lambda>_. VNull) agent_targetSelectHandler (Ok ()) s wit_wire) = None"
proof -
  let ?s = "wit_messenger\<lparr>sr_sending := False, sr_invocator := \<lparr> it_tracked = [(''0'', to_send (\<lambda>_. VNull) agent_targetSelectHandler wit_wire)], it_counter = 1 \<rparr>\<rparr>"
  have h: "agent_targetSelectHandler wit_wire = Ok ''ResponseAgentToBastionV1''" by (simp add: agent_targetSelectHandler_def wit_wire_def)
  have s: "\<not> sr_sending ?s" "map_of (it_tracked (sr_invocator ?s)) ''0'' = Some (to_send (\<lambda>_. VNull) agent_targetSelectHandler wit_wire)" by simp_all
  show ?thesis using signalr_faults [where s = ?s and handler = agent_targetSelectHandler and m = wit_wire and i = "''0''", OF wit_framed h s,
      where ms = "[]" and marshal = "\<lambda>_. VNull" and sent = "Ok ()" and e = "[]"] by auto
qed

end
