(* ===== verification/Control_Connection.thy ===== *)
theory Control_Connection
  imports Signal_R Daemon_Connection Control_Channel
begin

text \<open>
  \<^verbatim>\<open>bctl/agent/controlconnection\<close>: the connection under the control channel, which the agent opens
  with a message signed by its key; and the main loops of the connections over their messenger,
  the daemon's data connection (\<^verbatim>\<open>bctl/daemon/servers/dataconnection\<close>) included.
\<close>

section \<open>The control channel as the broker sees it\<close>

definition control_channel_ops :: "('s, 'k, 'p) ControlChannel channel_ops" where
  "control_channel_ops = \<lparr> ch_Receive = ControlChannel_Receive, ch_Close = (\<lambda>c reason. (ControlChannel_Close c reason, [])) \<rparr>"

section \<open>Opening the control connection\<close>

definition BackendAgentMessage_fields :: "string \<Rightarrow> int \<Rightarrow> (string \<times> jvalue) list" where
  "BackendAgentMessage_fields messageType timestamp = [(''messageType'', VString messageType), (''timestamp'', VNumber timestamp)]"

definition OpenControlChannel_json :: "int \<Rightarrow> string \<Rightarrow> string \<Rightarrow> string \<Rightarrow> jvalue" where
  "OpenControlChannel_json timestamp controlChannelId connectionUrl version =
     VObject (BackendAgentMessage_fields ''openControlChannel'' timestamp @
       [(''controlChannelId'', marshal_string controlChannelId), (''connectionUrl'', marshal_string connectionUrl), (''version'', marshal_string version)])"

text \<open>A request: the server, the endpoint, the authorisation and the parameters.\<close>

record http_get =
  hg_server :: string
  hg_endpoint :: string
  hg_authorization :: "string option"
  hg_message :: "string option"
  hg_signature :: "string option"

text \<open>
  What happens at a tick: the clock, what the servers answer, the identity token, whether the
  URL of the node parses, and how connecting the messenger goes.
\<close>

record control_tick =
  ck_now :: int
  ck_http :: "http_get \<Rightarrow> string res"
  ck_token :: "string res"
  ck_parse :: "string \<Rightarrow> unit res"
  ck_url :: "unit res"
  ck_dialled :: "unit res"
  ck_sent :: "unit res"

definition bearer :: "string \<Rightarrow> string" where
  "bearer token = ''Bearer '' @ token"

text \<open>A body that does not decode leaves the fields empty; errors of decoding are ignored.\<close>

definition body_field :: "json_parser \<Rightarrow> string \<Rightarrow> string \<Rightarrow> string" where
  "body_field J name body =
     (case read_struct J (Some body) of None \<Rightarrow> [] | Some kvs \<Rightarrow> (case text_field kvs name of Some s \<Rightarrow> s | None \<Rightarrow> []))"

definition getConnectionServiceUrl :: "json_parser \<Rightarrow> control_tick \<Rightarrow> string \<Rightarrow> string res" where
  "getConnectionServiceUrl J T serviceUrl =
     res_map (body_field J ''connectionServiceUrl'')
       (ck_http T \<lparr> hg_server = serviceUrl, hg_endpoint = ''/api/v2/connection-service/url'', hg_authorization = None, hg_message = None, hg_signature = None \<rparr>)"

definition getControlChannel_request :: "json_printer \<Rightarrow> control_tick \<Rightarrow> string \<Rightarrow> string \<Rightarrow> string \<Rightarrow> http_get" where
  "getControlChannel_request M T connUrl token sig =
     \<lparr> hg_server = connUrl, hg_endpoint = ''/control-channel'', hg_authorization = Some (bearer token),
       hg_message = Some (EncodeToString (M (VObject (BackendAgentMessage_fields ''getControlChannel'' (ck_now T))))), hg_signature = Some sig \<rparr>"

definition getControlChannel ::
  "json_parser \<Rightarrow> json_printer \<Rightarrow> lib \<Rightarrow> PrivateKey option \<Rightarrow> control_tick \<Rightarrow> string \<Rightarrow> string \<Rightarrow> (string \<times> string) res" where
  "getControlChannel J M L privateKey T connUrl agentIdentityToken =
     (case PrivateKey_Sign L privateKey (M (VObject (BackendAgentMessage_fields ''getControlChannel'' (ck_now T)))) of
        Err e \<Rightarrow> Err e | Panic \<Rightarrow> Panic
      | Ok sig \<Rightarrow>
         (case ck_http T (getControlChannel_request M T connUrl agentIdentityToken sig) of
            Err e \<Rightarrow> Err (errorf_s ''error making get request for control channel: '' e) | Panic \<Rightarrow> Panic
          | Ok body \<Rightarrow> Ok (body_field J ''connectionUrl'' body, body_field J ''controlChannelId'' body)))"

definition buildOpenControlChannelMessage ::
  "json_printer \<Rightarrow> lib \<Rightarrow> PrivateKey option \<Rightarrow> int \<Rightarrow> string \<Rightarrow> string \<Rightarrow> string \<Rightarrow> (string \<times> string) res" where
  "buildOpenControlChannelMessage M L privateKey now version connectionUrl controlChannelId =
     (let payload = M (OpenControlChannel_json now controlChannelId connectionUrl version) in
      res_map (Pair (EncodeToString payload)) (PrivateKey_Sign L privateKey payload))"

record 'c ControlConnection =
  kc_ready :: bool
  kc_client :: SignalR
  kc_broker :: "'c broker"
  kc_privateKey :: "PrivateKey option"
  kc_sendQueue :: "AgentMessage list"
  kc_killed :: "gerror option"
  kc_version :: "string option"
  kc_authorization :: "string option"
  kc_message :: "string option"
  kc_signature :: "string option"

definition ControlConnection_New :: "SignalR \<Rightarrow> PrivateKey option \<Rightarrow> string option \<Rightarrow> 'c ControlConnection" where
  "ControlConnection_New client privateKey version =
     \<lparr> kc_ready = False, kc_client = client, kc_broker = Broker_New, kc_privateKey = privateKey, kc_sendQueue = [], kc_killed = None, kc_version = version,
       kc_authorization = None, kc_message = None, kc_signature = None \<rparr>"

datatype control_event = KDying | KExhausted | KTick control_tick

text \<open>One attempt. A result ends the loop; without one it goes on.\<close>

definition control_attempt ::
  "json_parser \<Rightarrow> json_printer \<Rightarrow> lib \<Rightarrow> string \<Rightarrow> 'c ControlConnection \<Rightarrow> control_tick \<Rightarrow> 'c ControlConnection \<times> unit res option" where
  "control_attempt J M L bastionUrl c T =
     (case getConnectionServiceUrl J T bastionUrl of
        Err _ \<Rightarrow> (c, None) | Panic \<Rightarrow> (c, Some Panic)
      | Ok orchestratorUrl \<Rightarrow>
         (case ck_token T of
            Err _ \<Rightarrow> (c, None) | Panic \<Rightarrow> (c, Some Panic)
          | Ok token \<Rightarrow>
             (case getControlChannel J M L (kc_privateKey c) T orchestratorUrl token of
                Err _ \<Rightarrow> (c, None) | Panic \<Rightarrow> (c, Some Panic)
              | Ok (connectionUrl, controlChannelId) \<Rightarrow>
                 (case (ck_parse T connectionUrl, kc_version c) of
                    (Err e, _) \<Rightarrow> (c, Some (Err e)) | (Panic, _) \<Rightarrow> (c, Some Panic) | (Ok _, None) \<Rightarrow> (c, Some Panic)
                  | (Ok _, Some version) \<Rightarrow>
                     (case buildOpenControlChannelMessage M L (kc_privateKey c) (ck_now T) version connectionUrl controlChannelId of
                        Err e \<Rightarrow> (c, Some (Err (errorf_w ''failed to build open control channel message '' e))) | Panic \<Rightarrow> (c, Some Panic)
                      | Ok (message, sig) \<Rightarrow>
                         let c1 = c\<lparr>kc_authorization := Some (bearer token), kc_message := Some message, kc_signature := Some sig\<rparr> in
                         (case SignalR_Connect (ck_url T) (ck_dialled T) (ck_sent T) (kc_client c) of
                            (s, Some (Ok _)) \<Rightarrow> (c1\<lparr>kc_client := s, kc_ready := True\<rparr>, Some (Ok ()))
                          | (s, Some Panic) \<Rightarrow> (c1\<lparr>kc_client := s\<rparr>, Some Panic)
                          | (s, _) \<Rightarrow> (c1\<lparr>kc_client := s\<rparr>, None)))))))"

fun control_connect_loop ::
  "json_parser \<Rightarrow> json_printer \<Rightarrow> lib \<Rightarrow> string \<Rightarrow> 'c ControlConnection \<Rightarrow> control_event list \<Rightarrow> 'c ControlConnection \<times> unit res option" where
  "control_connect_loop J M L bastionUrl c [] = (c, None)"
| "control_connect_loop J M L bastionUrl c (KDying # es) = (c, Some (Ok ()))"
| "control_connect_loop J M L bastionUrl c (KExhausted # es) = (c, Some (Err (errorf ''failed to connect after 30m0s'')))"
| "control_connect_loop J M L bastionUrl c (KTick T # es) =
     (case control_attempt J M L bastionUrl c T of (c1, None) \<Rightarrow> control_connect_loop J M L bastionUrl c1 es | r \<Rightarrow> r)"

definition control_connect ::
  "json_parser \<Rightarrow> json_printer \<Rightarrow> lib \<Rightarrow> string \<Rightarrow> 'c ControlConnection \<Rightarrow> control_event list \<Rightarrow> 'c ControlConnection \<times> unit res option" where
  "control_connect J M L bastionUrl c es =
     (case url_ParseRequestURI L bastionUrl of Err e \<Rightarrow> (c, Some (Err e)) | Panic \<Rightarrow> (c, Some Panic) | Ok _ \<Rightarrow> control_connect_loop J M L bastionUrl c es)"

definition control_kill :: "gerror \<Rightarrow> 'c ControlConnection \<Rightarrow> 'c ControlConnection" where
  "control_kill reason c = c\<lparr>kc_killed := (case kc_killed c of None \<Rightarrow> Some reason | Some e \<Rightarrow> Some e)\<rparr>"

definition control_targetSelectHandler :: "AgentMessage \<Rightarrow> string res" where
  "control_targetSelectHandler m =
     (case am_MessageType m of MTHealthCheck \<Rightarrow> Ok ''Heartbeat'' | MTClusterUsers \<Rightarrow> Ok ''ClusterUsers'' | _ \<Rightarrow> Err (errorf ''unsupported message type''))"

definition ControlConnection_Send :: "'c ControlConnection \<Rightarrow> AgentMessage \<Rightarrow> 'c ControlConnection option" where
  "ControlConnection_Send c m = (if length (kc_sendQueue c) < 50 then Some (c\<lparr>kc_sendQueue := kc_sendQueue c @ [m]\<rparr>) else None)"

definition ControlConnection_Subscribe :: "'c ControlConnection \<Rightarrow> string \<Rightarrow> 'c \<Rightarrow> 'c ControlConnection" where
  "ControlConnection_Subscribe c i subscriber = c\<lparr>kc_broker := Broker_Subscribe (kc_broker c) i subscriber\<rparr>"

definition ControlConnection_Close :: "'c ControlConnection \<Rightarrow> gerror \<Rightarrow> 'c ControlConnection" where
  "ControlConnection_Close c reason = (if kc_killed c = None then control_kill reason c else c)"

text \<open>An incoming message: what cannot be read is logged and what was read so far is used; without an argument the agent panics.\<close>

definition control_receive ::
  "'c channel_ops \<Rightarrow> (jvalue \<Rightarrow> AgentMessage \<times> gerror option) \<Rightarrow> 'c ControlConnection \<Rightarrow> SignalRMessage \<Rightarrow> ('c ControlConnection \<times> unit res) option" where
  "control_receive C readMessage c message =
     (case sg_Arguments message of
        [] \<Rightarrow> Some (c, Panic)
      | arg # _ \<Rightarrow>
         let m = fst (readMessage arg) in
         map_option (\<lambda>(b, r). (c\<lparr>kc_broker := b\<rparr>, Ok ())) (Broker_DirectMessage C (kc_broker c) (am_ChannelId m) m))"

section \<open>Main loops\<close>

text \<open>
  Sending the next message of a queue through the messenger, as all three loops do; without a
  result the loop never goes on.
\<close>

definition queue_turn ::
  "json_printer \<Rightarrow> (AgentMessage \<Rightarrow> jvalue) \<Rightarrow> (AgentMessage \<Rightarrow> string res) \<Rightarrow> unit res \<Rightarrow> SignalR \<Rightarrow> AgentMessage list \<Rightarrow>
   (SignalR \<times> AgentMessage list) \<times> unit res option" where
  "queue_turn M marshal handler sent s queue =
     (case queue of
        [] \<Rightarrow> ((s, queue), Some (Ok ()))
      | m # ms \<Rightarrow> (case SignalR_Send M marshal handler sent s m of (s1, r) \<Rightarrow> ((s1, ms), map_option (\<lambda>r. case r of Panic \<Rightarrow> Panic | _ \<Rightarrow> Ok ()) r)))"

datatype control_loop_event = KcDying | KcClientDone "control_event list" | KcQueue "unit res"

definition control_loop_turn ::
  "json_parser \<Rightarrow> json_printer \<Rightarrow> (AgentMessage \<Rightarrow> jvalue) \<Rightarrow> lib \<Rightarrow> 'c channel_ops \<Rightarrow> string \<Rightarrow> 'c ControlConnection \<Rightarrow> control_loop_event \<Rightarrow>
   'c ControlConnection \<times> unit res option" where
  "control_loop_turn J M marshal L C bastionUrl c ev =
     (case ev of
        KcDying \<Rightarrow>
          (case Broker_Close C (kc_broker c) (errorf ''connection closed'') of (b, _, _) \<Rightarrow>
           case SignalR_Close (kc_client c) (kc_killed c) of (s, back) \<Rightarrow> when_back (c\<lparr>kc_ready := False, kc_broker := b, kc_client := s\<rparr>, back) (Ok ()))
      | KcClientDone es \<Rightarrow>
          (case control_connect J M L bastionUrl (c\<lparr>kc_ready := False\<rparr>) es of
             (c1, Some (Err e)) \<Rightarrow> (control_kill e c1, Some (Ok ())) | r \<Rightarrow> r)
      | KcQueue sent \<Rightarrow>
          (case queue_turn M marshal control_targetSelectHandler sent (kc_client c) (kc_sendQueue c) of
             ((s, q), r) \<Rightarrow> (c\<lparr>kc_client := s, kc_sendQueue := q\<rparr>, r)))"

definition daemon_DataConnection_New :: "lib \<Rightarrow> connect_event list \<Rightarrow> string \<Rightarrow> 'c daemon_conn res option" where
  "daemon_DataConnection_New L events connUrl =
     (case url_ParseRequestURI L connUrl of
        Err e \<Rightarrow> Some (Err e) | Panic \<Rightarrow> Some Panic
      | Ok _ \<Rightarrow>
         map_option (res_map (\<lambda>_. \<lparr> dn_ready = False, dn_broker = Broker_New, dn_sendQueue = [], dn_agentReady = False, dn_killed = None \<rparr>))
           (daemon_connect ''5m0s'' events))"

text \<open>The daemon's loop after its client is done: a normal closure by the server is not retried.\<close>

definition daemon_client_done :: "'c daemon_conn \<Rightarrow> SignalR \<Rightarrow> connect_event list \<Rightarrow> ready_event \<Rightarrow> 'c daemon_conn \<times> unit res option" where
  "daemon_client_done c s events rv =
     (let c1 = c\<lparr>dn_ready := False\<rparr>;
          reconnected = (case daemon_connect ''168h0m0s'' events of
            None \<Rightarrow> (c1, None) | Some Panic \<Rightarrow> (c1, Some Panic) | Some (Err e) \<Rightarrow> (daemon_conn_kill e c1, Some (Ok ()))
          | Some (Ok _) \<Rightarrow> (case waitForAgentReady c1 rv of None \<Rightarrow> (c1, None) | Some c2 \<Rightarrow> (c2, Some (Ok ())))) in
      case tb_killed (sr_tomb s) of
        Some (Some e) \<Rightarrow> if errors_As WebsocketNormalClosureError e then (daemon_conn_kill e c1, Some (Ok ())) else reconnected
      | _ \<Rightarrow> reconnected)"

section \<open>What opening a connection shows the other side\<close>

definition opened_with ::
  "json_parser \<Rightarrow> json_printer \<Rightarrow> lib \<Rightarrow> PublicKey option \<Rightarrow> string \<Rightarrow> 'c ControlConnection \<Rightarrow> control_tick \<Rightarrow> 'c ControlConnection \<Rightarrow> bool" where
  "opened_with J M L p bastionUrl c T c' \<longleftrightarrow>
     (\<exists>orchestratorUrl token connectionUrl controlChannelId version payload sig.
        getConnectionServiceUrl J T bastionUrl = Ok orchestratorUrl \<and> ck_token T = Ok token \<and>
        getControlChannel J M L (kc_privateKey c) T orchestratorUrl token = Ok (connectionUrl, controlChannelId) \<and> kc_version c = Some version \<and>
        kc_authorization c' = Some (bearer token) \<and> kc_message c' = Some (EncodeToString payload) \<and> kc_signature c' = Some sig \<and>
        J payload = Some (OpenControlChannel_json (ck_now T) controlChannelId connectionUrl version) \<and> PublicKey_Verify L p payload sig = Ok True)"

lemma control_attempt_keeps:
  "control_attempt J M L u c T = (c', r) \<Longrightarrow> kc_privateKey c' = kc_privateKey c \<and> kc_version c' = kc_version c"
  by (auto simp: control_attempt_def Let_def split: res.splits option.splits prod.splits)

lemma control_attempt_opens:
  assumes "framed_json J M" "key_pair L p (kc_privateKey c)" "control_attempt J M L u c T = (c', r)" "\<not> kc_ready c"
  shows "(kc_ready c' \<longleftrightarrow> r = Some (Ok ())) \<and> (r = Some (Ok ()) \<longrightarrow> opened_with J M L p u c T c' \<and> sr_sending (kc_client c') \<and> sr_main (kc_client c'))"
proof -
  have conn: "SignalR_Connect a b d s = (s', Some (Ok ())) \<Longrightarrow> sr_sending s' \<and> sr_main s'" for a b d s s'
    by (auto simp: SignalR_Connect_def Let_def split: res.splits prod.splits option.splits)
  have sig: "PublicKey_Verify L p x y = Ok True" if "PrivateKey_Sign L (kc_privateKey c) x = Ok y" for x y
    using key_pair_Verify [OF assms(2), of x] that by auto
  have b: "\<exists>payload. msg = EncodeToString payload \<and> J payload = Some (OpenControlChannel_json now i cu v) \<and> PublicKey_Verify L p payload sg = Ok True"
    if "buildOpenControlChannelMessage M L (kc_privateKey c) now v cu i = Ok (msg, sg)" for now v cu i msg sg
  proof -
    let ?x = "M (OpenControlChannel_json now i cu v)"
    have "msg = EncodeToString ?x \<and> PrivateKey_Sign L (kc_privateKey c) ?x = Ok sg"
      using that by (cases "PrivateKey_Sign L (kc_privateKey c) ?x") (simp_all add: buildOpenControlChannelMessage_def Let_def)
    then show ?thesis using sig assms(1) by (auto simp: framed_json_def)
  qed
  show ?thesis using assms(3,4)
    by (auto simp: control_attempt_def opened_with_def Let_def dest!: conn b split: res.splits option.splits prod.splits)
qed

lemma opened_with_cong: "kc_privateKey c1 = kc_privateKey c \<Longrightarrow> kc_version c1 = kc_version c \<Longrightarrow> opened_with J M L p u c1 T c' = opened_with J M L p u c T c'"
  by (simp add: opened_with_def)

lemma control_connect_loop_opens:
  assumes "framed_json J M" "key_pair L p (kc_privateKey c)" "control_connect_loop J M L u c es = (c', Some (Ok ()))" "\<not> kc_ready c" "KDying \<notin> set es"
  shows "kc_ready c' \<and> sr_sending (kc_client c') \<and> sr_main (kc_client c') \<and> (\<exists>T. KTick T \<in> set es \<and> opened_with J M L p u c T c')"
  using assms(2-)
proof (induction es arbitrary: c)
  case (Cons e es)
  show ?case
  proof (cases e)
    case (KTick T)
    obtain c1 r where a: "control_attempt J M L u c T = (c1, r)" by fastforce
    note o = control_attempt_opens [OF assms(1) Cons.prems(1) a Cons.prems(3)] and k = control_attempt_keeps [OF a]
    show ?thesis
    proof (cases r)
      case None
      then have "control_connect_loop J M L u c1 es = (c', Some (Ok ()))" "\<not> kc_ready c1" using Cons.prems(2) a o KTick by simp_all
      then show ?thesis using Cons.IH [of c1] Cons.prems(1,4) k KTick opened_with_cong [of c1 c] by auto
    next
      case (Some v)
      then show ?thesis using Cons.prems(2) a o KTick by auto
    qed
  qed (use Cons.prems in auto)
qed simp

text \<open>
  C12. A control connection that is open was opened with the agent's key: the node that the
  orchestrator assigned is told, in a message that decodes to its own address, the channel's id
  and the agent's version, signed so that it verifies under the agent's public key, with
  the identity token as the authorisation; and the messenger is sending.
\<close>

theorem control_connection_authenticated:
  assumes "framed_json J M" and "key_pair L p (kc_privateKey c)" and "\<not> kc_ready c" and "KDying \<notin> set es"
    and "control_connect J M L bastionUrl c es = (c', Some (Ok ()))"
  shows "kc_ready c' \<and> sr_sending (kc_client c') \<and> sr_main (kc_client c') \<and> (\<exists>T. KTick T \<in> set es \<and> opened_with J M L p bastionUrl c T c')"
  using assms(5) control_connect_loop_opens [OF assms(1,2) _ assms(3,4)] by (simp add: control_connect_def split: res.splits)

section \<open>Losing the connection\<close>

lemma client_done_ends_sending:
  assumes "sr_main s" "sr_sending s" "tomb_Alive (sr_tomb s)" "tb_running (sr_tomb s) = 2"
  shows "\<not> sr_sending (sr_send_turn M sent (fst (sr_turn J s SClientDone)))" "\<not> tomb_Alive (sr_tomb (sr_send_turn M sent (fst (sr_turn J s SClientDone))))"
    "tb_running (sr_tomb (sr_send_turn M sent (fst (sr_turn J s SClientDone)))) = 0"
    "tb_killed (sr_tomb (sr_send_turn M sent (fst (sr_turn J s SClientDone)))) = Some (Some (errorf ''closed websocket''))"
  using assms by (simp_all add: sr_turn_def sr_return_def sr_send_turn_def tomb_return_def tomb_Kill_def tomb_Alive_def Let_def)

lemma SignalR_Connect_fresh:
  assumes "\<not> tomb_Alive (sr_tomb s)"
  shows "\<exists>s'. SignalR_Connect (Ok ()) (Ok ()) (Ok ()) s = (s', Some (Ok ())) \<and> sr_sending s' \<and> sr_main s' \<and> tomb_Alive (sr_tomb s') \<and>
    tracker_IsEmpty (sr_invocator s') \<and> ws_written (sr_client s') = ws_written (sr_client s) @ [handshake]"
  using assms by (auto simp: SignalR_Connect_def Websocket_Dial_def Websocket_Send_def tomb_Alive_def tracker_IsEmpty_def NewInvocationTracker_def Let_def
     tomb_new_def tomb_Go_def)

text \<open>
  Losing the websocket is not always survived. When it is noticed before anything is sent,
  connecting again gives a working messenger with no pending invocations; when a message
  of the control channel waits and is taken first, that call never comes back and, as the
  loop is the one that would connect again, the agent stays offline.
\<close>

theorem lost_connection_blocks:
  assumes "sr_main (kc_client c)" and "sr_sending (kc_client c)" and "tomb_Alive (sr_tomb (kc_client c))" and "tb_running (sr_tomb (kc_client c)) = 2"
    and "kc_sendQueue c = m # q" and "is_ok (control_targetSelectHandler m)"
    and "s = sr_send_turn M sent (fst (sr_turn J (kc_client c) SClientDone))"
  shows "snd (control_loop_turn J M marshal L C bastionUrl (c\<lparr>kc_client := s\<rparr>) (KcQueue sent')) = None \<and>
    (\<exists>s'. SignalR_Connect (Ok ()) (Ok ()) (Ok ()) s = (s', Some (Ok ())) \<and> sr_sending s' \<and> tomb_Alive (sr_tomb s') \<and> tracker_IsEmpty (sr_invocator s'))"
proof
  note d = client_done_ends_sending [OF assms(1-4), of M sent J, folded assms(7)]
  show "snd (control_loop_turn J M marshal L C bastionUrl (c\<lparr>kc_client := s\<rparr>) (KcQueue sent')) = None"
    using assms(5,6) d(1) by (cases "control_targetSelectHandler m") (auto simp: control_loop_turn_def queue_turn_def SignalR_Send_def Let_def split: prod.splits)
  show "\<exists>s'. SignalR_Connect (Ok ()) (Ok ()) (Ok ()) s = (s', Some (Ok ())) \<and> sr_sending s' \<and> tomb_Alive (sr_tomb s') \<and> tracker_IsEmpty (sr_invocator s')"
    using SignalR_Connect_fresh [OF d(2)] by blast
qed

section \<open>A normal closure\<close>

definition Close_json :: "string \<Rightarrow> jvalue" where
  "Close_json e = VObject [(''type'', VNumber CloseType), (''error'', VString e)]"

lemma unwrap_message_keeps_reason:
  "tb_killed (sr_tomb s) = Some (Some e) \<Longrightarrow> tb_killed (sr_tomb (fst (unwrap_message J s raw))) = Some (Some e)"
  by (auto simp: unwrap_message_def processCloseMessage_def processCompletionMessage_def tomb_Kill_def when_back_def Let_def split: option.splits prod.splits)

lemma unwrap_keeps_reason:
  "tb_killed (sr_tomb s) = Some (Some e) \<Longrightarrow> tb_killed (sr_tomb (fst (unwrap J s raw))) = Some (Some e)"
proof -
  have "tb_killed (sr_tomb s) = Some (Some e) \<Longrightarrow> tb_killed (sr_tomb (fst (unwrap_all J s raws))) = Some (Some e)" for raws
  proof (induction J s raws rule: unwrap_all.induct)
    case (2 J s raw raws)
    show ?case using 2 unwrap_message_keeps_reason [of s e J raw] by (auto split: prod.splits option.splits res.splits)
  qed simp
  then show "tb_killed (sr_tomb s) = Some (Some e) \<Longrightarrow> ?thesis" by (simp add: unwrap_def)
qed

lemma endgame_keeps_reason:
  "tb_killed (sr_tomb s) = Some (Some e) \<Longrightarrow> tb_killed (sr_tomb (fst (avengersEndgame J s es))) = Some (Some e)"
proof (induction J s es rule: avengersEndgame.induct)
  case (3 J s raw es)
  show ?case using 3 unwrap_keeps_reason [of s e J raw] by (auto split: prod.splits option.splits res.splits)
qed auto

lemma sr_turn_keeps_reason:
  assumes "tb_killed (sr_tomb s) = Some (Some e)"
  shows "tb_killed (sr_tomb (fst (sr_turn J s ev))) = Some (Some e)"
proof -
  have r: "tb_killed (sr_tomb s) = Some (Some e) \<Longrightarrow> tb_killed (sr_tomb (sr_return s err)) = Some (Some e)" for s :: SignalR and err
    by (simp add: sr_return_def tomb_return_def tomb_Kill_def Let_def)
  have c: "tb_killed (sr_tomb s) = Some (Some e) \<Longrightarrow> tb_killed (sr_tomb (fst (close_client s a b))) = Some (Some e)" for s :: SignalR and a b
    using r by (auto simp: close_client_def split: prod.splits option.splits res.splits)
  show ?thesis
  proof (cases ev)
    case (SDying es)
    obtain s1 x where "avengersEndgame J s es = (s1, x)" by fastforce
    then show ?thesis using assms c [of s1] endgame_keeps_reason [OF assms, of J es] SDying
      by (auto simp: sr_turn_def split: option.splits res.splits)
  next
    case (SInbound raw)
    obtain s1 x where "unwrap J s raw = (s1, x)" by fastforce
    then show ?thesis using assms unwrap_keeps_reason [OF assms, of J raw] SInbound by (auto simp: sr_turn_def split: option.splits res.splits)
  qed (use assms r c in \<open>auto simp: sr_turn_def Let_def\<close>)
qed

lemma sr_send_turn_keeps_reason:
  "tb_killed (sr_tomb s) = Some (Some e) \<Longrightarrow> tb_killed (sr_tomb (sr_send_turn M sent s)) = Some (Some e)"
  by (auto simp: sr_send_turn_def sr_ping_def tomb_return_def tomb_Kill_def Let_def split: prod.splits)

lemma close_received:
  assumes "framed_json J M" "sr_main s" "tomb_Alive (sr_tomb s)"
  shows "tb_killed (sr_tomb (fst (sr_turn J s (SInbound (M (Close_json e) @ [TerminatorByte]))))) = Some (Some (WebsocketNormalClosure e))"
proof -
  have j: "J (M v) = Some v" "TerminatorByte \<notin> set (M v)" "2 < length (M (Close_json e))" for v using assms(1) by (simp_all add: framed_json_def Close_json_def)
  have r: "read_type J (M (Close_json e)) = Some CloseType" "read_Close J (M (Close_json e)) = Some e"
    by (simp_all add: read_type_def read_Close_def read_struct_def j)
       (simp_all add: Close_json_def CloseType_def int_field_def bool_field_def text_field_def string_field_def struct_field_def to_lower_def decode_element_def)
  have "split (M (Close_json e) @ [TerminatorByte]) [TerminatorByte] = [M (Close_json e), []]"
    using split_frames [of "[M (Close_json e)]" TerminatorByte] j(2) by simp
  then have "unwrap J s (M (Close_json e) @ [TerminatorByte]) = (s\<lparr>sr_tomb := tomb_Kill (sr_tomb s) (Some (WebsocketNormalClosure e))\<rparr>, Some (Ok ()))"
    using j(3) r by (simp add: unwrap_def unwrap_message_def processCloseMessage_def)
  then show ?thesis using assms(2,3) by (simp add: sr_turn_def tomb_Kill_def tomb_Alive_def)
qed

text \<open>
  The daemon gives up exactly when the server says goodbye: after a close message, whatever
  the messenger does until it has ended, the connection ends with the server's error and
  nothing is tried; after a websocket that just ended it connects again, and ends only
  when that fails.
\<close>

theorem daemon_gives_up_on_closure:
  assumes "framed_json J M" and "sr_main s" and "tomb_Alive (sr_tomb s)" and "dn_killed c = None"
    and "closed = sr_send_turn M sent (fst (sr_turn J (fst (sr_turn J s (SInbound (M (Close_json e) @ [TerminatorByte])))) (SDying es)))"
    and "lost = sr_send_turn M sent (fst (sr_turn J s SClientDone))"
  shows "daemon_client_done c closed events rv = (c\<lparr>dn_ready := False, dn_killed := Some (WebsocketNormalClosure e)\<rparr>, Some (Ok ())) \<and>
    (daemon_connect ''168h0m0s'' events = Some (Ok ()) \<longrightarrow> daemon_client_done c lost events WReady =
       (if dn_agentReady c then (c\<lparr>dn_ready := False, dn_agentReady := False\<rparr>, Some (Ok ())) else (c\<lparr>dn_ready := False\<rparr>, None))) \<and>
    (\<forall>err. daemon_connect ''168h0m0s'' events = Some (Err err) \<longrightarrow>
       daemon_client_done c lost events rv = (c\<lparr>dn_ready := False, dn_killed := Some err\<rparr>, Some (Ok ())))"
proof -
  have k: "tb_killed (sr_tomb closed) = Some (Some (WebsocketNormalClosure e))"
    unfolding assms(5) by (intro sr_send_turn_keeps_reason sr_turn_keeps_reason close_received assms(1-3))
  have l: "tb_killed (sr_tomb lost) = Some (Some (errorf ''closed websocket''))" unfolding assms(6)
    by (intro sr_send_turn_keeps_reason) (use assms(2,3) in \<open>simp add: sr_turn_def sr_return_def tomb_return_def tomb_Kill_def tomb_Alive_def Let_def\<close>)
  have n: "errors_As WebsocketNormalClosureError (WebsocketNormalClosure e)" by (simp add: WebsocketNormalClosure_def errors_As_def)
  show ?thesis using assms(4) by (auto simp: daemon_client_done_def k l n Let_def daemon_conn_kill_def waitForAgentReady_def)
qed

section \<open>Witnesses\<close>

definition wit_connection :: "unit ControlConnection" where
  "wit_connection = ControlConnection_New (SignalR_New Websocket_New) (Some (Some (wit_key @ wit_key))) (Some ''1'')"

definition wit_control_tick :: control_tick where
  "wit_control_tick = \<lparr> ck_now = 0, ck_http = (\<lambda>_. Ok []), ck_token = Ok ''t'', ck_parse = (\<lambda>_. Ok ()), ck_url = Ok (), ck_dialled = Ok (), ck_sent = Ok () \<rparr>"

theorem control_connection_authenticated_witness:
  "\<exists>c'. control_connect (\<lambda>s. codec_parse (unescape s)) (\<lambda>v. escape (codec_print v)) wit_nonce_lib ''https://b'' wit_connection [KTick wit_control_tick] = (c', Some (Ok ())) \<and>
     kc_authorization c' = Some ''Bearer t''"
proof -
  let ?J = "\<lambda>s. codec_parse (unescape s)" and ?M = "\<lambda>v. escape (codec_print v)"
  have k: "key_pair wit_nonce_lib (Some (Some wit_key)) (kc_privateKey wit_connection)"
    by (simp add: key_pair_def sign_correct_def wit_nonce_lib_def wit_connection_def ControlConnection_New_def)
  then obtain sg where sg: "\<And>x. PrivateKey_Sign wit_nonce_lib (kc_privateKey wit_connection) x = Ok (sg x)"
    using key_pair_Verify by metis
  have u: "url_ParseRequestURI wit_nonce_lib ''https://b'' = Ok ''https://b''" by (simp add: wit_nonce_lib_def)
  have v: "kc_version wit_connection = Some ''1''" "kc_client wit_connection = SignalR_New Websocket_New" by (simp_all add: wit_connection_def ControlConnection_New_def)
  have "\<exists>s'. SignalR_Connect (Ok ()) (Ok ()) (Ok ()) (SignalR_New Websocket_New) = (s', Some (Ok ()))"
    by (simp add: SignalR_Connect_def SignalR_New_def Websocket_Dial_def Websocket_Send_def Websocket_New_def Let_def)
  then have "\<exists>c'. control_connect ?J ?M wit_nonce_lib ''https://b'' wit_connection [KTick wit_control_tick] = (c', Some (Ok ()))"
    using sg by (auto simp: control_connect_def u control_attempt_def getConnectionServiceUrl_def getControlChannel_def wit_control_tick_def
        buildOpenControlChannelMessage_def v Let_def)
  then obtain c' where c: "control_connect ?J ?M wit_nonce_lib ''https://b'' wit_connection [KTick wit_control_tick] = (c', Some (Ok ()))" by blast
  have r: "\<not> kc_ready wit_connection" "KDying \<notin> set [KTick wit_control_tick]" by (simp_all add: wit_connection_def ControlConnection_New_def)
  show ?thesis using control_connection_authenticated [OF wit_framed k r c] c by (auto simp: opened_with_def wit_control_tick_def bearer_def)
qed

definition wit_beat :: AgentMessage where
  "wit_beat = wit_wire\<lparr>am_MessageType := MTHealthCheck\<rparr>"

theorem lost_connection_blocks_witness:
  "\<exists>c :: unit ControlConnection. snd (control_loop_turn (\<lambda>_. None) codec_print (\<lambda>_. VNull) wit_nonce_lib \<lparr> ch_Receive = (\<lambda>c m. Some c), ch_Close = (\<lambda>c e. (c, [])) \<rparr> [] c (KcQueue (Ok ()))) = None"
proof -
  let ?c = "wit_connection\<lparr>kc_client := wit_messenger\<lparr>sr_tomb := \<lparr> tb_killed = None, tb_started = True, tb_running = 2 \<rparr>\<rparr>, kc_sendQueue := [wit_beat]\<rparr>"
  have "sr_main (kc_client ?c)" "sr_sending (kc_client ?c)" "tomb_Alive (sr_tomb (kc_client ?c))" "tb_running (sr_tomb (kc_client ?c)) = 2"
    "kc_sendQueue ?c = wit_beat # []" "is_ok (control_targetSelectHandler wit_beat)"
    by (simp_all add: wit_messenger_def tomb_Alive_def wit_beat_def control_targetSelectHandler_def)
  from lost_connection_blocks [where J = "\<lambda>_. None" and M = codec_print, OF this refl] show ?thesis by blast
qed

theorem daemon_gives_up_on_closure_witness:
  "\<exists>s. \<forall>rv. daemon_client_done \<lparr> dn_ready = True, dn_broker = ([] :: unit broker), dn_sendQueue = [], dn_agentReady = False, dn_killed = None \<rparr> s [] rv =
     (\<lparr> dn_ready = False, dn_broker = [], dn_sendQueue = [], dn_agentReady = False, dn_killed = Some (WebsocketNormalClosure ''x'') \<rparr>, Some (Ok ()))"
proof -
  let ?d = "\<lparr> dn_ready = True, dn_broker = ([] :: unit broker), dn_sendQueue = [], dn_agentReady = False, dn_killed = None \<rparr>"
  have w: "sr_main wit_messenger" "tomb_Alive (sr_tomb wit_messenger)" "dn_killed ?d = None" by (simp_all add: wit_messenger_def SignalR_New_def)
  show ?thesis using daemon_gives_up_on_closure [OF wit_framed w refl refl, where e = "''x''" and events = "[]" and es = "[]"] by auto
qed

end
