(* ===== verification/Db_Pwdb.thy ===== *)
theory Db_Pwdb
  imports Db_Dial Key_Shard_Config
begin

text \<open>
  \<^verbatim>\<open>bctl/agent/plugin/db/actions/pwdb\<close>, \<^verbatim>\<open>bctl/daemon/plugin/db/actions/pwdb\<close> and \<^verbatim>\<open>bzerolib/plugin/db\<close>:
  databases without passwords. The agent connects as the target user, with a certificate that
  Bastion has to sign as well, or with a token of the cloud the database is in. Cryptography,
  the clouds and the network are arguments.
\<close>

section \<open>Errors\<close>

definition wrapped :: "errkind \<Rightarrow> string \<Rightarrow> gerror \<Rightarrow> gerror" where
  "wrapped k text e = GErr (text @ '': '' @ etext e) (k # ekinds e)"

definition NewConnectionRefusedError :: "gerror \<Rightarrow> gerror" where
  "NewConnectionRefusedError = wrapped ConnectionRefusedError ConnectionRefusedString"

definition NewConnectionFailedError :: "gerror \<Rightarrow> gerror" where
  "NewConnectionFailedError = wrapped ConnectionFailedError ConnectionFailedErrorString"

definition TLSDisabled :: gerror where
  "TLSDisabled = GErr TLSDisabledErrorString [TLSDisabledError]"

definition NewClientCertCosignError :: "gerror \<Rightarrow> gerror" where
  "NewClientCertCosignError = wrapped ClientCertCosignError ClientCertCosignErrorString"

definition NewMissingKeyError :: "gerror \<Rightarrow> gerror" where
  "NewMissingKeyError = wrapped PwdbMissingKeyError PwdbMissingKeyErrorString"

definition NewPwdbUnknownAuthorityError :: "gerror \<Rightarrow> gerror" where
  "NewPwdbUnknownAuthorityError = wrapped PwdbUnknownAuthorityError UnrecognizedRootCertErrorString"

definition NewServerCertificateExpired :: "gerror \<Rightarrow> gerror" where
  "NewServerCertificateExpired e = GErr (etext e) [ServerCertificateExpired]"

definition NewIncorrectServerName :: "gerror \<Rightarrow> gerror" where
  "NewIncorrectServerName e = GErr (etext e) [IncorrectServerName]"

section \<open>The client certificate\<close>

record cert_template =
  ct_SerialNumber :: int
  ct_CommonName :: string
  ct_NotBefore :: int
  ct_NotAfter :: int
  ct_ExtKeyUsage :: "string list"
  ct_KeyUsage :: string

record tls_config =
  tl_ServerName :: string
  tl_RootCAs :: "string list"
  tl_Certificates :: "(string \<times> string) list"

datatype 'c handshake = Shaken 'c | UnknownAuthority gerror | ShakeFailed gerror

text \<open>
  Keys and certificates are their encodings; a certificate that was generated or signed is what
  the library or Bastion returned. \<^verbatim>\<open>pe_conn_read\<close> is the first read of a connection.
\<close>

record 'c pwdb_env =
  pe_now :: int
  pe_GenerateSerialNumber :: "int res"
  pe_LoadCA :: "string \<Rightarrow> string \<Rightarrow> unit res"
  pe_GenerateKey :: "(string \<times> string) res"
  pe_SplitGenerate :: "cert_template \<Rightarrow> string \<Rightarrow> string \<Rightarrow> string \<Rightarrow> string res"
  pe_EncodeShard :: "string \<Rightarrow> string res"
  pe_Cosign :: "string \<Rightarrow> string \<Rightarrow> string \<Rightarrow> string \<Rightarrow> string res"
  pe_CertPem :: "string \<Rightarrow> string res"
  pe_KeyPem :: "string \<Rightarrow> string res"
  pe_X509KeyPair :: "string \<Rightarrow> string \<Rightarrow> (string \<times> string) res"
  pe_DialTimeout :: "string \<Rightarrow> 'c res"
  pe_Write :: "'c \<Rightarrow> string \<Rightarrow> 'c \<times> unit res"
  pe_Read :: "'c \<Rightarrow> 'c \<times> string res"
  pe_Handshake :: "tls_config \<Rightarrow> 'c \<Rightarrow> 'c handshake"
  pe_GcpToken :: "string \<Rightarrow> string res"
  pe_GcpDial :: "string \<Rightarrow> string \<Rightarrow> 'c res"
  pe_RdsToken :: "string \<Rightarrow> string \<Rightarrow> string \<Rightarrow> string res"
  pe_ProxyDial :: "string \<Rightarrow> string \<Rightarrow> string \<Rightarrow> 'c res"

definition generateClientCertificate :: "'c pwdb_env \<Rightarrow> string \<Rightarrow> int \<Rightarrow> cert_template res" where
  "generateClientCertificate E username lifetime =
     res_map (\<lambda>n. \<lparr> ct_SerialNumber = n, ct_CommonName = username, ct_NotBefore = pe_now E, ct_NotAfter = pe_now E + lifetime,
         ct_ExtKeyUsage = [''ClientAuth''], ct_KeyUsage = ''DigitalSignature'' \<rparr>) (pe_GenerateSerialNumber E)"

definition requestCosign :: "lib \<Rightarrow> 'c pwdb_env \<Rightarrow> string \<Rightarrow> string \<Rightarrow> string \<Rightarrow> string \<Rightarrow> string res" where
  "requestCosign L E targetUser clientCert clientPubKey privKey =
     (case pe_EncodeShard E privKey of
        Err e \<Rightarrow> Err (errorf_s ''failed to encode split private key: '' e) | Panic \<Rightarrow> Panic
      | Ok agentKeyPem \<Rightarrow>
         wrap_err (errorf_s ''cosign request to bastion failed: '') (pe_Cosign E targetUser clientCert clientPubKey (EncodeToString (sha3 L agentKeyPem))))"

definition generateClientCert :: "lib \<Rightarrow> 'c pwdb_env \<Rightarrow> KeyEntry \<Rightarrow> string \<Rightarrow> (string \<times> string) res" where
  "generateClientCert L E keyData targetUser =
     (case pe_LoadCA E (CaCertPem keyData) (KeyShardPem keyData) of
        Err e \<Rightarrow> Err (errorf_w ''malformed ca certificate: '' e) | Panic \<Rightarrow> Panic
      | Ok _ \<Rightarrow>
     (case pe_GenerateKey E of
        Err e \<Rightarrow> Err (errorf_w ''error generating rsa key: '' e) | Panic \<Rightarrow> Panic
      | Ok (privKey, pubKey) \<Rightarrow>
     (case generateClientCertificate E targetUser 3600 of
        Err e \<Rightarrow> Err (errorf_w ''failed to generate client certificate template: '' e) | Panic \<Rightarrow> Panic
      | Ok ccTemplate \<Rightarrow>
     (case pe_SplitGenerate E ccTemplate (CaCertPem keyData) pubKey (KeyShardPem keyData) of
        Err e \<Rightarrow> Err (errorf_w ''failed to create new client certificate: '' e) | Panic \<Rightarrow> Panic
      | Ok clientCert \<Rightarrow>
     (case requestCosign L E targetUser clientCert pubKey (KeyShardPem keyData) of
        Err e \<Rightarrow> Err (NewClientCertCosignError e) | Panic \<Rightarrow> Panic
      | Ok signedCert \<Rightarrow>
     (case pe_CertPem E signedCert of
        Err e \<Rightarrow> Err (errorf_w ''received signed certificate was not pem-encodable: '' e) | Panic \<Rightarrow> Panic
      | Ok certPem \<Rightarrow>
     (case pe_KeyPem E privKey of
        Err e \<Rightarrow> Err (errorf_w ''failed to pem-encode the rsa private key: '' e) | Panic \<Rightarrow> Panic
      | Ok keyPem \<Rightarrow> pe_X509KeyPair E certPem keyPem)))))))"

definition upgradeConnection :: "lib \<Rightarrow> 'c pwdb_env \<Rightarrow> string \<Rightarrow> KeyEntry \<Rightarrow> 'c \<Rightarrow> string \<Rightarrow> 'c res" where
  "upgradeConnection L E remoteHost keyData connection role =
     (case generateClientCert L E keyData role of
        Err e \<Rightarrow> Err e | Panic \<Rightarrow> Panic
      | Ok cert \<Rightarrow>
         (case pe_Handshake E \<lparr> tl_ServerName = remoteHost, tl_RootCAs = [CaCertPem keyData], tl_Certificates = [cert] \<rparr> connection of
            Shaken client \<Rightarrow> Ok client
          | UnknownAuthority e \<Rightarrow> Err (NewPwdbUnknownAuthorityError e)
          | ShakeFailed e \<Rightarrow>
              Err (if contains (etext e) ServerCertificateExpiredString then NewServerCertificateExpired e
                   else if contains (etext e) IncorrectServerNameString then NewIncorrectServerName e else e)))"

text \<open>The request for TLS: its length and the code 80877103, four bytes each.\<close>

definition SSLRequest_bytes :: string where
  "SSLRequest_bytes = map char_of [0, 0, 0, 8, 4, 210, 22, 47 :: nat]"

text \<open>An answer of no bytes leaves the buffer of zeros, which is not the answer that allows TLS.\<close>

definition pwdb_connect :: "lib \<Rightarrow> 'c pwdb_env \<Rightarrow> string \<Rightarrow> int \<Rightarrow> KeyEntry \<Rightarrow> string \<Rightarrow> 'c res" where
  "pwdb_connect L E remoteHost remotePort keyData targetUser =
     (case pe_DialTimeout E (remoteHost @ '':'' @ show_int remotePort) of
        Err e \<Rightarrow> Err (NewConnectionRefusedError e) | Panic \<Rightarrow> Panic
      | Ok connection \<Rightarrow>
         (case pe_Write E connection SSLRequest_bytes of
            (_, Err e) \<Rightarrow> Err (errorf_s ''error sending initial TLS request to database: '' e) | (_, Panic) \<Rightarrow> Panic
          | (c1, Ok _) \<Rightarrow>
             (case pe_Read E c1 of
                (_, Err e) \<Rightarrow> Err (errorf_s ''error receiving initial TLS response from database: '' e) | (_, Panic) \<Rightarrow> Panic
              | (c2, Ok response) \<Rightarrow>
                  if \<not> has_prefix ''S'' response then Err TLSDisabled else upgradeConnection L E remoteHost keyData c2 targetUser)))"

section \<open>Clouds\<close>

text \<open>An index out of range panics.\<close>

definition field_at :: "string list \<Rightarrow> int \<Rightarrow> string res" where
  "field_at fs i = (if 0 \<le> i \<and> i < int (length fs) then Ok (fs ! nat i) else Panic)"

definition gcpDial :: "'c pwdb_env \<Rightarrow> string \<Rightarrow> string \<Rightarrow> 'c res" where
  "gcpDial E remoteHost targetUser =
     (if \<not> has_prefix ''gcp://'' remoteHost then Err (errorf (''gcpDial called with remoteHost='' @ remoteHost))
      else (case field_at (split remoteHost ''gcp://'') 1 of
              Ok instanceConnectionName \<Rightarrow>
                (case pe_GcpToken E targetUser of Err e \<Rightarrow> Err e | Panic \<Rightarrow> Panic | Ok gcpToken \<Rightarrow> pe_GcpDial E gcpToken instanceConnectionName)
            | Err e \<Rightarrow> Err e | Panic \<Rightarrow> Panic))"

definition rdsDial :: "'c pwdb_env \<Rightarrow> string \<Rightarrow> int \<Rightarrow> string \<Rightarrow> 'c res" where
  "rdsDial E remoteHost remotePort targetUser =
     (if \<not> has_prefix ''rds://'' remoteHost \<or> \<not> contains remoteHost ''.rds.amazonaws.com''
      then Err (errorf (''rdsDial called with remoteHost='' @ remoteHost))
      else (case field_at (split remoteHost ''rds://'') 1 of
              Ok dbHost \<Rightarrow>
                let dbEndpoint = dbHost @ '':'' @ show_int remotePort; hostParts = split dbHost ''.'' in
                (case field_at hostParts (int (length hostParts) - 4) of
                   Ok region \<Rightarrow>
                     (case pe_RdsToken E dbEndpoint region targetUser of
                        Err e \<Rightarrow> Err e | Panic \<Rightarrow> Panic
                      | Ok authenticationToken \<Rightarrow> pe_ProxyDial E targetUser authenticationToken dbEndpoint)
                 | Err e \<Rightarrow> Err e | Panic \<Rightarrow> Panic)
            | Err e \<Rightarrow> Err e | Panic \<Rightarrow> Panic))"

section \<open>The action of the agent\<close>

record 'c Pwdb =
  pw_tomb :: tomb
  pw_doneClosed :: bool
  pw_stream :: "StreamMessage list"
  pw_remoteHost :: string
  pw_remotePort :: int
  pw_remoteConn :: "'c option"
  pw_routines :: "int option list"

definition Pwdb_New :: "string \<Rightarrow> int \<Rightarrow> 'c Pwdb" where
  "Pwdb_New remoteHost remotePort = \<lparr> pw_tomb = tomb_new, pw_doneClosed = False, pw_stream = [], pw_remoteHost = remoteHost, pw_remotePort = remotePort,
     pw_remoteConn = None, pw_routines = [] \<rparr>"

definition Pwdb_Kill :: "'c Pwdb \<Rightarrow> 'c Pwdb \<times> bool" where
  "Pwdb_Kill p = (if tomb_Alive (pw_tomb p) then (p\<lparr>pw_tomb := tomb_Kill (pw_tomb p) None\<rparr>, tomb_Waits (pw_tomb p)) else (p, True))"

definition pwdb_sendStreamMessage :: "'c Pwdb \<Rightarrow> int \<Rightarrow> string \<Rightarrow> bool \<Rightarrow> string \<Rightarrow> 'c Pwdb" where
  "pwdb_sendStreamMessage p sequenceNumber streamType moreMessages contentBytes =
     p\<lparr>pw_stream := pw_stream p @ [\<lparr> sm_RequestId = [], sm_SchemaVersion = [], sm_SequenceNumber = sequenceNumber,
         sm_Action = ''pwdb'', sm_Type = streamType, sm_More = moreMessages, sm_LogId = [], sm_Content = EncodeToString contentBytes \<rparr>]\<rparr>"

definition pwdb_dial :: "lib \<Rightarrow> 'c pwdb_env \<Rightarrow> (string \<Rightarrow> KeyEntry res) \<Rightarrow> 'c Pwdb \<Rightarrow> string \<Rightarrow> string \<Rightarrow> 'c res" where
  "pwdb_dial L E lastKey p targetId targetUser =
     (if has_prefix ''gcp://'' (pw_remoteHost p) then wrap_err NewConnectionFailedError (gcpDial E (pw_remoteHost p) targetUser)
      else if has_prefix ''rds://'' (pw_remoteHost p) then wrap_err NewConnectionFailedError (rdsDial E (pw_remoteHost p) (pw_remotePort p) targetUser)
      else (case lastKey targetId of
              Err e \<Rightarrow> Err (NewMissingKeyError e) | Panic \<Rightarrow> Panic
            | Ok keydata \<Rightarrow> wrap_err NewConnectionFailedError (pwdb_connect L E (pw_remoteHost p) (pw_remotePort p) keydata targetUser)))"

definition pwdb_start ::
  "lib \<Rightarrow> 'c pwdb_env \<Rightarrow> (string \<Rightarrow> KeyEntry res) \<Rightarrow> 'c Pwdb \<Rightarrow> string \<Rightarrow> string \<Rightarrow> 'c Pwdb \<times> unit res" where
  "pwdb_start L E lastKey p targetId targetUser =
     (case pwdb_dial L E lastKey p targetId targetUser of
        Err e \<Rightarrow> (p, Err e) | Panic \<Rightarrow> (p, Panic)
      | Ok c \<Rightarrow>
         (case tomb_Go (pw_tomb p) of
            Ok t \<Rightarrow> (p\<lparr>pw_remoteConn := Some c, pw_tomb := t, pw_routines := pw_routines p @ [Some 0]\<rparr>, Ok ())
          | _ \<Rightarrow> (p\<lparr>pw_remoteConn := Some c\<rparr>, Panic)))"

definition pwdb_writeToConnection :: "'c pwdb_env \<Rightarrow> 'c Pwdb \<Rightarrow> string \<Rightarrow> 'c Pwdb \<times> unit res" where
  "pwdb_writeToConnection E p data =
     (case pw_remoteConn p of
        None \<Rightarrow> (p, Err (errorf ''attempted to write to connection before it was established''))
      | Some c \<Rightarrow>
         (case pe_Write E c data of
            (c', r) \<Rightarrow> (p\<lparr>pw_remoteConn := Some c'\<rparr>,
              if \<not> tomb_Alive (pw_tomb p) then Ok () else wrap_err (errorf_s ''error writing to local connection: '') r)))"

definition ConnectPayload_json :: "string \<Rightarrow> string \<Rightarrow> string \<Rightarrow> jvalue" where
  "ConnectPayload_json targetUser targetId version =
     VObject [(''targetUser'', marshal_string targetUser), (''targetId'', marshal_string targetId), (''streamMessageVersion'', marshal_string version)]"

definition read_ConnectPayload :: "json_parser \<Rightarrow> string option \<Rightarrow> (string \<times> string) option" where
  "read_ConnectPayload J pl =
     Option.bind (read_struct J pl) (\<lambda>kvs.
       case (text_field kvs ''targetUser'', text_field kvs ''targetId'', text_field kvs ''streamMessageVersion'') of
         (Some u, Some i, Some _) \<Rightarrow> Some (u, i) | _ \<Rightarrow> None)"

definition InputPayload_json :: "string \<Rightarrow> jvalue" where
  "InputPayload_json data = VObject [(''data'', VString data)]"

definition read_one :: "json_parser \<Rightarrow> string \<Rightarrow> string option \<Rightarrow> string option" where
  "read_one J name pl = Option.bind (read_struct J pl) (\<lambda>kvs. text_field kvs name)"

definition Pwdb_Receive ::
  "lib \<Rightarrow> json_parser \<Rightarrow> 'c pwdb_env \<Rightarrow> (string \<Rightarrow> KeyEntry res) \<Rightarrow> 'c Pwdb \<Rightarrow> string \<Rightarrow> string option \<Rightarrow> 'c Pwdb \<times> string option res option" where
  "Pwdb_Receive L J E lastKey p action pl =
     (if action = ''db/pwdb/connect''
      then (case read_ConnectPayload J pl of
              None \<Rightarrow> (p, Some (Err (errorf ''malformed connect request payload: '')))
            | Some (targetUser, targetId) \<Rightarrow> apsnd (\<lambda>r. Some (res_map (\<lambda>_. None) r)) (pwdb_start L E lastKey p targetId targetUser))
      else if action = ''db/pwdb/input''
      then (case read_one J ''data'' pl of
              None \<Rightarrow> (p, Some (Err (errorf ''malformed input payload: '')))
            | Some text \<Rightarrow>
               (case DecodeString text of
                  None \<Rightarrow> (p, Some (Err (errorf ''input message contained malformed base64 encoded data: '')))
                | Some data \<Rightarrow> apsnd (\<lambda>r. Some (res_map (\<lambda>_. None) r)) (pwdb_writeToConnection E p data)))
      else if action = ''db/pwdb/close''
      then (case read_one J ''reason'' pl of
              None \<Rightarrow> (p, Some (Err (errorf ''malformed close payload: '')))
            | Some _ \<Rightarrow> when_back (Pwdb_Kill p) (Ok pl))
      else (p, Some (Err (errorf (''unrecognized action: '' @ action)))))"

definition pwdb_return :: "'c Pwdb \<Rightarrow> nat \<Rightarrow> gerror option \<Rightarrow> 'c Pwdb \<times> unit res" where
  "pwdb_return p i err =
     (if pw_doneClosed p then (p, Panic)
      else (p\<lparr>pw_doneClosed := True, pw_routines := (pw_routines p)[i := None], pw_tomb := tomb_return (pw_tomb p) err\<rparr>, Ok ()))"

definition pwdb_read_turn :: "'c Pwdb \<Rightarrow> nat \<Rightarrow> io_read \<Rightarrow> 'c Pwdb \<times> unit res" where
  "pwdb_read_turn p i ev =
     (case (if i < length (pw_routines p) then pw_routines p ! i else None) of
        None \<Rightarrow> (p, Ok ())
      | Some n \<Rightarrow>
         if \<not> tomb_Alive (pw_tomb p) then pwdb_return p i None
         else (case ev of
                 IoData b \<Rightarrow>
                   if b = [] then (p, Ok ())
                   else ((pwdb_sendStreamMessage p n ''stream'' True b)\<lparr>pw_routines := (pw_routines p)[i := Some (n + 1)]\<rparr>, Ok ())
               | IoEof b \<Rightarrow> pwdb_return (pwdb_sendStreamMessage p n ''stream'' False b) i (Some (errorf ''EOF''))
               | IoFail b e \<Rightarrow> pwdb_return (pwdb_sendStreamMessage p n ''error'' False (etext e)) i (Some e)))"

fun pwdb_read_turns :: "'c Pwdb \<Rightarrow> nat \<Rightarrow> io_read list \<Rightarrow> 'c Pwdb \<times> unit res" where
  "pwdb_read_turns p i [] = (p, Ok ())"
| "pwdb_read_turns p i (ev # evs) = (case pwdb_read_turn p i ev of (p', Ok _) \<Rightarrow> pwdb_read_turns p' i evs | r \<Rightarrow> r)"

text \<open>The action as the plugin sees it.\<close>

definition pwdb_action_ops :: "lib \<Rightarrow> json_parser \<Rightarrow> 'c pwdb_env \<Rightarrow> (string \<Rightarrow> KeyEntry res) \<Rightarrow> 'c Pwdb action_ops" where
  "pwdb_action_ops L J E lastKey =
     \<lparr> act_New = (\<lambda>host port. Ok (Pwdb_New host port)), act_Receive = Pwdb_Receive L J E lastKey, act_Kill = Pwdb_Kill \<rparr>"

section \<open>The action of the daemon\<close>

record 'c PwdbAction =
  pa_tomb :: tomb
  pa_targetUser :: string
  pa_targetId :: string
  pa_outbox :: "(string \<times> string option) list"
  pa_mrtapInput :: "(string \<times> string option) list"
  pa_doneClosed :: bool
  pa_reading :: bool
  pa_writing :: bool
  pa_lconn :: 'c

definition PwdbAction_New :: "string \<Rightarrow> string \<Rightarrow> 'c \<Rightarrow> 'c PwdbAction" where
  "PwdbAction_New targetUser targetId lconn = \<lparr> pa_tomb = tomb_new, pa_targetUser = targetUser, pa_targetId = targetId, pa_outbox = [], pa_mrtapInput = [],
     pa_doneClosed = False, pa_reading = False, pa_writing = False, pa_lconn = lconn \<rparr>"

definition pa_sendOutputMessage :: "json_printer \<Rightarrow> 'c PwdbAction \<Rightarrow> string \<Rightarrow> jvalue \<Rightarrow> 'c PwdbAction" where
  "pa_sendOutputMessage M a action v = a\<lparr>pa_outbox := pa_outbox a @ [(action, Some (M v))]\<rparr>"

datatype start_event = StMrtap | StTimedOut | StDying

text \<open>
  Starting: the request is sent first and the answer awaited (the second function). The events
  that can happen are those of the state.
\<close>

definition pa_request :: "json_printer \<Rightarrow> 'c PwdbAction \<Rightarrow> 'c PwdbAction" where
  "pa_request M a = pa_sendOutputMessage M a ''db/pwdb/connect'' (ConnectPayload_json (pa_targetUser a) (pa_targetId a) CurrentSchema)"

definition pa_await :: "'c PwdbAction \<Rightarrow> start_event \<Rightarrow> ('c PwdbAction \<times> unit res) option" where
  "pa_await a ev =
     (case ev of
        StMrtap \<Rightarrow>
          (case pa_mrtapInput a of
             [] \<Rightarrow> None
           | (action, _) # rest \<Rightarrow>
              let a1 = a\<lparr>pa_mrtapInput := rest\<rparr> in
              if action = ''db/pwdb/connect''
              then (case tomb_Go (pa_tomb a) of
                      Ok t \<Rightarrow> Some (a1\<lparr>pa_tomb := t\<lparr>tb_running := Suc (tb_running t)\<rparr>, pa_reading := True, pa_writing := True\<rparr>, Ok ())
                    | _ \<Rightarrow> Some (a1, Panic))
              else Some (a1, Err (errorf ''MrTAP message did not correlate with the expected action taken'')))
      | StTimedOut \<Rightarrow> Some (a, Err (errorf ''timed out waiting for a successful connection attempt''))
      | StDying \<Rightarrow> (case tb_killed (pa_tomb a) of None \<Rightarrow> None | Some None \<Rightarrow> Some (a, Ok ()) | Some (Some e) \<Rightarrow> Some (a, Err e)))"

definition pa_read_turn :: "json_printer \<Rightarrow> 'c PwdbAction \<Rightarrow> io_read \<Rightarrow> 'c PwdbAction" where
  "pa_read_turn M a ev =
     (let end = (\<lambda>a err. a\<lparr>pa_reading := False, pa_doneClosed := True, pa_tomb := tomb_return (pa_tomb a) err\<rparr>);
          closing = (\<lambda>e. end (pa_sendOutputMessage M a ''db/pwdb/close'' (VObject [(''reason'', marshal_string (etext e))])) (Some e)) in
      if \<not> pa_reading a then a
      else if \<not> tomb_Alive (pa_tomb a) then end a None
      else (case ev of
              IoData b \<Rightarrow> if b = [] then a else pa_sendOutputMessage M a ''db/pwdb/input'' (InputPayload_json (EncodeToString b))
            | IoEof _ \<Rightarrow> closing (errorf ''EOF'') | IoFail _ e \<Rightarrow> closing e))"

text \<open>
  A round of the routine that writes to the local connection takes the next message as it came;
  when it returns, it closes the connection.
\<close>

definition pa_end_writing :: "'c PwdbAction \<Rightarrow> gerror option \<Rightarrow> 'c PwdbAction" where
  "pa_end_writing a err = a\<lparr>pa_writing := False, pa_tomb := tomb_return (pa_tomb a) err\<rparr>"

definition pa_write_turn :: "('c \<Rightarrow> string \<Rightarrow> 'c \<times> unit res) \<Rightarrow> 'c PwdbAction \<Rightarrow> StreamMessage \<Rightarrow> 'c PwdbAction" where
  "pa_write_turn wr a msg =
     (if \<not> pa_writing a then a
      else if \<not> tomb_Alive (pa_tomb a) then pa_end_writing a None
      else (case DecodeString (sm_Content msg) of
              None \<Rightarrow> pa_end_writing a (Some (errorf ''illegal base64 data''))
            | Some content \<Rightarrow>
               if sm_Type msg = ''stream''
               then (case wr (pa_lconn a) content of
                       (c, Ok _) \<Rightarrow> if sm_More msg then a\<lparr>pa_lconn := c\<rparr> else pa_end_writing (a\<lparr>pa_lconn := c\<rparr>) (Some (errorf ''stream end''))
                     | (c, Err e) \<Rightarrow> pa_end_writing (a\<lparr>pa_lconn := c\<rparr>) (Some e) | (c, Panic) \<Rightarrow> a\<lparr>pa_lconn := c\<rparr>)
               else if sm_Type msg = ''error'' then pa_end_writing a (Some (errorf (fmt_noargs content)))
               else a))"

definition PwdbAction_Kill :: "'c PwdbAction \<Rightarrow> gerror option \<Rightarrow> 'c PwdbAction \<times> bool" where
  "PwdbAction_Kill a err = (if tomb_Alive (pa_tomb a) then (a\<lparr>pa_tomb := tomb_Kill (pa_tomb a) err\<rparr>, tomb_Waits (pa_tomb a)) else (a, True))"

text \<open>The channel of answers has room for a hundred; until the action has started nobody drains it.\<close>

definition PwdbAction_ReceiveMrtap :: "'c PwdbAction \<Rightarrow> string \<Rightarrow> string option \<Rightarrow> 'c PwdbAction option" where
  "PwdbAction_ReceiveMrtap a action pl =
     (if length (pa_mrtapInput a) < 100 then Some (a\<lparr>pa_mrtapInput := pa_mrtapInput a @ [(action, pl)]\<rparr>) else None)"

section \<open>Whom the agent connects as\<close>

definition certified :: "lib \<Rightarrow> 'c pwdb_env \<Rightarrow> KeyEntry \<Rightarrow> string \<Rightarrow> string \<times> string \<Rightarrow> bool" where
  "certified L E key user cert \<longleftrightarrow>
     (\<exists>template priv pub part signed shard certPem keyPem.
        ct_CommonName template = user \<and> ct_NotBefore template = pe_now E \<and> ct_NotAfter template = pe_now E + 3600 \<and>
        ct_ExtKeyUsage template = [''ClientAuth''] \<and> pe_GenerateKey E = Ok (priv, pub) \<and>
        pe_SplitGenerate E template (CaCertPem key) pub (KeyShardPem key) = Ok part \<and> pe_EncodeShard E (KeyShardPem key) = Ok shard \<and>
        pe_Cosign E user part pub (EncodeToString (sha3 L shard)) = Ok signed \<and>
        pe_CertPem E signed = Ok certPem \<and> pe_KeyPem E priv = Ok keyPem \<and> pe_X509KeyPair E certPem keyPem = Ok cert)"

lemma generateClientCert_certified:
  assumes "generateClientCert L E key user = Ok cert"
  shows "certified L E key user cert"
proof -
  obtain template where t: "generateClientCertificate E user 3600 = Ok template"
    using assms by (auto simp: generateClientCert_def split: res.splits)
  then have "ct_CommonName template = user" "ct_NotBefore template = pe_now E" "ct_NotAfter template = pe_now E + 3600" "ct_ExtKeyUsage template = [''ClientAuth'']"
    by (auto simp: generateClientCertificate_def elim!: res_map.elims)
  then show ?thesis using assms t
    by (auto simp: generateClientCert_def requestCosign_def certified_def split: res.splits)
qed

definition cloud_host :: "string \<Rightarrow> bool" where
  "cloud_host host \<longleftrightarrow> has_prefix ''gcp://'' host \<or> has_prefix ''rds://'' host"

lemma pwdb_dial_splitcert:
  "\<not> cloud_host (pw_remoteHost p) \<Longrightarrow> lastKey t = Ok key \<Longrightarrow>
   pwdb_dial L E lastKey p t u = wrap_err NewConnectionFailedError (pwdb_connect L E (pw_remoteHost p) (pw_remotePort p) key u)"
  by (simp add: pwdb_dial_def cloud_host_def)

text \<open>
  C10. A connection to a database outside the clouds is one over TLS, as the target user and with
  the newest key of the target: the server has agreed to TLS, its certificate is checked for the
  host under that key's authority alone, and the client's certificate names the user, lasts an
  hour, was made with the agent's shard of the key and signed by Bastion for the hash of that shard.
\<close>

theorem pwdb_connects_certified:
  assumes "\<not> cloud_host (pw_remoteHost p)" and "pwdb_start L E (LastKey_in d) p targetId targetUser = (p', Ok ())"
  shows "\<exists>key c0 c1 c2 answer cert c. keys_of targetId d \<noteq> [] \<and> key = last (keys_of targetId d) \<and>
    pe_DialTimeout E (pw_remoteHost p @ '':'' @ show_int (pw_remotePort p)) = Ok c0 \<and> pe_Write E c0 SSLRequest_bytes = (c1, Ok ()) \<and>
    pe_Read E c1 = (c2, Ok answer) \<and> has_prefix ''S'' answer \<and> certified L E key targetUser cert \<and>
    pe_Handshake E \<lparr> tl_ServerName = pw_remoteHost p, tl_RootCAs = [CaCertPem key], tl_Certificates = [cert] \<rparr> c2 = Shaken c \<and> pw_remoteConn p' = Some c"
proof -
  obtain c where c: "pwdb_dial L E (LastKey_in d) p targetId targetUser = Ok c" "pw_remoteConn p' = Some c"
    using assms(2) by (auto simp: pwdb_start_def split: res.splits)
  obtain key where k: "LastKey_in d targetId = Ok key" using c(1) assms(1) by (auto simp: pwdb_dial_def cloud_host_def split: res.splits)
  then have l: "keys_of targetId d \<noteq> []" "key = last (keys_of targetId d)" using LastKey_is_top [of d targetId] by (auto split: if_splits)
  have "pwdb_connect L E (pw_remoteHost p) (pw_remotePort p) key targetUser = Ok c" using c(1) pwdb_dial_splitcert [OF assms(1), of "LastKey_in d", OF k] by simp
  then obtain c0 c1 c2 answer where w: "pe_DialTimeout E (pw_remoteHost p @ '':'' @ show_int (pw_remotePort p)) = Ok c0"
    "pe_Write E c0 SSLRequest_bytes = (c1, Ok ())" "pe_Read E c1 = (c2, Ok answer)" "has_prefix ''S'' answer"
    and u: "upgradeConnection L E (pw_remoteHost p) key c2 targetUser = Ok c"
    by (auto simp: pwdb_connect_def split: res.splits prod.splits if_splits)
  obtain cert where "generateClientCert L E key targetUser = Ok cert"
    "pe_Handshake E \<lparr> tl_ServerName = pw_remoteHost p, tl_RootCAs = [CaCertPem key], tl_Certificates = [cert] \<rparr> c2 = Shaken c"
    using u by (auto simp: upgradeConnection_def split: res.splits handshake.splits)
  then show ?thesis using w l c(2) generateClientCert_certified by blast
qed

section \<open>Regions\<close>

lemma split_acc_absent: "sep \<noteq> [] \<Longrightarrow> \<not> contains s sep \<Longrightarrow> split_acc sep acc s = [rev acc @ s]"
  by (induction s arbitrary: acc) auto

lemma split_scheme:
  assumes "sep \<noteq> []" "\<not> contains s sep"
  shows "split (sep @ s) sep = [[], s]"
proof (cases sep)
  case (Cons c t)
  then show ?thesis using split_acc_absent [OF assms, of "[]"] has_prefix_append [of sep s] by (simp add: split_def)
qed (use assms in simp)

lemma field_at_end: "field_at (xs @ [a, b, c, d]) (int (length (xs @ [a, b, c, d])) - 4) = Ok a"
  by (simp add: field_at_def nth_append)

lemma amazon_parts: "CHR ''.'' \<notin> set region \<Longrightarrow> split (name @ ''.'' @ region @ ''.rds.amazonaws.com'') ''.'' = split name ''.'' @ [region, ''rds'', ''amazonaws'', ''com'']"
proof -
  assume r: "CHR ''.'' \<notin> set region"
  have "split (''rds.amazonaws.com'' :: string) ''.'' = [''rds'', ''amazonaws'', ''com'']" by code_simp
  then show ?thesis using split_single_append [of name "CHR ''.''" "region @ ''.rds.amazonaws.com''"]
      split_single_append [of region "CHR ''.''" "''rds.amazonaws.com''"] split_no_sep [OF r] by simp
qed

lemma rdsDial_host:
  assumes "contains h ''.rds.amazonaws.com''" "\<not> contains h ''rds://''" "field_at (split h ''.'') (int (length (split h ''.'')) - 4) = Ok region"
  shows "rdsDial E (''rds://'' @ h) port user =
    (case pe_RdsToken E (h @ '':'' @ show_int port) region user of Ok token \<Rightarrow> pe_ProxyDial E user token (h @ '':'' @ show_int port) | Err e \<Rightarrow> Err e | Panic \<Rightarrow> Panic)"
proof -
  have "split (''rds://'' @ h) ''rds://'' = [[], h]" using split_scheme [OF _ assms(2)] by simp
  moreover have "contains (''rds://'' @ h) ''.rds.amazonaws.com''" using contains_append_left [OF assms(1)] .
  moreover have "field_at [[], h] 1 = Ok h" by (simp add: field_at_def)
  moreover have "has_prefix ''rds://'' (''rds://'' @ h)" by (rule has_prefix_append)
  ultimately show ?thesis using assms(3) by (simp only: rdsDial_def Let_def) (simp split: res.split)
qed

text \<open>
  The token for an Amazon database is asked for its own endpoint, the target user and the
  region in its name, and the proxy that adds it connects that user to that endpoint. The
  region is found by its distance from the end: for an endpoint with another ending, as those of
  the regions in China, the token is asked for a region called rds.
\<close>

theorem rds_token_region:
  assumes "CHR ''.'' \<notin> set region" and "\<not> contains (name @ ''.'' @ region @ ''.rds.amazonaws.com'') ''rds://''"
    and "\<not> contains (name @ ''.'' @ region @ ''.rds.amazonaws.com.cn'') ''rds://''"
  shows "rdsDial E (''rds://'' @ name @ ''.'' @ region @ ''.rds.amazonaws.com'') port user =
    (let endpoint = name @ ''.'' @ region @ ''.rds.amazonaws.com:'' @ show_int port in
     case pe_RdsToken E endpoint region user of Ok token \<Rightarrow> pe_ProxyDial E user token endpoint | Err e \<Rightarrow> Err e | Panic \<Rightarrow> Panic) \<and>
    rdsDial E (''rds://'' @ name @ ''.'' @ region @ ''.rds.amazonaws.com.cn'') port user =
    (let endpoint = name @ ''.'' @ region @ ''.rds.amazonaws.com.cn:'' @ show_int port in
     case pe_RdsToken E endpoint ''rds'' user of Ok token \<Rightarrow> pe_ProxyDial E user token endpoint | Err e \<Rightarrow> Err e | Panic \<Rightarrow> Panic)"
proof -
  let ?h = "name @ ''.'' @ region @ ''.rds.amazonaws.com''"
  have c: "contains ?h ''.rds.amazonaws.com''" using contains_append_left [of "''.rds.amazonaws.com''" "''.rds.amazonaws.com''" "name @ ''.'' @ region"] by simp
  have "split (?h @ ''.cn'') ''.'' = split name ''.'' @ [region, ''rds'', ''amazonaws'', ''com'', ''cn'']"
    using split_single_append [of ?h "CHR ''.''" "''cn''"] amazon_parts [OF assms(1), of name] split_no_sep [of "CHR ''.''" "''cn''"] by simp
  then have cn: "field_at (split (?h @ ''.cn'') ''.'') (int (length (split (?h @ ''.cn'') ''.'')) - 4) = Ok ''rds''"
    using field_at_end [of "split name ''.'' @ [region]" "''rds''" "''amazonaws''" "''com''" "''cn''"] by simp
  have com: "field_at (split ?h ''.'') (int (length (split ?h ''.'')) - 4) = Ok region"
    using field_at_end [of "split name ''.''" region] amazon_parts [OF assms(1), of name] by simp
  have n: "\<not> contains (?h @ ''.cn'') ''rds://''" using assms(3) by simp
  show ?thesis using rdsDial_host [OF c assms(2) com, of E port user] rdsDial_host [OF contains_append_right [OF c] n cn, of E port user] by (simp add: Let_def cong: res.case_cong)
qed

section \<open>The tunnel\<close>

definition pwdb_agrees :: "json_parser \<Rightarrow> json_printer \<Rightarrow> bool" where
  "pwdb_agrees J M \<longleftrightarrow> (\<forall>v. J (M v) = Some v)"

lemma pwdb_turns_stream:
  assumes "bs \<noteq> []" "list_all (\<lambda>b. b \<noteq> []) (butlast bs)" "tomb_Alive (pw_tomb p)" "\<not> pw_doneClosed p" "i < length (pw_routines p)" "pw_routines p ! i = Some n"
  shows "\<exists>p'. pwdb_read_turns p i (reads bs) = (p', Ok ()) \<and> pw_stream p' = pw_stream p @ stream_messages [] ''pwdb'' n bs"
  using assms
proof (induction bs arbitrary: p n)
  case (Cons b bs)
  show ?case
  proof (cases "bs = []")
    case True
    then show ?thesis using Cons.prems by (simp add: reads_def pwdb_read_turn_def pwdb_return_def pwdb_sendStreamMessage_def stream_message_def)
  next
    case False
    let ?p = "(pwdb_sendStreamMessage p n ''stream'' True b)\<lparr>pw_routines := (pw_routines p)[i := Some (n + 1)]\<rparr>"
    have "pwdb_read_turns p i (reads (b # bs)) = pwdb_read_turns ?p i (reads bs)"
      using False Cons.prems by (simp add: reads_def pwdb_read_turn_def)
    moreover have "\<exists>p'. pwdb_read_turns ?p i (reads bs) = (p', Ok ()) \<and> pw_stream p' = pw_stream ?p @ stream_messages [] ''pwdb'' (n + 1) bs"
      by (rule Cons.IH) (use False Cons.prems in \<open>simp_all add: pwdb_sendStreamMessage_def\<close>)
    ultimately show ?thesis using False by (simp add: pwdb_sendStreamMessage_def stream_message_def)
  qed
qed simp

lemma pa_write_turns:
  assumes "bs \<noteq> []" "pa_writing a" "tomb_Alive (pa_tomb a)"
  shows "pa_lconn (foldl (pa_write_turn log_write) a (stream_messages v x n bs)) = pa_lconn a @ concat bs \<and>
    \<not> pa_writing (foldl (pa_write_turn log_write) a (stream_messages v x n bs))"
  using assms
proof (induction bs arbitrary: a n)
  case (Cons b bs)
  show ?case
  proof (cases "bs = []")
    case True
    then show ?thesis using Cons.prems by (simp add: pa_write_turn_def stream_message_def log_write_def pa_end_writing_def)
  next
    case False
    have "pa_write_turn log_write a (stream_message v x n True b) = a\<lparr>pa_lconn := pa_lconn a @ b\<rparr>"
      using Cons.prems by (simp add: pa_write_turn_def stream_message_def log_write_def)
    then show ?thesis using Cons.IH [of "a\<lparr>pa_lconn := pa_lconn a @ b\<rparr>" "n + 1"] Cons.prems False by simp
  qed
qed simp

lemma Pwdb_Receive_input:
  assumes "pwdb_agrees J M" "pe_Write E = log_write" "pw_remoteConn p = Some c"
  shows "fst (Pwdb_Receive L J E lastKey p ''db/pwdb/input'' (Some (M (InputPayload_json (EncodeToString b))))) = p\<lparr>pw_remoteConn := Some (c @ b)\<rparr>"
proof -
  have "J (M (InputPayload_json (EncodeToString b))) = Some (InputPayload_json (EncodeToString b))" using assms(1) by (simp add: pwdb_agrees_def)
  then have "read_one J ''data'' (Some (M (InputPayload_json (EncodeToString b)))) = Some (EncodeToString b)"
    by (simp add: read_one_def read_struct_def) (simp add: InputPayload_json_def text_field_def string_field_def struct_field_def decode_element_def to_lower_def)
  then show ?thesis using assms(2,3) by (simp add: Pwdb_Receive_def pwdb_writeToConnection_def log_write_def)
qed

definition pwdb_feed :: "lib \<Rightarrow> json_parser \<Rightarrow> 'c pwdb_env \<Rightarrow> (string \<Rightarrow> KeyEntry res) \<Rightarrow> 'c Pwdb \<Rightarrow> (string \<times> string option) list \<Rightarrow> 'c Pwdb" where
  "pwdb_feed L J E lastKey = foldl (\<lambda>p m. fst (Pwdb_Receive L J E lastKey p (fst m) (snd m)))"

lemma pwdb_upload:
  assumes "pwdb_agrees J M" "pe_Write E = log_write"
  shows "pa_reading a \<Longrightarrow> tomb_Alive (pa_tomb a) \<Longrightarrow> list_all (\<lambda>b. b \<noteq> []) bs \<Longrightarrow> pw_remoteConn p = Some c \<Longrightarrow>
    \<exists>sent. pa_outbox (foldl (pa_read_turn M) a (map IoData bs)) = pa_outbox a @ sent \<and> pw_remoteConn (pwdb_feed L J E lastKey p sent) = Some (c @ concat bs)"
proof (induction bs arbitrary: a p c)
  case (Cons b bs)
  let ?m = "(''db/pwdb/input'', Some (M (InputPayload_json (EncodeToString b))))"
  let ?a = "a\<lparr>pa_outbox := pa_outbox a @ [?m]\<rparr>"
  have u: "pa_read_turn M a (IoData b) = ?a" using Cons.prems by (simp add: pa_read_turn_def pa_sendOutputMessage_def Let_def)
  obtain sent where s: "pa_outbox (foldl (pa_read_turn M) ?a (map IoData bs)) = pa_outbox ?a @ sent"
    "pw_remoteConn (pwdb_feed L J E lastKey (p\<lparr>pw_remoteConn := Some (c @ b)\<rparr>) sent) = Some ((c @ b) @ concat bs)"
    using Cons.IH [of ?a "p\<lparr>pw_remoteConn := Some (c @ b)\<rparr>" "c @ b"] Cons.prems by auto
  show ?case
    by (rule exI [of _ "?m # sent"]) (use u s Pwdb_Receive_input [OF assms Cons.prems(4), of L lastKey b] in \<open>simp add: pwdb_feed_def\<close>)
qed (simp add: pwdb_feed_def)

lemma read_connect:
  assumes "pwdb_agrees J M"
  shows "read_ConnectPayload J (Some (M (ConnectPayload_json u t v))) = Some (sanitize u, sanitize t)"
proof -
  have "J (M (ConnectPayload_json u t v)) = Some (ConnectPayload_json u t v)" using assms by (simp add: pwdb_agrees_def)
  then show ?thesis by (simp add: read_ConnectPayload_def read_struct_def)
    (simp add: ConnectPayload_json_def marshal_string_def text_field_def string_field_def struct_field_def decode_element_def to_lower_def)
qed

lemma pwdb_started:
  "pwdb_dial L E lastKey (Pwdb_New host port) t u = Ok c \<Longrightarrow> pwdb_start L E lastKey (Pwdb_New host port) t u =
     ((Pwdb_New host port)\<lparr>pw_remoteConn := Some c, pw_tomb := tomb_new\<lparr>tb_started := True, tb_running := 1\<rparr>, pw_routines := [Some 0]\<rparr>, Ok ())"
  by (simp add: pwdb_start_def Pwdb_New_def)

lemma pa_awaits:
  assumes "PwdbAction_ReceiveMrtap (pa_request M (PwdbAction_New user target lconn)) ''db/pwdb/connect'' pl = Some a0"
  shows "\<exists>a. pa_await a0 StMrtap = Some (a, Ok ()) \<and> pa_reading a \<and> pa_writing a \<and> tomb_Alive (pa_tomb a) \<and> pa_lconn a = lconn \<and> pa_outbox a = pa_outbox a0"
  using assms by (auto simp: PwdbAction_ReceiveMrtap_def PwdbAction_New_def pa_request_def pa_sendOutputMessage_def pa_await_def tomb_Alive_def tomb_new_def
      tomb_Go_def Let_def)

text \<open>
  A database session is transparent when its messages arrive in order: the daemon's request
  makes the agent connect for the user and target it names, the agent's answer starts the
  daemon's routines, what the server sends until it closes is written to the local
  connection and ends it, and what the client sends is written to the server.
\<close>

theorem pwdb_session_transparent:
  assumes "pwdb_agrees J M" and "pe_Write E = log_write" and "pwdb_dial L E lastKey (Pwdb_New host port) (sanitize target) (sanitize user) = Ok c"
    and "bs \<noteq> []" and "list_all (\<lambda>b. b \<noteq> []) (butlast bs)" and "list_all (\<lambda>b. b \<noteq> []) cs"
    and "a = pa_request M (PwdbAction_New user target lconn)"
  shows "\<exists>req p p' a0 a1. pa_outbox a = [req] \<and> Pwdb_Receive L J E lastKey (Pwdb_New host port) (fst req) (snd req) = (p, Some (Ok None)) \<and>
    PwdbAction_ReceiveMrtap a (fst req) None = Some a0 \<and> pa_await a0 StMrtap = Some (a1, Ok ()) \<and>
    pwdb_read_turns p 0 (reads bs) = (p', Ok ()) \<and>
    pa_lconn (foldl (pa_write_turn log_write) a1 (pw_stream p')) = lconn @ concat bs \<and> \<not> pa_writing (foldl (pa_write_turn log_write) a1 (pw_stream p')) \<and>
    (\<exists>sent. pa_outbox (foldl (pa_read_turn M) a1 (map IoData cs)) = req # sent \<and> pw_remoteConn (pwdb_feed L J E lastKey p sent) = Some (c @ concat cs))"
proof -
  let ?req = "(''db/pwdb/connect'', Some (M (ConnectPayload_json user target CurrentSchema)))"
  let ?p = "(Pwdb_New host port)\<lparr>pw_remoteConn := Some c, pw_tomb := tomb_new\<lparr>tb_started := True, tb_running := 1\<rparr>, pw_routines := [Some 0]\<rparr>"
  have req: "pa_outbox a = [?req]" using assms(7) by (simp add: pa_request_def pa_sendOutputMessage_def PwdbAction_New_def)
  have rcv: "Pwdb_Receive L J E lastKey (Pwdb_New host port) (fst ?req) (snd ?req) = (?p, Some (Ok None))"
    using read_connect [OF assms(1)] pwdb_started [OF assms(3)] by (simp add: Pwdb_Receive_def)
  have p: "tomb_Alive (pw_tomb ?p)" "\<not> pw_doneClosed ?p" "pw_stream ?p = []" by (simp_all add: Pwdb_New_def tomb_Alive_def tomb_new_def)
  obtain p' where p': "pwdb_read_turns ?p 0 (reads bs) = (p', Ok ())" "pw_stream p' = stream_messages [] ''pwdb'' 0 bs"
    using pwdb_turns_stream [OF assms(4,5) p(1,2), of 0 0] p(3) by auto
  obtain a0 where a0: "PwdbAction_ReceiveMrtap a (fst ?req) None = Some a0" "pa_outbox a0 = [?req]"
    using req assms(7) by (simp add: PwdbAction_ReceiveMrtap_def pa_request_def pa_sendOutputMessage_def PwdbAction_New_def)
  obtain a1 where a1: "pa_await a0 StMrtap = Some (a1, Ok ())" "pa_reading a1" "pa_writing a1" "tomb_Alive (pa_tomb a1)" "pa_lconn a1 = lconn" "pa_outbox a1 = pa_outbox a0"
    using pa_awaits a0(1) assms(7) by fastforce
  obtain sent where up: "pa_outbox (foldl (pa_read_turn M) a1 (map IoData cs)) = ?req # sent" "pw_remoteConn (pwdb_feed L J E lastKey ?p sent) = Some (c @ concat cs)"
    using pwdb_upload [OF assms(1,2) a1(2,4) assms(6), of ?p c L lastKey] a1(6) a0(2) by auto
  show ?thesis
    by (rule exI [of _ ?req], rule exI [of _ ?p], rule exI [of _ p'], rule exI [of _ a0], rule exI [of _ a1])
      (use req rcv a0(1) a1(1) p'(1) up pa_write_turns [OF assms(4) a1(3,4), of "[]" "''pwdb''" 0] a1(5) p'(2) in auto)
qed

section \<open>What the daemon makes of failures\<close>













text \<open>
  What goes wrong: an action whose connection could not be made never returns from being
  killed, by a close message or with its data channel; and the daemon writes stream messages as
  they arrive, whatever their sequence numbers.
\<close>

lemma pwdb_faults:
  assumes "pwdb_dial L E lastKey (Pwdb_New host port) t u = Err x" and "read_one J ''reason'' pl = Some r" and "pa_writing a" and "tomb_Alive (pa_tomb a)"
  shows "snd (Pwdb_Receive L J E lastKey (fst (pwdb_start L E lastKey (Pwdb_New host port) t u)) ''db/pwdb/close'' pl) = None \<and>
    \<not> snd (Pwdb_Kill (fst (pwdb_start L E lastKey (Pwdb_New host port) t u))) \<and>
    pa_lconn (foldl (pa_write_turn log_write) a [stream_message v ''pwdb'' 1 True b, stream_message v ''pwdb'' 0 True c]) = pa_lconn a @ b @ c"
  using assms by (simp add: pwdb_start_def Pwdb_New_def Pwdb_Receive_def Pwdb_Kill_def when_back_def pa_write_turn_def stream_message_def log_write_def)

section \<open>Witnesses\<close>

definition wit_penv :: "string pwdb_env" where
  "wit_penv = \<lparr> pe_now = 0, pe_GenerateSerialNumber = Ok 1, pe_LoadCA = (\<lambda>_ _. Ok ()), pe_GenerateKey = Ok (''priv'', ''pub''),
     pe_SplitGenerate = (\<lambda>t _ _ _. Ok (ct_CommonName t)), pe_EncodeShard = (\<lambda>s. Ok s), pe_Cosign = (\<lambda>u c k h. Ok (u @ h)), pe_CertPem = (\<lambda>c. Ok c),
     pe_KeyPem = (\<lambda>k. Ok k), pe_X509KeyPair = (\<lambda>c k. Ok (c, k)), pe_DialTimeout = (\<lambda>_. Ok []), pe_Write = log_write, pe_Read = (\<lambda>c. (c, Ok ''S'')),
     pe_Handshake = (\<lambda>_ c. Shaken c), pe_GcpToken = (\<lambda>u. Ok u), pe_GcpDial = (\<lambda>_ _. Ok []), pe_RdsToken = (\<lambda>e r u. Ok r), pe_ProxyDial = (\<lambda>u t e. Ok t) \<rparr>"

definition wit_shard_data :: KeyShardData where
  "wit_shard_data = \<lparr> Keys = [\<lparr> KeyData = \<lparr> KeyShardPem = ''shard'', CaCertPem = ''ca'' \<rparr>, TargetIds = [''db''] \<rparr>] \<rparr>"

lemma wit_pwdb_dial: "pwdb_dial wit_nonce_lib wit_penv (LastKey_in wit_shard_data) (Pwdb_New ''h'' 5432) ''db'' u = Ok SSLRequest_bytes"
proof -
  have "LastKey_in wit_shard_data ''db'' = Ok \<lparr> KeyShardPem = ''shard'', CaCertPem = ''ca'' \<rparr>" by code_simp
  then show ?thesis by (simp add: pwdb_dial_def Pwdb_New_def pwdb_connect_def upgradeConnection_def generateClientCert_def generateClientCertificate_def
      requestCosign_def log_write_def wit_penv_def)
qed

theorem pwdb_connects_certified_witness:
  "\<exists>cert. certified wit_nonce_lib wit_penv \<lparr> KeyShardPem = ''shard'', CaCertPem = ''ca'' \<rparr> ''ann'' cert"
proof -
  have h: "\<not> cloud_host (pw_remoteHost (Pwdb_New ''h'' 5432 :: string Pwdb))" by (simp add: cloud_host_def Pwdb_New_def)
  have k: "last (keys_of ''db'' wit_shard_data) = \<lparr> KeyShardPem = ''shard'', CaCertPem = ''ca'' \<rparr>" by code_simp
  show ?thesis using pwdb_connects_certified [OF h pwdb_started [OF wit_pwdb_dial, of "''ann''"]] k by auto
qed

theorem rds_token_region_witness:
  "rdsDial wit_penv ''rds://db.cdhu0l.us-east-1.rds.amazonaws.com'' 5432 ''ann'' = Ok ''us-east-1''"
proof -
  have h: "CHR ''.'' \<notin> set ''us-east-1''" "\<not> contains (''db.cdhu0l'' @ ''.'' @ ''us-east-1'' @ ''.rds.amazonaws.com'') ''rds://''"
    "\<not> contains (''db.cdhu0l'' @ ''.'' @ ''us-east-1'' @ ''.rds.amazonaws.com.cn'') ''rds://''" by code_simp+
  show ?thesis using rds_token_region [OF h, of wit_penv 5432 "''ann''"] by (simp add: wit_penv_def)
qed

theorem pwdb_session_transparent_witness:
  "\<exists>a (p' :: string Pwdb). pa_lconn (foldl (pa_write_turn log_write) a (pw_stream p')) = ''hello''"
proof -
  have a: "pwdb_agrees codec_parse codec_print" by (simp add: pwdb_agrees_def)
  have w: "pe_Write wit_penv = log_write" by (simp add: wit_penv_def)
  have "sanitize ''db'' = ''db''" by code_simp
  then have d: "pwdb_dial wit_nonce_lib wit_penv (LastKey_in wit_shard_data) (Pwdb_New ''h'' 5432) (sanitize ''db'') (sanitize ''ann'') = Ok SSLRequest_bytes"
    by (simp only: wit_pwdb_dial)
  have b: "[''he'', ''llo''] \<noteq> []" "list_all (\<lambda>b. b \<noteq> []) (butlast [''he'', ''llo''])" "list_all (\<lambda>b. b \<noteq> []) ([] :: string list)" by simp_all
  obtain a1 and p' :: "string Pwdb" where "pa_lconn (foldl (pa_write_turn log_write) a1 (pw_stream p')) = [] @ concat [''he'', ''llo'']"
    using pwdb_session_transparent [OF a w d b refl, where lconn = "[]"] by blast
  then show ?thesis by auto
qed


end
