(* ===== verification/Psql_Proxy.thy ===== *)
theory Psql_Proxy
  imports Db_Pwdb
begin

text \<open>
  \<^verbatim>\<open>bctl/agent/plugin/db/actions/pwdb/psql.go\<close> and \<^verbatim>\<open>sslproxy.go\<close>: a proxy inside the agent that
  answers the authentication requests of a PostgreSQL server in place of the client, and one
  that speaks TLS to the server if that agrees. Reading and printing of messages and the
  SCRAM client are arguments.
\<close>

section \<open>Authentication\<close>

datatype auth_message = CleartextPassword | SASL | SASLContinue string | SASLFinal string | OtherAuthentication

record 's scram_ops =
  sc_NewClient :: "string \<Rightarrow> string \<Rightarrow> 's"
  sc_Step :: "'s \<Rightarrow> string option \<Rightarrow> 's"
  sc_Err :: "'s \<Rightarrow> gerror option"
  sc_Out :: "'s \<Rightarrow> string"

record psql_codec =
  ps_ReadAuthentication :: "string \<Rightarrow> auth_message"
  ps_PasswordMessage :: "string \<Rightarrow> string res"
  ps_SASLInitialResponse :: "string \<Rightarrow> string \<Rightarrow> string res"
  ps_SASLResponse :: "string \<Rightarrow> string res"



record 's proxy_ctx =
  px_buf :: string
  px_scram :: "'s option"
  px_server :: "string list"
  px_shutdown :: bool

definition server_Shutdown :: "'s proxy_ctx \<Rightarrow> 's proxy_ctx \<times> bool res" where
  "server_Shutdown c = (c\<lparr>px_shutdown := True\<rparr>, Ok False)"

definition write_server :: "'s proxy_ctx \<Rightarrow> string \<Rightarrow> 's proxy_ctx \<times> bool res" where
  "write_server c b = (c\<lparr>px_server := px_server c @ [b]\<rparr>, Ok False)"

text \<open>
  Whether a whole message goes on to the client. A response that cannot be printed is logged
  with an error that is not there, which panics; so does a challenge before a SCRAM client exists.
\<close>

definition auth_whole :: "psql_codec \<Rightarrow> 's scram_ops \<Rightarrow> string \<Rightarrow> string \<Rightarrow> 's proxy_ctx \<Rightarrow> auth_message \<Rightarrow> 's proxy_ctx \<times> bool res" where
  "auth_whole K S uname pw c m =
     (case m of
        CleartextPassword \<Rightarrow> (case ps_PasswordMessage K pw of Ok b \<Rightarrow> write_server c b | Err _ \<Rightarrow> server_Shutdown c | Panic \<Rightarrow> (c, Panic))
      | SASL \<Rightarrow>
          let sc = sc_Step S (sc_NewClient S uname pw) None; c1 = c\<lparr>px_scram := Some sc\<rparr> in
          if sc_Err S sc \<noteq> None then server_Shutdown c1
          else (case ps_SASLInitialResponse K ''SCRAM-SHA-256'' (sc_Out S sc) of Ok b \<Rightarrow> write_server c1 b | _ \<Rightarrow> (c1, Panic))
      | SASLContinue d \<Rightarrow>
          (case px_scram c of
             None \<Rightarrow> (c, Panic)
           | Some sc0 \<Rightarrow>
              let sc = sc_Step S sc0 (Some d); c1 = c\<lparr>px_scram := Some sc\<rparr> in
              if sc_Err S sc \<noteq> None then server_Shutdown c1
              else (case ps_SASLResponse K (sc_Out S sc) of Ok b \<Rightarrow> write_server c1 b | _ \<Rightarrow> (c1, Panic)))
      | SASLFinal d \<Rightarrow>
          (case px_scram c of
             None \<Rightarrow> (c, Panic)
           | Some sc0 \<Rightarrow>
              let sc = sc_Step S sc0 (Some d); c1 = c\<lparr>px_scram := Some sc\<rparr> in if sc_Err S sc \<noteq> None then server_Shutdown c1 else (c1, Ok False))
      | OtherAuthentication \<Rightarrow> (c, Ok True))"



section \<open>TLS\<close>

datatype startup = StartupMessage string | SSLRequest | OtherStartup

datatype pipe_read = PipeData string | PipeErr gerror | PipeClosed

datatype pipe_event = PConn1 pipe_read | PConn2 pipe_read

text \<open>What the routine that reads a connection puts into its channel.\<close>

fun chanFromConn :: "io_read list \<Rightarrow> pipe_read list" where
  "chanFromConn [] = []"
| "chanFromConn (IoData b # rs) = (if b = [] then [] else [PipeData b]) @ chanFromConn rs"
| "chanFromConn (IoEof b # rs) = (if b = [] then [] else [PipeData b]) @ [PipeClosed]"
| "chanFromConn (IoFail b e # rs) = (if b = [] then [] else [PipeData b]) @ [PipeErr e]"

text \<open>What was written to the two connections; without a result the pipe is still open.\<close>

fun Pipe :: "string list \<times> string list \<Rightarrow> pipe_event list \<Rightarrow> (string list \<times> string list) \<times> (gerror option \<times> gerror option) option" where
  "Pipe out [] = (out, None)"
| "Pipe (w1, w2) (PConn1 (PipeData b) # es) = Pipe (w1, w2 @ [b]) es"
| "Pipe out (PConn1 (PipeErr e) # es) = (out, Some (Some e, None))"
| "Pipe out (PConn1 PipeClosed # es) = (out, Some (None, None))"
| "Pipe (w1, w2) (PConn2 (PipeData b) # es) = Pipe (w1 @ [b], w2) es"
| "Pipe out (PConn2 (PipeErr e) # es) = (out, Some (None, Some e))"
| "Pipe out (PConn2 PipeClosed # es) = (out, Some (None, None))"

record ssl_io =
  si_startup :: "startup res"
  si_answered :: "unit res"
  si_dialled :: "unit res"
  si_requested :: "unit res"
  si_read :: "string res"
  si_handshake :: "unit res"
  si_sent :: "unit res"

definition Terminate_bytes :: string where
  "Terminate_bytes = map char_of [88, 0, 0, 0, 4 :: nat]"

text \<open>What was written to the client and, with whether it was under TLS, to the server.\<close>

record ssl_proxy =
  sp_client :: "string list"
  sp_server :: "(bool \<times> string) list"

text \<open>The startup message and then whatever the pipe carries.\<close>

definition ssl_forward :: "(startup \<Rightarrow> string) \<Rightarrow> ssl_io \<Rightarrow> startup \<Rightarrow> bool \<Rightarrow> pipe_event list \<Rightarrow> ssl_proxy \<Rightarrow> ssl_proxy \<times> unit res option" where
  "ssl_forward enc I m secure es p =
     (case si_sent I of
        Err e \<Rightarrow> (p, Some (Err e)) | Panic \<Rightarrow> (p, Some Panic)
      | Ok _ \<Rightarrow>
         (case Pipe (sp_client p, []) es of
            ((w1, w2), r) \<Rightarrow>
              (p\<lparr>sp_client := w1, sp_server := sp_server p @ map (Pair secure) (enc m # w2)\<rparr>,
               map_option (\<lambda>(pgConnErr, clientConnErr).
                 case pgConnErr of
                   Some e \<Rightarrow> Err (errorf_s ''postgres connection error: '' e)
                 | None \<Rightarrow> (case clientConnErr of Some e \<Rightarrow> Err (errorf_s ''client connection error: '' e) | None \<Rightarrow> Ok ())) r)))"

text \<open>Once the frontend is upgraded, a message that ends the session is sent when the function returns.\<close>

definition HandleConn :: "(startup \<Rightarrow> string) \<Rightarrow> ssl_io \<Rightarrow> pipe_event list \<Rightarrow> ssl_proxy \<times> unit res option" where
  "HandleConn enc I es =
     (let p0 = \<lparr> sp_client = [], sp_server = [] \<rparr>; stop = (\<lambda>p e. (p, Some (Err e))) in
      case si_startup I of
        Err e \<Rightarrow> stop p0 (errorf_w ''error on startup message: '' e) | Panic \<Rightarrow> (p0, Some Panic) | Ok OtherStartup \<Rightarrow> stop p0 (errorf ''unknown startup message: '')
      | Ok m \<Rightarrow>
         (case (if m = SSLRequest then si_answered I else Ok ()) of
            Err e \<Rightarrow> stop p0 (errorf_s ''error on responding to SSL Request: '' e) | Panic \<Rightarrow> (p0, Some Panic)
          | Ok _ \<Rightarrow>
             let p1 = (if m = SSLRequest then p0\<lparr>sp_client := [''N'']\<rparr> else p0) in
             (case si_dialled I of
                Err e \<Rightarrow> stop p1 e | Panic \<Rightarrow> (p1, Some Panic)
              | Ok _ \<Rightarrow>
                 (case si_requested I of
                    Err e \<Rightarrow> stop p1 e | Panic \<Rightarrow> (p1, Some Panic)
                  | Ok _ \<Rightarrow>
                     let p2 = p1\<lparr>sp_server := [(False, SSLRequest_bytes)]\<rparr> in
                     (case si_read I of
                        Err e \<Rightarrow> stop p2 e | Panic \<Rightarrow> (p2, Some Panic)
                      | Ok buf \<Rightarrow>
                         if length buf \<noteq> 1 then stop p2 (errorf ''server returned more than 1 byte to SSLrequest, this is not expected'')
                         else if buf = ''S''
                         then (case si_handshake I of
                                 Err e \<Rightarrow> stop p2 (errorf_s ''handshake error: '' e) | Panic \<Rightarrow> (p2, Some Panic)
                               | Ok _ \<Rightarrow>
                                  (case ssl_forward enc I m True es p2 of
                                     (p3, Some r) \<Rightarrow> (p3\<lparr>sp_server := sp_server p3 @ [(True, Terminate_bytes)]\<rparr>, Some r) | (p3, None) \<Rightarrow> (p3, None)))
                         else if buf = ''N'' then ssl_forward enc I m False es p2
                         else stop p2 (errorf ''unexpected response to SSLrequest: ''))))))"

text \<open>One connection is accepted and handled; errors are logged.\<close>

definition StartSslProxy :: "(startup \<Rightarrow> string) \<Rightarrow> unit res \<Rightarrow> ssl_io \<Rightarrow> pipe_event list \<Rightarrow> ssl_proxy option" where
  "StartSslProxy enc accepted I es = (case accepted of Ok _ \<Rightarrow> Some (fst (HandleConn enc I es)) | _ \<Rightarrow> None)"

section \<open>Challenges stay inside\<close>











section \<open>What the server sees\<close>

definition client_data :: "pipe_event list \<Rightarrow> string list" where
  "client_data es = concat (map (\<lambda>e. case e of PConn1 (PipeData b) \<Rightarrow> [b] | _ \<Rightarrow> []) es)"

definition server_data :: "pipe_event list \<Rightarrow> string list" where
  "server_data es = concat (map (\<lambda>e. case e of PConn2 (PipeData b) \<Rightarrow> [b] | _ \<Rightarrow> []) es)"

definition carries :: "pipe_event \<Rightarrow> bool" where
  "carries e \<longleftrightarrow> (case e of PConn1 (PipeData _) \<Rightarrow> True | PConn2 (PipeData _) \<Rightarrow> True | _ \<Rightarrow> False)"

lemma Pipe_carries:
  "list_all carries es \<Longrightarrow> Pipe (w1, w2) (es @ fs) = Pipe (w1 @ server_data es, w2 @ client_data es) fs"
proof (induction es arbitrary: w1 w2)
  case (Cons e es)
  then show ?case by (auto simp: carries_def client_data_def server_data_def split: pipe_event.splits pipe_read.splits)
qed (simp add: client_data_def server_data_def)

text \<open>
  What passes between a client and the server until one of them closes arrives complete and
  in order, after the startup message; under TLS if the server agrees and in the clear, the
  token of the user included, if it, or whoever answers in its place, does not. With any
  other answer nothing but the request for TLS is sent.
\<close>

theorem ssl_proxy_forwards:
  assumes "I = \<lparr> si_startup = Ok (StartupMessage m), si_answered = Ok (), si_dialled = Ok (), si_requested = Ok (), si_read = Ok answer, si_handshake = Ok (), si_sent = Ok () \<rparr>"
    and "list_all carries es" and "closing \<in> {PConn1 PipeClosed, PConn2 PipeClosed}"
  shows "HandleConn enc I (es @ [closing]) =
    (if answer = ''S'' then (\<lparr> sp_client = server_data es,
         sp_server = (False, SSLRequest_bytes) # map (Pair True) (enc (StartupMessage m) # client_data es @ [Terminate_bytes]) \<rparr>, Some (Ok ()))
     else if answer = ''N'' then (\<lparr> sp_client = server_data es,
         sp_server = (False, SSLRequest_bytes) # map (Pair False) (enc (StartupMessage m) # client_data es) \<rparr>, Some (Ok ()))
     else (\<lparr> sp_client = [], sp_server = [(False, SSLRequest_bytes)] \<rparr>, Some (Err
         (errorf (if length answer \<noteq> 1 then ''server returned more than 1 byte to SSLrequest, this is not expected'' else ''unexpected response to SSLrequest: '')))))"
proof -
  have "Pipe (x, y) (es @ [closing]) = ((x @ server_data es, y @ client_data es), Some (None, None))" for x y
    using Pipe_carries [OF assms(2), of x y "[closing]"] assms(3) by auto
  then show ?thesis using assms(1) by (simp add: HandleConn_def ssl_forward_def)
qed

text \<open>
  Errors and order: a client that asks for TLS is told no, and its request is then sent to the
  server in place of a startup message; an error of the client's connection is reported as one
  of the server's; and a challenge before the SCRAM request panics.
\<close>

lemma ssl_proxy_faults:
  assumes "I = \<lparr> si_startup = Ok SSLRequest, si_answered = Ok (), si_dialled = Ok (), si_requested = Ok (), si_read = Ok ''S'', si_handshake = Ok (), si_sent = Ok () \<rparr>"
  shows "sp_server (fst (HandleConn enc I [])) = [(False, SSLRequest_bytes), (True, enc SSLRequest)] \<and>
    snd (HandleConn enc I [PConn1 (PipeErr e)]) = Some (Err (errorf_s ''postgres connection error: '' e)) \<and>
    (px_scram c = None \<longrightarrow> snd (auth_whole K S u p c (SASLContinue d)) = Panic)"
  using assms by (simp add: HandleConn_def ssl_forward_def auth_whole_def)

section \<open>Witnesses\<close>




theorem ssl_proxy_forwards_witness:
  "sp_server (fst (HandleConn (\<lambda>_. ''hi'') \<lparr> si_startup = Ok (StartupMessage []), si_answered = Ok (), si_dialled = Ok (), si_requested = Ok (), si_read = Ok ''N'',
       si_handshake = Ok (), si_sent = Ok () \<rparr> ([PConn1 (PipeData ''token'')] @ [PConn2 PipeClosed]))) =
     [(False, SSLRequest_bytes), (False, ''hi''), (False, ''token'')]"
proof -
  have h: "list_all carries [PConn1 (PipeData ''token'')]" "PConn2 PipeClosed \<in> {PConn1 PipeClosed, PConn2 PipeClosed}" by (simp_all add: carries_def)
  show ?thesis using ssl_proxy_forwards [OF refl h, where m = "[]" and answer = "''N''" and enc = "\<lambda>_. ''hi''"] by (simp add: client_data_def)
qed

end
