(* ===== verification/Bastion_Client.thy ===== *)
theory Bastion_Client
  imports Control_Connection Go_Text
begin

text \<open>
  \<^verbatim>\<open>bzerolib/connection/httpclient\<close>, \<^verbatim>\<open>bctl/agent/bastion\<close> and \<^verbatim>\<open>bctl/agent/registration\<close>: requests to
  Bastion, the token that identifies the agent there, and how an agent is registered. What a
  server answers to a request is an argument for each attempt.
\<close>

section \<open>The HTTP client\<close>

record http_request =
  hq_verb :: string
  hq_url :: string
  hq_body :: string
  hq_headers :: "(string \<times> string) list"
  hq_params :: "(string \<times> string) list"

text \<open>A request is not built, not sent, sent without an answer, or answered with a status and a body.\<close>

datatype http_answer = NotBuilt gerror | NotSent gerror | Lost gerror | Answered int string

datatype http_event = HCancelled | HExhausted | HAttempt "http_request \<Rightarrow> http_answer"

text \<open>The body is a reader: what is left of it.\<close>

record HttpClient =
  hc_backoff :: bool
  hc_targetUrl :: string
  hc_body :: string
  hc_headers :: "(string \<times> string) list"
  hc_params :: "(string \<times> string) list"

text \<open>\<^verbatim>\<open>joined\<close> parses a URL and joins its path with an endpoint.\<close>

definition HttpClient_New ::
  "(string \<Rightarrow> string \<Rightarrow> string res) \<Rightarrow> string \<Rightarrow> string \<Rightarrow> string \<Rightarrow> (string \<times> string) list \<Rightarrow> (string \<times> string) list \<Rightarrow> bool \<Rightarrow> HttpClient res" where
  "HttpClient_New joined serviceUrl endpoint body headers params retries =
     res_map (\<lambda>u. \<lparr> hc_backoff = retries, hc_targetUrl = u, hc_body = body, hc_headers = headers, hc_params = params \<rparr>)
       (if endpoint = [] then Ok serviceUrl else joined serviceUrl endpoint)"

definition http_request_of :: "HttpClient \<Rightarrow> string \<Rightarrow> http_request" where
  "http_request_of h verb = \<lparr> hq_verb = verb, hq_url = hc_targetUrl h, hq_body = hc_body h, hq_headers = hc_headers h, hq_params = hc_params h \<rparr>"

text \<open>Sending a request reads the body to its end. Error texts carry the number of the status without its phrase.\<close>

definition http_once :: "HttpClient \<Rightarrow> string \<Rightarrow> (http_request \<Rightarrow> http_answer) \<Rightarrow> HttpClient \<times> string res" where
  "http_once h verb answer =
     (case answer (http_request_of h verb) of
        NotBuilt e \<Rightarrow> (h, Err (errorf_w ''failed to build http request: '' e))
      | NotSent e \<Rightarrow> (h, Err (errorf_w (verb @ '' request to '' @ hc_targetUrl h @ '' failed: '') e))
      | Lost e \<Rightarrow> (h\<lparr>hc_body := []\<rparr>, Err (errorf_w (verb @ '' request to '' @ hc_targetUrl h @ '' failed: '') e))
      | Answered status body \<Rightarrow>
         (h\<lparr>hc_body := []\<rparr>,
          if status < 200 \<or> status \<ge> 300 then Err (errorf (verb @ '' request failed to '' @ hc_targetUrl h @ '' with status '' @ show_int status)) else Ok body))"

text \<open>Requests that were made, with the result of the call; without one it still waits. The text of the last error does not say how long it was tried.\<close>

fun http_retry :: "HttpClient \<Rightarrow> string \<Rightarrow> gerror option \<Rightarrow> http_event list \<Rightarrow> http_request list \<times> string res option" where
  "http_retry h verb lastErr [] = ([], None)"
| "http_retry h verb lastErr (HCancelled # es) = ([], Some (Err (errorf ''context cancelled before successful http response'')))"
| "http_retry h verb lastErr (HExhausted # es) =
     ([], Some (Err (errorf (''failed to get successful http response to '' @ hc_targetUrl h @ ''. The most recent error was: '' @
        (case lastErr of Some e \<Rightarrow> etext e | None \<Rightarrow> ''%!s(<nil>)'')))))"
| "http_retry h verb lastErr (HAttempt f # es) =
     (case http_once h verb f of
        (h1, Err e) \<Rightarrow> apfst (Cons (http_request_of h verb)) (http_retry h1 verb (Some e) es)
      | (h1, r) \<Rightarrow> ([http_request_of h verb], Some r))"

definition http_execute :: "HttpClient \<Rightarrow> string \<Rightarrow> http_event list \<Rightarrow> http_request list \<times> string res option" where
  "http_execute h verb es =
     (if hc_backoff h then http_retry h verb None es
      else (case es of
              HAttempt f # _ \<Rightarrow> ([http_request_of h verb], Some (snd (http_once h verb f)))
            | HCancelled # _ \<Rightarrow> ([], Some (Err (errorf ''context canceled''))) | _ \<Rightarrow> ([], None)))"

section \<open>The identity of the agent\<close>

definition agentIdentityEndpoint :: "string \<Rightarrow> string" where
  "agentIdentityEndpoint targetId = ''/api/v2/agent/identity/'' @ targetId"

record 's AgentIdentityProvider =
  ai_serviceUrl :: string
  ai_store :: "'s agent_config"
  ai_provider :: bool

text \<open>
  What the identity depends on: the OpenID provider of an issuer, whether it accepts a token,
  the clock, and what others do to the configuration before it is saved.
\<close>

record 's identity_env =
  ie_joined :: "string \<Rightarrow> string \<Rightarrow> string res"
  ie_provider :: "string \<Rightarrow> unit res"
  ie_verify :: "string \<Rightarrow> unit res"
  ie_now :: int
  ie_between :: "'s \<Rightarrow> 's"

definition verifyToken :: "'s identity_env \<Rightarrow> 's AgentIdentityProvider \<Rightarrow> string \<Rightarrow> 's AgentIdentityProvider \<times> unit res" where
  "verifyToken E a idToken =
     (let checked = (\<lambda>a. (a, wrap_err (errorf_w ''failed to verify id token with provider: '') (ie_verify E idToken))) in
      if ai_provider a then checked a
      else (let issuerUrl = (if ai_serviceUrl a \<noteq> [] \<and> last (ai_serviceUrl a) = CHR ''/'' then butlast (ai_serviceUrl a) else ai_serviceUrl a) in
            case ie_provider E issuerUrl of
              Err e \<Rightarrow> (a, Err (errorf_w (''failed to establish connection bzero provider '' @ issuerUrl @ '': '') e)) | Panic \<Rightarrow> (a, Panic)
            | Ok _ \<Rightarrow> checked (a\<lparr>ai_provider := True\<rparr>)))"

definition GetAgentIdentityTokenRequest_json :: "int \<Rightarrow> jvalue" where
  "GetAgentIdentityTokenRequest_json now = VObject (BackendAgentMessage_fields ''getAgentIdentityToken'' now)"

definition getTokenFromBastion ::
  "json_parser \<Rightarrow> json_printer \<Rightarrow> lib \<Rightarrow> 's identity_env \<Rightarrow> 's AgentIdentityProvider \<Rightarrow> http_event list \<Rightarrow> http_request list \<times> string res option" where
  "getTokenFromBastion J M L E a es =
     (let payload = M (GetAgentIdentityTokenRequest_json (ie_now E)) in
      case PrivateKey_Sign L (GetPrivateKey (ai_store a)) payload of
        Err e \<Rightarrow> ([], Some (Err e)) | Panic \<Rightarrow> ([], Some Panic)
      | Ok sig \<Rightarrow>
         (case HttpClient_New (ie_joined E) (ai_serviceUrl a) (agentIdentityEndpoint (GetTargetId (ai_store a))) [] []
                 [(''message'', EncodeToString payload), (''signature'', sig)] False of
            Err e \<Rightarrow> ([], Some (Err e)) | Panic \<Rightarrow> ([], Some Panic)
          | Ok client \<Rightarrow>
             apsnd (map_option (\<lambda>r. case r of
                 Err e \<Rightarrow> Err (errorf_s ''error making get request for agent identity token: '' e) | Panic \<Rightarrow> Panic | Ok body \<Rightarrow> Ok (body_field J ''token'' body)))
               (http_execute client ''GET'' es)))"

definition refreshToken ::
  "json_parser \<Rightarrow> json_printer \<Rightarrow> lib \<Rightarrow> 's agent_store \<Rightarrow> 's identity_env \<Rightarrow> 's AgentIdentityProvider \<Rightarrow> http_event list \<Rightarrow>
   's AgentIdentityProvider \<times> string res option" where
  "refreshToken J M L SO E a es =
     (case snd (getTokenFromBastion J M L E a es) of
        Some (Ok token) \<Rightarrow>
          (case SetAgentIdentityToken SO (ie_between E) (ai_store a) token of
             (c, Panic) \<Rightarrow> (a\<lparr>ai_store := c\<rparr>, Some Panic) | (c, _) \<Rightarrow> (a\<lparr>ai_store := c\<rparr>, Some (Ok token)))
      | r \<Rightarrow> (a, r))"

definition identity_Get ::
  "json_parser \<Rightarrow> json_printer \<Rightarrow> lib \<Rightarrow> 's agent_store \<Rightarrow> 's identity_env \<Rightarrow> 's AgentIdentityProvider \<Rightarrow> http_event list \<Rightarrow>
   's AgentIdentityProvider \<times> string res option" where
  "identity_Get J M L SO E a es =
     (let idToken = GetAgentIdentityToken (ai_store a) in
      if idToken = [] then refreshToken J M L SO E a es
      else (case verifyToken E a idToken of
              (a1, Err _) \<Rightarrow> refreshToken J M L SO E a1 es | (a1, Panic) \<Rightarrow> (a1, Some Panic) | (a1, Ok _) \<Rightarrow> (a1, Some (Ok idToken))))"

section \<open>Requests to Bastion\<close>

definition jsonContentType :: string where
  "jsonContentType = ''application/json''"

text \<open>The token provider is an argument, as an interface in the source.\<close>

definition bastion_request ::
  "(string \<Rightarrow> string \<Rightarrow> string res) \<Rightarrow> string \<Rightarrow> string res \<Rightarrow> string \<Rightarrow> string \<Rightarrow> string \<Rightarrow> http_event list \<Rightarrow> http_request list \<times> string res option" where
  "bastion_request joined serviceUrl token body apiEndpoint contentType es =
     (if apiEndpoint = [] then ([], Some (Err (errorf ''unrecognized bastion api endpoint'')))
      else (case token of
              Err e \<Rightarrow> ([], Some (Err (errorf_s ''failed to get agent identity token: '' e))) | Panic \<Rightarrow> ([], Some Panic)
            | Ok agentIdentityToken \<Rightarrow>
               (case HttpClient_New joined serviceUrl apiEndpoint body
                       [(''Content-Type'', contentType), (''Authorization'', bearer agentIdentityToken)] [] False of
                  Err e \<Rightarrow> ([], Some (Err (errorf_s ''failed to instantiate http client: '' e))) | Panic \<Rightarrow> ([], Some Panic)
                | Ok client \<Rightarrow> http_execute client ''POST'' es)))"

definition ErrorReport_json :: "string \<Rightarrow> int \<Rightarrow> string \<Rightarrow> string \<Rightarrow> jvalue" where
  "ErrorReport_json reporter now message state =
     VObject [(''reporter'', marshal_string reporter), (''timestamp'', marshal_string (show_int now)), (''message'', marshal_string message), (''state'', marshal_string state)]"

definition RestartReport_json :: "string \<Rightarrow> string \<Rightarrow> int \<Rightarrow> string \<Rightarrow> string \<Rightarrow> jvalue" where
  "RestartReport_json targetId publicKey now message state =
     VObject [(''targetId'', marshal_string targetId), (''agentPublicKey'', marshal_string publicKey), (''timestamp'', marshal_string (show_int now)),
       (''message'', marshal_string message), (''state'', marshal_string state)]"

definition ReportError where
  "ReportError M joined serviceUrl token now reporter reportErr state es =
     bastion_request joined serviceUrl token (M (ErrorReport_json reporter now (etext reportErr) state)) ''/api/v2/agent/error'' jsonContentType es"

definition ReportRestart where
  "ReportRestart M joined serviceUrl token now targetId pubKey reason state es =
     bastion_request joined serviceUrl token (M (RestartReport_json targetId pubKey now reason state)) ''/api/v2/agent/restart'' jsonContentType es"

definition ReportLogs where
  "ReportLogs joined serviceUrl token logs formDataContentType es = bastion_request joined serviceUrl token logs ''/api/v2/upload-logs/agent'' formDataContentType es"

text \<open>Certificates and keys are JSON values here, as their own code prints them.\<close>

definition ClientCertificateRequest_json :: "string \<Rightarrow> jvalue \<Rightarrow> jvalue \<Rightarrow> string \<Rightarrow> jvalue" where
  "ClientCertificateRequest_json targetUser clientCert clientPubKey keyShardHash =
     VObject [(''TargetUser'', marshal_string targetUser), (''ClientCertificate'', clientCert), (''ClientPublicKey'', clientPubKey), (''KeyShardHash'', marshal_string keyShardHash)]"

definition CosignCertificate ::
  "json_parser \<Rightarrow> json_printer \<Rightarrow> (jvalue \<Rightarrow> 'cert option) \<Rightarrow> (string \<Rightarrow> string \<Rightarrow> string res) \<Rightarrow> string \<Rightarrow> string res \<Rightarrow> string \<Rightarrow> jvalue \<Rightarrow> jvalue \<Rightarrow> string \<Rightarrow>
   http_event list \<Rightarrow> http_request list \<times> 'cert res option" where
  "CosignCertificate J M readCert joined serviceUrl token targetUser clientCert clientPubKey keyShardHash es =
     apsnd (map_option (\<lambda>r. case r of
         Err e \<Rightarrow> Err e | Panic \<Rightarrow> Panic
       | Ok body \<Rightarrow>
          (case Option.bind (read_struct J (Some body)) (\<lambda>kvs. readCert (case struct_field kvs ''ClientCertificate'' of None \<Rightarrow> VNull | Some v \<Rightarrow> v)) of
             None \<Rightarrow> Err (errorf ''malformed certificate cosign response body: '') | Some cert \<Rightarrow> Ok cert)))
       (bastion_request joined serviceUrl token (M (ClientCertificateRequest_json targetUser clientCert clientPubKey keyShardHash)) ''/api/v2/certificate/cosign'' jsonContentType es)"

section \<open>Registration\<close>

record Registration =
  rg_agentType :: string
  rg_serviceUrl :: string
  rg_activationToken :: string
  rg_registrationKey :: string
  rg_targetId :: string
  rg_version :: string
  rg_environmentId :: string
  rg_environmentName :: string
  rg_targetName :: string
  rg_idpProvider :: string
  rg_idpOrgId :: string
  rg_jwksUrlPatterns :: "string list"

text \<open>What the servers answer to each of the requests of a registration, the name of the host and the key pair.\<close>

record reg_env =
  re_joined :: "string \<Rightarrow> string \<Rightarrow> string res"
  re_token :: "http_event list"
  re_url :: "http_event list"
  re_where :: "http_event list"
  re_register :: "http_event list"
  re_hostname :: "string res"
  re_keys :: "(PublicKey option \<times> PrivateKey option) res"

definition ActivationTokenRequest_json :: "Registration \<Rightarrow> jvalue" where
  "ActivationTokenRequest_json r = VObject [(''targetName'', marshal_string (rg_targetName r)), (''agentType'', marshal_string (rg_agentType r))]"

definition read_ActivationTokenResponse :: "json_parser \<Rightarrow> string \<Rightarrow> (string \<times> string) option" where
  "read_ActivationTokenResponse J body =
     Option.bind (read_struct J (Some body)) (\<lambda>kvs.
       case (text_field kvs ''activationToken'', text_field kvs ''existingClusterId'') of (Some t, Some i) \<Rightarrow> Some (t, i) | _ \<Rightarrow> None)"

text \<open>Calls that never come back have no result.\<close>

fun and_then :: "'a res option \<Rightarrow> ('a \<Rightarrow> 'b res option) \<Rightarrow> 'b res option" where
  "and_then (Some (Ok a)) f = f a"
| "and_then (Some (Err e)) f = Some (Err e)"
| "and_then (Some Panic) f = Some Panic"
| "and_then None f = None"

definition getActivationToken :: "json_parser \<Rightarrow> json_printer \<Rightarrow> reg_env \<Rightarrow> Registration \<Rightarrow> Registration \<times> string res option" where
  "getActivationToken J M E r =
     (case HttpClient_New (re_joined E) (rg_serviceUrl r) ''/api/v2/agent/token'' (M (ActivationTokenRequest_json r))
             [(''X-API-KEY'', rg_registrationKey r), (''Content-Type'', ''application/json'')] [] True of
        Err e \<Rightarrow> (r, Some (Err (errorf_s ''failed to create to http client: '' e))) | Panic \<Rightarrow> (r, Some Panic)
      | Ok client \<Rightarrow>
         (case snd (http_execute client ''POST'' (re_token E)) of
            None \<Rightarrow> (r, None) | Some Panic \<Rightarrow> (r, Some Panic) | Some (Err e) \<Rightarrow> (r, Some (Err (errorf_w ''failed to get activation token: '' e)))
          | Some (Ok body) \<Rightarrow>
             (case read_ActivationTokenResponse J body of
                None \<Rightarrow> (r, Some (Err (errorf ''malformed activation token response: '')))
              | Some (token, existing) \<Rightarrow>
                  if token = [] then (r, Some (Err (errorf ''activation request returned empty response'')))
                  else (if existing \<noteq> [] then r\<lparr>rg_targetId := existing\<rparr> else r, Some (Ok token)))))"

definition getConnectionServiceUrlFromServiceUrl :: "json_parser \<Rightarrow> reg_env \<Rightarrow> Registration \<Rightarrow> string res option" where
  "getConnectionServiceUrlFromServiceUrl J E r =
     (case HttpClient_New (re_joined E) (rg_serviceUrl r) ''/api/v2/connection-service/url'' [] [] [] False of
        Err e \<Rightarrow> Some (Err (errorf_s ''failed to create to http client: '' e)) | Panic \<Rightarrow> Some Panic
      | Ok client \<Rightarrow>
         and_then (map_option (wrap_err (errorf_s ''error making request to connection service: '')) (snd (http_execute client ''GET'' (re_url E)))) (\<lambda>body.
           case Option.bind (read_struct J (Some body)) (\<lambda>kvs. text_field kvs ''connectionServiceUrl'') of
             None \<Rightarrow> Some (Err (errorf ''malformed getConnectionService response: '')) | Some u \<Rightarrow> Some (Ok u)))"

definition whereAmI :: "json_parser \<Rightarrow> reg_env \<Rightarrow> Registration \<Rightarrow> string res option" where
  "whereAmI J E r =
     and_then (getConnectionServiceUrlFromServiceUrl J E r) (\<lambda>u.
       case HttpClient_New (re_joined E) u ''status/where'' [] [] [] False of
         Err e \<Rightarrow> Some (Err (errorf_s ''failed to create to http client: '' e)) | Panic \<Rightarrow> Some Panic
       | Ok client \<Rightarrow> map_option (wrap_err (errorf_s ''failed to hit location endpoint: '')) (snd (http_execute client ''GET'' (re_where E))))"

text \<open>The type of the target is left empty.\<close>

definition RegistrationRequest_json :: "Registration \<Rightarrow> string \<Rightarrow> string \<Rightarrow> string \<Rightarrow> jvalue" where
  "RegistrationRequest_json r pubText hostname region =
     VObject [(''publicKey'', marshal_string pubText), (''activationCode'', marshal_string (rg_activationToken r)), (''version'', marshal_string (rg_version r)),
       (''environmentId'', marshal_string (rg_environmentId r)), (''environmentName'', marshal_string (rg_environmentName r)),
       (''targetName'', marshal_string (rg_targetName r)), (''targetHostName'', marshal_string hostname), (''agentType'', marshal_string []),
       (''targetId'', marshal_string (rg_targetId r)), (''region'', marshal_string region)]"

record RegistrationResponse =
  rr_TargetName :: string
  rr_OrgID :: string
  rr_OrgProvider :: string
  rr_JwksUrlPatterns :: "string list"

definition read_RegistrationResponse :: "json_parser \<Rightarrow> string \<Rightarrow> RegistrationResponse option" where
  "read_RegistrationResponse J body =
     Option.bind (read_struct J (Some body)) (\<lambda>kvs.
       case (text_field kvs ''targetName'', text_field kvs ''externalOrganizationId'', text_field kvs ''externalOrganizationProvider'',
             case struct_field kvs ''allowedJwksUrlPatterns'' of None \<Rightarrow> Decoded None | Some v \<Rightarrow> decode_strings v) of
         (Some n, Some i, Some p, Decoded us) \<Rightarrow>
            Some \<lparr> rr_TargetName = n, rr_OrgID = i, rr_OrgProvider = p, rr_JwksUrlPatterns = (case us of None \<Rightarrow> [] | Some us \<Rightarrow> us) \<rparr>
       | _ \<Rightarrow> None)"

text \<open>The requests that were sent to register are kept in the result.\<close>

definition getRegistrationResponse ::
  "json_parser \<Rightarrow> json_printer \<Rightarrow> reg_env \<Rightarrow> Registration \<Rightarrow> string \<Rightarrow> Registration \<times> http_request list \<times> RegistrationResponse res option" where
  "getRegistrationResponse J M E r pubText =
     (case re_hostname E of
        Err e \<Rightarrow> (r, [], Some (Err (errorf_s ''could not resolve hostname: '' e))) | Panic \<Rightarrow> (r, [], Some Panic)
      | Ok hostname \<Rightarrow>
         (case whereAmI J E r of
            None \<Rightarrow> (r, [], None) | Some Panic \<Rightarrow> (r, [], Some Panic) | Some (Err e) \<Rightarrow> (r, [], Some (Err (errorf_s ''failed to get agent region: '' e)))
          | Some (Ok region) \<Rightarrow>
             let r1 = (if rg_targetId r = [] then r\<lparr>rg_targetId := rg_activationToken r\<rparr> else r) in
             (case HttpClient_New (re_joined E) (rg_serviceUrl r) ''/api/v2/agent/register'' (M (RegistrationRequest_json r1 pubText hostname region))
                     [(''Content-Type'', ''application/json'')] [] True of
                Err e \<Rightarrow> (r1, [], Some (Err (errorf_s ''failed to create to http client: '' e))) | Panic \<Rightarrow> (r1, [], Some Panic)
              | Ok client \<Rightarrow>
                 (case http_execute client ''POST'' (re_register E) of
                    (sent, a) \<Rightarrow>
                      (r1, sent, and_then (map_option (wrap_err (errorf_w ''failed to get activation token: '')) a) (\<lambda>body.
                        case read_RegistrationResponse J body of
                          None \<Rightarrow> Some (Err (errorf ''malformed registration response: '')) | Some resp \<Rightarrow> Some (Ok resp)))))))"

definition phoneHome ::
  "json_parser \<Rightarrow> json_printer \<Rightarrow> reg_env \<Rightarrow> Registration \<Rightarrow> string \<Rightarrow> Registration \<times> http_request list \<times> unit res option" where
  "phoneHome J M E r pubText =
     (let (r0, t) = (if rg_activationToken r = [] then getActivationToken J M E r else (r, Some (Ok (rg_activationToken r)))) in
      case t of
        None \<Rightarrow> (r0, [], None) | Some Panic \<Rightarrow> (r0, [], Some Panic) | Some (Err e) \<Rightarrow> (r0, [], Some (Err e))
      | Some (Ok token) \<Rightarrow>
         (case getRegistrationResponse J M E (r0\<lparr>rg_activationToken := token\<rparr>) pubText of
            (r2, sent, Some (Ok resp)) \<Rightarrow>
              (r2\<lparr>rg_idpProvider := (if rg_idpProvider r2 = [] then rr_OrgProvider resp else rg_idpProvider r2),
                  rg_idpOrgId := (if rg_idpOrgId r2 = [] then rr_OrgID resp else rg_idpOrgId r2),
                  rg_targetName := rr_TargetName resp, rg_jwksUrlPatterns := rr_JwksUrlPatterns resp\<rparr>, sent, Some (Ok ()))
          | (r2, sent, Some (Err e)) \<Rightarrow> (r2, sent, Some (Err e)) | (r2, sent, Some Panic) \<Rightarrow> (r2, sent, Some Panic) | (r2, sent, None) \<Rightarrow> (r2, sent, None)))"

definition reg_data :: "Registration \<Rightarrow> PublicKey option \<Rightarrow> PrivateKey option \<Rightarrow> registration" where
  "reg_data r publicKey privateKey =
     \<lparr> reg_serviceUrl = rg_serviceUrl r, reg_publickey = publicKey, reg_privateKey = privateKey, reg_idpProvider = rg_idpProvider r,
       reg_idpOrgId = rg_idpOrgId r, reg_targetId = rg_targetId r, reg_jwksUrlPatterns = rg_jwksUrlPatterns r \<rparr>"

definition Register ::
  "json_parser \<Rightarrow> json_printer \<Rightarrow> lib \<Rightarrow> 's agent_store \<Rightarrow> ('s \<Rightarrow> 's) \<Rightarrow> reg_env \<Rightarrow> Registration \<Rightarrow> 's agent_config \<Rightarrow>
   Registration \<times> http_request list \<times> 's agent_config \<times> unit res option" where
  "Register J M L SO between E r config =
     (if rg_activationToken r = [] \<and> rg_registrationKey r = []
      then (r, [], config, Some (Err (errorf ''in order to register, we need either an api key or an activation token'')))
      else (case re_keys E of
              Err e \<Rightarrow> (r, [], config, Some (Err e)) | Panic \<Rightarrow> (r, [], config, Some Panic)
            | Ok (publicKey, privateKey) \<Rightarrow>
               (case phoneHome J M E r (PublicKey_String publicKey) of
                  (r1, sent, Some (Ok _)) \<Rightarrow>
                    (case SetRegistrationData L SO between config (reg_data r1 publicKey privateKey) of
                       (c, a) \<Rightarrow> (r1, sent, c, Some (wrap_err (errorf_w ''failed to persist new registration data: '') a)))
                | (r1, sent, a) \<Rightarrow> (r1, sent, config, a))))"

section \<open>Attempts\<close>

definition was_sent :: "http_answer \<Rightarrow> bool" where
  "was_sent a \<longleftrightarrow> (case a of NotBuilt _ \<Rightarrow> False | NotSent _ \<Rightarrow> False | _ \<Rightarrow> True)"

lemma http_once_body: "hc_body (fst (http_once h verb f)) = (if was_sent (f (http_request_of h verb)) then [] else hc_body h)"
  by (simp add: http_once_def was_sent_def split: http_answer.split)

lemma retry_empty: "hc_body h = [] \<Longrightarrow> r \<in> set (fst (http_retry h verb l es)) \<Longrightarrow> hq_body r = []"
proof (induction h verb l es rule: http_retry.induct)
  case (4 h verb l f es)
  obtain h1 a where a: "http_once h verb f = (h1, a)" by fastforce
  then have "hc_body h1 = []" using http_once_body [of h verb f] 4(2) by simp
  then show ?case using 4 a by (cases a) (auto simp: http_request_of_def)
qed simp_all

text \<open>
  A request that is repeated is not the same request: the first one carries the body it
  was made with, but once it has been sent, answered or not, every further attempt has an
  empty body, because its reader is at the end. Registering has such requests.
\<close>

theorem retried_body_empty:
  assumes "hc_backoff h" and "was_sent (f (http_request_of h verb))" and "http_execute h verb (HAttempt f # es) = (sent, a)"
  shows "\<exists>r rs. sent = r # rs \<and> hq_body r = hc_body h \<and> (\<forall>q \<in> set rs. hq_body q = [] \<and> hq_url q = hq_url r)"
proof -
  obtain h1 x where o: "http_once h verb f = (h1, x)" by fastforce
  have h1: "hc_body h1 = []" using http_once_body [of h verb f] o assms(2) by simp
  have u: "q \<in> set (fst (http_retry k verb l es')) \<Longrightarrow> hq_url q = hc_targetUrl k" for q k l es'
  proof (induction k verb l es' rule: http_retry.induct)
    case (4 k verb l g es')
    obtain k1 y where y: "http_once k verb g = (k1, y)" by fastforce
    then have "hc_targetUrl k1 = hc_targetUrl k" by (auto simp: http_once_def split: http_answer.splits)
    then show ?case using 4 y by (cases y) (auto simp: http_request_of_def)
  qed simp_all
  have t: "hc_targetUrl h1 = hc_targetUrl h" using o by (auto simp: http_once_def split: http_answer.splits)
  obtain rs b where rs: "http_retry h1 verb (case x of Err e \<Rightarrow> Some e | _ \<Rightarrow> None) es = (rs, b)" by fastforce
  have "\<forall>q \<in> set rs. hq_body q = [] \<and> hq_url q = hc_targetUrl h" using rs retry_empty [OF h1] u [of _ h1] t by (metis fst_conv)
  then show ?thesis using assms(1,3) o rs by (cases x) (auto simp: http_execute_def http_request_of_def)
qed

section \<open>Tokens\<close>




text \<open>
  A token that cannot be read is an empty one: an answer that is not JSON, or has no token, is
  stored and returned as a token without text.
\<close>

lemma unreadable_token_empty:
  assumes "key_pair L p (GetPrivateKey (ai_store a))" and "GetAgentIdentityToken (ai_store a) = []" and "\<And>u e. is_ok (ie_joined E u e)"
    and "\<And>r. f r = Answered 200 body" and "J body = None" and "snd (SetAgentIdentityToken SO (ie_between E) (ai_store a) []) \<noteq> Panic"
  shows "snd (identity_Get J M L SO E a (HAttempt f # es)) = Some (Ok [])"
proof -
  obtain sig where sig: "PrivateKey_Sign L (GetPrivateKey (ai_store a)) (M (GetAgentIdentityTokenRequest_json (ie_now E))) = Ok sig"
    using key_pair_Verify [OF assms(1)] by blast
  obtain u where u: "ie_joined E (ai_serviceUrl a) (agentIdentityEndpoint (GetTargetId (ai_store a))) = Ok u"
    using assms(3) [of "ai_serviceUrl a" "agentIdentityEndpoint (GetTargetId (ai_store a))"] by (auto simp: is_ok_iff)
  have "snd (getTokenFromBastion J M L E a (HAttempt f # es)) = Some (Ok [])"
    using sig u assms(4,5) by (simp add: getTokenFromBastion_def HttpClient_New_def agentIdentityEndpoint_def http_execute_def http_once_def body_field_def read_struct_def Let_def)
  then show ?thesis using assms(2,6)
    by (cases "snd (SetAgentIdentityToken SO (ie_between E) (ai_store a) [])") (auto simp: identity_Get_def refreshToken_def Let_def split: prod.splits)
qed

section \<open>Registering\<close>

lemma register_request:
  assumes "getRegistrationResponse J M E r pub = (r1, sent, Some (Ok resp))"
  shows "\<exists>q qs hostname region. sent = q # qs \<and> hq_body q = M (RegistrationRequest_json r1 pub hostname region) \<and> hq_verb q = ''POST'' \<and>
    r1 = r\<lparr>rg_targetId := (if rg_targetId r = [] then rg_activationToken r else rg_targetId r)\<rparr>"
proof -
  let ?r = "if rg_targetId r = [] then r\<lparr>rg_targetId := rg_activationToken r\<rparr> else r"
  obtain hostname region client where h: "re_hostname E = Ok hostname" "whereAmI J E r = Some (Ok region)"
    "HttpClient_New (re_joined E) (rg_serviceUrl r) ''/api/v2/agent/register'' (M (RegistrationRequest_json ?r pub hostname region)) [(''Content-Type'', ''application/json'')] [] True = Ok client"
    using assms by (auto simp: getRegistrationResponse_def Let_def split: res.splits option.splits)
  obtain a where a: "http_execute client ''POST'' (re_register E) = (sent, Some (Ok a))"
    using assms h by (cases "snd (http_execute client ''POST'' (re_register E))"; cases "the (snd (http_execute client ''POST'' (re_register E)))")
      (auto simp: getRegistrationResponse_def Let_def split: prod.splits)
  have c: "hc_backoff client" "hc_body client = M (RegistrationRequest_json ?r pub hostname region)"
    using h(3) by (cases "re_joined E (rg_serviceUrl r) ''/api/v2/agent/register''"; auto simp: HttpClient_New_def)+
  have "r1 = ?r" using assms h by (auto simp: getRegistrationResponse_def Let_def split: prod.splits)
  then have r1: "r1 = r\<lparr>rg_targetId := (if rg_targetId r = [] then rg_activationToken r else rg_targetId r)\<rparr>" by simp
  have "\<exists>qs. sent = http_request_of client ''POST'' # qs"
    using a c(1) by (cases "re_register E"; cases "hd (re_register E)") (auto simp: http_execute_def apfst_def map_prod_def split: prod.splits res.splits)
  moreover have "hq_body (http_request_of client ''POST'') = M (RegistrationRequest_json r1 pub hostname region)" "hq_verb (http_request_of client ''POST'') = ''POST''"
    using c(2) \<open>r1 = ?r\<close> by (simp_all add: http_request_of_def)
  ultimately show ?thesis using r1 by blast
qed

lemma update_config_Ok:
  "update_config SO between change c = (c', Ok ()) \<Longrightarrow> so_fetch SO (cfg_store c) = (s1, Ok d) \<Longrightarrow> change d = Ok (Some d') \<Longrightarrow>
   cfg_data c' = d' \<and> so_save SO (between s1) d' = (cfg_store c', Ok ())"
  by (auto simp: update_config_def split: prod.splits)

lemma append_urls_keeps: "append_urls L acc us = Ok new \<Longrightarrow> set (patterns_list acc) \<subseteq> set (patterns_list new)"
proof (induction us arbitrary: acc)
  case (Cons u us)
  obtain parsed where p: "url_ParseRequestURI L u = Ok parsed" using Cons.prems by (auto split: res.splits)
  then have "set (patterns_list (Some (patterns_list acc @ [parsed]))) \<subseteq> set (patterns_list new)" using Cons by simp
  then show ?case by (simp add: patterns_list_def)
qed simp

text \<open>What a registration that was accepted leaves behind.\<close>

definition registered_as :: "Registration \<Rightarrow> Registration \<Rightarrow> PublicKey option \<Rightarrow> PrivateKey option \<Rightarrow> AgentDataV2 \<Rightarrow> AgentDataV2 \<Rightarrow> bool" where
  "registered_as r r' pk sk old new \<longleftrightarrow>
     ad_PublicKey new = pk \<and> ad_PrivateKey new = sk \<and> ad_ServiceUrl new = rg_serviceUrl r \<and> ad_TargetId new = rg_targetId r' \<and> ad_AgentIdentityToken new = [] \<and>
     ad_IdpOrgId new = rg_idpOrgId r' \<and> (rg_idpOrgId r \<noteq> [] \<longrightarrow> rg_idpOrgId r' = rg_idpOrgId r) \<and>
     ad_IdpProvider new = rg_idpProvider r' \<and> (rg_idpProvider r \<noteq> [] \<longrightarrow> rg_idpProvider r' = rg_idpProvider r) \<and>
     set (patterns_list (ad_JwksUrlPatterns old)) \<subseteq> set (patterns_list (ad_JwksUrlPatterns new))"

lemma phoneHome_Ok:
  assumes "phoneHome J M E r pub = (r', sent, Some (Ok u))"
  shows "rg_serviceUrl r' = rg_serviceUrl r \<and> (rg_idpOrgId r \<noteq> [] \<longrightarrow> rg_idpOrgId r' = rg_idpOrgId r) \<and> (rg_idpProvider r \<noteq> [] \<longrightarrow> rg_idpProvider r' = rg_idpProvider r) \<and>
    (\<exists>q qs r1 hostname region. sent = q # qs \<and> hq_verb q = ''POST'' \<and> hq_body q = M (RegistrationRequest_json r1 pub hostname region) \<and> rg_targetId r1 = rg_targetId r' \<and>
       rg_activationToken r1 = rg_activationToken r')"
proof -
  obtain r0 t where t: "(if rg_activationToken r = [] then getActivationToken J M E r else (r, Some (Ok (rg_activationToken r)))) = (r0, t)" by fastforce
  have r0: "rg_serviceUrl r0 = rg_serviceUrl r \<and> rg_idpOrgId r0 = rg_idpOrgId r \<and> rg_idpProvider r0 = rg_idpProvider r"
    using t by (auto simp: getActivationToken_def split: if_splits res.splits option.splits prod.splits)
  obtain token where tok: "t = Some (Ok token)" using assms t by (auto simp: phoneHome_def split: option.splits res.splits)
  obtain r2 resp where g: "getRegistrationResponse J M E (r0\<lparr>rg_activationToken := token\<rparr>) pub = (r2, sent, Some (Ok resp))"
    using assms t tok by (auto simp: phoneHome_def split: option.splits res.splits prod.splits)
  obtain q qs hostname region where q: "sent = q # qs" "hq_body q = M (RegistrationRequest_json r2 pub hostname region)" "hq_verb q = ''POST''"
    and r2: "r2 = (r0\<lparr>rg_activationToken := token\<rparr>)\<lparr>rg_targetId := (if rg_targetId (r0\<lparr>rg_activationToken := token\<rparr>) = []
        then rg_activationToken (r0\<lparr>rg_activationToken := token\<rparr>) else rg_targetId (r0\<lparr>rg_activationToken := token\<rparr>))\<rparr>"
    using register_request [OF g] by blast
  have r': "r' = r2\<lparr>rg_idpProvider := (if rg_idpProvider r2 = [] then rr_OrgProvider resp else rg_idpProvider r2),
      rg_idpOrgId := (if rg_idpOrgId r2 = [] then rr_OrgID resp else rg_idpOrgId r2), rg_targetName := rr_TargetName resp, rg_jwksUrlPatterns := rr_JwksUrlPatterns resp\<rparr>"
    using assms t tok g by (simp add: phoneHome_def)
  have "rg_targetId r2 = rg_targetId r'" "rg_activationToken r2 = rg_activationToken r'" using r' by simp_all
  then have "\<exists>q qs r1 hostname region. sent = q # qs \<and> hq_verb q = ''POST'' \<and> hq_body q = M (RegistrationRequest_json r1 pub hostname region) \<and>
      rg_targetId r1 = rg_targetId r' \<and> rg_activationToken r1 = rg_activationToken r'" using q by blast
  moreover have "rg_serviceUrl r2 = rg_serviceUrl r" "rg_idpOrgId r2 = rg_idpOrgId r" "rg_idpProvider r2 = rg_idpProvider r" using r2 r0 by simp_all
  ultimately show ?thesis using r' by simp
qed

lemma register_Ok:
  assumes "Register J M L SO between E r c = (r', sent, c', Some (Ok ()))"
  shows "\<exists>pk sk s1 d q qs r1 hostname region. re_keys E = Ok (pk, sk) \<and> so_fetch SO (cfg_store c) = (s1, Ok d) \<and> so_save SO (between s1) (cfg_data c') = (cfg_store c', Ok ()) \<and>
     registered_as r r' pk sk d (cfg_data c') \<and> sent = q # qs \<and> hq_verb q = ''POST'' \<and>
     hq_body q = M (RegistrationRequest_json r1 (PublicKey_String pk) hostname region) \<and> rg_targetId r1 = ad_TargetId (cfg_data c')"
proof -
  obtain pk sk where k: "re_keys E = Ok (pk, sk)" and p: "phoneHome J M E r (PublicKey_String pk) = (r', sent, Some (Ok ()))"
    and s: "SetRegistrationData L SO between c (reg_data r' pk sk) = (c', Ok ())"
    using assms by (auto simp: Register_def split: if_splits res.splits prod.splits option.splits)
  obtain s1 d d' where f: "so_fetch SO (cfg_store c) = (s1, Ok d)" "register_change L (reg_data r' pk sk) d = Ok (Some d')"
    using s by (auto simp: SetRegistrationData_def update_config_def register_change_def split: prod.splits res.splits)
  have u: "cfg_data c' = d'" "so_save SO (between s1) d' = (cfg_store c', Ok ())" using update_config_Ok [OF s [unfolded SetRegistrationData_def] f] by auto
  obtain us where us: "append_urls L (ad_JwksUrlPatterns d) (rg_jwksUrlPatterns r') = Ok us" "ad_JwksUrlPatterns d' = us"
    using f(2) by (auto simp: register_change_def reg_data_def split: res.splits)
  have "registered_as r r' pk sk d d'" using f(2) phoneHome_Ok [OF p] append_urls_keeps [OF us(1)] us(2)
    by (auto simp: registered_as_def register_change_def reg_data_def split: res.splits)
  moreover have "ad_TargetId d' = rg_targetId r'" using calculation by (simp add: registered_as_def)
  ultimately show ?thesis using k f(1) u phoneHome_Ok [OF p] by metis
qed

text \<open>
  A registration is saved only when Bastion has accepted it, and it is the one that was sent:
  the first request to register carries the public key whose pair is saved and the target that
  is saved; the organisation given by the user is kept; the old identity token is gone, and the
  service accounts of an earlier registration are not. Without Bastion's consent nothing changes.
\<close>

theorem registration_saved:
  assumes "Register J M L SO between E r c = (r', sent, c', a)"
  shows "(a = Some (Ok ()) \<longrightarrow>
      (\<exists>pk sk s1 d q qs r1 hostname region. re_keys E = Ok (pk, sk) \<and> so_fetch SO (cfg_store c) = (s1, Ok d) \<and> so_save SO (between s1) (cfg_data c') = (cfg_store c', Ok ()) \<and>
         registered_as r r' pk sk d (cfg_data c') \<and> sent = q # qs \<and> hq_verb q = ''POST'' \<and>
         hq_body q = M (RegistrationRequest_json r1 (PublicKey_String pk) hostname region) \<and> rg_targetId r1 = ad_TargetId (cfg_data c'))) \<and>
    ((\<forall>pk sk. re_keys E = Ok (pk, sk) \<longrightarrow> snd (snd (phoneHome J M E r (PublicKey_String pk))) \<noteq> Some (Ok ())) \<longrightarrow> c' = c)"
  using assms register_Ok [of J M L SO between E r c r' sent c'] by (auto simp: Register_def split: if_splits res.splits prod.splits option.splits)

section \<open>Witnesses\<close>

theorem retried_body_empty_witness:
  "\<exists>r q. http_execute \<lparr> hc_backoff = True, hc_targetUrl = ''u'', hc_body = ''b'', hc_headers = [], hc_params = [] \<rparr> ''POST''
       [HAttempt (\<lambda>_. Answered 503 []), HAttempt (\<lambda>_. Answered 200 [])] = ([r, q], Some (Ok [])) \<and> hq_body r = ''b'' \<and> hq_body q = []"
proof -
  let ?h = "\<lparr> hc_backoff = True, hc_targetUrl = ''u'', hc_body = ''b'', hc_headers = [], hc_params = [] \<rparr>"
  have e: "http_execute ?h ''POST'' [HAttempt (\<lambda>_. Answered 503 []), HAttempt (\<lambda>_. Answered 200 [])] =
      ([http_request_of ?h ''POST'', http_request_of (?h\<lparr>hc_body := []\<rparr>) ''POST''], Some (Ok []))"
    by (simp add: http_execute_def http_once_def http_request_of_def)
  have h: "hc_backoff ?h" "was_sent ((\<lambda>_. Answered 503 []) (http_request_of ?h ''POST''))" by (simp_all add: was_sent_def)
  show ?thesis using retried_body_empty [OF h e] e by simp
qed

definition wit_id_data :: AgentDataV2 where
  "wit_id_data = AgentDataV2_zero\<lparr>ad_PrivateKey := Some (Some (wit_key @ wit_key))\<rparr>"

definition wit_provider :: "AgentDataV2 AgentIdentityProvider" where
  "wit_provider = \<lparr> ai_serviceUrl = ''https://b/'', ai_store = \<lparr> cfg_data = wit_id_data, cfg_store = wit_id_data \<rparr>, ai_provider = False \<rparr>"

definition wit_store :: "AgentDataV2 agent_store" where
  "wit_store = \<lparr> so_fetch = (\<lambda>s. (s, Ok s)), so_save = (\<lambda>s d. (d, Ok ())) \<rparr>"



definition wit_reg_env :: reg_env where
  "wit_reg_env = \<lparr> re_joined = (\<lambda>u e. Ok (u @ e)), re_token = [], re_url = [HAttempt (\<lambda>_. Answered 200 [])], re_where = [HAttempt (\<lambda>_. Answered 200 [])],
     re_register = [HAttempt (\<lambda>_. Answered 200 [])], re_hostname = Ok ''h'', re_keys = Ok (Some (Some wit_key), Some (Some (wit_key @ wit_key))) \<rparr>"

definition wit_registration :: Registration where
  "wit_registration = \<lparr> rg_agentType = ''linux'', rg_serviceUrl = ''https://b/'', rg_activationToken = ''token'', rg_registrationKey = [], rg_targetId = [], rg_version = ''1'',
     rg_environmentId = [], rg_environmentName = [], rg_targetName = [], rg_idpProvider = [], rg_idpOrgId = ''acme'', rg_jwksUrlPatterns = [] \<rparr>"

theorem registration_saved_witness:
  "\<exists>r' sent c'. Register (\<lambda>_. Some (VObject [])) codec_print wit_nonce_lib wit_store id wit_reg_env wit_registration (ai_store wit_provider) = (r', sent, c', Some (Ok ())) \<and>
     ad_IdpOrgId (cfg_data c') = ''acme'' \<and> ad_TargetId (cfg_data c') = ''token''"
proof -
  let ?J = "\<lambda>_ :: string. Some (VObject [])"
  obtain r' sent c' where r: "Register ?J codec_print wit_nonce_lib wit_store id wit_reg_env wit_registration (ai_store wit_provider) = (r', sent, c', Some (Ok ()))"
    "rg_targetId r' = ''token''"
    by (simp add: Register_def phoneHome_def getRegistrationResponse_def whereAmI_def getConnectionServiceUrlFromServiceUrl_def HttpClient_New_def http_execute_def http_once_def
        read_struct_def read_RegistrationResponse_def text_field_def string_field_def struct_field_def wit_registration_def wit_reg_env_def
        SetRegistrationData_def update_config_def register_change_def reg_data_def wit_store_def Let_def)
  show ?thesis using registration_saved [OF r(1)] r by (auto simp: registered_as_def wit_registration_def)
qed

end
