(* ===== verification/Agent_Main.thy ===== *)
theory Agent_Main
  imports Bastion_Client
begin

text \<open>
  \<^verbatim>\<open>bctl/agent\<close>: the agent's process. It decides whether to register, to wait or to run, and while it
  runs it watches its control channel and restarts when that has gone silent.
\<close>

section \<open>Watching the control channel\<close>

text \<open>Durations are in minutes.\<close>

definition bastionDisconnectTimeout :: nat where
  "bastionDisconnectTimeout = 3 * 1"

definition MaximumReconnectWaitTime :: nat where
  "MaximumReconnectWaitTime = 30"

definition maximumMissedPongSets :: nat where
  "maximumMissedPongSets = MaximumReconnectWaitTime div bastionDisconnectTimeout"

definition stoppedProcessingPongsMsg :: string where
  "stoppedProcessingPongsMsg = ''control channel stopped processing pongs''"

text \<open>A timeout comes with the answer of the control channel whether it should be sending pongs.\<close>

datatype monitor_event = MDying gerror | MPong | MTimeout bool | MChannelDone gerror

text \<open>Still watching, with the sets of pongs missed; or ended, with an error and a reason to close the control channel.\<close>

datatype monitor_result = Monitoring nat | Ended "gerror option" "gerror option"

fun monitorControlChannel :: "nat \<Rightarrow> monitor_event list \<Rightarrow> monitor_result" where
  "monitorControlChannel missed [] = Monitoring missed"
| "monitorControlChannel missed (MDying reason # es) = Ended None (Some reason)"
| "monitorControlChannel missed (MPong # es) = monitorControlChannel 0 es"
| "monitorControlChannel missed (MTimeout sending # es) =
     (if \<not> sending \<and> missed < maximumMissedPongSets then monitorControlChannel (Suc missed) es
      else Ended (Some (errorf stoppedProcessingPongsMsg)) (Some (errorf stoppedProcessingPongsMsg)))"
| "monitorControlChannel missed (MChannelDone e # es) = Ended (Some (errorf_s ''control channel closed with error: '' e)) None"

section \<open>Running\<close>

record 's Agent =
  ag_tomb :: tomb
  ag_config :: "'s agent_config"
  ag_agentType :: string
  ag_version :: string
  ag_bastionClient :: bool
  ag_controlConn :: bool
  ag_reported :: "gerror list"
  ag_restarts :: "string list"

definition agent_state :: "string res \<Rightarrow> string \<Rightarrow> string \<Rightarrow> 's Agent \<Rightarrow> (string \<times> string) list" where
  "agent_state hostname goos goarch a =
     [(''version'', ag_version a), (''targetType'', ag_agentType a), (''targetId'', GetTargetId (ag_config a)),
      (''targetHostName'', case hostname of Ok h \<Rightarrow> h | _ \<Rightarrow> []), (''goos'', goos), (''goarch'', goarch)]"

text \<open>Reporting without a client panics; what Bastion answers is only logged.\<close>

definition agent_reportError :: "'s Agent \<Rightarrow> gerror \<Rightarrow> 's Agent res" where
  "agent_reportError a reason = (if ag_bastionClient a then Ok (a\<lparr>ag_reported := ag_reported a @ [reason]\<rparr>) else Panic)"

definition qualifies :: "string \<Rightarrow> bool" where
  "qualifies shutdownReason \<longleftrightarrow> shutdownReason = stoppedProcessingPongsMsg \<or> contains shutdownReason ManualRestartMsg"

definition reportQualifiedShutdown :: "'s Agent \<Rightarrow> 's Agent res" where
  "reportQualifiedShutdown a =
     (let shutdownReason = fst (GetShutdownInfo (ag_config a)) in
      if \<not> qualifies shutdownReason then Ok a
      else if ag_bastionClient a then Ok (a\<lparr>ag_restarts := ag_restarts a @ [shutdownReason]\<rparr>) else Panic)"

text \<open>Neither making the control connection nor starting the control channel ever returns an error.\<close>

definition startControlChannel :: "'s Agent \<Rightarrow> 's Agent" where
  "startControlChannel a = a\<lparr>ag_bastionClient := True, ag_controlConn := True\<rparr>"

text \<open>
  Starting to run: the report of a restart is a routine of its own, which may get its turn
  before the client exists (\<^verbatim>\<open>early\<close>). An error that ends the start is reported.
\<close>

definition agent_Run_start :: "'s agent_store \<Rightarrow> ('s \<Rightarrow> 's) \<Rightarrow> bool \<Rightarrow> 's Agent \<Rightarrow> 's Agent res" where
  "agent_Run_start SO between early a =
     (case (if early then reportQualifiedShutdown a else Ok a) of
        Err e \<Rightarrow> Err e | Panic \<Rightarrow> Panic
      | Ok a1 \<Rightarrow>
         (case SetVersion SO between (ag_config a1) (ag_version a1) of
            (c, Panic) \<Rightarrow> Panic
          | (c, Err e) \<Rightarrow> (case agent_reportError (a1\<lparr>ag_config := c\<rparr>) e of Ok _ \<Rightarrow> Err e | r \<Rightarrow> r)
          | (c, Ok _) \<Rightarrow>
             let a2 = startControlChannel (a1\<lparr>ag_config := c\<rparr>);
                 a3 = a2\<lparr>ag_tomb := \<lparr> tb_killed = None, tb_started = True, tb_running = 1 \<rparr>\<rparr> in
             if early then Ok a3 else reportQualifiedShutdown a3))"

text \<open>Closing saves the reason for the next start; whether that works is not looked at.\<close>

definition agent_Close :: "'s agent_store \<Rightarrow> ('s \<Rightarrow> 's) \<Rightarrow> (string \<times> string) list \<Rightarrow> 's Agent \<Rightarrow> gerror option \<Rightarrow> 's Agent" where
  "agent_Close SO between state a reason =
     (let a1 = (if tomb_Alive (ag_tomb a) then a\<lparr>ag_tomb := (tomb_Kill (ag_tomb a) reason)\<lparr>tb_running := 0\<rparr>\<rparr> else a)\<lparr>ag_controlConn := False\<rparr> in
      case reason of
        None \<Rightarrow> a1
      | Some e \<Rightarrow> a1\<lparr>ag_config := fst (SetShutdownInfo SO between (ag_config a1) (etext e) (Some state))\<rparr>)"

datatype run_event = RDead | RSignal string | RRuntimeErr gerror

definition agent_finish :: "'s agent_store \<Rightarrow> ('s \<Rightarrow> 's) \<Rightarrow> (string \<times> string) list \<Rightarrow> 's Agent \<Rightarrow> gerror option \<Rightarrow> 's Agent \<times> unit res" where
  "agent_finish SO between state a err =
     (let a1 = agent_Close SO between state a err in
      case err of None \<Rightarrow> (a1, Ok ()) | Some e \<Rightarrow> (case agent_reportError a1 e of Ok a2 \<Rightarrow> (a2, Err e) | _ \<Rightarrow> (a1, Panic)))"

fun agent_Run_loop :: "'s agent_store \<Rightarrow> ('s \<Rightarrow> 's) \<Rightarrow> (string \<times> string) list \<Rightarrow> 's Agent \<Rightarrow> run_event list \<Rightarrow> 's Agent \<times> unit res option" where
  "agent_Run_loop SO between state a [] = (a, None)"
| "agent_Run_loop SO between state a (RDead # es) =
     apsnd Some (agent_finish SO between state a (case tb_killed (ag_tomb a) of Some k \<Rightarrow> k | None \<Rightarrow> None))"
| "agent_Run_loop SO between state a (RSignal s # es) = apsnd Some (agent_finish SO between state a (Some (errorf (''received shutdown signal: '' @ s))))"
| "agent_Run_loop SO between state a (RRuntimeErr e # es) =
     (case agent_reportError a e of Ok a1 \<Rightarrow> agent_Run_loop SO between state a1 es | Err x \<Rightarrow> (a, Some (Err x)) | Panic \<Rightarrow> (a, Some Panic))"

text \<open>The routine that watches has returned.\<close>

definition monitor_ended :: "'s Agent \<Rightarrow> gerror option \<Rightarrow> 's Agent" where
  "monitor_ended a err = a\<lparr>ag_tomb := tomb_return (ag_tomb a) err\<rparr>"

section \<open>Starting\<close>

record start_flags =
  sf_wait :: bool
  sf_force :: bool
  sf_attempted :: bool
  sf_windows :: bool

datatype start_outcome = Starts | RegisteredAndExits | StartFails gerror | StartPanics | StartWaits

definition registered :: "'s agent_config \<Rightarrow> bool" where
  "registered c \<longleftrightarrow> \<not> PublicKey_IsEmpty (GetPublicKey c)"

text \<open>
  The last part of both constructors; \<^verbatim>\<open>register\<close> registers with Bastion and \<^verbatim>\<open>after\<close> is what a
  successful registration goes on with.
\<close>

definition already_registered :: gerror where
  "already_registered = errorf ''BastionZero Agent is already registered. To force re-register, use the -y flag''"

definition register_or_start ::
  "start_flags \<Rightarrow> ('s agent_config \<Rightarrow> 's agent_config \<times> unit res option) \<Rightarrow> (gerror \<Rightarrow> gerror) \<Rightarrow> ('s agent_config \<Rightarrow> 's agent_config \<times> start_outcome) \<Rightarrow>
   's agent_config \<Rightarrow> 's agent_config \<times> start_outcome" where
  "register_or_start fl register failed after c =
     (if \<not> registered c \<or> sf_force fl
      then (case register c of
              (c1, None) \<Rightarrow> (c1, StartWaits) | (c1, Some (Err e)) \<Rightarrow> (c1, StartFails (failed e)) | (c1, Some Panic) \<Rightarrow> (c1, StartPanics)
            | (c1, Some (Ok _)) \<Rightarrow> after c1)
      else (c, if sf_attempted fl then StartFails already_registered else Starts))"

definition reloaded :: "'s agent_store \<Rightarrow> (gerror \<Rightarrow> gerror) \<Rightarrow> ('s agent_config \<Rightarrow> 's agent_config \<times> start_outcome) \<Rightarrow> 's agent_config \<Rightarrow> 's agent_config \<times> start_outcome" where
  "reloaded SO failed go c = (case Reload SO c of (c1, Ok _) \<Rightarrow> go c1 | (c1, Err e) \<Rightarrow> (c1, StartFails (failed e)) | (c1, Panic) \<Rightarrow> (c1, StartPanics))"

text \<open>
  \<^verbatim>\<open>NewAgent\<close> once the stores are open: \<^verbatim>\<open>waited\<close> is how waiting for a registration by another process ends, which has
  changed the store as \<^verbatim>\<open>others\<close> says.
\<close>

definition NewAgent ::
  "'s agent_store \<Rightarrow> start_flags \<Rightarrow> ('s agent_config \<Rightarrow> 's agent_config \<times> unit res option) \<Rightarrow> unit res option \<Rightarrow> ('s \<Rightarrow> 's) \<Rightarrow> 's agent_config \<Rightarrow>
   's agent_config \<times> start_outcome" where
  "NewAgent SO fl register waited others c =
     (let go = register_or_start fl register id (\<lambda>c. (c, if sf_windows fl then Starts else RegisteredAndExits)) in
      if \<not> registered c \<and> sf_wait fl
      then (case waited of
              None \<Rightarrow> (c, StartWaits) | Some Panic \<Rightarrow> (c, StartPanics) | Some (Err e) \<Rightarrow> (c, StartFails e)
            | Some (Ok _) \<Rightarrow> reloaded SO (errorf_w ''failed to reload config after new registration detected: '') go (c\<lparr>cfg_store := others (cfg_store c)\<rparr>))
      else go c)"

definition NewKubeAgent ::
  "'s agent_store \<Rightarrow> start_flags \<Rightarrow> ('s agent_config \<Rightarrow> 's agent_config \<times> unit res option) \<Rightarrow> unit res \<Rightarrow> 's agent_config \<Rightarrow> 's agent_config \<times> start_outcome" where
  "NewKubeAgent SO fl register permissions c =
     (case permissions of
        Err e \<Rightarrow> (c, StartFails (errorf_w ''error verifying agent kubernetes setup: '' e)) | Panic \<Rightarrow> (c, StartPanics)
      | Ok _ \<Rightarrow> register_or_start fl register (errorf_w ''failed to register kube agent: '') (reloaded SO id (\<lambda>c. (c, Starts))) c)"

text \<open>\<^verbatim>\<open>main\<close> gives a URL without a scheme one; a URL that does not parse is printed and then used.\<close>

definition service_url :: "(string \<Rightarrow> string res) \<Rightarrow> string \<Rightarrow> string res" where
  "service_url parse_with_https url =
     (if has_prefix ''https'' url then Ok url else (case parse_with_https url of Ok u \<Rightarrow> Ok u | _ \<Rightarrow> Panic))"

section \<open>The commands for key shards\<close>

text \<open>A loop over arguments that stops at the first error, after which what was done stays done.\<close>

fun command_loop :: "('c \<Rightarrow> 'a \<Rightarrow> 'c \<times> unit res) \<Rightarrow> 'c \<Rightarrow> 'a list \<Rightarrow> 'c \<times> unit res" where
  "command_loop step c [] = (c, Ok ())"
| "command_loop step c (x # xs) = (case step c x of (c1, Ok _) \<Rightarrow> command_loop step c1 xs | r \<Rightarrow> r)"

definition addKeyShardData ::
  "(string \<Rightarrow> KeyShardData option) \<Rightarrow> ('s, KeyShardData) store_ops \<Rightarrow> ('s \<Rightarrow> 's) \<Rightarrow> string res \<Rightarrow> ('s, KeyShardData) config \<Rightarrow> ('s, KeyShardData) config \<times> unit res" where
  "addKeyShardData decode SO between rawData ks =
     (case rawData of
        Err e \<Rightarrow> (ks, Err (errorf_s ''failed to read data from file: '' e)) | Panic \<Rightarrow> (ks, Panic)
      | Ok raw \<Rightarrow>
         (case decode raw of
            None \<Rightarrow> (ks, Err (errorf ''error: failed to load keyshard config: ''))
          | Some d \<Rightarrow> command_loop (AddKey SO between) ks (Keys d)))"

definition addTargetIds where
  "addTargetIds SO between ks targetIds = command_loop (AddTarget SO between) ks targetIds"

definition removeTargetIds where
  "removeTargetIds SO between ks targetIds = command_loop (\<lambda>ks t. DeleteTarget SO between ks t True) ks targetIds"

definition clearKeyShardConfig :: "('s, KeyShardData) store_ops \<Rightarrow> ('s \<Rightarrow> 's) \<Rightarrow> ('s, KeyShardData) config \<Rightarrow> ('s, KeyShardData) config \<times> string res" where
  "clearKeyShardConfig SO between ks =
     (case Clear SO between ks of
        (c, Ok _) \<Rightarrow> (c, Ok (''Successfully cleared agent'' @ [CHR 0x27] @ ''s keyshard configuration''))
      | (c, Err e) \<Rightarrow> (c, if errors_As NoOpError e then Ok (''Agent'' @ [CHR 0x27] @ ''s keyshard configuration is already empty'') else Err e) | (c, Panic) \<Rightarrow> (c, Panic))"

section \<open>When the agent restarts\<close>

definition watching :: "monitor_event list \<Rightarrow> bool" where
  "watching es \<longleftrightarrow> list_all (\<lambda>e. case e of MDying _ \<Rightarrow> False | MChannelDone _ \<Rightarrow> False | _ \<Rightarrow> True) es"

text \<open>Timeouts since the last pong.\<close>

definition silent_sets :: "monitor_event list \<Rightarrow> nat" where
  "silent_sets es = length (takeWhile (\<lambda>e. e \<noteq> MPong) (rev es))"

lemma monitor_append:
  "monitorControlChannel n (es @ fs) = (case monitorControlChannel n es of Monitoring m \<Rightarrow> monitorControlChannel m fs | r \<Rightarrow> r)"
  by (induction n es rule: monitorControlChannel.induct) auto

lemma monitor_counts:
  "watching es \<Longrightarrow> monitorControlChannel 0 es = Monitoring m \<Longrightarrow> m = silent_sets es \<and> m \<le> maximumMissedPongSets"
proof (induction es arbitrary: m rule: rev_induct)
  case (snoc e es)
  obtain k where k: "monitorControlChannel 0 es = Monitoring k" using snoc.prems(2) by (auto simp: monitor_append split: monitor_result.splits)
  have "k = silent_sets es" "k \<le> maximumMissedPongSets" using snoc.IH [OF _ k] snoc.prems(1) by (auto simp: watching_def)
  then show ?case using snoc.prems k by (cases e) (auto simp: monitor_append watching_def silent_sets_def split: if_splits)
qed (simp add: silent_sets_def)


section \<open>What the next start tells Bastion\<close>

definition new_agent :: "'s agent_config \<Rightarrow> string \<Rightarrow> string \<Rightarrow> 's Agent" where
  "new_agent c agentType version = \<lparr> ag_tomb = tomb_new, ag_config = c, ag_agentType = agentType, ag_version = version, ag_bastionClient = False, ag_controlConn = False,
     ag_reported = [], ag_restarts = [] \<rparr>"

lemma shutdown_loaded:
  assumes "configType (fst (cfg_store c)) = CTAgent" "\<And>st. configType (fst (between st)) = configType (fst st)"
    and "SetShutdownInfo agent_ops between c reason state = (c1, Ok ())"
    and "\<And>d. file_content decode_agent AgentDataV2_zero (cfg_store c) = Some d \<Longrightarrow> valid_agent_data (d\<lparr>ad_ShutdownReason := reason, ad_ShutdownState := state\<rparr>)"
    and "LoadAgentConfig agent_ops (cfg_store c1) = Ok c2"
  shows "GetShutdownInfo c2 = (reason, state) \<and> configType (fst (cfg_store c2)) = CTAgent \<and>
    file_content decode_agent AgentDataV2_zero (cfg_store c2) = Some (cfg_data c2)"
proof -
  let ?change = "\<lambda>d. Ok (Some (d\<lparr>ad_ShutdownReason := reason, ad_ShutdownState := state\<rparr>))"
  have b: "configType (fst st) = CTAgent \<Longrightarrow> configType (fst (between st)) = CTAgent" for st using assms(2) by simp
  obtain d where d: "file_content decode_agent AgentDataV2_zero (cfg_store c1) = Some (d\<lparr>ad_ShutdownReason := reason, ad_ShutdownState := state\<rparr>)"
    "configType (fst (cfg_store c1)) = CTAgent"
    using ac.update_applies [OF assms(1) b assms(3) [unfolded SetShutdownInfo_def]] assms(4) by auto
  obtain s1 where f: "so_fetch agent_ops (cfg_store c1) = (s1, Ok (cfg_data c2))" "cfg_store c2 = s1"
    using assms(5) by (auto simp: LoadAgentConfig_def load_config_def split: prod.splits res.splits)
  note ok = ac.fetch_Ok [OF d(2) f(1)] and keeps = ac.fetch_keeps [OF d(2) f(1)]
  have "cfg_data c2 = d\<lparr>ad_ShutdownReason := reason, ad_ShutdownState := state\<rparr>" using ok d(1) by simp
  then show ?thesis using ok keeps f(2) by (simp add: GetShutdownInfo_def)
qed

text \<open>
  C21. A restart reaches Bastion: when an agent closes for a reason and saves it, the next one
  that loads the configuration and starts reports exactly the reasons that qualify, among
  them the silence of the control channel and every manual restart.
\<close>

theorem restart_reported:
  assumes "configType (fst (cfg_store (ag_config a))) = CTAgent" and "\<And>st. configType (fst (between st)) = configType (fst st)"
    and "snd (SetShutdownInfo agent_ops between (ag_config a) (etext e) (Some state)) = Ok ()"
    and "\<And>d. file_content decode_agent AgentDataV2_zero (cfg_store (ag_config a)) = Some d \<Longrightarrow> valid_agent_data (d\<lparr>ad_ShutdownReason := etext e, ad_ShutdownState := Some state\<rparr>)"
    and "LoadAgentConfig agent_ops (cfg_store (ag_config (agent_Close agent_ops between state a (Some e)))) = Ok c"
    and "snd (SetVersion agent_ops between' c version) = Ok ()"
  shows "(\<exists>b. agent_Run_start agent_ops between' False (new_agent c agentType version) = Ok b \<and> ag_restarts b = (if qualifies (etext e) then [etext e] else [])) \<and>
    qualifies stoppedProcessingPongsMsg \<and> qualifies (''control channel closed with error: '' @ etext (restart_reason r))"
proof -
  obtain c1 where c1: "SetShutdownInfo agent_ops between (ag_config a) (etext e) (Some state) = (c1, Ok ())" using assms(3) by (metis prod.collapse)
  have "ag_config (agent_Close agent_ops between state a (Some e)) = c1" using c1 by (simp add: agent_Close_def Let_def)
  then have c: "GetShutdownInfo c = (etext e, Some state)" "configType (fst (cfg_store c)) = CTAgent" "file_content decode_agent AgentDataV2_zero (cfg_store c) = Some (cfg_data c)"
    using shutdown_loaded [OF assms(1,2) c1 assms(4)] assms(5) by auto
  obtain c2 where c2: "SetVersion agent_ops between' c version = (c2, Ok ())" using assms(6) by (metis prod.collapse)
  obtain s1 d where f: "so_fetch agent_ops (cfg_store c) = (s1, Ok d)" using c2 by (auto simp: SetVersion_def update_config_def split: prod.splits res.splits)
  have "d = cfg_data c" using ac.fetch_Ok [OF c(2) f] c(3) by simp
  then have "cfg_data c2 = (cfg_data c)\<lparr>ad_Version := version\<rparr>" using update_config_Ok [OF c2 [unfolded SetVersion_def] f] by auto
  then have "fst (GetShutdownInfo c2) = etext e" using c(1) by (simp add: GetShutdownInfo_def)
  then have "\<exists>b. agent_Run_start agent_ops between' False (new_agent c agentType version) = Ok b \<and> ag_restarts b = (if qualifies (etext e) then [etext e] else [])"
    using c2 by (simp add: agent_Run_start_def new_agent_def startControlChannel_def reportQualifiedShutdown_def Let_def)
  moreover have "qualifies (''control channel closed with error: '' @ etext (restart_reason r))"
  proof -
    obtain rest where "etext (restart_reason r) = ManualRestartMsg @ rest" by (cases r) (auto simp: restart_reason_def)
    then show ?thesis unfolding qualifies_def using contains_iff by blast
  qed
  ultimately show ?thesis by (simp add: qualifies_def)
qed

section \<open>Who runs\<close>

lemma register_or_start_Starts:
  assumes "register_or_start fl register failed after c = (c', Starts)"
  shows "(registered c \<and> \<not> sf_force fl \<and> \<not> sf_attempted fl \<and> c' = c) \<or> (\<exists>c1. register c = (c1, Some (Ok ())) \<and> after c1 = (c', Starts))"
  using assms by (auto simp: register_or_start_def split: if_splits prod.splits option.splits res.splits)

text \<open>
  C19. Only a registered agent runs: on a server it has a key, whether it was there, another
  process has registered while it waited, or, on Windows, it has just registered itself; an agent
  that is registered and told to register again without being forced does not start. In a cluster
  it was registered or Bastion has just accepted it.
\<close>

theorem agent_starts_registered:
  assumes "register = (\<lambda>c. case Register J M L SO between E r c of (_, _, c', a) \<Rightarrow> (c', a))" and "\<And>pk sk. re_keys E = Ok (pk, sk) \<Longrightarrow> \<not> PublicKey_IsEmpty pk"
  shows "(\<forall>c'. NewAgent SO fl register waited others c = (c', Starts) \<longrightarrow> registered c') \<and>
    (\<forall>c' out. NewAgent SO fl register waited others c = (c', out) \<and> registered c \<and> sf_attempted fl \<and> \<not> sf_force fl \<longrightarrow> out = StartFails already_registered \<and> c' = c) \<and>
    (\<forall>c'. NewKubeAgent SO fl register permissions c = (c', Starts) \<longrightarrow>
       permissions = Ok () \<and> (registered c \<and> \<not> sf_attempted fl \<or> snd (register c) = Some (Ok ())))"
proof -
  have key: "registered c1" if "register x = (c1, Some (Ok ()))" for x c1
  proof -
    obtain r' sent y a where g: "Register J M L SO between E r x = (r', sent, y, a)" by (metis prod.collapse)
    then have "y = c1" "a = Some (Ok ())" using that assms(1) by simp_all
    then obtain pk sk d s1 where "re_keys E = Ok (pk, sk)" "registered_as r r' pk sk d (cfg_data c1)" using register_Ok g by blast
    then show ?thesis using assms(2) by (auto simp: registered_def registered_as_def GetPublicKey_def)
  qed
  let ?go = "register_or_start fl register id (\<lambda>c. (c, if sf_windows fl then Starts else RegisteredAndExits))"
  have go: "?go x = (c', Starts) \<Longrightarrow> registered c'" for x c'
    using register_or_start_Starts [of fl register id _ x c'] key [of x] by (fastforce split: if_splits)
  have "registered c'" if "NewAgent SO fl register waited others c = (c', Starts)" for c'
    using that go by (auto simp: NewAgent_def reloaded_def Let_def split: if_splits option.splits res.splits prod.splits)
  moreover have "permissions = Ok () \<and> (registered c \<and> \<not> sf_attempted fl \<or> snd (register c) = Some (Ok ()))"
    if k: "NewKubeAgent SO fl register permissions c = (c', Starts)" for c'
  proof -
    have "permissions = Ok ()" using k by (auto simp: NewKubeAgent_def split: res.splits)
    moreover from this have "register_or_start fl register (errorf_w ''failed to register kube agent: '') (reloaded SO id (\<lambda>c. (c, Starts))) c = (c', Starts)"
      using k by (simp add: NewKubeAgent_def)
    ultimately show ?thesis using register_or_start_Starts [of fl register _ _ c c'] by (metis snd_conv)
  qed
  moreover have "out = StartFails already_registered \<and> c' = c"
    if "NewAgent SO fl register waited others c = (c', out)" "registered c" "sf_attempted fl" "\<not> sf_force fl" for c' out
    using that by (simp add: NewAgent_def register_or_start_def Let_def)
  ultimately show ?thesis by blast
qed

text \<open>
  What goes wrong: an error of the first write to the configuration is reported through a client
  that does not exist yet, and so is a restart whose routine is early; and adding targets stops
  at the first one that is there already.
\<close>

lemma agent_faults:
  assumes "SetVersion SO between (ag_config (new_agent c ty v)) v = (c1, Err e)"
  shows "agent_Run_start SO between False (new_agent c ty v) = Panic \<and>
    (qualifies (fst (GetShutdownInfo c)) \<longrightarrow> agent_Run_start SO' between' True (new_agent c ty v) = Panic) \<and>
    (\<forall>ks s1 d. so_fetch KO (cfg_store ks) = (s1, Ok d) \<and> list_all (\<lambda>m. containsTarget m t) (Keys d) \<longrightarrow>
       addTargetIds KO between'' ks (t # ts) = (ks\<lparr>cfg_store := s1\<rparr>, Err NoOpErr))"
  using assms by (auto simp: agent_Run_start_def new_agent_def agent_reportError_def reportQualifiedShutdown_def addTargetIds_def AddTarget_def update_config_def AddTarget_change_def Let_def)

section \<open>Witnesses\<close>


theorem agent_starts_registered_witness:
  "snd (NewAgent wit_store \<lparr> sf_wait = False, sf_force = False, sf_attempted = True, sf_windows = False \<rparr>
      (\<lambda>c. case Register (\<lambda>_. Some (VObject [])) codec_print wit_nonce_lib wit_store id wit_reg_env wit_registration c of (_, _, c', a) \<Rightarrow> (c', a)) None id
      \<lparr> cfg_data = wit_id_data\<lparr>ad_PublicKey := Some (Some wit_key)\<rparr>, cfg_store = wit_id_data \<rparr>) = StartFails already_registered"
  (is "snd (NewAgent wit_store ?fl ?register None id ?c) = _")
proof -
  have k: "\<And>pk sk. re_keys wit_reg_env = Ok (pk, sk) \<Longrightarrow> \<not> PublicKey_IsEmpty pk" by (auto simp: wit_reg_env_def)
  have r: "registered ?c" by (simp add: registered_def GetPublicKey_def)
  obtain c' out where n: "NewAgent wit_store ?fl ?register None id ?c = (c', out)" by (cases "NewAgent wit_store ?fl ?register None id ?c")
  have "\<forall>c' out. NewAgent wit_store ?fl ?register None id ?c = (c', out) \<and> registered ?c \<and> sf_attempted ?fl \<and> \<not> sf_force ?fl \<longrightarrow>
      out = StartFails already_registered \<and> c' = ?c"
    by (rule agent_starts_registered [where E = wit_reg_env, OF refl k, THEN conjunct2, THEN conjunct1])
  then show ?thesis using n r by auto
qed

definition wit_agent_run :: "file_state Agent" where
  "wit_agent_run = new_agent \<lparr> cfg_data = AgentDataV2_zero, cfg_store = wit_ac_state \<rparr> ''linux'' ''1''"

definition wit_loaded :: "file_state agent_config" where
  "wit_loaded = (case LoadAgentConfig agent_ops (cfg_store (ag_config (agent_Close agent_ops id [] wit_agent_run (Some (errorf stoppedProcessingPongsMsg))))) of
     Ok c \<Rightarrow> c | _ \<Rightarrow> ag_config wit_agent_run)"

theorem restart_reported_witness:
  "\<exists>b. agent_Run_start agent_ops id False (new_agent wit_loaded ''linux'' ''2'') = Ok b \<and> ag_restarts b = [stoppedProcessingPongsMsg]"
proof -
  let ?e = "errorf stoppedProcessingPongsMsg"
  have t: "configType (fst (cfg_store (ag_config wit_agent_run))) = CTAgent" by (simp add: wit_agent_run_def new_agent_def wit_ac_state_def)
  have s: "snd (SetShutdownInfo agent_ops id (ag_config wit_agent_run) (etext ?e) (Some [])) = Ok ()" by code_simp
  have c: "file_content decode_agent AgentDataV2_zero (cfg_store (ag_config wit_agent_run)) = Some AgentDataV2_zero" by code_simp
  have v: "valid_agent_data (AgentDataV2_zero\<lparr>ad_ShutdownReason := etext ?e, ad_ShutdownState := Some []\<rparr>)" by code_simp
  have l: "LoadAgentConfig agent_ops (cfg_store (ag_config (agent_Close agent_ops id [] wit_agent_run (Some ?e)))) = Ok wit_loaded" by code_simp
  have u: "snd (SetVersion agent_ops id wit_loaded ''2'') = Ok ()" by code_simp
  show ?thesis using restart_reported [OF t _ s _ l u, of "''linux''" None] c v by (auto simp: qualifies_def)
qed

end
