(* ===== verification/Daemon_Servers.thy ===== *)
theory Daemon_Servers
  imports Kube_Plugin Ssh_Plugin Web_Socket Db_Pwdb Agent_Shell Daemon_Shell
begin

text \<open>
  The daemon's process: its environment, the five local servers that take what the user's
  programs send (\<^verbatim>\<open>bctl/daemon/servers\<close>), and the main program that starts one of them and waits for
  its end. A server opens a data channel for every connection or request and starts a plugin
  in it. That a channel is made, and what the agent answers to its first message, is an argument.
\<close>

section \<open>What servers share\<close>

text \<open>The arguments of \<^verbatim>\<open>datachannel.New\<close> that a server chooses.\<close>

record channel_opening =
  op_id :: string
  op_action :: string
  op_payload :: jvalue
  op_attach :: bool
  op_processBeforeExit :: bool

text \<open>The reasons the connection was closed with, the errors sent to the main program, and the channels asked for.\<close>

record server =
  sv_params :: "(string \<times> string list) list"
  sv_closings :: "gerror option list"
  sv_errors :: "gerror option list"
  sv_channels :: "channel_opening list"

record channel_env =
  ce_mrtap :: "unit res"
  ce_New :: "channel_opening \<Rightarrow> unit res"

definition open_channel :: "channel_env \<Rightarrow> channel_opening \<Rightarrow> 'z server_scheme \<Rightarrow> 'z server_scheme \<times> unit res" where
  "open_channel E x s = (case ce_mrtap E of Ok _ \<Rightarrow> (s\<lparr>sv_channels := sv_channels s @ [x]\<rparr>, ce_New E x) | r \<Rightarrow> (s, r))"

definition conn_Close :: "'z server_scheme \<Rightarrow> gerror option \<Rightarrow> 'z server_scheme" where
  "conn_Close s err = s\<lparr>sv_closings := sv_closings s @ [err]\<rparr>"

definition send_err :: "'z server_scheme \<Rightarrow> gerror option \<Rightarrow> 'z server_scheme" where
  "send_err s err = s\<lparr>sv_errors := sv_errors s @ [err]\<rparr>"

section \<open>Databases\<close>

record DbServer = server +
  dbs_action :: string
  dbs_tcpApp :: string
  dbs_remotePort :: int
  dbs_remoteHost :: string
  dbs_targetUser :: string
  dbs_targetId :: string
  dbs_localPort :: string
  dbs_localHost :: string
  dbs_listening :: bool

text \<open>\<^verbatim>\<open>conn\<close> is what making the connection returns.\<close>

definition DbServer_New ::
  "unit res \<Rightarrow> (string \<times> string list) list \<Rightarrow> string \<Rightarrow> string \<Rightarrow> int \<Rightarrow> string \<Rightarrow> string \<Rightarrow> string \<Rightarrow> string \<Rightarrow> string \<Rightarrow> DbServer res" where
  "DbServer_New conn params localPort localHost remotePort remoteHost action tcpApp targetUser targetId =
     (if action = [] then Err (errorf ''unrecognized db action'')
      else if tcpApp = [] then Err (errorf ''unrecognized tcp application'')
      else res_map (\<lambda>_. \<lparr> sv_params = params, sv_closings = [], sv_errors = [], sv_channels = [], dbs_action = action, dbs_tcpApp = tcpApp,
               dbs_remotePort = remotePort, dbs_remoteHost = remoteHost, dbs_targetUser = targetUser, dbs_targetId = targetId,
               dbs_localPort = localPort, dbs_localHost = localHost, dbs_listening = False \<rparr>)
             (wrap_err (errorf_s ''failed to create connection: '') conn))"

text \<open>The parameters of the three applications have the same fields.\<close>

definition DbActionParams_json :: "int \<Rightarrow> string \<Rightarrow> jvalue" where
  "DbActionParams_json remotePort remoteHost =
     VObject [(''schemaVersion'', marshal_string []), (''remotePort'', VNumber remotePort), (''remoteHost'', marshal_string remoteHost)]"

definition db_opening :: "string \<Rightarrow> DbServer \<Rightarrow> channel_opening" where
  "db_opening dcId d = \<lparr> op_id = dcId, op_action = ''db/'' @ dbs_action d @ ''/'' @ dbs_tcpApp d,
     op_payload = DbActionParams_json (dbs_remotePort d) (dbs_remoteHost d), op_attach = False, op_processBeforeExit = True \<rparr>"

definition db_newDataChannel :: "channel_env \<Rightarrow> string \<Rightarrow> DbServer \<Rightarrow> DbServer \<times> unit res" where
  "db_newDataChannel E dcId d =
     (if dbs_tcpApp d \<notin> {''db'', ''rdp'', ''sqlserver''} then (d, Err (errorf (''unsupported tcp application type: '' @ dbs_tcpApp d)))
      else open_channel E (db_opening dcId d) d)"

definition db_newAction ::
  "channel_env \<Rightarrow> json_printer \<Rightarrow> 'p daemon_action_ops \<Rightarrow> string \<Rightarrow> string \<Rightarrow> 'c \<Rightarrow> DbServer \<Rightarrow> DbServer \<times> ('c, 'p) DbDaemonPlugin \<times> unit res" where
  "db_newAction E M W dcId requestId conn d =
     (case db_newDataChannel E dcId d of
        (d1, Err e) \<Rightarrow> (d1, DbDaemonPlugin_New, Err (errorf_w ''error starting datachannel: '' e)) | (d1, Panic) \<Rightarrow> (d1, DbDaemonPlugin_New, Panic)
      | (d1, Ok _) \<Rightarrow> (d1, apsnd (wrap_err (errorf_w ''error starting action: '')) (db_StartAction M W requestId DbDaemonPlugin_New (dbs_action d) conn)))"

definition DbServer_Close :: "DbServer \<Rightarrow> gerror option \<Rightarrow> DbServer" where
  "DbServer_Close d err = send_err ((conn_Close d err)\<lparr>dbs_listening := False\<rparr>) err"


text \<open>
  The loop that accepts connections, with the identifiers of their channels and requests. The
  first connection of a server that dials is taken by \<^verbatim>\<open>Start\<close> and dropped.
\<close>

fun db_accept :: "channel_env \<Rightarrow> json_printer \<Rightarrow> 'p daemon_action_ops \<Rightarrow> DbServer \<Rightarrow> (string \<times> string \<times> 'c) res list \<Rightarrow> DbServer \<times> ('c, 'p) DbDaemonPlugin list" where
  "db_accept E M W d [] = (d, [])"
| "db_accept E M W d (Ok (dcId, requestId, conn) # cs) =
     (case db_newAction E M W dcId requestId conn d of
        (d1, p, r) \<Rightarrow> apsnd (Cons p) (db_accept E M W (case r of Err e \<Rightarrow> DbServer_Close d1 (Some e) | _ \<Rightarrow> d1) cs))"
| "db_accept E M W d (_ # cs) = (d, [])"

definition db_handleConnections :: "channel_env \<Rightarrow> json_printer \<Rightarrow> 'p daemon_action_ops \<Rightarrow> DbServer \<Rightarrow> (string \<times> string \<times> 'c) res list \<Rightarrow> DbServer \<times> ('c, 'p) DbDaemonPlugin list" where
  "db_handleConnections E M W d cs = db_accept E M W d (if dbs_action d = ''dial'' then tl cs else cs)"

section \<open>Clusters\<close>

record KubeServer = server +
  kbs_exitMessage :: string
  kbs_localhostToken :: string
  kbs_targetUser :: string
  kbs_targetGroups :: "string list"
  kbs_localPort :: string
  kbs_localHost :: string

definition KubeServer_New ::
  "unit res \<Rightarrow> (string \<times> string list) list \<Rightarrow> string \<Rightarrow> string \<Rightarrow> string \<Rightarrow> string list \<Rightarrow> string \<Rightarrow> KubeServer res" where
  "KubeServer_New conn params localPort localHost targetUser targetGroups localhostToken =
     res_map (\<lambda>_. \<lparr> sv_params = params, sv_closings = [], sv_errors = [], sv_channels = [], kbs_exitMessage = [], kbs_localhostToken = localhostToken,
         kbs_targetUser = targetUser, kbs_targetGroups = targetGroups, kbs_localPort = localPort, kbs_localHost = localHost \<rparr>)
       (wrap_err (errorf_s ''failed to create connection: '') conn)"


definition KubeActionParams_json :: "string \<Rightarrow> string list \<Rightarrow> jvalue" where
  "KubeActionParams_json targetUser targetGroups =
     VObject [(''targetUser'', marshal_string targetUser), (''targetGroups'', marshal_strings (Some targetGroups))]"

definition kube_opening :: "string \<Rightarrow> string \<Rightarrow> KubeServer \<Rightarrow> channel_opening" where
  "kube_opening dcId action k = \<lparr> op_id = dcId, op_action = ''kube/'' @ action, op_payload = KubeActionParams_json (kbs_targetUser k) (kbs_targetGroups k),
     op_attach = False, op_processBeforeExit = True \<rparr>"

definition kube_newDataChannel :: "channel_env \<Rightarrow> string \<Rightarrow> string \<Rightarrow> KubeServer \<Rightarrow> KubeServer \<times> unit res" where
  "kube_newDataChannel E dcId action k =
     open_channel E (kube_opening dcId action k) k"

text \<open>A request of a client: its path, the parameters of its URL, and the rest.\<close>

record kubectl_request =
  kq_path :: string
  kq_query :: headers
  kq_request :: client_request

definition isPortForwardRequest :: "kubectl_request \<Rightarrow> bool" where
  "isPortForwardRequest q \<longleftrightarrow> has_suffix ''/portforward'' (kq_path q)"

definition isExecRequest :: "kubectl_request \<Rightarrow> bool" where
  "isExecRequest q \<longleftrightarrow> has_suffix ''/exec'' (kq_path q) \<or> has_suffix ''/attach'' (kq_path q)"

definition isStreamRequest :: "kubectl_request \<Rightarrow> bool" where
  "isStreamRequest q \<longleftrightarrow> has_suffix ''/log'' (kq_path q) \<and> IsQueryParamPresent (kq_query q) ''follow'' \<or> IsQueryParamPresent (kq_query q) ''watch''"

definition getAction :: "kubectl_request \<Rightarrow> string" where
  "getAction q =
     (if isExecRequest q then ''exec'' else if isPortForwardRequest q then ''portforward''
      else if isStreamRequest q then ''stream'' else ''restapi'')"

definition securityTokenDelimiter :: string where
  "securityTokenDelimiter = ''++++''"

text \<open>\<^verbatim>\<open>strings.Replace\<close> with an empty replacement and no limit.\<close>

definition remove_all :: "string \<Rightarrow> string \<Rightarrow> string" where
  "remove_all s part = concat (split s part)"

definition token_parts :: "kubectl_request \<Rightarrow> string list" where
  "token_parts q = split (remove_all (Header_Get (cr_Header (kq_request q)) ''Authorization'') ''Bearer '') securityTokenDelimiter"

definition invalid_token_message :: string where
  "invalid_token_message = ''localhost token did not validate. Ensure you are using the right Kube config file''"

text \<open>
  The server, an answer of its own, and the plugin that was started with the error of its start. A channel
  that could not be made is logged, and the plugin started all the same; a panic ends the request.
\<close>

definition kube_rootCallback ::
  "channel_env \<Rightarrow> json_printer \<Rightarrow> 'w SPDYService res option \<Rightarrow> 'w \<Rightarrow> string \<Rightarrow> string \<Rightarrow> string \<Rightarrow> KubeServer \<Rightarrow> kubectl_request \<Rightarrow>
   KubeServer \<times> (nat \<times> string) option \<times> ('w KubeDaemonPlugin \<times> gerror option) option" where
  "kube_rootCallback E M spdy writer newLogId dcId requestId k q =
     (let tokensSplit = token_parts q in
      if hd tokensSplit \<noteq> kbs_localhostToken k then (k, Some (500, invalid_token_message), None)
      else let command = (if length tokensSplit = 3 then tokensSplit ! 1 else ''N/A'');
               logId = (if length tokensSplit = 3 then tokensSplit ! 2 else newLogId);
               action = getAction q in
           case kube_newDataChannel E dcId action k of
             (k1, Panic) \<Rightarrow> (k1, None, None)
           | (k1, _) \<Rightarrow> (k1, None, Some (kube_StartAction M spdy writer requestId KubeDaemonPlugin_New action logId command (kq_request q))))"

definition kube_isReadyCallback :: "nat \<times> string" where
  "kube_isReadyCallback = (200, [])"

definition kube_statusCallback :: "json_printer \<Rightarrow> KubeServer \<Rightarrow> nat \<times> string" where
  "kube_statusCallback M k = (200, M (VObject [(''ExitMessage'', marshal_string (kbs_exitMessage k))]))"

section \<open>Web applications\<close>

definition maxRequestSize :: int where
  "maxRequestSize = 10 * 1024 * 1024"

definition maxFileUpload :: int where
  "maxFileUpload = 151 * 1024 * 1024"

record WebServer = server +
  wbs_targetPort :: int
  wbs_targetHost :: string
  wbs_localPort :: string
  wbs_localHost :: string

definition WebServer_New :: "unit res \<Rightarrow> (string \<times> string list) list \<Rightarrow> string \<Rightarrow> string \<Rightarrow> int \<Rightarrow> string \<Rightarrow> WebServer res" where
  "WebServer_New conn params localPort localHost targetPort targetHost =
     res_map (\<lambda>_. \<lparr> sv_params = params, sv_closings = [], sv_errors = [], sv_channels = [], wbs_targetPort = targetPort, wbs_targetHost = targetHost,
         wbs_localPort = localPort, wbs_localHost = localHost \<rparr>)
       (wrap_err (errorf_s ''failed to create connection: '') conn)"


text \<open>A struct without tags: the names of its fields.\<close>

definition WebActionParams_json :: "int \<Rightarrow> string \<Rightarrow> jvalue" where
  "WebActionParams_json remotePort remoteHost = VObject [(''RemotePort'', VNumber remotePort), (''RemoteHost'', marshal_string remoteHost)]"

definition web_opening :: "string \<Rightarrow> string \<Rightarrow> WebServer \<Rightarrow> channel_opening" where
  "web_opening dcId action w = \<lparr> op_id = dcId, op_action = ''web/'' @ action, op_payload = WebActionParams_json (wbs_targetPort w) (wbs_targetHost w),
     op_attach = False, op_processBeforeExit = True \<rparr>"

definition web_newDataChannel :: "channel_env \<Rightarrow> string \<Rightarrow> string \<Rightarrow> WebServer \<Rightarrow> WebServer \<times> unit res" where
  "web_newDataChannel E dcId action w =
     open_channel E (web_opening dcId action w) w"

definition web_request_action :: "client_request \<Rightarrow> string" where
  "web_request_action rq = (if Header_Get (cr_Header rq) ''Upgrade'' = ''websocket'' then ''websocket'' else ''dial'')"

definition web_handleHttp ::
  "channel_env \<Rightarrow> json_printer \<Rightarrow> (headers \<Rightarrow> string) \<Rightarrow> (client_request \<Rightarrow> 'c res) \<Rightarrow> string \<Rightarrow> string \<Rightarrow> WebServer \<Rightarrow> client_request \<Rightarrow>
   WebServer \<times> ('c WebDaemonPlugin \<times> gerror option) option" where
  "web_handleHttp E M encode upgrade dcId requestId w rq =
     (case web_newDataChannel E dcId (web_request_action rq) w of
        (w1, Panic) \<Rightarrow> (w1, None)
      | (w1, _) \<Rightarrow> (w1, Some (web_StartAction M encode upgrade requestId WebDaemonPlugin_New (web_request_action rq) rq)))"

text \<open>
  The request the handler gets, or the refusal. \<^verbatim>\<open>capped\<close> cuts the body off after a number of bytes and
  \<^verbatim>\<open>parseForm\<close> reads the form of a request.
\<close>

definition capRequestSize ::
  "(int \<Rightarrow> client_request \<Rightarrow> client_request) \<Rightarrow> (client_request \<Rightarrow> client_request res) \<Rightarrow> int \<Rightarrow> client_request \<Rightarrow> (nat \<times> string) + client_request" where
  "capRequestSize capped parseForm contentLength rq =
     (if has_prefix ''multipart'' (Header_Get (cr_Header rq) ''Content-Type'')
      then if contentLength > maxFileUpload then Inl (413, ''BastionZero: Request is too large. Maximum upload is 150MB'') else Inr rq
      else (case parseForm (capped maxRequestSize rq) of
              Ok rq1 \<Rightarrow> Inr rq1 | _ \<Rightarrow> Inl (413, ''BastionZero: Request is too large. Maximum request size is 10MB'')))"

section \<open>Shells and SSH\<close>

text \<open>Servers with a routine that waits for the tomb to be killed.\<close>

record tomb_server = server +
  tsv_tomb :: tomb
  tsv_waiting :: bool

definition tomb_server_Close :: "'z tomb_server_scheme \<Rightarrow> gerror option \<Rightarrow> 'z tomb_server_scheme" where
  "tomb_server_Close s err = s\<lparr>tsv_tomb := tomb_Kill (tsv_tomb s) err\<rparr>"

definition tomb_server_routine :: "'z tomb_server_scheme \<Rightarrow> 'z tomb_server_scheme" where
  "tomb_server_routine s =
     (case tb_killed (tsv_tomb s) of
        Some err \<Rightarrow> if tsv_waiting s then (send_err (conn_Close s err) err)\<lparr>tsv_waiting := False, tsv_tomb := tomb_return (tsv_tomb s) err\<rparr> else s
      | None \<Rightarrow> s)"

datatype ts_event = TsClose "gerror option" | TsRoutine

fun ts_turn :: "'z tomb_server_scheme \<Rightarrow> ts_event \<Rightarrow> 'z tomb_server_scheme" where
  "ts_turn s (TsClose err) = tomb_server_Close s err"
| "ts_turn s TsRoutine = tomb_server_routine s"

record SshServer = tomb_server +
  shs_action :: string
  shs_remoteHost :: string
  shs_remotePort :: int
  shs_localPort :: string
  shs_targetUser :: string
  shs_files :: ssh_files

definition waiting_tomb :: tomb where
  "waiting_tomb = \<lparr> tb_killed = None, tb_started = True, tb_running = 1 \<rparr>"

definition SshServer_New ::
  "unit res \<Rightarrow> (string \<times> string list) list \<Rightarrow> string \<Rightarrow> ssh_files \<Rightarrow> string \<Rightarrow> int \<Rightarrow> string \<Rightarrow> string \<Rightarrow> SshServer res" where
  "SshServer_New conn params targetUser files remoteHost remotePort localPort action =
     res_map (\<lambda>_. \<lparr> sv_params = params, sv_closings = [], sv_errors = [], sv_channels = [], tsv_tomb = waiting_tomb, tsv_waiting = True,
         shs_action = action, shs_remoteHost = remoteHost, shs_remotePort = remotePort, shs_localPort = localPort, shs_targetUser = targetUser, shs_files = files \<rparr>)
       (wrap_err (errorf_s ''failed to create connection: '') conn)"

definition SshActionParams_json :: "string \<Rightarrow> string \<Rightarrow> int \<Rightarrow> jvalue" where
  "SshActionParams_json targetUser remoteHost remotePort =
     VObject [(''targetUser'', marshal_string targetUser), (''remoteHost'', marshal_string remoteHost), (''remotePort'', VNumber remotePort)]"

definition ssh_opening :: "string \<Rightarrow> SshServer \<Rightarrow> channel_opening" where
  "ssh_opening dcId s = \<lparr> op_id = dcId, op_action = ''ssh/'' @ shs_action s,
     op_payload = SshActionParams_json (shs_targetUser s) (shs_remoteHost s) (shs_remotePort s), op_attach = False, op_processBeforeExit = False \<rparr>"

text \<open>The file of known hosts is emptied, if it can be; then the action is started, before there is a channel.\<close>

definition ssh_newDataChannel ::
  "channel_env \<Rightarrow> json_printer \<Rightarrow> 'r rsa_lib \<Rightarrow> bool \<Rightarrow> bool \<Rightarrow> 'w \<Rightarrow> string \<Rightarrow> SshServer \<Rightarrow> SshServer \<times> 'w SshDaemonPlugin \<times> unit res" where
  "ssh_newDataChannel E M L truncates listening stdIo dcId s =
     (let files = (if truncates then (shs_files s)\<lparr>sf_knownHosts := []\<rparr> else shs_files s) in
      case SshDaemonPlugin_StartAction M L listening (SshDaemonPlugin_New files stdIo) (shs_action s) of
        (p, Err e) \<Rightarrow> (s\<lparr>shs_files := sd_files p\<rparr>, p, Err (errorf_s ''failed to start action: '' e)) | (p, Panic) \<Rightarrow> (s, p, Panic)
      | (p, Ok _) \<Rightarrow>
         (case open_channel E (ssh_opening dcId s) s of
            (s1, r) \<Rightarrow> (s1\<lparr>shs_files := sd_files p\<rparr>, p, r)))"

definition closing_on_error :: "'z server_scheme \<times> 'p \<times> unit res \<Rightarrow> 'z server_scheme \<times> 'p \<times> unit res" where
  "closing_on_error x =
     (case x of (s, p, Err e) \<Rightarrow> (conn_Close s (Some e), p, Err (errorf_s ''failed to create datachannel: '' e)) | _ \<Rightarrow> x)"

definition SshServer_Start ::
  "channel_env \<Rightarrow> json_printer \<Rightarrow> 'r rsa_lib \<Rightarrow> bool \<Rightarrow> bool \<Rightarrow> 'w \<Rightarrow> string \<Rightarrow> SshServer \<Rightarrow> SshServer \<times> 'w SshDaemonPlugin \<times> unit res" where
  "SshServer_Start E M L truncates listening stdIo dcId s = closing_on_error (ssh_newDataChannel E M L truncates listening stdIo dcId s)"

record ShellServer = tomb_server +
  sls_targetUser :: string
  sls_dataChannelId :: string

definition ShellServer_New :: "unit res \<Rightarrow> (string \<times> string list) list \<Rightarrow> string \<Rightarrow> string \<Rightarrow> ShellServer res" where
  "ShellServer_New conn params targetUser dataChannelId =
     res_map (\<lambda>_. \<lparr> sv_params = params, sv_closings = [], sv_errors = [], sv_channels = [], tsv_tomb = waiting_tomb, tsv_waiting = True,
         sls_targetUser = targetUser, sls_dataChannelId = dataChannelId \<rparr>)
       (wrap_err (errorf_s ''failed to create connection: '') conn)"

definition ShellActionParams_json :: "string \<Rightarrow> jvalue" where
  "ShellActionParams_json targetUser = VObject [(''targetUser'', marshal_string targetUser)]"

definition shell_opening :: "bool \<Rightarrow> ShellServer \<Rightarrow> channel_opening" where
  "shell_opening attach s = \<lparr> op_id = sls_dataChannelId s, op_action = ''shell/default'', op_payload = ShellActionParams_json (sls_targetUser s),
     op_attach = attach, op_processBeforeExit = False \<rparr>"

definition shell_newDataChannel ::
  "channel_env \<Rightarrow> json_printer \<Rightarrow> (nat \<times> nat) option \<Rightarrow> unit res \<Rightarrow> string \<Rightarrow> ShellServer \<Rightarrow> ShellServer \<times> ShellDaemonPlugin \<times> unit res" where
  "shell_newDataChannel E M size_wh makeRaw newId s =
     (let attach = (sls_dataChannelId s \<noteq> []); s0 = (if attach then s else s\<lparr>sls_dataChannelId := newId\<rparr>) in
      case StartAction M ShellDaemonPlugin_New attach size_wh makeRaw of
        (p, Err e) \<Rightarrow> (s0, p, Err (errorf_s ''failed to start action: '' e)) | (p, Panic) \<Rightarrow> (s0, p, Panic)
      | (p, Ok _) \<Rightarrow>
         (case open_channel E (shell_opening attach s0) s0 of (s1, r) \<Rightarrow> (s1, p, r)))"

definition ShellServer_Start ::
  "channel_env \<Rightarrow> json_printer \<Rightarrow> (nat \<times> nat) option \<Rightarrow> unit res \<Rightarrow> string \<Rightarrow> ShellServer \<Rightarrow> ShellServer \<times> ShellDaemonPlugin \<times> unit res" where
  "ShellServer_Start E M size_wh makeRaw newId s = closing_on_error (shell_newDataChannel E M size_wh makeRaw newId s)"

section \<open>The environment\<close>

record EnvVar =
  ev_Value :: string
  ev_Seen :: bool

type_synonym daemon_config = "string \<Rightarrow> EnvVar"

definition config_vars :: "string list" where
  "config_vars = [''SESSION_ID'', ''SESSION_TOKEN'', ''AUTH_HEADER'', ''CONNECTION_ID'', ''CONNECTION_SERVICE_URL'', ''CONNECTION_SERVICE_AUTH_TOKEN'',
     ''SERVICE_URL'', ''TARGET_ID'', ''PLUGIN'', ''AGENT_PUB_KEY'', ''DEBUG'', ''LOCAL_PORT'', ''LOCAL_HOST'', ''CONTROL_PORT'', ''CONFIG_PATH'', ''LOG_PATH'',
     ''REFRESH_TOKEN_COMMAND'', ''REMOTE_PORT'', ''REMOTE_HOST'', ''TARGET_USER'', ''TARGET_GROUPS'', ''LOCALHOST_TOKEN'', ''CERT_PATH'', ''KEY_PATH'',
     ''DATACHANNEL_ID'', ''IDENTITY_FILE'', ''KNOWN_HOSTS_FILE'', ''SSH_ACTION'', ''HOSTNAMES'', ''DB_ACTION'', ''TCP_APP'']"

definition prodServiceUrl :: string where
  "prodServiceUrl = ''https://cloud.bastionzero.com''"

definition initial_config :: daemon_config where
  "initial_config name =
     \<lparr> ev_Value = (if name = ''SERVICE_URL'' then prodServiceUrl else if name = ''REMOTE_PORT'' then ''-1'' else []), ev_Seen = False \<rparr>"

definition requriedGlobalVars :: "string list" where
  "requriedGlobalVars = [''CONNECTION_ID'', ''CONNECTION_SERVICE_URL'', ''CONNECTION_SERVICE_AUTH_TOKEN'', ''SESSION_ID'', ''SESSION_TOKEN'', ''AUTH_HEADER'',
     ''LOG_PATH'', ''CONFIG_PATH'', ''AGENT_PUB_KEY'', ''REFRESH_TOKEN_COMMAND'']"

definition requriedPluginVars :: "(string \<times> string list) list" where
  "requriedPluginVars =
     [(''kube'', [''LOCAL_PORT'', ''TARGET_USER'', ''TARGET_ID'', ''LOCALHOST_TOKEN'', ''CERT_PATH'', ''KEY_PATH'']),
      (''db'', [''LOCAL_PORT'', ''REMOTE_HOST'', ''REMOTE_PORT'', ''DB_ACTION'']),
      (''web'', [''LOCAL_PORT'', ''REMOTE_HOST'', ''REMOTE_PORT'']),
      (''shell'', [''TARGET_USER'', ''CONNECTION_ID'']),
      (''ssh'', [''TARGET_USER'', ''TARGET_ID'', ''REMOTE_HOST'', ''REMOTE_PORT'', ''IDENTITY_FILE'', ''KNOWN_HOSTS_FILE'', ''HOSTNAMES'', ''SSH_ACTION''])]"

abbreviation value_of :: "daemon_config \<Rightarrow> string \<Rightarrow> string" where
  "value_of c name \<equiv> ev_Value (c name)"

definition read_environment :: "(string \<Rightarrow> string option) \<Rightarrow> daemon_config \<Rightarrow> daemon_config" where
  "read_environment lookup c name =
     (if name \<in> set config_vars
      then (case lookup name of Some v \<Rightarrow> \<lparr> ev_Value = v, ev_Seen = True \<rparr> | None \<Rightarrow> \<lparr> ev_Value = [], ev_Seen = False \<rparr>)
      else c name)"

text \<open>\<^verbatim>\<open>with_https\<close> parses a URL and prints it with the scheme \<^verbatim>\<open>https\<close>.\<close>

definition formatServiceUrl :: "(string \<Rightarrow> string res) \<Rightarrow> daemon_config \<Rightarrow> daemon_config \<times> unit res" where
  "formatServiceUrl with_https c =
     (let serviceUrl = value_of c ''SERVICE_URL'' in
      case with_https serviceUrl of
        Ok u \<Rightarrow> (c(''SERVICE_URL'' := (c ''SERVICE_URL'')\<lparr>ev_Value := u\<rparr>), Ok ())
      | Err _ \<Rightarrow> (c, Err (errorf (''malformatted serviceUrl: '' @ serviceUrl))) | Panic \<Rightarrow> (c, Panic))"

definition missing_vars :: "daemon_config \<Rightarrow> string list \<Rightarrow> string list" where
  "missing_vars c vars = filter (\<lambda>v. \<not> ev_Seen (c v)) vars"

definition loadEnvironment :: "(string \<Rightarrow> string option) \<Rightarrow> (string \<Rightarrow> string res) \<Rightarrow> daemon_config \<Rightarrow> daemon_config \<times> unit res" where
  "loadEnvironment lookup with_https c0 =
     (case formatServiceUrl with_https (read_environment lookup c0) of
        (c, Ok _) \<Rightarrow>
          (case al_get requriedPluginVars (value_of c ''PLUGIN'') of
             None \<Rightarrow> (c, Err (errorf (''unhandled plugin passed: '' @ value_of c ''PLUGIN'')))
           | Some pluginVars \<Rightarrow>
              let missing = missing_vars c (requriedGlobalVars @ pluginVars) in
              (c, if missing \<noteq> [] then Err (errorf (''the following required environment variables are not set: ['' @ join missing '' '' @ '']'')) else Ok ()))
      | r \<Rightarrow> r)"

section \<open>The main program\<close>

datatype plugin_server = SvDb DbServer | SvKube KubeServer | SvShell ShellServer | SvSsh SshServer | SvWeb WebServer

text \<open>What the calls before a server is made return, and the connection; files are what the two SSH files hold.\<close>

record start_env =
  se_zliConfig :: "unit res"
  se_bzcert :: "unit res"
  se_conn :: "unit res"
  se_files :: "string \<Rightarrow> string \<Rightarrow> string list \<Rightarrow> ssh_files"


definition newSshServer :: "start_env \<Rightarrow> (string \<times> string list) list \<Rightarrow> daemon_config \<Rightarrow> SshServer res" where
  "newSshServer S params c =
     (case Atoi (value_of c ''REMOTE_PORT'') of
        Err e \<Rightarrow> Err (errorf_w ''failed to parse remote port: '' e) | Panic \<Rightarrow> Panic
      | Ok remotePort \<Rightarrow>
         SshServer_New (se_conn S)
           (params @ [(''connectionType'', [''SSH'']), (''target_id'', [value_of c ''TARGET_ID'']), (''target_user'', [value_of c ''TARGET_USER'']),
              (''remote_host'', [value_of c ''REMOTE_HOST'']), (''remote_port'', [value_of c ''REMOTE_PORT''])])
           (value_of c ''TARGET_USER'') (se_files S (value_of c ''IDENTITY_FILE'') (value_of c ''KNOWN_HOSTS_FILE'') (split (value_of c ''HOSTNAMES'') '',''))
           (value_of c ''REMOTE_HOST'') remotePort (value_of c ''LOCAL_PORT'') (value_of c ''SSH_ACTION''))"

definition newShellServer :: "start_env \<Rightarrow> (string \<times> string list) list \<Rightarrow> daemon_config \<Rightarrow> ShellServer res" where
  "newShellServer S params c =
     ShellServer_New (se_conn S) (params @ [(''connectionType'', [''SHELL''])]) (value_of c ''TARGET_USER'') (value_of c ''DATACHANNEL_ID'')"

definition newWebServer :: "start_env \<Rightarrow> (string \<times> string list) list \<Rightarrow> daemon_config \<Rightarrow> WebServer res" where
  "newWebServer S params c =
     (case Atoi (value_of c ''REMOTE_PORT'') of
        Err e \<Rightarrow> Err (errorf_w ''failed to parse remote port: '' e) | Panic \<Rightarrow> Panic
      | Ok remotePort \<Rightarrow>
         WebServer_New (se_conn S) (params @ [(''connectionType'', [''WEB'']), (''target_id'', [value_of c ''TARGET_ID''])])
           (value_of c ''LOCAL_PORT'') (value_of c ''LOCAL_HOST'') remotePort (value_of c ''REMOTE_HOST''))"

definition newDbServer :: "start_env \<Rightarrow> (string \<times> string list) list \<Rightarrow> daemon_config \<Rightarrow> DbServer res" where
  "newDbServer S params c =
     (case Atoi (value_of c ''REMOTE_PORT'') of
        Err e \<Rightarrow> Err (errorf_s ''failed to parse remote port: '' e) | Panic \<Rightarrow> Panic
      | Ok remotePort \<Rightarrow>
         (case al_get [(''rdp'', ''RDP''), (''sqlserver'', ''SQLSERVER''), (''db'', ''DB'')] (value_of c ''TCP_APP'') of
            None \<Rightarrow> Err (errorf (''failed to parse tcp application type: '' @ value_of c ''TCP_APP''))
          | Some connectionType \<Rightarrow>
             DbServer_New (se_conn S)
               (params @ [(''connectionType'', [connectionType]), (''target_id'', [value_of c ''TARGET_ID'']), (''target_user'', [value_of c ''TARGET_USER''])])
               (value_of c ''LOCAL_PORT'') (value_of c ''LOCAL_HOST'') remotePort (value_of c ''REMOTE_HOST'') (value_of c ''DB_ACTION'') (value_of c ''TCP_APP'')
               (value_of c ''TARGET_USER'') (value_of c ''TARGET_ID'')))"

definition newKubeServer :: "start_env \<Rightarrow> (string \<times> string list) list \<Rightarrow> daemon_config \<Rightarrow> KubeServer res" where
  "newKubeServer S params c =
     KubeServer_New (se_conn S)
       (params @ [(''connectionType'', [''CLUSTER'']), (''target_id'', [value_of c ''TARGET_ID'']), (''target_user'', [value_of c ''TARGET_USER'']),
          (''target_groups'', [value_of c ''TARGET_GROUPS''])])
       (value_of c ''LOCAL_PORT'') (value_of c ''LOCAL_HOST'') (value_of c ''TARGET_USER'')
       (if value_of c ''TARGET_GROUPS'' \<noteq> [] then split (value_of c ''TARGET_GROUPS'') '','' else []) (value_of c ''LOCALHOST_TOKEN'')"

text \<open>No server for a name that is none of the five.\<close>

definition new_server :: "start_env \<Rightarrow> (string \<times> string list) list \<Rightarrow> daemon_config \<Rightarrow> plugin_server res option" where
  "new_server S params c =
     (let plugin = value_of c ''PLUGIN'' in
      if plugin = ''db'' then Some (res_map SvDb (newDbServer S params c))
      else if plugin = ''kube'' then Some (res_map SvKube (newKubeServer S params c))
      else if plugin = ''shell'' then Some (res_map SvShell (newShellServer S params c))
      else if plugin = ''ssh'' then Some (res_map SvSsh (newSshServer S params c))
      else if plugin = ''web'' then Some (res_map SvWeb (newWebServer S params c))
      else None)"



definition ShutdownErr :: gerror where
  "ShutdownErr = GErr ''received a graceful shutdown request'' [ShutdownError]"


text \<open>
  The loop of the main program: a request to shut down closes a channel, which a second one
  does again; an error of the server ends the process.
\<close>

datatype main_event = MnShutdown | MnServerErr "gerror option"

datatype main_state = MnRunning bool | MnExits nat | MnPanics

fun main_loop :: "bool \<Rightarrow> main_event list \<Rightarrow> main_state" where
  "main_loop closed [] = MnRunning closed"
| "main_loop closed (MnShutdown # es) = (if closed then MnPanics else main_loop True es)"
| "main_loop closed (MnServerErr err # es) = MnExits (HandleDaemonExit err)"

section \<open>Which handler gets a request\<close>

text \<open>
  \<^verbatim>\<open>http.HandleFunc\<close> registers with the one default multiplexer, which every \<^verbatim>\<open>ListenAndServe\<close> without a handler of
  its own uses: a path goes to the longest pattern that is the path, or ends in a slash and is a prefix of it.
\<close>

datatype mux_target = ToShutdown | ToRoot | ToReady | ToStatus

definition mux_match :: "string \<Rightarrow> string \<times> 'h \<Rightarrow> bool" where
  "mux_match path p \<longleftrightarrow> fst p = path \<or> has_suffix ''/'' (fst p) \<and> has_prefix (fst p) path"

definition longer :: "string \<times> 'h \<Rightarrow> (string \<times> 'h) option \<Rightarrow> (string \<times> 'h) option" where
  "longer p best = (case best of None \<Rightarrow> Some p | Some q \<Rightarrow> if length (fst q) < length (fst p) then Some p else best)"

definition mux_handler :: "(string \<times> 'h) list \<Rightarrow> string \<Rightarrow> 'h option" where
  "mux_handler ps path = map_option snd (foldr longer (filter (mux_match path) ps) None)"

definition control_patterns :: "(string \<times> mux_target) list" where
  "control_patterns = [(''/shutdown'', ToShutdown)]"

definition server_patterns :: "string \<Rightarrow> (string \<times> mux_target) list" where
  "server_patterns plugin =
     (if plugin = ''kube'' then [(''/'', ToRoot), (''/bastionzero-ready'', ToReady), (''/bastionzero-status'', ToStatus)]
      else if plugin = ''web'' then [(''/'', ToRoot)] else [])"

definition default_mux :: "string \<Rightarrow> (string \<times> mux_target) list" where
  "default_mux plugin = control_patterns @ server_patterns plugin"

section \<open>What reaches the agent\<close>














section \<open>Requests for a cluster\<close>

lemma has_prefix_plus: "CHR ''+'' \<notin> set a \<Longrightarrow> a \<noteq> [] \<Longrightarrow> \<not> has_prefix securityTokenDelimiter (a @ b)"
  by (cases a) (auto simp: securityTokenDelimiter_def)

lemma split_delimiter_acc:
  "CHR ''+'' \<notin> set a \<Longrightarrow> split_acc securityTokenDelimiter acc (a @ securityTokenDelimiter @ b) = (rev acc @ a) # split_acc securityTokenDelimiter [] b"
proof (induction a arbitrary: acc)
  case Nil
  show ?case by (simp add: securityTokenDelimiter_def)
next
  case (Cons c a)
  then show ?case using has_prefix_plus [of "c # a" "securityTokenDelimiter @ b"] by simp
qed

lemma split_delimiter: "CHR ''+'' \<notin> set a \<Longrightarrow> split (a @ securityTokenDelimiter @ b) securityTokenDelimiter = a # split b securityTokenDelimiter"
  using split_delimiter_acc [of a "[]" b] by (simp add: split_def)

lemma split_delimiter_none: "CHR ''+'' \<notin> set a \<Longrightarrow> split a securityTokenDelimiter = [a]"
proof -
  have "split_acc securityTokenDelimiter acc a = [rev acc @ a]" if "CHR ''+'' \<notin> set a" for acc
    using that by (induction a arbitrary: acc) (auto simp: securityTokenDelimiter_def)
  then show "CHR ''+'' \<notin> set a \<Longrightarrow> split a securityTokenDelimiter = [a]" by (simp add: split_def)
qed

lemma remove_bearer: "\<not> contains s ''Bearer '' \<Longrightarrow> remove_all (''Bearer '' @ s) ''Bearer '' = s"
  using split_scheme [of "''Bearer ''" s] by (simp add: remove_all_def)

text \<open>
  C14. Only whoever knows the token of this daemon makes requests to the cluster: all paths but the
  three that the daemon answers itself go to a handler that, without the token in front, answers
  with an error, opens no channel and starts nothing; with it, and a command and log identifier
  behind it, one channel is opened and one action is started for them.
\<close>

theorem kube_token_required:
  shows "(hd (token_parts q) \<noteq> kbs_localhostToken k \<longrightarrow>
       kube_rootCallback E M spdy writer newLogId dcId requestId k q = (k, Some (500, invalid_token_message), None)) \<and>
    (has_prefix ''/'' path \<longrightarrow> (mux_handler (default_mux ''kube'') path = Some ToRoot \<longleftrightarrow> path \<notin> {''/shutdown'', ''/bastionzero-ready'', ''/bastionzero-status''})) \<and>
    (Header_Get (cr_Header (kq_request q)) ''Authorization'' = ''Bearer '' @ kbs_localhostToken k @ securityTokenDelimiter @ command @ securityTokenDelimiter @ logId \<and>
       CHR ''+'' \<notin> set (kbs_localhostToken k @ command @ logId) \<and>
       \<not> contains (kbs_localhostToken k @ securityTokenDelimiter @ command @ securityTokenDelimiter @ logId) ''Bearer '' \<and> ce_mrtap E = Ok () \<and> ce_New E (kube_opening dcId (getAction q) k) = Ok () \<longrightarrow>
       kube_rootCallback E M spdy writer newLogId dcId requestId k q =
         (k\<lparr>sv_channels := sv_channels k @ [kube_opening dcId (getAction q) k]\<rparr>, None,
          Some (kube_StartAction M spdy writer requestId KubeDaemonPlugin_New (getAction q) logId command (kq_request q))))"
proof -
  have mux: "mux_handler (default_mux ''kube'') path = Some ToRoot \<longleftrightarrow> path \<notin> {''/shutdown'', ''/bastionzero-ready'', ''/bastionzero-status''}" if "has_prefix ''/'' path"
    using that by (auto simp: mux_handler_def default_mux_def control_patterns_def server_patterns_def mux_match_def longer_def has_suffix_def)
  have parts: "token_parts q = [kbs_localhostToken k, command, logId]"
    if "Header_Get (cr_Header (kq_request q)) ''Authorization'' = ''Bearer '' @ kbs_localhostToken k @ securityTokenDelimiter @ command @ securityTokenDelimiter @ logId"
      "CHR ''+'' \<notin> set (kbs_localhostToken k @ command @ logId)" "\<not> contains (kbs_localhostToken k @ securityTokenDelimiter @ command @ securityTokenDelimiter @ logId) ''Bearer ''"
    using that by (simp add: token_parts_def remove_bearer split_delimiter split_delimiter_none del: append.simps append_assoc)
  show ?thesis using mux parts by (auto simp: kube_rootCallback_def kube_newDataChannel_def open_channel_def Let_def)
qed

section \<open>Starting\<close>

lemma required_known: "al_get requriedPluginVars p \<noteq> None \<longleftrightarrow> p \<in> {''kube'', ''db'', ''web'', ''shell'', ''ssh''}"
  by (auto simp: requriedPluginVars_def)

lemma required_read: "al_get requriedPluginVars p = Some vars \<Longrightarrow> set (requriedGlobalVars @ vars) \<subseteq> set config_vars"
  by (auto simp: requriedPluginVars_def requriedGlobalVars_def config_vars_def split: if_splits)

lemma read_environment_seen: "v \<in> set config_vars \<Longrightarrow> ev_Seen (read_environment lookup c v) \<longleftrightarrow> lookup v \<noteq> None"
  by (simp add: read_environment_def split: option.split)

lemma formatted:
  assumes "formatServiceUrl with_https c = (c', Ok ())"
  shows "ev_Seen (c' v) = ev_Seen (c v)" "value_of c' ''PLUGIN'' = value_of c ''PLUGIN''"
  using assms by (auto simp: formatServiceUrl_def Let_def split: res.splits if_splits)

text \<open>
  C25. The daemon starts in a complete environment only: reading it succeeds exactly when the service URL
  parses, the plugin is one of the five and each variable it requires is set, and otherwise the error names the
  missing ones in order; once it has succeeded a server is made for the plugin, so that the branch without one,
  which would panic, is never taken.
\<close>

theorem environment_checked:
  assumes "loadEnvironment lookup with_https initial_config = (c, r)" and "lookup ''PLUGIN'' = Some plugin"
    and "with_https (case lookup ''SERVICE_URL'' of Some v \<Rightarrow> v | None \<Rightarrow> []) = Ok u"
  shows "(r = Ok () \<longleftrightarrow> (\<exists>vars. al_get requriedPluginVars plugin = Some vars \<and> (\<forall>v \<in> set (requriedGlobalVars @ vars). lookup v \<noteq> None))) \<and>
    (\<forall>vars. al_get requriedPluginVars plugin = Some vars \<and> r \<noteq> Ok () \<longrightarrow>
       r = Err (errorf (''the following required environment variables are not set: ['' @ join (filter (\<lambda>v. lookup v = None) (requriedGlobalVars @ vars)) '' '' @ '']''))) \<and>
    (r = Ok () \<longrightarrow> value_of c ''PLUGIN'' = plugin \<and> new_server S params c \<noteq> None)"
proof -
  let ?c1 = "read_environment lookup initial_config"
  have v: "value_of ?c1 ''PLUGIN'' = plugin" "value_of ?c1 ''SERVICE_URL'' = (case lookup ''SERVICE_URL'' of Some v \<Rightarrow> v | None \<Rightarrow> [])"
    using assms(2) by (simp_all add: read_environment_def config_vars_def split: option.split)
  obtain c2 where c2: "formatServiceUrl with_https ?c1 = (c2, Ok ())" using assms(3) v(2) by (simp add: formatServiceUrl_def)
  have p: "value_of c2 ''PLUGIN'' = plugin" using formatted(2) [OF c2] v(1) by simp
  have "missing_vars c2 (requriedGlobalVars @ vars) = filter (\<lambda>v. lookup v = None) (requriedGlobalVars @ vars)" if "al_get requriedPluginVars plugin = Some vars" for vars
  proof -
    have "\<not> ev_Seen (c2 x) \<longleftrightarrow> lookup x = None" if "x \<in> set (requriedGlobalVars @ vars)" for x
      using that required_read [OF \<open>al_get requriedPluginVars plugin = Some vars\<close>] read_environment_seen [of x lookup initial_config] formatted(1) [OF c2, of x] by auto
    then show ?thesis unfolding missing_vars_def by (intro filter_cong) auto
  qed
  note missing = this
  have e: "c = c2 \<and> (case al_get requriedPluginVars plugin of
      None \<Rightarrow> r = Err (errorf (''unhandled plugin passed: '' @ plugin))
    | Some vars \<Rightarrow> r = (if filter (\<lambda>v. lookup v = None) (requriedGlobalVars @ vars) \<noteq> []
        then Err (errorf (''the following required environment variables are not set: ['' @ join (filter (\<lambda>v. lookup v = None) (requriedGlobalVars @ vars)) '' '' @ '']'')) else Ok ()))"
    using assms(1) missing by (auto simp: loadEnvironment_def c2 p Let_def split: option.splits)
  have "new_server S params c2 \<noteq> None" if "al_get requriedPluginVars plugin \<noteq> None"
    using that required_known [of plugin] by (auto simp: new_server_def p)
  then show ?thesis using e p by (cases "al_get requriedPluginVars plugin") (auto simp: filter_empty_conv split: if_splits)
qed

section \<open>Ending\<close>

lemma exit_wrapped [simp]: "HandleDaemonExit (Some (errorf_w t e)) = HandleDaemonExit (Some e)"
  by (simp add: HandleDaemonExit_def errors_As_def errorf_w_def)



definition closes :: "ts_event list \<Rightarrow> gerror option list" where
  "closes es = concat (map (\<lambda>e. case e of TsClose r \<Rightarrow> [r] | TsRoutine \<Rightarrow> []) es)"

text \<open>The first reason that is an error.\<close>

definition first_reason :: "gerror option list \<Rightarrow> gerror option" where
  "first_reason rs = (case dropWhile (\<lambda>r. r = None) rs of [] \<Rightarrow> None | r # _ \<Rightarrow> r)"

lemma closes_simps [simp]:
  "closes [] = []" "closes (TsClose r # es) = r # closes es" "closes (TsRoutine # es) = closes es" "closes (es @ es') = closes es @ closes es'"
  by (simp_all add: closes_def)

lemma foldl_Kill:
  "tb_killed (foldl tomb_Kill t rs) =
     (case tb_killed t of Some (Some e) \<Rightarrow> Some (Some e) | Some None \<Rightarrow> Some (first_reason rs) | None \<Rightarrow> if rs = [] then None else Some (first_reason rs))"
  by (induction rs arbitrary: t) (auto simp: tomb_Kill_def first_reason_def split: option.splits)

lemma before_routine:
  assumes "tb_killed (tsv_tomb s) = None" and "\<And>p q. es = p @ TsRoutine # q \<Longrightarrow> closes p = []"
  shows "foldl ts_turn s es = s\<lparr>tsv_tomb := foldl tomb_Kill (tsv_tomb s) (closes es)\<rparr>"
  using assms(2)
proof (induction es rule: rev_induct)
  case (snoc e es)
  have IH: "foldl ts_turn s es = s\<lparr>tsv_tomb := foldl tomb_Kill (tsv_tomb s) (closes es)\<rparr>" using snoc.prems by (intro snoc.IH) auto
  have "closes es = []" if "e = TsRoutine" using snoc.prems [of es "[]"] that by simp
  then show ?case using assms(1) by (cases e) (auto simp: IH tomb_server_Close_def tomb_server_routine_def)
qed simp

lemma after_routine:
  "\<not> tsv_waiting s \<Longrightarrow> sv_errors (foldl ts_turn s es) = sv_errors s \<and> sv_closings (foldl ts_turn s es) = sv_closings s"
proof (induction es arbitrary: s)
  case (Cons e es)
  have "\<not> tsv_waiting (ts_turn s e) \<and> sv_errors (ts_turn s e) = sv_errors s \<and> sv_closings (ts_turn s e) = sv_closings s"
    using Cons.prems by (cases e) (auto simp: tomb_server_Close_def tomb_server_routine_def split: option.split)
  then show ?case using Cons.IH by simp
qed simp

text \<open>
  A shell or SSH server ends once: however often and by whomever it is closed, the main program gets one
  message and the connection is closed once, both with the first error among the reasons that were
  given before its routine ran; and as long as nobody closes it, nothing is sent.
\<close>

theorem server_reports_once:
  assumes "tb_killed (tsv_tomb s) = None" "tsv_waiting s" and "\<And>p q. es = p @ TsRoutine # q \<Longrightarrow> closes p = []"
  shows "(closes es \<noteq> [] \<longrightarrow> sv_errors (foldl ts_turn s (es @ TsRoutine # rest)) = sv_errors s @ [first_reason (closes es)] \<and>
      sv_closings (foldl ts_turn s (es @ TsRoutine # rest)) = sv_closings s @ [first_reason (closes es)]) \<and>
    sv_errors (foldl ts_turn s es) = sv_errors s"
proof -
  let ?s1 = "s\<lparr>tsv_tomb := foldl tomb_Kill (tsv_tomb s) (closes es)\<rparr>" and ?r = "first_reason (closes es)"
  have b: "foldl ts_turn s es = ?s1" by (rule before_routine [OF assms(1,3)])
  have "sv_errors (tomb_server_routine ?s1) = sv_errors s @ [?r] \<and> sv_closings (tomb_server_routine ?s1) = sv_closings s @ [?r] \<and> \<not> tsv_waiting (tomb_server_routine ?s1)"
    if "closes es \<noteq> []" using that assms(1,2) by (simp add: tomb_server_routine_def foldl_Kill send_err_def conn_Close_def)
  then show ?thesis using after_routine [of "tomb_server_routine ?s1" rest] b by simp
qed













text \<open>
  What goes wrong: a second request to shut down panics; the page of a web application at \<^verbatim>\<open>/shutdown\<close> ends the daemon,
  as it does in front of a cluster without a token; and a service URL that is not in the environment is not the default one.
\<close>

lemma daemon_faults:
  assumes "lookup ''SERVICE_URL'' = None" and "with_https [] = Ok u"
  shows "main_loop False (MnShutdown # MnShutdown # es) = MnPanics \<and>
    mux_handler (default_mux ''web'') ''/shutdown'' = Some ToShutdown \<and> mux_handler (default_mux ''kube'') ''/shutdown'' = Some ToShutdown \<and>
    value_of (fst (loadEnvironment lookup with_https initial_config)) ''SERVICE_URL'' = u \<and> value_of initial_config ''SERVICE_URL'' = prodServiceUrl"
proof -
  have "mux_handler (default_mux ''web'') ''/shutdown'' = Some ToShutdown" "mux_handler (default_mux ''kube'') ''/shutdown'' = Some ToShutdown" by code_simp+
  moreover obtain c' where "formatServiceUrl with_https (read_environment lookup initial_config) = (c', Ok ())" "value_of c' ''SERVICE_URL'' = u"
    using assms by (simp add: formatServiceUrl_def read_environment_def config_vars_def)
  ultimately show ?thesis by (simp add: loadEnvironment_def initial_config_def Let_def split: option.split)
qed

section \<open>Witnesses\<close>

definition wit_kube_server :: KubeServer where
  "wit_kube_server = \<lparr> sv_params = [], sv_closings = [], sv_errors = [], sv_channels = [], kbs_exitMessage = [], kbs_localhostToken = ''tok'',
     kbs_targetUser = ''ann'', kbs_targetGroups = [''dev''], kbs_localPort = ''1'', kbs_localHost = ''localhost'' \<rparr>"



definition wit_shell_server :: ShellServer where
  "wit_shell_server = \<lparr> sv_params = [], sv_closings = [], sv_errors = [], sv_channels = [], tsv_tomb = waiting_tomb, tsv_waiting = True, sls_targetUser = ''ann'', sls_dataChannelId = [] \<rparr>"


definition wit_kubectl_request :: kubectl_request where
  "wit_kubectl_request = \<lparr> kq_path = ''/api/v1/pods'', kq_query = [],
     kq_request = \<lparr> cr_Header = [(''Authorization'', [''Bearer tok++++zli get pods++++7''])], cr_Host = [], cr_URL = ''/api/v1/pods'', cr_Method = ''GET'', cr_Form = [], cr_Body = [] \<rparr> \<rparr>"


theorem kube_token_required_witness:
  "kube_rootCallback \<lparr> ce_mrtap = Ok (), ce_New = (\<lambda>_. Ok ()) \<rparr> codec_print None () ''8'' ''1'' ''2'' wit_kube_server wit_kubectl_request =
     (wit_kube_server\<lparr>sv_channels := [kube_opening ''1'' ''restapi'' wit_kube_server]\<rparr>, None,
      Some (kube_StartAction codec_print None () ''2'' KubeDaemonPlugin_New ''restapi'' ''7'' ''zli get pods'' (kq_request wit_kubectl_request)))"
proof -
  have g: "getAction wit_kubectl_request = ''restapi''" by code_simp
  have h: "Header_Get (cr_Header (kq_request wit_kubectl_request)) ''Authorization'' = ''Bearer '' @ kbs_localhostToken wit_kube_server @ securityTokenDelimiter @ ''zli get pods'' @ securityTokenDelimiter @ ''7''"
    by code_simp
  have c: "CHR ''+'' \<notin> set (kbs_localhostToken wit_kube_server @ ''zli get pods'' @ ''7'')"
    "\<not> contains (kbs_localhostToken wit_kube_server @ securityTokenDelimiter @ ''zli get pods'' @ securityTokenDelimiter @ ''7'') ''Bearer ''" by code_simp+
  have n: "sv_channels wit_kube_server = []" by (simp add: wit_kube_server_def)
  show ?thesis using kube_token_required [THEN conjunct2, THEN conjunct2, rule_format, of wit_kubectl_request wit_kube_server "''zli get pods''" "''7''"
        "\<lparr> ce_mrtap = Ok (), ce_New = (\<lambda>_. Ok ()) \<rparr>" "''1''" codec_print None "()" "''8''" "''2''"] h c g n by simp
qed

theorem environment_checked_witness:
  "snd (loadEnvironment (\<lambda>_. Some ''shell'') (\<lambda>u. Ok u) initial_config) = Ok () \<and>
   value_of (fst (loadEnvironment (\<lambda>_. Some ''shell'') (\<lambda>u. Ok u) initial_config)) ''PLUGIN'' = ''shell''"
proof -
  obtain c r where l: "loadEnvironment (\<lambda>_. Some ''shell'') (\<lambda>u. Ok u) initial_config = (c, r)" by (cases "loadEnvironment (\<lambda>_. Some ''shell'') (\<lambda>u. Ok u) initial_config")
  have v: "al_get requriedPluginVars ''shell'' \<noteq> None" using required_known by blast
  show ?thesis using environment_checked [OF l, where plugin = "''shell''" and u = "''shell''"] v by (auto simp: l)
qed





theorem server_reports_once_witness:
  "sv_errors (foldl ts_turn wit_shell_server [TsRoutine, TsClose None, TsClose (Some ShutdownErr), TsRoutine, TsClose None, TsRoutine]) = [Some ShutdownErr]"
proof -
  have s: "tb_killed (tsv_tomb wit_shell_server) = None" "tsv_waiting wit_shell_server" "sv_errors wit_shell_server = []" by (simp_all add: wit_shell_server_def waiting_tomb_def)
  have r: "closes p = []" if "[TsRoutine, TsClose None, TsClose (Some ShutdownErr)] = p @ TsRoutine # q" for p q
    using that by (cases p) (auto simp: Cons_eq_append_conv)
  show ?thesis using server_reports_once [where es = "[TsRoutine, TsClose None, TsClose (Some ShutdownErr)]" and rest = "[TsClose None, TsRoutine]", OF s(1,2) r] s(3) by (simp add: first_reason_def)
qed


end
