(* ===== verification/Spec2Isabelle.thy ===== *)
theory Spec2Isabelle
  imports Daemon_Connection Shell_Users Authorized_Keys Key_Shard_Config Agent_Config Web_Socket Kube_Plugin Ssh_Plugin Control_Channel Signal_R Control_Connection Psql_Proxy Agent_Main Daemon_Servers
begin

text \<open>
  A verification development for bzero, the BastionZero agent and daemon.

  The program. An agent runs on a target (a server, a cluster), a daemon runs on the user's
  machine, and both connect to a service in between that they do not trust with what they say to
  each other. MrTAP, a protocol of signed and hash-chained messages (Syn, SynAck, Data, DataAck),
  authenticates the user's actions to the agent. A connection carries data channels; a data
  channel has one MrTAP session and one plugin on each side (shell, ssh, database, web, kube); a
  plugin starts an action, actions of the daemon travel as Data messages and the output of the
  agent travels back as stream messages.

  How the model reads. Go structs are records, sum-like types datatypes, a call that can fail
  returns a \<^typ>\<open>'a res\<close>: a value, an error with its text and the typed errors in its chain, or a
  panic. A method is a function from the state to the new state and its result. A routine is a
  function that makes one turn on an event (what a read gives, which message arrives, what a
  timer does), and a run of it is a list of events, so every interleaving of turns is a list;
  a call that never comes back has the result \<^term>\<open>None\<close>, or says so in a flag. Integers are
  \<^typ>\<open>int\<close> with the bounds of their Go type where a value is read from a message, and byte
  strings are \<^typ>\<open>string\<close>. Code outside the repository is an argument of the definitions that
  use it, with its laws as named hypotheses: hashing, signatures, semantic versions, OIDC (in
  \<^verbatim>\<open>Externals\<close>), the operating system's users and files, pseudo terminals, TCP connections,
  HTTP clients, URL parsing, and the printer and parser of JSON texts. Loops
  are structural over their events or have a termination proof (\<^term>\<open>drain\<close>, \<^term>\<open>split_acc\<close>,
  \<^term>\<open>fields_acc\<close>, \<^term>\<open>pieces\<close>). The loop over the ancestors of a path, \<^term>\<open>create_loop\<close>, is a partial
  function that is shown to return; \<^term>\<open>ancestors\<close> counts at most the length of a path, which has
  no more components than characters. The one parser with a bound, in \<^verbatim>\<open>Json_Codec\<close>, belongs to
  the witnesses, and its bound is the length of the text.

  The theories, bottom up.

  \<^item> \<^verbatim>\<open>Bzero_Prelude\<close>: results, errors, \<^verbatim>\<open>strings\<close> functions, association lists in insertion order.
    \<^verbatim>\<open>Go_Base64\<close>, \<^verbatim>\<open>Go_Text\<close>, \<^verbatim>\<open>Go_Json\<close>, \<^verbatim>\<open>Go_Io\<close>, \<^verbatim>\<open>Tomb\<close>: the parts of the standard library and of
    \<^verbatim>\<open>tomb.v2\<close> the sources use. \<^verbatim>\<open>Json_Codec\<close>: a printer and a parser that agree, for witnesses.
  \<^item> MrTAP (\<^verbatim>\<open>bzerolib/mrtap\<close>, \<^verbatim>\<open>bzerolib/keypair\<close>, \<^verbatim>\<open>bctl/agent/mrtap\<close>, \<^verbatim>\<open>bctl/daemon/mrtap\<close>): \<^verbatim>\<open>Mrtap_Util\<close>,
    \<^verbatim>\<open>Keypair\<close>, \<^verbatim>\<open>BZCert\<close>, \<^verbatim>\<open>Mrtap_Message\<close>, \<^verbatim>\<open>Agent_Mrtap\<close>, \<^verbatim>\<open>Daemon_BZCert\<close>, \<^verbatim>\<open>Daemon_Mrtap\<close>, \<^verbatim>\<open>Daemon_Pipeline\<close>.
    What a verified certificate binds; when the agent accepts a message; that its hash pointer
    commits to the whole session; what the daemon sends ahead and resends; the invariant of every
    reachable daemon. The ordered map the daemon uses is the locale \<^verbatim>\<open>ordered_map\<close>.
  \<^item> Data channels and connections (\<^verbatim>\<open>bctl/agent/datachannel\<close>, \<^verbatim>\<open>bctl/daemon/datachannel\<close>,
    \<^verbatim>\<open>bctl/agent/controlchannel/dataconnection\<close>, \<^verbatim>\<open>bctl/daemon/servers/dataconnection\<close>, \<^verbatim>\<open>bzerolib/connection\<close>):
    \<^verbatim>\<open>Error_Message\<close>, \<^verbatim>\<open>Agent_Message\<close>, \<^verbatim>\<open>Agent_DataChannel\<close>, \<^verbatim>\<open>Daemon_DataChannel\<close>, \<^verbatim>\<open>Broker\<close>,
    \<^verbatim>\<open>Agent_Connection\<close>, \<^verbatim>\<open>Daemon_Connection\<close>. Every message is answered, rejections are recovered from,
    handshakes are bounded, exit codes, what closing flushes and what blocks a connection. What
    the broker asks of a channel is the locale \<^verbatim>\<open>channel\<close>, interpreted for both kinds.
  \<^item> Plugins: \<^verbatim>\<open>Ring_Buffer\<close> (locale \<^verbatim>\<open>byte_log\<close>), \<^verbatim>\<open>Agent_Shell\<close>, \<^verbatim>\<open>Daemon_Shell\<close>, \<^verbatim>\<open>Shell_Users\<close>; \<^verbatim>\<open>Reassembly\<close>
    (locale \<^verbatim>\<open>ordered_stream\<close>: numbered messages that arrive in any order), \<^verbatim>\<open>Db_Dial\<close>, \<^verbatim>\<open>Bz_Http\<close>,
    \<^verbatim>\<open>Web_Dial\<close>, \<^verbatim>\<open>Web_Socket\<close>. What one end of a tunnel sends is what the other writes, in order.
  \<^item> Databases without passwords (\<^verbatim>\<open>actions/pwdb\<close>): \<^verbatim>\<open>Db_Pwdb\<close>, \<^verbatim>\<open>Psql_Proxy\<close>. Certificates that two key shards
    sign, the clouds, the proxies that authenticate and add TLS, and the exit code of each failure.
  \<^item> Kubernetes (\<^verbatim>\<open>plugin/kube\<close>): \<^verbatim>\<open>Kube_Rest\<close>, \<^verbatim>\<open>Kube_Stream\<close>, \<^verbatim>\<open>Kube_Exec\<close>, \<^verbatim>\<open>Kube_Forward\<close>, \<^verbatim>\<open>Kube_Plugin\<close>. Requests are made
    as the target user, and their streams arrive.
  \<^item> SSH (\<^verbatim>\<open>plugin/ssh\<close>): \<^verbatim>\<open>Ssh_Keys\<close>, \<^verbatim>\<open>Ssh_Opaque\<close>, \<^verbatim>\<open>Ssh_Transparent\<close>, \<^verbatim>\<open>Ssh_Plugin\<close>. Key files, sessions that are passed
    through, sessions in which only file transfers are run.
  \<^item> The service: \<^verbatim>\<open>Signal_R\<close> (\<^verbatim>\<open>bzerolib/connection/messenger\<close>, \<^verbatim>\<open>bzerolib/connection/transporter\<close>),
    \<^verbatim>\<open>Control_Connection\<close>, \<^verbatim>\<open>Control_Channel\<close> (\<^verbatim>\<open>bctl/agent/controlconnection\<close>, \<^verbatim>\<open>bctl/agent/controlchannel\<close>),
    \<^verbatim>\<open>Bastion_Client\<close> (the HTTP client, the identity token, reports, registration) and \<^verbatim>\<open>Agent_Main\<close> (the
    agent's process). Messages arrive with their operation, connections are opened with signed
    messages, configuration is authorised, only a registered agent runs, and it restarts
    exactly when the control channel has gone silent.
  \<^item> The daemon's process: \<^verbatim>\<open>Daemon_Servers\<close> (\<^verbatim>\<open>bctl/daemon/daemon.go\<close>, \<^verbatim>\<open>config.go\<close>, \<^verbatim>\<open>bctl/daemon/servers\<close>). The environment is
    complete before a server starts, what a server opens is what the agent's plugins run, requests
    to a cluster need the token, and a request to shut down is obeyed. What the main program relies
    on is the locale \<^verbatim>\<open>closable_server\<close>, interpreted for all servers.
  \<^item> The host: \<^verbatim>\<open>File_Mode\<close>, \<^verbatim>\<open>Unix_User\<close>, \<^verbatim>\<open>Sudoers\<close>, \<^verbatim>\<open>User_Add\<close>, \<^verbatim>\<open>Authorized_Keys\<close> (\<^verbatim>\<open>bzerolib/unix\<close>,
    \<^verbatim>\<open>bctl/agent/plugin/ssh/authorizedkeys\<close>): permissions as a user, managed users, short-lived keys.
  \<^item> Configuration (\<^verbatim>\<open>bctl/agent/config\<close>): \<^verbatim>\<open>Config_Data\<close>, \<^verbatim>\<open>Config_Store\<close> (locale \<^verbatim>\<open>config_store\<close>, interpreted for
    the agent's registration and for the key shards), \<^verbatim>\<open>Key_Shard_Config\<close>, \<^verbatim>\<open>Agent_Config\<close>.

  This theory holds what spans agent and daemon: the handshake, and a pipelined session.

  Not modelled. Logging (no state the program reads back) and the upload of log files; pseudo terminals, which the shell has as an argument; the store
  of the agent in a cluster and the check of its permissions (calls of the Kubernetes client); file locks, whose
  effect the store of files has. Windows variants of the Unix packages are stubs in the sources.
\<close>

section \<open>Agent and daemon together\<close>

lemma BZCert_json_inject:
  "BZCert_json a = BZCert_json b \<Longrightarrow> ClientPublicKey a = ClientPublicKey b"
  by (simp add: BZCert_json_def)

lemma agent_BuildAck_verifies:
  assumes "agent_BuildAck L now rnd a msg act pl = (a', Ok ack)" "key_pair L p (privatekey a)"
  shows "VerifySignature L ack p = Ok ()"
proof -
  obtain r ok where "MrtapMessage_Sign L r (privatekey a) = Ok (ack, ok)"
    using assms(1) unfolding agent_BuildAck_def
    by (auto split: res.splits if_splits prod.splits)
  then show ?thesis using Sign_key_pair [OF assms(2), of r] by auto
qed

lemma agent_BuildAck_SynAck:
  assumes "agent_BuildAck L now rnd a syn act pl = (a', Ok ack)" "msg_Type syn = Syn" "msg_Payload syn = PSyn s"
  obtains p va where "msg_Type ack = SynAck" "msg_Payload ack = PSynAck p"
    "getSchemaVersionToUse L a = Ok va" "synack_SchemaVersion p = semver_string L va"
    "synack_HPointer p = payload_hash L (PSyn s)" "synack_TargetPublicKey p = PublicKey_String (publickey a)"
    "a' = a\<lparr>expectedHPointer := payload_hash L (msg_Payload ack)\<rparr>"
proof -
  obtain va r where r: "getSchemaVersionToUse L a = Ok va" "unsigned_ack L now rnd a syn pl va = Ok r"
    "msg_Type ack = msg_Type r" "msg_Payload ack = msg_Payload r"
    "a' = a\<lparr>expectedHPointer := payload_hash L (msg_Payload ack)\<rparr>"
    using agent_BuildAck_Ok [OF assms(1)] by blast
  have "\<exists>p. msg_Type r = SynAck \<and> msg_Payload r = PSynAck p \<and> synack_SchemaVersion p = semver_string L va \<and>
      synack_HPointer p = payload_hash L (PSyn s) \<and> synack_TargetPublicKey p = PublicKey_String (publickey a)"
    using r(2) assms(2,3)
    by (auto simp: unsigned_ack_def BuildUnsignedSynAck_def SynPayload_BuildResponsePayload_def Let_def
        split: option.splits list.splits)
  with r that show thesis by metis
qed

lemma agent_accepts_syn:
  assumes "agent_Validate (env_lib E) now a syn = (a1, Ok u)" "msg_Type syn = Syn"
    "msg_Payload syn = PSyn (syn_payload E (syn_state m c action) bytes)" "cert_usable (env_lib E) c"
  obtains cert pk v where "PublicKeyFromString (ClientPublicKey (dc_BZCert c)) = Ok pk"
    "semver_parse (env_lib E) SchemaVersion = Ok v" "BZCert_Hash cert = BZCert_Hash (dc_BZCert c)"
    "a1 = a\<lparr>clientPublicKey := Some pk, daemonSchemaVersion := Some v, clientBZCert := Some cert\<rparr>"
proof -
  let ?L = "env_lib E"
  obtain cert pk v where s: "BZCert_Verify ?L now (dc_BZCert c) (idpProvider a) (idpOrgId a) (serviceAccounts a) = Ok cert"
      "PublicKeyFromString (ClientPublicKey cert) = Ok pk" "semver_parse ?L SchemaVersion = Ok v"
      "a1 = a\<lparr>clientPublicKey := Some pk, daemonSchemaVersion := Some v, clientBZCert := Some cert\<rparr>"
    using assms(1-3) by (auto simp: Validate_Syn_Ok syn_payload_def syn_state_def)
  have "cert_hash (dc_BZCert c) = EncodeToString (sha3 ?L (hash_preimage (BZCert_json (dc_BZCert c))))"
    using assms(4) by (auto simp: cert_usable_def)
  then have same: "BZCert_json cert = BZCert_json (dc_BZCert c)" "BZCert_Hash cert = BZCert_Hash (dc_BZCert c)"
    using BZCert_Verify_hash [OF s(1)] by (simp_all add: BZCert_Hash_def)
  show ?thesis using that [OF _ s(3) same(2) s(4)] s(2) BZCert_json_inject [OF same(1)] by simp
qed

lemma daemon_accepts_first_synack:
  assumes "ordered_map om" "om_pairs om (pipelineMap m1) = [(synack_HPointer p, syn)]"
    "msg_Type ack = SynAck" "msg_Payload ack = PSynAck p" "VerifySignature (env_lib E) ack (agentPubKey m1) = Ok ()"
    "PublicKeyFromString (synack_TargetPublicKey p) = Ok tk" "semver_parse (env_lib E) (synack_SchemaVersion p) = Ok va"
    "good_priv (dc_privateKey (bzcert m1))" "sha3_len (env_lib E)"
  obtains m2 where "daemon_Validate E om m1 ack = (m2, Ok ())" "om_pairs om (pipelineMap m2) = []"
     "isHandshakeComplete m2" "lastAck m2 = Some ack" "schemaVersion m2 = Some va" "bzcert m2 = bzcert m1"
     "agentPubKey m2 = agentPubKey m1"
proof -
  have "\<exists>m2. daemon_Validate E om m1 ack = (m2, Ok ()) \<and> om_pairs om (pipelineMap m2) = keyed (env_lib E) [] \<and>
     outboxQueue m2 = outboxQueue m1 @ [] \<and>
     pipelineLength m2 = length ([] :: MrtapMessage list) \<and> isHandshakeComplete m2 \<and> \<not> recovering m2 \<and>
     lastAck m2 = Some ack \<and> schemaVersion m2 = Some va \<and> bzcert m2 = bzcert m1 \<and> agentPubKey m2 = agentPubKey m1"
    by (rule ordered_map.Validate_SynAck [OF assms(1,3-6) _ assms(7-9), where ps = "[]"])
       (simp_all add: assms(2) to_resend_def actions_def)
  then show ?thesis using that by auto
qed

text \<open>
  C2. The first handshake works end to end: a Syn the daemon builds and the agent accepts is
  answered by a SynAck the daemon accepts; afterwards the handshake is complete, nothing is
  pending, both sides agree on keys, certificate and schema version, and the hash pointer the
  agent expects is the hash of the acknowledgement the daemon will build on.
\<close>

theorem handshake_brings_in_step:
  assumes "ordered_map om" and "om_pairs om (pipelineMap m) = []"
    and "BuildSyn E om m action params snd_it = (m1, Ok syn)" and "cert_usable (env_lib E) (bzcert m1)"
    and "agent_Validate (env_lib E) now a syn = (a1, Ok u)"
    and "agent_BuildAck (env_lib E) now rnd a1 syn (GetAction syn) pl = (a2, Ok ack)"
    and "\<And>pk. PublicKeyFromString (ClientPublicKey (dc_BZCert (bzcert m1))) = Ok pk \<Longrightarrow>
                key_pair (env_lib E) (Some pk) (dc_privateKey (bzcert m1))"
    and "key_pair (env_lib E) (agentPubKey m) (privatekey a)" and "publickey a = agentPubKey m"
    and "semver_roundtrip (env_lib E)" and "sha3_len (env_lib E)"
  shows "\<exists>m2. daemon_Validate E om m1 ack = (m2, Ok ()) \<and> isHandshakeComplete m2 \<and>
     om_pairs om (pipelineMap m2) = [] \<and> lastAck m2 = Some ack \<and> is_ack ack \<and>
     expectedHPointer a2 = payload_hash (env_lib E) (msg_Payload ack) \<and>
     (\<forall>now'. (\<forall>cert. clientBZCert a2 = Some cert \<longrightarrow> \<not> BZCert_Expired now' cert) \<longrightarrow>
        in_step (env_lib E) now' a2 m2)"
proof -
  let ?L = "env_lib E"
  obtain c bytes u' n q where c: "params = Ok bytes" "msg_Type syn = Syn"
      "msg_Payload syn = PSyn (syn_payload E (syn_state m c action) bytes)"
      "m1 = (syn_state m c action)\<lparr>pipelineMap := om_set om (pipelineMap m) (payload_hash ?L (msg_Payload syn)) syn,
              pipelineLength := n, outboxQueue := q\<rparr>"
    using buildSyn_Ok assms(3) unfolding BuildSyn_def by blast
  have f: "bzcert m1 = c" "agentPubKey m1 = agentPubKey m"
      "om_pairs om (pipelineMap m1) = [(payload_hash ?L (msg_Payload syn), syn)]"
    using c(4) assms(2) ordered_map.pairs_set [OF assms(1)] by (simp_all add: syn_state_def)
  obtain cert pk v where s: "PublicKeyFromString (ClientPublicKey (dc_BZCert c)) = Ok pk"
      "semver_parse ?L SchemaVersion = Ok v" "BZCert_Hash cert = BZCert_Hash (dc_BZCert c)"
      "a1 = a\<lparr>clientPublicKey := Some pk, daemonSchemaVersion := Some v, clientBZCert := Some cert\<rparr>"
    using agent_accepts_syn [OF assms(5) c(2,3)] assms(4) f(1) by blast
  obtain p va where p: "msg_Type ack = SynAck" "msg_Payload ack = PSynAck p"
    "getSchemaVersionToUse ?L a1 = Ok va" "synack_SchemaVersion p = semver_string ?L va"
    "synack_HPointer p = payload_hash ?L (msg_Payload syn)"
    "synack_TargetPublicKey p = PublicKey_String (publickey a1)"
    "a2 = a1\<lparr>expectedHPointer := payload_hash ?L (msg_Payload ack)\<rparr>"
    using agent_BuildAck_SynAck [OF assms(6) c(2,3)] c(3) by metis
  have sig: "VerifySignature ?L ack (agentPubKey m1) = Ok ()"
    using agent_BuildAck_verifies [OF assms(6), of "agentPubKey m"] assms(8) s(4) f by simp
  have tk: "PublicKeyFromString (synack_TargetPublicKey p) = Ok (the (agentPubKey m))"
    using PublicKeyFromString_String key_pair_good(1) [OF assms(8)] p(6) s(4) assms(9) by simp
  have ver: "semver_parse ?L (synack_SchemaVersion p) = Ok va"
    using assms(10) p(3,4) s(2,4) by (auto simp: semver_roundtrip_def getSchemaVersionToUse_def)
  have gp: "good_priv (dc_privateKey (bzcert m1))" using assms(4) by (auto simp: cert_usable_def)
  obtain m2 where m2: "daemon_Validate E om m1 ack = (m2, Ok ())" "om_pairs om (pipelineMap m2) = []"
     "isHandshakeComplete m2" "lastAck m2 = Some ack" "schemaVersion m2 = Some va" "bzcert m2 = c"
     "agentPubKey m2 = agentPubKey m"
    using daemon_accepts_first_synack [OF assms(1) _ p(1,2) sig tk ver gp assms(11)] f p(5) by metis
  have "in_step ?L now' a2 m2" if "\<forall>cert. clientBZCert a2 = Some cert \<longrightarrow> \<not> BZCert_Expired now' cert" for now'
    using that p(3,7) s m2(5-7) assms(7) [of pk] f(1) assms(9) key_pair_good(2) [OF assms(8)]
    by (simp add: in_step_def)
  then show ?thesis using m2 p(2,7) by (auto simp: is_ack_def)
qed

lemma transcript_actions:
  "map (\<lambda>x. PData (fst x)) tr = map msg_Payload ds \<Longrightarrow>
   map (\<lambda>(d, _). (data_Action d, data_ActionPayload d)) tr = map (\<lambda>d. (GetAction d, GetActionPayload d)) ds"
proof (induction tr arbitrary: ds)
  case (Cons x tr)
  then obtain d ds' where ds: "ds = d # ds'" "msg_Payload d = PData (fst x)"
      "map (\<lambda>x. PData (fst x)) tr = map msg_Payload ds'"
    by (cases ds) auto
  show ?case using ds Cons.IH [OF ds(3)] by (simp add: GetAction_def GetActionPayload_def case_prod_beta)
qed simp

text \<open>
  C1. Pipelined Data is delivered in order and unchanged: once daemon and agent are in step,
  any actions that fit into the pipeline can be handed to the daemon without waiting for an
  acknowledgement; all are sent, and the agent, answering each with an empty response,
  accepts every one of them in the order of the calls, with the same actions and payloads.
\<close>

theorem pipelined_session_delivered:
  assumes "ordered_map om" and "in_step (env_lib E) now a m"
    and "sha3_len (env_lib E)" and "sign_nonempty (env_lib E)"
    and "isHandshakeComplete m" and "om_pairs om (pipelineMap m) = []" and "\<not> prePipeliningAgent m"
    and "lastAck m = Some ack" and "is_ack ack"
    and "expectedHPointer a = payload_hash (env_lib E) (msg_Payload ack)"
    and "length xs \<le> pipelineLimit m" and "\<forall>(action, pl) \<in> set xs. action \<noteq> []"
    and "distinct (al_keys (keyed (env_lib E) (chain_from E m ack xs)))"
  shows "\<exists>m' sent a' tr. inbox_all E om m xs = Some m' \<and> outboxQueue m' = outboxQueue m @ sent \<and>
     agent_session (env_lib E) a (map (\<lambda>d. (now, d, Some [])) sent) = Some (a', tr) \<and>
     map (\<lambda>(d, _). (data_Action d, data_ActionPayload d)) tr = xs"
proof -
  let ?chain = "chain_from E m ack xs"
  have can: "can_send m" by (rule in_step_can_send [OF assms(2)])
  have base: "ack_to_build_on (env_lib E) om m = Ok ack"
    using assms(6,8) ordered_map.newest_pairs [OF assms(1)] by (simp add: ack_to_build_on_def)
  obtain m' where m': "inbox_all E om m xs = Some m'" "outboxQueue m' = outboxQueue m @ ?chain"
    using ordered_map.inbox_all_is_chain [OF assms(1) can base assms(9,3,5) _ assms(12) refl]
      assms(6,11,13) ordered_map.len_pairs [OF assms(1)] by auto
  obtain a' tr where tr: "agent_session (env_lib E) a (map (\<lambda>d. (now, d, Some [])) ?chain) = Some (a', tr)"
      "map (\<lambda>x. PData (fst x)) tr = map msg_Payload ?chain"
    using agent_accepts_chain [OF assms(2-4,9,10)] by blast
  then have "map (\<lambda>(d, _). (data_Action d, data_ActionPayload d)) tr = xs"
    using transcript_actions [OF tr(2)] chain_from_contents [OF can assms(9), of E xs] assms(7) by simp
  then show ?thesis using m' tr(1) by blast
qed

section \<open>Witnesses\<close>

lemma wit_key_pair: "key_pair wit_nonce_lib (Some (Some wit_key)) (Some (Some (wit_key @ wit_key)))"
  by (simp add: key_pair_def sign_correct_def wit_nonce_lib_def)

definition wit_ready :: "(string \<times> MrtapMessage) list daemon_Mrtap" where
  "wit_ready = (wit_daemon [])\<lparr>isHandshakeComplete := True, lastAck := Some (wit_ack wit_key wit_hash ''n''),
     schemaVersion := Some (Version 2 2 0 [] [])\<rparr>"

lemma wit_version_to_use: "getSchemaVersionToUse wit_nonce_lib wit_agent = Ok (Version 2 2 0 [] [])"
  by (simp add: getSchemaVersionToUse_def SchemaVersion_def toy_lt_def)

lemma wit_in_step: "in_step wit_nonce_lib 0 (wit_agent\<lparr>expectedHPointer := wit_hash\<rparr>) wit_ready"
  by (simp add: in_step_def wit_ready_def wit_key_pair wit_version_to_use)
     (simp add: wit_session_cert_def BZCert_Hash_def BZCert_Expired_def second_def wit_agent_def agent_New_def
        wit_config_def)

lemma wit_nonce_semver [simp]: "semver_roundtrip wit_nonce_lib"
  using semver_roundtrip_toy by (simp add: semver_roundtrip_def wit_nonce_lib_def)

text \<open>The daemon sends the certificate as its own verification left it, hash and expiry included.\<close>

lemma wit_verified_again:
  "BZCert_Verify wit_nonce_lib 0 wit_verified ''okta'' ''acme'' [] = Ok wit_verified"
proof -
  have "nonce_bound wit_nonce_lib wit_verified (InitialIdToken wit_verified)"
    using wit_nonce_bound by (simp add: nonce_bound_def wit_verified_def)
  then show ?thesis
    by (simp add: BZCert_Verify_Ok Verifier_Verify_user_Ok verifyInitialIdToken_Ok verifyCurrentIdToken_Ok
        getTokenClaims_Ok wit_time)
qed

lemma wit_daemon_Syn:
  obtains m1 syn where "BuildSyn wit_env al_ops (wit_daemon []) ''shell/open'' (Ok []) True = (m1, Ok syn)"
    "bzcert m1 = wit_session_cert" "msg_Type syn = Syn"
    "msg_Payload syn = PSyn (syn_payload wit_env (syn_state (wit_daemon []) wit_session_cert ''shell/open'') [])"
    "VerifySignature wit_nonce_lib syn (Some (Some wit_key)) = Ok ()"
proof -
  have r: "DaemonBZCert_Refresh (env_lib wit_env) (env_jwt wit_env) (env_fs wit_env) (env_now wit_env)
      (bzcert (wit_daemon [])) = (wit_session_cert, Ok ())"
    by (simp add: DaemonBZCert_Refresh_def wit_env_def wit_session_cert_def)
  have h: "payload_hash wit_nonce_lib p \<noteq> []" for p by (rule payload_hash_nonempty) simp
  have good: "good_priv (dc_privateKey wit_session_cert)" by simp
  obtain syn where syn: "msg_Type syn = Syn"
    "msg_Payload syn = PSyn (syn_payload wit_env (syn_state (wit_daemon []) wit_session_cert ''shell/open'') [])"
    "MrtapMessage_Sign (env_lib wit_env) (syn\<lparr>msg_Signature := []\<rparr>) (dc_privateKey wit_session_cert) = Ok (syn, True)"
    "buildSyn wit_env al_ops (wit_daemon []) ''shell/open'' (Ok []) True =
       (case addToPipelineMap (env_lib wit_env) al_ops (syn_state (wit_daemon []) wit_session_cert ''shell/open'') syn of
          (m4, Ok _) \<Rightarrow> (if True then m4\<lparr>outboxQueue := outboxQueue m4 @ [syn]\<rparr> else m4, Ok syn)
        | (m4, Err e) \<Rightarrow> (m4, Err e) | (m4, Panic) \<Rightarrow> (m4, Panic))"
    by (rule buildSyn_signed [OF r good refl])
  have "VerifySignature wit_nonce_lib syn (Some (Some wit_key)) = Ok ()"
    using Sign_key_pair [OF wit_key_pair, of "syn\<lparr>msg_Signature := []\<rparr>"] syn(3) by auto
  then show thesis
    using syn h by (intro that) (simp_all add: BuildSyn_def addToPipelineMap_def Let_def, simp_all add: syn_state_def)
qed

theorem pipelined_session_delivered_witness:
  "\<exists>m' sent a' tr. inbox_all wit_env al_ops wit_ready [(''shell/input'', Some ''ls'')] = Some m' \<and>
     agent_session wit_nonce_lib (wit_agent\<lparr>expectedHPointer := wit_hash\<rparr>) (map (\<lambda>d. (0, d, Some [])) sent) =
       Some (a', tr) \<and>
     map (\<lambda>(d, _). (data_Action d, data_ActionPayload d)) tr = [(''shell/input'', Some ''ls'')]"
proof -
  let ?xs = "[(''shell/input'', Some ''ls'')]" and ?ack = "wit_ack wit_key wit_hash ''n''"
  have step: "in_step (env_lib wit_env) 0 (wit_agent\<lparr>expectedHPointer := wit_hash\<rparr>) wit_ready"
    using wit_in_step by simp
  have h: "payload_hash wit_nonce_lib p = wit_hash" for p
    by (simp add: payload_hash_def HashPayload_def wit_hash_def)
  have ack: "is_ack ?ack" by (simp add: is_ack_def)
  have "length (chain_from wit_env wit_ready ?ack ?xs) = 1"
    by (subst chain_from_length [OF in_step_can_send [OF step] ack]) simp
  then have "distinct (al_keys (keyed wit_nonce_lib (chain_from wit_env wit_ready ?ack ?xs)))"
    by (auto simp: length_Suc_conv)
  moreover have "isHandshakeComplete wit_ready" "om_pairs al_ops (pipelineMap wit_ready) = []"
      "\<not> prePipeliningAgent wit_ready" "lastAck wit_ready = Some ?ack" "length ?xs \<le> pipelineLimit wit_ready"
    by (simp_all add: wit_ready_def wit_daemon_def daemon_New_def maxPipelineLimit_def)
  ultimately have "\<exists>m' sent a' tr. inbox_all wit_env al_ops wit_ready ?xs = Some m' \<and>
     outboxQueue m' = outboxQueue wit_ready @ sent \<and>
     agent_session (env_lib wit_env) (wit_agent\<lparr>expectedHPointer := wit_hash\<rparr>) (map (\<lambda>d. (0, d, Some [])) sent) =
       Some (a', tr) \<and> map (\<lambda>(d, _). (data_Action d, data_ActionPayload d)) tr = ?xs"
    by (intro pipelined_session_delivered [OF al.ordered_map_axioms step, of ?ack]) (simp_all add: ack h)
  then obtain m' sent a' tr where "inbox_all wit_env al_ops wit_ready ?xs = Some m'"
    "agent_session (env_lib wit_env) (wit_agent\<lparr>expectedHPointer := wit_hash\<rparr>) (map (\<lambda>d. (0, d, Some [])) sent) =
       Some (a', tr)" "map (\<lambda>(d, _). (data_Action d, data_ActionPayload d)) tr = ?xs"
    by (elim exE conjE)
  then show ?thesis unfolding wit_daemon_simps(8) by (intro exI conjI)
qed

lemma wit_agent_accepts_Syn:
  assumes "msg_Type syn = Syn"
    and "msg_Payload syn = PSyn (syn_payload wit_env (syn_state (wit_daemon []) wit_session_cert ''shell/open'') [])"
    and "VerifySignature wit_nonce_lib syn (Some (Some wit_key)) = Ok ()"
  shows "agent_Validate wit_nonce_lib 0 (agent_New wit_config) syn = (wit_agent, Ok ())"
proof -
  have "ClientPublicKey wit_verified = EncodeToString wit_key"
    by (simp add: wit_verified_def wit_cert_def)
  then show ?thesis
    using assms wit_verified_again
    by (simp add: Validate_Syn_Ok syn_payload_def syn_state_def wit_session_cert_def SchemaVersion_def)
       (simp add: wit_agent_def agent_New_def wit_config_def)
qed

lemma wit_agent_answers:
  assumes "msg_Type syn = Syn" "msg_Payload syn = PSyn s"
  shows "\<exists>a2 ack. agent_BuildAck wit_nonce_lib 0 ''n'' wit_agent syn act (Some []) = (a2, Ok ack)"
proof -
  obtain r where r: "unsigned_ack wit_nonce_lib 0 ''n'' wit_agent syn (Some []) (Version 2 2 0 [] []) = Ok r"
    using assms by (auto simp: unsigned_ack_def BuildUnsignedSynAck_def wit_agent_def agent_New_def)
  have "MrtapMessage_Sign wit_nonce_lib r (privatekey wit_agent) = Ok (r\<lparr>msg_Signature := wit_sig wit_key\<rparr>, True)"
    by (simp add: MrtapMessage_Sign_def HashPayload_def PrivateKey_Sign_def wit_agent_def agent_New_def
        wit_config_def wit_sig_def wit_nonce_lib_def)
  then show ?thesis
    using r wit_version_to_use payload_hash_nonempty [of wit_nonce_lib]
    by (simp add: agent_BuildAck_def wit_sig_def)
qed

theorem handshake_brings_in_step_witness:
  "\<exists>m1 syn a1 a2 ack m2.
     BuildSyn wit_env al_ops (wit_daemon []) ''shell/open'' (Ok []) True = (m1, Ok syn) \<and>
     agent_Validate wit_nonce_lib 0 (agent_New wit_config) syn = (a1, Ok ()) \<and>
     agent_BuildAck wit_nonce_lib 0 ''n'' a1 syn (GetAction syn) (Some []) = (a2, Ok ack) \<and>
     daemon_Validate wit_env al_ops m1 ack = (m2, Ok ()) \<and> isHandshakeComplete m2"
proof -
  obtain m1 syn where syn: "BuildSyn wit_env al_ops (wit_daemon []) ''shell/open'' (Ok []) True = (m1, Ok syn)"
    "bzcert m1 = wit_session_cert" "msg_Type syn = Syn"
    "msg_Payload syn = PSyn (syn_payload wit_env (syn_state (wit_daemon []) wit_session_cert ''shell/open'') [])"
    "VerifySignature wit_nonce_lib syn (Some (Some wit_key)) = Ok ()"
    by (rule wit_daemon_Syn)
  have val: "agent_Validate (env_lib wit_env) 0 (agent_New wit_config) syn = (wit_agent, Ok ())"
    using wit_agent_accepts_Syn [OF syn(3-5)] by simp
  obtain a2 ack where ack: "agent_BuildAck (env_lib wit_env) 0 ''n'' wit_agent syn (GetAction syn) (Some []) = (a2, Ok ack)"
    using wit_agent_answers [OF syn(3,4), of "GetAction syn"] by auto
  have usable: "cert_usable (env_lib wit_env) (bzcert m1)"
    using wit_verified_again
    by (auto simp: cert_usable_def syn(2) wit_session_cert_def json_into_config_def wit_file_def keep_def)
  have "\<exists>m2. daemon_Validate wit_env al_ops m1 ack = (m2, Ok ()) \<and> isHandshakeComplete m2"
  proof -
    have "ClientPublicKey (dc_BZCert wit_session_cert) = EncodeToString wit_key"
      by (simp add: wit_session_cert_def wit_verified_def wit_cert_def)
    moreover have "privatekey (agent_New wit_config) = Some (Some (wit_key @ wit_key))"
      "publickey (agent_New wit_config) = Some (Some wit_key)"
      by (simp_all add: agent_New_def wit_config_def)
    ultimately show ?thesis
      using handshake_brings_in_step [OF al.ordered_map_axioms _ syn(1) usable val ack] wit_key_pair
      by (auto simp: syn(2))
  qed
  then show ?thesis using syn(1) val ack by auto
qed

end
